(* ===== verification/Prelude.thy ===== *)
theory Prelude
  imports Main "HOL-Library.Countable" "HOL-Library.Product_Lexorder" "HOL-Library.Option_ord"
begin

text \<open>
  Shared vocabulary of the development: identifiers and instants, a small
  library of SQL-shaped operations on tables kept as row lists (UPDATE,
  SELECT, COUNT, ORDER BY ... LIMIT), the transaction monad the repository
  and runtime functions are written in, and a locale that lifts a reflexive
  and transitive relation on stores from the primitive statements to whole
  transactions.
\<close>

named_theorems sql_simps \<open>rewriting of the SQL-shaped table operations\<close>
named_theorems tx_simps \<open>unfolding of the transaction combinators\<close>

section \<open>Identifiers and instants\<close>

text \<open>UUID-backed identifiers are natural numbers; instants and intervals
  are microseconds, the resolution of the database's timestamps.\<close>

type_synonym uuid = nat
type_synonym instant = int

definition seconds :: "int \<Rightarrow> int" where
  "seconds n = n * 1000000"

text \<open>The last instant \<open>chrono\<close> represents, 262142-12-31T23:59:59.999999Z, and its
  longest duration; adding past the first panics.\<close>

definition date_time_max :: instant where
  "date_time_max = 8210266876799999999"

definition time_delta_max :: int where
  "time_delta_max = (2 ^ 63 - 1) * 1000"

text \<open>Counters the code keeps as \<open>u32\<close> are natural numbers; an addition
  wraps at the width.\<close>

definition u32_add :: "nat \<Rightarrow> nat \<Rightarrow> nat" where
  "u32_add a b = (a + b) mod 2 ^ 32"

lemma u32_add_small [simp]: "a + b < 2 ^ 32 \<Longrightarrow> u32_add a b = a + b"
  by (simp add: u32_add_def)

lemma u32_add_bound: "u32_add a b < 2 ^ 32"
  by (simp add: u32_add_def)

text \<open>Machine bounds of the columns: \<open>i32::try_from(v).expect(..)\<close> panics
  above the first.\<close>

definition fits_i32 :: "nat \<Rightarrow> bool" where
  "fits_i32 n = (n < 2 ^ 31)"

text \<open>The decimal text of a number.\<close>

fun show_nat :: "nat \<Rightarrow> string" where
  "show_nat n = (if n < 10 then [char_of (48 + n)] else show_nat (n div 10) @ [char_of (48 + n mod 10)])"

declare show_nat.simps [simp del]

text \<open>An identifier is a 128-bit number; its text is the hyphenated hexadecimal.\<close>

fun hex_digits :: "nat \<Rightarrow> nat \<Rightarrow> string" where
  "hex_digits 0 n = []"
| "hex_digits (Suc k) n = hex_digits k (n div 16) @ [''0123456789abcdef'' ! (n mod 16)]"

definition uuid_text :: "uuid \<Rightarrow> string" where
  "uuid_text u = (let h = hex_digits 32 u in
     take 8 h @ ''-'' @ take 4 (drop 8 h) @ ''-'' @ take 4 (drop 12 h) @ ''-'' @ take 4 (drop 16 h) @
     ''-'' @ drop 20 h)"

section \<open>JSON values\<close>

datatype json = JNull | JBool bool | JNum int | JFloat rat | JStr string | JArr "json list"
  | JObj "(string \<times> json) list"

fun json_get :: "json \<Rightarrow> string \<Rightarrow> json option" where
  "json_get (JObj kvs) k = map_of kvs k"
| "json_get _ _ = None"

text \<open>Reading and writing fields the way the deserialisers do: a missing field, or
  one of another type, is an error; a field with a default may be missing, and
  \<open>null\<close> reads as an absent option.\<close>

definition json_opt :: "('a \<Rightarrow> json) \<Rightarrow> 'a option \<Rightarrow> json" where
  "json_opt f x = (case x of None \<Rightarrow> JNull | Some a \<Rightarrow> f a)"

fun json_str :: "json \<Rightarrow> string option" where
  "json_str (JStr x) = Some x"
| "json_str _ = None"

fun json_nat :: "json \<Rightarrow> nat option" where
  "json_nat (JNum n) = (if n \<ge> 0 then Some (nat n) else None)"
| "json_nat _ = None"

fun json_int :: "json \<Rightarrow> int option" where
  "json_int (JNum n) = Some n"
| "json_int _ = None"

fun json_bool :: "json \<Rightarrow> bool option" where
  "json_bool (JBool b) = Some b"
| "json_bool _ = None"

fun json_list :: "(json \<Rightarrow> 'a option) \<Rightarrow> json \<Rightarrow> 'a list option" where
  "json_list f (JArr xs) = those (map f xs)"
| "json_list _ _ = None"

definition json_field :: "(json \<Rightarrow> 'a option) \<Rightarrow> json \<Rightarrow> string \<Rightarrow> 'a option" where
  "json_field f j k = Option.bind (json_get j k) f"

definition json_field_or :: "'a \<Rightarrow> (json \<Rightarrow> 'a option) \<Rightarrow> json \<Rightarrow> string \<Rightarrow> 'a option" where
  "json_field_or d f j k = (case json_get j k of None \<Rightarrow> Some d | Some v \<Rightarrow> f v)"

definition json_option_field :: "(json \<Rightarrow> 'a option) \<Rightarrow> json \<Rightarrow> string \<Rightarrow> 'a option option" where
  "json_option_field f j k =
     (case json_get j k of None \<Rightarrow> Some None | Some JNull \<Rightarrow> Some None | Some v \<Rightarrow> map_option Some (f v))"

definition json_u32 :: "json \<Rightarrow> nat option" where
  "json_u32 j = (case json_nat j of Some n \<Rightarrow> if n < 2 ^ 32 then Some n else None | None \<Rightarrow> None)"

lemma json_option_field_if:
  "json_option_field f j k = (case json_get j k of None \<Rightarrow> Some None
     | Some v \<Rightarrow> if v = JNull then Some None else map_option Some (f v))"
  by (auto simp: json_option_field_def split: option.splits json.splits)

lemma those_map_Some [simp]: "those (map Some xs) = Some xs"
  by (induction xs) simp_all

section \<open>Tables as row lists\<close>

definition sql_update :: "('r \<Rightarrow> bool) \<Rightarrow> ('r \<Rightarrow> 'r) \<Rightarrow> 'r list \<Rightarrow> 'r list" where
  "sql_update P f rows = map (\<lambda>r. if P r then f r else r) rows"

definition sql_count :: "('r \<Rightarrow> bool) \<Rightarrow> 'r list \<Rightarrow> nat" where
  "sql_count P rows = length (filter P rows)"

definition sql_exists :: "('r \<Rightarrow> bool) \<Rightarrow> 'r list \<Rightarrow> bool" where
  "sql_exists P rows = list_ex P rows"

definition sql_select_ordered :: "('r \<Rightarrow> bool) \<Rightarrow> ('r \<Rightarrow> 'k::linorder) \<Rightarrow> nat \<Rightarrow> 'r list \<Rightarrow> 'r list" where
  "sql_select_ordered P key limit rows = take limit (sort_key key (filter P rows))"

lemma sql_update_length [sql_simps, simp]: "length (sql_update P f rows) = length rows"
  by (simp add: sql_update_def)

lemma sql_update_Nil [sql_simps, simp]: "sql_update P f [] = []"
  by (simp add: sql_update_def)

lemma sql_update_Cons [sql_simps]:
  "sql_update P f (r # rows) = (if P r then f r else r) # sql_update P f rows"
  by (simp add: sql_update_def)

lemma sql_update_append [sql_simps]:
  "sql_update P f (xs @ ys) = sql_update P f xs @ sql_update P f ys"
  by (simp add: sql_update_def)

lemma set_sql_update: "set (sql_update P f rows) = (\<lambda>r. if P r then f r else r) ` set rows"
  by (simp add: sql_update_def)

lemma sql_update_cases:
  assumes "r' \<in> set (sql_update P f rows)"
  obtains r where "r \<in> set rows" "P r" "r' = f r" | "r' \<in> set rows" "\<not> P r'"
  using assms by (auto simp: set_sql_update split: if_splits)

lemma sql_update_memI: "r \<in> set rows \<Longrightarrow> P r \<Longrightarrow> f r \<in> set (sql_update P f rows)"
  by (auto simp: set_sql_update)

lemma sql_update_mem_other: "r \<in> set rows \<Longrightarrow> \<not> P r \<Longrightarrow> r \<in> set (sql_update P f rows)"
  by (auto simp: set_sql_update)

lemma sql_update_bex: "(\<exists>r \<in> set (sql_update P f rows). Q r) \<longleftrightarrow> (\<exists>r \<in> set rows. Q (if P r then f r else r))"
  by (induction rows) (auto simp: sql_update_Cons)

lemma sql_update_map_key [sql_simps]:
  "(\<And>r. P r \<Longrightarrow> k (f r) = k r) \<Longrightarrow> map k (sql_update P f rows) = map k rows"
  by (auto simp: sql_update_def)

lemma sql_update_none: "sql_count P rows = 0 \<Longrightarrow> sql_update P f rows = rows"
  by (induction rows) (auto simp: sql_update_def sql_count_def split: if_splits)

lemma sql_count_zero: "sql_count P rows = 0 \<longleftrightarrow> (\<forall>r \<in> set rows. \<not> P r)"
  by (auto simp: sql_count_def filter_empty_conv)

lemma sql_count_pos: "sql_count P rows \<noteq> 0 \<longleftrightarrow> (\<exists>r \<in> set rows. P r)"
  by (auto simp: sql_count_zero)

lemma sql_count_distinct_le_one:
  assumes "distinct (map k rows)" "\<And>r. P r \<Longrightarrow> k r = v"
  shows "sql_count P rows \<le> 1"
  using assms(1)
proof (induction rows)
  case (Cons r rows)
  then show ?case
    using assms(2) by (force simp: sql_count_def filter_empty_conv le_Suc_eq)
qed (simp add: sql_count_def)

lemma sql_exists_iff [sql_simps]: "sql_exists P rows \<longleftrightarrow> (\<exists>r \<in> set rows. P r)"
  by (simp add: sql_exists_def list_ex_iff)

lemma set_sql_select_ordered: "set (sql_select_ordered P key n rows) \<subseteq> {r \<in> set rows. P r}"
  by (auto simp: sql_select_ordered_def dest!: in_set_takeD)

lemma sql_select_ordered_length: "length (sql_select_ordered P key n rows) \<le> n"
  by (simp add: sql_select_ordered_def)

lemma sql_select_ordered_sorted: "sorted (map key (sql_select_ordered P key n rows))"
  by (simp add: sql_select_ordered_def take_map [symmetric] sorted_wrt_take)

text \<open>A row left out of an ordered, limited selection is at least as late as
  every selected row, unless the selection was not full.\<close>

lemma sql_select_ordered_least:
  assumes "r \<in> set rows" "P r" "r \<notin> set (sql_select_ordered P key n rows)"
      "s \<in> set (sql_select_ordered P key n rows)"
  shows "key s \<le> key r"
proof -
  let ?xs = "sort_key key (filter P rows)"
  have "r \<in> set ?xs" using assms by simp
  then have "r \<in> set (drop n ?xs)"
    using assms(3) by (metis sql_select_ordered_def append_take_drop_id Un_iff set_append)
  moreover have "sorted (map key (take n ?xs @ drop n ?xs))" by simp
  ultimately show ?thesis
    using assms(4) by (auto simp: sql_select_ordered_def sorted_append simp del: append_take_drop_id)
qed

lemma sql_select_ordered_full:
  assumes "r \<in> set rows" "P r" "r \<notin> set (sql_select_ordered P key n rows)"
  shows "length (sql_select_ordered P key n rows) = n"
proof -
  let ?xs = "sort_key key (filter P rows)"
  have "r \<in> set ?xs" using assms by simp
  then have "\<not> length ?xs \<le> n" using assms(3) by (auto simp: sql_select_ordered_def)
  then show ?thesis by (simp add: sql_select_ordered_def)
qed

lemma find_Some_set: "find P xs = Some x \<Longrightarrow> x \<in> set xs \<and> P x"
  by (metis find_Some_iff nth_mem)

lemma find_distinct:
  assumes "distinct (map k rows)" "r \<in> set rows" "k r = v"
  shows "find (\<lambda>x. k x = v) rows = Some r"
  using assms by (induction rows) (auto simp: image_iff)

lemma distinct_map_key_eq:
  "distinct (map k rows) \<Longrightarrow> r \<in> set rows \<Longrightarrow> s \<in> set rows \<Longrightarrow> k r = k s \<Longrightarrow> r = s"
  by (auto simp: distinct_map inj_on_def)

section \<open>Transactions\<close>

text \<open>A statement sequence on one connection either fails with an error or
  returns a value and the store it leaves. \<open>tx_bind\<close> is the \<open>?\<close>-chained
  sequencing of the source.\<close>

type_synonym ('s, 'e, 'a) tx = "'s \<Rightarrow> 'e + ('a \<times> 's)"

definition tx_return :: "'a \<Rightarrow> ('s, 'e, 'a) tx" where
  "tx_return a s = Inr (a, s)"

definition tx_fail :: "'e \<Rightarrow> ('s, 'e, 'a) tx" where
  "tx_fail e s = Inl e"

definition tx_bind :: "('s, 'e, 'a) tx \<Rightarrow> ('a \<Rightarrow> ('s, 'e, 'b) tx) \<Rightarrow> ('s, 'e, 'b) tx" where
  "tx_bind m f s = (case m s of Inl e \<Rightarrow> Inl e | Inr (a, s') \<Rightarrow> f a s')"

definition tx_then :: "('s, 'e, 'a) tx \<Rightarrow> ('s, 'e, 'b) tx \<Rightarrow> ('s, 'e, 'b) tx" where
  "tx_then m n = tx_bind m (\<lambda>_. n)"

definition tx_read :: "('s \<Rightarrow> 'a) \<Rightarrow> ('s, 'e, 'a) tx" where
  "tx_read f s = Inr (f s, s)"

definition tx_ensure :: "bool \<Rightarrow> 'e \<Rightarrow> ('s, 'e, unit) tx" where
  "tx_ensure b e = (if b then tx_return () else tx_fail e)"

definition tx_map_err :: "('e \<Rightarrow> 'f) \<Rightarrow> ('s, 'e, 'a) tx \<Rightarrow> ('s, 'f, 'a) tx" where
  "tx_map_err g m s = (case m s of Inl e \<Rightarrow> Inl (g e) | Inr r \<Rightarrow> Inr r)"

text \<open>Match on the result without losing the error: \<open>match m { Ok(a) => f a, Err(e) => g e }\<close>.
  A failed statement leaves the store as it was.\<close>

definition tx_match :: "('s, 'e, 'a) tx \<Rightarrow> ('a \<Rightarrow> ('s, 'f, 'b) tx) \<Rightarrow> ('e \<Rightarrow> ('s, 'f, 'b) tx) \<Rightarrow> ('s, 'f, 'b) tx" where
  "tx_match m f g s = (case m s of Inl e \<Rightarrow> g e s | Inr (a, s') \<Rightarrow> f a s')"

text \<open>A statement for every element, in order: \<open>for x in xs { f(x)?; }\<close>.\<close>

fun tx_each :: "('a \<Rightarrow> ('s, 'e, 'b) tx) \<Rightarrow> 'a list \<Rightarrow> ('s, 'e, unit) tx" where
  "tx_each f [] = tx_return ()"
| "tx_each f (x # xs) = tx_then (f x) (tx_each f xs)"

text \<open>A result computed without the store: \<open>f(x)?\<close>.\<close>

definition tx_from :: "'e + 'a \<Rightarrow> ('s, 'e, 'a) tx" where
  "tx_from r s = (case r of Inl err \<Rightarrow> Inl err | Inr a \<Rightarrow> Inr (a, s))"

text \<open>How a transaction body ends: committed with a value, or dropped with a
  value (the early returns that leave the transaction to roll back).\<close>

datatype 'a ending = Commit 'a | Rollback 'a

definition run_txn :: "('s, 'e, 'a ending) tx \<Rightarrow> 's \<Rightarrow> ('e + 'a) \<times> 's" where
  "run_txn m s = (case m s of
      Inl e \<Rightarrow> (Inl e, s)
    | Inr (Commit a, s') \<Rightarrow> (Inr a, s')
    | Inr (Rollback a, _) \<Rightarrow> (Inr a, s))"

lemmas tx_defs = tx_return_def tx_fail_def tx_bind_def tx_then_def tx_read_def tx_ensure_def
  tx_map_err_def tx_match_def

lemma tx_return_app [tx_simps]: "tx_return a s = Inr (a, s)"
  by (simp add: tx_return_def)

lemma tx_fail_app [tx_simps]: "tx_fail e s = Inl e"
  by (simp add: tx_fail_def)

lemma tx_read_app [tx_simps]: "tx_read f s = Inr (f s, s)"
  by (simp add: tx_read_def)

lemma tx_from_app [tx_simps]: "tx_from (Inl err) s = Inl err" "tx_from (Inr a) s = Inr (a, s)"
  by (simp_all add: tx_from_def)

lemma tx_ensure_app [tx_simps]: "tx_ensure b e s = (if b then Inr ((), s) else Inl e)"
  by (simp add: tx_defs)

lemma tx_bind_Inr [tx_simps]: "m s = Inr (a, s') \<Longrightarrow> tx_bind m f s = f a s'"
  by (simp add: tx_bind_def)

lemma tx_bind_Inl [tx_simps]: "m s = Inl e \<Longrightarrow> tx_bind m f s = Inl e"
  by (simp add: tx_bind_def)

lemma tx_bind_cong [fundef_cong]:
  "m = m' \<Longrightarrow> s = s' \<Longrightarrow> (\<And>a t. m' s' = Inr (a, t) \<Longrightarrow> f a t = f' a t) \<Longrightarrow> tx_bind m f s = tx_bind m' f' s'"
  by (auto simp: tx_bind_def split: sum.splits)

lemma tx_bind_InrE:
  assumes "tx_bind m f s = Inr (b, s')"
  obtains a t where "m s = Inr (a, t)" "f a t = Inr (b, s')"
  using assms by (auto simp: tx_bind_def split: sum.splits)

text \<open>What a successful transaction went through.\<close>

lemma tx_from_Inr: "tx_from r s = Inr (a, s') \<longleftrightarrow> r = Inr a \<and> s' = s"
  by (auto simp: tx_from_def split: sum.splits)

lemma tx_ensure_Inr: "tx_ensure b err s = Inr (a, s') \<longleftrightarrow> b \<and> s' = s"
  by (auto simp: tx_ensure_app)

lemma tx_then_iff: "tx_then m n s = Inr r \<longleftrightarrow> (\<exists>a t. m s = Inr (a, t) \<and> n t = Inr r)"
  by (auto simp: tx_then_def tx_bind_def split: sum.splits)

lemma tx_bind_iff: "tx_bind m f s = Inr r \<longleftrightarrow> (\<exists>a t. m s = Inr (a, t) \<and> f a t = Inr r)"
  by (auto simp: tx_bind_def split: sum.splits)

lemma tx_map_err_Inr: "tx_map_err g m s = Inr r \<longleftrightarrow> m s = Inr r"
  by (auto simp: tx_map_err_def split: sum.splits)

lemma tx_read_Inr: "tx_read f s = Inr (a, s') \<longleftrightarrow> a = f s \<and> s' = s"
  by (auto simp: tx_read_def)

lemma tx_return_Inr: "tx_return a s = Inr (b, s') \<longleftrightarrow> b = a \<and> s' = s"
  by (auto simp: tx_return_def)

lemmas tx_success = tx_then_iff tx_bind_iff tx_from_Inr tx_ensure_Inr

text \<open>Neither an error nor a dropped transaction changes the store.\<close>

lemma tx_then_InrE:
  assumes "tx_then m n s = Inr (b, s')"
  obtains a t where "m s = Inr (a, t)" "n t = Inr (b, s')"
  using assms by (auto simp: tx_then_def elim: tx_bind_InrE)

lemmas tx_elims = tx_bind_InrE tx_then_InrE

lemma run_txn_error: "run_txn m s = (Inl e, s') \<Longrightarrow> s' = s"
  by (auto simp: run_txn_def split: sum.splits ending.splits)

lemma run_txn_rollback: "m s = Inr (Rollback a, t) \<Longrightarrow> run_txn m s = (Inr a, s)"
  by (simp add: run_txn_def)

lemma run_txn_commit: "m s = Inr (Commit a, t) \<Longrightarrow> run_txn m s = (Inr a, t)"
  by (simp add: run_txn_def)

text \<open>What a transaction leaves behind, and what a single statement leaves.\<close>

definition committed :: "('s, 'e, 'a ending) tx \<Rightarrow> 's \<Rightarrow> 's" where
  "committed m s = snd (run_txn m s)"

definition executed :: "('s, 'e, 'a) tx \<Rightarrow> 's \<Rightarrow> 's" where
  "executed m s = (case m s of Inl _ \<Rightarrow> s | Inr (_, s') \<Rightarrow> s')"

section \<open>Sequences of statements\<close>

text \<open>Statements outside a transaction each commit on their own: an error keeps
  what came before it.\<close>

type_synonym ('s, 'e, 'a) proc = "'s \<Rightarrow> ('e + 'a) \<times> 's"

definition proc_return :: "'a \<Rightarrow> ('s, 'e, 'a) proc" where
  "proc_return a s = (Inr a, s)"

definition proc_fail :: "'e \<Rightarrow> ('s, 'e, 'a) proc" where
  "proc_fail err s = (Inl err, s)"

definition proc_read :: "('s \<Rightarrow> 'a) \<Rightarrow> ('s, 'e, 'a) proc" where
  "proc_read f s = (Inr (f s), s)"

definition proc_bind :: "('s, 'e, 'a) proc \<Rightarrow> ('a \<Rightarrow> ('s, 'e, 'b) proc) \<Rightarrow> ('s, 'e, 'b) proc" where
  "proc_bind m f s = (case m s of (Inl err, t) \<Rightarrow> (Inl err, t) | (Inr a, t) \<Rightarrow> f a t)"

definition proc_then :: "('s, 'e, 'a) proc \<Rightarrow> ('s, 'e, 'b) proc \<Rightarrow> ('s, 'e, 'b) proc" where
  "proc_then m n = proc_bind m (\<lambda>_. n)"

definition proc_map_err :: "('e \<Rightarrow> 'f) \<Rightarrow> ('s, 'e, 'a) proc \<Rightarrow> ('s, 'f, 'a) proc" where
  "proc_map_err h m s = (case m s of (Inl err, t) \<Rightarrow> (Inl (h err), t) | (Inr a, t) \<Rightarrow> (Inr a, t))"

definition stmt :: "('s, 'e, 'a) tx \<Rightarrow> ('s, 'e, 'a) proc" where
  "stmt m s = (case m s of Inl err \<Rightarrow> (Inl err, s) | Inr (a, t) \<Rightarrow> (Inr a, t))"

definition steps_by :: "('s \<Rightarrow> 's \<Rightarrow> bool) \<Rightarrow> ('s, 'e, 'a) proc \<Rightarrow> bool" where
  "steps_by R m \<longleftrightarrow> (\<forall>s. R s (snd (m s)))"

lemma snd_stmt: "snd (stmt m s) = executed m s"
  by (simp add: stmt_def executed_def split: sum.splits prod.splits)

section \<open>Relations kept by transactions\<close>

text \<open>A relation on stores that is reflexive and transitive is kept by a
  transaction when it is kept by each of its statements. Invariants are the
  instance \<open>\<lambda>s s'. I s \<longrightarrow> I s'\<close>; monotonic facts (a log only grows, a terminal
  status stays) are instances with the obvious order.\<close>

definition keeps :: "('s \<Rightarrow> 's \<Rightarrow> bool) \<Rightarrow> ('s, 'e, 'a) tx \<Rightarrow> bool" where
  "keeps R m = (\<forall>s a s'. m s = Inr (a, s') \<longrightarrow> R s s')"

lemma keepsI: "(\<And>s a s'. m s = Inr (a, s') \<Longrightarrow> R s s') \<Longrightarrow> keeps R m"
  by (simp add: keeps_def)

lemma keepsD: "keeps R m \<Longrightarrow> m s = Inr (a, s') \<Longrightarrow> R s s'"
  by (simp add: keeps_def)

definition keeps_at :: "('s \<Rightarrow> 's \<Rightarrow> bool) \<Rightarrow> 's \<Rightarrow> ('s, 'e, 'a) tx \<Rightarrow> bool" where
  "keeps_at R s m = (\<forall>a s'. m s = Inr (a, s') \<longrightarrow> R s s')"

lemma keeps_iff_at: "keeps R m \<longleftrightarrow> (\<forall>s. keeps_at R s m)"
  by (auto simp: keeps_def keeps_at_def)

locale store_order =
  fixes R :: "'s \<Rightarrow> 's \<Rightarrow> bool"
  assumes order_refl: "R s s"
    and order_trans: "R s t \<Longrightarrow> R t u \<Longrightarrow> R s u"
begin

lemma keeps_return: "keeps R (tx_return a)"
  by (auto intro!: keepsI simp: tx_defs order_refl)

lemma keeps_fail: "keeps R (tx_fail e)"
  by (auto intro!: keepsI simp: tx_defs)

lemma keeps_read: "keeps R (tx_read f)"
  by (auto intro!: keepsI simp: tx_defs order_refl)

lemma keeps_ensure: "keeps R (tx_ensure b e)"
  by (auto intro!: keepsI simp: tx_defs order_refl split: if_splits)

lemma keeps_from: "keeps R (tx_from r)"
  by (auto intro!: keepsI simp: tx_from_def order_refl split: sum.splits)

lemma keeps_bind: "keeps R m \<Longrightarrow> (\<And>a. keeps R (f a)) \<Longrightarrow> keeps R (tx_bind m f)"
  by (blast intro: keepsI dest: keepsD order_trans elim: tx_bind_InrE)

lemma keeps_then: "keeps R m \<Longrightarrow> keeps R n \<Longrightarrow> keeps R (tx_then m n)"
  by (simp add: tx_then_def keeps_bind)

lemma keeps_map_err: "keeps R m \<Longrightarrow> keeps R (tx_map_err g m)"
  by (auto intro!: keepsI dest: keepsD simp: tx_map_err_def split: sum.splits)

lemma keeps_match:
  assumes m: "keeps R m" and f: "\<And>a. keeps R (f a)" and g: "\<And>e. keeps R (g e)"
  shows "keeps R (tx_match m f g)"
proof (rule keepsI)
  fix s b s'
  assume run: "tx_match m f g s = Inr (b, s')"
  show "R s s'"
  proof (cases "m s")
    case (Inl e)
    then show ?thesis using run keepsD [OF g] by (simp add: tx_match_def)
  next
    case (Inr r)
    then show ?thesis
      using run keepsD [OF m] keepsD [OF f] order_trans by (cases r) (force simp: tx_match_def)
  qed
qed

lemma keeps_if: "(b \<Longrightarrow> keeps R m) \<Longrightarrow> (\<not> b \<Longrightarrow> keeps R n) \<Longrightarrow> keeps R (if b then m else n)"
  by simp

lemma keeps_option:
  "(x = None \<Longrightarrow> keeps R m) \<Longrightarrow> (\<And>a. x = Some a \<Longrightarrow> keeps R (f a)) \<Longrightarrow> keeps R (case x of None \<Rightarrow> m | Some a \<Rightarrow> f a)"
  by (cases x) auto

lemma keeps_sum:
  "(\<And>e. keeps R (g e)) \<Longrightarrow> (\<And>a. keeps R (f a)) \<Longrightarrow> keeps R (case x of Inl e \<Rightarrow> g e | Inr a \<Rightarrow> f a)"
  by (cases x) auto

lemma keeps_prod: "(\<And>a b. keeps R (f a b)) \<Longrightarrow> keeps R (case x of (a, b) \<Rightarrow> f a b)"
  by (cases x) auto

lemma keeps_each: "(\<And>x. keeps R (f x)) \<Longrightarrow> keeps R (tx_each f xs)"
  by (induction xs) (simp_all add: keeps_return keeps_then)

text \<open>Writing back what was read in the same transaction: only the store read
  from matters.\<close>

lemma keeps_read_at: "(\<And>s. keeps_at R s (m (f s))) \<Longrightarrow> keeps R (tx_bind (tx_read f) m)"
  by (simp add: keeps_iff_at keeps_at_def tx_defs)

lemma keeps_at_bind: "keeps_at R s m \<Longrightarrow> (\<And>a. keeps R (f a)) \<Longrightarrow> keeps_at R s (tx_bind m f)"
  by (fastforce simp: keeps_def keeps_at_def intro: order_trans elim: tx_bind_InrE)

lemma keeps_at_then: "keeps_at R s m \<Longrightarrow> keeps R n \<Longrightarrow> keeps_at R s (tx_then m n)"
  by (simp add: tx_then_def keeps_at_bind)

lemma keeps_at_map_err: "keeps_at R s m \<Longrightarrow> keeps_at R s (tx_map_err g m)"
  by (auto simp: keeps_at_def tx_map_err_def split: sum.splits)

text \<open>A sequence of statements steps through the order.\<close>

lemma steps_return: "steps_by R (proc_return a)"
  by (simp add: steps_by_def proc_return_def order_refl)

lemma steps_fail: "steps_by R (proc_fail err)"
  by (simp add: steps_by_def proc_fail_def order_refl)

lemma steps_read: "steps_by R (proc_read f)"
  by (simp add: steps_by_def proc_read_def order_refl)

lemma steps_map_err: "steps_by R m \<Longrightarrow> steps_by R (proc_map_err h m)"
  unfolding steps_by_def proc_map_err_def
proof (intro allI)
  fix s assume "\<forall>s. R s (snd (m s))"
  then have "R s (snd (m s))" by blast
  then show "R s (snd (case m s of (Inl err, t) \<Rightarrow> (Inl (h err), t) | (Inr a, t) \<Rightarrow> (Inr a, t)))"
    by (cases "m s"; cases "fst (m s)") simp_all
qed

lemma steps_stmt: "keeps R tx \<Longrightarrow> steps_by R (stmt tx)"
  unfolding steps_by_def
proof (intro allI)
  fix s assume tx: "keeps R tx"
  show "R s (snd (stmt tx s))"
  proof (cases "tx s")
    case (Inr r)
    then show ?thesis using keepsD [OF tx, of s "fst r" "snd r"] by (cases r) (simp add: stmt_def)
  qed (simp add: stmt_def order_refl)
qed

lemma steps_bind:
  assumes "steps_by R m" "\<And>a. steps_by R (g a)"
  shows "steps_by R (proc_bind m g)"
  unfolding steps_by_def
proof (intro allI)
  fix s
  obtain r t where m: "m s = (r, t)" by (cases "m s")
  have "R s t" using assms(1) m unfolding steps_by_def by (metis snd_conv)
  then show "R s (snd (proc_bind m g s))"
    using assms(2) order_trans unfolding steps_by_def by (cases r) (auto simp: proc_bind_def m)
qed

lemma steps_then: "steps_by R m \<Longrightarrow> steps_by R n \<Longrightarrow> steps_by R (proc_then m n)"
  unfolding proc_then_def by (rule steps_bind)

lemma steps_txn: "keeps R tx \<Longrightarrow> steps_by R (run_txn tx)"
  unfolding steps_by_def
proof (intro allI)
  fix s assume tx: "keeps R tx"
  show "R s (snd (run_txn tx s))"
  proof (cases "tx s")
    case (Inr r)
    then show ?thesis using keepsD [OF tx, of s "fst r" "snd r"] order_refl
      by (cases r; cases "fst r") (simp_all add: run_txn_def)
  qed (simp add: run_txn_def order_refl)
qed

lemma steps_if: "(b \<Longrightarrow> steps_by R m) \<Longrightarrow> (\<not> b \<Longrightarrow> steps_by R n) \<Longrightarrow> steps_by R (if b then m else n)"
  by simp

lemma steps_option:
  "(x = None \<Longrightarrow> steps_by R m) \<Longrightarrow> (\<And>a. x = Some a \<Longrightarrow> steps_by R (f a)) \<Longrightarrow>
     steps_by R (case x of None \<Rightarrow> m | Some a \<Rightarrow> f a)"
  by (cases x) auto

lemma steps_sum:
  "(\<And>e. steps_by R (g e)) \<Longrightarrow> (\<And>a. steps_by R (f a)) \<Longrightarrow> steps_by R (case x of Inl e \<Rightarrow> g e | Inr a \<Rightarrow> f a)"
  by (cases x) auto

lemma steps_prod: "(\<And>a b. steps_by R (f a b)) \<Longrightarrow> steps_by R (case x of (a, b) \<Rightarrow> f a b)"
  by (cases x) auto

lemmas steps_intros = steps_return steps_fail steps_read steps_map_err steps_stmt steps_bind steps_then
  steps_txn steps_if steps_option steps_sum steps_prod

lemma keeps_at_match:
  assumes "keeps_at R s m" "\<And>a. keeps R (f a)" "\<And>e. keeps R (g e)"
  shows "keeps_at R s (tx_match m f g)"
  unfolding keeps_at_def
proof (intro allI impI)
  fix b s'
  assume run: "tx_match m f g s = Inr (b, s')"
  show "R s s'"
  proof (cases "m s")
    case (Inl e)
    then show ?thesis using run assms(3) [of e] by (simp add: tx_match_def keeps_def)
  next
    case (Inr r)
    then show ?thesis
      using run assms(1) assms(2) [of "fst r"] order_trans
      by (cases r) (force simp: tx_match_def keeps_def keeps_at_def)
  qed
qed

lemma keeps_at_if: "(b \<Longrightarrow> keeps_at R s m) \<Longrightarrow> (\<not> b \<Longrightarrow> keeps_at R s n) \<Longrightarrow> keeps_at R s (if b then m else n)"
  by simp

lemma keeps_at_all: "keeps R m \<Longrightarrow> keeps_at R s m"
  by (simp add: keeps_iff_at)

lemmas keeps_at_intros = keeps_at_bind keeps_at_then keeps_at_map_err keeps_at_match keeps_at_if

lemmas keeps_intros = keeps_return keeps_from keeps_fail keeps_read keeps_ensure keeps_bind keeps_then
  keeps_map_err keeps_match keeps_if keeps_option keeps_sum keeps_prod keeps_each

lemma run_txn_keeps: "keeps R m \<Longrightarrow> R s (snd (run_txn m s))"
  by (auto simp: run_txn_def split: sum.splits ending.splits dest: keepsD intro: order_refl)

lemma executed_keeps: "keeps R m \<Longrightarrow> R s (executed m s)"
  by (auto simp: executed_def keeps_def order_refl split: sum.splits)

lemma committed_keeps: "keeps R m \<Longrightarrow> R s (committed m s)"
  unfolding committed_def by (rule run_txn_keeps)

end

end
