(* ===== verification/Domain.thy ===== *)
theory Domain
  imports Prelude
begin

text \<open>
  The vocabulary of the crate \<open>tribal-domain\<close>: the lifecycle enumerations
  with their text conversions, and the entities of the ingest pipeline (jobs
  and tasks), of the agent runtime (threads and records) and of the driver
  queue. A struct and its accessor methods are one record, whose selectors
  are the accessors. The macro \<open>enum_text_conversions!\<close> is the function
  \<open>enum_from_str\<close> over the variants in their declaration order; the locale
  \<open>text_enum\<close> states what it relies on and what its callers get.
\<close>

section \<open>Text conversions of enumerations\<close>

definition enum_from_str :: "string \<Rightarrow> 'a list \<Rightarrow> ('a \<Rightarrow> string) \<Rightarrow> string \<Rightarrow> string + 'a" where
  "enum_from_str ty variants as_str s =
     (case find (\<lambda>v. as_str v = s) variants of
        Some v \<Rightarrow> Inr v
      | None \<Rightarrow> Inl (''unknown '' @ ty @ '': '' @ s))"

locale text_enum =
  fixes as_str :: "'a \<Rightarrow> string" and variants :: "'a list"
  assumes complete: "v \<in> set variants"
    and labels_distinct: "distinct (map as_str variants)"
begin

lemma as_str_inj: "as_str v = as_str w \<longleftrightarrow> v = w"
  using complete labels_distinct by (auto simp: distinct_map inj_on_def)

lemma parse_print: "enum_from_str ty variants as_str (as_str v) = Inr v"
  using find_distinct [OF labels_distinct complete refl, of v] by (simp add: enum_from_str_def)

lemma parse_sound: "enum_from_str ty variants as_str s = Inr v \<longleftrightarrow> s = as_str v"
  using parse_print [of ty v]
  by (auto simp: enum_from_str_def split: option.splits dest: find_Some_set)

lemma parse_unknown:
  "s \<notin> range as_str \<Longrightarrow> enum_from_str ty variants as_str s = Inl (''unknown '' @ ty @ '': '' @ s)"
  by (auto simp: enum_from_str_def find_None_iff split: option.splits dest: find_Some_set)

end

section \<open>Tasks of the ingest pipeline\<close>

datatype task_type = Extraction | Triage | Relation

datatype task_status = TaskQueued | TaskClaimed | TaskBlocked | TaskCompleted
  | TaskDeadLetter

datatype task_error_kind = ProviderError | SemaphoreTimeout | ParseError
  | HeartbeatExpired | StartupReclaim | OwnershipLost | Timeout | DatabaseError
  | InternalError | ContextOverflow | BudgetExhausted | BindingDivergence

text \<open>\<open>TaskStatus::ALL\<close> and \<open>TaskStatus::is_terminal\<close>; the SQL predicates over
  live rows are built from the two.\<close>

definition task_status_all :: "task_status list" where
  "task_status_all = [TaskQueued, TaskClaimed, TaskBlocked, TaskCompleted, TaskDeadLetter]"

definition task_status_terminal :: "task_status \<Rightarrow> bool" where
  "task_status_terminal s = (s = TaskCompleted \<or> s = TaskDeadLetter)"

definition task_terminal_set :: "task_status list" where
  "task_terminal_set = filter task_status_terminal task_status_all"

datatype error_outcome = Terminal | Retryable

fun task_error_outcome :: "task_error_kind \<Rightarrow> error_outcome" where
  "task_error_outcome ContextOverflow = Terminal"
| "task_error_outcome BudgetExhausted = Terminal"
| "task_error_outcome BindingDivergence = Terminal"
| "task_error_outcome _ = Retryable"

fun task_type_as_str :: "task_type \<Rightarrow> string" where
  "task_type_as_str Extraction = ''extraction''"
| "task_type_as_str Triage = ''triage''"
| "task_type_as_str Relation = ''relation''"

definition task_type_variants :: "task_type list" where
  "task_type_variants = [Extraction, Triage, Relation]"

definition task_type_from_str :: "string \<Rightarrow> string + task_type" where
  "task_type_from_str s = enum_from_str ''TaskType'' task_type_variants task_type_as_str s"

interpretation task_type: text_enum task_type_as_str task_type_variants
proof
  show "v \<in> set task_type_variants" for v by (cases v) (simp_all add: task_type_variants_def)
  show "distinct (map task_type_as_str task_type_variants)" by (simp add: task_type_variants_def)
qed

fun task_status_as_str :: "task_status \<Rightarrow> string" where
  "task_status_as_str TaskQueued = ''queued''"
| "task_status_as_str TaskClaimed = ''claimed''"
| "task_status_as_str TaskBlocked = ''blocked''"
| "task_status_as_str TaskCompleted = ''completed''"
| "task_status_as_str TaskDeadLetter = ''dead_letter''"

definition task_status_variants :: "task_status list" where
  "task_status_variants = [TaskQueued, TaskClaimed, TaskBlocked, TaskCompleted, TaskDeadLetter]"

definition task_status_from_str :: "string \<Rightarrow> string + task_status" where
  "task_status_from_str s = enum_from_str ''TaskStatus'' task_status_variants task_status_as_str s"

interpretation task_status: text_enum task_status_as_str task_status_variants
proof
  show "v \<in> set task_status_variants" for v by (cases v) (simp_all add: task_status_variants_def)
  show "distinct (map task_status_as_str task_status_variants)" by (simp add: task_status_variants_def)
qed

fun task_error_kind_as_str :: "task_error_kind \<Rightarrow> string" where
  "task_error_kind_as_str ProviderError = ''provider_error''"
| "task_error_kind_as_str SemaphoreTimeout = ''semaphore_timeout''"
| "task_error_kind_as_str ParseError = ''parse_error''"
| "task_error_kind_as_str HeartbeatExpired = ''heartbeat_expired''"
| "task_error_kind_as_str StartupReclaim = ''startup_reclaim''"
| "task_error_kind_as_str OwnershipLost = ''ownership_lost''"
| "task_error_kind_as_str Timeout = ''timeout''"
| "task_error_kind_as_str DatabaseError = ''database_error''"
| "task_error_kind_as_str InternalError = ''internal_error''"
| "task_error_kind_as_str ContextOverflow = ''context_overflow''"
| "task_error_kind_as_str BudgetExhausted = ''budget_exhausted''"
| "task_error_kind_as_str BindingDivergence = ''binding_divergence''"

definition task_error_kind_variants :: "task_error_kind list" where
  "task_error_kind_variants = [ProviderError, SemaphoreTimeout, ParseError, HeartbeatExpired, StartupReclaim, OwnershipLost, Timeout, DatabaseError, InternalError, ContextOverflow, BudgetExhausted, BindingDivergence]"

definition task_error_kind_from_str :: "string \<Rightarrow> string + task_error_kind" where
  "task_error_kind_from_str s = enum_from_str ''TaskErrorKind'' task_error_kind_variants task_error_kind_as_str s"

interpretation task_error_kind: text_enum task_error_kind_as_str task_error_kind_variants
proof
  show "v \<in> set task_error_kind_variants" for v by (cases v) (simp_all add: task_error_kind_variants_def)
  show "distinct (map task_error_kind_as_str task_error_kind_variants)" by (simp add: task_error_kind_variants_def)
qed

record task =
  tk_id :: uuid
  tk_job_id :: uuid
  tk_task_type :: task_type
  tk_status :: task_status
  tk_batch_index :: "nat option"
  tk_claim_token :: "uuid option"
  tk_available_at :: instant
  tk_claimed_by :: "string option"
  tk_claimed_at :: "instant option"
  tk_heartbeat_at :: "instant option"
  tk_retry_count :: nat
  tk_error_kind :: "task_error_kind option"
  tk_error_message :: "string option"
  tk_created_at :: instant
  tk_updated_at :: instant

section \<open>Jobs\<close>

datatype job_status = JobQueued | JobExtracting | JobTriaging | JobRelating | JobCompleted
  | JobFailed

datatype job_outcome = Success | Partial | Empty | Failure

datatype job_state = StateQueued | StateExtracting | StateTriaging | StateRelating
  | StateCompleted | StateFailed

definition job_status_all :: "job_status list" where
  "job_status_all = [JobQueued, JobExtracting, JobTriaging, JobRelating, JobCompleted, JobFailed]"

definition job_status_terminal :: "job_status \<Rightarrow> bool" where
  "job_status_terminal s = (s = JobCompleted \<or> s = JobFailed)"

definition job_terminal_set :: "job_status list" where
  "job_terminal_set = filter job_status_terminal job_status_all"

fun job_status_of_task_type :: "task_type \<Rightarrow> job_status" where
  "job_status_of_task_type Extraction = JobExtracting"
| "job_status_of_task_type Triage = JobTriaging"
| "job_status_of_task_type Relation = JobRelating"

definition job_state_terminal :: "job_state \<Rightarrow> bool" where
  "job_state_terminal s = (s = StateCompleted \<or> s = StateFailed)"

fun job_state_of_status :: "job_status \<Rightarrow> job_state" where
  "job_state_of_status JobQueued = StateQueued"
| "job_state_of_status JobExtracting = StateExtracting"
| "job_state_of_status JobTriaging = StateTriaging"
| "job_state_of_status JobRelating = StateRelating"
| "job_state_of_status JobCompleted = StateCompleted"
| "job_state_of_status JobFailed = StateFailed"

fun job_status_as_str :: "job_status \<Rightarrow> string" where
  "job_status_as_str JobQueued = ''queued''"
| "job_status_as_str JobExtracting = ''extracting''"
| "job_status_as_str JobTriaging = ''triaging''"
| "job_status_as_str JobRelating = ''relating''"
| "job_status_as_str JobCompleted = ''completed''"
| "job_status_as_str JobFailed = ''failed''"

definition job_status_variants :: "job_status list" where
  "job_status_variants = [JobQueued, JobExtracting, JobTriaging, JobRelating, JobCompleted, JobFailed]"

definition job_status_from_str :: "string \<Rightarrow> string + job_status" where
  "job_status_from_str s = enum_from_str ''JobStatus'' job_status_variants job_status_as_str s"

interpretation job_status: text_enum job_status_as_str job_status_variants
proof
  show "v \<in> set job_status_variants" for v by (cases v) (simp_all add: job_status_variants_def)
  show "distinct (map job_status_as_str job_status_variants)" by (simp add: job_status_variants_def)
qed

fun job_outcome_as_str :: "job_outcome \<Rightarrow> string" where
  "job_outcome_as_str Success = ''success''"
| "job_outcome_as_str Partial = ''partial''"
| "job_outcome_as_str Empty = ''empty''"
| "job_outcome_as_str Failure = ''failure''"

definition job_outcome_variants :: "job_outcome list" where
  "job_outcome_variants = [Success, Partial, Empty, Failure]"

definition job_outcome_from_str :: "string \<Rightarrow> string + job_outcome" where
  "job_outcome_from_str s = enum_from_str ''JobOutcome'' job_outcome_variants job_outcome_as_str s"

interpretation job_outcome: text_enum job_outcome_as_str job_outcome_variants
proof
  show "v \<in> set job_outcome_variants" for v by (cases v) (simp_all add: job_outcome_variants_def)
  show "distinct (map job_outcome_as_str job_outcome_variants)" by (simp add: job_outcome_variants_def)
qed

fun job_state_as_str :: "job_state \<Rightarrow> string" where
  "job_state_as_str StateQueued = ''queued''"
| "job_state_as_str StateExtracting = ''extracting''"
| "job_state_as_str StateTriaging = ''triaging''"
| "job_state_as_str StateRelating = ''relating''"
| "job_state_as_str StateCompleted = ''completed''"
| "job_state_as_str StateFailed = ''failed''"

definition job_state_variants :: "job_state list" where
  "job_state_variants = [StateQueued, StateExtracting, StateTriaging, StateRelating, StateCompleted, StateFailed]"

definition job_state_from_str :: "string \<Rightarrow> string + job_state" where
  "job_state_from_str s = enum_from_str ''JobState'' job_state_variants job_state_as_str s"

interpretation job_state: text_enum job_state_as_str job_state_variants
proof
  show "v \<in> set job_state_variants" for v by (cases v) (simp_all add: job_state_variants_def)
  show "distinct (map job_state_as_str job_state_variants)" by (simp add: job_state_variants_def)
qed

record job =
  jb_id :: uuid
  jb_correlation_id :: "uuid option"
  jb_project_id :: uuid
  jb_principal_id :: uuid
  jb_actor_id :: "uuid option"
  jb_status :: job_status
  jb_outcome :: "job_outcome option"
  jb_batch_size :: "nat option"
  jb_committed_batch_id :: "uuid option"
  jb_source_context :: json
  jb_raw_input :: string
  jb_ingest_idempotency_key :: "uuid option"
  jb_extraction_original_count :: "nat option"
  jb_error_message :: "string option"
  jb_extraction_system_prompt_version_id :: uuid
  jb_extraction_user_prompt_version_id :: uuid
  jb_triage_system_prompt_version_id :: uuid
  jb_triage_user_prompt_version_id :: uuid
  jb_relation_system_prompt_version_id :: uuid
  jb_relation_user_prompt_version_id :: uuid
  jb_system_fingerprint_hash :: string
  jb_trace_context :: "string option"
  jb_completed_at :: "instant option"
  jb_created_at :: instant
  jb_updated_at :: instant

section \<open>Agent threads\<close>

datatype thread_status = ThreadQueued | ThreadRunning | ThreadSuspended | ThreadCompleted
  | ThreadFailed | ThreadCancelled | ThreadDeadLetter

definition thread_status_all :: "thread_status list" where
  "thread_status_all = [ThreadQueued, ThreadRunning, ThreadSuspended, ThreadCompleted,
     ThreadFailed, ThreadCancelled, ThreadDeadLetter]"

definition thread_status_terminal :: "thread_status \<Rightarrow> bool" where
  "thread_status_terminal s =
     (s = ThreadCompleted \<or> s = ThreadFailed \<or> s = ThreadCancelled \<or> s = ThreadDeadLetter)"

definition thread_terminal_set :: "thread_status list" where
  "thread_terminal_set = filter thread_status_terminal thread_status_all"

datatype thread_terminal = TermCompleted | TermFailed | TermCancelled | TermDeadLetter

fun thread_status_of_terminal :: "thread_terminal \<Rightarrow> thread_status" where
  "thread_status_of_terminal TermCompleted = ThreadCompleted"
| "thread_status_of_terminal TermFailed = ThreadFailed"
| "thread_status_of_terminal TermCancelled = ThreadCancelled"
| "thread_status_of_terminal TermDeadLetter = ThreadDeadLetter"

text \<open>A record's position is an \<open>i64\<close>; the column and the code only count
  upwards from zero.\<close>

type_synonym record_seq = int

definition seq_first :: record_seq where
  "seq_first = 0"

definition seq_next :: "record_seq \<Rightarrow> record_seq" where
  "seq_next s = s + 1"

datatype suspension =
    HumanInput (prompt: string)
  | DeferredToolResults (requesting_seq: record_seq) (pending_tool_call_ids: "string list")
  | Timer
  | BudgetExhaustion (unchanged_rechecks: nat)
  | Signal (signal_key: string)

fun reason_label :: "suspension \<Rightarrow> string" where
  "reason_label (HumanInput _) = ''human_input''"
| "reason_label (DeferredToolResults _ _) = ''deferred_tool_results''"
| "reason_label Timer = ''timer''"
| "reason_label (BudgetExhaustion _) = ''budget_exhausted''"
| "reason_label (Signal _) = ''signal''"

datatype record_kind = AssistantMessage | ToolResult | InputRecord | SuspensionRecord
  | CancellationRecord | SubmissionRecord | ObservedToolEvent | AppendArtifact

definition record_kind_is_conversation :: "record_kind \<Rightarrow> bool" where
  "record_kind_is_conversation k =
     (k = AssistantMessage \<or> k = ToolResult \<or> k = InputRecord \<or> k = SubmissionRecord)"

fun thread_status_as_str :: "thread_status \<Rightarrow> string" where
  "thread_status_as_str ThreadQueued = ''queued''"
| "thread_status_as_str ThreadRunning = ''running''"
| "thread_status_as_str ThreadSuspended = ''suspended''"
| "thread_status_as_str ThreadCompleted = ''completed''"
| "thread_status_as_str ThreadFailed = ''failed''"
| "thread_status_as_str ThreadCancelled = ''cancelled''"
| "thread_status_as_str ThreadDeadLetter = ''dead_letter''"

definition thread_status_variants :: "thread_status list" where
  "thread_status_variants = [ThreadQueued, ThreadRunning, ThreadSuspended, ThreadCompleted, ThreadFailed, ThreadCancelled, ThreadDeadLetter]"

definition thread_status_from_str :: "string \<Rightarrow> string + thread_status" where
  "thread_status_from_str s = enum_from_str ''AgentThreadStatus'' thread_status_variants thread_status_as_str s"

interpretation thread_status: text_enum thread_status_as_str thread_status_variants
proof
  show "v \<in> set thread_status_variants" for v by (cases v) (simp_all add: thread_status_variants_def)
  show "distinct (map thread_status_as_str thread_status_variants)" by (simp add: thread_status_variants_def)
qed

fun record_kind_as_str :: "record_kind \<Rightarrow> string" where
  "record_kind_as_str AssistantMessage = ''assistant_message''"
| "record_kind_as_str ToolResult = ''tool_result''"
| "record_kind_as_str InputRecord = ''input''"
| "record_kind_as_str SuspensionRecord = ''suspension''"
| "record_kind_as_str CancellationRecord = ''cancellation''"
| "record_kind_as_str SubmissionRecord = ''submission''"
| "record_kind_as_str ObservedToolEvent = ''observed_tool_event''"
| "record_kind_as_str AppendArtifact = ''append_artifact''"

definition record_kind_variants :: "record_kind list" where
  "record_kind_variants = [AssistantMessage, ToolResult, InputRecord, SuspensionRecord, CancellationRecord, SubmissionRecord, ObservedToolEvent, AppendArtifact]"

definition record_kind_from_str :: "string \<Rightarrow> string + record_kind" where
  "record_kind_from_str s = enum_from_str ''AgentThreadRecordKind'' record_kind_variants record_kind_as_str s"

interpretation record_kind: text_enum record_kind_as_str record_kind_variants
proof
  show "v \<in> set record_kind_variants" for v by (cases v) (simp_all add: record_kind_variants_def)
  show "distinct (map record_kind_as_str record_kind_variants)" by (simp add: record_kind_variants_def)
qed

record thread_record =
  rc_id :: uuid
  rc_thread_id :: uuid
  rc_seq :: record_seq
  rc_kind :: record_kind
  rc_requesting_seq :: "record_seq option"
  rc_tool_call_id :: "string option"
  rc_content :: json
  rc_usage :: "json option"
  rc_trace_id :: "string option"
  rc_span_id :: "string option"
  rc_committed_at :: instant

text \<open>\<open>AgentThreadStage\<close> and its flat string token.\<close>

datatype thread_stage = Product task_type | Managed

fun thread_stage_as_str :: "thread_stage \<Rightarrow> string" where
  "thread_stage_as_str (Product t) = task_type_as_str t"
| "thread_stage_as_str Managed = ''managed''"

fun thread_stage_product :: "thread_stage \<Rightarrow> task_type option" where
  "thread_stage_product (Product t) = Some t"
| "thread_stage_product Managed = None"

definition thread_stage_from_str :: "string \<Rightarrow> string + thread_stage" where
  "thread_stage_from_str s =
     (if s = ''managed'' then Inr Managed else map_sum id Product (task_type_from_str s))"

text \<open>The thread row. The columns \<open>run_key\<close> and \<open>run_claim_token\<close> exist in the
  table and in the repository's statements, not in the entity.\<close>

record agent_thread =
  th_id :: uuid
  th_parent_thread_id :: "uuid option"
  th_stage :: thread_stage
  th_binding_version_id :: "uuid option"
  th_stage_task_id :: "uuid option"
  th_driver_task_id :: "uuid option"
  th_principal_id :: "uuid option"
  th_job_id :: "uuid option"
  th_status :: thread_status
  th_suspension :: "suspension option"
  th_cancel_requested_at :: "instant option"
  th_cancel_requested_by :: "string option"
  th_recovery_attempts :: nat
  th_format_version :: nat
  th_wake_at :: "instant option"
  th_fidelity :: "json option"
  th_execution_spend :: "json option"
  th_completed_at :: "instant option"
  th_created_at :: instant
  th_updated_at :: instant
  th_run_key :: "uuid option"
  th_run_claim_token :: "uuid option"

section \<open>Driver tasks\<close>

datatype driver_state = DriverPending | DriverClaimed | DriverCompleted | DriverDeadLetter

datatype driver_kind = Drive | DeferredTool

definition driver_state_all :: "driver_state list" where
  "driver_state_all = [DriverPending, DriverClaimed, DriverCompleted, DriverDeadLetter]"

definition driver_state_terminal :: "driver_state \<Rightarrow> bool" where
  "driver_state_terminal s = (s = DriverCompleted \<or> s = DriverDeadLetter)"

definition driver_terminal_set :: "driver_state list" where
  "driver_terminal_set = filter driver_state_terminal driver_state_all"

fun driver_state_as_str :: "driver_state \<Rightarrow> string" where
  "driver_state_as_str DriverPending = ''pending''"
| "driver_state_as_str DriverClaimed = ''claimed''"
| "driver_state_as_str DriverCompleted = ''completed''"
| "driver_state_as_str DriverDeadLetter = ''dead_letter''"

definition driver_state_variants :: "driver_state list" where
  "driver_state_variants = [DriverPending, DriverClaimed, DriverCompleted, DriverDeadLetter]"

definition driver_state_from_str :: "string \<Rightarrow> string + driver_state" where
  "driver_state_from_str s = enum_from_str ''AgentDriverTaskState'' driver_state_variants driver_state_as_str s"

interpretation driver_state: text_enum driver_state_as_str driver_state_variants
proof
  show "v \<in> set driver_state_variants" for v by (cases v) (simp_all add: driver_state_variants_def)
  show "distinct (map driver_state_as_str driver_state_variants)" by (simp add: driver_state_variants_def)
qed

fun driver_kind_as_str :: "driver_kind \<Rightarrow> string" where
  "driver_kind_as_str Drive = ''drive''"
| "driver_kind_as_str DeferredTool = ''deferred_tool''"

definition driver_kind_variants :: "driver_kind list" where
  "driver_kind_variants = [Drive, DeferredTool]"

definition driver_kind_from_str :: "string \<Rightarrow> string + driver_kind" where
  "driver_kind_from_str s = enum_from_str ''AgentDriverTaskKind'' driver_kind_variants driver_kind_as_str s"

interpretation driver_kind: text_enum driver_kind_as_str driver_kind_variants
proof
  show "v \<in> set driver_kind_variants" for v by (cases v) (simp_all add: driver_kind_variants_def)
  show "distinct (map driver_kind_as_str driver_kind_variants)" by (simp add: driver_kind_variants_def)
qed

record driver_task =
  dt_id :: uuid
  dt_thread_id :: uuid
  dt_kind :: driver_kind
  dt_state :: driver_state
  dt_attempt :: nat
  dt_max_attempts :: nat
  dt_available_at :: instant
  dt_claim_token :: "uuid option"
  dt_claimed_by :: "string option"
  dt_claimed_at :: "instant option"
  dt_heartbeat_at :: "instant option"
  dt_last_error :: "string option"
  dt_created_at :: instant
  dt_updated_at :: instant
  dt_completed_at :: "instant option"

section \<open>Status sets\<close>

lemma task_terminal_set_iff: "s \<in> set task_terminal_set \<longleftrightarrow> task_status_terminal s"
  by (cases s) (auto simp: task_terminal_set_def task_status_all_def task_status_terminal_def)

lemma thread_terminal_set_iff: "s \<in> set thread_terminal_set \<longleftrightarrow> thread_status_terminal s"
  by (cases s) (auto simp: thread_terminal_set_def thread_status_all_def thread_status_terminal_def)

lemma driver_terminal_set_iff: "s \<in> set driver_terminal_set \<longleftrightarrow> driver_state_terminal s"
  by (cases s) (auto simp: driver_terminal_set_def driver_state_all_def driver_state_terminal_def)

lemma job_terminal_set_iff: "s \<in> set job_terminal_set \<longleftrightarrow> job_status_terminal s"
  by (cases s) (auto simp: job_terminal_set_def job_status_all_def job_status_terminal_def)

lemma terminal_status_of_terminal [simp]: "thread_status_terminal (thread_status_of_terminal t)"
  by (cases t) (simp_all add: thread_status_terminal_def)

lemma job_state_mirrors_status: "job_state_as_str (job_state_of_status s) = job_status_as_str s"
  by (cases s) simp_all

lemma job_state_mirrors_terminal: "job_state_terminal (job_state_of_status s) = job_status_terminal s"
  by (cases s) (simp_all add: job_state_terminal_def job_status_terminal_def)

lemma thread_stage_roundtrip: "thread_stage_from_str (thread_stage_as_str st) = Inr st"
proof (cases st)
  case (Product t)
  then show ?thesis
    using task_type.parse_print [of "''TaskType''" t]
    by (cases t) (simp_all add: thread_stage_from_str_def task_type_from_str_def)
qed (simp add: thread_stage_from_str_def)

end
