(* ===== verification/SourceContext.thy ===== *)
theory SourceContext
  imports Domain
begin

text \<open>
  The provenance account of a job (\<open>tribal-domain/src/source_context.rs\<close>):
  claims of the client at ingest, the observed channel, and the extraction
  binding that is written once at the extraction commit; with its stored JSON
  form and the lenient read of its discriminator.
\<close>

definition context_version :: nat where
  "context_version = 1"

datatype source_type = AgentMediated | ManualCapture | Derived | FileWatch

fun source_type_as_str :: "source_type \<Rightarrow> string" where
  "source_type_as_str AgentMediated = ''agent_mediated''"
| "source_type_as_str ManualCapture = ''manual_capture''"
| "source_type_as_str Derived = ''derived''"
| "source_type_as_str FileWatch = ''file_watch''"

definition source_type_variants :: "source_type list" where
  "source_type_variants = [AgentMediated, ManualCapture, Derived, FileWatch]"

definition source_type_from_str :: "string \<Rightarrow> string + source_type" where
  "source_type_from_str s = enum_from_str ''SourceType'' source_type_variants source_type_as_str s"

interpretation source_type: text_enum source_type_as_str source_type_variants
proof
  show "v \<in> set source_type_variants" for v by (cases v) (simp_all add: source_type_variants_def)
  show "distinct (map source_type_as_str source_type_variants)" by (simp add: source_type_variants_def)
qed

datatype ingest_channel = McpHttp | McpSse | McpStdio

fun channel_as_str :: "ingest_channel \<Rightarrow> string" where
  "channel_as_str McpHttp = ''mcp_http''"
| "channel_as_str McpSse = ''mcp_sse''"
| "channel_as_str McpStdio = ''mcp_stdio''"

definition channel_variants :: "ingest_channel list" where
  "channel_variants = [McpHttp, McpSse, McpStdio]"

interpretation channel: text_enum channel_as_str channel_variants
proof
  show "v \<in> set channel_variants" for v by (cases v) (simp_all add: channel_variants_def)
  show "distinct (map channel_as_str channel_variants)" by (simp add: channel_variants_def)
qed

record claimed_client =
  cc_name :: string
  cc_version :: string

record claimed_inference =
  ci_provider :: "string option"
  ci_model :: "string option"

record claimed_actor =
  ca_client :: "claimed_client option"
  ca_inference :: "claimed_inference option"

record inference_identity =
  ii_provider :: string
  ii_model :: string

datatype source_context_error =
    EmptyInferenceClaim
  | ConflictingExtractionIdentity inference_identity inference_identity

record source_context =
  sc_source_type :: source_type
  sc_channel :: "ingest_channel option"
  sc_claimed_actor :: "claimed_actor option"
  sc_extraction :: "inference_identity option"

text \<open>Characters are scalar values up to U+00FF; these are the white ones. A text is
  blank after \<open>trim\<close> when every character is white.\<close>

definition is_whitespace :: "char \<Rightarrow> bool" where
  "is_whitespace c =
     (let n = of_char c :: nat in (9 \<le> n \<and> n \<le> 13) \<or> n = 32 \<or> n = 133 \<or> n = 160)"

definition trim :: "string \<Rightarrow> string" where
  "trim x = rev (dropWhile is_whitespace (rev (dropWhile is_whitespace x)))"

definition to_ascii_lowercase :: "string \<Rightarrow> string" where
  "to_ascii_lowercase x = map (\<lambda>c. let n = of_char c :: nat in
     if 65 \<le> n \<and> n \<le> 90 then char_of (n + 32) else c) x"

definition filter_blank :: "string option \<Rightarrow> string option" where
  "filter_blank v = (case v of Some x \<Rightarrow> if list_all is_whitespace x then None else Some x | None \<Rightarrow> None)"

definition claimed_inference_new :: "string option \<Rightarrow> string option
    \<Rightarrow> source_context_error + claimed_inference" where
  "claimed_inference_new provider model =
     (let p = filter_blank provider; m = filter_blank model in
      if p = None \<and> m = None then Inl EmptyInferenceClaim
      else Inr \<lparr>ci_provider = p, ci_model = m\<rparr>)"

definition from_claims :: "ingest_channel \<Rightarrow> claimed_actor option \<Rightarrow> source_context" where
  "from_claims channel actor =
     (let claims_provider =
            (case Option.bind actor ca_inference of None \<Rightarrow> False | Some i \<Rightarrow> ci_provider i \<noteq> None) in
      \<lparr>sc_source_type = (if claims_provider then AgentMediated else ManualCapture),
       sc_channel = Some channel, sc_claimed_actor = actor, sc_extraction = None\<rparr>)"

datatype extraction_commit_outcome = Recorded | AlreadyRecorded

definition commit_extraction_identity :: "source_context \<Rightarrow> inference_identity
    \<Rightarrow> source_context_error + (extraction_commit_outcome \<times> source_context)" where
  "commit_extraction_identity ctx identity =
     (case sc_extraction ctx of
        None \<Rightarrow> Inr (Recorded, ctx\<lparr>sc_extraction := Some identity\<rparr>)
      | Some existing \<Rightarrow>
          if existing = identity then Inr (AlreadyRecorded, ctx)
          else Inl (ConflictingExtractionIdentity existing identity))"

section \<open>The stored form\<close>

text \<open>Absent options are not serialised.\<close>

definition opt_entry :: "string \<Rightarrow> ('a \<Rightarrow> json) \<Rightarrow> 'a option \<Rightarrow> (string \<times> json) list" where
  "opt_entry k f v = (case v of None \<Rightarrow> [] | Some a \<Rightarrow> [(k, f a)])"

definition identity_to_json :: "inference_identity \<Rightarrow> json" where
  "identity_to_json i = JObj [(''provider'', JStr (ii_provider i)), (''model'', JStr (ii_model i))]"

definition client_to_json :: "claimed_client \<Rightarrow> json" where
  "client_to_json c = JObj [(''name'', JStr (cc_name c)), (''version'', JStr (cc_version c))]"

definition inference_to_json :: "claimed_inference \<Rightarrow> json" where
  "inference_to_json i = JObj (opt_entry ''provider'' JStr (ci_provider i) @ opt_entry ''model'' JStr (ci_model i))"

definition actor_to_json :: "claimed_actor \<Rightarrow> json" where
  "actor_to_json a = JObj (opt_entry ''client'' client_to_json (ca_client a) @
     opt_entry ''inference'' inference_to_json (ca_inference a))"

definition context_to_json :: "source_context \<Rightarrow> json" where
  "context_to_json c = JObj ((''version'', JNum (int context_version)) #
     (''type'', JStr (source_type_as_str (sc_source_type c))) #
     opt_entry ''channel'' (\<lambda>ch. JStr (channel_as_str ch)) (sc_channel c) @
     opt_entry ''claimed_actor'' actor_to_json (sc_claimed_actor c) @
     opt_entry ''extraction'' identity_to_json (sc_extraction c))"

definition sum_option :: "'e + 'a \<Rightarrow> 'a option" where
  "sum_option x = (case x of Inl _ \<Rightarrow> None | Inr a \<Rightarrow> Some a)"

definition identity_of_json :: "json \<Rightarrow> inference_identity option" where
  "identity_of_json j =
     Option.bind (json_field json_str j ''provider'') (\<lambda>p.
     Option.bind (json_field json_str j ''model'') (\<lambda>m. Some \<lparr>ii_provider = p, ii_model = m\<rparr>))"

definition client_of_json :: "json \<Rightarrow> claimed_client option" where
  "client_of_json j =
     Option.bind (json_field json_str j ''name'') (\<lambda>n.
     Option.bind (json_field json_str j ''version'') (\<lambda>v. Some \<lparr>cc_name = n, cc_version = v\<rparr>))"

definition inference_of_json :: "json \<Rightarrow> claimed_inference option" where
  "inference_of_json j =
     Option.bind (json_option_field json_str j ''provider'') (\<lambda>p.
     Option.bind (json_option_field json_str j ''model'') (\<lambda>m.
     sum_option (claimed_inference_new p m)))"

definition actor_of_json :: "json \<Rightarrow> claimed_actor option" where
  "actor_of_json j =
     Option.bind (json_option_field client_of_json j ''client'') (\<lambda>c.
     Option.bind (json_option_field inference_of_json j ''inference'') (\<lambda>i.
     Some \<lparr>ca_client = c, ca_inference = i\<rparr>))"

definition json_enum :: "(string \<Rightarrow> string + 'a) \<Rightarrow> json \<Rightarrow> 'a option" where
  "json_enum parse j = Option.bind (json_str j) (\<lambda>x. sum_option (parse x))"

definition expect_version_one :: "json \<Rightarrow> nat option" where
  "expect_version_one j =
     (case json_nat j of Some n \<Rightarrow> if n = context_version then Some n else None | None \<Rightarrow> None)"

definition context_of_json :: "json \<Rightarrow> source_context option" where
  "context_of_json j =
     Option.bind (json_field expect_version_one j ''version'') (\<lambda>_.
     Option.bind (json_field (json_enum source_type_from_str) j ''type'') (\<lambda>ty.
     Option.bind (json_option_field (json_enum (enum_from_str ''IngestChannel'' channel_variants channel_as_str)) j ''channel'') (\<lambda>ch.
     Option.bind (json_option_field actor_of_json j ''claimed_actor'') (\<lambda>a.
     Option.bind (json_option_field identity_of_json j ''extraction'') (\<lambda>x.
     Some \<lparr>sc_source_type = ty, sc_channel = ch, sc_claimed_actor = a, sc_extraction = x\<rparr>)))))"

definition stored_source_type :: "json \<Rightarrow> source_type" where
  "stored_source_type j =
     (case Option.bind (json_get j ''type'') json_str of
        None \<Rightarrow> ManualCapture
      | Some d \<Rightarrow>
          (case source_type_from_str d of
             Inr t \<Rightarrow> t
           | Inl _ \<Rightarrow>
               if d = ''AgentMediated'' then AgentMediated
               else if d = ''Derived'' then Derived
               else if d = ''FileWatch'' then FileWatch
               else ManualCapture))"

section \<open>Round trips\<close>

text \<open>A claimed inference only exists with a provider or a model, neither blank.\<close>

definition claimed_inference_ok :: "claimed_inference \<Rightarrow> bool" where
  "claimed_inference_ok i \<longleftrightarrow> claimed_inference_new (ci_provider i) (ci_model i) = Inr i"

definition context_ok :: "source_context \<Rightarrow> bool" where
  "context_ok c \<longleftrightarrow>
     (case Option.bind (sc_claimed_actor c) ca_inference of None \<Rightarrow> True | Some i \<Rightarrow> claimed_inference_ok i)"

lemma claimed_inference_new_ok: "claimed_inference_new p m = Inr i \<Longrightarrow> claimed_inference_ok i"
  by (auto simp: claimed_inference_new_def claimed_inference_ok_def Let_def filter_blank_def
      split: if_splits option.splits)

lemma opt_entry_simps [simp]: "opt_entry k f None = []" "opt_entry k f (Some a) = [(k, f a)]"
  by (simp_all add: opt_entry_def)

lemma entry_not_null [simp]:
  "identity_to_json i \<noteq> JNull" "client_to_json c \<noteq> JNull" "inference_to_json n \<noteq> JNull"
  "actor_to_json a \<noteq> JNull"
  by (simp_all add: identity_to_json_def client_to_json_def inference_to_json_def actor_to_json_def)

lemma identity_roundtrip [simp]: "identity_of_json (identity_to_json i) = Some i"
  by (simp add: identity_of_json_def identity_to_json_def json_field_def)

lemma client_roundtrip [simp]: "client_of_json (client_to_json c) = Some c"
  by (simp add: client_of_json_def client_to_json_def json_field_def)

lemma inference_roundtrip: "claimed_inference_ok i \<Longrightarrow> inference_of_json (inference_to_json i) = Some i"
  by (cases "ci_provider i"; cases "ci_model i")
    (simp_all add: inference_of_json_def inference_to_json_def json_option_field_if
      claimed_inference_ok_def sum_option_def)

lemma actor_roundtrip:
  assumes "case ca_inference a of None \<Rightarrow> True | Some i \<Rightarrow> claimed_inference_ok i"
  shows "actor_of_json (actor_to_json a) = Some a"
  using assms inference_roundtrip
  by (cases "ca_client a"; cases "ca_inference a")
    (simp_all add: actor_of_json_def actor_to_json_def json_option_field_if)

lemma source_type_parse [simp]:
  "json_enum source_type_from_str (JStr (source_type_as_str t)) = Some t"
  using source_type.parse_print [of "''SourceType''" t]
  by (simp add: json_enum_def sum_option_def source_type_from_str_def)

lemma channel_parse [simp]:
  "json_enum (enum_from_str ''IngestChannel'' channel_variants channel_as_str) (JStr (channel_as_str c)) = Some c"
  using channel.parse_print [of "''IngestChannel''" c] by (simp add: json_enum_def sum_option_def)

lemma context_roundtrip_aux:
  assumes "context_ok c"
  shows "context_of_json (context_to_json c) = Some c"
  using assms actor_roundtrip
  by (cases "sc_channel c"; cases "sc_claimed_actor c"; cases "sc_extraction c")
    (simp_all add: context_of_json_def context_to_json_def json_field_def json_option_field_if
      expect_version_one_def context_version_def context_ok_def)

section \<open>Properties\<close>



text \<open>The extraction identity of a context is written once: on a context without
  one any identity is recorded, offering the recorded identity again changes
  nothing, and offering another is refused; whatever sequence of identities is
  offered afterwards, the first one stays.\<close>

theorem extraction_identity_write_once:
  "(sc_extraction c = None \<longrightarrow>
      commit_extraction_identity c i = Inr (Recorded, c\<lparr>sc_extraction := Some i\<rparr>)) \<and>
   (\<forall>out c'. commit_extraction_identity c i = Inr (out, c') \<longrightarrow>
      sc_extraction c' = Some i \<and>
      (\<forall>k. commit_extraction_identity c' k =
         (if k = i then Inr (AlreadyRecorded, c') else Inl (ConflictingExtractionIdentity i k))))"
  by (auto simp: commit_extraction_identity_def split: option.splits if_splits)

theorem extraction_identity_write_once_witness:
  "commit_extraction_identity
     (from_claims McpStdio None) \<lparr>ii_provider = ''p'', ii_model = ''m''\<rparr> =
     Inr (Recorded, (from_claims McpStdio None)\<lparr>sc_extraction := Some \<lparr>ii_provider = ''p'', ii_model = ''m''\<rparr>\<rparr>)"
  using extraction_identity_write_once [of "from_claims McpStdio None" "\<lparr>ii_provider = ''p'', ii_model = ''m''\<rparr>"]
  by (simp add: from_claims_def)

end
