(* ===== verification/Graph.thy ===== *)
theory Graph
  imports SourceContext
begin

text \<open>
  The knowledge graph the pipeline writes: the entities of
  \<open>tribal-domain/src/{knowledge,triage,relation,reference,reference_kind,
  embedding,embedding_profile,embedding_error_class,tag_registry,reindex,
  provider_kind}.rs\<close>. Embedding vectors are lists of the half-precision bit
  patterns they are stored as, similarity scores the bit patterns of their
  single-precision numbers.
\<close>

datatype knowledge_kind = Fact | Heuristic | Procedure | DecisionRecord

datatype confidence = Verified | Inferred | Uncertain

datatype relation_kind = Supports | Contradicts | Supersedes | DerivedFrom

datatype relation_suggestion = SuggestSupports | SuggestContradicts | SuggestUnrelated

datatype reference_kind = FilePath | Url | Concept | Symbol

fun knowledge_kind_as_str :: "knowledge_kind \<Rightarrow> string" where
  "knowledge_kind_as_str Fact = ''fact''"
| "knowledge_kind_as_str Heuristic = ''heuristic''"
| "knowledge_kind_as_str Procedure = ''procedure''"
| "knowledge_kind_as_str DecisionRecord = ''decision_record''"

fun confidence_as_str :: "confidence \<Rightarrow> string" where
  "confidence_as_str Verified = ''verified''"
| "confidence_as_str Inferred = ''inferred''"
| "confidence_as_str Uncertain = ''uncertain''"

fun relation_kind_as_str :: "relation_kind \<Rightarrow> string" where
  "relation_kind_as_str Supports = ''supports''"
| "relation_kind_as_str Contradicts = ''contradicts''"
| "relation_kind_as_str Supersedes = ''supersedes''"
| "relation_kind_as_str DerivedFrom = ''derived_from''"

fun reference_kind_as_str :: "reference_kind \<Rightarrow> string" where
  "reference_kind_as_str FilePath = ''file_path''"
| "reference_kind_as_str Url = ''url''"
| "reference_kind_as_str Concept = ''concept''"
| "reference_kind_as_str Symbol = ''symbol''"

definition knowledge_kind_variants :: "knowledge_kind list" where
  "knowledge_kind_variants = [Fact, Heuristic, Procedure, DecisionRecord]"

definition confidence_variants :: "confidence list" where
  "confidence_variants = [Verified, Inferred, Uncertain]"

definition relation_kind_variants :: "relation_kind list" where
  "relation_kind_variants = [Supports, Contradicts, Supersedes, DerivedFrom]"

definition reference_kind_variants :: "reference_kind list" where
  "reference_kind_variants = [FilePath, Url, Concept, Symbol]"

interpretation knowledge_kind: text_enum knowledge_kind_as_str knowledge_kind_variants
proof
  show "v \<in> set knowledge_kind_variants" for v by (cases v) (simp_all add: knowledge_kind_variants_def)
  show "distinct (map knowledge_kind_as_str knowledge_kind_variants)" by (simp add: knowledge_kind_variants_def)
qed

interpretation confidence: text_enum confidence_as_str confidence_variants
proof
  show "v \<in> set confidence_variants" for v by (cases v) (simp_all add: confidence_variants_def)
  show "distinct (map confidence_as_str confidence_variants)" by (simp add: confidence_variants_def)
qed

interpretation relation_kind: text_enum relation_kind_as_str relation_kind_variants
proof
  show "v \<in> set relation_kind_variants" for v by (cases v) (simp_all add: relation_kind_variants_def)
  show "distinct (map relation_kind_as_str relation_kind_variants)" by (simp add: relation_kind_variants_def)
qed

interpretation reference_kind: text_enum reference_kind_as_str reference_kind_variants
proof
  show "v \<in> set reference_kind_variants" for v by (cases v) (simp_all add: reference_kind_variants_def)
  show "distinct (map reference_kind_as_str reference_kind_variants)" by (simp add: reference_kind_variants_def)
qed

definition reference_kind_from_str :: "string \<Rightarrow> string + reference_kind" where
  "reference_kind_from_str s = enum_from_str ''ReferenceKind'' reference_kind_variants reference_kind_as_str s"

record knowledge_item =
  ki_id :: uuid
  ki_project_id :: uuid
  ki_principal_id :: uuid
  ki_kind :: knowledge_kind
  ki_content :: string
  ki_tags :: "string list"
  ki_confidence :: confidence
  ki_claim_context :: "json option"
  ki_source_context :: json
  ki_episode_id :: "uuid option"
  ki_capture_commit :: "string option"
  ki_capture_branch :: "string option"
  ki_created_at :: instant

record item_observation =
  io_id :: uuid
  io_knowledge_item_id :: uuid
  io_principal_id :: uuid
  io_source_type :: source_type
  io_observed_at :: instant

datatype triage_outcome =
    OutCreated uuid
  | OutDuplicate uuid uuid
  | OutFailed string bool

record similar_item =
  si_item_id :: uuid
  si_similarity_score :: nat
  si_suggested_relation :: relation_suggestion

record triage_result =
  tg_id :: uuid
  tg_job_id :: uuid
  tg_principal_id :: "uuid option"
  tg_batch_index :: nat
  tg_similar_items :: "similar_item list"
  tg_outcome :: triage_outcome
  tg_created_at :: instant

record extraction_result =
  er_id :: uuid
  er_job_id :: uuid
  er_candidates :: json
  er_relation_hints :: json
  er_created_at :: instant

record item_relation =
  rl_id :: uuid
  rl_batch_id :: uuid
  rl_source_id :: uuid
  rl_target_id :: uuid
  rl_type :: relation_kind
  rl_principal_id :: uuid
  rl_justification :: "string option"
  rl_created_at :: instant

record similar_decision =
  sd_id :: uuid
  sd_job_id :: uuid
  sd_principal_id :: "uuid option"
  sd_batch_index :: nat
  sd_matched_item_id :: uuid
  sd_similarity_score :: nat
  sd_suggested_relation :: relation_suggestion
  sd_justification_text :: string
  sd_created_at :: instant

record item_reference =
  rf_id :: uuid
  rf_knowledge_item_id :: uuid
  rf_kind :: reference_kind
  rf_value :: string
  rf_description :: "string option"
  rf_project_id :: uuid
  rf_commit :: "string option"
  rf_branch :: "string option"

section \<open>Embedding profiles and embeddings\<close>

datatype provider_kind = Ollama | Anthropic | OpenAi | Platform

fun provider_kind_as_str :: "provider_kind \<Rightarrow> string" where
  "provider_kind_as_str Ollama = ''ollama''"
| "provider_kind_as_str Anthropic = ''anthropic''"
| "provider_kind_as_str OpenAi = ''openai''"
| "provider_kind_as_str Platform = ''platform''"

definition provider_kind_all :: "provider_kind list" where
  "provider_kind_all = [Ollama, Anthropic, OpenAi, Platform]"

datatype profile_state = ProfileBuilding | ProfileComplete | ProfileFailed | ProfileSuperseded

fun profile_state_as_str :: "profile_state \<Rightarrow> string" where
  "profile_state_as_str ProfileBuilding = ''building''"
| "profile_state_as_str ProfileComplete = ''complete''"
| "profile_state_as_str ProfileFailed = ''failed''"
| "profile_state_as_str ProfileSuperseded = ''superseded''"

datatype distance_metric = Cosine

fun distance_metric_as_str :: "distance_metric \<Rightarrow> string" where
  "distance_metric_as_str Cosine = ''cosine''"

record embedding_profile =
  ep_id :: uuid
  ep_epoch :: int
  ep_provider_kind :: provider_kind
  ep_base_url :: string
  ep_model :: string
  ep_dimensions :: nat
  ep_distance_metric :: distance_metric
  ep_revision_token :: string
  ep_probe_digest :: "string option"
  ep_state :: profile_state
  ep_fingerprint_hash :: string
  ep_created_at :: instant
  ep_completed_at :: "instant option"

definition matches_geometry :: "embedding_profile \<Rightarrow> provider_kind \<Rightarrow> string \<Rightarrow> string \<Rightarrow> nat
    \<Rightarrow> distance_metric \<Rightarrow> bool" where
  "matches_geometry p provider url model dimensions metric \<longleftrightarrow>
     ep_provider_kind p = provider \<and> ep_base_url p = url \<and> ep_model p = model \<and>
     ep_dimensions p = dimensions \<and> ep_distance_metric p = metric"

type_synonym vector = "nat list"

text \<open>The dimension of an embedding is derived from its vector.\<close>

record item_embedding =
  em_id :: uuid
  em_knowledge_item_id :: uuid
  em_profile_id :: uuid
  em_model :: string
  em_vector :: vector
  em_created_at :: instant

record tag_entry =
  te_tag :: string
  te_first_seen_at :: instant
  te_last_seen_at :: "instant option"
  te_usage_count :: int

record tag_embedding =
  tm_tag :: string
  tm_profile_id :: uuid
  tm_model :: string
  tm_vector :: vector

section \<open>Reindex runs and tasks\<close>

datatype embedding_error_class = RateLimited | Overloaded | Transient | Permanent

fun error_class_as_str :: "embedding_error_class \<Rightarrow> string" where
  "error_class_as_str RateLimited = ''rate_limited''"
| "error_class_as_str Overloaded = ''overloaded''"
| "error_class_as_str Transient = ''transient''"
| "error_class_as_str Permanent = ''permanent''"

definition error_class_retryable :: "embedding_error_class \<Rightarrow> bool" where
  "error_class_retryable c = (case c of Permanent \<Rightarrow> False | _ \<Rightarrow> True)"

datatype run_state = RunQueued | RunRunning | RunCompleted | RunSuperseded | RunAborted | RunFailed

fun run_state_as_str :: "run_state \<Rightarrow> string" where
  "run_state_as_str RunQueued = ''queued''"
| "run_state_as_str RunRunning = ''running''"
| "run_state_as_str RunCompleted = ''completed''"
| "run_state_as_str RunSuperseded = ''superseded''"
| "run_state_as_str RunAborted = ''aborted''"
| "run_state_as_str RunFailed = ''failed''"

definition run_state_terminal :: "run_state \<Rightarrow> bool" where
  "run_state_terminal x \<longleftrightarrow> \<not> x \<in> {RunQueued, RunRunning}"

datatype rtask_state = RTaskPending | RTaskClaimed | RTaskCompleted | RTaskDeadLetter

fun rtask_state_as_str :: "rtask_state \<Rightarrow> string" where
  "rtask_state_as_str RTaskPending = ''pending''"
| "rtask_state_as_str RTaskClaimed = ''claimed''"
| "rtask_state_as_str RTaskCompleted = ''completed''"
| "rtask_state_as_str RTaskDeadLetter = ''dead_letter''"

datatype reindex_entity = ItemEntity | TagEntity

fun reindex_entity_as_str :: "reindex_entity \<Rightarrow> string" where
  "reindex_entity_as_str ItemEntity = ''item''"
| "reindex_entity_as_str TagEntity = ''tag''"

record reindex_run =
  rr_id :: uuid
  rr_target_profile_id :: uuid
  rr_epoch :: int
  rr_state :: run_state
  rr_initiated_by :: uuid
  rr_items_enumerated :: "nat option"
  rr_items_embedded :: int
  rr_tags_enumerated :: "nat option"
  rr_tags_embedded :: int
  rr_items_quarantined :: int
  rr_tags_quarantined :: int
  rr_error_message :: "string option"
  rr_trace_context :: "string option"
  rr_started_at :: instant
  rr_completed_at :: "instant option"

record reindex_task =
  rt_id :: uuid
  rt_run_id :: uuid
  rt_kind :: reindex_entity
  rt_target_ref :: string
  rt_state :: rtask_state
  rt_attempt :: nat
  rt_max_attempts :: nat
  rt_available_at :: instant
  rt_claim_token :: "uuid option"
  rt_claimed_by :: "string option"
  rt_claimed_at :: "instant option"
  rt_heartbeat_at :: "instant option"
  rt_last_error :: "string option"
  rt_last_error_class :: "embedding_error_class option"
  rt_created_at :: instant
  rt_updated_at :: instant
  rt_completed_at :: "instant option"

record quarantined =
  qt_run_id :: uuid
  qt_profile_id :: uuid
  qt_kind :: reindex_entity
  qt_entity_ref :: string
  qt_error_class :: embedding_error_class
  qt_error_message :: "string option"
  qt_at :: instant

section \<open>The graph tables\<close>

record graph =
  gr_extraction_results :: "extraction_result list"
  gr_triage_results :: "triage_result list"
  gr_items :: "knowledge_item list"
  gr_observations :: "item_observation list"
  gr_relations :: "item_relation list"
  gr_decisions :: "similar_decision list"
  gr_references :: "item_reference list"
  gr_profiles :: "embedding_profile list"
  gr_embeddings :: "item_embedding list"
  gr_tags :: "tag_entry list"
  gr_tag_embeddings :: "tag_embedding list"
  gr_runs :: "reindex_run list"
  gr_rtasks :: "reindex_task list"
  gr_quarantine :: "quarantined list"

definition graph_empty :: graph where
  "graph_empty = \<lparr>gr_extraction_results = [], gr_triage_results = [], gr_items = [],
     gr_observations = [], gr_relations = [], gr_decisions = [], gr_references = [],
     gr_profiles = [], gr_embeddings = [], gr_tags = [], gr_tag_embeddings = [],
     gr_runs = [], gr_rtasks = [], gr_quarantine = []\<rparr>"

section \<open>Committed relations\<close>

text \<open>Rows whose batch some job committed: the inner join of the neighbourhood
  lookups, over the batch identifiers the jobs hold. The order is by time,
  latest first, ties in insertion order.\<close>

definition committed_relations :: "uuid list \<Rightarrow> (item_relation \<Rightarrow> uuid) \<Rightarrow> uuid
    \<Rightarrow> relation_kind list option \<Rightarrow> graph \<Rightarrow> item_relation list" where
  "committed_relations batches anchor_col anchor types g =
     sort_key (\<lambda>r. - rl_created_at r)
       (filter (\<lambda>r. rl_batch_id r \<in> set batches \<and> anchor_col r = anchor \<and>
           (case types of None \<Rightarrow> True | Some ts \<Rightarrow> rl_type r \<in> set ts)) (gr_relations g))"

end
