(* ===== verification/Database.thy ===== *)
theory Database
  imports Graph
begin

text \<open>
  The store the repositories of \<open>tribal-db\<close> run their statements on: the
  five tables of the durable-thread protocol as row lists in insertion
  order and the knowledge graph, the ambient values a statement reads (the transaction's \<open>now()\<close>, the
  process clock, the tracing context), the CHECK constraints of the
  migrations as row predicates, and the primitive statements (UPDATE and
  INSERT on one table) every repository operation is made of.

  A transaction is a function on the store, so row locks and isolation are
  its atomicity. A lost connection (\<open>DbError::QueryFailed\<close> from the driver) is
  not a value here: it drops the transaction and changes nothing.
\<close>

record env =
  env_now :: instant
  env_utc_now :: instant
  env_trace_id :: "string option"
  env_span_id :: "string option"

datatype db_error =
    DbQueryFailed string
  | DbUniqueViolation string string
  | DbNotFound string uuid
  | DbPanic string
  | DbSourceContextUnreadable uuid
  | DbSourceContextRejected uuid source_context_error

record db =
  db_jobs :: "job list"
  db_tasks :: "task list"
  db_threads :: "agent_thread list"
  db_records :: "thread_record list"
  db_drivers :: "driver_task list"
  db_graph :: graph

type_synonym 'a db_tx = "(db, db_error, 'a) tx"

definition db_empty :: db where
  "db_empty = \<lparr>db_jobs = [], db_tasks = [], db_threads = [], db_records = [], db_drivers = [],
     db_graph = graph_empty\<rparr>"

section \<open>CHECK constraints\<close>

definition task_check :: "task \<Rightarrow> bool" where
  "task_check t \<longleftrightarrow>
     (tk_status t = TaskClaimed \<longrightarrow>
        tk_claim_token t \<noteq> None \<and> tk_claimed_by t \<noteq> None \<and> tk_heartbeat_at t \<noteq> None) \<and>
     (tk_status t = TaskBlocked \<longrightarrow> tk_claim_token t = None) \<and>
     (tk_task_type t = Triage \<longleftrightarrow> tk_batch_index t \<noteq> None)"

definition job_check :: "job \<Rightarrow> bool" where
  "job_check j \<longleftrightarrow>
     (job_status_terminal (jb_status j) \<longleftrightarrow> jb_outcome j \<noteq> None) \<and>
     (jb_status j = JobCompleted \<longrightarrow>
        jb_outcome j \<in> {Some Success, Some Partial, Some Empty} \<and> jb_error_message j = None) \<and>
     (jb_status j = JobFailed \<longrightarrow> jb_outcome j = Some Failure \<and> jb_error_message j \<noteq> None)"

definition thread_anchor_check :: "agent_thread \<Rightarrow> bool" where
  "thread_anchor_check th \<longleftrightarrow>
     length (filter (\<lambda>a. a \<noteq> None) [th_stage_task_id th, th_driver_task_id th, th_run_key th]) = 1 \<and>
     (th_stage th = Managed \<longleftrightarrow> th_run_key th \<noteq> None) \<and>
     (th_stage th = Managed \<longleftrightarrow> th_binding_version_id th = None) \<and>
     (th_stage th = Managed \<or> th_principal_id th \<noteq> None) \<and>
     (th_run_key th = None \<or> th_job_id th = None)"

definition thread_check :: "agent_thread \<Rightarrow> bool" where
  "thread_check th \<longleftrightarrow>
     (th_status th = ThreadSuspended \<longleftrightarrow> th_suspension th \<noteq> None) \<and>
     (thread_status_terminal (th_status th) \<longleftrightarrow> th_completed_at th \<noteq> None) \<and>
     thread_anchor_check th"

definition record_check :: "thread_record \<Rightarrow> bool" where
  "record_check r \<longleftrightarrow>
     (rc_kind r = ToolResult \<longrightarrow> rc_requesting_seq r \<noteq> None \<and> rc_tool_call_id r \<noteq> None)"

definition driver_check :: "driver_task \<Rightarrow> bool" where
  "driver_check d \<longleftrightarrow>
     (dt_state d = DriverClaimed \<longrightarrow>
        dt_claim_token d \<noteq> None \<and> dt_claimed_by d \<noteq> None \<and> dt_heartbeat_at d \<noteq> None) \<and>
     (driver_state_terminal (dt_state d) \<longleftrightarrow> dt_completed_at d \<noteq> None)"

definition db_checks :: "db \<Rightarrow> bool" where
  "db_checks s \<longleftrightarrow>
     (\<forall>t \<in> set (db_tasks s). task_check t) \<and>
     (\<forall>j \<in> set (db_jobs s). job_check j) \<and>
     (\<forall>th \<in> set (db_threads s). thread_check th) \<and>
     (\<forall>r \<in> set (db_records s). record_check r) \<and>
     (\<forall>d \<in> set (db_drivers s). driver_check d)"

section \<open>Unique keys\<close>

definition record_fence :: "thread_record \<Rightarrow> uuid \<times> record_seq option \<times> string option" where
  "record_fence r = (rc_thread_id r, rc_requesting_seq r, rc_tool_call_id r)"

definition some_keys :: "('r \<Rightarrow> 'k option) \<Rightarrow> 'r list \<Rightarrow> 'k list" where
  "some_keys k rows = map (\<lambda>r. the (k r)) (filter (\<lambda>r. k r \<noteq> None) rows)"

definition singleton_key :: "task \<Rightarrow> (uuid \<times> task_type) option" where
  "singleton_key t = (if tk_task_type t = Triage then None else Some (tk_job_id t, tk_task_type t))"

definition triage_key :: "task \<Rightarrow> (uuid \<times> nat option) option" where
  "triage_key t = (if tk_task_type t = Triage then Some (tk_job_id t, tk_batch_index t) else None)"

definition idempotency_key :: "job \<Rightarrow> (uuid \<times> uuid) option" where
  "idempotency_key j = map_option (\<lambda>k. (jb_principal_id j, k)) (jb_ingest_idempotency_key j)"

definition db_unique :: "db \<Rightarrow> bool" where
  "db_unique s \<longleftrightarrow>
     distinct (map tk_id (db_tasks s)) \<and>
     distinct (some_keys singleton_key (db_tasks s)) \<and>
     distinct (some_keys triage_key (db_tasks s)) \<and>
     distinct (map jb_id (db_jobs s)) \<and>
     distinct (some_keys idempotency_key (db_jobs s)) \<and>
     distinct (map th_id (db_threads s)) \<and>
     distinct (some_keys th_stage_task_id (db_threads s)) \<and>
     distinct (some_keys th_driver_task_id (db_threads s)) \<and>
     distinct (some_keys th_run_key (db_threads s)) \<and>
     distinct (map (\<lambda>r. (rc_thread_id r, rc_seq r)) (db_records s)) \<and>
     distinct (map record_fence (filter (\<lambda>r. rc_kind r = ToolResult) (db_records s))) \<and>
     distinct (map dt_id (db_drivers s))"

lemma some_keys_Nil [simp]: "some_keys k [] = []"
  by (simp add: some_keys_def)

lemma some_keys_append [simp]: "some_keys k (xs @ ys) = some_keys k xs @ some_keys k ys"
  by (simp add: some_keys_def)

lemma some_keys_single [simp]: "some_keys k [r] = (case k r of None \<Rightarrow> [] | Some v \<Rightarrow> [v])"
  by (simp add: some_keys_def split: option.splits)

lemma set_some_keys: "v \<in> set (some_keys k rows) \<longleftrightarrow> (\<exists>r \<in> set rows. k r = Some v)"
  by (force simp: some_keys_def)

lemma some_keys_sql_update:
  "(\<And>r. P r \<Longrightarrow> k (f r) = k r) \<Longrightarrow> some_keys k (sql_update P f rows) = some_keys k rows"
  by (induction rows) (auto simp: some_keys_def sql_update_def)

lemma distinct_some_keys_eq:
  assumes "distinct (some_keys k rows)" "r \<in> set rows" "s \<in> set rows" "k r = Some v" "k s = Some v"
  shows "r = s"
  using assms by (fastforce simp: some_keys_def distinct_map inj_on_def)

section \<open>References and logs\<close>

text \<open>The foreign keys between the modelled tables.\<close>

definition db_refs :: "db \<Rightarrow> bool" where
  "db_refs s \<longleftrightarrow>
     (\<forall>t \<in> set (db_tasks s). tk_job_id t \<in> jb_id ` set (db_jobs s)) \<and>
     (\<forall>th \<in> set (db_threads s). \<forall>i. th_stage_task_id th = Some i \<longrightarrow> i \<in> tk_id ` set (db_tasks s)) \<and>
     (\<forall>r \<in> set (db_records s). rc_thread_id r \<in> th_id ` set (db_threads s)) \<and>
     (\<forall>d \<in> set (db_drivers s). dt_thread_id d \<in> th_id ` set (db_threads s))"

text \<open>A thread's log, and that every log is numbered from zero without gaps.\<close>

definition thread_log :: "uuid \<Rightarrow> db \<Rightarrow> thread_record list" where
  "thread_log th s = filter (\<lambda>r. rc_thread_id r = th) (db_records s)"

definition log_contiguous :: "db \<Rightarrow> bool" where
  "log_contiguous s \<longleftrightarrow>
     (\<forall>th. map rc_seq (thread_log th s) = map int [0..<length (thread_log th s)])"

section \<open>Primitive statements\<close>

definition update_tasks :: "(task \<Rightarrow> bool) \<Rightarrow> (task \<Rightarrow> task) \<Rightarrow> nat db_tx" where
  "update_tasks P f s =
     Inr (sql_count P (db_tasks s), s\<lparr>db_tasks := sql_update P f (db_tasks s)\<rparr>)"

definition update_jobs :: "(job \<Rightarrow> bool) \<Rightarrow> (job \<Rightarrow> job) \<Rightarrow> nat db_tx" where
  "update_jobs P f s =
     Inr (sql_count P (db_jobs s), s\<lparr>db_jobs := sql_update P f (db_jobs s)\<rparr>)"

definition update_threads :: "(agent_thread \<Rightarrow> bool) \<Rightarrow> (agent_thread \<Rightarrow> agent_thread) \<Rightarrow> nat db_tx" where
  "update_threads P f s =
     Inr (sql_count P (db_threads s), s\<lparr>db_threads := sql_update P f (db_threads s)\<rparr>)"

definition update_drivers :: "(driver_task \<Rightarrow> bool) \<Rightarrow> (driver_task \<Rightarrow> driver_task) \<Rightarrow> nat db_tx" where
  "update_drivers P f s =
     Inr (sql_count P (db_drivers s), s\<lparr>db_drivers := sql_update P f (db_drivers s)\<rparr>)"

text \<open>An INSERT fails on the first unique key its row would repeat; the other
  constraints (CHECKs and foreign keys) surface as a failed query.\<close>

definition insert_guard :: "bool \<Rightarrow> string \<Rightarrow> (bool \<times> string \<times> string) list \<Rightarrow> ('s, db_error, unit) tx" where
  "insert_guard ok ctx uniques s =
     (if \<not> ok then Inl (DbQueryFailed ctx)
      else case find fst uniques of
        Some (_, table, constraint) \<Rightarrow> Inl (DbUniqueViolation table constraint)
      | None \<Rightarrow> Inr ((), s))"

lemma insert_guard_Inr: "insert_guard ok ctx uniques s = Inr ((), s') \<longleftrightarrow>
   ok \<and> (\<forall>u \<in> set uniques. \<not> fst u) \<and> s' = s"
proof (cases "find fst uniques")
  case None
  then have "\<forall>u \<in> set uniques. \<not> fst u"
    by (metis find_None_iff)
  then show ?thesis using None by (auto simp: insert_guard_def)
next
  case (Some u)
  then show ?thesis by (auto simp: insert_guard_def dest!: find_Some_set split: prod.splits)
qed

lemma insert_guard_then: "tx_then (insert_guard ok ctx uniques) m s = Inr x \<longleftrightarrow>
   ok \<and> (\<forall>u \<in> set uniques. \<not> fst u) \<and> m s = Inr x"
proof (cases "insert_guard ok ctx uniques s")
  case (Inl e)
  then have "\<not> (ok \<and> (\<forall>u \<in> set uniques. \<not> fst u))"
    using insert_guard_Inr [of ok ctx uniques s s] by auto
  then show ?thesis using Inl by (auto simp: tx_then_def tx_bind_def)
next
  case (Inr r)
  obtain s' where "r = ((), s')" by (cases r) auto
  with Inr insert_guard_Inr [of ok ctx uniques s s'] show ?thesis
    by (auto simp: tx_then_def tx_bind_def)
qed

section \<open>Evolution of rows\<close>

text \<open>What the statements of this development may do to one row: its identity
  and lineage stay, its constraints stay, a terminal status stays, a
  cancellation intent stays, counters that only accumulate do not fall.\<close>

definition task_ok :: "task \<Rightarrow> bool" where
  "task_ok t \<longleftrightarrow> task_check t \<and> (tk_claim_token t \<noteq> None \<longleftrightarrow> tk_status t = TaskClaimed)"

definition driver_ok :: "driver_task \<Rightarrow> bool" where
  "driver_ok d \<longleftrightarrow> driver_check d \<and> (dt_claim_token d \<noteq> None \<longleftrightarrow> dt_state d = DriverClaimed)"

definition task_evolves :: "task \<Rightarrow> task \<Rightarrow> bool" where
  "task_evolves t t' \<longleftrightarrow>
     tk_id t' = tk_id t \<and> tk_job_id t' = tk_job_id t \<and> tk_task_type t' = tk_task_type t \<and>
     tk_batch_index t' = tk_batch_index t \<and> tk_created_at t' = tk_created_at t \<and>
     (task_ok t \<longrightarrow> task_ok t') \<and>
     (task_status_terminal (tk_status t) \<longrightarrow> tk_status t' = tk_status t)"

definition task_sheds :: "task \<Rightarrow> task \<Rightarrow> bool" where
  "task_sheds t t' \<longleftrightarrow> tk_claim_token t' = None \<or> tk_claim_token t' = tk_claim_token t"

definition driver_evolves :: "driver_task \<Rightarrow> driver_task \<Rightarrow> bool" where
  "driver_evolves d d' \<longleftrightarrow>
     dt_id d' = dt_id d \<and> dt_thread_id d' = dt_thread_id d \<and> dt_kind d' = dt_kind d \<and>
     dt_max_attempts d' = dt_max_attempts d \<and>
     (driver_ok d \<longrightarrow> driver_ok d') \<and>
     (driver_state_terminal (dt_state d) \<longrightarrow> dt_state d' = dt_state d)"

definition driver_sheds :: "driver_task \<Rightarrow> driver_task \<Rightarrow> bool" where
  "driver_sheds d d' \<longleftrightarrow> dt_claim_token d' = None \<or> dt_claim_token d' = dt_claim_token d"

definition job_evolves :: "job \<Rightarrow> job \<Rightarrow> bool" where
  "job_evolves j j' \<longleftrightarrow>
     jb_id j' = jb_id j \<and> jb_project_id j' = jb_project_id j \<and> jb_principal_id j' = jb_principal_id j \<and>
     jb_raw_input j' = jb_raw_input j \<and> jb_ingest_idempotency_key j' = jb_ingest_idempotency_key j \<and>
     (job_check j \<longrightarrow> job_check j') \<and>
     (job_status_terminal (jb_status j) \<longrightarrow> jb_status j' = jb_status j \<and> jb_outcome j' = jb_outcome j) \<and>
     (jb_committed_batch_id j \<noteq> None \<longrightarrow> jb_committed_batch_id j' = jb_committed_batch_id j)"

definition thread_lineage :: "agent_thread \<Rightarrow>
    uuid \<times> uuid option \<times> thread_stage \<times> uuid option \<times> uuid option \<times> uuid option \<times> uuid option" where
  "thread_lineage th = (th_id th, th_parent_thread_id th, th_stage th, th_stage_task_id th,
     th_driver_task_id th, th_run_key th, th_binding_version_id th)"

definition thread_evolves :: "agent_thread \<Rightarrow> agent_thread \<Rightarrow> bool" where
  "thread_evolves th th' \<longleftrightarrow>
     thread_lineage th' = thread_lineage th \<and>
     (thread_check th \<longrightarrow> thread_check th') \<and>
     (thread_status_terminal (th_status th) \<longrightarrow>
        th_status th' = th_status th \<and> th_completed_at th' = th_completed_at th) \<and>
     (th_cancel_requested_at th \<noteq> None \<longrightarrow> th_cancel_requested_at th' = th_cancel_requested_at th) \<and>
     th_recovery_attempts th \<le> th_recovery_attempts th'"

definition rows_evolve :: "('r \<Rightarrow> 'r \<Rightarrow> bool) \<Rightarrow> 'r list \<Rightarrow> 'r list \<Rightarrow> bool" where
  "rows_evolve E xs ys \<longleftrightarrow> length xs \<le> length ys \<and> list_all2 E xs (take (length xs) ys)"

definition db_ok :: "db \<Rightarrow> bool" where
  "db_ok s \<longleftrightarrow>
     (\<forall>t \<in> set (db_tasks s). task_ok t) \<and>
     (\<forall>j \<in> set (db_jobs s). job_check j) \<and>
     (\<forall>th \<in> set (db_threads s). thread_check th) \<and>
     (\<forall>r \<in> set (db_records s). record_check r) \<and>
     (\<forall>d \<in> set (db_drivers s). driver_ok d) \<and>
     db_unique s \<and> db_refs s \<and> log_contiguous s"

definition evolves :: "db \<Rightarrow> db \<Rightarrow> bool" where
  "evolves s s' \<longleftrightarrow>
     rows_evolve task_evolves (db_tasks s) (db_tasks s') \<and>
     rows_evolve job_evolves (db_jobs s) (db_jobs s') \<and>
     rows_evolve thread_evolves (db_threads s) (db_threads s') \<and>
     rows_evolve driver_evolves (db_drivers s) (db_drivers s') \<and>
     rows_evolve (=) (db_records s) (db_records s') \<and>
     (db_ok s \<longrightarrow> db_ok s')"

text \<open>The leases of a store, and the stores that gain none.\<close>

definition task_lease :: "uuid \<Rightarrow> uuid \<Rightarrow> db \<Rightarrow> bool" where
  "task_lease i tok s \<longleftrightarrow> (\<exists>t \<in> set (db_tasks s). tk_id t = i \<and> tk_claim_token t = Some tok)"

definition driver_lease :: "uuid \<Rightarrow> uuid \<Rightarrow> db \<Rightarrow> bool" where
  "driver_lease i tok s \<longleftrightarrow> (\<exists>d \<in> set (db_drivers s). dt_id d = i \<and> dt_claim_token d = Some tok)"

definition no_new_lease :: "db \<Rightarrow> db \<Rightarrow> bool" where
  "no_new_lease s s' \<longleftrightarrow> (\<forall>i tok. (task_lease i tok s' \<longrightarrow> task_lease i tok s) \<and>
     (driver_lease i tok s' \<longrightarrow> driver_lease i tok s))"

definition calm :: "db \<Rightarrow> db \<Rightarrow> bool" where
  "calm s s' \<longleftrightarrow> evolves s s' \<and> no_new_lease s s'"

lemmas lease_defs = no_new_lease_def task_lease_def driver_lease_def

lemma no_new_lease_trans: "no_new_lease s t \<Longrightarrow> no_new_lease t u \<Longrightarrow> no_new_lease s u"
  by (simp add: no_new_lease_def)

lemma db_ok_checks: "db_ok s \<Longrightarrow> db_checks s"
  by (simp add: db_ok_def db_checks_def task_ok_def driver_ok_def)

lemma rows_evolve_refl: "(\<And>x. E x x) \<Longrightarrow> rows_evolve E xs xs"
  by (simp add: rows_evolve_def list_all2_refl)

lemma rows_evolve_nth:
  "rows_evolve E xs ys \<longleftrightarrow> length xs \<le> length ys \<and> (\<forall>i < length xs. E (xs ! i) (ys ! i))"
  by (auto simp: rows_evolve_def list_all2_conv_all_nth)

lemma rows_evolve_trans:
  assumes "\<And>x y z. E x y \<Longrightarrow> E y z \<Longrightarrow> E x z" "rows_evolve E xs ys" "rows_evolve E ys zs"
  shows "rows_evolve E xs zs"
proof -
  have "E (xs ! i) (zs ! i)" if "i < length xs" for i
    using assms(1) [of "xs ! i" "ys ! i" "zs ! i"] assms(2,3) that by (simp add: rows_evolve_nth)
  then show ?thesis using assms(2,3) by (simp add: rows_evolve_nth)
qed

lemma rows_evolve_append: "(\<And>x. E x x) \<Longrightarrow> rows_evolve E xs (xs @ ys)"
  by (simp add: rows_evolve_def list_all2_refl)

lemma rows_evolve_update:
  "(\<And>x. E x x) \<Longrightarrow> (\<And>x. P x \<Longrightarrow> E x (f x)) \<Longrightarrow> rows_evolve E xs (sql_update P f xs)"
  by (simp add: rows_evolve_def sql_update_def list_all2_conv_all_nth)

lemma rows_evolve_mem:
  assumes "rows_evolve E xs ys" "x \<in> set xs"
  obtains y where "y \<in> set ys" "E x y"
proof -
  obtain i where i: "i < length xs" "xs ! i = x" using assms(2) by (auto simp: in_set_conv_nth)
  then have "E x (ys ! i)" "ys ! i \<in> set ys"
    using assms(1) by (auto simp: rows_evolve_def list_all2_conv_all_nth)
  then show ?thesis using that by blast
qed

lemma task_evolves_refl: "task_evolves t t"
  by (simp add: task_evolves_def)

lemma task_evolves_trans: "task_evolves t u \<Longrightarrow> task_evolves u v \<Longrightarrow> task_evolves t v"
  by (auto simp: task_evolves_def)

lemma driver_evolves_refl: "driver_evolves t t"
  by (simp add: driver_evolves_def)

lemma driver_evolves_trans: "driver_evolves t u \<Longrightarrow> driver_evolves u v \<Longrightarrow> driver_evolves t v"
  by (auto simp: driver_evolves_def)

lemma job_evolves_refl: "job_evolves t t"
  by (simp add: job_evolves_def)

lemma job_evolves_trans: "job_evolves t u \<Longrightarrow> job_evolves u v \<Longrightarrow> job_evolves t v"
  by (auto simp: job_evolves_def)

lemma thread_evolves_refl: "thread_evolves t t"
  by (simp add: thread_evolves_def)

lemma thread_evolves_trans: "thread_evolves t u \<Longrightarrow> thread_evolves u v \<Longrightarrow> thread_evolves t v"
  by (auto simp: thread_evolves_def)

lemmas row_evolves_refl = task_evolves_refl driver_evolves_refl job_evolves_refl thread_evolves_refl

lemma evolves_refl: "evolves s s"
  by (simp add: evolves_def rows_evolve_refl row_evolves_refl)

lemmas table_evolves_trans = rows_evolve_trans [OF task_evolves_trans]
  rows_evolve_trans [OF job_evolves_trans] rows_evolve_trans [OF thread_evolves_trans]
  rows_evolve_trans [OF driver_evolves_trans]

lemma records_evolve_trans: "rows_evolve (=) xs ys \<Longrightarrow> rows_evolve (=) ys zs \<Longrightarrow> rows_evolve (=) xs zs"
  by (rule rows_evolve_trans) auto

lemma evolves_trans: "evolves s t \<Longrightarrow> evolves t u \<Longrightarrow> evolves s u"
  unfolding evolves_def by (auto intro: table_evolves_trans records_evolve_trans)

interpretation evolves: store_order evolves
  by unfold_locales (rule evolves_refl, rule evolves_trans)

interpretation calm: store_order calm
  by unfold_locales (auto simp: calm_def no_new_lease_def intro: evolves_refl evolves_trans)

lemma calm_evolves: "calm s s' \<Longrightarrow> evolves s s'"
  by (simp add: calm_def)

lemma keeps_calm_evolves: "keeps calm m \<Longrightarrow> keeps evolves m"
  by (auto simp: keeps_def calm_def)

section \<open>The primitive statements keep the order\<close>

lemma sql_update_image: "(\<And>r. P r \<Longrightarrow> k (f r) = k r) \<Longrightarrow> k ` set (sql_update P f rows) = k ` set rows"
  using sql_update_map_key [of P k f rows] by (metis set_map)

lemma log_contiguous_other [simp]:
  "log_contiguous (s\<lparr>db_jobs := a\<rparr>) = log_contiguous s"
  "log_contiguous (s\<lparr>db_tasks := b\<rparr>) = log_contiguous s"
  "log_contiguous (s\<lparr>db_threads := c\<rparr>) = log_contiguous s"
  "log_contiguous (s\<lparr>db_drivers := d\<rparr>) = log_contiguous s"
  "log_contiguous (s\<lparr>db_graph := g\<rparr>) = log_contiguous s"
  by (simp_all add: log_contiguous_def thread_log_def)

lemma db_refs_update_tasks:
  assumes "\<And>t. P t \<Longrightarrow> task_evolves t (f t)" "db_refs s"
  shows "db_refs (s\<lparr>db_tasks := sql_update P f (db_tasks s)\<rparr>)"
  using assms unfolding db_refs_def task_evolves_def
  by (auto simp: sql_update_image elim!: sql_update_cases)

lemma db_refs_update_jobs:
  assumes "\<And>t. P t \<Longrightarrow> job_evolves t (f t)" "db_refs s"
  shows "db_refs (s\<lparr>db_jobs := sql_update P f (db_jobs s)\<rparr>)"
  using assms unfolding db_refs_def job_evolves_def by (simp add: sql_update_image)

lemma db_refs_update_threads:
  assumes "\<And>t. P t \<Longrightarrow> thread_evolves t (f t)" "db_refs s"
  shows "db_refs (s\<lparr>db_threads := sql_update P f (db_threads s)\<rparr>)"
  using assms unfolding db_refs_def thread_evolves_def thread_lineage_def
  by (auto simp: sql_update_image elim!: sql_update_cases)

lemma db_refs_update_drivers:
  assumes "\<And>t. P t \<Longrightarrow> driver_evolves t (f t)" "db_refs s"
  shows "db_refs (s\<lparr>db_drivers := sql_update P f (db_drivers s)\<rparr>)"
  using assms unfolding db_refs_def driver_evolves_def
  by (auto elim!: sql_update_cases)

lemma db_unique_update_tasks:
  assumes "\<And>t. P t \<Longrightarrow> task_evolves t (f t)" "db_unique s"
  shows "db_unique (s\<lparr>db_tasks := sql_update P f (db_tasks s)\<rparr>)"
  using assms unfolding db_unique_def task_evolves_def
  by (simp add: sql_update_map_key some_keys_sql_update singleton_key_def triage_key_def)

lemma db_unique_update_jobs:
  assumes "\<And>t. P t \<Longrightarrow> job_evolves t (f t)" "db_unique s"
  shows "db_unique (s\<lparr>db_jobs := sql_update P f (db_jobs s)\<rparr>)"
  using assms unfolding db_unique_def job_evolves_def
  by (simp add: sql_update_map_key some_keys_sql_update idempotency_key_def)

lemma db_unique_update_threads:
  assumes "\<And>t. P t \<Longrightarrow> thread_evolves t (f t)" "db_unique s"
  shows "db_unique (s\<lparr>db_threads := sql_update P f (db_threads s)\<rparr>)"
  using assms unfolding db_unique_def thread_evolves_def thread_lineage_def
  by (simp add: sql_update_map_key some_keys_sql_update)

lemma db_unique_update_drivers:
  assumes "\<And>t. P t \<Longrightarrow> driver_evolves t (f t)" "db_unique s"
  shows "db_unique (s\<lparr>db_drivers := sql_update P f (db_drivers s)\<rparr>)"
  using assms unfolding db_unique_def driver_evolves_def
  by (simp add: sql_update_map_key)

lemma evolves_update_tasks:
  assumes step: "\<And>t. P t \<Longrightarrow> task_evolves t (f t)"
  shows "evolves s (s\<lparr>db_tasks := sql_update P f (db_tasks s)\<rparr>)"
proof -
  have "db_ok s \<longrightarrow> db_ok (s\<lparr>db_tasks := sql_update P f (db_tasks s)\<rparr>)"
    using step db_unique_update_tasks [OF step] db_refs_update_tasks [OF step]
    by (auto simp: db_ok_def task_evolves_def elim!: sql_update_cases)
  then show ?thesis
    using step by (simp add: evolves_def rows_evolve_refl rows_evolve_update row_evolves_refl)
qed

lemma evolves_update_jobs:
  assumes step: "\<And>t. P t \<Longrightarrow> job_evolves t (f t)"
  shows "evolves s (s\<lparr>db_jobs := sql_update P f (db_jobs s)\<rparr>)"
proof -
  have "db_ok s \<longrightarrow> db_ok (s\<lparr>db_jobs := sql_update P f (db_jobs s)\<rparr>)"
    using step db_unique_update_jobs [OF step] db_refs_update_jobs [OF step]
    by (auto simp: db_ok_def job_evolves_def elim!: sql_update_cases)
  then show ?thesis
    using step by (simp add: evolves_def rows_evolve_refl rows_evolve_update row_evolves_refl)
qed

lemma evolves_update_threads:
  assumes step: "\<And>t. P t \<Longrightarrow> thread_evolves t (f t)"
  shows "evolves s (s\<lparr>db_threads := sql_update P f (db_threads s)\<rparr>)"
proof -
  have "db_ok s \<longrightarrow> db_ok (s\<lparr>db_threads := sql_update P f (db_threads s)\<rparr>)"
    using step db_unique_update_threads [OF step] db_refs_update_threads [OF step]
    by (auto simp: db_ok_def thread_evolves_def elim!: sql_update_cases)
  then show ?thesis
    using step by (simp add: evolves_def rows_evolve_refl rows_evolve_update row_evolves_refl)
qed

lemma evolves_update_drivers:
  assumes step: "\<And>t. P t \<Longrightarrow> driver_evolves t (f t)"
  shows "evolves s (s\<lparr>db_drivers := sql_update P f (db_drivers s)\<rparr>)"
proof -
  have "db_ok s \<longrightarrow> db_ok (s\<lparr>db_drivers := sql_update P f (db_drivers s)\<rparr>)"
    using step db_unique_update_drivers [OF step] db_refs_update_drivers [OF step]
    by (auto simp: db_ok_def driver_evolves_def elim!: sql_update_cases)
  then show ?thesis
    using step by (simp add: evolves_def rows_evolve_refl rows_evolve_update row_evolves_refl)
qed

lemma keeps_evolves_update_tasks:
  "(\<And>t. P t \<Longrightarrow> task_evolves t (f t)) \<Longrightarrow> keeps evolves (update_tasks P f)"
  by (auto simp: keeps_def update_tasks_def intro: evolves_update_tasks)

lemma keeps_evolves_update_drivers:
  "(\<And>t. P t \<Longrightarrow> driver_evolves t (f t)) \<Longrightarrow> keeps evolves (update_drivers P f)"
  by (auto simp: keeps_def update_drivers_def intro: evolves_update_drivers)

lemma keeps_calm_update_tasks:
  "(\<And>t. P t \<Longrightarrow> task_evolves t (f t) \<and> task_sheds t (f t)) \<Longrightarrow> keeps calm (update_tasks P f)"
  by (fastforce simp: keeps_def update_tasks_def calm_def lease_defs task_sheds_def task_evolves_def
      intro: evolves_update_tasks elim!: sql_update_cases)

lemma keeps_calm_update_jobs:
  "(\<And>t. P t \<Longrightarrow> job_evolves t (f t)) \<Longrightarrow> keeps calm (update_jobs P f)"
  by (auto simp: keeps_def update_jobs_def calm_def lease_defs intro: evolves_update_jobs)

lemma keeps_calm_update_threads:
  "(\<And>t. P t \<Longrightarrow> thread_evolves t (f t)) \<Longrightarrow> keeps calm (update_threads P f)"
  by (auto simp: keeps_def update_threads_def calm_def lease_defs intro: evolves_update_threads)

lemma keeps_calm_update_drivers:
  "(\<And>t. P t \<Longrightarrow> driver_evolves t (f t) \<and> driver_sheds t (f t)) \<Longrightarrow> keeps calm (update_drivers P f)"
  by (fastforce simp: keeps_def update_drivers_def calm_def lease_defs driver_sheds_def driver_evolves_def
      intro: evolves_update_drivers elim!: sql_update_cases)

lemma keeps_calm_insert_guard: "keeps calm (insert_guard ok ctx uniques)"
  by (auto simp: keeps_def insert_guard_Inr calm.order_refl)

lemmas keeps_calm_update = keeps_calm_update_tasks keeps_calm_update_jobs
  keeps_calm_update_threads keeps_calm_update_drivers

end
