(* ===== verification/LeaseQueue.thy ===== *)
theory LeaseQueue
  imports Database
begin

text \<open>
  The contract a queue family keeps with the workers that claim from it: a
  claim leases idle rows under fresh tokens, a row has one holder, and a
  write that names a token does its work exactly while that token holds the
  row. The stage tasks (\<open>TaskRepo\<close>), the driver tasks (\<open>DriverRepo\<close>), the
  reindex tasks (\<open>ReindexRepo\<close>) and the managed jobs (\<open>Admission\<close>, on their own
  database) are its instances; what a worker may rely on is
  proved once, here. \<open>ok\<close> is the invariant of the store the queue rests on.
\<close>

locale lease_queue =
  fixes ok :: "'s \<Rightarrow> bool"
    and lease :: "uuid \<Rightarrow> uuid \<Rightarrow> 's \<Rightarrow> bool"
    and ident :: "'row \<Rightarrow> uuid"
    and claim :: "env \<Rightarrow> (uuid \<Rightarrow> bool) \<Rightarrow> (uuid \<Rightarrow> uuid) \<Rightarrow> nat \<Rightarrow> string \<Rightarrow> ('s, 'e, 'row list) tx"
    and fenced :: "(uuid \<Rightarrow> uuid \<Rightarrow> ('s, 'e, nat) tx) set"
  assumes fenced_stale: "f \<in> fenced \<Longrightarrow> ok s \<Longrightarrow> \<not> lease i tok s \<Longrightarrow> f i tok s = Inr (n, s')
        \<Longrightarrow> n = 0 \<and> s' = s"
    and fenced_held: "f \<in> fenced \<Longrightarrow> ok s \<Longrightarrow> lease i tok s \<Longrightarrow> f i tok s = Inr (n, s') \<Longrightarrow> n = 1"
    and lease_unique: "ok s \<Longrightarrow> lease i a s \<Longrightarrow> lease i b s \<Longrightarrow> a = b"
    and claim_leases: "claim e locked fresh limit by s = Inr (rows, s') \<Longrightarrow> r \<in> set rows
        \<Longrightarrow> lease (ident r) (fresh (ident r)) s'"
    and claim_idle: "claim e locked fresh limit by s = Inr (rows, s') \<Longrightarrow> ok s \<Longrightarrow> r \<in> set rows
        \<Longrightarrow> \<not> lease (ident r) tok s"
    and claim_ok: "claim e locked fresh limit by s = Inr (rows, s') \<Longrightarrow> ok s \<Longrightarrow> ok s'"
    and claim_total: "\<exists>rows s'. claim e locked fresh limit by s = Inr (rows, s')"
begin

text \<open>Who held the row before a claim is fenced off by it.\<close>

lemma superseded:
  assumes "ok s" "claim e locked fresh limit by s = Inr (rows, s')" "r \<in> set rows"
    "tok \<noteq> fresh (ident r)" "f \<in> fenced" "f (ident r) tok s' = Inr (n, t)"
  shows "n = 0 \<and> t = s'"
proof -
  have "\<not> lease (ident r) tok s'"
    using claim_leases [OF assms(2,3)] lease_unique [OF claim_ok [OF assms(2,1)]] assms(4) by blast
  then show ?thesis using fenced_stale [OF assms(5) claim_ok [OF assms(2,1)] _ assms(6)] by blast
qed

text \<open>Two claims in a row never hand out the same row.\<close>

lemma claims_disjoint:
  assumes "ok s" "claim e locked fresh limit by s = Inr (rows, s')"
    "claim e2 locked2 fresh2 limit2 by2 s' = Inr (rows2, s2)"
  shows "ident ` set rows \<inter> ident ` set rows2 = {}"
proof -
  have False if "r \<in> set rows" "r2 \<in> set rows2" "ident r = ident r2" for r r2
    using claim_leases [OF assms(2) that(1)] claim_idle [OF assms(3) claim_ok [OF assms(2,1)] that(2)] that(3)
    by simp
  then show ?thesis by blast
qed

text \<open>The claimer's own writes land.\<close>

lemma claimer_writes:
  assumes "ok s" "claim e locked fresh limit by s = Inr (rows, s')" "r \<in> set rows"
    "f \<in> fenced" "f (ident r) (fresh (ident r)) s' = Inr (n, t)"
  shows "n = 1"
  using fenced_held [OF assms(4) claim_ok [OF assms(2,1)] claim_leases [OF assms(2,3)] assms(5)] .

end

end
