(* ===== verification/TaskRepo.thy ===== *)
theory TaskRepo
  imports LeaseQueue
begin

text \<open>
  The statements of \<open>PgTaskRepository\<close> (\<open>tribal-db/src/repositories/task.rs\<close>),
  one definition per method: the SET clause is the row function, the WHERE
  clause the row predicate, and the result is the affected row count or the
  returned rows. Rows another transaction holds, which \<open>SKIP LOCKED\<close> passes
  over, are the predicate \<open>locked\<close>; server-generated identifiers are arguments.
\<close>

record new_task =
  nt_job_id :: uuid
  nt_task_type :: task_type
  nt_batch_index :: "nat option"

record reclaim_outcome =
  ro_requeued :: nat
  ro_dead_lettered :: nat

definition new_task_row :: "env \<Rightarrow> uuid \<Rightarrow> new_task \<Rightarrow> task" where
  "new_task_row e i nt = \<lparr>tk_id = i, tk_job_id = nt_job_id nt, tk_task_type = nt_task_type nt,
     tk_status = TaskQueued, tk_batch_index = nt_batch_index nt, tk_claim_token = None,
     tk_available_at = env_now e, tk_claimed_by = None, tk_claimed_at = None,
     tk_heartbeat_at = None, tk_retry_count = 0, tk_error_kind = None, tk_error_message = None,
     tk_created_at = env_now e, tk_updated_at = env_now e\<rparr>"

definition batch_index_fits :: "new_task \<Rightarrow> bool" where
  "batch_index_fits nt = (case nt_batch_index nt of None \<Rightarrow> True | Some v \<Rightarrow> fits_i32 v)"

definition append_task :: "task \<Rightarrow> task db_tx" where
  "append_task t s = Inr (t, s\<lparr>db_tasks := db_tasks s @ [t]\<rparr>)"

definition task_insert :: "env \<Rightarrow> uuid \<Rightarrow> new_task \<Rightarrow> task db_tx" where
  "task_insert e i nt s =
     (let t = new_task_row e i nt in
      tx_then (tx_ensure (batch_index_fits nt) (DbPanic ''batch_index exceeds i32::MAX''))
     (tx_then (insert_guard
        (task_check t \<and> sql_exists (\<lambda>j. jb_id j = tk_job_id t) (db_jobs s))
        ''inserting task''
        [(sql_exists (\<lambda>r. tk_id r = i) (db_tasks s), ''tasks'', ''tasks_pkey''),
         (singleton_key t \<noteq> None \<and> sql_exists (\<lambda>r. singleton_key r = singleton_key t) (db_tasks s),
            ''tasks'', ''idx_tasks_unique_singleton''),
         (triage_key t \<noteq> None \<and> sql_exists (\<lambda>r. triage_key r = triage_key t) (db_tasks s),
            ''tasks'', ''idx_tasks_unique_triage'')])
      (append_task t)) s)"

definition task_find_by_id :: "uuid \<Rightarrow> task db_tx" where
  "task_find_by_id i s =
     (case find (\<lambda>t. tk_id t = i) (db_tasks s) of
        None \<Rightarrow> Inl (DbNotFound ''task'' i)
      | Some t \<Rightarrow> Inr (t, s))"

definition task_find_by_job_id :: "uuid \<Rightarrow> db \<Rightarrow> task list" where
  "task_find_by_job_id j s =
     sort_key (\<lambda>t. (tk_created_at t, tk_id t)) (filter (\<lambda>t. tk_job_id t = j) (db_tasks s))"

text \<open>\<open>CLAIM_ORDERING\<close>, the policy point of claim fairness.\<close>

definition claim_ordering :: "task \<Rightarrow> instant \<times> instant" where
  "claim_ordering t = (tk_available_at t, tk_created_at t)"

definition task_claimable :: "env \<Rightarrow> (uuid \<Rightarrow> bool) \<Rightarrow> nat \<Rightarrow> db \<Rightarrow> task list" where
  "task_claimable e locked limit s =
     sql_select_ordered
       (\<lambda>t. tk_status t = TaskQueued \<and> tk_available_at t \<le> env_now e \<and> \<not> locked (tk_id t))
       claim_ordering limit (db_tasks s)"

text \<open>The common table expression locks rows and the UPDATE joins them by primary
  key: it writes the selected rows themselves.\<close>

definition task_claim_row :: "env \<Rightarrow> uuid \<Rightarrow> string \<Rightarrow> task \<Rightarrow> task" where
  "task_claim_row e tok by t =
     t\<lparr>tk_status := TaskClaimed, tk_claim_token := Some tok, tk_claimed_by := Some by,
       tk_claimed_at := Some (env_now e), tk_heartbeat_at := Some (env_now e),
       tk_updated_at := env_now e\<rparr>"

definition task_claim :: "env \<Rightarrow> (uuid \<Rightarrow> bool) \<Rightarrow> (uuid \<Rightarrow> uuid) \<Rightarrow> nat \<Rightarrow> string \<Rightarrow> task list db_tx" where
  "task_claim e locked fresh limit by s =
     (let hit = (\<lambda>t. t \<in> set (task_claimable e locked limit s));
          f = (\<lambda>t. task_claim_row e (fresh (tk_id t)) by t);
          rows = map f (filter hit (db_tasks s)) in
      tx_then (update_tasks hit f) (tx_return rows) s)"

definition holds_task :: "uuid \<Rightarrow> uuid \<Rightarrow> task \<Rightarrow> bool" where
  "holds_task i tok t \<longleftrightarrow> tk_id t = i \<and> tk_claim_token t = Some tok \<and> tk_status t = TaskClaimed"

definition task_heartbeat :: "env \<Rightarrow> uuid \<Rightarrow> uuid \<Rightarrow> nat db_tx" where
  "task_heartbeat e i tok = update_tasks (holds_task i tok)
     (\<lambda>t. t\<lparr>tk_heartbeat_at := Some (env_now e), tk_updated_at := env_now e\<rparr>)"

definition task_reset_retry_count :: "env \<Rightarrow> uuid \<Rightarrow> uuid \<Rightarrow> nat db_tx" where
  "task_reset_retry_count e i tok = update_tasks (holds_task i tok)
     (\<lambda>t. t\<lparr>tk_retry_count := 0, tk_updated_at := env_now e\<rparr>)"

definition task_complete :: "env \<Rightarrow> uuid \<Rightarrow> uuid \<Rightarrow> nat db_tx" where
  "task_complete e i tok = update_tasks (holds_task i tok)
     (\<lambda>t. t\<lparr>tk_status := TaskCompleted, tk_claim_token := None, tk_updated_at := env_now e\<rparr>)"

text \<open>The lease columns every release writes.\<close>

definition task_unlease :: "task \<Rightarrow> task" where
  "task_unlease t = t\<lparr>tk_claim_token := None, tk_claimed_by := None, tk_claimed_at := None,
     tk_heartbeat_at := None\<rparr>"

definition task_fail :: "env \<Rightarrow> uuid \<Rightarrow> uuid \<Rightarrow> nat \<Rightarrow> instant \<Rightarrow> task_error_kind \<Rightarrow> string \<Rightarrow> nat db_tx" where
  "task_fail e i tok max_retries available kind msg =
     tx_then (tx_ensure (fits_i32 max_retries) (DbPanic ''max_retries exceeds i32::MAX''))
     (update_tasks (holds_task i tok)
       (\<lambda>t. (task_unlease t)\<lparr>
          tk_retry_count := tk_retry_count t + 1,
          tk_status := (if tk_retry_count t + 1 > max_retries then TaskDeadLetter else TaskQueued),
          tk_available_at := (if tk_retry_count t + 1 > max_retries then tk_available_at t else available),
          tk_error_kind := Some kind, tk_error_message := Some msg, tk_updated_at := env_now e\<rparr>))"

definition drives_thread :: "db \<Rightarrow> task \<Rightarrow> bool" where
  "drives_thread s t = sql_exists (\<lambda>th. th_stage_task_id th = Some (tk_id t)) (db_threads s)"

definition task_stale :: "env \<Rightarrow> nat \<Rightarrow> task \<Rightarrow> bool" where
  "task_stale e timeout t \<longleftrightarrow> tk_status t = TaskClaimed \<and>
     (case tk_heartbeat_at t of None \<Rightarrow> False
      | Some h \<Rightarrow> h < env_now e - seconds (int timeout))"

definition task_reclaim_row :: "env \<Rightarrow> nat \<Rightarrow> task_error_kind \<Rightarrow> string \<Rightarrow> nat option \<Rightarrow> task \<Rightarrow> task" where
  "task_reclaim_row e max_retries kind msg flat t =
     (task_unlease t)\<lparr>
        tk_retry_count := tk_retry_count t + 1,
        tk_status := (if tk_retry_count t + 1 > max_retries then TaskDeadLetter else TaskQueued),
        tk_available_at :=
          (if tk_retry_count t + 1 > max_retries then tk_available_at t
           else case flat of
             Some f \<Rightarrow> env_now e + seconds (int f)
           | None \<Rightarrow> env_now e + seconds (2 ^ tk_retry_count t)),
        tk_error_kind := Some kind, tk_error_message := Some msg, tk_updated_at := env_now e\<rparr>"

definition task_reclaim_stale :: "env \<Rightarrow> (uuid \<Rightarrow> bool) \<Rightarrow> nat \<Rightarrow> nat \<Rightarrow> nat \<Rightarrow> task_error_kind \<Rightarrow> string
    \<Rightarrow> nat option \<Rightarrow> reclaim_outcome db_tx" where
  "task_reclaim_stale e locked timeout max_retries limit kind msg flat s =
     (let stale = sql_select_ordered
            (\<lambda>t. task_stale e timeout t \<and> \<not> drives_thread s t \<and> \<not> locked (tk_id t))
            tk_heartbeat_at limit (db_tasks s);
          hit = (\<lambda>t. t \<in> set stale);
          f = task_reclaim_row e max_retries kind msg flat;
          rows = map f (filter hit (db_tasks s)) in
      tx_then (tx_ensure (fits_i32 max_retries) (DbPanic ''max_retries exceeds i32::MAX''))
     (tx_then (update_tasks hit f)
      (tx_return \<lparr>ro_requeued = sql_count (\<lambda>t. tk_status t = TaskQueued) rows,
                  ro_dead_lettered = sql_count (\<lambda>t. tk_status t = TaskDeadLetter) rows\<rparr>)) s)"

definition task_lock_stale_thread_driving :: "env \<Rightarrow> (uuid \<Rightarrow> bool) \<Rightarrow> nat \<Rightarrow> db \<Rightarrow> task option" where
  "task_lock_stale_thread_driving e locked timeout s =
     (case sql_select_ordered
         (\<lambda>t. task_stale e timeout t \<and> drives_thread s t \<and> \<not> locked (tk_id t))
         tk_heartbeat_at 1 (db_tasks s) of
        [] \<Rightarrow> None
      | t # _ \<Rightarrow> Some t)"

definition task_requeue_claimed :: "env \<Rightarrow> uuid \<Rightarrow> uuid \<Rightarrow> nat \<Rightarrow> instant \<Rightarrow> task_error_kind \<Rightarrow> string \<Rightarrow> nat db_tx" where
  "task_requeue_claimed e i tok retries available kind msg =
     tx_then (tx_ensure (fits_i32 retries) (DbPanic ''max_retries exceeds i32::MAX''))
     (update_tasks (holds_task i tok)
       (\<lambda>t. (task_unlease t)\<lparr>tk_retry_count := retries, tk_status := TaskQueued,
          tk_available_at := available, tk_error_kind := Some kind, tk_error_message := Some msg,
          tk_updated_at := env_now e\<rparr>))"

definition task_reclaim_requeue :: "env \<Rightarrow> uuid \<Rightarrow> nat \<Rightarrow> nat \<Rightarrow> task_error_kind \<Rightarrow> string \<Rightarrow> nat db_tx" where
  "task_reclaim_requeue e i retries backoff kind msg =
     tx_then (tx_ensure (fits_i32 retries) (DbPanic ''max_retries exceeds i32::MAX''))
     (update_tasks (\<lambda>t. tk_id t = i \<and> tk_status t = TaskClaimed)
       (\<lambda>t. (task_unlease t)\<lparr>tk_retry_count := retries, tk_status := TaskQueued,
          tk_available_at := env_now e + seconds (int backoff), tk_error_kind := Some kind,
          tk_error_message := Some msg, tk_updated_at := env_now e\<rparr>))"

definition task_count_live_siblings :: "uuid \<Rightarrow> task_type \<Rightarrow> uuid \<Rightarrow> db \<Rightarrow> nat" where
  "task_count_live_siblings job ty exclude s =
     sql_count (\<lambda>t. tk_job_id t = job \<and> tk_task_type t = ty \<and>
        \<not> tk_status t \<in> set task_terminal_set \<and> tk_id t \<noteq> exclude) (db_tasks s)"

definition task_block :: "env \<Rightarrow> uuid \<Rightarrow> uuid \<Rightarrow> nat db_tx" where
  "task_block e i tok = update_tasks (holds_task i tok)
     (\<lambda>t. (task_unlease t)\<lparr>tk_status := TaskBlocked, tk_updated_at := env_now e\<rparr>)"

definition task_requeue_from_blocked :: "env \<Rightarrow> uuid \<Rightarrow> nat db_tx" where
  "task_requeue_from_blocked e i = update_tasks (\<lambda>t. tk_id t = i \<and> tk_status t = TaskBlocked)
     (\<lambda>t. t\<lparr>tk_status := TaskQueued, tk_available_at := env_now e, tk_updated_at := env_now e\<rparr>)"

definition task_holds_claim :: "uuid \<Rightarrow> uuid \<Rightarrow> db \<Rightarrow> bool" where
  "task_holds_claim i tok s =
     sql_exists (\<lambda>t. tk_id t = i \<and> tk_claim_token t = Some tok) (db_tasks s)"

definition task_dead_letter_claimed :: "env \<Rightarrow> uuid \<Rightarrow> uuid \<Rightarrow> task_error_kind \<Rightarrow> string \<Rightarrow> nat db_tx" where
  "task_dead_letter_claimed e i tok kind msg = update_tasks (holds_task i tok)
     (\<lambda>t. (task_unlease t)\<lparr>tk_status := TaskDeadLetter, tk_error_kind := Some kind,
        tk_error_message := Some msg, tk_updated_at := env_now e\<rparr>)"

definition task_dead_letter_unclaimed :: "env \<Rightarrow> uuid \<Rightarrow> task_error_kind \<Rightarrow> string \<Rightarrow> nat db_tx" where
  "task_dead_letter_unclaimed e i kind msg =
     update_tasks (\<lambda>t. tk_id t = i \<and> tk_claim_token t = None \<and>
        \<not> tk_status t \<in> set task_terminal_set)
     (\<lambda>t. t\<lparr>tk_status := TaskDeadLetter, tk_error_kind := Some kind,
        tk_error_message := Some msg, tk_updated_at := env_now e\<rparr>)"

definition task_upsert :: "env \<Rightarrow> uuid \<Rightarrow> new_task \<Rightarrow> nat db_tx" where
  "task_upsert e i nt s =
     (let t = new_task_row e i nt in
      tx_then (tx_ensure (nt_task_type nt \<noteq> Triage)
        (DbPanic ''upsert is only valid for singleton task types (extraction, relation)''))
     (tx_then (tx_ensure (nt_batch_index nt = None)
        (DbPanic ''singleton tasks must not have a batch_index''))
     (if sql_exists (\<lambda>r. singleton_key r = singleton_key t) (db_tasks s) then tx_return 0
      else tx_then (insert_guard (sql_exists (\<lambda>j. jb_id j = tk_job_id t) (db_jobs s))
          ''upserting task''
          [(sql_exists (\<lambda>r. tk_id r = i) (db_tasks s), ''tasks'', ''tasks_pkey'')])
        (tx_then (append_task t) (tx_return 1)))) s)"

text \<open>\<open>GROUP BY task_type, status\<close> over the two gauged statuses; groups without
  rows do not appear.\<close>

definition task_count_by_status :: "db \<Rightarrow> (task_type \<times> task_status \<times> nat) list" where
  "task_count_by_status s =
     filter (\<lambda>(_, _, n). n \<noteq> 0)
       (map (\<lambda>(ty, st). (ty, st, sql_count (\<lambda>t. tk_task_type t = ty \<and> tk_status t = st) (db_tasks s)))
         (List.product [Extraction, Triage, Relation] [TaskQueued, TaskClaimed]))"

section \<open>Constraints are kept\<close>

lemmas task_statement_defs = task_heartbeat_def task_reset_retry_count_def task_complete_def
  task_fail_def task_requeue_claimed_def task_reclaim_requeue_def task_block_def
  task_requeue_from_blocked_def task_dead_letter_claimed_def task_dead_letter_unclaimed_def

lemma task_unlease_sel [simp]:
  "tk_id (task_unlease t) = tk_id t" "tk_job_id (task_unlease t) = tk_job_id t"
  "tk_task_type (task_unlease t) = tk_task_type t" "tk_status (task_unlease t) = tk_status t"
  "tk_batch_index (task_unlease t) = tk_batch_index t" "tk_claim_token (task_unlease t) = None"
  "tk_created_at (task_unlease t) = tk_created_at t" "tk_retry_count (task_unlease t) = tk_retry_count t"
  "tk_available_at (task_unlease t) = tk_available_at t"
  by (simp_all add: task_unlease_def)

lemma task_claim_row_sel [simp]:
  "tk_id (task_claim_row e tok by t) = tk_id t" "tk_job_id (task_claim_row e tok by t) = tk_job_id t"
  "tk_task_type (task_claim_row e tok by t) = tk_task_type t"
  "tk_status (task_claim_row e tok by t) = TaskClaimed"
  "tk_batch_index (task_claim_row e tok by t) = tk_batch_index t"
  "tk_claim_token (task_claim_row e tok by t) = Some tok"
  "tk_created_at (task_claim_row e tok by t) = tk_created_at t"
  by (simp_all add: task_claim_row_def)

lemma task_reclaim_row_sel [simp]:
  "tk_id (task_reclaim_row e m k msg fl t) = tk_id t"
  "tk_job_id (task_reclaim_row e m k msg fl t) = tk_job_id t"
  "tk_task_type (task_reclaim_row e m k msg fl t) = tk_task_type t"
  "tk_batch_index (task_reclaim_row e m k msg fl t) = tk_batch_index t"
  "tk_claim_token (task_reclaim_row e m k msg fl t) = None"
  "tk_created_at (task_reclaim_row e m k msg fl t) = tk_created_at t"
  by (simp_all add: task_reclaim_row_def)

lemmas task_row_evolves = task_evolves_def task_sheds_def task_ok_def task_check_def
  holds_task_def task_status_terminal_def task_terminal_set_iff

lemma keeps_calm_task_statements:
  "keeps calm (task_heartbeat e i tok)"
  "keeps calm (task_reset_retry_count e i tok)"
  "keeps calm (task_complete e i tok)"
  "keeps calm (task_fail e i tok m av k msg)"
  "keeps calm (task_requeue_claimed e i tok r av k msg)"
  "keeps calm (task_reclaim_requeue e i r b k msg)"
  "keeps calm (task_block e i tok)"
  "keeps calm (task_requeue_from_blocked e i)"
  "keeps calm (task_dead_letter_claimed e i tok k msg)"
  "keeps calm (task_dead_letter_unclaimed e i k msg)"
  unfolding task_statement_defs
  by (intro calm.keeps_intros keeps_calm_update; simp add: task_row_evolves)+

lemma new_task_row_ok: "task_check (new_task_row e i nt) \<Longrightarrow> task_ok (new_task_row e i nt)"
  by (simp add: task_ok_def new_task_row_def)

lemma append_task_calm:
  assumes "task_check t" "t = new_task_row e i nt" "\<exists>j \<in> set (db_jobs s). jb_id j = tk_job_id t"
    "\<forall>r \<in> set (db_tasks s). tk_id r \<noteq> tk_id t \<and>
       (singleton_key t \<noteq> None \<longrightarrow> singleton_key r \<noteq> singleton_key t) \<and>
       (triage_key t \<noteq> None \<longrightarrow> triage_key r \<noteq> triage_key t)"
  shows "calm s (s\<lparr>db_tasks := db_tasks s @ [t]\<rparr>)"
proof -
  have "tk_claim_token t = None" "task_ok t"
    using assms(1,2) new_task_row_ok by (auto simp: new_task_row_def)
  moreover have "db_unique s \<longrightarrow> db_unique (s\<lparr>db_tasks := db_tasks s @ [t]\<rparr>)"
    using assms(4) by (auto simp: db_unique_def set_some_keys split: option.splits)
  moreover have "db_refs s \<longrightarrow> db_refs (s\<lparr>db_tasks := db_tasks s @ [t]\<rparr>)"
  proof -
    have "tk_job_id t \<in> jb_id ` set (db_jobs s)" using assms(3) by (metis imageI)
    then show ?thesis by (auto simp: db_refs_def)
  qed
  ultimately show ?thesis
    by (auto simp: calm_def evolves_def rows_evolve_refl rows_evolve_append row_evolves_refl
        db_ok_def lease_defs)
qed

lemma append_task_then [tx_simps]:
  "tx_then (append_task t) m s = m (s\<lparr>db_tasks := db_tasks s @ [t]\<rparr>)"
  by (simp add: append_task_def tx_then_def tx_bind_def)

lemma task_insert_Inr:
  "task_insert e i nt s = Inr (t, s') \<longleftrightarrow>
     t = new_task_row e i nt \<and> s' = s\<lparr>db_tasks := db_tasks s @ [t]\<rparr> \<and>
     batch_index_fits nt \<and> task_check t \<and> (\<exists>j \<in> set (db_jobs s). jb_id j = nt_job_id nt) \<and>
     (\<forall>r \<in> set (db_tasks s). tk_id r \<noteq> i \<and>
       (singleton_key t \<noteq> None \<longrightarrow> singleton_key r \<noteq> singleton_key t) \<and>
       (triage_key t \<noteq> None \<longrightarrow> triage_key r \<noteq> triage_key t))"
proof -
  have [simp]: "tk_job_id (new_task_row e i nt) = nt_job_id nt" by (simp add: new_task_row_def)
  show ?thesis
    by (auto simp: task_insert_def Let_def tx_then_def [of "tx_ensure b x" for b x] tx_bind_def
        tx_ensure_app insert_guard_then sql_exists_iff append_task_def split: if_splits)
qed

lemma keeps_calm_task_insert: "keeps calm (task_insert e i nt)"
proof (rule keepsI)
  fix s t s' assume run: "task_insert e i nt s = Inr (t, s')"
  let ?t = "new_task_row e i nt"
  have keys: "tk_id ?t = i" "tk_job_id ?t = nt_job_id nt"
    by (simp_all add: new_task_row_def)
  have "calm s (s\<lparr>db_tasks := db_tasks s @ [?t]\<rparr>)"
    by (rule append_task_calm [OF _ refl]) (use run keys in \<open>unfold task_insert_Inr, metis\<close>)+
  then show "calm s s'"
    using run by (simp add: task_insert_Inr)
qed

lemma task_upsert_Inr:
  "task_upsert e i nt s = Inr (n, s') \<longleftrightarrow>
     nt_task_type nt \<noteq> Triage \<and> nt_batch_index nt = None \<and>
     (if \<exists>r \<in> set (db_tasks s). singleton_key r = Some (nt_job_id nt, nt_task_type nt)
      then n = 0 \<and> s' = s
      else n = 1 \<and> s' = s\<lparr>db_tasks := db_tasks s @ [new_task_row e i nt]\<rparr> \<and>
        (\<exists>j \<in> set (db_jobs s). jb_id j = nt_job_id nt) \<and> (\<forall>r \<in> set (db_tasks s). tk_id r \<noteq> i))"
proof -
  have [simp]: "tk_job_id (new_task_row e i nt) = nt_job_id nt"
    "tk_task_type (new_task_row e i nt) = nt_task_type nt" by (simp_all add: new_task_row_def)
  show ?thesis
    by (auto simp: task_upsert_def Let_def tx_then_def [of "tx_ensure b x" for b x] tx_bind_def
        tx_ensure_app insert_guard_then sql_exists_iff append_task_then tx_return_app
        singleton_key_def split: if_splits)
qed

lemma keeps_calm_task_upsert: "keeps calm (task_upsert e i nt)"
proof (rule keepsI)
  fix s n s' assume run: "task_upsert e i nt s = Inr (n, s')"
  let ?t = "new_task_row e i nt"
  have "task_check ?t" "singleton_key ?t = Some (nt_job_id nt, nt_task_type nt)" "triage_key ?t = None"
    "tk_id ?t = i" "tk_job_id ?t = nt_job_id nt"
    using run by (auto simp: task_upsert_Inr new_task_row_def task_check_def singleton_key_def triage_key_def)
  then have "calm s (s\<lparr>db_tasks := db_tasks s @ [?t]\<rparr>)" if "s' \<noteq> s"
    using run that unfolding task_upsert_Inr
    by (intro append_task_calm [OF _ refl]) (auto split: if_splits)
  then show "calm s s'"
    using run by (cases "s' = s") (auto simp: task_upsert_Inr calm.order_refl split: if_splits)
qed

lemma keeps_calm_task_reclaim_stale:
  "keeps calm (task_reclaim_stale e locked timeout m limit k msg flat)"
proof (rule keepsI)
  fix s a s' assume run: "task_reclaim_stale e locked timeout m limit k msg flat s = Inr (a, s')"
  define stale where "stale = sql_select_ordered
            (\<lambda>t. task_stale e timeout t \<and> \<not> drives_thread s t \<and> \<not> locked (tk_id t))
            tk_heartbeat_at limit (db_tasks s)"
  have "tk_status t = TaskClaimed" if "t \<in> set stale" for t
    using that set_sql_select_ordered unfolding stale_def task_stale_def by fastforce
  then have "keeps calm (update_tasks (\<lambda>t. t \<in> set stale) (task_reclaim_row e m k msg flat))"
    by (intro keeps_calm_update) (auto simp: task_row_evolves task_reclaim_row_def)
  then show "calm s s'"
    using run
    by (auto simp: task_reclaim_stale_def Let_def keeps_def tx_defs update_tasks_def
        simp flip: stale_def split: if_splits)
qed

lemma task_claimable_mem:
  assumes "t \<in> set (task_claimable e locked limit s)"
  shows "t \<in> set (db_tasks s) \<and> tk_status t = TaskQueued \<and> tk_available_at t \<le> env_now e \<and> \<not> locked (tk_id t)"
  using assms set_sql_select_ordered unfolding task_claimable_def by fastforce

section \<open>The stage tasks are a lease queue\<close>

lemma task_claim_Inr:
  assumes "task_claim e locked fresh limit by s = Inr (rows, s')"
  shows "s' = s\<lparr>db_tasks := sql_update (\<lambda>t. t \<in> set (task_claimable e locked limit s))
      (\<lambda>t. task_claim_row e (fresh (tk_id t)) by t) (db_tasks s)\<rparr>"
    "rows = map (\<lambda>t. task_claim_row e (fresh (tk_id t)) by t)
      (filter (\<lambda>t. t \<in> set (task_claimable e locked limit s)) (db_tasks s))"
  using assms by (auto simp: task_claim_def Let_def update_tasks_def tx_defs)

lemma task_claim_evolves:
  assumes "task_claim e locked fresh limit by s = Inr (rows, s')"
  shows "evolves s s'"
proof -
  have "task_evolves t (task_claim_row e (fresh (tk_id t)) by t)" if "t \<in> set (task_claimable e locked limit s)" for t
    using task_claimable_mem [OF that]
    by (auto simp: task_row_evolves) (simp_all add: task_claim_row_def)
  then show ?thesis unfolding task_claim_Inr(1) [OF assms] by (rule evolves_update_tasks)
qed

text \<open>The writes a worker makes under its claim.\<close>

inductive_set task_fenced :: "(uuid \<Rightarrow> uuid \<Rightarrow> nat db_tx) set" where
  "task_heartbeat e \<in> task_fenced"
| "task_reset_retry_count e \<in> task_fenced"
| "task_complete e \<in> task_fenced"
| "task_block e \<in> task_fenced"
| "(\<lambda>i tok. task_fail e i tok m av k msg) \<in> task_fenced"
| "(\<lambda>i tok. task_requeue_claimed e i tok r av k msg) \<in> task_fenced"
| "(\<lambda>i tok. task_dead_letter_claimed e i tok k msg) \<in> task_fenced"

lemma task_fenced_shape:
  assumes "f \<in> task_fenced" "f i tok s = Inr (n, s')"
  shows "\<exists>g. update_tasks (holds_task i tok) g s = Inr (n, s')"
  using assms
  by (cases rule: task_fenced.cases) (auto simp: task_statement_defs tx_defs split: if_splits)

lemma holds_task_iff_lease:
  assumes "db_ok s"
  shows "(\<exists>t \<in> set (db_tasks s). holds_task i tok t) \<longleftrightarrow> task_lease i tok s"
proof -
  have "tk_status t = TaskClaimed" if "t \<in> set (db_tasks s)" "tk_claim_token t = Some tok" for t
    using assms that by (auto simp: db_ok_def task_ok_def)
  then show ?thesis by (auto simp: holds_task_def task_lease_def)
qed

lemma task_row_unique: "db_ok s \<Longrightarrow> t \<in> set (db_tasks s) \<Longrightarrow> u \<in> set (db_tasks s) \<Longrightarrow> tk_id t = tk_id u \<Longrightarrow> t = u"
  by (auto simp: db_ok_def db_unique_def dest: distinct_map_key_eq)

lemma update_held:
  assumes "update_tasks (holds_task i tok) g s = Inr (n, s')" "db_ok s"
  shows "task_lease i tok s \<Longrightarrow> n = 1" "\<not> task_lease i tok s \<Longrightarrow> n = 0 \<and> s' = s"
proof -
  have n: "n = sql_count (holds_task i tok) (db_tasks s)"
    and s': "s' = s\<lparr>db_tasks := sql_update (holds_task i tok) g (db_tasks s)\<rparr>"
    using assms(1) by (auto simp: update_tasks_def)
  have "n \<le> 1"
    using assms(2) unfolding n
    by (intro sql_count_distinct_le_one [of tk_id]) (auto simp: db_ok_def db_unique_def holds_task_def)
  moreover have "n \<noteq> 0 \<longleftrightarrow> task_lease i tok s"
    unfolding n sql_count_pos using holds_task_iff_lease [OF assms(2)] .
  ultimately show "task_lease i tok s \<Longrightarrow> n = 1" "\<not> task_lease i tok s \<Longrightarrow> n = 0 \<and> s' = s"
    using n s' by (auto simp: sql_update_none)
qed

interpretation task_queue: lease_queue db_ok task_lease tk_id task_claim task_fenced
proof
  fix f s i tok n s'
  assume f: "f \<in> task_fenced" "db_ok s" "f i tok s = Inr (n, s')"
  show "\<not> task_lease i tok s \<Longrightarrow> n = 0 \<and> s' = s" "task_lease i tok s \<Longrightarrow> n = 1"
    using task_fenced_shape [OF f(1,3)] update_held [OF _ f(2)] by blast+
next
  fix s i a b
  show "db_ok s \<Longrightarrow> task_lease i a s \<Longrightarrow> task_lease i b s \<Longrightarrow> a = b"
    unfolding task_lease_def by (metis option.inject task_row_unique)
next
  fix e locked fresh limit "by" s rows s' r tok
  assume c: "task_claim e locked fresh limit by s = Inr (rows, s')"
  show "r \<in> set rows \<Longrightarrow> task_lease (tk_id r) (fresh (tk_id r)) s'"
    unfolding task_claim_Inr [OF c] by (auto simp: task_lease_def set_sql_update)
  show "db_ok s'" if "db_ok s" using task_claim_evolves [OF c] that by (simp add: evolves_def)
  show "\<not> task_lease (tk_id r) tok s" if ok: "db_ok s" and r: "r \<in> set rows"
  proof -
    obtain t where "t \<in> set (task_claimable e locked limit s)" "tk_id r = tk_id t"
      using r unfolding task_claim_Inr(2) [OF c] by auto
    moreover from this have "t \<in> set (db_tasks s)" "tk_status t = TaskQueued" using task_claimable_mem by blast+
    moreover from this have "tk_claim_token t = None" using ok by (auto simp: db_ok_def task_ok_def)
    ultimately show ?thesis using task_row_unique [OF ok] unfolding task_lease_def by (metis option.distinct(1))
  qed
qed (auto simp: task_claim_def Let_def tx_defs update_tasks_def)

end
