(* ===== verification/ThreadRepo.thy ===== *)
theory ThreadRepo
  imports Database
begin

text \<open>
  The statements of \<open>PgAgentThreadRepository\<close>
  (\<open>tribal-db/src/repositories/agent_thread.rs\<close>): creation, the compare-and-set
  status transitions, the cancellation intents, the sweep scans and the
  retention prune.
\<close>

text \<open>The driving reference of a new thread; a managed run is anchored by its
  run key.\<close>

datatype driving_task_ref = StageRef uuid | DriverRef uuid | ManagedRef uuid

record new_thread =
  nth_parent_thread_id :: "uuid option"
  nth_stage :: thread_stage
  nth_binding_version_id :: "uuid option"
  nth_driving_task :: driving_task_ref
  nth_principal_id :: "uuid option"
  nth_job_id :: "uuid option"
  nth_format_version :: nat
  nth_run_claim_token :: "uuid option"

definition new_thread_row :: "env \<Rightarrow> uuid \<Rightarrow> new_thread \<Rightarrow> agent_thread" where
  "new_thread_row e i n = \<lparr>th_id = i, th_parent_thread_id = nth_parent_thread_id n,
     th_stage = nth_stage n, th_binding_version_id = nth_binding_version_id n,
     th_stage_task_id = (case nth_driving_task n of StageRef t \<Rightarrow> Some t | _ \<Rightarrow> None),
     th_driver_task_id = (case nth_driving_task n of DriverRef d \<Rightarrow> Some d | _ \<Rightarrow> None),
     th_principal_id = nth_principal_id n, th_job_id = nth_job_id n, th_status = ThreadQueued,
     th_suspension = None, th_cancel_requested_at = None, th_cancel_requested_by = None,
     th_recovery_attempts = 0, th_format_version = nth_format_version n, th_wake_at = None,
     th_fidelity = None, th_execution_spend = None, th_completed_at = None,
     th_created_at = env_now e, th_updated_at = env_now e,
     th_run_key = (case nth_driving_task n of ManagedRef k \<Rightarrow> Some k | _ \<Rightarrow> None),
     th_run_claim_token = nth_run_claim_token n\<rparr>"

text \<open>The foreign key on the driver task is deferred to the commit, which is
  what lets the pair writer insert the thread first; the reference to the
  binding version and the principal are outside the modelled tables.\<close>

definition thread_insert_refs :: "agent_thread \<Rightarrow> db \<Rightarrow> bool" where
  "thread_insert_refs th s \<longleftrightarrow>
     (case th_parent_thread_id th of None \<Rightarrow> True
      | Some p \<Rightarrow> sql_exists (\<lambda>r. th_id r = p) (db_threads s)) \<and>
     (case th_stage_task_id th of None \<Rightarrow> True
      | Some t \<Rightarrow> sql_exists (\<lambda>r. tk_id r = t) (db_tasks s)) \<and>
     (case th_job_id th of None \<Rightarrow> True
      | Some j \<Rightarrow> sql_exists (\<lambda>r. jb_id r = j) (db_jobs s))"

definition thread_insert :: "env \<Rightarrow> uuid \<Rightarrow> new_thread \<Rightarrow> agent_thread db_tx" where
  "thread_insert e i n s =
     (let th = new_thread_row e i n in
      tx_then (tx_ensure (fits_i32 (nth_format_version n)) (DbPanic ''format version overflow''))
     (tx_then (insert_guard (thread_check th \<and> thread_insert_refs th s) ''creating thread''
        [(sql_exists (\<lambda>r. th_id r = i) (db_threads s), ''agent_threads'', ''agent_threads_pkey''),
         (th_stage_task_id th \<noteq> None \<and>
            sql_exists (\<lambda>r. th_stage_task_id r = th_stage_task_id th) (db_threads s),
            ''agent_threads'', ''uq_agent_threads_stage_task''),
         (th_driver_task_id th \<noteq> None \<and>
            sql_exists (\<lambda>r. th_driver_task_id r = th_driver_task_id th) (db_threads s),
            ''agent_threads'', ''uq_agent_threads_driver_task''),
         (th_run_key th \<noteq> None \<and> sql_exists (\<lambda>r. th_run_key r = th_run_key th) (db_threads s),
            ''agent_threads'', ''uq_agent_threads_run_key'')])
      (\<lambda>t. Inr (th, t\<lparr>db_threads := db_threads t @ [th]\<rparr>))) s)"

definition thread_find_by_id :: "uuid \<Rightarrow> db \<Rightarrow> agent_thread option" where
  "thread_find_by_id i s = find (\<lambda>th. th_id th = i) (db_threads s)"

definition thread_find_by_stage_task_id :: "uuid \<Rightarrow> db \<Rightarrow> agent_thread option" where
  "thread_find_by_stage_task_id t s = find (\<lambda>th. th_stage_task_id th = Some t) (db_threads s)"

definition thread_find_by_run_key :: "uuid \<Rightarrow> db \<Rightarrow> agent_thread option" where
  "thread_find_by_run_key k s = find (\<lambda>th. th_run_key th = Some k) (db_threads s)"

definition thread_find_by_job_id :: "uuid \<Rightarrow> db \<Rightarrow> agent_thread list" where
  "thread_find_by_job_id j s =
     sort_key (\<lambda>th. (th_created_at th, th_id th))
       (filter (\<lambda>th. sql_exists (\<lambda>t. th_stage_task_id th = Some (tk_id t) \<and> tk_job_id t = j) (db_tasks s))
         (db_threads s))"

definition thread_lock :: "uuid \<Rightarrow> db \<Rightarrow> agent_thread option" where
  "thread_lock i s = find (\<lambda>th. th_id th = i) (db_threads s)"

definition thread_holds_managed_claim :: "uuid \<Rightarrow> uuid \<Rightarrow> db \<Rightarrow> bool" where
  "thread_holds_managed_claim k tok s =
     sql_exists (\<lambda>th. th_run_key th = Some k \<and> th_run_claim_token th = Some tok) (db_threads s)"

definition thread_adopt_managed :: "env \<Rightarrow> uuid \<Rightarrow> uuid \<Rightarrow> agent_thread option db_tx" where
  "thread_adopt_managed e k tok =
     tx_then (update_threads (\<lambda>th. th_run_key th = Some k)
       (\<lambda>th. th\<lparr>th_run_claim_token := Some tok, th_updated_at := env_now e\<rparr>))
     (tx_read (thread_find_by_run_key k))"

definition thread_mark_running :: "env \<Rightarrow> uuid \<Rightarrow> thread_status \<Rightarrow> nat db_tx" where
  "thread_mark_running e i from = update_threads (\<lambda>th. th_id th = i \<and> th_status th = from)
     (\<lambda>th. th\<lparr>th_status := ThreadRunning, th_suspension := None, th_wake_at := None,
        th_updated_at := env_now e\<rparr>)"

definition thread_suspend :: "env \<Rightarrow> uuid \<Rightarrow> suspension \<Rightarrow> instant option \<Rightarrow> nat db_tx" where
  "thread_suspend e i cause wake = update_threads
     (\<lambda>th. th_id th = i \<and> th_status th = ThreadRunning \<and> th_cancel_requested_at th = None)
     (\<lambda>th. th\<lparr>th_status := ThreadSuspended, th_suspension := Some cause, th_wake_at := wake,
        th_updated_at := env_now e\<rparr>)"

definition thread_disarm_wake :: "env \<Rightarrow> uuid \<Rightarrow> nat db_tx" where
  "thread_disarm_wake e i = update_threads (\<lambda>th. th_id th = i \<and> th_status th = ThreadSuspended)
     (\<lambda>th. th\<lparr>th_wake_at := None, th_updated_at := env_now e\<rparr>)"

definition thread_complete :: "env \<Rightarrow> uuid \<Rightarrow> thread_terminal \<Rightarrow> thread_status \<Rightarrow> nat db_tx" where
  "thread_complete e i terminal from = update_threads (\<lambda>th. th_id th = i \<and> th_status th = from)
     (\<lambda>th. th\<lparr>th_status := thread_status_of_terminal terminal, th_suspension := None,
        th_wake_at := None, th_completed_at := Some (env_now e), th_updated_at := env_now e\<rparr>)"

definition thread_record_cancel_intent :: "env \<Rightarrow> uuid \<Rightarrow> string \<Rightarrow> unit db_tx" where
  "thread_record_cancel_intent e i by =
     tx_bind (update_threads (\<lambda>th. th_id th = i)
       (\<lambda>th. th\<lparr>th_cancel_requested_at :=
            (case th_cancel_requested_at th of None \<Rightarrow> Some (env_now e) | Some a \<Rightarrow> Some a),
          th_cancel_requested_by :=
            (case th_cancel_requested_by th of None \<Rightarrow> Some by | Some b \<Rightarrow> Some b),
          th_updated_at := env_now e\<rparr>))
     (\<lambda>n. tx_ensure (n \<noteq> 0) (DbNotFound ''agent_thread'' i))"

text \<open>\<open>fetch_one\<close> fails when the thread is gone.\<close>

definition thread_increment_recovery_attempts :: "env \<Rightarrow> uuid \<Rightarrow> nat db_tx" where
  "thread_increment_recovery_attempts e i =
     tx_then (update_threads (\<lambda>th. th_id th = i)
       (\<lambda>th. th\<lparr>th_recovery_attempts := th_recovery_attempts th + 1, th_updated_at := env_now e\<rparr>))
     (tx_bind (tx_read (thread_find_by_id i))
       (\<lambda>r. case r of
          None \<Rightarrow> tx_fail (DbQueryFailed ''advancing recovery attempts on thread'')
        | Some th \<Rightarrow> tx_return (th_recovery_attempts th)))"

section \<open>Sweep scans\<close>

definition due :: "env \<Rightarrow> instant option \<Rightarrow> bool" where
  "due e w = (case w of None \<Rightarrow> False | Some t \<Rightarrow> t \<le> env_now e)"

definition thread_find_due_timer_wakes :: "env \<Rightarrow> (uuid \<Rightarrow> bool) \<Rightarrow> nat \<Rightarrow> db \<Rightarrow> agent_thread list" where
  "thread_find_due_timer_wakes e locked limit s =
     sql_select_ordered
       (\<lambda>th. th_status th = ThreadSuspended \<and> due e (th_wake_at th) \<and>
          th_cancel_requested_at th = None \<and> th_stage_task_id th \<noteq> None \<and> \<not> locked (th_id th))
       th_wake_at limit (db_threads s)"

definition thread_find_due_managed_wakes :: "env \<Rightarrow> (uuid \<Rightarrow> bool) \<Rightarrow> nat \<Rightarrow> db \<Rightarrow> uuid list" where
  "thread_find_due_managed_wakes e locked limit s =
     map (\<lambda>th. the (th_run_key th))
       (sql_select_ordered
         (\<lambda>th. th_status th = ThreadSuspended \<and> due e (th_wake_at th) \<and>
            th_cancel_requested_at th = None \<and> th_run_key th \<noteq> None \<and> \<not> locked (th_id th))
         th_wake_at limit (db_threads s))"

definition thread_is_live :: "agent_thread \<Rightarrow> bool" where
  "thread_is_live th \<longleftrightarrow> \<not> th_status th \<in> set thread_terminal_set"

definition driver_task_is_live :: "driver_task \<Rightarrow> bool" where
  "driver_task_is_live d \<longleftrightarrow> \<not> dt_state d \<in> set driver_terminal_set"

definition thread_find_cancel_intents :: "(uuid \<Rightarrow> bool) \<Rightarrow> nat \<Rightarrow> db \<Rightarrow> agent_thread list" where
  "thread_find_cancel_intents locked limit s =
     sql_select_ordered
       (\<lambda>th. th_cancel_requested_at th \<noteq> None \<and> thread_is_live th \<and> \<not> locked (th_id th))
       th_cancel_requested_at limit (db_threads s)"

definition thread_find_stuck_relating :: "(uuid \<Rightarrow> bool) \<Rightarrow> nat \<Rightarrow> db \<Rightarrow> agent_thread list" where
  "thread_find_stuck_relating locked limit s =
     sql_select_ordered
       (\<lambda>th. th_stage th = Product Relation \<and> th_status th = ThreadSuspended \<and>
          th_cancel_requested_at th = None \<and> th_wake_at th = None \<and>
          sql_exists (\<lambda>t. th_stage_task_id th = Some (tk_id t) \<and>
             sql_exists (\<lambda>j. jb_id j = tk_job_id t \<and> jb_status j = JobRelating) (db_jobs s)) (db_tasks s) \<and>
          \<not> sql_exists (\<lambda>c. th_parent_thread_id c = Some (th_id th) \<and> thread_is_live c) (db_threads s) \<and>
          \<not> sql_exists (\<lambda>d. driver_task_is_live d \<and>
             sql_exists (\<lambda>c. th_driver_task_id c = Some (dt_id d) \<and>
               th_parent_thread_id c = Some (th_id th)) (db_threads s)) (db_drivers s) \<and>
          \<not> locked (th_id th))
       th_updated_at limit (db_threads s)"

section \<open>Cancellation cascades\<close>

definition cancel_intent_row :: "env \<Rightarrow> string \<Rightarrow> agent_thread \<Rightarrow> agent_thread" where
  "cancel_intent_row e by th =
     th\<lparr>th_cancel_requested_at := Some (env_now e), th_cancel_requested_by := Some by,
        th_updated_at := env_now e\<rparr>"

definition thread_cascade_cancel_to_children :: "env \<Rightarrow> uuid \<Rightarrow> string \<Rightarrow> nat db_tx" where
  "thread_cascade_cancel_to_children e parent by = update_threads
     (\<lambda>th. th_parent_thread_id th = Some parent \<and> th_cancel_requested_at th = None \<and> thread_is_live th)
     (cancel_intent_row e by)"

text \<open>The outer joins make an absent parent or driver task unknown, and an
  unknown negation never selects a row.\<close>

definition thread_orphaned :: "db \<Rightarrow> agent_thread \<Rightarrow> bool" where
  "thread_orphaned s c \<longleftrightarrow>
     sql_exists (\<lambda>p. th_parent_thread_id c = Some (th_id p) \<and> \<not> thread_is_live p) (db_threads s) \<or>
     sql_exists (\<lambda>d. th_driver_task_id c = Some (dt_id d) \<and> \<not> driver_task_is_live d) (db_drivers s)"

definition thread_cascade_cancel_to_orphans :: "env \<Rightarrow> (uuid \<Rightarrow> bool) \<Rightarrow> nat \<Rightarrow> string \<Rightarrow> nat db_tx" where
  "thread_cascade_cancel_to_orphans e locked limit by s =
     (let orphans = sql_select_ordered
            (\<lambda>c. th_cancel_requested_at c = None \<and> thread_is_live c \<and> thread_orphaned s c \<and>
               \<not> locked (th_id c))
            th_updated_at limit (db_threads s) in
      update_threads (\<lambda>th. th \<in> set orphans) (cancel_intent_row e by) s)"

definition thread_set_execution_spend :: "env \<Rightarrow> uuid \<Rightarrow> json \<Rightarrow> unit db_tx" where
  "thread_set_execution_spend e i spend =
     tx_then (update_threads (\<lambda>th. th_id th = i)
       (\<lambda>th. th\<lparr>th_execution_spend := Some spend, th_updated_at := env_now e\<rparr>))
     (tx_return ())"

section \<open>Retention\<close>

record prune_criteria =
  pc_completed_before :: instant
  pc_stage :: "task_type option"
  pc_cascade :: bool
  pc_root_limit :: nat

definition prune_candidates :: "prune_criteria \<Rightarrow> db \<Rightarrow> agent_thread list" where
  "prune_candidates pc s =
     sql_select_ordered
       (\<lambda>th. (case th_completed_at th of None \<Rightarrow> False | Some c \<Rightarrow> c < pc_completed_before pc) \<and>
          (case pc_stage pc of None \<Rightarrow> True | Some st \<Rightarrow> th_stage th = Product st))
       (\<lambda>th. (th_completed_at th, th_id th)) (pc_root_limit pc) (db_threads s)"

text \<open>The recursive term of the common table expression: one level of
  descendants after another, each row carrying the root it descends from. A
  child row is younger than its parent, so the levels end within as many
  rounds as there are threads, which is the fuel.\<close>

definition prune_children :: "agent_thread list \<Rightarrow> (uuid \<times> agent_thread) list \<Rightarrow> (uuid \<times> agent_thread) list" where
  "prune_children ths level =
     concat (map (\<lambda>(root, p). map (Pair root)
       (filter (\<lambda>c. th_parent_thread_id c = Some (th_id p)) ths)) level)"

fun prune_levels :: "nat \<Rightarrow> agent_thread list \<Rightarrow> (uuid \<times> agent_thread) list \<Rightarrow> (uuid \<times> agent_thread) list" where
  "prune_levels 0 ths level = []"
| "prune_levels (Suc n) ths level =
     (let next = prune_children ths level in
      if next = [] then [] else next @ prune_levels n ths next)"

definition prune_descendants :: "prune_criteria \<Rightarrow> db \<Rightarrow> (uuid \<times> agent_thread) list" where
  "prune_descendants pc s =
     prune_levels (length (db_threads s)) (db_threads s)
       (map (\<lambda>th. (th_id th, th)) (prune_candidates pc s))"

definition prune_refused :: "prune_criteria \<Rightarrow> db \<Rightarrow> uuid list" where
  "prune_refused pc s =
     remdups (map fst (filter (\<lambda>(root, d). th_completed_at d = None \<or> \<not> pc_cascade pc)
       (prune_descendants pc s)))"

definition prune_prunable :: "prune_criteria \<Rightarrow> db \<Rightarrow> uuid list" where
  "prune_prunable pc s =
     (let refused = prune_refused pc s in
      remdups
        (filter (\<lambda>i. i \<notin> set refused) (map th_id (prune_candidates pc s)) @
         map (\<lambda>(_, d). th_id d)
           (filter (\<lambda>(root, d). pc_cascade pc \<and> root \<notin> set refused \<and> th_completed_at d \<noteq> None)
             (prune_descendants pc s))))"

definition thread_count_refused_prune_roots :: "prune_criteria \<Rightarrow> db \<Rightarrow> nat" where
  "thread_count_refused_prune_roots pc s = length (prune_refused pc s)"

text \<open>Deleting the prunable threads and their records is one statement; the
  foreign keys that still point at a deleted thread when it ends (a child
  kept alive, a driver task of the thread) fail it.\<close>

definition thread_prune :: "prune_criteria \<Rightarrow> nat db_tx" where
  "thread_prune pc s =
     (let gone = set (prune_prunable pc s);
          threads' = filter (\<lambda>th. th_id th \<notin> gone) (db_threads s) in
      if sql_exists (\<lambda>th. \<exists>p \<in> gone. th_parent_thread_id th = Some p) threads' \<or>
         sql_exists (\<lambda>d. dt_thread_id d \<in> gone) (db_drivers s)
      then Inl (DbQueryFailed ''pruning terminal threads'')
      else Inr (sql_count (\<lambda>th. th_id th \<in> gone) (db_threads s),
             s\<lparr>db_threads := threads',
               db_records := filter (\<lambda>r. rc_thread_id r \<notin> gone) (db_records s)\<rparr>))"

section \<open>Constraints are kept\<close>

text \<open>The anchor of a thread does not depend on the columns the statements write.\<close>

lemma thread_anchor_update [simp]:
  "thread_anchor_check (th\<lparr>th_status := v0\<rparr>) = thread_anchor_check th"
  "thread_anchor_check (th\<lparr>th_suspension := v1\<rparr>) = thread_anchor_check th"
  "thread_anchor_check (th\<lparr>th_cancel_requested_at := v2\<rparr>) = thread_anchor_check th"
  "thread_anchor_check (th\<lparr>th_cancel_requested_by := v3\<rparr>) = thread_anchor_check th"
  "thread_anchor_check (th\<lparr>th_recovery_attempts := v4\<rparr>) = thread_anchor_check th"
  "thread_anchor_check (th\<lparr>th_wake_at := v5\<rparr>) = thread_anchor_check th"
  "thread_anchor_check (th\<lparr>th_execution_spend := v6\<rparr>) = thread_anchor_check th"
  "thread_anchor_check (th\<lparr>th_completed_at := v7\<rparr>) = thread_anchor_check th"
  "thread_anchor_check (th\<lparr>th_updated_at := v8\<rparr>) = thread_anchor_check th"
  "thread_anchor_check (th\<lparr>th_run_claim_token := v9\<rparr>) = thread_anchor_check th"
  by (simp_all add: thread_anchor_check_def)

lemmas thread_statement_defs = thread_adopt_managed_def thread_mark_running_def thread_suspend_def
  thread_disarm_wake_def thread_complete_def thread_record_cancel_intent_def
  thread_increment_recovery_attempts_def thread_cascade_cancel_to_children_def
  thread_set_execution_spend_def

lemmas thread_row_evolves = thread_evolves_def thread_lineage_def thread_check_def
  thread_status_terminal_def cancel_intent_row_def

lemma keeps_calm_thread_statements:
  "keeps calm (thread_adopt_managed e k tok)"
  "keeps calm (thread_suspend e i cause wake)"
  "keeps calm (thread_disarm_wake e i)"
  "keeps calm (thread_record_cancel_intent e i by)"
  "keeps calm (thread_increment_recovery_attempts e i)"
  "keeps calm (thread_cascade_cancel_to_children e i by)"
  "keeps calm (thread_set_execution_spend e i spend)"
  unfolding thread_statement_defs
  by (intro calm.keeps_intros keeps_calm_update; simp add: thread_row_evolves split: option.splits; fail)+

lemma keeps_calm_thread_cascade_orphans: "keeps calm (thread_cascade_cancel_to_orphans e locked n by)"
proof (rule keepsI)
  fix s a s' assume run: "thread_cascade_cancel_to_orphans e locked n by s = Inr (a, s')"
  define orphans where "orphans = sql_select_ordered
            (\<lambda>c. th_cancel_requested_at c = None \<and> thread_is_live c \<and> thread_orphaned s c \<and>
               \<not> locked (th_id c))
            th_updated_at n (db_threads s)"
  have "th_cancel_requested_at th = None \<and> thread_is_live th" if "th \<in> set orphans" for th
    using that set_sql_select_ordered unfolding orphans_def by fastforce
  then have "keeps calm (update_threads (\<lambda>th. th \<in> set orphans) (cancel_intent_row e by))"
    by (intro keeps_calm_update) (simp add: thread_row_evolves)
  then show "calm s s'"
    using run by (simp add: thread_cascade_cancel_to_orphans_def Let_def keeps_def flip: orphans_def)
qed

text \<open>The two status writes that name the status they leave are monotone when
  that status is live; every caller passes a live one.\<close>

lemma keeps_calm_thread_mark_running:
  "\<not> thread_status_terminal from \<Longrightarrow> keeps calm (thread_mark_running e i from)"
  unfolding thread_mark_running_def
  by (intro keeps_calm_update) (auto simp: thread_row_evolves)

lemma keeps_calm_thread_complete:
  "\<not> thread_status_terminal from \<Longrightarrow> keeps calm (thread_complete e i t from)"
  unfolding thread_complete_def
  by (intro keeps_calm_update, cases t) (auto simp: thread_row_evolves)

end
