(* ===== verification/RecordRepo.thy ===== *)
theory RecordRepo
  imports Database
begin

text \<open>
  The statements of \<open>PgAgentThreadRecordRepository\<close>
  (\<open>tribal-db/src/repositories/agent_thread_record.rs\<close>): a thread's
  append-only log. The sequence number of an append is the caller's; the
  unique keys over \<open>(thread_id, seq)\<close> and over the executed tool results are
  what makes two appends conflict.
\<close>

record new_record =
  nr_thread_id :: uuid
  nr_seq :: record_seq
  nr_kind :: record_kind
  nr_requesting_seq :: "record_seq option"
  nr_tool_call_id :: "string option"
  nr_content :: json
  nr_usage :: "json option"
  nr_trace_id :: "string option"
  nr_span_id :: "string option"

definition new_record_row :: "env \<Rightarrow> uuid \<Rightarrow> new_record \<Rightarrow> thread_record" where
  "new_record_row e i nr = \<lparr>rc_id = i, rc_thread_id = nr_thread_id nr, rc_seq = nr_seq nr,
     rc_kind = nr_kind nr, rc_requesting_seq = nr_requesting_seq nr,
     rc_tool_call_id = nr_tool_call_id nr, rc_content = nr_content nr, rc_usage = nr_usage nr,
     rc_trace_id = nr_trace_id nr, rc_span_id = nr_span_id nr, rc_committed_at = env_now e\<rparr>"

definition record_next_seq :: "uuid \<Rightarrow> db \<Rightarrow> record_seq" where
  "record_next_seq th s =
     (case map rc_seq (thread_log th s) of
        [] \<Rightarrow> seq_first
      | q # qs \<Rightarrow> seq_next (fold max qs q))"

definition record_append :: "env \<Rightarrow> uuid \<Rightarrow> new_record \<Rightarrow> thread_record db_tx" where
  "record_append e i nr s =
     (let r = new_record_row e i nr in
      tx_then (insert_guard
        (record_check r \<and> sql_exists (\<lambda>th. th_id th = rc_thread_id r) (db_threads s))
        ''appending record''
        [(sql_exists (\<lambda>q. rc_id q = i) (db_records s),
            ''agent_thread_records'', ''agent_thread_records_pkey''),
         (sql_exists (\<lambda>q. rc_thread_id q = rc_thread_id r \<and> rc_seq q = rc_seq r) (db_records s),
            ''agent_thread_records'', ''uq_agent_thread_records_seq''),
         (rc_kind r = ToolResult \<and>
            sql_exists (\<lambda>q. rc_kind q = ToolResult \<and> record_fence q = record_fence r) (db_records s),
            ''agent_thread_records'', ''uq_agent_thread_records_tool_result'')])
      (\<lambda>t. Inr (r, t\<lparr>db_records := db_records t @ [r]\<rparr>)) s)"

definition record_find_by_thread_id :: "uuid \<Rightarrow> db \<Rightarrow> thread_record list" where
  "record_find_by_thread_id th s = sort_key rc_seq (thread_log th s)"

definition record_find_by_thread_id_from :: "uuid \<Rightarrow> record_seq \<Rightarrow> nat \<Rightarrow> db \<Rightarrow> thread_record list" where
  "record_find_by_thread_id_from th from limit s =
     sql_select_ordered (\<lambda>r. rc_thread_id r = th \<and> from \<le> rc_seq r) rc_seq limit (db_records s)"

definition record_last :: "uuid \<Rightarrow> db \<Rightarrow> thread_record option" where
  "record_last th s =
     (case sort_key (\<lambda>r. - rc_seq r) (thread_log th s) of [] \<Rightarrow> None | r # _ \<Rightarrow> Some r)"

definition record_count_tool_results :: "uuid \<Rightarrow> record_seq \<Rightarrow> db \<Rightarrow> nat" where
  "record_count_tool_results th req s =
     sql_count (\<lambda>r. rc_thread_id r = th \<and> rc_requesting_seq r = Some req \<and> rc_kind r = ToolResult)
       (db_records s)"

text \<open>The relation stage's handoff lookup: the submissions of a job's triage
  threads with their candidate's batch index, in batch order. A triage task
  always has its batch index.\<close>

definition record_find_triage_submissions :: "uuid \<Rightarrow> db \<Rightarrow> (nat \<times> json) list" where
  "record_find_triage_submissions job s =
     sort_key fst
       (concat (map (\<lambda>r. concat (map (\<lambda>th. concat (map (\<lambda>t.
            case tk_batch_index t of None \<Rightarrow> [] | Some b \<Rightarrow> [(b, rc_content r)])
          (filter (\<lambda>t. th_stage_task_id th = Some (tk_id t) \<and> tk_job_id t = job) (db_tasks s))))
        (filter (\<lambda>th. th_id th = rc_thread_id r \<and> th_stage th = Product Triage) (db_threads s))))
      (filter (\<lambda>r. rc_kind r = SubmissionRecord) (db_records s))))"

section \<open>Appends\<close>

lemma new_record_row_sel [simp]:
  "rc_thread_id (new_record_row e i nr) = nr_thread_id nr" "rc_seq (new_record_row e i nr) = nr_seq nr"
  "rc_kind (new_record_row e i nr) = nr_kind nr"
  "rc_requesting_seq (new_record_row e i nr) = nr_requesting_seq nr"
  "rc_tool_call_id (new_record_row e i nr) = nr_tool_call_id nr"
  "rc_content (new_record_row e i nr) = nr_content nr"
  by (simp_all add: new_record_row_def)

lemma record_append_Inr:
  "record_append e i nr s = Inr (r, s') \<longleftrightarrow>
     r = new_record_row e i nr \<and> s' = s\<lparr>db_records := db_records s @ [r]\<rparr> \<and> record_check r \<and>
     (\<exists>th \<in> set (db_threads s). th_id th = nr_thread_id nr) \<and>
     (\<forall>q \<in> set (db_records s). rc_id q \<noteq> i \<and>
        \<not> (rc_thread_id q = nr_thread_id nr \<and> rc_seq q = nr_seq nr) \<and>
        \<not> (nr_kind nr = ToolResult \<and> rc_kind q = ToolResult \<and> record_fence q = record_fence r))"
  by (auto simp: record_append_def Let_def insert_guard_then sql_exists_iff)

lemma record_append_log:
  assumes "record_append e i nr s = Inr (r, s')"
  shows "thread_log th s' = thread_log th s @ (if nr_thread_id nr = th then [r] else [])"
  using assms by (auto simp: record_append_Inr thread_log_def)

section \<open>A log is numbered from zero without gaps\<close>

lemma fold_max_upt:
  "fold max (map int [a..<b]) (int c) = (if a < b then max (int c) (int b - 1) else int c)"
  by (induction b) (auto simp: max_def)

lemma record_next_seq_contiguous:
  assumes "log_contiguous s"
  shows "record_next_seq th s = int (length (thread_log th s))"
proof -
  let ?n = "length (thread_log th s)"
  have *: "map rc_seq (thread_log th s) = map int [0..<?n]"
    using assms by (simp add: log_contiguous_def)
  show ?thesis
  proof (cases ?n)
    case 0
    then show ?thesis by (simp add: record_next_seq_def seq_first_def)
  next
    case (Suc m)
    then have "map rc_seq (thread_log th s) = 0 # map int [1..<Suc m]"
      using * by (simp add: upt_conv_Cons del: upt_Suc)
    then show ?thesis
      using fold_max_upt [of 1 "Suc m" 0] Suc
      by (simp add: record_next_seq_def seq_next_def del: upt_Suc)
  qed
qed

lemma record_append_contiguous:
  assumes "log_contiguous s" "record_append e i nr s = Inr (r, s')"
    "nr_seq nr = record_next_seq (nr_thread_id nr) s"
  shows "log_contiguous s'"
proof -
  have "rc_seq r = int (length (thread_log (nr_thread_id nr) s))"
    using assms record_next_seq_contiguous by (simp add: record_append_Inr)
  then show ?thesis
    using assms(1) record_append_log [OF assms(2)] by (simp add: log_contiguous_def)
qed

section \<open>Appends at the tail are calm\<close>

text \<open>An append never rewrites; only the numbering depends on the position it was
  given.\<close>

lemma record_append_ok:
  assumes "record_append e i nr s = Inr (r, s')" "db_ok s"
    "nr_seq nr = record_next_seq (nr_thread_id nr) s"
  shows "db_ok s'"
proof -
  have "log_contiguous s'"
    using record_append_contiguous [OF _ assms(1) assms(3)] assms(2) by (simp add: db_ok_def)
  then show ?thesis
    using assms(1,2) by (auto simp: record_append_Inr db_ok_def db_unique_def db_refs_def eq_commute [of "th_id _"] image_iff)
qed

lemma record_append_calm:
  assumes run: "record_append e i nr s = Inr (r, s')"
    and ok: "db_ok s \<Longrightarrow> nr_seq nr = record_next_seq (nr_thread_id nr) s"
  shows "calm s s'"
  using run record_append_ok [OF run] ok
  by (auto simp: record_append_Inr calm_def evolves_def rows_evolve_refl rows_evolve_append
      row_evolves_refl lease_defs)

lemma record_append_rows:
  assumes "record_append e i nr s = Inr (r, s')"
  shows "rows_evolve task_evolves (db_tasks s) (db_tasks s')" "rows_evolve job_evolves (db_jobs s) (db_jobs s')"
    "rows_evolve thread_evolves (db_threads s) (db_threads s')"
    "rows_evolve driver_evolves (db_drivers s) (db_drivers s')"
    "rows_evolve (=) (db_records s) (db_records s')" "no_new_lease s s'"
  using assms by (auto simp: record_append_Inr rows_evolve_refl rows_evolve_append row_evolves_refl lease_defs)

end
