(* ===== verification/DriverRepo.thy ===== *)
theory DriverRepo
  imports LeaseQueue
begin

text \<open>
  The statements of \<open>PgAgentDriverTaskRepository\<close>
  (\<open>tribal-db/src/repositories/agent_driver_task.rs\<close>): the queue family of
  threads with no stage task, with the lease mechanics of the stage family.
\<close>

record new_driver_task =
  nd_id :: "uuid option"
  nd_thread_id :: uuid
  nd_kind :: driver_kind

definition new_driver_row :: "env \<Rightarrow> uuid \<Rightarrow> new_driver_task \<Rightarrow> driver_task" where
  "new_driver_row e fresh nd = \<lparr>dt_id = (case nd_id nd of Some i \<Rightarrow> i | None \<Rightarrow> fresh),
     dt_thread_id = nd_thread_id nd, dt_kind = nd_kind nd, dt_state = DriverPending,
     dt_attempt = 0, dt_max_attempts = 3, dt_available_at = env_now e, dt_claim_token = None,
     dt_claimed_by = None, dt_claimed_at = None, dt_heartbeat_at = None, dt_last_error = None,
     dt_created_at = env_now e, dt_updated_at = env_now e, dt_completed_at = None\<rparr>"

text \<open>Every failed enrolment is a failed query: the primary key and the
  immediate foreign key on the thread.\<close>

definition driver_insert :: "env \<Rightarrow> uuid \<Rightarrow> new_driver_task \<Rightarrow> driver_task db_tx" where
  "driver_insert e fresh nd s =
     (let d = new_driver_row e fresh nd in
      if sql_exists (\<lambda>th. th_id th = dt_thread_id d) (db_threads s) \<and>
         \<not> sql_exists (\<lambda>r. dt_id r = dt_id d) (db_drivers s)
      then Inr (d, s\<lparr>db_drivers := db_drivers s @ [d]\<rparr>)
      else Inl (DbQueryFailed ''enrolling driver task for thread''))"

definition driver_find_by_id :: "uuid \<Rightarrow> db \<Rightarrow> driver_task option" where
  "driver_find_by_id i s = find (\<lambda>d. dt_id d = i) (db_drivers s)"

definition driver_find_by_thread_id :: "uuid \<Rightarrow> db \<Rightarrow> driver_task list" where
  "driver_find_by_thread_id th s =
     sort_key dt_created_at (filter (\<lambda>d. dt_thread_id d = th) (db_drivers s))"

definition driver_claimable :: "env \<Rightarrow> (uuid \<Rightarrow> bool) \<Rightarrow> nat \<Rightarrow> db \<Rightarrow> driver_task list" where
  "driver_claimable e locked limit s =
     sql_select_ordered
       (\<lambda>d. dt_state d = DriverPending \<and> dt_available_at d \<le> env_now e \<and> \<not> locked (dt_id d))
       (\<lambda>d. (dt_available_at d, dt_created_at d)) limit (db_drivers s)"

definition driver_claim_row :: "env \<Rightarrow> uuid \<Rightarrow> string \<Rightarrow> driver_task \<Rightarrow> driver_task" where
  "driver_claim_row e tok by d =
     d\<lparr>dt_state := DriverClaimed, dt_claim_token := Some tok, dt_claimed_by := Some by,
       dt_claimed_at := Some (env_now e), dt_heartbeat_at := Some (env_now e),
       dt_updated_at := env_now e\<rparr>"

definition driver_claim :: "env \<Rightarrow> (uuid \<Rightarrow> bool) \<Rightarrow> (uuid \<Rightarrow> uuid) \<Rightarrow> nat \<Rightarrow> string \<Rightarrow> driver_task list db_tx" where
  "driver_claim e locked fresh limit by s =
     (let hit = (\<lambda>d. d \<in> set (driver_claimable e locked limit s));
          f = (\<lambda>d. driver_claim_row e (fresh (dt_id d)) by d);
          rows = map f (filter hit (db_drivers s)) in
      tx_then (update_drivers hit f) (tx_return rows) s)"

definition holds_driver :: "uuid \<Rightarrow> uuid \<Rightarrow> driver_task \<Rightarrow> bool" where
  "holds_driver i tok d \<longleftrightarrow> dt_id d = i \<and> dt_claim_token d = Some tok \<and> dt_state d = DriverClaimed"

definition driver_unlease :: "driver_task \<Rightarrow> driver_task" where
  "driver_unlease d = d\<lparr>dt_claim_token := None, dt_claimed_by := None, dt_claimed_at := None,
     dt_heartbeat_at := None\<rparr>"

definition driver_complete :: "env \<Rightarrow> uuid \<Rightarrow> uuid \<Rightarrow> nat db_tx" where
  "driver_complete e i tok = update_drivers (holds_driver i tok)
     (\<lambda>d. (driver_unlease d)\<lparr>dt_state := DriverCompleted, dt_completed_at := Some (env_now e),
        dt_updated_at := env_now e\<rparr>)"

definition driver_requeue :: "env \<Rightarrow> uuid \<Rightarrow> uuid \<Rightarrow> nat \<Rightarrow> instant \<Rightarrow> string \<Rightarrow> nat db_tx" where
  "driver_requeue e i tok attempt available msg =
     tx_then (tx_ensure (fits_i32 attempt) (DbPanic ''attempt exceeds i32 range''))
     (update_drivers (holds_driver i tok)
       (\<lambda>d. (driver_unlease d)\<lparr>dt_state := DriverPending, dt_attempt := attempt,
          dt_available_at := available, dt_last_error := Some msg, dt_updated_at := env_now e\<rparr>))"

definition driver_dead_letter :: "env \<Rightarrow> uuid \<Rightarrow> uuid \<Rightarrow> string \<Rightarrow> nat db_tx" where
  "driver_dead_letter e i tok msg = update_drivers (holds_driver i tok)
     (\<lambda>d. (driver_unlease d)\<lparr>dt_state := DriverDeadLetter, dt_last_error := Some msg,
        dt_completed_at := Some (env_now e), dt_updated_at := env_now e\<rparr>)"

definition driver_holds_claim :: "uuid \<Rightarrow> uuid \<Rightarrow> db \<Rightarrow> bool" where
  "driver_holds_claim i tok s =
     sql_exists (\<lambda>d. dt_id d = i \<and> dt_claim_token d = Some tok) (db_drivers s)"

definition driver_heartbeat :: "env \<Rightarrow> uuid \<Rightarrow> uuid \<Rightarrow> nat db_tx" where
  "driver_heartbeat e i tok = update_drivers (holds_driver i tok)
     (\<lambda>d. d\<lparr>dt_heartbeat_at := Some (env_now e), dt_updated_at := env_now e\<rparr>)"

definition driver_lock_stale :: "env \<Rightarrow> (uuid \<Rightarrow> bool) \<Rightarrow> nat \<Rightarrow> db \<Rightarrow> driver_task option" where
  "driver_lock_stale e locked timeout s =
     (case sql_select_ordered
         (\<lambda>d. dt_state d = DriverClaimed \<and>
            (case dt_heartbeat_at d of None \<Rightarrow> False
             | Some h \<Rightarrow> h < env_now e - seconds (int timeout)) \<and> \<not> locked (dt_id d))
         dt_heartbeat_at 1 (db_drivers s) of
        [] \<Rightarrow> None
      | d # _ \<Rightarrow> Some d)"

definition driver_dispose_unclaimed :: "env \<Rightarrow> uuid \<Rightarrow> string \<Rightarrow> nat db_tx" where
  "driver_dispose_unclaimed e i msg =
     update_drivers (\<lambda>d. dt_id d = i \<and> dt_claim_token d = None \<and>
        \<not> dt_state d \<in> set driver_terminal_set)
     (\<lambda>d. d\<lparr>dt_state := DriverDeadLetter, dt_last_error := Some msg,
        dt_completed_at := Some (env_now e), dt_updated_at := env_now e\<rparr>)"

section \<open>Constraints and leases\<close>

lemmas driver_statement_defs = driver_complete_def driver_requeue_def driver_dead_letter_def
  driver_heartbeat_def driver_dispose_unclaimed_def

lemma driver_unlease_sel [simp]:
  "dt_id (driver_unlease d) = dt_id d" "dt_thread_id (driver_unlease d) = dt_thread_id d"
  "dt_kind (driver_unlease d) = dt_kind d" "dt_max_attempts (driver_unlease d) = dt_max_attempts d"
  "dt_state (driver_unlease d) = dt_state d" "dt_completed_at (driver_unlease d) = dt_completed_at d"
  "dt_claim_token (driver_unlease d) = None" "dt_attempt (driver_unlease d) = dt_attempt d"
  by (simp_all add: driver_unlease_def)

lemmas driver_row_evolves = driver_evolves_def driver_sheds_def driver_ok_def driver_check_def
  holds_driver_def driver_state_terminal_def driver_terminal_set_iff

lemma keeps_calm_driver_statements:
  "keeps calm (driver_complete e i tok)"
  "keeps calm (driver_requeue e i tok a av msg)"
  "keeps calm (driver_dead_letter e i tok msg)"
  "keeps calm (driver_heartbeat e i tok)"
  "keeps calm (driver_dispose_unclaimed e i msg)"
  unfolding driver_statement_defs
  by (intro calm.keeps_intros keeps_calm_update; simp add: driver_row_evolves; fail)+

lemma new_driver_row_ok: "driver_ok (new_driver_row e fresh nd)"
  by (simp add: new_driver_row_def driver_row_evolves)

lemma new_driver_row_token [simp]: "dt_claim_token (new_driver_row e fresh nd) = None"
  by (simp add: new_driver_row_def)

lemma keeps_calm_driver_insert: "keeps calm (driver_insert e fresh nd)"
  by (rule keepsI)
    (auto simp: driver_insert_def Let_def calm_def evolves_def rows_evolve_refl rows_evolve_append
      row_evolves_refl db_ok_def db_unique_def db_refs_def new_driver_row_ok lease_defs sql_exists_iff
      eq_commute [of "th_id _"] image_iff split: if_splits)

section \<open>The driver tasks are a lease queue\<close>

lemma driver_claim_Inr:
  assumes "driver_claim e locked fresh limit by s = Inr (rows, s')"
  shows "s' = s\<lparr>db_drivers := sql_update (\<lambda>d. d \<in> set (driver_claimable e locked limit s))
      (\<lambda>d. driver_claim_row e (fresh (dt_id d)) by d) (db_drivers s)\<rparr>"
    "rows = map (\<lambda>d. driver_claim_row e (fresh (dt_id d)) by d)
      (filter (\<lambda>d. d \<in> set (driver_claimable e locked limit s)) (db_drivers s))"
  using assms by (auto simp: driver_claim_def Let_def update_drivers_def tx_defs)

lemma driver_claimable_mem:
  assumes "d \<in> set (driver_claimable e locked limit s)"
  shows "d \<in> set (db_drivers s) \<and> dt_state d = DriverPending \<and> dt_available_at d \<le> env_now e \<and> \<not> locked (dt_id d)"
  using assms set_sql_select_ordered unfolding driver_claimable_def by fastforce

lemma driver_claim_evolves:
  assumes "driver_claim e locked fresh limit by s = Inr (rows, s')"
  shows "evolves s s'"
proof -
  have "driver_evolves d (driver_claim_row e (fresh (dt_id d)) by d)" if "d \<in> set (driver_claimable e locked limit s)" for d
    using driver_claimable_mem [OF that] by (simp add: driver_row_evolves driver_claim_row_def)
  then show ?thesis unfolding driver_claim_Inr(1) [OF assms] by (rule evolves_update_drivers)
qed

text \<open>The writes a driver worker makes under its claim.\<close>

inductive_set driver_fenced :: "(uuid \<Rightarrow> uuid \<Rightarrow> nat db_tx) set" where
  "driver_heartbeat e \<in> driver_fenced"
| "driver_complete e \<in> driver_fenced"
| "(\<lambda>i tok. driver_requeue e i tok a av msg) \<in> driver_fenced"
| "(\<lambda>i tok. driver_dead_letter e i tok msg) \<in> driver_fenced"

lemma driver_fenced_shape:
  assumes "f \<in> driver_fenced" "f i tok s = Inr (n, s')"
  shows "\<exists>g. update_drivers (holds_driver i tok) g s = Inr (n, s')"
  using assms
  by (cases rule: driver_fenced.cases) (auto simp: driver_statement_defs tx_defs split: if_splits)

lemma driver_row_unique:
  "db_ok s \<Longrightarrow> t \<in> set (db_drivers s) \<Longrightarrow> u \<in> set (db_drivers s) \<Longrightarrow> dt_id t = dt_id u \<Longrightarrow> t = u"
  by (auto simp: db_ok_def db_unique_def dest: distinct_map_key_eq)

lemma update_held_driver:
  assumes "update_drivers (holds_driver i tok) g s = Inr (n, s')" "db_ok s"
  shows "driver_lease i tok s \<Longrightarrow> n = 1" "\<not> driver_lease i tok s \<Longrightarrow> n = 0 \<and> s' = s"
proof -
  have n: "n = sql_count (holds_driver i tok) (db_drivers s)"
    and s': "s' = s\<lparr>db_drivers := sql_update (holds_driver i tok) g (db_drivers s)\<rparr>"
    using assms(1) by (auto simp: update_drivers_def)
  have "dt_state d = DriverClaimed" if "d \<in> set (db_drivers s)" "dt_claim_token d = Some tok" for d
    using assms(2) that by (auto simp: db_ok_def driver_ok_def)
  then have "n \<noteq> 0 \<longleftrightarrow> driver_lease i tok s"
    unfolding n sql_count_pos by (auto simp: holds_driver_def driver_lease_def)
  moreover have "n \<le> 1"
    using assms(2) unfolding n
    by (intro sql_count_distinct_le_one [of dt_id]) (auto simp: db_ok_def db_unique_def holds_driver_def)
  ultimately show "driver_lease i tok s \<Longrightarrow> n = 1" "\<not> driver_lease i tok s \<Longrightarrow> n = 0 \<and> s' = s"
    using n s' by (auto simp: sql_update_none)
qed

interpretation driver_queue: lease_queue db_ok driver_lease dt_id driver_claim driver_fenced
proof
  fix f s i tok n s'
  assume f: "f \<in> driver_fenced" "db_ok s" "f i tok s = Inr (n, s')"
  show "\<not> driver_lease i tok s \<Longrightarrow> n = 0 \<and> s' = s" "driver_lease i tok s \<Longrightarrow> n = 1"
    using driver_fenced_shape [OF f(1,3)] update_held_driver [OF _ f(2)] by blast+
next
  fix s i a b
  show "db_ok s \<Longrightarrow> driver_lease i a s \<Longrightarrow> driver_lease i b s \<Longrightarrow> a = b"
    unfolding driver_lease_def by (metis option.inject driver_row_unique)
next
  fix e locked fresh limit "by" s rows s' r tok
  assume c: "driver_claim e locked fresh limit by s = Inr (rows, s')"
  show "r \<in> set rows \<Longrightarrow> driver_lease (dt_id r) (fresh (dt_id r)) s'"
    unfolding driver_claim_Inr [OF c] by (auto simp: driver_lease_def set_sql_update driver_claim_row_def)
  show "db_ok s'" if "db_ok s" using driver_claim_evolves [OF c] that by (simp add: evolves_def)
  show "\<not> driver_lease (dt_id r) tok s" if ok: "db_ok s" and r: "r \<in> set rows"
  proof -
    obtain t where "t \<in> set (driver_claimable e locked limit s)" "dt_id r = dt_id t"
      using r unfolding driver_claim_Inr(2) [OF c] by (auto simp: driver_claim_row_def)
    moreover from this have "t \<in> set (db_drivers s)" "dt_state t = DriverPending" using driver_claimable_mem by blast+
    moreover from this have "dt_claim_token t = None" using ok by (auto simp: db_ok_def driver_ok_def)
    ultimately show ?thesis using driver_row_unique [OF ok] unfolding driver_lease_def by (metis option.distinct(1))
  qed
qed (auto simp: driver_claim_def Let_def tx_defs update_drivers_def)

end
