(* ===== verification/JobRepo.thy ===== *)
theory JobRepo
  imports Database
begin

text \<open>
  The statements of \<open>PgJobRepository\<close> (\<open>tribal-db/src/repositories/job.rs\<close>):
  admission with its idempotency arbitration, the guarded status update, the
  reclaim authority over stuck jobs, and the recent-ingestion listing with
  its keyset pagination.
\<close>

record new_job =
  nj_correlation_id :: "uuid option"
  nj_project_id :: uuid
  nj_principal_id :: uuid
  nj_actor_id :: "uuid option"
  nj_source_context :: json
  nj_raw_input :: string
  nj_ingest_idempotency_key :: "uuid option"
  nj_extraction_system_prompt_version_id :: uuid
  nj_extraction_user_prompt_version_id :: uuid
  nj_triage_system_prompt_version_id :: uuid
  nj_triage_user_prompt_version_id :: uuid
  nj_relation_system_prompt_version_id :: uuid
  nj_relation_user_prompt_version_id :: uuid
  nj_system_fingerprint_hash :: string
  nj_trace_context :: "string option"

record job_transition =
  jt_status :: job_status
  jt_outcome :: "job_outcome option"
  jt_error_message :: "string option"
  jt_completed_at :: "instant option"

definition new_job_row :: "env \<Rightarrow> uuid \<Rightarrow> new_job \<Rightarrow> job" where
  "new_job_row e i nj = \<lparr>jb_id = i, jb_correlation_id = nj_correlation_id nj,
     jb_project_id = nj_project_id nj, jb_principal_id = nj_principal_id nj,
     jb_actor_id = nj_actor_id nj, jb_status = JobQueued, jb_outcome = None, jb_batch_size = None,
     jb_committed_batch_id = None, jb_source_context = nj_source_context nj,
     jb_raw_input = nj_raw_input nj, jb_ingest_idempotency_key = nj_ingest_idempotency_key nj,
     jb_extraction_original_count = None, jb_error_message = None,
     jb_extraction_system_prompt_version_id = nj_extraction_system_prompt_version_id nj,
     jb_extraction_user_prompt_version_id = nj_extraction_user_prompt_version_id nj,
     jb_triage_system_prompt_version_id = nj_triage_system_prompt_version_id nj,
     jb_triage_user_prompt_version_id = nj_triage_user_prompt_version_id nj,
     jb_relation_system_prompt_version_id = nj_relation_system_prompt_version_id nj,
     jb_relation_user_prompt_version_id = nj_relation_user_prompt_version_id nj,
     jb_system_fingerprint_hash = nj_system_fingerprint_hash nj,
     jb_trace_context = nj_trace_context nj, jb_completed_at = None, jb_created_at = env_now e,
     jb_updated_at = env_now e\<rparr>"

definition trace_context_fits :: "new_job \<Rightarrow> bool" where
  "trace_context_fits nj = (case nj_trace_context nj of None \<Rightarrow> True | Some c \<Rightarrow> length c \<le> 128)"

definition append_job :: "job \<Rightarrow> job db_tx" where
  "append_job j s = Inr (j, s\<lparr>db_jobs := db_jobs s @ [j]\<rparr>)"

text \<open>The plain insert maps every failure, a repeated idempotency key included,
  to a failed query.\<close>

definition key_taken :: "job \<Rightarrow> db \<Rightarrow> bool" where
  "key_taken j s \<longleftrightarrow> idempotency_key j \<noteq> None \<and>
     sql_exists (\<lambda>r. idempotency_key r = idempotency_key j) (db_jobs s)"

definition job_insert :: "env \<Rightarrow> uuid \<Rightarrow> new_job \<Rightarrow> job db_tx" where
  "job_insert e i nj s =
     (let j = new_job_row e i nj in
      if trace_context_fits nj \<and> \<not> sql_exists (\<lambda>r. jb_id r = i) (db_jobs s) \<and> \<not> key_taken j s
      then append_job j s
      else Inl (DbQueryFailed ''inserting job''))"

definition job_find_by_id :: "uuid \<Rightarrow> job db_tx" where
  "job_find_by_id i s =
     (case find (\<lambda>j. jb_id j = i) (db_jobs s) of
        None \<Rightarrow> Inl (DbNotFound ''job'' i)
      | Some j \<Rightarrow> Inr (j, s))"

definition job_transition_row :: "env \<Rightarrow> job_transition \<Rightarrow> job \<Rightarrow> job" where
  "job_transition_row e jt j =
     j\<lparr>jb_status := jt_status jt, jb_outcome := jt_outcome jt,
       jb_error_message := jt_error_message jt, jb_completed_at := jt_completed_at jt,
       jb_updated_at := env_now e\<rparr>"

text \<open>The transition is the caller's: one that breaks a CHECK of the table is a
  failed query. Zero rows is a terminal job, which is a no-op, or a missing one.\<close>

definition job_update_status_if_live :: "env \<Rightarrow> uuid \<Rightarrow> job_transition \<Rightarrow> job option db_tx" where
  "job_update_status_if_live e i jt s =
     (let hit = (\<lambda>j. jb_id j = i \<and> \<not> jb_status j \<in> set job_terminal_set);
          f = job_transition_row e jt in
      case filter hit (db_jobs s) of
        j # _ \<Rightarrow>
          if job_check (f j)
          then tx_then (update_jobs hit f) (tx_return (Some (f j))) s
          else Inl (DbQueryFailed ''updating job status'')
      | [] \<Rightarrow>
          if sql_exists (\<lambda>j. jb_id j = i) (db_jobs s) then Inr (None, s)
          else Inl (DbNotFound ''job'' i))"

definition job_update_batch_size :: "env \<Rightarrow> uuid \<Rightarrow> nat \<Rightarrow> nat \<Rightarrow> job db_tx" where
  "job_update_batch_size e i batch_size original =
     tx_then (tx_ensure (fits_i32 batch_size) (DbPanic ''batch_size exceeds i32::MAX''))
    (tx_then (tx_ensure (fits_i32 original) (DbPanic ''extraction_original_count exceeds i32::MAX''))
    (tx_then (update_jobs (\<lambda>j. jb_id j = i)
       (\<lambda>j. j\<lparr>jb_batch_size := Some batch_size, jb_extraction_original_count := Some original,
          jb_updated_at := env_now e\<rparr>))
     (job_find_by_id i)))"

text \<open>Attributing a job to the binding it was extracted under: the stored context is
  read, completed and written back only when the identity is new.\<close>

definition job_set_extraction_identity :: "env \<Rightarrow> uuid \<Rightarrow> inference_identity
    \<Rightarrow> extraction_commit_outcome db_tx" where
  "job_set_extraction_identity e i identity s =
     (case find (\<lambda>j. jb_id j = i) (db_jobs s) of
        None \<Rightarrow> Inl (DbNotFound ''job'' i)
      | Some j \<Rightarrow>
          (case context_of_json (jb_source_context j) of
             None \<Rightarrow> Inl (DbSourceContextUnreadable i)
           | Some ctx \<Rightarrow>
               (case commit_extraction_identity ctx identity of
                  Inl err \<Rightarrow> Inl (DbSourceContextRejected i err)
                | Inr (AlreadyRecorded, _) \<Rightarrow> Inr (AlreadyRecorded, s)
                | Inr (Recorded, ctx') \<Rightarrow>
                    tx_then (update_jobs (\<lambda>j. jb_id j = i)
                       (\<lambda>j. j\<lparr>jb_source_context := context_to_json ctx', jb_updated_at := env_now e\<rparr>))
                    (tx_return Recorded) s)))"

definition job_set_committed_batch_id :: "env \<Rightarrow> uuid \<Rightarrow> uuid \<Rightarrow> job option db_tx" where
  "job_set_committed_batch_id e i batch s =
     (let hit = (\<lambda>j. jb_id j = i \<and> jb_committed_batch_id j = None);
          f = (\<lambda>j. j\<lparr>jb_committed_batch_id := Some batch, jb_updated_at := env_now e\<rparr>) in
      case filter hit (db_jobs s) of
        j # _ \<Rightarrow> tx_then (update_jobs hit f) (tx_return (Some (f j))) s
      | [] \<Rightarrow>
          if sql_exists (\<lambda>j. jb_id j = i) (db_jobs s) then Inr (None, s)
          else Inl (DbNotFound ''job'' i))"

definition job_dead_lettered :: "db \<Rightarrow> job \<Rightarrow> bool" where
  "job_dead_lettered s j =
     sql_exists (\<lambda>t. tk_job_id t = jb_id j \<and> tk_status t = TaskDeadLetter \<and>
        (tk_task_type t = Extraction \<or> tk_task_type t = Relation)) (db_tasks s)"

definition job_fail_stale_dead_lettered :: "env \<Rightarrow> uuid list db_tx" where
  "job_fail_stale_dead_lettered e s =
     (let hit = (\<lambda>j. job_dead_lettered s j \<and> \<not> jb_status j \<in> set job_terminal_set) in
      tx_then (update_jobs hit
        (\<lambda>j. j\<lparr>jb_status := JobFailed, jb_outcome := Some Failure,
           jb_error_message := Some ''task dead-lettered during reclaim'',
           jb_completed_at := Some (env_now e), jb_updated_at := env_now e\<rparr>))
      (tx_return (map jb_id (filter hit (db_jobs s)))) s)"

definition job_find_stuck_triaging :: "db \<Rightarrow> uuid list" where
  "job_find_stuck_triaging s =
     map jb_id (filter (\<lambda>j. jb_status j = JobTriaging \<and>
       sql_exists (\<lambda>t. tk_job_id t = jb_id j \<and> tk_task_type t = Triage) (db_tasks s) \<and>
       \<not> sql_exists (\<lambda>t. tk_job_id t = jb_id j \<and> tk_task_type t = Triage \<and>
          \<not> tk_status t \<in> set task_terminal_set) (db_tasks s) \<and>
       \<not> sql_exists (\<lambda>t. tk_job_id t = jb_id j \<and> tk_task_type t = Relation) (db_tasks s))
     (db_jobs s))"

section \<open>Admission and listing for a principal\<close>

datatype ingest_outcome = Inserted job | Existing job | Conflict

definition job_insert_or_resolve :: "env \<Rightarrow> uuid \<Rightarrow> new_job \<Rightarrow> ingest_outcome db_tx" where
  "job_insert_or_resolve e i nj =
     (case nj_ingest_idempotency_key nj of
        None \<Rightarrow> tx_bind (job_insert e i nj) (\<lambda>j. tx_return (Inserted j))
      | Some k \<Rightarrow> (\<lambda>s.
          let j = new_job_row e i nj in
          if \<not> trace_context_fits nj \<or> sql_exists (\<lambda>r. jb_id r = i) (db_jobs s)
          then Inl (DbQueryFailed ''admitting ingest under idempotency key'')
          else if \<not> key_taken j s then tx_bind (append_job j) (\<lambda>j. tx_return (Inserted j)) s
          else case find (\<lambda>r. jb_principal_id r = nj_principal_id nj \<and>
                 jb_ingest_idempotency_key r = Some k) (db_jobs s) of
              None \<Rightarrow> Inl (DbNotFound ''job'' k)
            | Some old \<Rightarrow>
                if jb_project_id old = nj_project_id nj \<and> jb_raw_input old = nj_raw_input nj
                then Inr (Existing old, s) else Inr (Conflict, s)))"

definition job_find_by_id_for_principal :: "uuid \<Rightarrow> uuid \<Rightarrow> job db_tx" where
  "job_find_by_id_for_principal i p s =
     (case find (\<lambda>j. jb_id j = i \<and> jb_principal_id j = p) (db_jobs s) of
        None \<Rightarrow> Inl (DbNotFound ''job'' i)
      | Some j \<Rightarrow> Inr (j, s))"

record recent_query =
  rq_project_id :: "uuid option"
  rq_statuses :: "job_status list"
  rq_before :: "(instant \<times> uuid) option"
  rq_limit :: nat

record recent_summary =
  rs_job_id :: uuid
  rs_project_id :: uuid
  rs_status :: job_status
  rs_outcome :: "job_outcome option"
  rs_preview :: string
  rs_created_at :: instant
  rs_updated_at :: instant

record recent_page =
  rp_ingestions :: "recent_summary list"
  rp_next_cursor :: "(instant \<times> uuid) option"

fun collapse_from :: "string \<Rightarrow> string \<Rightarrow> string list" where
  "collapse_from w [] = (if w = [] then [] else [w])"
| "collapse_from w (c # cs) =
     (if is_whitespace c
      then (if w = [] then collapse_from [] cs else w # collapse_from [] cs)
      else collapse_from (w @ [c]) cs)"

fun join_words :: "string list \<Rightarrow> string" where
  "join_words [] = []"
| "join_words [w] = w"
| "join_words (w # ws) = w @ '' '' @ join_words ws"

definition preview_of :: "string \<Rightarrow> string" where
  "preview_of raw = take 160 (join_words (collapse_from [] raw))"

definition recent_summary_of :: "job \<Rightarrow> recent_summary" where
  "recent_summary_of j = \<lparr>rs_job_id = jb_id j, rs_project_id = jb_project_id j,
     rs_status = jb_status j, rs_outcome = jb_outcome j, rs_preview = preview_of (jb_raw_input j),
     rs_created_at = jb_created_at j, rs_updated_at = jb_updated_at j\<rparr>"

text \<open>\<open>ORDER BY created_at DESC, id DESC\<close> is the ascending order of the negated key.\<close>

definition recent_key :: "job \<Rightarrow> int \<times> int" where
  "recent_key j = (- jb_created_at j, - int (jb_id j))"

definition recent_limit :: "recent_query \<Rightarrow> nat" where
  "recent_limit q = max 1 (min 50 (rq_limit q))"

definition recent_matches :: "uuid \<Rightarrow> recent_query \<Rightarrow> job \<Rightarrow> bool" where
  "recent_matches p q j \<longleftrightarrow>
     jb_principal_id j = p \<and>
     (case rq_project_id q of None \<Rightarrow> True | Some pr \<Rightarrow> jb_project_id j = pr) \<and>
     (rq_statuses q = [] \<or> jb_status j \<in> set (rq_statuses q)) \<and>
     (case rq_before q of None \<Rightarrow> True | Some c \<Rightarrow> (jb_created_at j, jb_id j) < c)"

definition job_list_recent :: "uuid \<Rightarrow> recent_query \<Rightarrow> db \<Rightarrow> recent_page" where
  "job_list_recent p q s =
     (let limit = recent_limit q;
          rows = sql_select_ordered (recent_matches p q) recent_key (limit + 1) (db_jobs s);
          page = take limit rows in
      \<lparr>rp_ingestions = map recent_summary_of page,
       rp_next_cursor =
         (if length rows > limit \<and> page \<noteq> []
          then Some (jb_created_at (last page), jb_id (last page)) else None)\<rparr>)"

section \<open>Constraints are kept\<close>

lemma keeps_calm_append_job:
  assumes "j = new_job_row e i nj" "\<forall>r \<in> set (db_jobs s). jb_id r \<noteq> i" "\<not> key_taken j s"
  shows "calm s (s\<lparr>db_jobs := db_jobs s @ [j]\<rparr>)"
  using assms
  by (auto simp: calm_def evolves_def rows_evolve_refl rows_evolve_append row_evolves_refl db_ok_def
      db_refs_def db_unique_def set_some_keys lease_defs new_job_row_def job_check_def job_status_terminal_def
      key_taken_def sql_exists_iff split: option.splits)

lemma keeps_calm_job_insert: "keeps calm (job_insert e i nj)"
  by (rule keepsI)
    (auto simp: job_insert_def append_job_def Let_def sql_exists_iff intro: keeps_calm_append_job
      split: if_splits)

lemma keeps_calm_job_insert_or_resolve: "keeps calm (job_insert_or_resolve e i nj)"
proof (cases "nj_ingest_idempotency_key nj")
  case None
  then show ?thesis
    by (simp add: job_insert_or_resolve_def calm.keeps_intros keeps_calm_job_insert)
next
  case (Some k)
  then show ?thesis
    by (intro keepsI)
      (auto simp: job_insert_or_resolve_def append_job_def Let_def sql_exists_iff tx_bind_def
        tx_return_app calm.order_refl intro: keeps_calm_append_job split: if_splits option.splits)
qed

lemma filter_Cons_mem: "filter P xs = y # ys \<Longrightarrow> y \<in> set xs \<and> P y"
  by (metis filter_eq_ConsD in_set_conv_decomp)

lemma keeps_calm_job_update_status: "keeps calm (job_update_status_if_live e i jt)"
proof (rule keepsI)
  fix s a s' assume run: "job_update_status_if_live e i jt s = Inr (a, s')"
  let ?hit = "\<lambda>j. jb_id j = i \<and> \<not> jb_status j \<in> set job_terminal_set"
  show "calm s s'"
  proof (cases "filter ?hit (db_jobs s)")
    case Nil
    then show ?thesis
      using run by (auto simp: job_update_status_if_live_def calm.order_refl split: if_splits)
  next
    case (Cons j js)
    have "job_check (job_transition_row e jt k) = job_check (job_transition_row e jt j)" for k
      by (simp add: job_check_def job_transition_row_def)
    then have ok: "job_check (job_transition_row e jt k)" for k
      using run Cons by (auto simp: job_update_status_if_live_def Let_def split: if_splits)
    have "keeps calm (update_jobs ?hit (job_transition_row e jt))"
      using ok by (intro keeps_calm_update)
        (auto simp: job_evolves_def job_terminal_set_iff job_transition_row_def)
    then show ?thesis
      using run Cons by (auto simp: job_update_status_if_live_def Let_def keeps_def tx_defs update_jobs_def
          split: if_splits)
  qed
qed

lemma keeps_calm_job_find_by_id: "keeps calm (job_find_by_id i)"
  by (auto simp: keeps_def job_find_by_id_def calm.order_refl split: option.splits)

lemma keeps_calm_job_update_batch_size: "keeps calm (job_update_batch_size e i n m)"
  unfolding job_update_batch_size_def
  by (intro calm.keeps_intros keeps_calm_update keeps_calm_job_find_by_id)
    (simp add: job_evolves_def job_check_def)

lemma keeps_calm_job_set_extraction_identity: "keeps calm (job_set_extraction_identity e i ident)"
proof (rule keepsI)
  fix s a s' assume run: "job_set_extraction_identity e i ident s = Inr (a, s')"
  have "keeps calm (update_jobs (\<lambda>j. jb_id j = i)
      (\<lambda>j. j\<lparr>jb_source_context := c, jb_updated_at := env_now e\<rparr>))" for c
    by (intro keeps_calm_update) (simp add: job_evolves_def job_check_def)
  then show "calm s s'"
    using run by (auto simp: job_set_extraction_identity_def keeps_def tx_defs update_jobs_def
        calm.order_refl split: option.splits sum.splits extraction_commit_outcome.splits)
qed

lemma keeps_calm_job_set_committed_batch_id: "keeps calm (job_set_committed_batch_id e i b)"
proof (rule keepsI)
  fix s a s' assume run: "job_set_committed_batch_id e i b s = Inr (a, s')"
  let ?hit = "\<lambda>j. jb_id j = i \<and> jb_committed_batch_id j = None"
  let ?f = "\<lambda>j. j\<lparr>jb_committed_batch_id := Some b, jb_updated_at := env_now e\<rparr>"
  have "keeps calm (update_jobs ?hit ?f)"
    by (intro keeps_calm_update) (simp add: job_evolves_def job_check_def)
  then show "calm s s'"
    using run by (auto simp: job_set_committed_batch_id_def Let_def keeps_def tx_defs update_jobs_def
        calm.order_refl split: if_splits list.splits)
qed

lemma keeps_calm_job_fail_stale: "keeps calm (job_fail_stale_dead_lettered e)"
proof (rule keepsI)
  fix s a s' assume run: "job_fail_stale_dead_lettered e s = Inr (a, s')"
  let ?hit = "\<lambda>j. job_dead_lettered s j \<and> \<not> jb_status j \<in> set job_terminal_set"
  let ?f = "\<lambda>j. j\<lparr>jb_status := JobFailed, jb_outcome := Some Failure,
           jb_error_message := Some ''task dead-lettered during reclaim'',
           jb_completed_at := Some (env_now e), jb_updated_at := env_now e\<rparr>"
  have "keeps calm (update_jobs ?hit ?f)"
    by (intro keeps_calm_update)
      (simp add: job_evolves_def job_check_def job_terminal_set_iff job_status_terminal_def)
  then show "calm s s'"
    using run by (auto simp: job_fail_stale_dead_lettered_def Let_def keeps_def tx_defs update_jobs_def)
qed

end
