(* ===== verification/Transitions.thy ===== *)
theory Transitions
  imports TaskRepo ThreadRepo RecordRepo DriverRepo JobRepo
begin

text \<open>
  The runtime's errors (\<open>tribal-agent-runtime/src/error.rs\<close>) and its guarded
  transitions suspend, resolve and cancel
  (\<open>tribal-agent-runtime/src/transitions.rs\<close>). A transition is the body of one
  transaction, which says how it ends, and the entry point that runs it;
  \<open>cancel_thread_in_txn\<close> composes inside its caller's transaction. Identifiers
  the database generates for appended records are the arguments \<open>rid\<close>.
\<close>

datatype runtime_error =
    Database string db_error
  | StatusCasMissed uuid thread_status
  | DrivingTaskNotBlocked uuid
  | LeaseLost driving_task_ref
  | ThreadMissing uuid
  | ContentSerialisation string
  | Inference string
  | ToolExecution string
  | LogProjection string
  | ProductInvariant string
  | CancelWatchClosed

type_synonym 'a rt = "(db, runtime_error, 'a) tx"

definition rt_db :: "string \<Rightarrow> 'a db_tx \<Rightarrow> 'a rt" where
  "rt_db ctx m = tx_map_err (Database ctx) m"

text \<open>The serialised suspension payload; an instant appears as its number.\<close>

fun suspension_to_json :: "suspension \<Rightarrow> json" where
  "suspension_to_json (HumanInput p) = JObj [(''cause'', JStr ''human_input''), (''prompt'', JStr p)]"
| "suspension_to_json (DeferredToolResults q ids) = JObj [(''cause'', JStr ''deferred_tool_results''),
     (''requesting_seq'', JNum q), (''pending_tool_call_ids'', JArr (map JStr ids))]"
| "suspension_to_json Timer = JObj [(''cause'', JStr ''timer'')]"
| "suspension_to_json (BudgetExhaustion n) = JObj [(''cause'', JStr ''budget_exhaustion''),
     (''unchanged_rechecks'', JNum (int n))]"
| "suspension_to_json (Signal k) = JObj [(''cause'', JStr ''signal''), (''key'', JStr k)]"

text \<open>Appending at the tail: the position is derived under the thread lock and the
  record is stamped with the ambient trace.\<close>

definition tail_record :: "env \<Rightarrow> uuid \<Rightarrow> record_seq \<Rightarrow> record_kind \<Rightarrow> (record_seq \<times> string) option
    \<Rightarrow> json \<Rightarrow> json option \<Rightarrow> new_record" where
  "tail_record e th q kind answers content usage = \<lparr>nr_thread_id = th, nr_seq = q, nr_kind = kind,
     nr_requesting_seq = map_option fst answers, nr_tool_call_id = map_option snd answers,
     nr_content = content, nr_usage = usage, nr_trace_id = env_trace_id e, nr_span_id = env_span_id e\<rparr>"

definition append_tail :: "env \<Rightarrow> uuid \<Rightarrow> uuid \<Rightarrow> record_kind \<Rightarrow> (record_seq \<times> string) option \<Rightarrow> json
    \<Rightarrow> json option \<Rightarrow> string \<Rightarrow> thread_record rt" where
  "append_tail e rid th kind answers content usage ctx =
     tx_bind (tx_read (record_next_seq th))
       (\<lambda>q. rt_db ctx (record_append e rid (tail_record e th q kind answers content usage)))"

section \<open>Suspend\<close>

datatype suspend_outcome = SuspendedOutcome | SuspendCancelIntervened

definition suspend_stage_txn :: "env \<Rightarrow> uuid \<Rightarrow> agent_thread \<Rightarrow> uuid \<Rightarrow> uuid \<Rightarrow> suspension
    \<Rightarrow> instant option \<Rightarrow> suspend_outcome ending rt" where
  "suspend_stage_txn e rid thread task_id tok cause wake =
     tx_bind (rt_db ''blocking the driving task'' (task_block e task_id tok)) (\<lambda>blocked.
     if blocked = 0 then tx_fail (LeaseLost (StageRef task_id)) else
     tx_then (append_tail e rid (th_id thread) SuspensionRecord None (suspension_to_json cause) None
        ''committing the suspension record'')
    (tx_bind (rt_db ''suspending the thread'' (thread_suspend e (th_id thread) cause wake)) (\<lambda>moved.
     tx_return (if moved = 0 then Rollback SuspendCancelIntervened else Commit SuspendedOutcome))))"

definition suspend_stage_thread :: "env \<Rightarrow> uuid \<Rightarrow> agent_thread \<Rightarrow> uuid \<Rightarrow> uuid \<Rightarrow> suspension
    \<Rightarrow> instant option \<Rightarrow> db \<Rightarrow> (runtime_error + suspend_outcome) \<times> db" where
  "suspend_stage_thread e rid thread task_id tok cause wake =
     run_txn (suspend_stage_txn e rid thread task_id tok cause wake)"

section \<open>Resolve\<close>

datatype resolve_outcome = Woken | RecordedAtTerminal | NotSuspended | ResolveVanished

definition resolve_stage_txn :: "env \<Rightarrow> uuid \<Rightarrow> uuid \<Rightarrow> json \<Rightarrow> resolve_outcome ending rt" where
  "resolve_stage_txn e rid thread_id resolution =
     tx_bind (tx_read (thread_lock thread_id)) (\<lambda>locked.
     case locked of
       None \<Rightarrow> tx_return (Rollback ResolveVanished)
     | Some thread \<Rightarrow>
         tx_then (append_tail e rid (th_id thread) InputRecord None resolution None
           ''committing the resolution record'')
        (if thread_status_terminal (th_status thread) then tx_return (Commit RecordedAtTerminal)
         else if th_status thread \<noteq> ThreadSuspended then tx_return (Rollback NotSuspended)
         else
           tx_bind (rt_db ''waking the thread'' (thread_mark_running e (th_id thread) ThreadSuspended))
             (\<lambda>moved.
           if moved = 0 then tx_fail (StatusCasMissed (th_id thread) ThreadSuspended)
           else case th_stage_task_id thread of
             None \<Rightarrow> tx_return (Commit Woken)
           | Some task_id \<Rightarrow>
               tx_bind (rt_db ''re-queueing the driving task'' (task_requeue_from_blocked e task_id))
                 (\<lambda>rows.
               if rows = 0 then tx_fail (DrivingTaskNotBlocked task_id)
               else tx_return (Commit Woken)))))"

definition resolve_stage_thread :: "env \<Rightarrow> uuid \<Rightarrow> uuid \<Rightarrow> json
    \<Rightarrow> db \<Rightarrow> (runtime_error + resolve_outcome) \<times> db" where
  "resolve_stage_thread e rid thread_id resolution = run_txn (resolve_stage_txn e rid thread_id resolution)"

section \<open>Cancel\<close>

datatype cancel_outcome = CancelledOutcome | AlreadyTerminal | CancelVanished

definition cancellation_content :: "agent_thread \<Rightarrow> json" where
  "cancellation_content th = JObj [(''requested_by'', json_opt JStr (th_cancel_requested_by th)),
     (''requested_at'', json_opt JNum (th_cancel_requested_at th))]"

definition cancel_thread_in_txn :: "env \<Rightarrow> uuid \<Rightarrow> uuid \<Rightarrow> cancel_outcome rt" where
  "cancel_thread_in_txn e rid thread_id =
     tx_bind (tx_read (thread_lock thread_id)) (\<lambda>locked.
     case locked of
       None \<Rightarrow> tx_return CancelVanished
     | Some current \<Rightarrow>
         if thread_status_terminal (th_status current) then tx_return AlreadyTerminal
         else
           tx_then (append_tail e rid thread_id CancellationRecord None (cancellation_content current) None
             ''committing the cancellation record'')
          (tx_bind (rt_db ''cancelling the thread''
              (thread_complete e thread_id TermCancelled (th_status current))) (\<lambda>moved.
           if moved = 0 then tx_fail (StatusCasMissed thread_id (th_status current))
           else tx_return CancelledOutcome)))"

section \<open>The transitions are calm\<close>

lemma keeps_calm_rt_db: "keeps calm m \<Longrightarrow> keeps calm (rt_db ctx m)"
  by (simp add: rt_db_def calm.keeps_map_err)

lemma keeps_at_calm_tail:
  "keeps_at calm s (record_append e i (tail_record e th (record_next_seq th s) k a c u))"
  unfolding keeps_at_def by (auto intro!: record_append_calm simp: tail_record_def)

lemma keeps_calm_append_tail: "keeps calm (append_tail e rid th k a c u ctx)"
  unfolding append_tail_def rt_db_def
  by (intro calm.keeps_read_at calm.keeps_at_map_err keeps_at_calm_tail)

lemma keeps_calm_mark_running_live:
  "keeps calm (thread_mark_running e i ThreadQueued)" "keeps calm (thread_mark_running e i ThreadSuspended)"
  by (simp_all add: keeps_calm_thread_mark_running thread_status_terminal_def)

lemmas keeps_calm_statements = keeps_calm_task_statements keeps_calm_task_insert keeps_calm_task_upsert
  keeps_calm_task_reclaim_stale keeps_calm_driver_statements keeps_calm_driver_insert
  keeps_calm_thread_statements keeps_calm_thread_cascade_orphans keeps_calm_mark_running_live
  keeps_calm_job_insert keeps_calm_job_insert_or_resolve
  keeps_calm_job_update_status keeps_calm_job_find_by_id keeps_calm_job_update_batch_size
  keeps_calm_job_set_extraction_identity
  keeps_calm_job_set_committed_batch_id keeps_calm_job_fail_stale

lemmas keeps_calm_rules = calm.keeps_intros keeps_calm_rt_db keeps_calm_append_tail
  keeps_calm_statements keeps_calm_insert_guard

lemma keeps_calm_suspend_stage: "keeps calm (suspend_stage_txn e rid th t tok c w)"
  unfolding suspend_stage_txn_def by (intro keeps_calm_rules)

lemma keeps_calm_resolve_stage: "keeps calm (resolve_stage_txn e rid i r)"
  unfolding resolve_stage_txn_def by (intro keeps_calm_rules)

lemma keeps_calm_cancel_thread: "keeps calm (cancel_thread_in_txn e rid i)"
  unfolding cancel_thread_in_txn_def
  by (intro keeps_calm_rules keeps_calm_thread_complete; simp)

end
