(* ===== verification/Turn.thy ===== *)
theory Turn
  imports Transitions
begin

text \<open>
  The one-turn brackets of \<open>tribal-agent-runtime\<close>: the claim every worker
  write verifies, the record content shapes and the opening and terminal
  halves of a turn (\<open>turn.rs\<close>), the per-turn commits of the loop
  (\<open>turn_loop.rs\<close>), and how a claimed stage task gets its thread (\<open>store.rs\<close>).
  Linking a turn's spend to its record writes the token-usage table, which is
  outside the store modelled here.
\<close>

section \<open>The driving claim\<close>

record driving_claim =
  cl_driving_task :: driving_task_ref
  cl_token :: uuid

definition claim_stage :: "uuid \<Rightarrow> uuid \<Rightarrow> driving_claim" where
  "claim_stage task_id tok = \<lparr>cl_driving_task = StageRef task_id, cl_token = tok\<rparr>"

definition claim_driver :: "uuid \<Rightarrow> uuid \<Rightarrow> driving_claim" where
  "claim_driver driver_id tok = \<lparr>cl_driving_task = DriverRef driver_id, cl_token = tok\<rparr>"

definition claim_managed :: "uuid \<Rightarrow> uuid \<Rightarrow> driving_claim" where
  "claim_managed run_key tok = \<lparr>cl_driving_task = ManagedRef run_key, cl_token = tok\<rparr>"

definition claim_holds :: "driving_claim \<Rightarrow> db \<Rightarrow> bool" where
  "claim_holds c s =
     (case cl_driving_task c of
        StageRef i \<Rightarrow> task_holds_claim i (cl_token c) s
      | DriverRef i \<Rightarrow> driver_holds_claim i (cl_token c) s
      | ManagedRef k \<Rightarrow> thread_holds_managed_claim k (cl_token c) s)"

definition claim_require :: "driving_claim \<Rightarrow> unit rt" where
  "claim_require c = tx_bind (tx_read (claim_holds c))
     (\<lambda>held. if held then tx_return () else tx_fail (LeaseLost (cl_driving_task c)))"

section \<open>Record content shapes\<close>

record recorded_message =
  rm_role :: string
  rm_content :: string

record rendered_conversation =
  rn_system :: "string option"
  rn_messages :: "recorded_message list"
  rn_system_prompt_version_id :: "uuid option"
  rn_user_prompt_version_id :: "uuid option"
  rn_resolution_context :: "json option"
  rn_response_schema :: "json option"

record tool_call =
  tc_id :: string
  tc_name :: string
  tc_arguments :: json

record assistant_content =
  ac_text :: string
  ac_tool_calls :: "tool_call list"

record recorded_usage =
  us_input_tokens :: nat
  us_output_tokens :: nat
  us_cache_read_tokens :: nat
  us_cache_write_tokens :: nat
  us_total_tokens :: nat
  us_latency_ms :: nat

record tool_result_content =
  tr_output :: string
  tr_is_error :: bool

record completion_response =
  cr_text :: string
  cr_tool_calls :: "tool_call list"
  cr_usage :: recorded_usage

record execution_spend =
  sp_input_tokens :: nat
  sp_output_tokens :: nat
  sp_cache_read_tokens :: nat
  sp_cache_write_tokens :: nat
  sp_turns :: nat

definition is_rendered_conversation :: "json \<Rightarrow> bool" where
  "is_rendered_conversation content =
     (json_get content ''content_kind'' = Some (JStr ''rendered_conversation''))"

definition message_to_json :: "recorded_message \<Rightarrow> json" where
  "message_to_json m = JObj [(''role'', JStr (rm_role m)), (''content'', JStr (rm_content m))]"

definition rendered_to_json :: "rendered_conversation \<Rightarrow> json" where
  "rendered_to_json r = JObj [(''content_kind'', JStr ''rendered_conversation''),
     (''system'', json_opt JStr (rn_system r)),
     (''messages'', JArr (map message_to_json (rn_messages r))),
     (''system_prompt_version_id'', json_opt (\<lambda>i. JNum (int i)) (rn_system_prompt_version_id r)),
     (''user_prompt_version_id'', json_opt (\<lambda>i. JNum (int i)) (rn_user_prompt_version_id r)),
     (''resolution_context'', json_opt id (rn_resolution_context r)),
     (''response_schema'', json_opt id (rn_response_schema r))]"

definition tool_call_to_json :: "tool_call \<Rightarrow> json" where
  "tool_call_to_json c = JObj [(''id'', JStr (tc_id c)), (''name'', JStr (tc_name c)),
     (''arguments'', tc_arguments c)]"

definition assistant_to_json :: "assistant_content \<Rightarrow> json" where
  "assistant_to_json a = JObj ((''text'', JStr (ac_text a)) #
     (if ac_tool_calls a = [] then []
      else [(''tool_calls'', JArr (map tool_call_to_json (ac_tool_calls a)))]))"

definition usage_to_json :: "recorded_usage \<Rightarrow> json" where
  "usage_to_json u = JObj [(''input_tokens'', JNum (int (us_input_tokens u))),
     (''output_tokens'', JNum (int (us_output_tokens u))),
     (''cache_read_tokens'', JNum (int (us_cache_read_tokens u))),
     (''cache_write_tokens'', JNum (int (us_cache_write_tokens u))),
     (''total_tokens'', JNum (int (us_total_tokens u))),
     (''latency_ms'', JNum (int (us_latency_ms u)))]"

definition tool_result_to_json :: "tool_result_content \<Rightarrow> json" where
  "tool_result_to_json r = JObj [(''output'', JStr (tr_output r)), (''is_error'', JBool (tr_is_error r))]"

definition spend_to_json :: "execution_spend \<Rightarrow> json" where
  "spend_to_json p = JObj [(''input_tokens'', JNum (int (sp_input_tokens p))),
     (''output_tokens'', JNum (int (sp_output_tokens p))),
     (''cache_read_tokens'', JNum (int (sp_cache_read_tokens p))),
     (''cache_write_tokens'', JNum (int (sp_cache_write_tokens p))),
     (''turns'', JNum (int (sp_turns p)))]"

section \<open>Parsing recorded content\<close>

text \<open>The deserialisers of the shapes above.\<close>

definition message_of_json :: "json \<Rightarrow> recorded_message option" where
  "message_of_json j =
     Option.bind (json_field json_str j ''role'') (\<lambda>r.
     Option.bind (json_field json_str j ''content'') (\<lambda>c.
     Some \<lparr>rm_role = r, rm_content = c\<rparr>))"

definition rendered_of_json :: "json \<Rightarrow> rendered_conversation option" where
  "rendered_of_json j =
     (if \<not> is_rendered_conversation j then None else
      Option.bind (json_option_field json_str j ''system'') (\<lambda>sy.
      Option.bind (json_field (json_list message_of_json) j ''messages'') (\<lambda>ms.
      Option.bind (json_option_field json_nat j ''system_prompt_version_id'') (\<lambda>sp.
      Option.bind (json_option_field json_nat j ''user_prompt_version_id'') (\<lambda>up.
      Option.bind (json_option_field Some j ''resolution_context'') (\<lambda>rc.
      Option.bind (json_option_field Some j ''response_schema'') (\<lambda>rs.
      Some \<lparr>rn_system = sy, rn_messages = ms, rn_system_prompt_version_id = sp,
        rn_user_prompt_version_id = up, rn_resolution_context = rc, rn_response_schema = rs\<rparr>)))))))"

definition tool_call_of_json :: "json \<Rightarrow> tool_call option" where
  "tool_call_of_json j =
     Option.bind (json_field json_str j ''id'') (\<lambda>i.
     Option.bind (json_field json_str j ''name'') (\<lambda>n.
     Option.bind (json_get j ''arguments'') (\<lambda>a.
     Some \<lparr>tc_id = i, tc_name = n, tc_arguments = a\<rparr>)))"

definition assistant_of_json :: "json \<Rightarrow> assistant_content option" where
  "assistant_of_json j =
     Option.bind (json_field json_str j ''text'') (\<lambda>t.
     Option.bind (json_field_or [] (json_list tool_call_of_json) j ''tool_calls'') (\<lambda>cs.
     Some \<lparr>ac_text = t, ac_tool_calls = cs\<rparr>))"

definition tool_result_of_json :: "json \<Rightarrow> tool_result_content option" where
  "tool_result_of_json j =
     Option.bind (json_field json_str j ''output'') (\<lambda>out.
     Option.bind (json_field json_bool j ''is_error'') (\<lambda>e.
     Some \<lparr>tr_output = out, tr_is_error = e\<rparr>))"

definition spend_of_json :: "json \<Rightarrow> execution_spend option" where
  "spend_of_json j =
     Option.bind (json_field json_nat j ''input_tokens'') (\<lambda>a.
     Option.bind (json_field json_nat j ''output_tokens'') (\<lambda>b.
     Option.bind (json_field json_nat j ''cache_read_tokens'') (\<lambda>c.
     Option.bind (json_field json_nat j ''cache_write_tokens'') (\<lambda>d.
     Option.bind (json_field json_nat j ''turns'') (\<lambda>t.
     Some \<lparr>sp_input_tokens = a, sp_output_tokens = b, sp_cache_read_tokens = c,
       sp_cache_write_tokens = d, sp_turns = t\<rparr>)))))"

section \<open>Beginning a turn\<close>

definition begin_turn_txn :: "env \<Rightarrow> uuid \<Rightarrow> agent_thread \<Rightarrow> driving_claim \<Rightarrow> json \<Rightarrow> unit ending rt" where
  "begin_turn_txn e rid thread c content =
     tx_then (claim_require c)
    (tx_then (append_tail e rid (th_id thread) InputRecord None content None ''committing the input record'')
     (tx_return (Commit ())))"

definition begin_turn :: "env \<Rightarrow> uuid \<Rightarrow> agent_thread \<Rightarrow> driving_claim \<Rightarrow> thread_record option
    \<Rightarrow> rendered_conversation \<Rightarrow> db \<Rightarrow> (runtime_error + rendered_conversation) \<times> db" where
  "begin_turn e rid thread c committed_input rendered s =
     (case committed_input of
        Some r \<Rightarrow>
          (case rendered_of_json (rc_content r) of
             None \<Rightarrow> (Inl (ContentSerialisation ''re-reading the input record''), s)
           | Some conversation \<Rightarrow> (Inr conversation, s))
      | None \<Rightarrow>
          (case run_txn (begin_turn_txn e rid thread c (rendered_to_json rendered)) s of
             (Inl err, s') \<Rightarrow> (Inl err, s')
           | (Inr _, s') \<Rightarrow> (Inr rendered, s')))"

definition rendered_input :: "uuid \<Rightarrow> db \<Rightarrow> thread_record option" where
  "rendered_input th s =
     find (\<lambda>r. rc_kind r = InputRecord \<and> is_rendered_conversation (rc_content r))
       (record_find_by_thread_id th s)"

definition recorded_conversation :: "agent_thread \<Rightarrow> db \<Rightarrow> runtime_error + rendered_conversation option" where
  "recorded_conversation thread s =
     (case rendered_input (th_id thread) s of
        None \<Rightarrow> Inr None
      | Some r \<Rightarrow>
          (case rendered_of_json (rc_content r) of
             None \<Rightarrow> Inl (ContentSerialisation ''adopting the conversation'')
           | Some conversation \<Rightarrow> Inr (Some conversation)))"

definition adopt_conversation :: "agent_thread \<Rightarrow> db \<Rightarrow> runtime_error + rendered_conversation" where
  "adopt_conversation thread s =
     (case recorded_conversation thread s of
        Inl e \<Rightarrow> Inl e
      | Inr None \<Rightarrow> Inl (Database ''adopting the thread's conversation'' (DbNotFound ''agent_thread_record'' (th_id thread)))
      | Inr (Some conversation) \<Rightarrow> Inr conversation)"

section \<open>Terminals inside the caller's transaction\<close>

definition finish_running :: "env \<Rightarrow> uuid \<Rightarrow> thread_terminal \<Rightarrow> string \<Rightarrow> unit rt" where
  "finish_running e i terminal ctx =
     tx_bind (rt_db ctx (thread_complete e i terminal ThreadRunning)) (\<lambda>moved.
     if moved = 0 then tx_fail (StatusCasMissed i ThreadRunning) else tx_return ())"

definition one_shot_spend :: "completion_response \<Rightarrow> execution_spend" where
  "one_shot_spend r = \<lparr>sp_input_tokens = us_input_tokens (cr_usage r),
     sp_output_tokens = us_output_tokens (cr_usage r),
     sp_cache_read_tokens = us_cache_read_tokens (cr_usage r),
     sp_cache_write_tokens = us_cache_write_tokens (cr_usage r), sp_turns = 1\<rparr>"

definition commit_one_shot_terminal :: "env \<Rightarrow> uuid \<Rightarrow> agent_thread \<Rightarrow> completion_response \<Rightarrow> thread_record rt" where
  "commit_one_shot_terminal e rid thread response =
     tx_bind (append_tail e rid (th_id thread) AssistantMessage None
        (assistant_to_json \<lparr>ac_text = cr_text response, ac_tool_calls = []\<rparr>)
        (Some (usage_to_json (cr_usage response))) ''committing the assistant record'') (\<lambda>record.
     tx_then (finish_running e (th_id thread) TermCompleted ''completing the thread'')
    (tx_then (rt_db ''recording the spend projection''
        (thread_set_execution_spend e (th_id thread) (spend_to_json (one_shot_spend response))))
     (tx_return record)))"

definition commit_noop_terminal :: "env \<Rightarrow> agent_thread \<Rightarrow> unit rt" where
  "commit_noop_terminal e thread = finish_running e (th_id thread) TermCompleted ''completing the no-op thread''"

record accepted_submission =
  as_payload :: json
  as_requesting_seq :: record_seq
  as_tool_call_id :: string

definition submission_to_json :: "accepted_submission \<Rightarrow> json" where
  "submission_to_json a = JObj [(''payload'', as_payload a),
     (''requesting_seq'', JNum (as_requesting_seq a)), (''tool_call_id'', JStr (as_tool_call_id a))]"

definition commit_loop_terminal :: "env \<Rightarrow> uuid \<Rightarrow> agent_thread \<Rightarrow> accepted_submission \<Rightarrow> thread_record rt" where
  "commit_loop_terminal e rid thread accepted =
     tx_bind (append_tail e rid (th_id thread) SubmissionRecord None (submission_to_json accepted) None
        ''committing the submission record'') (\<lambda>record.
     tx_then (finish_running e (th_id thread) TermCompleted ''completing the thread'')
     (tx_return record))"

section \<open>The commits of a loop turn\<close>

definition commit_assistant_record :: "env \<Rightarrow> uuid \<Rightarrow> agent_thread \<Rightarrow> driving_claim \<Rightarrow> json \<Rightarrow> json
    \<Rightarrow> (thread_record \<times> agent_thread) rt" where
  "commit_assistant_record e rid thread c content usage =
     tx_then (claim_require c)
    (tx_bind (tx_read (thread_lock (th_id thread))) (\<lambda>locked.
     case locked of
       None \<Rightarrow> tx_fail (case cl_driving_task c of
           StageRef task_id \<Rightarrow> ThreadMissing task_id
         | _ \<Rightarrow> Database ''locking the thread for the turn'' (DbNotFound ''agent_thread'' (th_id thread)))
     | Some current \<Rightarrow>
         tx_bind (append_tail e rid (th_id thread) AssistantMessage None content (Some usage)
            ''committing the assistant record'') (\<lambda>record.
         tx_return (record, current))))"

text \<open>What the loop holds for its life: the thread it was handed and the lease it
  drives under.\<close>

record loop_deps =
  ld_thread :: agent_thread
  ld_task_id :: uuid
  ld_claim_token :: uuid

definition reset_progress :: "env \<Rightarrow> loop_deps \<Rightarrow> unit rt" where
  "reset_progress e deps =
     tx_then (rt_db ''resetting the task's progress''
       (task_reset_retry_count e (ld_task_id deps) (ld_claim_token deps))) (tx_return ())"

definition guard_claim :: "loop_deps \<Rightarrow> unit rt" where
  "guard_claim deps = claim_require (claim_stage (ld_task_id deps) (ld_claim_token deps))"

definition spend_default :: execution_spend where
  "spend_default = \<lparr>sp_input_tokens = 0, sp_output_tokens = 0, sp_cache_read_tokens = 0,
     sp_cache_write_tokens = 0, sp_turns = 0\<rparr>"

definition add_spend :: "completion_response \<Rightarrow> execution_spend \<Rightarrow> execution_spend" where
  "add_spend r p = \<lparr>sp_input_tokens = sp_input_tokens p + us_input_tokens (cr_usage r),
     sp_output_tokens = sp_output_tokens p + us_output_tokens (cr_usage r),
     sp_cache_read_tokens = sp_cache_read_tokens p + us_cache_read_tokens (cr_usage r),
     sp_cache_write_tokens = sp_cache_write_tokens p + us_cache_write_tokens (cr_usage r),
     sp_turns = sp_turns p + 1\<rparr>"

definition assistant_turn_txn :: "env \<Rightarrow> uuid \<Rightarrow> loop_deps \<Rightarrow> completion_response
    \<Rightarrow> (thread_record \<times> tool_call list) ending rt" where
  "assistant_turn_txn e rid deps response =
     tx_bind (commit_assistant_record e rid (ld_thread deps)
        (claim_stage (ld_task_id deps) (ld_claim_token deps))
        (assistant_to_json \<lparr>ac_text = cr_text response, ac_tool_calls = cr_tool_calls response\<rparr>)
        (usage_to_json (cr_usage response))) (\<lambda>(record, current).
     case (case th_execution_spend current of None \<Rightarrow> Some spend_default | Some v \<Rightarrow> spend_of_json v) of
       None \<Rightarrow> tx_fail (ContentSerialisation ''the recorded spend projection'')
     | Some spend \<Rightarrow>
         tx_then (rt_db ''projecting the turn's spend''
            (thread_set_execution_spend e (th_id (ld_thread deps)) (spend_to_json (add_spend response spend))))
        (tx_then (reset_progress e deps)
         (tx_return (Commit (record, cr_tool_calls response)))))"

definition commit_assistant_turn :: "env \<Rightarrow> uuid \<Rightarrow> loop_deps \<Rightarrow> completion_response
    \<Rightarrow> db \<Rightarrow> (runtime_error + thread_record \<times> tool_call list) \<times> db" where
  "commit_assistant_turn e rid deps response = run_txn (assistant_turn_txn e rid deps response)"

definition model_call_txn :: "env \<Rightarrow> uuid \<Rightarrow> agent_thread \<Rightarrow> driving_claim \<Rightarrow> completion_response
    \<Rightarrow> thread_record ending rt" where
  "model_call_txn e rid thread c response =
     tx_bind (commit_assistant_record e rid thread c
        (assistant_to_json \<lparr>ac_text = cr_text response, ac_tool_calls = []\<rparr>)
        (usage_to_json (cr_usage response))) (\<lambda>(record, _). tx_return (Commit record))"

definition commit_model_call :: "env \<Rightarrow> uuid \<Rightarrow> agent_thread \<Rightarrow> driving_claim \<Rightarrow> completion_response
    \<Rightarrow> db \<Rightarrow> (runtime_error + thread_record) \<times> db" where
  "commit_model_call e rid thread c response = run_txn (model_call_txn e rid thread c response)"

datatype result_commit = Committed | FenceConflict

text \<open>The append's unique violation is not wrapped: it is the fence.\<close>

definition result_record_txn :: "env \<Rightarrow> uuid \<Rightarrow> loop_deps \<Rightarrow> record_seq \<Rightarrow> string \<Rightarrow> tool_result_content
    \<Rightarrow> result_commit ending rt" where
  "result_record_txn e rid deps req call_id content =
     tx_then (guard_claim deps)
    (tx_bind (tx_read (record_next_seq (th_id (ld_thread deps)))) (\<lambda>q.
     tx_match (record_append e rid (tail_record e (th_id (ld_thread deps)) q ToolResult
         (Some (req, call_id)) (tool_result_to_json content) None))
       (\<lambda>_. tx_then (reset_progress e deps) (tx_return (Commit Committed)))
       (\<lambda>err. case err of
          DbUniqueViolation _ _ \<Rightarrow> tx_return (Rollback FenceConflict)
        | _ \<Rightarrow> tx_fail (Database ''committing a tool result'' err))))"

definition commit_result_record :: "env \<Rightarrow> uuid \<Rightarrow> loop_deps \<Rightarrow> record_seq \<Rightarrow> string \<Rightarrow> tool_result_content
    \<Rightarrow> db \<Rightarrow> (runtime_error + result_commit) \<times> db" where
  "commit_result_record e rid deps req call_id content = run_txn (result_record_txn e rid deps req call_id content)"

definition artifact_record_txn :: "env \<Rightarrow> uuid \<Rightarrow> agent_thread \<Rightarrow> driving_claim \<Rightarrow> json \<Rightarrow> record_seq ending rt" where
  "artifact_record_txn e rid thread c artifact =
     tx_then (claim_require c)
    (tx_bind (append_tail e rid (th_id thread) AppendArtifact None artifact None ''committing an artifact'')
     (\<lambda>r. tx_return (Commit (rc_seq r))))"

definition commit_artifact_record :: "env \<Rightarrow> uuid \<Rightarrow> agent_thread \<Rightarrow> driving_claim \<Rightarrow> json
    \<Rightarrow> db \<Rightarrow> (runtime_error + record_seq) \<times> db" where
  "commit_artifact_record e rid thread c artifact = run_txn (artifact_record_txn e rid thread c artifact)"

definition injected_to_json :: "string \<Rightarrow> json" where
  "injected_to_json m = JObj [(''content_kind'', JStr ''injected_message''), (''content'', JStr m)]"

definition drift_message :: "string \<Rightarrow> string" where
  "drift_message diagnostics =
     ''Your submission was verified, but the graph changed before it could be committed: ''
     @ diagnostics @ '' Re-examine and submit again.''"

definition drift_input_txn :: "env \<Rightarrow> uuid \<Rightarrow> loop_deps \<Rightarrow> string \<Rightarrow> unit ending rt" where
  "drift_input_txn e rid deps diagnostics =
     tx_then (guard_claim deps)
    (tx_then (append_tail e rid (th_id (ld_thread deps)) InputRecord None
        (injected_to_json (drift_message diagnostics)) None ''committing the drift input'')
    (tx_then (reset_progress e deps) (tx_return (Commit ()))))"

definition commit_drift_input :: "env \<Rightarrow> uuid \<Rightarrow> loop_deps \<Rightarrow> string \<Rightarrow> db \<Rightarrow> (runtime_error + unit) \<times> db" where
  "commit_drift_input e rid deps diagnostics = run_txn (drift_input_txn e rid deps diagnostics)"

section \<open>The turn commits are calm\<close>

lemma keeps_calm_claim_require: "keeps calm (claim_require c)"
  unfolding claim_require_def by (intro keeps_calm_rules)

lemma keeps_calm_thread_complete_running: "keeps calm (thread_complete e i t ThreadRunning)"
  by (rule keeps_calm_thread_complete) (simp add: thread_status_terminal_def)

lemma keeps_calm_finish_running: "keeps calm (finish_running e i t ctx)"
  unfolding finish_running_def by (intro keeps_calm_rules keeps_calm_thread_complete_running)

lemma keeps_calm_reset_progress: "keeps calm (reset_progress e deps)"
  unfolding reset_progress_def by (intro keeps_calm_rules)

lemma keeps_calm_guard_claim: "keeps calm (guard_claim deps)"
  unfolding guard_claim_def by (rule keeps_calm_claim_require)

lemmas keeps_calm_turn_parts = keeps_calm_claim_require keeps_calm_finish_running
  keeps_calm_reset_progress keeps_calm_guard_claim

lemma keeps_calm_commit_assistant_record: "keeps calm (commit_assistant_record e rid th c j u)"
  unfolding commit_assistant_record_def by (intro keeps_calm_rules keeps_calm_turn_parts)

lemma keeps_calm_turn_commits:
  "keeps calm (begin_turn_txn e rid th c j)"
  "keeps calm (commit_one_shot_terminal e rid th r)"
  "keeps calm (commit_noop_terminal e th)"
  "keeps calm (commit_loop_terminal e rid th a)"
  "keeps calm (assistant_turn_txn e rid deps r)"
  "keeps calm (model_call_txn e rid th c r)"
  "keeps calm (artifact_record_txn e rid th c j)"
  "keeps calm (drift_input_txn e rid deps d)"
  unfolding begin_turn_txn_def commit_one_shot_terminal_def commit_noop_terminal_def
    commit_loop_terminal_def assistant_turn_txn_def model_call_txn_def artifact_record_txn_def
    drift_input_txn_def
  by (intro keeps_calm_rules keeps_calm_turn_parts keeps_calm_commit_assistant_record)+

lemma keeps_calm_result_record: "keeps calm (result_record_txn e rid deps q i c)"
proof -
  have "keeps calm (case err of DbUniqueViolation x y \<Rightarrow> tx_return (Rollback FenceConflict)
      | _ \<Rightarrow> tx_fail (Database ''committing a tool result'' err))" for err
    by (cases err) (simp_all add: calm.keeps_return calm.keeps_fail)
  then show ?thesis
    unfolding result_record_txn_def
    by (intro calm.keeps_then calm.keeps_read_at calm.keeps_at_match keeps_at_calm_tail
        keeps_calm_rules keeps_calm_turn_parts) auto
qed

end
