(* ===== verification/StageStore.thy ===== *)
theory StageStore
  imports Turn
begin

text \<open>
  How a claimed stage task gets its thread
  (\<open>tribal-agent-runtime/src/store.rs\<close>): found or created once, pinned to a
  binding, and moved from queued to running, each write under the caller's
  claim. The binding table is a parameter.
\<close>

record agent_binding =
  bd_id :: uuid
  bd_definition :: json

record stage_thread =
  st_thread :: agent_thread
  st_input :: "thread_record option"
  st_binding :: agent_binding

definition agent_thread_format_version :: nat where
  "agent_thread_format_version = 1"

definition stage_holds_claim :: "task \<Rightarrow> uuid \<Rightarrow> bool rt" where
  "stage_holds_claim task tok = tx_read (task_holds_claim (tk_id task) tok)"

definition stage_new_thread :: "job \<Rightarrow> task \<Rightarrow> agent_binding \<Rightarrow> new_thread" where
  "stage_new_thread job task binding = \<lparr>nth_parent_thread_id = None,
     nth_stage = Product (tk_task_type task), nth_binding_version_id = Some (bd_id binding),
     nth_driving_task = StageRef (tk_id task), nth_principal_id = Some (jb_principal_id job),
     nth_job_id = None, nth_format_version = agent_thread_format_version,
     nth_run_claim_token = None\<rparr>"

text \<open>\<open>Some\<close> is the created thread, \<open>None\<close> the lost race, whose aborted
  transaction is dropped.\<close>

definition create_stage_txn :: "env \<Rightarrow> uuid \<Rightarrow> job \<Rightarrow> task \<Rightarrow> uuid \<Rightarrow> agent_binding
    \<Rightarrow> agent_thread option ending rt" where
  "create_stage_txn e i job task tok binding =
     tx_bind (stage_holds_claim task tok) (\<lambda>held.
     if \<not> held then tx_fail (LeaseLost (StageRef (tk_id task))) else
     tx_match (thread_insert e i (stage_new_thread job task binding))
       (\<lambda>th. tx_return (Commit (Some th)))
       (\<lambda>err. case err of
          DbUniqueViolation _ _ \<Rightarrow> tx_return (Rollback None)
        | _ \<Rightarrow> tx_fail (Database ''creating the thread'' err)))"

definition create_stage_thread :: "env \<Rightarrow> uuid \<Rightarrow> job \<Rightarrow> task \<Rightarrow> uuid \<Rightarrow> agent_binding
    \<Rightarrow> db \<Rightarrow> (runtime_error + agent_thread) \<times> db" where
  "create_stage_thread e i job task tok binding s =
     (case run_txn (create_stage_txn e i job task tok binding) s of
        (Inl err, s') \<Rightarrow> (Inl err, s')
      | (Inr (Some th), s') \<Rightarrow> (Inr th, s')
      | (Inr None, s') \<Rightarrow>
          (case thread_find_by_stage_task_id (tk_id task) s' of
             None \<Rightarrow> (Inl (ThreadMissing (tk_id task)), s')
           | Some th \<Rightarrow> (Inr th, s')))"

definition mark_running_txn :: "env \<Rightarrow> agent_thread \<Rightarrow> task \<Rightarrow> uuid \<Rightarrow> nat ending rt" where
  "mark_running_txn e thread task tok =
     tx_bind (stage_holds_claim task tok) (\<lambda>held.
     if \<not> held then tx_fail (LeaseLost (StageRef (tk_id task))) else
     tx_bind (rt_db ''marking the thread running'' (thread_mark_running e (th_id thread) ThreadQueued))
       (\<lambda>moved. tx_return (Commit moved)))"

definition mark_running_guarded :: "env \<Rightarrow> agent_thread \<Rightarrow> task \<Rightarrow> uuid
    \<Rightarrow> db \<Rightarrow> (runtime_error + nat) \<times> db" where
  "mark_running_guarded e thread task tok = run_txn (mark_running_txn e thread task tok)"

definition load_recorded_binding :: "(uuid \<Rightarrow> agent_binding option) \<Rightarrow> agent_thread
    \<Rightarrow> runtime_error + agent_binding" where
  "load_recorded_binding bindings thread =
     (case th_binding_version_id thread of
        None \<Rightarrow> Inl (ProductInvariant ''a product thread has no recorded binding'')
      | Some i \<Rightarrow>
          (case bindings i of
             None \<Rightarrow> Inl (Database ''loading the thread's recorded binding'' (DbNotFound ''agent_binding_version'' i))
           | Some b \<Rightarrow> Inr b))"

definition stage_reload :: "agent_thread \<Rightarrow> db \<Rightarrow> agent_thread" where
  "stage_reload current s = (case thread_find_by_id (th_id current) s of None \<Rightarrow> current | Some th \<Rightarrow> th)"

text \<open>The queued thread's move to running and the row the caller goes on with.\<close>

definition start_if_queued :: "env \<Rightarrow> agent_thread \<Rightarrow> task \<Rightarrow> uuid
    \<Rightarrow> db \<Rightarrow> (runtime_error + agent_thread) \<times> db" where
  "start_if_queued e thread task tok s =
     (if th_status thread = ThreadQueued then
        (case mark_running_guarded e thread task tok s of
           (Inl err, s') \<Rightarrow> (Inl err, s')
         | (Inr moved, s') \<Rightarrow>
             if moved = 0 then (Inr (stage_reload thread s'), s')
             else (case thread_find_by_id (th_id thread) s' of
                     None \<Rightarrow> (Inl (ThreadMissing (tk_id task)), s')
                   | Some th \<Rightarrow> (Inr th, s')))
      else (Inr thread, s))"

definition ensure_stage_thread :: "env \<Rightarrow> uuid \<Rightarrow> (uuid \<Rightarrow> agent_binding option) \<Rightarrow> job \<Rightarrow> task \<Rightarrow> uuid
    \<Rightarrow> agent_binding \<Rightarrow> db \<Rightarrow> (runtime_error + stage_thread) \<times> db" where
  "ensure_stage_thread e i bindings job task tok binding s =
     (case (case thread_find_by_stage_task_id (tk_id task) s of
              Some th \<Rightarrow> (Inr th, s)
            | None \<Rightarrow> create_stage_thread e i job task tok binding s) of
        (Inl err, s1) \<Rightarrow> (Inl err, s1)
      | (Inr thread, s1) \<Rightarrow>
          (case (if th_binding_version_id thread = Some (bd_id binding) then Inr binding
                 else load_recorded_binding bindings thread) of
             Inl err \<Rightarrow> (Inl err, s1)
           | Inr bd \<Rightarrow>
               (case start_if_queued e thread task tok s1 of
                  (Inl err, s2) \<Rightarrow> (Inl err, s2)
                | (Inr th, s2) \<Rightarrow>
                    (Inr \<lparr>st_thread = th, st_input = rendered_input (th_id th) s2, st_binding = bd\<rparr>, s2))))"

section \<open>Thread creation is calm\<close>

lemma thread_insert_Inr:
  "thread_insert e i n s = Inr (th, s') \<longleftrightarrow>
     th = new_thread_row e i n \<and> s' = s\<lparr>db_threads := db_threads s @ [th]\<rparr> \<and>
     fits_i32 (nth_format_version n) \<and> thread_check th \<and> thread_insert_refs th s \<and>
     (\<forall>r \<in> set (db_threads s). th_id r \<noteq> i \<and>
       (th_stage_task_id th \<noteq> None \<longrightarrow> th_stage_task_id r \<noteq> th_stage_task_id th) \<and>
       (th_driver_task_id th \<noteq> None \<longrightarrow> th_driver_task_id r \<noteq> th_driver_task_id th) \<and>
       (th_run_key th \<noteq> None \<longrightarrow> th_run_key r \<noteq> th_run_key th))"
  by (auto simp: thread_insert_def Let_def tx_then_def [of "tx_ensure b x" for b x] tx_bind_def
      tx_ensure_app insert_guard_then sql_exists_iff split: if_splits)

lemma new_thread_row_sel [simp]:
  "th_id (new_thread_row e i n) = i" "th_status (new_thread_row e i n) = ThreadQueued"
  "th_parent_thread_id (new_thread_row e i n) = nth_parent_thread_id n"
  "th_stage (new_thread_row e i n) = nth_stage n"
  "th_cancel_requested_at (new_thread_row e i n) = None"
  by (simp_all add: new_thread_row_def)

lemma keeps_calm_thread_insert: "keeps calm (thread_insert e i n)"
proof (rule keepsI)
  fix s th s' assume run: "thread_insert e i n s = Inr (th, s')"
  let ?t = "new_thread_row e i n"
  have "thread_check ?t" and s': "s' = s\<lparr>db_threads := db_threads s @ [?t]\<rparr>"
    and refs: "thread_insert_refs ?t s"
    and new: "\<forall>r \<in> set (db_threads s). th_id r \<noteq> th_id ?t \<and>
      (th_stage_task_id ?t \<noteq> None \<longrightarrow> th_stage_task_id r \<noteq> th_stage_task_id ?t) \<and>
      (th_driver_task_id ?t \<noteq> None \<longrightarrow> th_driver_task_id r \<noteq> th_driver_task_id ?t) \<and>
      (th_run_key ?t \<noteq> None \<longrightarrow> th_run_key r \<noteq> th_run_key ?t)"
    using run by (auto simp: thread_insert_Inr)
  moreover have "db_unique s \<longrightarrow> db_unique (s\<lparr>db_threads := db_threads s @ [?t]\<rparr>)"
    using new by (auto simp: db_unique_def set_some_keys split: option.splits)
  moreover have "db_refs s \<longrightarrow> db_refs (s\<lparr>db_threads := db_threads s @ [?t]\<rparr>)"
    using refs by (auto simp: db_refs_def thread_insert_refs_def sql_exists_iff image_iff split: option.splits)
  ultimately show "calm s s'"
    by (auto simp: calm_def evolves_def rows_evolve_refl rows_evolve_append row_evolves_refl
        db_ok_def lease_defs)
qed

lemma keeps_calm_create_stage: "keeps calm (create_stage_txn e i job task tok b)"
proof -
  have "keeps calm (case err of DbUniqueViolation x y \<Rightarrow> tx_return (Rollback None)
      | _ \<Rightarrow> tx_fail (Database ''creating the thread'' err))" for err
    by (cases err) (simp_all add: calm.keeps_return calm.keeps_fail)
  then show ?thesis
    unfolding create_stage_txn_def stage_holds_claim_def
    by (intro keeps_calm_rules keeps_calm_thread_insert) auto
qed

lemma keeps_calm_mark_running_txn: "keeps calm (mark_running_txn e th t tok)"
  unfolding mark_running_txn_def stage_holds_claim_def by (intro keeps_calm_rules)

end
