(* ===== verification/Managed.thy ===== *)
theory Managed
  imports StageStore
begin

text \<open>
  Managed runs (\<open>tribal-agent-runtime/src/managed.rs\<close>): threads anchored by a
  run key instead of a task row, whose claim is the token on the thread row.
  The thread of a run is adopted under a rotated token or created, and each
  write verifies the managed claim.
\<close>

definition managed_new_thread :: "uuid \<Rightarrow> uuid \<Rightarrow> new_thread" where
  "managed_new_thread run_key tok = \<lparr>nth_parent_thread_id = None, nth_stage = Managed,
     nth_binding_version_id = None, nth_driving_task = ManagedRef run_key, nth_principal_id = None,
     nth_job_id = None, nth_format_version = agent_thread_format_version,
     nth_run_claim_token = Some tok\<rparr>"

definition create_managed_thread :: "env \<Rightarrow> uuid \<Rightarrow> uuid \<Rightarrow> uuid \<Rightarrow> agent_thread rt" where
  "create_managed_thread e i run_key tok =
     tx_match (thread_insert e i (managed_new_thread run_key tok))
       tx_return
       (\<lambda>err. case err of
          DbUniqueViolation _ _ \<Rightarrow>
            tx_bind (rt_db ''re-adopting after a create race'' (thread_adopt_managed e run_key tok)) (\<lambda>a.
            case a of
              None \<Rightarrow> tx_fail (Database ''the run-key uniqueness held but no thread bears the key''
                (DbNotFound ''managed thread'' run_key))
            | Some th \<Rightarrow> tx_return th)
        | _ \<Rightarrow> tx_fail (Database ''creating the managed thread'' err))"

definition adopt_or_create_managed :: "env \<Rightarrow> uuid \<Rightarrow> uuid \<Rightarrow> uuid \<Rightarrow> agent_thread rt" where
  "adopt_or_create_managed e i run_key tok =
     tx_bind (rt_db ''adopting the managed thread'' (thread_adopt_managed e run_key tok)) (\<lambda>a.
     case a of
       Some th \<Rightarrow> tx_return th
     | None \<Rightarrow> create_managed_thread e i run_key tok)"

definition opening_input_txn :: "env \<Rightarrow> uuid \<Rightarrow> agent_thread \<Rightarrow> uuid \<Rightarrow> uuid \<Rightarrow> json \<Rightarrow> unit ending rt" where
  "opening_input_txn e rid thread run_key tok opening_input =
     tx_then (claim_require (claim_managed run_key tok))
    (tx_bind (tx_read (record_next_seq (th_id thread))) (\<lambda>q.
     if q \<noteq> seq_first then tx_return (Commit ())
     else tx_then (rt_db ''committing the opening input''
           (record_append e rid (tail_record e (th_id thread) q InputRecord None opening_input None)))
          (tx_return (Commit ()))))"

text \<open>The adoption is one statement; the opening input is its own transaction.\<close>

definition ensure_managed_thread :: "env \<Rightarrow> uuid \<Rightarrow> uuid \<Rightarrow> uuid \<Rightarrow> uuid \<Rightarrow> json
    \<Rightarrow> db \<Rightarrow> (runtime_error + agent_thread) \<times> db" where
  "ensure_managed_thread e i rid run_key tok opening_input s =
     (case adopt_or_create_managed e i run_key tok s of
        Inl err \<Rightarrow> (Inl err, s)
      | Inr (thread, s1) \<Rightarrow>
          (case run_txn (opening_input_txn e rid thread run_key tok opening_input) s1 of
             (Inl err, s2) \<Rightarrow> (Inl err, s2)
           | (Inr _, s2) \<Rightarrow> (Inr thread, s2)))"

datatype managed_disposition = ManagedCompleted | ManagedFailed

fun managed_terminal :: "managed_disposition \<Rightarrow> thread_terminal" where
  "managed_terminal ManagedCompleted = TermCompleted"
| "managed_terminal ManagedFailed = TermFailed"

definition managed_terminal_txn :: "env \<Rightarrow> agent_thread \<Rightarrow> driving_claim \<Rightarrow> managed_disposition
    \<Rightarrow> unit ending rt" where
  "managed_terminal_txn e thread c d =
     tx_then (claim_require c)
    (tx_then (finish_running e (th_id thread) (managed_terminal d) ''completing the managed thread'')
     (tx_return (Commit ())))"

definition commit_managed_terminal :: "env \<Rightarrow> agent_thread \<Rightarrow> driving_claim \<Rightarrow> managed_disposition
    \<Rightarrow> db \<Rightarrow> (runtime_error + unit) \<times> db" where
  "commit_managed_terminal e thread c d = run_txn (managed_terminal_txn e thread c d)"

definition suspend_managed_txn :: "env \<Rightarrow> uuid \<Rightarrow> agent_thread \<Rightarrow> driving_claim \<Rightarrow> suspension
    \<Rightarrow> instant option \<Rightarrow> unit ending rt" where
  "suspend_managed_txn e rid thread c cause wake =
     tx_then (claim_require c)
    (tx_then (append_tail e rid (th_id thread) SuspensionRecord None (suspension_to_json cause) None
        ''committing the managed suspension record'')
    (tx_bind (rt_db ''suspending the managed thread'' (thread_suspend e (th_id thread) cause wake)) (\<lambda>moved.
     if moved = 0 then tx_fail (StatusCasMissed (th_id thread) ThreadRunning)
     else tx_return (Commit ()))))"

definition suspend_managed_thread :: "env \<Rightarrow> uuid \<Rightarrow> agent_thread \<Rightarrow> driving_claim \<Rightarrow> suspension
    \<Rightarrow> instant option \<Rightarrow> db \<Rightarrow> (runtime_error + unit) \<times> db" where
  "suspend_managed_thread e rid thread c cause wake = run_txn (suspend_managed_txn e rid thread c cause wake)"

definition clear_managed_wake_txn :: "env \<Rightarrow> agent_thread \<Rightarrow> driving_claim \<Rightarrow> unit ending rt" where
  "clear_managed_wake_txn e thread c =
     tx_then (claim_require c)
    (tx_then (rt_db ''disarming the managed wake'' (thread_disarm_wake e (th_id thread)))
     (tx_return (Commit ())))"

definition clear_managed_wake :: "env \<Rightarrow> agent_thread \<Rightarrow> driving_claim
    \<Rightarrow> db \<Rightarrow> (runtime_error + unit) \<times> db" where
  "clear_managed_wake e thread c = run_txn (clear_managed_wake_txn e thread c)"

lemma keeps_calm_opening_input: "keeps calm (opening_input_txn e rid th k tok j)"
  unfolding opening_input_txn_def rt_db_def
  by (intro calm.keeps_then keeps_calm_turn_parts calm.keeps_read_at calm.keeps_at_if
      calm.keeps_at_then calm.keeps_at_map_err keeps_at_calm_tail calm.keeps_at_all keeps_calm_rules)

lemma keeps_calm_managed:
  "keeps calm (managed_terminal_txn e th c d)"
  "keeps calm (suspend_managed_txn e rid th c cause w)"
  "keeps calm (clear_managed_wake_txn e th c)"
  unfolding managed_terminal_txn_def suspend_managed_txn_def
    clear_managed_wake_txn_def
  by (intro keeps_calm_rules keeps_calm_turn_parts)+

lemma keeps_calm_adopt_or_create: "keeps calm (adopt_or_create_managed e i k tok)"
proof -
  have *: "keeps calm (case err of
          DbUniqueViolation _ _ \<Rightarrow>
            tx_bind (rt_db ''re-adopting after a create race'' (thread_adopt_managed e k tok)) (\<lambda>a.
            case a of
              None \<Rightarrow> tx_fail (Database ''the run-key uniqueness held but no thread bears the key''
                (DbNotFound ''managed thread'' k))
            | Some th \<Rightarrow> tx_return th)
        | _ \<Rightarrow> tx_fail (Database ''creating the managed thread'' err))" for err
    by (cases err) (auto intro!: keeps_calm_rules)
  have "keeps calm (create_managed_thread e i k tok)"
    unfolding create_managed_thread_def
    by (intro calm.keeps_match keeps_calm_thread_insert calm.keeps_return *)
  then show ?thesis
    unfolding adopt_or_create_managed_def by (intro keeps_calm_rules)
qed

end
