(* ===== verification/Disposition.thy ===== *)
theory Disposition
  imports Domain "HOL-Library.Word"
begin

unbundle bit_operations_syntax

text \<open>
  The pure retry policy: the disposition decision of
  \<open>tribal-domain/src/disposition.rs\<close>, the inline failure backoff of
  \<open>tribal-worker/src/worker/backoff.rs\<close> with the jitter of \<open>tribal-common\<close>, and
  the recovery-cycle backoff of \<open>tribal-worker/src/worker/heartbeat.rs\<close>.
\<close>

section \<open>The disposition decision\<close>

definition retry_count_after_progress :: nat where
  "retry_count_after_progress = 0"

datatype turn_outcome = ThreadTerminal thread_terminal | RetryableFailure

record disposition_counters =
  dc_retry_count :: nat
  dc_max_retries :: nat
  dc_recovery_attempts :: nat
  dc_max_recovery_attempts :: nat

datatype disposition =
    CompleteTask
  | DeadLetterTask
  | Requeue nat
  | RecoveryCycle nat nat
  | ExhaustThread

definition decide_disposition :: "turn_outcome \<Rightarrow> disposition_counters \<Rightarrow> disposition" where
  "decide_disposition out c =
     (case out of
        ThreadTerminal TermCompleted \<Rightarrow> CompleteTask
      | ThreadTerminal _ \<Rightarrow> DeadLetterTask
      | RetryableFailure \<Rightarrow>
          (let failures = u32_add (dc_retry_count c) 1 in
           if failures \<le> dc_max_retries c then Requeue failures
           else
             let cycles = u32_add (dc_recovery_attempts c) 1 in
             if cycles \<le> dc_max_recovery_attempts c
             then RecoveryCycle retry_count_after_progress cycles
             else ExhaustThread))"

lemma u32_add_one: "a < 2 ^ 32 - 1 \<Longrightarrow> u32_add a 1 = a + 1"
  by (simp add: u32_add_def)

section \<open>Runs of retryable failures\<close>

text \<open>The counters as the rows hold them: non-negative \<open>i32\<close> columns within the
  configured budgets.\<close>

definition counters_ok :: "disposition_counters \<Rightarrow> bool" where
  "counters_ok c \<longleftrightarrow> dc_retry_count c \<le> dc_max_retries c \<and>
     dc_recovery_attempts c \<le> dc_max_recovery_attempts c \<and>
     fits_i32 (dc_max_retries c) \<and> fits_i32 (dc_max_recovery_attempts c)"

definition failures_left :: "disposition_counters \<Rightarrow> nat" where
  "failures_left c =
     (dc_max_recovery_attempts c - dc_recovery_attempts c) * (dc_max_retries c + 1) +
     (dc_max_retries c - dc_retry_count c)"

text \<open>What the next attempt reads back after a decision was persisted.\<close>

fun persist_decision :: "disposition \<Rightarrow> disposition_counters \<Rightarrow> disposition_counters option" where
  "persist_decision (Requeue r) c = Some (c\<lparr>dc_retry_count := r\<rparr>)"
| "persist_decision (RecoveryCycle r k) c = Some (c\<lparr>dc_retry_count := r, dc_recovery_attempts := k\<rparr>)"
| "persist_decision _ c = None"

lemma decide_failure_cases:
  assumes "counters_ok c"
  obtains
    (requeue) "decide_disposition RetryableFailure c = Requeue (dc_retry_count c + 1)"
      "dc_retry_count c < dc_max_retries c"
  | (cycle) "decide_disposition RetryableFailure c = RecoveryCycle 0 (dc_recovery_attempts c + 1)"
      "dc_retry_count c = dc_max_retries c" "dc_recovery_attempts c < dc_max_recovery_attempts c"
  | (exhaust) "decide_disposition RetryableFailure c = ExhaustThread"
      "dc_retry_count c = dc_max_retries c" "dc_recovery_attempts c = dc_max_recovery_attempts c"
proof -
  have "u32_add (dc_retry_count c) 1 = dc_retry_count c + 1"
    "u32_add (dc_recovery_attempts c) 1 = dc_recovery_attempts c + 1"
    using assms by (auto simp: counters_ok_def fits_i32_def intro!: u32_add_one)
  then show ?thesis
    using assms that
    by (cases "dc_retry_count c < dc_max_retries c";
        cases "dc_recovery_attempts c < dc_max_recovery_attempts c")
      (auto simp: decide_disposition_def Let_def counters_ok_def retry_count_after_progress_def)
qed

lemma persist_decision_decreases:
  assumes "counters_ok c" "persist_decision (decide_disposition RetryableFailure c) c = Some c'"
  shows "counters_ok c' \<and> failures_left c = Suc (failures_left c')"
  using assms(1)
proof (cases rule: decide_failure_cases)
  case cycle
  obtain k where "dc_max_recovery_attempts c - dc_recovery_attempts c = Suc k"
    using cycle(3) by (metis Suc_diff_Suc)
  moreover from this have "dc_max_recovery_attempts c - Suc (dc_recovery_attempts c) = k" by simp
  ultimately show ?thesis
    using cycle assms by (auto simp: failures_left_def counters_ok_def)
qed (use assms in \<open>auto simp: failures_left_def counters_ok_def\<close>)

text \<open>The decisions a thread that only ever fails retryably goes through until
  its budgets run out.\<close>

function failure_run :: "disposition_counters \<Rightarrow> disposition list" where
  "failure_run c =
     (if \<not> counters_ok c then []
      else let d = decide_disposition RetryableFailure c in
        case persist_decision d c of None \<Rightarrow> [d] | Some c' \<Rightarrow> d # failure_run c')"
  by pat_completeness auto

termination failure_run
  by (relation "measure failures_left") (auto dest: persist_decision_decreases)

declare failure_run.simps [simp del]

lemma failure_run_exhausts:
  "counters_ok c \<Longrightarrow> length (failure_run c) = failures_left c + 1 \<and> last (failure_run c) = ExhaustThread \<and>
     ExhaustThread \<notin> set (butlast (failure_run c))"
proof (induction "failures_left c" arbitrary: c)
  case 0
  then show ?case
    by (cases rule: decide_failure_cases [OF 0(2)])
      (auto simp: failure_run.simps [of c] Let_def failures_left_def)
next
  case (Suc n)
  from Suc.prems show ?case
  proof (cases rule: decide_failure_cases)
    case exhaust
    then show ?thesis using Suc.hyps(2) by (simp add: failures_left_def)
  next
    case requeue
    let ?c' = "c\<lparr>dc_retry_count := dc_retry_count c + 1\<rparr>"
    have "counters_ok ?c'" "n = failures_left ?c'"
      using persist_decision_decreases [OF Suc.prems] requeue Suc.hyps(2) by auto
    then show ?thesis
      using Suc.hyps(1) [of ?c'] Suc.hyps(2) [symmetric] Suc.prems requeue by (auto simp: failure_run.simps [of c] Let_def)
  next
    case cycle
    let ?c' = "c\<lparr>dc_retry_count := 0, dc_recovery_attempts := dc_recovery_attempts c + 1\<rparr>"
    have "counters_ok ?c'" "n = failures_left ?c'"
      using persist_decision_decreases [OF Suc.prems] cycle Suc.hyps(2) by auto
    then show ?thesis
      using Suc.hyps(1) [of ?c'] Suc.hyps(2) [symmetric] Suc.prems cycle by (auto simp: failure_run.simps [of c] Let_def)
  qed
qed

section \<open>Backoff\<close>

definition lcg_multiplier :: "64 word" where
  "lcg_multiplier = 6364136223846793005"

definition lcg_increment :: "64 word" where
  "lcg_increment = 1442695040888963407"

definition deterministic_jitter :: "32 word \<Rightarrow> 64 word \<Rightarrow> 64 word \<Rightarrow> 32 word" where
  "deterministic_jitter retry_count range_ms seed =
     (let hash = ((ucast retry_count :: 64 word) XOR seed) * lcg_multiplier + lcg_increment in
      ucast (hash mod (range_ms * 2 + 1)))"

definition backoff_cap_secs :: nat where
  "backoff_cap_secs = 60"

definition jitter_divisor :: nat where
  "jitter_divisor = 5"

definition saturating_pow2 :: "nat \<Rightarrow> nat \<Rightarrow> nat" where
  "saturating_pow2 width n = min (2 ^ n) (2 ^ width - 1)"

text \<open>The delay in milliseconds.\<close>

definition backoff_duration :: "32 word \<Rightarrow> 64 word \<Rightarrow> int" where
  "backoff_duration retry_count seed =
     (let base_secs = min (saturating_pow2 64 (unat retry_count)) backoff_cap_secs;
          base_ms = base_secs * 1000;
          jitter_range_ms = base_ms div jitter_divisor;
          jitter_ms =
            (if jitter_range_ms > 0
             then uint (deterministic_jitter retry_count (of_nat jitter_range_ms) seed) - int jitter_range_ms
             else 0);
          total_ms = int base_ms + jitter_ms in
      max total_ms 1000)"

definition recovery_backoff_cap_seconds :: nat where
  "recovery_backoff_cap_seconds = 3600"

definition recovery_backoff_seconds :: "nat \<Rightarrow> nat" where
  "recovery_backoff_seconds recovery_attempts =
     min (saturating_pow2 32 recovery_attempts) recovery_backoff_cap_seconds"

lemma deterministic_jitter_bound:
  assumes "r < 2 ^ 31"
  shows "uint (deterministic_jitter n (of_nat r) seed) \<le> 2 * int r"
proof -
  let ?hash = "((ucast n :: 64 word) XOR seed) * lcg_multiplier + lcg_increment"
  let ?m = "of_nat r * 2 + 1 :: 64 word"
  have m: "uint ?m = 2 * int r + 1"
    using assms by (simp add: uint_word_ariths take_bit_eq_mod unsigned_of_nat)
  have "uint (?hash mod ?m) \<le> 2 * int r"
    using m pos_mod_bound [of "uint ?m" "uint ?hash"] by (simp add: uint_mod)
  then show ?thesis
    using assms by (simp add: deterministic_jitter_def Let_def unsigned_ucast_eq take_bit_int_eq_self
        order_le_less_trans)
qed

lemma base_secs_bounds:
  "0 < min (saturating_pow2 64 n) backoff_cap_secs \<and> min (saturating_pow2 64 n) backoff_cap_secs \<le> 60"
  by (simp add: saturating_pow2_def backoff_cap_secs_def)

section \<open>Properties\<close>

text \<open>C11: A thread that keeps failing retryably is not retried for ever: from
  counters within their budgets, the decisions made after each failure end with
  the thread's exhaustion, after exactly the retries left in this cycle plus a
  full set of retries for each recovery cycle left, and no earlier decision
  exhausts it.\<close>

theorem failures_exhaust_budget:
  assumes "counters_ok c"
  shows "length (failure_run c) =
      (dc_max_recovery_attempts c - dc_recovery_attempts c) * (dc_max_retries c + 1)
      + (dc_max_retries c - dc_retry_count c) + 1 \<and>
    last (failure_run c) = ExhaustThread \<and> ExhaustThread \<notin> set (butlast (failure_run c))"
  using failure_run_exhausts [OF assms] by (simp add: failures_left_def)

theorem failures_exhaust_budget_witness:
  "length (failure_run \<lparr>dc_retry_count = 1, dc_max_retries = 2, dc_recovery_attempts = 0,
      dc_max_recovery_attempts = 2\<rparr>) = 8"
  using failures_exhaust_budget [of "\<lparr>dc_retry_count = 1, dc_max_retries = 2, dc_recovery_attempts = 0,
      dc_max_recovery_attempts = 2\<rparr>"]
  by (simp add: counters_ok_def fits_i32_def)

text \<open>C12: The delay before an inline retry is never below a second nor above
  72 seconds, and where the floor does not bind it is within a fifth of
  \<open>min (2 ^ retry_count) 60\<close> seconds, whatever the task's identifier seeds.\<close>

theorem backoff_within_band:
  "1000 \<le> backoff_duration n seed \<and> backoff_duration n seed \<le> 72000 \<and>
   5 * backoff_duration n seed \<le> 6 * max 1000 (1000 * int (min (2 ^ unat n) 60)) \<and>
   4 * (1000 * int (min (2 ^ unat n) 60)) \<le> 5 * backoff_duration n seed"
proof -
  define b where "b = min (saturating_pow2 64 (unat n)) backoff_cap_secs"
  have b: "0 < b" "b \<le> 60" using base_secs_bounds by (simp_all add: b_def)
  have same: "b = min (2 ^ unat n) 60"
    by (simp add: b_def saturating_pow2_def backoff_cap_secs_def)
  define r where "r = b * 1000 div jitter_divisor"
  have r: "r = 200 * b" by (simp add: r_def jitter_divisor_def)
  define j where "j = uint (deterministic_jitter n (of_nat r) seed)"
  have "r < 2 ^ 31" using b r by simp
  then have j: "0 \<le> j" "j \<le> 2 * int r"
    using deterministic_jitter_bound by (simp_all add: j_def)
  have "backoff_duration n seed = max (int b * 1000 + (j - int r)) 1000"
    using b r by (simp add: backoff_duration_def Let_def j_def r_def b_def)
  then show ?thesis using b r j unfolding same [symmetric] by (auto simp: max_def)
qed

end
