(* ===== verification/Coupling.thy ===== *)
theory Coupling
  imports Turn Disposition
begin

text \<open>
  How the end of a task couples to its job, and the sweep-side cancellation
  (\<open>tribal-worker/src/worker/coupling.rs\<close>): the triage fan-in, the failure of a
  job whose task died, and the cancel transaction with its disposal of the
  driving task. Notifications to the in-process watchers are returned, not
  sent.
\<close>

definition cancel_cascade_requested_by :: string where
  "cancel_cascade_requested_by = ''parent-terminal cascade''"

record owed_notification =
  on_job_id :: uuid
  on_state :: job_state

definition relating_transition :: job_transition where
  "relating_transition = \<lparr>jt_status = JobRelating, jt_outcome = None, jt_error_message = None,
     jt_completed_at = None\<rparr>"

definition failed_transition :: "env \<Rightarrow> string \<Rightarrow> job_transition" where
  "failed_transition e msg = \<lparr>jt_status = JobFailed, jt_outcome = Some Failure,
     jt_error_message = Some msg, jt_completed_at = Some (env_utc_now e)\<rparr>"

definition triage_fan_in :: "env \<Rightarrow> uuid \<Rightarrow> uuid \<Rightarrow> uuid \<Rightarrow> bool db_tx" where
  "triage_fan_in e new_id job current =
     tx_bind (tx_read (task_count_live_siblings job Triage current)) (\<lambda>remaining.
     if remaining > 0 then tx_return False
     else
       tx_then (task_upsert e new_id \<lparr>nt_job_id = job, nt_task_type = Relation, nt_batch_index = None\<rparr>)
      (tx_bind (job_update_status_if_live e job relating_transition) (\<lambda>moved.
       tx_return (moved \<noteq> None))))"

definition couple_dead_lettered_task :: "env \<Rightarrow> uuid \<Rightarrow> task \<Rightarrow> string \<Rightarrow> owed_notification option db_tx" where
  "couple_dead_lettered_task e new_id task msg =
     (if tk_task_type task = Triage then
        tx_bind (triage_fan_in e new_id (tk_job_id task) (tk_id task)) (\<lambda>fired.
        tx_return (if fired then Some \<lparr>on_job_id = tk_job_id task, on_state = StateRelating\<rparr> else None))
      else
        tx_bind (job_update_status_if_live e (tk_job_id task) (failed_transition e msg)) (\<lambda>moved.
        tx_return (if moved \<noteq> None then Some \<lparr>on_job_id = tk_job_id task, on_state = StateFailed\<rparr> else None)))"

datatype cancel_thread_outcome = CancelSkipped | ThreadCancelledWith "owed_notification option"

datatype driving_disposition = DrivingClaimed | CoupleStage task | NoCoupling

definition dispose_cancelled_driving_task :: "env \<Rightarrow> agent_thread \<Rightarrow> driving_disposition rt" where
  "dispose_cancelled_driving_task e thread =
     (case th_stage_task_id thread of
        Some task_id \<Rightarrow>
          tx_bind (rt_db ''loading the driving task'' (task_find_by_id task_id)) (\<lambda>task.
          tx_bind (rt_db ''disposing of the driving task''
             (task_dead_letter_unclaimed e task_id InternalError ''thread cancelled'')) (\<lambda>disposed.
          tx_return
            (if disposed = 0 \<and> \<not> task_status_terminal (tk_status task) then DrivingClaimed
             else if disposed > 0 then CoupleStage task else NoCoupling)))
      | None \<Rightarrow>
          (case th_driver_task_id thread of
             Some driver_id \<Rightarrow>
               tx_bind (tx_read (driver_find_by_id driver_id)) (\<lambda>task.
               tx_bind (rt_db ''disposing of the child's driver task''
                  (driver_dispose_unclaimed e driver_id ''thread cancelled'')) (\<lambda>disposed.
               tx_return
                 (if disposed = 0 \<and> (case task of None \<Rightarrow> False | Some d \<Rightarrow> \<not> driver_state_terminal (dt_state d))
                  then DrivingClaimed else NoCoupling)))
           | None \<Rightarrow> tx_return NoCoupling))"

definition cancel_thread_txn :: "env \<Rightarrow> uuid \<Rightarrow> uuid \<Rightarrow> agent_thread \<Rightarrow> cancel_thread_outcome ending rt" where
  "cancel_thread_txn e rid new_id thread =
     tx_bind (dispose_cancelled_driving_task e thread) (\<lambda>d.
     if d = DrivingClaimed then tx_return (Rollback CancelSkipped) else
     tx_bind (cancel_thread_in_txn e rid (th_id thread)) (\<lambda>outcome.
     if outcome \<noteq> CancelledOutcome then tx_return (Rollback CancelSkipped) else
     (case d of
        CoupleStage task \<Rightarrow>
          tx_bind (rt_db ''coupling the cancelled job''
             (couple_dead_lettered_task e new_id task ''thread cancelled'')) (\<lambda>n.
          tx_return (Commit (ThreadCancelledWith n)))
      | _ \<Rightarrow> tx_return (Commit (ThreadCancelledWith None)))))"

text \<open>The post-commit cascade from a root is best effort and its own statement.\<close>

definition cascade_cancel_to_children :: "env \<Rightarrow> uuid \<Rightarrow> db \<Rightarrow> db" where
  "cascade_cancel_to_children e parent s =
     (case thread_cascade_cancel_to_children e parent cancel_cascade_requested_by s of
        Inl _ \<Rightarrow> s
      | Inr (_, s') \<Rightarrow> s')"

definition cancel_thread :: "env \<Rightarrow> uuid \<Rightarrow> uuid \<Rightarrow> agent_thread
    \<Rightarrow> db \<Rightarrow> (runtime_error + cancel_thread_outcome) \<times> db" where
  "cancel_thread e rid new_id thread s =
     (case run_txn (cancel_thread_txn e rid new_id thread) s of
        (Inr (ThreadCancelledWith n), s') \<Rightarrow>
          (Inr (ThreadCancelledWith n),
           if th_parent_thread_id thread = None then cascade_cancel_to_children e (th_id thread) s' else s')
      | r \<Rightarrow> r)"

section \<open>The coupling transactions are calm\<close>

lemma keeps_calm_task_find_by_id: "keeps calm (task_find_by_id i)"
  by (auto simp: keeps_def task_find_by_id_def calm.order_refl split: option.splits)

lemma keeps_calm_coupling:
  "keeps calm (triage_fan_in e n j t)"
  "keeps calm (couple_dead_lettered_task e n tk msg)"
  "keeps calm (dispose_cancelled_driving_task e th)"
  unfolding couple_dead_lettered_task_def triage_fan_in_def dispose_cancelled_driving_task_def
  by (intro keeps_calm_rules keeps_calm_task_find_by_id)+

lemma keeps_calm_cancel_thread_txn: "keeps calm (cancel_thread_txn e rid n th)"
proof -
  have "keeps calm (case d of
        CoupleStage task \<Rightarrow>
          tx_bind (rt_db ''coupling the cancelled job''
             (couple_dead_lettered_task e n task ''thread cancelled'')) (\<lambda>n.
          tx_return (Commit (ThreadCancelledWith n)))
      | _ \<Rightarrow> tx_return (Commit (ThreadCancelledWith None)))" for d
    by (cases d) (auto intro!: keeps_calm_rules keeps_calm_coupling)
  then show ?thesis
    unfolding cancel_thread_txn_def
    by (intro keeps_calm_rules keeps_calm_coupling keeps_calm_cancel_thread)
qed

lemma cascade_children_calm: "calm s (cascade_cancel_to_children e p s)"
  using keeps_calm_thread_statements(6) [of e p cancel_cascade_requested_by]
  by (auto simp: cascade_cancel_to_children_def keeps_def calm.order_refl split: sum.splits)

lemma cancel_thread_calm: "calm s (snd (cancel_thread e rid n th s))"
proof -
  obtain r s' where run: "run_txn (cancel_thread_txn e rid n th) s = (r, s')"
    by (cases "run_txn (cancel_thread_txn e rid n th) s")
  then have "calm s s'"
    using calm.run_txn_keeps [OF keeps_calm_cancel_thread_txn, of s e rid n th] by simp
  then show ?thesis
    using run by (auto simp: cancel_thread_def split: sum.splits cancel_thread_outcome.splits
        intro: calm.order_trans [OF _ cascade_children_calm])
qed

end
