(* ===== verification/Failure.thy ===== *)
theory Failure
  imports Coupling
begin

text \<open>
  What a failed or abandoned attempt does to its task and thread: the inline
  failure of \<open>tribal-worker/src/worker/dispatch/failure.rs\<close> and the
  thread-aware reclaim of \<open>tribal-worker/src/worker/heartbeat.rs\<close>, both under
  the one disposition decision. The executor a binding names comes from the
  binding table, which is a parameter.
\<close>

datatype stage_executor = OneShot | BuiltInLoop | ExternalAgent

record worker_config =
  wc_task_max_retries :: nat
  wc_task_timeout_secs :: nat

definition thread_recovery_cap :: nat where
  "thread_recovery_cap = 2"

text \<open>A binding that cannot be read counts as one-shot.\<close>

definition recovery_cap_for_thread :: "(uuid \<Rightarrow> stage_executor option) \<Rightarrow> agent_thread \<Rightarrow> nat" where
  "recovery_cap_for_thread executors thread =
     (case th_binding_version_id thread of
        None \<Rightarrow> 0
      | Some i \<Rightarrow>
          (case (case executors i of Some x \<Rightarrow> x | None \<Rightarrow> OneShot) of
             BuiltInLoop \<Rightarrow> thread_recovery_cap
           | OneShot \<Rightarrow> 0
           | ExternalAgent \<Rightarrow> 0))"

definition task_counters :: "worker_config \<Rightarrow> (uuid \<Rightarrow> stage_executor option) \<Rightarrow> task \<Rightarrow> agent_thread
    \<Rightarrow> disposition_counters" where
  "task_counters cfg executors task thread = \<lparr>dc_retry_count = tk_retry_count task,
     dc_max_retries = wc_task_max_retries cfg, dc_recovery_attempts = th_recovery_attempts thread,
     dc_max_recovery_attempts = recovery_cap_for_thread executors thread\<rparr>"

section \<open>Inline failure\<close>

record failure_outcome =
  fo_error_kind :: task_error_kind
  fo_retry_count :: nat
  fo_available_at :: instant
  fo_is_dead_lettered :: bool

datatype failure_persistence = FailureCommitted bool bool | OwnershipLostOutcome

definition failure_terminal :: "task_error_kind \<Rightarrow> thread_terminal" where
  "failure_terminal k = (case task_error_outcome k of Terminal \<Rightarrow> TermFailed | Retryable \<Rightarrow> TermDeadLetter)"

text \<open>The outcome \<open>handle_stage_failure\<close> derives from the claimed row: the
  post-increment count, its backoff from the process clock (milliseconds to
  microseconds), and the legacy dead-letter verdict. The seed is the low word
  of the task's identifier.\<close>

definition stage_failure_outcome :: "env \<Rightarrow> worker_config \<Rightarrow> task \<Rightarrow> task_error_kind \<Rightarrow> failure_outcome" where
  "stage_failure_outcome e cfg task kind =
     (let post = u32_add (tk_retry_count task) 1 in
      \<lparr>fo_error_kind = kind, fo_retry_count = post,
       fo_available_at = env_utc_now e +
         backoff_duration (of_nat post) (of_nat (tk_id task)) * 1000,
       fo_is_dead_lettered = post > wc_task_max_retries cfg\<rparr>)"

definition apply_dead_letter :: "env \<Rightarrow> task \<Rightarrow> agent_thread \<Rightarrow> uuid \<Rightarrow> failure_outcome \<Rightarrow> string
    \<Rightarrow> bool option db_tx" where
  "apply_dead_letter e task thread tok out msg =
     (let terminal = failure_terminal (fo_error_kind out) in
      tx_bind (task_dead_letter_claimed e (tk_id task) tok (fo_error_kind out) msg) (\<lambda>rows.
      if rows = 0 then tx_return None else
      tx_bind (thread_complete e (th_id thread) terminal ThreadRunning) (\<lambda>moved.
      tx_then (if moved = 0 then thread_complete e (th_id thread) terminal ThreadQueued
               else tx_return moved)
      (tx_return (Some True)))))"

definition apply_inline_disposition :: "env \<Rightarrow> task \<Rightarrow> agent_thread \<Rightarrow> uuid \<Rightarrow> disposition
    \<Rightarrow> failure_outcome \<Rightarrow> string \<Rightarrow> bool option db_tx" where
  "apply_inline_disposition e task thread tok d out msg =
     (case d of
        Requeue retry_count \<Rightarrow>
          tx_bind (task_requeue_claimed e (tk_id task) tok retry_count (fo_available_at out)
             (fo_error_kind out) msg) (\<lambda>rows.
          tx_return (if rows = 0 then None else Some False))
      | RecoveryCycle retry_count recovery_attempts \<Rightarrow>
          tx_then (thread_increment_recovery_attempts e (th_id thread))
         (tx_bind (task_requeue_claimed e (tk_id task) tok retry_count
             (env_utc_now e + seconds (int (recovery_backoff_seconds recovery_attempts)))
             (fo_error_kind out) msg) (\<lambda>rows.
          tx_return (if rows = 0 then None else Some False)))
      | DeadLetterTask \<Rightarrow> apply_dead_letter e task thread tok out msg
      | ExhaustThread \<Rightarrow> apply_dead_letter e task thread tok out msg
      | CompleteTask \<Rightarrow> tx_return None)"

definition failure_turn_outcome :: "task_error_kind \<Rightarrow> turn_outcome" where
  "failure_turn_outcome k =
     (case task_error_outcome k of Terminal \<Rightarrow> ThreadTerminal TermFailed | Retryable \<Rightarrow> RetryableFailure)"

text \<open>The job half after the task's disposition: a dead extraction or relation
  task fails the job, a dead triage task may be the last of its batch.\<close>

definition couple_failure :: "env \<Rightarrow> uuid \<Rightarrow> task \<Rightarrow> bool \<Rightarrow> string \<Rightarrow> failure_persistence ending db_tx" where
  "couple_failure e new_id task dead msg =
     tx_bind (if dead \<and> tk_task_type task \<noteq> Triage
              then tx_bind (job_update_status_if_live e (tk_job_id task) (failed_transition e msg))
                (\<lambda>moved. tx_return (moved \<noteq> None))
              else tx_return False) (\<lambda>job_failed.
     tx_then (if dead \<and> tk_task_type task = Triage
              then triage_fan_in e new_id (tk_job_id task) (tk_id task)
              else tx_return False)
     (tx_return (Commit (FailureCommitted dead job_failed))))"

definition persist_failure_txn :: "env \<Rightarrow> uuid \<Rightarrow> worker_config \<Rightarrow> (uuid \<Rightarrow> stage_executor option)
    \<Rightarrow> task \<Rightarrow> uuid \<Rightarrow> failure_outcome \<Rightarrow> string \<Rightarrow> failure_persistence ending db_tx" where
  "persist_failure_txn e new_id cfg executors task tok out msg =
     tx_bind (tx_read (thread_find_by_stage_task_id (tk_id task))) (\<lambda>found.
     tx_bind
       (case found of
          Some thread \<Rightarrow>
            apply_inline_disposition e task thread tok
              (decide_disposition (failure_turn_outcome (fo_error_kind out))
                (task_counters cfg executors task thread)) out msg
        | None \<Rightarrow>
            tx_bind (task_fail e (tk_id task) tok (wc_task_max_retries cfg) (fo_available_at out)
               (fo_error_kind out) msg) (\<lambda>rows.
            tx_return (if rows = 0 then None else Some (fo_is_dead_lettered out)))) (\<lambda>applied.
     case applied of
       None \<Rightarrow> tx_return (Rollback OwnershipLostOutcome)
     | Some dead \<Rightarrow> couple_failure e new_id task dead msg))"

definition persist_failure :: "env \<Rightarrow> uuid \<Rightarrow> worker_config \<Rightarrow> (uuid \<Rightarrow> stage_executor option)
    \<Rightarrow> task \<Rightarrow> failure_outcome \<Rightarrow> string \<Rightarrow> db \<Rightarrow> (db_error + failure_persistence) \<times> db" where
  "persist_failure e new_id cfg executors task out msg s =
     (case tk_claim_token task of
        None \<Rightarrow> (Inr OwnershipLostOutcome, s)
      | Some tok \<Rightarrow> run_txn (persist_failure_txn e new_id cfg executors task tok out msg) s)"

section \<open>Thread-aware reclaim\<close>

record reclaim_stats =
  rs_requeued :: nat
  rs_recovery_cycles :: nat
  rs_exhausted :: nat

definition reclaim_stats_zero :: reclaim_stats where
  "reclaim_stats_zero = \<lparr>rs_requeued = 0, rs_recovery_cycles = 0, rs_exhausted = 0\<rparr>"

definition exhaust_thread :: "env \<Rightarrow> uuid \<Rightarrow> task \<Rightarrow> agent_thread \<Rightarrow> uuid \<Rightarrow> task_error_kind \<Rightarrow> string
    \<Rightarrow> owed_notification option db_tx" where
  "exhaust_thread e new_id task thread tok kind msg =
     tx_bind (tx_read (thread_lock (th_id thread))) (\<lambda>locked.
     tx_then
       (case locked of
          Some current \<Rightarrow>
            if \<not> thread_status_terminal (th_status current)
            then thread_complete e (th_id thread) TermDeadLetter (th_status current)
            else tx_return 0
        | None \<Rightarrow> tx_return 0)
    (tx_then (task_dead_letter_claimed e (tk_id task) tok kind msg)
     (couple_dead_lettered_task e new_id task msg)))"

text \<open>One pass of the loop body: \<open>None\<close> is its \<open>break\<close>, with the transaction
  dropped.\<close>

definition reclaim_one_txn :: "env \<Rightarrow> uuid \<Rightarrow> worker_config \<Rightarrow> (uuid \<Rightarrow> stage_executor option)
    \<Rightarrow> (uuid \<Rightarrow> bool) \<Rightarrow> task_error_kind \<Rightarrow> string \<Rightarrow> nat option \<Rightarrow> disposition option ending db_tx" where
  "reclaim_one_txn e new_id cfg executors locked kind msg flat =
     tx_bind (tx_read (task_lock_stale_thread_driving e locked (wc_task_timeout_secs cfg))) (\<lambda>stale.
     case stale of
       None \<Rightarrow> tx_return (Rollback None)
     | Some task \<Rightarrow>
     tx_bind (tx_read (thread_find_by_stage_task_id (tk_id task))) (\<lambda>found.
     case found of
       None \<Rightarrow> tx_return (Rollback None)
     | Some thread \<Rightarrow>
     (case tk_claim_token task of
       None \<Rightarrow> tx_return (Rollback None)
     | Some tok \<Rightarrow>
     (case decide_disposition RetryableFailure (task_counters cfg executors task thread) of
        Requeue retry_count \<Rightarrow>
          tx_then (task_reclaim_requeue e (tk_id task) retry_count
             (case flat of Some f \<Rightarrow> f | None \<Rightarrow> saturating_pow2 32 (retry_count - 1)) kind msg)
          (tx_return (Commit (Some (Requeue retry_count))))
      | RecoveryCycle retry_count recovery_attempts \<Rightarrow>
          tx_then (thread_increment_recovery_attempts e (th_id thread))
         (tx_then (task_reclaim_requeue e (tk_id task) retry_count
             (recovery_backoff_seconds recovery_attempts) kind msg)
          (tx_return (Commit (Some (RecoveryCycle retry_count recovery_attempts)))))
      | ExhaustThread \<Rightarrow>
          tx_then (exhaust_thread e new_id task thread tok kind msg)
          (tx_return (Commit (Some ExhaustThread)))
      | CompleteTask \<Rightarrow> tx_return (Rollback None)
      | DeadLetterTask \<Rightarrow> tx_return (Rollback None)))))"

definition count_disposition :: "disposition \<Rightarrow> reclaim_stats \<Rightarrow> reclaim_stats" where
  "count_disposition d st =
     (case d of
        Requeue _ \<Rightarrow> st\<lparr>rs_requeued := rs_requeued st + 1\<rparr>
      | RecoveryCycle _ _ \<Rightarrow> st\<lparr>rs_recovery_cycles := rs_recovery_cycles st + 1\<rparr>
      | ExhaustThread \<Rightarrow> st\<lparr>rs_exhausted := rs_exhausted st + 1\<rparr>
      | _ \<Rightarrow> st)"

text \<open>The pass: at most \<open>limit\<close> transactions, each on the stalest row left. The
  ambient values and the fresh identifier are each round's own.\<close>

fun run_thread_aware_reclaim :: "(nat \<Rightarrow> env) \<Rightarrow> (nat \<Rightarrow> uuid) \<Rightarrow> worker_config
    \<Rightarrow> (uuid \<Rightarrow> stage_executor option) \<Rightarrow> (uuid \<Rightarrow> bool) \<Rightarrow> task_error_kind \<Rightarrow> string \<Rightarrow> nat option
    \<Rightarrow> nat \<Rightarrow> reclaim_stats \<Rightarrow> db \<Rightarrow> (db_error + reclaim_stats) \<times> db" where
  "run_thread_aware_reclaim es ids cfg executors locked kind msg flat 0 st s = (Inr st, s)"
| "run_thread_aware_reclaim es ids cfg executors locked kind msg flat (Suc n) st s =
     (case run_txn (reclaim_one_txn (es n) (ids n) cfg executors locked kind msg flat) s of
        (Inl err, s') \<Rightarrow> (Inl err, s')
      | (Inr None, s') \<Rightarrow> (Inr st, s')
      | (Inr (Some d), s') \<Rightarrow>
          run_thread_aware_reclaim es ids cfg executors locked kind msg flat n
            (count_disposition d st) s')"

section \<open>The failure transactions are calm\<close>

lemma keeps_calm_apply_dead_letter: "keeps calm (apply_dead_letter e t th tok out msg)"
  unfolding apply_dead_letter_def Let_def
  by (intro keeps_calm_rules keeps_calm_thread_complete; simp add: thread_status_terminal_def)

lemma keeps_calm_apply_inline: "keeps calm (apply_inline_disposition e t th tok d out msg)"
  unfolding apply_inline_disposition_def
  by (cases d) (auto intro!: keeps_calm_rules keeps_calm_apply_dead_letter)

lemma keeps_calm_couple_failure: "keeps calm (couple_failure e n t d msg)"
  unfolding couple_failure_def by (intro keeps_calm_rules keeps_calm_coupling)

lemma keeps_calm_persist_failure: "keeps calm (persist_failure_txn e n cfg ex t tok out msg)"
  unfolding persist_failure_txn_def
  by (intro keeps_calm_rules keeps_calm_apply_inline keeps_calm_couple_failure)

lemma keeps_calm_exhaust_thread: "keeps calm (exhaust_thread e n t th tok k msg)"
  unfolding exhaust_thread_def
  by (intro keeps_calm_rules keeps_calm_coupling keeps_calm_thread_complete; simp)

lemma keeps_calm_reclaim_one: "keeps calm (reclaim_one_txn e n cfg ex l k msg flat)"
proof -
  have "keeps calm (case d of
        Requeue retry_count \<Rightarrow>
          tx_then (task_reclaim_requeue e (tk_id task) retry_count
             (case flat of Some f \<Rightarrow> f | None \<Rightarrow> saturating_pow2 32 (retry_count - 1)) k msg)
          (tx_return (Commit (Some (Requeue retry_count))))
      | RecoveryCycle retry_count recovery_attempts \<Rightarrow>
          tx_then (thread_increment_recovery_attempts e (th_id thread))
         (tx_then (task_reclaim_requeue e (tk_id task) retry_count
             (recovery_backoff_seconds recovery_attempts) k msg)
          (tx_return (Commit (Some (RecoveryCycle retry_count recovery_attempts)))))
      | ExhaustThread \<Rightarrow>
          tx_then (exhaust_thread e n task thread tok k msg)
          (tx_return (Commit (Some ExhaustThread)))
      | CompleteTask \<Rightarrow> tx_return (Rollback None)
      | DeadLetterTask \<Rightarrow> tx_return (Rollback None))" for d task thread tok
    by (cases d) (auto intro!: keeps_calm_rules keeps_calm_exhaust_thread)
  then show ?thesis
    unfolding reclaim_one_txn_def by (intro keeps_calm_rules)
qed

lemma persist_failure_calm: "calm s (snd (persist_failure e n cfg ex t out msg s))"
  using calm.run_txn_keeps [OF keeps_calm_persist_failure]
  by (auto simp: persist_failure_def calm.order_refl split: option.splits)

lemma reclaim_pass_calm:
  "calm s (snd (run_thread_aware_reclaim es ids cfg ex l k msg flat n st s))"
proof (induction n arbitrary: st s)
  case (Suc n)
  obtain r s' where run: "run_txn (reclaim_one_txn (es n) (ids n) cfg ex l k msg flat) s = (r, s')"
    by (cases "run_txn (reclaim_one_txn (es n) (ids n) cfg ex l k msg flat) s")
  then have "calm s s'"
    using calm.run_txn_keeps [OF keeps_calm_reclaim_one, of s "es n" "ids n" cfg ex l k msg flat] by simp
  then show ?case
    using run Suc.IH by (auto split: sum.splits option.splits intro: calm.order_trans)
qed (simp add: calm.order_refl)

end
