(* ===== verification/Sweep.thy ===== *)
theory Sweep
  imports Failure
begin

text \<open>
  The availability sweep (\<open>tribal-worker/src/worker/thread_sweep.rs\<close>): due
  timers are resolved, descendants of terminal parents get the cancellation
  intent, unclaimed threads with an intent are cancelled, and stranded
  relation threads are failed. A scan runs once, then each row is its own
  transaction. The job plane of managed runs is another database, so the two
  managed predicates are left out; the budgets a binding re-resolves to are a
  parameter.
\<close>

definition sweep_batch :: nat where
  "sweep_batch = 32"

record sweep_stats =
  ss_timer_wakes :: nat
  ss_cascaded :: nat
  ss_cancelled :: nat
  ss_stuck_relating :: nat

text \<open>The current budgets under a binding's executor, or \<open>null\<close> without a
  binding or a product stage; a binding that cannot be read counts as one-shot.\<close>

definition wake_budgets_basis :: "(uuid \<Rightarrow> stage_executor option)
    \<Rightarrow> (task_type \<Rightarrow> stage_executor \<Rightarrow> json) \<Rightarrow> agent_thread \<Rightarrow> json" where
  "wake_budgets_basis executors budgets thread =
     (case (th_binding_version_id thread, thread_stage_product (th_stage thread)) of
        (Some b, Some stage) \<Rightarrow>
          budgets stage (case executors b of Some x \<Rightarrow> x | None \<Rightarrow> OneShot)
      | _ \<Rightarrow> JNull)"

definition timer_resolution :: "env \<Rightarrow> (uuid \<Rightarrow> stage_executor option)
    \<Rightarrow> (task_type \<Rightarrow> stage_executor \<Rightarrow> json) \<Rightarrow> agent_thread \<Rightarrow> json" where
  "timer_resolution e executors budgets thread =
     (case th_suspension thread of
        Some (BudgetExhaustion n) \<Rightarrow>
          JObj [(''cause'', JStr ''budget_recheck''), (''fired_at'', JNum (env_utc_now e)),
            (''unchanged_rechecks'', JNum (int n)),
            (''budgets_basis'', wake_budgets_basis executors budgets thread)]
      | _ \<Rightarrow> JObj [(''cause'', JStr ''timer''), (''fired_at'', JNum (env_utc_now e))])"

text \<open>A per-row pass: the row's transaction, counted when it converged and
  logged otherwise. Each row's transaction has its own ambient values and
  fresh identifiers, those of the round it runs in.\<close>

fun sweep_rows :: "('r \<Rightarrow> nat \<Rightarrow> db \<Rightarrow> bool \<times> db) \<Rightarrow> nat \<Rightarrow> 'r list \<Rightarrow> db \<Rightarrow> nat \<times> db" where
  "sweep_rows act pos [] s = (0, s)"
| "sweep_rows act pos (r # rs) s =
     (case act r pos s of (counted, s') \<Rightarrow>
        (case sweep_rows act (pos + 1) rs s' of
           (n, s'') \<Rightarrow> ((if counted then n + 1 else n), s'')))"

definition wake_row :: "(nat \<Rightarrow> env) \<Rightarrow> (nat \<Rightarrow> uuid) \<Rightarrow> (uuid \<Rightarrow> stage_executor option)
    \<Rightarrow> (task_type \<Rightarrow> stage_executor \<Rightarrow> json) \<Rightarrow> agent_thread \<Rightarrow> nat \<Rightarrow> db \<Rightarrow> bool \<times> db" where
  "wake_row es ids executors budgets thread pos s =
     (case resolve_stage_thread (es pos) (ids pos) (th_id thread)
         (timer_resolution (es pos) executors budgets thread) s of
        (r, s') \<Rightarrow> (r = Inr Woken, s'))"

definition sweep_timer_wakes :: "env \<Rightarrow> (nat \<Rightarrow> env) \<Rightarrow> (nat \<Rightarrow> uuid) \<Rightarrow> (uuid \<Rightarrow> bool)
    \<Rightarrow> (uuid \<Rightarrow> stage_executor option) \<Rightarrow> (task_type \<Rightarrow> stage_executor \<Rightarrow> json) \<Rightarrow> db \<Rightarrow> nat \<times> db" where
  "sweep_timer_wakes e es ids locked executors budgets s =
     sweep_rows (wake_row es ids executors budgets) 0
       (thread_find_due_timer_wakes e locked sweep_batch s) s"

definition sweep_orphan_cascade :: "env \<Rightarrow> (uuid \<Rightarrow> bool) \<Rightarrow> db \<Rightarrow> nat \<times> db" where
  "sweep_orphan_cascade e locked s =
     (case thread_cascade_cancel_to_orphans e locked sweep_batch cancel_cascade_requested_by s of
        Inl _ \<Rightarrow> (0, s)
      | Inr (n, s') \<Rightarrow> (n, s'))"

definition cancel_row :: "(nat \<Rightarrow> env) \<Rightarrow> (nat \<Rightarrow> uuid) \<Rightarrow> (nat \<Rightarrow> uuid) \<Rightarrow> agent_thread \<Rightarrow> nat
    \<Rightarrow> db \<Rightarrow> bool \<times> db" where
  "cancel_row es ids tasks thread pos s =
     (case cancel_thread (es pos) (ids pos) (tasks pos) thread s of
        (Inr (ThreadCancelledWith _), s') \<Rightarrow> (True, s')
      | (_, s') \<Rightarrow> (False, s'))"

definition sweep_cancel_fallback :: "(nat \<Rightarrow> env) \<Rightarrow> (nat \<Rightarrow> uuid) \<Rightarrow> (nat \<Rightarrow> uuid) \<Rightarrow> (uuid \<Rightarrow> bool)
    \<Rightarrow> db \<Rightarrow> nat \<times> db" where
  "sweep_cancel_fallback es ids tasks locked s =
     sweep_rows (cancel_row es ids tasks) 0 (thread_find_cancel_intents locked sweep_batch s) s"

definition sweep_stuck_relating :: "(nat \<Rightarrow> env) \<Rightarrow> (nat \<Rightarrow> uuid) \<Rightarrow> (nat \<Rightarrow> uuid) \<Rightarrow> (uuid \<Rightarrow> bool)
    \<Rightarrow> db \<Rightarrow> nat \<times> db" where
  "sweep_stuck_relating es ids tasks locked s =
     sweep_rows (cancel_row es ids tasks) 0 (thread_find_stuck_relating locked sweep_batch s) s"

text \<open>One cycle, in the order of the source: wakes, the janitor, the cancel
  fallback, the stuck-relating predicate.\<close>

record sweep_env =
  se_env :: env
  se_envs :: "nat \<Rightarrow> nat \<Rightarrow> env"
  se_records :: "nat \<Rightarrow> nat \<Rightarrow> uuid"
  se_tasks :: "nat \<Rightarrow> nat \<Rightarrow> uuid"
  se_locked :: "nat \<Rightarrow> uuid \<Rightarrow> bool"

definition run_thread_sweep :: "sweep_env \<Rightarrow> (uuid \<Rightarrow> stage_executor option)
    \<Rightarrow> (task_type \<Rightarrow> stage_executor \<Rightarrow> json) \<Rightarrow> db \<Rightarrow> sweep_stats \<times> db" where
  "run_thread_sweep x executors budgets s =
     (let (woken, s1) = sweep_timer_wakes (se_env x) (se_envs x 0) (se_records x 0) (se_locked x 0)
            executors budgets s;
          (cascaded, s2) = sweep_orphan_cascade (se_env x) (se_locked x 1) s1;
          (cancelled, s3) = sweep_cancel_fallback (se_envs x 2) (se_records x 2) (se_tasks x 2)
            (se_locked x 2) s2;
          (stuck, s4) = sweep_stuck_relating (se_envs x 3) (se_records x 3) (se_tasks x 3)
            (se_locked x 3) s3
      in (\<lparr>ss_timer_wakes = woken, ss_cascaded = cascaded, ss_cancelled = cancelled,
           ss_stuck_relating = stuck\<rparr>, s4))"

section \<open>A sweep is calm\<close>

lemma sweep_rows_induct:
  assumes "\<And>r pos s. R s (snd (act r pos s))" "\<And>s. R s s"
    "\<And>s t u. R s t \<Longrightarrow> R t u \<Longrightarrow> R s u"
  shows "R s (snd (sweep_rows act pos rs s))"
proof (induction rs arbitrary: pos s)
  case (Cons r rs)
  obtain c s' where act: "act r pos s = (c, s')" by (cases "act r pos s")
  obtain n s'' where rest: "sweep_rows act (pos + 1) rs s' = (n, s'')"
    by (cases "sweep_rows act (pos + 1) rs s'")
  have "R s s'" "R s' s''" using assms(1) [of s r pos] Cons.IH [of s' "pos + 1"] act rest by simp_all
  then show ?case using assms(3) act rest by simp
qed (simp add: assms(2))

lemma resolve_stage_thread_calm: "calm s (snd (resolve_stage_thread e rid i r s))"
  unfolding resolve_stage_thread_def by (rule calm.run_txn_keeps [OF keeps_calm_resolve_stage])

lemma wake_row_calm: "calm s (snd (wake_row es ids ex b th n s))"
  using resolve_stage_thread_calm [of s "es n" "ids n" "th_id th"]
  by (simp add: wake_row_def split: prod.splits) (metis snd_conv)

lemma cancel_row_calm: "calm s (snd (cancel_row es ids tasks th n s))"
  using cancel_thread_calm [of s "es n" "ids n" "tasks n" th]
  by (auto simp: cancel_row_def split: prod.splits sum.splits cancel_thread_outcome.splits)

lemma sweep_orphan_cascade_calm: "calm s (snd (sweep_orphan_cascade e locked s))"
  using keeps_calm_thread_cascade_orphans [of e locked sweep_batch cancel_cascade_requested_by]
  by (auto simp: sweep_orphan_cascade_def keeps_def calm.order_refl split: sum.splits)

lemma sweep_rows_calm:
  "(\<And>r pos s. calm s (snd (act r pos s))) \<Longrightarrow> calm s (snd (sweep_rows act pos rs s))"
  by (rule sweep_rows_induct) (auto intro: calm.order_refl calm.order_trans)

lemma sweep_parts_calm:
  "calm s (snd (sweep_timer_wakes e es ids locked ex b s))"
  "calm s (snd (sweep_cancel_fallback es ids tasks locked s))"
  "calm s (snd (sweep_stuck_relating es ids tasks locked s))"
  unfolding sweep_timer_wakes_def sweep_cancel_fallback_def sweep_stuck_relating_def
  by (rule sweep_rows_calm, rule wake_row_calm cancel_row_calm)+

lemma run_thread_sweep_calm: "calm s (snd (run_thread_sweep x ex b s))"
proof -
  obtain n1 s1 where 1: "sweep_timer_wakes (se_env x) (se_envs x 0) (se_records x 0) (se_locked x 0) ex b s = (n1, s1)"
    by fastforce
  obtain n2 s2 where 2: "sweep_orphan_cascade (se_env x) (se_locked x 1) s1 = (n2, s2)" by fastforce
  obtain n3 s3 where 3: "sweep_cancel_fallback (se_envs x 2) (se_records x 2) (se_tasks x 2) (se_locked x 2) s2 = (n3, s3)"
    by fastforce
  obtain n4 s4 where 4: "sweep_stuck_relating (se_envs x 3) (se_records x 3) (se_tasks x 3) (se_locked x 3) s3 = (n4, s4)"
    by fastforce
  have "calm s s1" "calm s1 s2" "calm s2 s3" "calm s3 s4"
    using sweep_parts_calm sweep_orphan_cascade_calm 1 2 3 4 by (metis snd_conv)+
  then have "calm s s4" by (meson calm.order_trans)
  then show ?thesis using 1 2 3 4 by (simp add: run_thread_sweep_def)
qed

end
