(* ===== verification/ChildDriver.thy ===== *)
theory ChildDriver
  imports StageStore
begin

text \<open>
  The delegation protocol (\<open>tribal-agent-runtime/src/driver.rs\<close>): a parent
  suspends on a pending tool call and launches the child that answers it, the
  child's terminal hands its result back under the parent's row lock, and a
  child that dies crosses the failure over instead. Transient conflicts
  (deadlock and serialisation aborts) are the environment's: a list says
  which attempts abort.
\<close>

record child_launch =
  la_pipeline_stage :: task_type
  la_binding_version_id :: uuid
  la_principal_id :: uuid
  la_job_id :: "uuid option"
  la_format_version :: nat

record launched_child =
  lc_thread_id :: uuid
  lc_driver_task_id :: uuid

datatype suspend_with_child_outcome = Launched launched_child | ChildCancelIntervened

datatype child_terminal_outcome = HandedBack | ParentNotWaiting

fun child_terminal_label :: "child_terminal_outcome \<Rightarrow> string" where
  "child_terminal_label HandedBack = ''handed_back''"
| "child_terminal_label ParentNotWaiting = ''parent_not_waiting''"

record parent_resolution =
  pr_thread_id :: uuid
  pr_requesting_seq :: record_seq
  pr_tool_call_id :: string

text \<open>The identifiers generated inside the launch: the two records, the child
  thread and its driver task.\<close>

record launch_ids =
  li_suspension_record :: uuid
  li_child_thread :: uuid
  li_driver_task :: uuid
  li_input_record :: uuid

definition child_new_thread :: "agent_thread \<Rightarrow> child_launch \<Rightarrow> uuid \<Rightarrow> new_thread" where
  "child_new_thread parent launch driver_id = \<lparr>nth_parent_thread_id = Some (th_id parent),
     nth_stage = Product (la_pipeline_stage launch),
     nth_binding_version_id = Some (la_binding_version_id launch),
     nth_driving_task = DriverRef driver_id, nth_principal_id = Some (la_principal_id launch),
     nth_job_id = la_job_id launch, nth_format_version = la_format_version launch,
     nth_run_claim_token = None\<rparr>"

definition suspend_with_child_txn :: "env \<Rightarrow> launch_ids \<Rightarrow> agent_thread \<Rightarrow> uuid \<Rightarrow> uuid \<Rightarrow> record_seq
    \<Rightarrow> string \<Rightarrow> child_launch \<Rightarrow> rendered_conversation \<Rightarrow> suspend_with_child_outcome ending rt" where
  "suspend_with_child_txn e ids parent stage_task_id tok req call_id launch child_input =
     (let cause = DeferredToolResults req [call_id] in
      tx_bind (rt_db ''blocking the parent's task'' (task_block e stage_task_id tok)) (\<lambda>blocked.
      if blocked = 0 then tx_fail (LeaseLost (StageRef stage_task_id)) else
      tx_then (append_tail e (li_suspension_record ids) (th_id parent) SuspensionRecord None
         (suspension_to_json cause) None ''committing the suspension record'')
     (tx_bind (rt_db ''suspending the parent'' (thread_suspend e (th_id parent) cause None)) (\<lambda>moved.
      if moved = 0 then tx_return (Rollback ChildCancelIntervened) else
      tx_bind (rt_db ''creating the child thread''
         (thread_insert e (li_child_thread ids) (child_new_thread parent launch (li_driver_task ids)))) (\<lambda>child.
      tx_then (rt_db ''enrolling the child driver task''
         (driver_insert e (li_driver_task ids) \<lparr>nd_id = Some (li_driver_task ids),
            nd_thread_id = th_id child, nd_kind = Drive\<rparr>))
     (tx_then (rt_db ''committing the child's input record''
         (record_append e (li_input_record ids)
            (tail_record e (th_id child) seq_first InputRecord None (rendered_to_json child_input) None)))
      (tx_return (Commit (Launched \<lparr>lc_thread_id = th_id child,
         lc_driver_task_id = li_driver_task ids\<rparr>)))))))))"

definition suspend_with_child :: "env \<Rightarrow> launch_ids \<Rightarrow> agent_thread \<Rightarrow> uuid \<Rightarrow> uuid \<Rightarrow> record_seq
    \<Rightarrow> string \<Rightarrow> child_launch \<Rightarrow> rendered_conversation
    \<Rightarrow> db \<Rightarrow> (runtime_error + suspend_with_child_outcome) \<times> db" where
  "suspend_with_child e ids parent stage_task_id tok req call_id launch child_input =
     run_txn (suspend_with_child_txn e ids parent stage_task_id tok req call_id launch child_input)"

section \<open>Child terminals\<close>

definition complete_driver_task :: "env \<Rightarrow> uuid \<Rightarrow> uuid \<Rightarrow> unit rt" where
  "complete_driver_task e driver_id tok =
     tx_bind (rt_db ''completing the driver task'' (driver_complete e driver_id tok)) (\<lambda>completed.
     if completed = 0 then tx_fail (LeaseLost (DriverRef driver_id)) else tx_return ())"

definition finish_child_status :: "env \<Rightarrow> agent_thread \<Rightarrow> thread_terminal \<Rightarrow> unit rt" where
  "finish_child_status e child terminal =
     finish_running e (th_id child) terminal ''completing the child thread''"

definition finish_child :: "env \<Rightarrow> uuid \<Rightarrow> agent_thread \<Rightarrow> completion_response option
    \<Rightarrow> thread_terminal \<Rightarrow> unit rt" where
  "finish_child e rid child response terminal =
     (case response of
        None \<Rightarrow> finish_child_status e child terminal
      | Some r \<Rightarrow>
          tx_then (append_tail e rid (th_id child) AssistantMessage None
             (assistant_to_json \<lparr>ac_text = cr_text r, ac_tool_calls = []\<rparr>)
             (Some (usage_to_json (cr_usage r))) ''committing the child's assistant record'')
           (finish_child_status e child terminal))"

definition hand_back :: "env \<Rightarrow> uuid \<Rightarrow> parent_resolution \<Rightarrow> tool_result_content
    \<Rightarrow> child_terminal_outcome rt" where
  "hand_back e rid parent result =
     tx_bind (tx_read (thread_lock (pr_thread_id parent))) (\<lambda>locked.
     case locked of
       None \<Rightarrow> tx_return ParentNotWaiting
     | Some th \<Rightarrow>
         if th_status th \<noteq> ThreadSuspended then tx_return ParentNotWaiting
         else
           tx_then (append_tail e rid (pr_thread_id parent) ToolResult
              (Some (pr_requesting_seq parent, pr_tool_call_id parent)) (tool_result_to_json result) None
              ''committing the parent's hand-back result'')
          (tx_bind (rt_db ''waking the parent''
              (thread_mark_running e (pr_thread_id parent) ThreadSuspended)) (\<lambda>woken.
           if woken = 0 then tx_fail (StatusCasMissed (pr_thread_id parent) ThreadSuspended)
           else case th_stage_task_id th of
             None \<Rightarrow> tx_return HandedBack
           | Some task_id \<Rightarrow>
               tx_bind (rt_db ''re-queueing the parent task'' (task_requeue_from_blocked e task_id)) (\<lambda>rows.
               if rows = 0 then tx_fail (DrivingTaskNotBlocked task_id) else tx_return HandedBack))))"

record terminal_ids =
  ti_child_record :: uuid
  ti_parent_record :: uuid

definition child_terminal_txn :: "env \<Rightarrow> terminal_ids \<Rightarrow> agent_thread \<Rightarrow> uuid \<Rightarrow> uuid
    \<Rightarrow> completion_response \<Rightarrow> parent_resolution \<Rightarrow> child_terminal_outcome ending rt" where
  "child_terminal_txn e ids child driver_id tok response parent =
     tx_then (complete_driver_task e driver_id tok)
    (tx_then (finish_child e (ti_child_record ids) child (Some response) TermCompleted)
    (tx_bind (hand_back e (ti_parent_record ids) parent
        \<lparr>tr_output = cr_text response, tr_is_error = False\<rparr>) (\<lambda>outcome.
     tx_return (Commit outcome))))"

definition commit_child_terminal_once :: "env \<Rightarrow> terminal_ids \<Rightarrow> agent_thread \<Rightarrow> uuid \<Rightarrow> uuid
    \<Rightarrow> completion_response \<Rightarrow> parent_resolution \<Rightarrow> db \<Rightarrow> (runtime_error + child_terminal_outcome) \<times> db" where
  "commit_child_terminal_once e ids child driver_id tok response parent =
     run_txn (child_terminal_txn e ids child driver_id tok response parent)"

definition child_terminal_conflict_retries :: nat where
  "child_terminal_conflict_retries = 5"

text \<open>The retry loop: an attempt the database aborts leaves the store as it was
  and is retried while the budget lasts; every other result is final.\<close>

fun child_terminal_loop :: "nat \<Rightarrow> bool list \<Rightarrow> (db \<Rightarrow> (runtime_error + 'a) \<times> db)
    \<Rightarrow> db \<Rightarrow> (runtime_error + 'a) \<times> db" where
  "child_terminal_loop remaining (True # aborts) once s =
     (case remaining of
        0 \<Rightarrow> (Inl (Database ''committing the child-terminal transaction'' (DbQueryFailed ''conflict'')), s)
      | Suc r \<Rightarrow> child_terminal_loop r aborts once s)"
| "child_terminal_loop remaining _ once s = once s"

definition commit_child_terminal :: "env \<Rightarrow> terminal_ids \<Rightarrow> bool list \<Rightarrow> agent_thread \<Rightarrow> uuid \<Rightarrow> uuid
    \<Rightarrow> completion_response \<Rightarrow> parent_resolution \<Rightarrow> db \<Rightarrow> (runtime_error + child_terminal_outcome) \<times> db" where
  "commit_child_terminal e ids aborts child driver_id tok response parent =
     child_terminal_loop child_terminal_conflict_retries aborts
       (commit_child_terminal_once e ids child driver_id tok response parent)"

definition deferred_death_txn :: "env \<Rightarrow> uuid \<Rightarrow> agent_thread \<Rightarrow> uuid \<Rightarrow> uuid \<Rightarrow> parent_resolution
    \<Rightarrow> string \<Rightarrow> child_terminal_outcome ending rt" where
  "deferred_death_txn e rid child driver_id tok parent msg =
     tx_bind (rt_db ''dead-lettering the driver task'' (driver_dead_letter e driver_id tok msg)) (\<lambda>n.
     if n = 0 then tx_fail (LeaseLost (DriverRef driver_id)) else
     tx_then (finish_child_status e child TermDeadLetter)
    (tx_bind (hand_back e rid parent \<lparr>tr_output = msg, tr_is_error = True\<rparr>) (\<lambda>outcome.
     tx_return (Commit outcome))))"

definition commit_deferred_death :: "env \<Rightarrow> uuid \<Rightarrow> agent_thread \<Rightarrow> uuid \<Rightarrow> uuid \<Rightarrow> parent_resolution
    \<Rightarrow> string \<Rightarrow> db \<Rightarrow> (runtime_error + child_terminal_outcome) \<times> db" where
  "commit_deferred_death e rid child driver_id tok parent msg =
     run_txn (deferred_death_txn e rid child driver_id tok parent msg)"

section \<open>The delegation transactions are calm\<close>

text \<open>A fresh thread has no records yet, so its input record opens its log.\<close>

lemma fresh_thread_log:
  assumes "thread_insert e i n s = Inr (th, s')" "db_ok s"
  shows "thread_log (th_id th) s = []"
proof -
  have "i \<notin> th_id ` set (db_threads s)" "th_id th = i"
    using assms(1) by (auto simp: thread_insert_Inr)
  then show ?thesis
    using assms(2) unfolding db_ok_def db_refs_def thread_log_def filter_empty_conv by metis
qed

lemma launch_calm:
  assumes child: "thread_insert e i n s = Inr (th, s1)"
    and driver: "driver_insert e f nd s1 = Inr (d, s2)"
    and input: "record_append e r (tail_record e (th_id th) seq_first InputRecord None j None) s2 = Inr (rc, s3)"
  shows "calm s s3"
proof (cases "db_ok s")
  case True
  have calm2: "calm s s2"
    using keepsD [OF keeps_calm_thread_insert child] keepsD [OF keeps_calm_driver_insert driver]
      calm.order_trans by blast
  have "thread_log (th_id th) s2 = thread_log (th_id th) s"
    using child driver by (auto simp: thread_insert_Inr driver_insert_def Let_def thread_log_def split: if_splits)
  then have "record_next_seq (th_id th) s2 = seq_first"
    using fresh_thread_log [OF child True] by (simp add: record_next_seq_def)
  then have "calm s2 s3"
    by (intro record_append_calm [OF input]) (simp add: tail_record_def)
  then show ?thesis using calm2 calm.order_trans by blast
next
  case False
  have "calm s s2"
    using keepsD [OF keeps_calm_thread_insert child] keepsD [OF keeps_calm_driver_insert driver]
      calm.order_trans by blast
  then show ?thesis
    using record_append_rows [OF input] False
    by (auto simp: calm_def evolves_def intro: table_evolves_trans records_evolve_trans no_new_lease_trans)
qed

lemma keeps_calm_launch:
  "keeps calm (tx_bind (rt_db c1 (thread_insert e i n)) (\<lambda>child.
     tx_then (rt_db c2 (driver_insert e f (nd child)))
    (tx_then (rt_db c3 (record_append e r (tail_record e (th_id child) seq_first InputRecord None j None)))
     (tx_return (out child)))))"
  by (rule keepsI)
    (auto simp: tx_then_def rt_db_def tx_map_err_def tx_return_app elim!: tx_bind_InrE
      intro: launch_calm split: sum.splits)

lemma keeps_calm_suspend_with_child:
  "keeps calm (suspend_with_child_txn e ids p t tok q c l inp)"
  unfolding suspend_with_child_txn_def Let_def
  by (intro keeps_calm_launch keeps_calm_rules)

lemma keeps_calm_hand_back: "keeps calm (hand_back e rid p r)"
  unfolding hand_back_def by (intro keeps_calm_rules)

lemma keeps_calm_finish_child:
  "keeps calm (finish_child_status e c t)" "keeps calm (finish_child e rid c r t)"
  unfolding finish_child_def finish_child_status_def
  by (intro keeps_calm_rules keeps_calm_turn_parts)+

lemma keeps_calm_child_terminals:
  "keeps calm (child_terminal_txn e tids c d tok r p)"
  "keeps calm (deferred_death_txn e rid c d tok p msg)"
  unfolding child_terminal_txn_def deferred_death_txn_def complete_driver_task_def
  by (intro keeps_calm_rules keeps_calm_hand_back keeps_calm_finish_child)+

end
