(* ===== verification/ClaimDisposal.thy ===== *)
theory ClaimDisposal
  imports StageStore Failure
begin

text \<open>
  What the worker does between claiming a stage task and executing it
  (\<open>tribal-worker/src/worker/thread.rs\<close>, \<open>tribal-worker/src/error.rs\<close>): the
  stage errors and their persisted kinds, the guard that a recorded binding
  still names the current route and tool surface, and the disposal of a task
  whose thread must not run. URL normalisation and the tool surface of the
  binary are parameters.
\<close>

section \<open>Stage errors\<close>

datatype stage_error =
    Provider string
  | SemaphoreTimeoutError string
  | Parse string "string option"
  | OwnershipLostError
  | TimeoutError nat
  | TemplateRender string
  | RuntimeFailure string runtime_error
  | BindingDerivation string string
  | BudgetExhaustedError string string
  | StageDatabase string string db_error
  | ResumeBindingDivergence string string string string

fun to_error_kind :: "stage_error \<Rightarrow> task_error_kind" where
  "to_error_kind (Provider _) = ProviderError"
| "to_error_kind (SemaphoreTimeoutError _) = SemaphoreTimeout"
| "to_error_kind (Parse _ _) = ParseError"
| "to_error_kind OwnershipLostError = OwnershipLost"
| "to_error_kind (TimeoutError _) = Timeout"
| "to_error_kind (TemplateRender _) = InternalError"
| "to_error_kind (RuntimeFailure _ _) = InternalError"
| "to_error_kind (BindingDerivation _ _) = InternalError"
| "to_error_kind (BudgetExhaustedError _ _) = BudgetExhausted"
| "to_error_kind (StageDatabase _ _ _) = DatabaseError"
| "to_error_kind (ResumeBindingDivergence _ _ _ _) = BindingDivergence"

fun map_runtime_error :: "string \<Rightarrow> string \<Rightarrow> runtime_error \<Rightarrow> stage_error" where
  "map_runtime_error stage ctx (StatusCasMissed _ _) = OwnershipLostError"
| "map_runtime_error stage ctx (LeaseLost _) = OwnershipLostError"
| "map_runtime_error stage ctx (DrivingTaskNotBlocked _) = OwnershipLostError"
| "map_runtime_error stage ctx (Database inner src) = StageDatabase stage inner src"
| "map_runtime_error stage ctx (Inference inner) = Provider inner"
| "map_runtime_error stage ctx src = RuntimeFailure ctx src"

section \<open>The binding guard\<close>

datatype project_scope = Fenced | CrossProject

record tool_binding =
  tb_name :: string
  tb_descriptor :: json
  tb_project_scope :: project_scope

record agent_definition =
  ad_pipeline_stage :: task_type
  ad_executor :: stage_executor
  ad_provider :: string
  ad_model :: string
  ad_base_url :: string
  ad_tools :: "tool_binding list"

record stage_spec_entry =
  sp_provider :: string
  sp_model :: string
  sp_base_url :: string

record completion_stage_specs =
  cs_extraction :: stage_spec_entry
  cs_triage :: stage_spec_entry
  cs_relation :: stage_spec_entry

fun stage_spec :: "completion_stage_specs \<Rightarrow> task_type \<Rightarrow> stage_spec_entry" where
  "stage_spec specs Extraction = cs_extraction specs"
| "stage_spec specs Triage = cs_triage specs"
| "stage_spec specs Relation = cs_relation specs"

definition base_urls_match :: "(string \<Rightarrow> string option) \<Rightarrow> string \<Rightarrow> string \<Rightarrow> bool" where
  "base_urls_match normalise recorded current =
     (case (normalise recorded, normalise current) of
        (Some r, Some c) \<Rightarrow> r = c
      | _ \<Rightarrow> recorded = current)"

fun join_comma :: "string list \<Rightarrow> string" where
  "join_comma [] = []"
| "join_comma [x] = x"
| "join_comma (x # y # xs) = x @ '', '' @ join_comma (y # xs)"

definition render_tool_surface :: "tool_binding list \<Rightarrow> string" where
  "render_tool_surface tools = join_comma (map (\<lambda>t. tb_name t @ ''['' @
     (case tb_project_scope t of Fenced \<Rightarrow> ''fenced'' | CrossProject \<Rightarrow> ''cross'') @ '']'') tools)"

definition render_route :: "string \<Rightarrow> string \<Rightarrow> string \<Rightarrow> string" where
  "render_route p m u = p @ ''/'' @ m @ ''@'' @ u"

definition guard_binding :: "(string \<Rightarrow> string option) \<Rightarrow> (task_type \<Rightarrow> tool_binding list) \<Rightarrow> string
    \<Rightarrow> agent_definition \<Rightarrow> stage_spec_entry \<Rightarrow> stage_error + unit" where
  "guard_binding normalise surface stage recorded spec =
     (if \<not> (ad_provider recorded = sp_provider spec \<and> ad_model recorded = sp_model spec \<and>
          base_urls_match normalise (ad_base_url recorded) (sp_base_url spec))
      then Inl (ResumeBindingDivergence stage ''route''
        (render_route (ad_provider recorded) (ad_model recorded) (ad_base_url recorded))
        (render_route (sp_provider spec) (sp_model spec) (sp_base_url spec)))
      else if ad_executor recorded = BuiltInLoop \<and>
          ad_tools recorded \<noteq> surface (ad_pipeline_stage recorded)
      then Inl (ResumeBindingDivergence stage ''tool surface''
        (render_tool_surface (ad_tools recorded))
        (render_tool_surface (surface (ad_pipeline_stage recorded))))
      else Inr ())"

section \<open>Claim-time disposal\<close>

type_synonym 'a stage_tx = "(db, stage_error, 'a) tx"

definition st_db :: "string \<Rightarrow> string \<Rightarrow> 'a db_tx \<Rightarrow> 'a stage_tx" where
  "st_db stage ctx m = tx_map_err (StageDatabase stage ctx) m"

definition cancel_at_claim :: "env \<Rightarrow> uuid \<Rightarrow> uuid \<Rightarrow> string \<Rightarrow> task \<Rightarrow> agent_thread \<Rightarrow> uuid
    \<Rightarrow> owed_notification option stage_tx" where
  "cancel_at_claim e rid new_id stage task thread tok =
     tx_bind (st_db stage ''dead-lettering the cancelled task''
        (task_dead_letter_claimed e (tk_id task) tok InternalError ''thread cancelled'')) (\<lambda>rows.
     if rows = 0 then tx_fail OwnershipLostError else
     tx_then (tx_map_err (map_runtime_error stage ''cancelling the thread'')
        (cancel_thread_in_txn e rid (th_id thread)))
     (st_db stage ''coupling the cancelled job''
        (couple_dead_lettered_task e new_id task ''thread cancelled'')))"

record disposal =
  ds_owed :: "owed_notification option"
  ds_dead_lettered :: bool

definition dispose_thread_txn :: "env \<Rightarrow> uuid \<Rightarrow> uuid \<Rightarrow> string \<Rightarrow> task \<Rightarrow> agent_thread \<Rightarrow> uuid
    \<Rightarrow> disposal ending stage_tx" where
  "dispose_thread_txn e rid new_id stage task thread tok =
     (if th_cancel_requested_at thread \<noteq> None \<and> \<not> thread_status_terminal (th_status thread) then
        tx_bind (cancel_at_claim e rid new_id stage task thread tok) (\<lambda>owed.
        tx_return (Commit \<lparr>ds_owed = owed, ds_dead_lettered = True\<rparr>))
      else if th_status thread = ThreadSuspended then
        tx_bind (st_db stage ''re-blocking the suspended task'' (task_block e (tk_id task) tok)) (\<lambda>rows.
        if rows = 0 then tx_fail OwnershipLostError
        else tx_return (Commit \<lparr>ds_owed = None, ds_dead_lettered = False\<rparr>))
      else if th_status thread = ThreadCompleted then
        tx_bind (st_db stage ''completing the disposed task'' (task_complete e (tk_id task) tok)) (\<lambda>rows.
        if rows = 0 then tx_fail OwnershipLostError else
        tx_bind (if tk_task_type task = Triage
                 then st_db stage ''fan-in for the disposed task''
                   (triage_fan_in e new_id (tk_job_id task) (tk_id task))
                 else tx_return False) (\<lambda>fired.
        tx_return (Commit \<lparr>ds_owed = (if fired
             then Some \<lparr>on_job_id = tk_job_id task, on_state = StateRelating\<rparr> else None),
           ds_dead_lettered = False\<rparr>)))
      else
        tx_bind (st_db stage ''dead-lettering the disposed task''
           (task_dead_letter_claimed e (tk_id task) tok InternalError ''thread already terminal'')) (\<lambda>rows.
        if rows = 0 then tx_fail OwnershipLostError else
        tx_bind (st_db stage ''coupling the disposed job''
           (couple_dead_lettered_task e new_id task ''thread already terminal'')) (\<lambda>owed.
        tx_return (Commit \<lparr>ds_owed = owed, ds_dead_lettered = True\<rparr>))))"

text \<open>Whether the task was disposed of, so that it must not execute.\<close>

definition dispose_for_thread_state :: "env \<Rightarrow> uuid \<Rightarrow> uuid \<Rightarrow> task \<Rightarrow> agent_thread
    \<Rightarrow> db \<Rightarrow> (stage_error + bool) \<times> db" where
  "dispose_for_thread_state e rid new_id task thread s =
     (case tk_claim_token task of
        None \<Rightarrow> (Inl OwnershipLostError, s)
      | Some tok \<Rightarrow>
          if \<not> (th_cancel_requested_at thread \<noteq> None \<or> thread_status_terminal (th_status thread)
                 \<or> th_status thread = ThreadSuspended)
          then (Inr False, s)
          else (case run_txn (dispose_thread_txn e rid new_id (task_type_as_str (tk_task_type task))
                       task thread tok) s of
                  (Inl err, s') \<Rightarrow> (Inl err, s')
                | (Inr _, s') \<Rightarrow> (Inr True, s')))"

section \<open>Disposal is calm\<close>

lemma keeps_calm_st_db: "keeps calm m \<Longrightarrow> keeps calm (st_db stage ctx m)"
  by (simp add: st_db_def calm.keeps_map_err)

lemma keeps_calm_dispose_thread: "keeps calm (dispose_thread_txn e rid n stage t th tok)"
  unfolding dispose_thread_txn_def cancel_at_claim_def
  by (intro keeps_calm_rules keeps_calm_st_db keeps_calm_coupling keeps_calm_cancel_thread)

lemma dispose_for_thread_state_calm: "calm s (snd (dispose_for_thread_state e rid n t th s))"
proof -
  have "calm s s'" if "run_txn (dispose_thread_txn e rid n stage t th tok) s = (r, s')" for stage tok r s'
    using calm.run_txn_keeps [OF keeps_calm_dispose_thread, of s e rid n stage t th tok] that by simp
  then show ?thesis
    by (auto simp: dispose_for_thread_state_def calm.order_refl split: option.splits prod.splits sum.splits)
qed

end
