(* ===== verification/DriverLoop.thy ===== *)
theory DriverLoop
  imports ChildDriver ClaimDisposal
begin

text \<open>
  The driver loop of the worker (\<open>tribal-worker/src/worker/driver.rs\<close>): it
  claims driver tasks, runs each child thread as one model call handed back
  to its parent, retries or buries what fails, and reclaims what stalled. The
  gateway call is a parameter, as are the binding table, the tool surface and
  URL normalisation; the ambient values of a task's several statements are
  one \<open>env\<close>. Tasks of a batch run concurrently in the source; each is a
  function of the store here and the interleavings are the subject of
  \<open>Protocol\<close>.
\<close>

definition driver_claim_batch :: nat where
  "driver_claim_batch = 4"

definition child_cascade_cancelled :: string where
  "child_cascade_cancelled = ''the parent's cancellation cascaded to this child before it ran''"

section \<open>The text of a stage error\<close>

fun stage_error_message :: "stage_error \<Rightarrow> string" where
  "stage_error_message (Provider c) = ''provider error during '' @ c"
| "stage_error_message (SemaphoreTimeoutError k) = ''semaphore timeout for provider '' @ k"
| "stage_error_message (Parse c _) = ''parse error during '' @ c"
| "stage_error_message OwnershipLostError = ''ownership lost''"
| "stage_error_message (TimeoutError ms) = ''task timed out after '' @ show_nat ms @ ''ms''"
| "stage_error_message (TemplateRender c) = ''template render failed: '' @ c"
| "stage_error_message (RuntimeFailure c _) = ''thread runtime failure during '' @ c"
| "stage_error_message (BindingDerivation st c) = ''binding derivation failed in '' @ st @ '': '' @ c"
| "stage_error_message (BudgetExhaustedError st c) =
     ''execution budget exhausted in '' @ st @ '': '' @ c"
| "stage_error_message (StageDatabase st c _) = ''database error in '' @ st @ '': '' @ c"
| "stage_error_message (ResumeBindingDivergence st a r c) =
     ''resume binding diverged in '' @ st @ '' ('' @ a @ ''): recorded '' @ r @ '', current '' @ c"

section \<open>Reading back a suspension\<close>

definition suspension_of_json :: "json \<Rightarrow> suspension option" where
  "suspension_of_json j =
     (case json_field json_str j ''cause'' of
        None \<Rightarrow> None
      | Some c \<Rightarrow>
          if c = ''human_input'' then map_option HumanInput (json_field json_str j ''prompt'')
          else if c = ''deferred_tool_results'' then
            Option.bind (json_field json_int j ''requesting_seq'') (\<lambda>q.
            map_option (DeferredToolResults q) (json_field (json_list json_str) j ''pending_tool_call_ids''))
          else if c = ''timer'' then Some Timer
          else if c = ''budget_exhaustion'' then
            map_option BudgetExhaustion (json_field json_u32 j ''unchanged_rechecks'')
          else if c = ''signal'' then map_option Signal (json_field json_str j ''key'')
          else None)"

definition resolution_of_record :: "uuid \<Rightarrow> thread_record \<Rightarrow> parent_resolution option" where
  "resolution_of_record parent_id r =
     (if rc_kind r \<noteq> SuspensionRecord then None
      else case suspension_of_json (rc_content r) of
        Some (DeferredToolResults q (i # _)) \<Rightarrow>
          Some \<lparr>pr_thread_id = parent_id, pr_requesting_seq = q, pr_tool_call_id = i\<rparr>
      | _ \<Rightarrow> None)"

fun first_some :: "('a \<Rightarrow> 'b option) \<Rightarrow> 'a list \<Rightarrow> 'b option" where
  "first_some f [] = None"
| "first_some f (x # xs) = (case f x of Some y \<Rightarrow> Some y | None \<Rightarrow> first_some f xs)"

definition load_parent_resolution :: "uuid \<Rightarrow> db \<Rightarrow> parent_resolution option" where
  "load_parent_resolution parent_id s =
     first_some (resolution_of_record parent_id) (rev (record_find_by_thread_id parent_id s))"

section \<open>Running a child\<close>

record driver_params =
  dp_bindings :: "uuid \<Rightarrow> agent_definition option"
  dp_specs :: completion_stage_specs
  dp_surface :: "task_type \<Rightarrow> tool_binding list"
  dp_normalise :: "string \<Rightarrow> string option"
  dp_complete :: "task_type \<Rightarrow> rendered_conversation \<Rightarrow> agent_definition \<Rightarrow> stage_error + completion_response"

record driver_ids =
  di_terminal :: terminal_ids
  di_death :: uuid
  di_fault :: uuid

definition driver_runtime_error :: "string \<Rightarrow> runtime_error \<Rightarrow> stage_error" where
  "driver_runtime_error ctx src = map_runtime_error ''driver'' ctx src"

definition run_child_txn :: "env \<Rightarrow> driver_task \<Rightarrow> uuid \<Rightarrow> uuid \<Rightarrow> unit ending stage_tx" where
  "run_child_txn e task tok child =
     tx_bind (tx_read (driver_holds_claim (dt_id task) tok)) (\<lambda>held.
     if \<not> held then tx_fail OwnershipLostError else
     tx_then (st_db ''driver'' ''marking the child running'' (thread_mark_running e child ThreadQueued))
     (tx_return (Commit ())))"

definition run_child_thread :: "env \<Rightarrow> uuid \<Rightarrow> driver_task \<Rightarrow> uuid \<Rightarrow> db \<Rightarrow> (stage_error + agent_thread) \<times> db" where
  "run_child_thread e fault task tok s =
     (case thread_find_by_id (dt_thread_id task) s of
        None \<Rightarrow> (Inl (RuntimeFailure ''the driver task's child thread vanished'' (ThreadMissing fault)), s)
      | Some child \<Rightarrow>
          if th_status child = ThreadQueued then
            (case run_txn (run_child_txn e task tok (th_id child)) s of
               (Inl err, s') \<Rightarrow> (Inl err, s')
             | (Inr _, s') \<Rightarrow>
                 (case thread_find_by_id (th_id child) s' of
                    None \<Rightarrow> (Inl (RuntimeFailure ''the child thread vanished after mark-running''
                               (ThreadMissing fault)), s')
                  | Some th \<Rightarrow> (Inr th, s')))
          else (Inr child, s))"

text \<open>Best effort: a lost lease or a failed statement is logged and left to
  the reclaim.\<close>

definition dispose_driver_task :: "env \<Rightarrow> driver_task \<Rightarrow> string \<Rightarrow> db \<Rightarrow> db" where
  "dispose_driver_task e task msg s =
     (case dt_claim_token task of
        None \<Rightarrow> s
      | Some tok \<Rightarrow>
          (case driver_dead_letter e (dt_id task) tok msg s of Inl _ \<Rightarrow> s | Inr (_, s') \<Rightarrow> s'))"

definition requeue_driver_task :: "env \<Rightarrow> driver_task \<Rightarrow> string \<Rightarrow> db \<Rightarrow> db" where
  "requeue_driver_task e task msg s =
     (case dt_claim_token task of
        None \<Rightarrow> s
      | Some tok \<Rightarrow>
          (case driver_requeue e (dt_id task) tok (u32_add (dt_attempt task) 1)
              (env_utc_now e + seconds (int (saturating_pow2 32 (dt_attempt task)))) msg s of
             Inl _ \<Rightarrow> s
           | Inr (_, s') \<Rightarrow> s'))"

definition deferred_death :: "env \<Rightarrow> uuid \<Rightarrow> driver_task \<Rightarrow> string \<Rightarrow> db \<Rightarrow> db" where
  "deferred_death e rid task msg s =
     (case dt_claim_token task of
        None \<Rightarrow> s
      | Some tok \<Rightarrow>
          (case thread_find_by_id (dt_thread_id task) s of
             None \<Rightarrow> dispose_driver_task e task msg s
           | Some child \<Rightarrow>
               (case Option.bind (th_parent_thread_id child) (\<lambda>p. load_parent_resolution p s) of
                  None \<Rightarrow> dispose_driver_task e task msg s
                | Some parent \<Rightarrow>
                    (case commit_deferred_death e rid child (dt_id task) tok parent msg s of
                       (Inl (DrivingTaskNotBlocked _), s') \<Rightarrow> dispose_driver_task e task msg s'
                     | (_, s') \<Rightarrow> s'))))"

definition run_child :: "driver_params \<Rightarrow> env \<Rightarrow> driver_ids \<Rightarrow> bool list \<Rightarrow> driver_task \<Rightarrow> uuid
    \<Rightarrow> agent_thread \<Rightarrow> db \<Rightarrow> (stage_error + unit) \<times> db" where
  "run_child p e ids aborts task tok child s =
     (if th_cancel_requested_at child \<noteq> None
      then (Inr (), deferred_death e (di_death ids) task child_cascade_cancelled s)
      else case th_parent_thread_id child of
        None \<Rightarrow> (Inl (RuntimeFailure ''a driver child has no parent thread'' (ThreadMissing (di_fault ids))), s)
      | Some parent_id \<Rightarrow>
     (case adopt_conversation child s of
        Inl err \<Rightarrow> (Inl (driver_runtime_error ''adopting the child's conversation'' err), s)
      | Inr conversation \<Rightarrow>
     (case th_binding_version_id child of
        None \<Rightarrow> (Inl (RuntimeFailure ''loading the child's binding''
                   (ProductInvariant ''a driver child records its binding'')), s)
      | Some b \<Rightarrow>
     (case dp_bindings p b of
        None \<Rightarrow> (Inl (StageDatabase ''driver'' ''loading the child's binding''
                   (DbNotFound ''agent_binding_version'' b)), s)
      | Some binding \<Rightarrow>
     (case thread_stage_product (th_stage child) of
        None \<Rightarrow> (Inl (RuntimeFailure ''resolving the child's stage''
                   (ProductInvariant ''a driver child runs a product stage'')), s)
      | Some stage \<Rightarrow>
     (case guard_binding (dp_normalise p) (dp_surface p) (task_type_as_str stage) binding
             (stage_spec (dp_specs p) stage) of
        Inl err \<Rightarrow> (Inl err, s)
      | Inr _ \<Rightarrow>
     (case dp_complete p stage conversation binding of
        Inl err \<Rightarrow> (Inl err, s)
      | Inr response \<Rightarrow>
     (case load_parent_resolution parent_id s of
        None \<Rightarrow> (Inl (RuntimeFailure ''the child's parent carries no launching suspension''
                   (ThreadMissing (di_fault ids))), s)
      | Some parent \<Rightarrow>
     (case commit_child_terminal e (di_terminal ids) aborts child (dt_id task) tok response parent s of
        (Inl err, s') \<Rightarrow> (Inl (driver_runtime_error ''committing the child terminal'' err), s')
      | (Inr _, s') \<Rightarrow> (Inr (), s'))))))))))"

definition execute_child :: "driver_params \<Rightarrow> env \<Rightarrow> driver_ids \<Rightarrow> bool list \<Rightarrow> driver_task \<Rightarrow> uuid
    \<Rightarrow> db \<Rightarrow> (stage_error + unit) \<times> db" where
  "execute_child p e ids aborts task tok s =
     (case run_child_thread e (di_fault ids) task tok s of
        (Inl err, s') \<Rightarrow> (Inl err, s')
      | (Inr child, s') \<Rightarrow> run_child p e ids aborts task tok child s')"

definition last_attempt :: "driver_task \<Rightarrow> bool" where
  "last_attempt task \<longleftrightarrow> u32_add (dt_attempt task) 1 > dt_max_attempts task"

definition dispose_failed_child :: "env \<Rightarrow> uuid \<Rightarrow> driver_task \<Rightarrow> stage_error \<Rightarrow> db \<Rightarrow> db" where
  "dispose_failed_child e rid task err s =
     (if task_error_outcome (to_error_kind err) = Terminal \<or> last_attempt task
      then deferred_death e rid task (stage_error_message err) s
      else requeue_driver_task e task (stage_error_message err) s)"

definition drive_child :: "driver_params \<Rightarrow> env \<Rightarrow> driver_ids \<Rightarrow> bool list \<Rightarrow> driver_task \<Rightarrow> db \<Rightarrow> db" where
  "drive_child p e ids aborts task s =
     (case dt_claim_token task of
        None \<Rightarrow> s
      | Some tok \<Rightarrow>
          (case execute_child p e ids aborts task tok s of
             (Inl err, s') \<Rightarrow> dispose_failed_child e (di_death ids) task err s'
           | (Inr _, s') \<Rightarrow> s'))"

definition drive_claimed :: "driver_params \<Rightarrow> env \<Rightarrow> driver_ids \<Rightarrow> bool list \<Rightarrow> driver_task \<Rightarrow> db \<Rightarrow> db" where
  "drive_claimed p e ids aborts task s =
     (case dt_kind task of
        Drive \<Rightarrow> drive_child p e ids aborts task s
      | DeferredTool \<Rightarrow> dispose_driver_task e task ''deferred-tool execution is unsupported'' s)"

text \<open>The reclaim: at most \<open>n\<close> rounds, each on the stalest claimed row.\<close>

fun reclaim_stale_driver_tasks :: "(nat \<Rightarrow> env) \<Rightarrow> (nat \<Rightarrow> uuid) \<Rightarrow> (nat \<Rightarrow> uuid \<Rightarrow> bool) \<Rightarrow> nat
    \<Rightarrow> nat \<Rightarrow> db \<Rightarrow> db" where
  "reclaim_stale_driver_tasks es ids locked timeout 0 s = s"
| "reclaim_stale_driver_tasks es ids locked timeout (Suc n) s =
     (case driver_lock_stale (es n) (locked n) timeout s of
        None \<Rightarrow> s
      | Some stale \<Rightarrow>
          reclaim_stale_driver_tasks es ids locked timeout n
            (dispose_failed_child (es n) (ids n) stale OwnershipLostError s))"

section \<open>The driver loop is calm\<close>

lemma dispose_driver_task_calm: "calm s (dispose_driver_task e t m s)"
  using keeps_calm_driver_statements(3) [of e "dt_id t" _ m]
  by (auto simp: dispose_driver_task_def calm.order_refl keeps_def split: option.splits sum.splits)

lemma requeue_driver_task_calm: "calm s (requeue_driver_task e t m s)"
  using keeps_calm_driver_statements(2)
  by (auto simp: requeue_driver_task_def calm.order_refl keeps_def split: option.splits sum.splits)

lemma commit_deferred_death_calm: "calm s (snd (commit_deferred_death e rid c d tok p m s))"
  unfolding commit_deferred_death_def by (rule calm.run_txn_keeps [OF keeps_calm_child_terminals(2)])

lemma deferred_death_calm: "calm s (deferred_death e rid t m s)"
proof -
  have step: "calm s s'" if "commit_deferred_death e rid c d tok p m s = (r, s')" for c d tok p r s'
    using commit_deferred_death_calm that by (metis snd_conv)
  show ?thesis
    by (auto simp: deferred_death_def calm.order_refl dispose_driver_task_calm
        split: option.splits prod.splits sum.splits runtime_error.splits
        intro: step calm.order_trans [OF step dispose_driver_task_calm])
qed

lemma dispose_failed_child_calm: "calm s (dispose_failed_child e rid t err s)"
  by (simp add: dispose_failed_child_def deferred_death_calm requeue_driver_task_calm)

lemma keeps_calm_run_child_txn: "keeps calm (run_child_txn e t tok c)"
  unfolding run_child_txn_def by (intro keeps_calm_rules keeps_calm_st_db)

lemma reclaim_stale_driver_tasks_calm: "calm s (reclaim_stale_driver_tasks es ids l timeout n s)"
proof (induction n arbitrary: s)
  case (Suc n)
  then show ?case
    by (auto split: option.splits intro: calm.order_refl
        calm.order_trans [OF dispose_failed_child_calm])
qed (simp add: calm.order_refl)

section \<open>Suspension payloads round-trip\<close>

fun suspension_fits :: "suspension \<Rightarrow> bool" where
  "suspension_fits (BudgetExhaustion n) = (n < 2 ^ 32)"
| "suspension_fits _ = True"

lemma suspension_roundtrip:
  "suspension_fits c \<Longrightarrow> suspension_of_json (suspension_to_json c) = Some c"
  by (cases c) (simp_all add: suspension_of_json_def json_field_def json_u32_def comp_def)

end
