(* ===== verification/GraphRepo.thy ===== *)
theory GraphRepo
  imports JobRepo "HOL-Library.List_Lexorder"
begin

text \<open>
  The statements of the graph repositories the stage commits run
  (\<open>tribal-db/src/repositories/{extraction_result, triage_result,
  knowledge_item, item_observation, relation, triage_similar_item_decision,
  reference, embedding_profile, embedding, tag_registry, tag_embedding}.rs\<close>),
  with the constraints they rest on. Identifiers the database generates are
  arguments; a sequence never hands out a value at or below an earlier one,
  and the gap it leaves is an argument. The vector indexes are the database
  catalogue's, not the store's.
\<close>

definition update_graph :: "(graph \<Rightarrow> graph) \<Rightarrow> unit db_tx" where
  "update_graph f s = Inr ((), s\<lparr>db_graph := f (db_graph s)\<rparr>)"

definition job_exists :: "uuid \<Rightarrow> db \<Rightarrow> bool" where
  "job_exists i s = sql_exists (\<lambda>j. jb_id j = i) (db_jobs s)"

definition item_exists :: "uuid \<Rightarrow> db \<Rightarrow> bool" where
  "item_exists i s = sql_exists (\<lambda>k. ki_id k = i) (gr_items (db_graph s))"

section \<open>Extraction and triage results\<close>

record new_extraction_result =
  ne_job_id :: uuid
  ne_candidates :: json
  ne_relation_hints :: json

definition extraction_result_insert :: "env \<Rightarrow> uuid \<Rightarrow> new_extraction_result \<Rightarrow> extraction_result db_tx" where
  "extraction_result_insert e i n s =
     (let r = \<lparr>er_id = i, er_job_id = ne_job_id n, er_candidates = ne_candidates n,
            er_relation_hints = ne_relation_hints n, er_created_at = env_now e\<rparr> in
      tx_then (insert_guard (job_exists (ne_job_id n) s) ''inserting extraction result''
        [(sql_exists (\<lambda>x. er_id x = i) (gr_extraction_results (db_graph s)),
            ''extraction_results'', ''extraction_results_pkey''),
         (sql_exists (\<lambda>x. er_job_id x = ne_job_id n) (gr_extraction_results (db_graph s)),
            ''extraction_results'', ''extraction_results_job_id_key'')])
     (tx_then (update_graph (\<lambda>g. g\<lparr>gr_extraction_results := gr_extraction_results g @ [r]\<rparr>))
      (tx_return r)) s)"

definition extraction_result_find_by_job_id :: "uuid \<Rightarrow> db \<Rightarrow> extraction_result option" where
  "extraction_result_find_by_job_id j s = find (\<lambda>r. er_job_id r = j) (gr_extraction_results (db_graph s))"

record new_triage_result =
  ntr_job_id :: uuid
  ntr_principal_id :: "uuid option"
  ntr_batch_index :: nat
  ntr_outcome :: triage_outcome

text \<open>The foreign keys of an outcome's flattened columns.\<close>

definition triage_outcome_refs :: "triage_outcome \<Rightarrow> db \<Rightarrow> bool" where
  "triage_outcome_refs out s =
     (case out of
        OutCreated item \<Rightarrow> item_exists item s
      | OutDuplicate obs item \<Rightarrow>
          sql_exists (\<lambda>x. io_id x = obs) (gr_observations (db_graph s)) \<and> item_exists item s
      | OutFailed _ _ \<Rightarrow> True)"

definition triage_result_insert :: "env \<Rightarrow> uuid \<Rightarrow> new_triage_result \<Rightarrow> triage_result db_tx" where
  "triage_result_insert e i n s =
     (let r = \<lparr>tg_id = i, tg_job_id = ntr_job_id n, tg_principal_id = ntr_principal_id n,
            tg_batch_index = ntr_batch_index n, tg_similar_items = [], tg_outcome = ntr_outcome n, tg_created_at = env_now e\<rparr> in
      tx_then (tx_ensure (fits_i32 (ntr_batch_index n)) (DbPanic ''batch_index exceeds i32::MAX''))
     (tx_then (insert_guard (job_exists (ntr_job_id n) s \<and> triage_outcome_refs (ntr_outcome n) s)
        ''inserting triage result''
        [(sql_exists (\<lambda>x. tg_id x = i) (gr_triage_results (db_graph s)),
            ''triage_results'', ''triage_results_pkey''),
         (sql_exists (\<lambda>x. tg_job_id x = ntr_job_id n \<and> tg_batch_index x = ntr_batch_index n)
            (gr_triage_results (db_graph s)),
            ''triage_results'', ''triage_results_job_id_batch_index_key'')])
     (tx_then (update_graph (\<lambda>g. g\<lparr>gr_triage_results := gr_triage_results g @ [r]\<rparr>))
      (tx_return r))) s)"

definition triage_result_find_by_job_id :: "uuid \<Rightarrow> db \<Rightarrow> triage_result list" where
  "triage_result_find_by_job_id j s =
     sort_key tg_batch_index (filter (\<lambda>r. tg_job_id r = j) (gr_triage_results (db_graph s)))"

definition triage_result_find :: "uuid \<Rightarrow> nat \<Rightarrow> triage_result option db_tx" where
  "triage_result_find j b =
     tx_then (tx_ensure (fits_i32 b) (DbPanic ''batch_index exceeds i32::MAX''))
     (tx_read (\<lambda>s. find (\<lambda>r. tg_job_id r = j \<and> tg_batch_index r = b) (gr_triage_results (db_graph s))))"

section \<open>Items, observations, relations, decisions\<close>

record new_item =
  nki_project_id :: uuid
  nki_principal_id :: uuid
  nki_kind :: knowledge_kind
  nki_content :: string
  nki_tags :: "string list"
  nki_confidence :: confidence
  nki_claim_context :: "json option"
  nki_source_context :: json
  nki_episode_id :: "uuid option"
  nki_capture_commit :: "string option"
  nki_capture_branch :: "string option"

definition new_item_row :: "env \<Rightarrow> uuid \<Rightarrow> new_item \<Rightarrow> knowledge_item" where
  "new_item_row e i n = \<lparr>ki_id = i, ki_project_id = nki_project_id n,
     ki_principal_id = nki_principal_id n, ki_kind = nki_kind n, ki_content = nki_content n,
     ki_tags = nki_tags n, ki_confidence = nki_confidence n, ki_claim_context = nki_claim_context n,
     ki_source_context = nki_source_context n, ki_episode_id = nki_episode_id n,
     ki_capture_commit = nki_capture_commit n, ki_capture_branch = nki_capture_branch n,
     ki_created_at = env_now e\<rparr>"

definition item_insert :: "env \<Rightarrow> uuid \<Rightarrow> new_item \<Rightarrow> knowledge_item db_tx" where
  "item_insert e i n s =
     (if item_exists i s then Inl (DbQueryFailed ''inserting knowledge item'')
      else tx_then (update_graph (\<lambda>g. g\<lparr>gr_items := gr_items g @ [new_item_row e i n]\<rparr>))
           (tx_return (new_item_row e i n)) s)"

definition item_find_existing_ids :: "uuid list \<Rightarrow> db \<Rightarrow> uuid list" where
  "item_find_existing_ids ids s =
     map ki_id (filter (\<lambda>k. ki_id k \<in> set ids) (gr_items (db_graph s)))"

record new_observation =
  no_knowledge_item_id :: uuid
  no_principal_id :: uuid
  no_source_type :: source_type

definition observation_insert :: "env \<Rightarrow> uuid \<Rightarrow> new_observation \<Rightarrow> item_observation db_tx" where
  "observation_insert e i n s =
     (let r = \<lparr>io_id = i, io_knowledge_item_id = no_knowledge_item_id n,
            io_principal_id = no_principal_id n, io_source_type = no_source_type n,
            io_observed_at = env_now e\<rparr> in
      if item_exists (no_knowledge_item_id n) s \<and>
         \<not> sql_exists (\<lambda>x. io_id x = i) (gr_observations (db_graph s))
      then tx_then (update_graph (\<lambda>g. g\<lparr>gr_observations := gr_observations g @ [r]\<rparr>)) (tx_return r) s
      else Inl (DbQueryFailed ''inserting item observation''))"

record new_relation =
  nrl_batch_id :: uuid
  nrl_source_id :: uuid
  nrl_target_id :: uuid
  nrl_type :: relation_kind
  nrl_principal_id :: uuid
  nrl_justification :: "string option"

definition new_relation_row :: "env \<Rightarrow> uuid \<Rightarrow> new_relation \<Rightarrow> item_relation" where
  "new_relation_row e i n = \<lparr>rl_id = i, rl_batch_id = nrl_batch_id n, rl_source_id = nrl_source_id n,
     rl_target_id = nrl_target_id n, rl_type = nrl_type n, rl_principal_id = nrl_principal_id n,
     rl_justification = nrl_justification n, rl_created_at = env_now e\<rparr>"

definition relation_batch_insert :: "env \<Rightarrow> (nat \<Rightarrow> uuid) \<Rightarrow> new_relation list \<Rightarrow> item_relation list db_tx" where
  "relation_batch_insert e ids batch s =
     (let rows = map (\<lambda>(k, n). new_relation_row e (ids k) n) (enumerate 0 batch) in
      if batch = [] then Inr ([], s)
      else if list_all (\<lambda>n. item_exists (nrl_source_id n) s \<and> item_exists (nrl_target_id n) s) batch \<and>
         distinct (map rl_id rows) \<and>
         list_all (\<lambda>r. \<not> sql_exists (\<lambda>x. rl_id x = rl_id r) (gr_relations (db_graph s))) rows
      then tx_then (update_graph (\<lambda>g. g\<lparr>gr_relations := gr_relations g @ rows\<rparr>)) (tx_return rows) s
      else Inl (DbQueryFailed ''batch inserting relations''))"

definition committed_batches :: "db \<Rightarrow> uuid list" where
  "committed_batches s = some_keys jb_committed_batch_id (db_jobs s)"

definition relation_find_inbound :: "uuid \<Rightarrow> relation_kind list option \<Rightarrow> db \<Rightarrow> item_relation list" where
  "relation_find_inbound anchor types s =
     committed_relations (committed_batches s) rl_target_id anchor types (db_graph s)"

definition relation_find_outbound :: "uuid \<Rightarrow> relation_kind list option \<Rightarrow> db \<Rightarrow> item_relation list" where
  "relation_find_outbound anchor types s =
     committed_relations (committed_batches s) rl_source_id anchor types (db_graph s)"

definition item_find_by_ids :: "uuid list \<Rightarrow> db \<Rightarrow> knowledge_item list" where
  "item_find_by_ids ids s = filter (\<lambda>k. ki_id k \<in> set ids) (gr_items (db_graph s))"

record new_decision =
  nsd_job_id :: uuid
  nsd_principal_id :: "uuid option"
  nsd_batch_index :: nat
  nsd_matched_item_id :: uuid
  nsd_similarity_score :: nat
  nsd_suggested_relation :: relation_suggestion
  nsd_justification_text :: string

definition new_decision_row :: "env \<Rightarrow> uuid \<Rightarrow> new_decision \<Rightarrow> similar_decision" where
  "new_decision_row e i n = \<lparr>sd_id = i, sd_job_id = nsd_job_id n, sd_principal_id = nsd_principal_id n,
     sd_batch_index = nsd_batch_index n, sd_matched_item_id = nsd_matched_item_id n,
     sd_similarity_score = nsd_similarity_score n, sd_suggested_relation = nsd_suggested_relation n,
     sd_justification_text = nsd_justification_text n, sd_created_at = env_now e\<rparr>"

definition decision_key :: "similar_decision \<Rightarrow> uuid \<times> nat \<times> uuid" where
  "decision_key d = (sd_job_id d, sd_batch_index d, sd_matched_item_id d)"

definition decision_batch_insert :: "env \<Rightarrow> (nat \<Rightarrow> uuid) \<Rightarrow> new_decision list \<Rightarrow> similar_decision list db_tx" where
  "decision_batch_insert e ids batch s =
     (let rows = map (\<lambda>(k, n). new_decision_row e (ids k) n) (enumerate 0 batch) in
      if batch = [] then Inr ([], s)
      else tx_then (tx_ensure (list_all (\<lambda>d. fits_i32 (nsd_batch_index d)) batch)
          (DbPanic ''batch_index exceeds i32::MAX''))
     (tx_then (insert_guard
        (list_all (\<lambda>d. job_exists (sd_job_id d) s \<and> item_exists (sd_matched_item_id d) s) rows)
        ''batch inserting triage similar item decisions''
        [(\<not> distinct (map sd_id rows) \<or>
            list_ex (\<lambda>d. sql_exists (\<lambda>x. sd_id x = sd_id d) (gr_decisions (db_graph s))) rows,
          ''triage_similar_item_decisions'', ''triage_similar_item_decisions_pkey''),
         (\<not> distinct (map decision_key rows) \<or>
            list_ex (\<lambda>d. sql_exists (\<lambda>x. decision_key x = decision_key d) (gr_decisions (db_graph s))) rows,
          ''triage_similar_item_decisions'',
          ''triage_similar_item_decisions_job_id_batch_index_matched_item_id_key'')])
     (tx_then (update_graph (\<lambda>g. g\<lparr>gr_decisions := gr_decisions g @ rows\<rparr>))
      (tx_return rows))) s)"

definition decision_find_by_job_id :: "uuid \<Rightarrow> db \<Rightarrow> similar_decision list" where
  "decision_find_by_job_id j s =
     sort_key sd_batch_index (sort_key sd_created_at (sort_key sd_id
       (filter (\<lambda>d. sd_job_id d = j) (gr_decisions (db_graph s)))))"

record new_reference =
  nrf_knowledge_item_id :: uuid
  nrf_kind :: reference_kind
  nrf_value :: string
  nrf_description :: "string option"
  nrf_project_id :: uuid
  nrf_commit :: "string option"
  nrf_branch :: "string option"

definition reference_insert :: "uuid \<Rightarrow> new_reference \<Rightarrow> item_reference db_tx" where
  "reference_insert i n s =
     (let r = \<lparr>rf_id = i, rf_knowledge_item_id = nrf_knowledge_item_id n, rf_kind = nrf_kind n,
            rf_value = nrf_value n, rf_description = nrf_description n, rf_project_id = nrf_project_id n,
            rf_commit = nrf_commit n, rf_branch = nrf_branch n\<rparr> in
      if item_exists (nrf_knowledge_item_id n) s \<and>
         \<not> sql_exists (\<lambda>x. rf_id x = i) (gr_references (db_graph s))
      then tx_then (update_graph (\<lambda>g. g\<lparr>gr_references := gr_references g @ [r]\<rparr>)) (tx_return r) s
      else Inl (DbQueryFailed ''inserting reference''))"

definition reference_find_by_item :: "uuid \<Rightarrow> db \<Rightarrow> item_reference list" where
  "reference_find_by_item i s =
     filter (\<lambda>r. rf_knowledge_item_id r = i) (gr_references (db_graph s))"

section \<open>Embedding profiles\<close>

record new_profile =
  npr_provider_kind :: provider_kind
  npr_base_url :: string
  npr_model :: string
  npr_dimensions :: nat
  npr_distance_metric :: distance_metric
  npr_revision_token :: string
  npr_probe_digest :: "string option"
  npr_fingerprint_hash :: string

definition next_epoch :: "nat \<Rightarrow> embedding_profile list \<Rightarrow> int" where
  "next_epoch gap ps = fold max (map ep_epoch ps) 0 + 1 + int gap"

definition new_profile_row :: "env \<Rightarrow> uuid \<Rightarrow> int \<Rightarrow> new_profile \<Rightarrow> embedding_profile" where
  "new_profile_row e i epoch n = \<lparr>ep_id = i, ep_epoch = epoch,
     ep_provider_kind = npr_provider_kind n, ep_base_url = npr_base_url n, ep_model = npr_model n,
     ep_dimensions = npr_dimensions n, ep_distance_metric = npr_distance_metric n,
     ep_revision_token = npr_revision_token n, ep_probe_digest = npr_probe_digest n,
     ep_state = ProfileBuilding, ep_fingerprint_hash = npr_fingerprint_hash n,
     ep_created_at = env_now e, ep_completed_at = None\<rparr>"

definition profile_insert :: "env \<Rightarrow> uuid \<Rightarrow> nat \<Rightarrow> new_profile \<Rightarrow> embedding_profile db_tx" where
  "profile_insert e i gap n s =
     (let p = new_profile_row e i (next_epoch gap (gr_profiles (db_graph s))) n in
      if \<not> fits_i32 (npr_dimensions n) then Inl (DbPanic ''profile dimensions exceeds i32::MAX'')
      else if 0 < npr_dimensions n \<and> npr_dimensions n \<le> 4000 \<and>
         \<not> sql_exists (\<lambda>x. ep_id x = i) (gr_profiles (db_graph s))
      then tx_then (update_graph (\<lambda>g. g\<lparr>gr_profiles := gr_profiles g @ [p]\<rparr>)) (tx_return p) s
      else Inl (DbQueryFailed ''inserting embedding profile''))"

text \<open>The active profile is the complete one of the highest epoch, derived at every
  read.\<close>

definition latest_profile :: "profile_state \<Rightarrow> db \<Rightarrow> embedding_profile option" where
  "latest_profile st s =
     (case sort_key (\<lambda>p. - ep_epoch p) (filter (\<lambda>p. ep_state p = st) (gr_profiles (db_graph s))) of
        [] \<Rightarrow> None
      | p # _ \<Rightarrow> Some p)"

definition profile_find_active :: "db \<Rightarrow> embedding_profile option" where
  "profile_find_active s = latest_profile ProfileComplete s"

definition profile_find_building :: "db \<Rightarrow> embedding_profile option" where
  "profile_find_building s = latest_profile ProfileBuilding s"

definition profile_find_by_id :: "uuid \<Rightarrow> db \<Rightarrow> embedding_profile option" where
  "profile_find_by_id i s = find (\<lambda>p. ep_id p = i) (gr_profiles (db_graph s))"

definition profile_transition :: "env \<Rightarrow> uuid \<Rightarrow> profile_state \<Rightarrow> profile_state \<Rightarrow> bool db_tx" where
  "profile_transition e i source target s =
     (let hit = (\<lambda>p. ep_id p = i \<and> ep_state p = source) in
      tx_then (update_graph (\<lambda>g. g\<lparr>gr_profiles := sql_update hit
          (\<lambda>p. p\<lparr>ep_state := target, ep_completed_at := Some (env_now e)\<rparr>) (gr_profiles g)\<rparr>))
        (tx_return (sql_exists hit (gr_profiles (db_graph s)))) s)"

definition profile_mark_complete :: "env \<Rightarrow> uuid \<Rightarrow> bool db_tx" where
  "profile_mark_complete e i = profile_transition e i ProfileBuilding ProfileComplete"

definition profile_mark_failed :: "env \<Rightarrow> uuid \<Rightarrow> bool db_tx" where
  "profile_mark_failed e i = profile_transition e i ProfileBuilding ProfileFailed"

text \<open>A failed profile is prunable, and a complete one below the latest.\<close>

definition profile_prunable :: "db \<Rightarrow> embedding_profile \<Rightarrow> bool" where
  "profile_prunable s p \<longleftrightarrow> ep_state p = ProfileFailed \<or>
     (ep_state p = ProfileComplete \<and>
      sql_exists (\<lambda>x. ep_state x = ProfileComplete \<and> ep_epoch p < ep_epoch x) (gr_profiles (db_graph s)))"

definition profile_supersede_prunable :: "int list db_tx" where
  "profile_supersede_prunable s =
     tx_then (update_graph (\<lambda>g. g\<lparr>gr_profiles :=
          sql_update (profile_prunable s) (\<lambda>p. p\<lparr>ep_state := ProfileSuperseded\<rparr>) (gr_profiles g)\<rparr>))
       (tx_return (map ep_epoch (filter (profile_prunable s) (gr_profiles (db_graph s))))) s"

text \<open>Whether an index of the epoch still exists is the catalogue's knowledge.\<close>

definition profile_prunable_index_epochs :: "(int \<Rightarrow> bool) \<Rightarrow> db \<Rightarrow> int list" where
  "profile_prunable_index_epochs indexed s =
     sort (map ep_epoch (filter (\<lambda>p. ep_state p = ProfileSuperseded \<and> indexed (ep_epoch p))
       (gr_profiles (db_graph s))))"

section \<open>Embeddings\<close>

text \<open>The trigger on the width, the check against the zero vector, and the input
  check of the vector type against infinities and NaN (all exponent bits set);
  a half-float is zero when its bits are clear but for the sign.\<close>

definition vector_admissible :: "uuid \<Rightarrow> vector \<Rightarrow> db \<Rightarrow> bool" where
  "vector_admissible profile v s \<longleftrightarrow>
     sql_exists (\<lambda>p. ep_id p = profile \<and> ep_dimensions p = length v) (gr_profiles (db_graph s)) \<and>
     list_ex (\<lambda>b. b mod 2 ^ 15 \<noteq> 0) v \<and> list_all (\<lambda>b. b div 2 ^ 10 mod 2 ^ 5 \<noteq> 31) v"

record new_embedding =
  nem_knowledge_item_id :: uuid
  nem_profile_id :: uuid
  nem_model :: string
  nem_vector :: vector

definition new_embedding_row :: "env \<Rightarrow> uuid \<Rightarrow> new_embedding \<Rightarrow> item_embedding" where
  "new_embedding_row e i n = \<lparr>em_id = i, em_knowledge_item_id = nem_knowledge_item_id n,
     em_profile_id = nem_profile_id n, em_model = nem_model n, em_vector = nem_vector n,
     em_created_at = env_now e\<rparr>"

definition embedding_admissible :: "new_embedding \<Rightarrow> db \<Rightarrow> bool" where
  "embedding_admissible n s \<longleftrightarrow> item_exists (nem_knowledge_item_id n) s \<and>
     vector_admissible (nem_profile_id n) (nem_vector n) s"

definition embedded :: "uuid \<Rightarrow> uuid \<Rightarrow> item_embedding list \<Rightarrow> bool" where
  "embedded item profile rows =
     sql_exists (\<lambda>x. em_knowledge_item_id x = item \<and> em_profile_id x = profile) rows"

definition embedding_insert :: "env \<Rightarrow> uuid \<Rightarrow> new_embedding \<Rightarrow> item_embedding db_tx" where
  "embedding_insert e i n s =
     tx_then (insert_guard (embedding_admissible n s) ''inserting embedding''
        [(sql_exists (\<lambda>x. em_id x = i) (gr_embeddings (db_graph s)), ''embeddings'', ''embeddings_pkey''),
         (embedded (nem_knowledge_item_id n) (nem_profile_id n) (gr_embeddings (db_graph s)),
          ''embeddings'', ''uq_embedding_item_profile'')])
    (tx_then (update_graph (\<lambda>g. g\<lparr>gr_embeddings := gr_embeddings g @ [new_embedding_row e i n]\<rparr>))
     (tx_return (new_embedding_row e i n))) s"

fun insert_missing_embeddings :: "item_embedding list \<Rightarrow> item_embedding list \<Rightarrow> item_embedding list" where
  "insert_missing_embeddings [] rows = rows"
| "insert_missing_embeddings (m # ms) rows =
     insert_missing_embeddings ms
       (if embedded (em_knowledge_item_id m) (em_profile_id m) rows then rows else rows @ [m])"

text \<open>The row checks and the trigger run before a conflict is looked for. The value
  is the number of rows inserted.\<close>

definition embedding_batch_insert :: "env \<Rightarrow> (nat \<Rightarrow> uuid) \<Rightarrow> new_embedding list \<Rightarrow> nat db_tx" where
  "embedding_batch_insert e ids batch s =
     (let rows = map (\<lambda>(k, n). new_embedding_row e (ids k) n) (enumerate 0 batch);
          old = gr_embeddings (db_graph s); new = insert_missing_embeddings rows old in
      if batch = [] then Inr (0, s)
      else if list_all (\<lambda>n. embedding_admissible n s) batch \<and> distinct (map em_id new)
      then tx_then (update_graph (\<lambda>g. g\<lparr>gr_embeddings := new\<rparr>)) (tx_return (length new - length old)) s
      else Inl (DbQueryFailed ''batch inserting embeddings''))"

definition embedding_find :: "uuid \<Rightarrow> uuid \<Rightarrow> db \<Rightarrow> item_embedding option" where
  "embedding_find item profile s =
     find (\<lambda>x. em_knowledge_item_id x = item \<and> em_profile_id x = profile) (gr_embeddings (db_graph s))"

definition is_quarantined :: "uuid \<Rightarrow> reindex_entity \<Rightarrow> string \<Rightarrow> db \<Rightarrow> bool" where
  "is_quarantined profile kind ref s = sql_exists (\<lambda>q. qt_profile_id q = profile \<and> qt_kind q = kind \<and>
     qt_entity_ref q = ref) (gr_quarantine (db_graph s))"

definition item_unembedded :: "uuid \<Rightarrow> db \<Rightarrow> knowledge_item \<Rightarrow> bool" where
  "item_unembedded profile s k \<longleftrightarrow> \<not> embedded (ki_id k) profile (gr_embeddings (db_graph s)) \<and>
     \<not> is_quarantined profile ItemEntity (uuid_text (ki_id k)) s"

definition embedding_count_missing :: "uuid \<Rightarrow> db \<Rightarrow> nat" where
  "embedding_count_missing profile s = sql_count (item_unembedded profile s) (gr_items (db_graph s))"

definition embedding_find_missing :: "uuid \<Rightarrow> uuid option \<Rightarrow> nat \<Rightarrow> db \<Rightarrow> uuid list" where
  "embedding_find_missing profile after limit s =
     take limit (sort (map ki_id (filter (\<lambda>k. item_unembedded profile s k \<and>
       (case after of None \<Rightarrow> True | Some a \<Rightarrow> a < ki_id k)) (gr_items (db_graph s)))))"

definition profile_superseded :: "uuid \<Rightarrow> db \<Rightarrow> bool" where
  "profile_superseded i s =
     sql_exists (\<lambda>p. ep_id p = i \<and> ep_state p = ProfileSuperseded) (gr_profiles (db_graph s))"

definition embedding_delete_superseded :: "nat db_tx" where
  "embedding_delete_superseded s =
     tx_then (update_graph (\<lambda>g. g\<lparr>gr_embeddings :=
          filter (\<lambda>m. \<not> profile_superseded (em_profile_id m) s) (gr_embeddings g)\<rparr>))
       (tx_return (sql_count (\<lambda>m. profile_superseded (em_profile_id m) s) (gr_embeddings (db_graph s)))) s"

section \<open>Tags\<close>

fun upsert_tags :: "env \<Rightarrow> string list \<Rightarrow> tag_entry list \<Rightarrow> tag_entry list" where
  "upsert_tags e [] entries = entries"
| "upsert_tags e (t # ts) entries =
     upsert_tags e ts (if sql_exists (\<lambda>x. te_tag x = t) entries then entries
       else entries @ [\<lparr>te_tag = t, te_first_seen_at = env_now e, te_last_seen_at = None, te_usage_count = 0\<rparr>])"

text \<open>The byte order of a text, the "C" collation.\<close>

definition c_key :: "string \<Rightarrow> nat list" where
  "c_key t = map of_char t"

definition tag_batch_upsert :: "env \<Rightarrow> string list \<Rightarrow> tag_entry list db_tx" where
  "tag_batch_upsert e tags s =
     (if tags = [] then Inr ([], s)
      else tx_then (update_graph (\<lambda>g. g\<lparr>gr_tags := upsert_tags e tags (gr_tags g)\<rparr>))
       (tx_read (\<lambda>t. sort_key (\<lambda>x. c_key (te_tag x)) (filter (\<lambda>x. te_tag x \<in> set tags) (gr_tags (db_graph t))))) s)"

definition tag_find_all :: "db \<Rightarrow> tag_entry list" where
  "tag_find_all s = sort_key (\<lambda>x. c_key (te_tag x)) (gr_tags (db_graph s))"

text \<open>The counter is a 32-bit column.\<close>

definition tag_increment_usage :: "env \<Rightarrow> string list \<Rightarrow> unit db_tx" where
  "tag_increment_usage e tags s =
     (if sql_exists (\<lambda>x. te_tag x \<in> set tags \<and> te_usage_count x + 1 \<ge> 2 ^ 31) (gr_tags (db_graph s))
      then Inl (DbQueryFailed ''incrementing usage count'')
      else update_graph (\<lambda>g. g\<lparr>gr_tags := sql_update (\<lambda>x. te_tag x \<in> set tags)
        (\<lambda>x. x\<lparr>te_usage_count := te_usage_count x + 1, te_last_seen_at := Some (env_now e)\<rparr>) (gr_tags g)\<rparr>) s)"

definition tag_embedded :: "string \<Rightarrow> uuid \<Rightarrow> tag_embedding list \<Rightarrow> bool" where
  "tag_embedded tag profile rows = sql_exists (\<lambda>x. tm_tag x = tag \<and> tm_profile_id x = profile) rows"

fun upsert_tag_embeddings :: "tag_embedding list \<Rightarrow> tag_embedding list \<Rightarrow> tag_embedding list" where
  "upsert_tag_embeddings [] rows = rows"
| "upsert_tag_embeddings (m # ms) rows =
     upsert_tag_embeddings ms
       (if tag_embedded (tm_tag m) (tm_profile_id m) rows then rows else rows @ [m])"

definition tag_embedding_batch_upsert :: "tag_embedding list \<Rightarrow> unit db_tx" where
  "tag_embedding_batch_upsert ms s =
     (if ms = [] then Inr ((), s)
      else if list_all (\<lambda>m. sql_exists (\<lambda>x. te_tag x = tm_tag m) (gr_tags (db_graph s)) \<and>
          vector_admissible (tm_profile_id m) (tm_vector m) s) ms
      then update_graph (\<lambda>g. g\<lparr>gr_tag_embeddings := upsert_tag_embeddings ms (gr_tag_embeddings g)\<rparr>) s
      else Inl (DbQueryFailed ''batch upserting tag embeddings''))"

definition tag_unembedded :: "uuid \<Rightarrow> db \<Rightarrow> tag_entry \<Rightarrow> bool" where
  "tag_unembedded profile s t \<longleftrightarrow> \<not> tag_embedded (te_tag t) profile (gr_tag_embeddings (db_graph s)) \<and>
     \<not> is_quarantined profile TagEntity (te_tag t) s"

definition tags_missing_embeddings :: "uuid \<Rightarrow> db \<Rightarrow> string list" where
  "tags_missing_embeddings profile s =
     sort_key c_key (map te_tag (filter (tag_unembedded profile s) (gr_tags (db_graph s))))"

definition tag_embedding_delete_superseded :: "nat db_tx" where
  "tag_embedding_delete_superseded s =
     tx_then (update_graph (\<lambda>g. g\<lparr>gr_tag_embeddings :=
          filter (\<lambda>m. \<not> profile_superseded (tm_profile_id m) s) (gr_tag_embeddings g)\<rparr>))
       (tx_return (sql_count (\<lambda>m. profile_superseded (tm_profile_id m) s) (gr_tag_embeddings (db_graph s)))) s"

section \<open>Graph statements leave the protocol tables alone\<close>

definition protocol_tables :: "db \<Rightarrow> job list \<times> task list \<times> agent_thread list \<times> thread_record list \<times> driver_task list" where
  "protocol_tables s = (db_jobs s, db_tasks s, db_threads s, db_records s, db_drivers s)"

definition same_protocol :: "db \<Rightarrow> db \<Rightarrow> bool" where
  "same_protocol s s' \<longleftrightarrow> protocol_tables s' = protocol_tables s"

interpretation same_protocol: store_order same_protocol
  by unfold_locales (auto simp: same_protocol_def)

lemma same_protocol_update [simp]: "same_protocol s (s\<lparr>db_graph := g\<rparr>)"
  by (simp add: same_protocol_def protocol_tables_def)

lemma keeps_same_graph_statements:
  "keeps same_protocol (update_graph f)"
  "keeps same_protocol (extraction_result_insert e i n)"
  "keeps same_protocol (triage_result_insert e i t)"
  "keeps same_protocol (triage_result_find j b)"
  "keeps same_protocol (item_insert e i k)"
  "keeps same_protocol (observation_insert e i ob)"
  "keeps same_protocol (relation_batch_insert e ids rs)"
  "keeps same_protocol (decision_batch_insert e ids ds)"
  "keeps same_protocol (reference_insert i r)"
  "keeps same_protocol (profile_insert e i gap np)"
  "keeps same_protocol (profile_transition e i st st')"
  "keeps same_protocol profile_supersede_prunable"
  "keeps same_protocol (embedding_insert e i m)"
  "keeps same_protocol (embedding_batch_insert e ids nms)"
  "keeps same_protocol embedding_delete_superseded"
  "keeps same_protocol (tag_batch_upsert e ts)"
  "keeps same_protocol (tag_increment_usage e ts)"
  "keeps same_protocol (tag_embedding_batch_upsert ms)"
  "keeps same_protocol tag_embedding_delete_superseded"
  by (auto simp: keeps_def extraction_result_insert_def triage_result_insert_def triage_result_find_def
      item_insert_def observation_insert_def relation_batch_insert_def decision_batch_insert_def
      reference_insert_def profile_insert_def profile_transition_def profile_supersede_prunable_def
      embedding_insert_def embedding_batch_insert_def embedding_delete_superseded_def
      tag_batch_upsert_def tag_increment_usage_def tag_embedding_batch_upsert_def
      tag_embedding_delete_superseded_def Let_def tx_defs update_graph_def insert_guard_def
      same_protocol.order_refl split: if_splits option.splits sum.splits)

lemma same_protocol_calm:
  assumes "same_protocol s s'"
  shows "calm s s'"
proof -
  have "db_ok s' = db_ok s" "no_new_lease s s'"
    using assms by (auto simp: same_protocol_def protocol_tables_def db_ok_def db_unique_def db_refs_def log_contiguous_def
        thread_log_def lease_defs)
  then show ?thesis
    using assms by (simp add: calm_def evolves_def same_protocol_def protocol_tables_def
        rows_evolve_refl row_evolves_refl)
qed

lemma keeps_same_calm: "keeps same_protocol m \<Longrightarrow> keeps calm m"
  by (auto simp: keeps_def intro: same_protocol_calm)

lemmas keeps_calm_graph_statements = keeps_same_graph_statements [THEN keeps_same_calm]

end
