(* ===== verification/StageCommit.thy ===== *)
theory StageCommit
  imports GraphRepo ClaimDisposal
begin

text \<open>
  The commit of a stage's domain effects
  (\<open>tribal-worker/src/worker/dispatch/commit.rs\<close> and the terminal half of
  \<open>tribal-worker/src/stages/common.rs\<close>): each stage writes its effects, moves
  its job, completes its task and its thread in one transaction. The
  embedding gateway is a parameter; the shared cutover lock is the
  transaction's isolation; linking spend to records writes the token-usage
  table, which is outside the store.
\<close>

section \<open>The thread's terminal\<close>

datatype stage_terminal = Completion "completion_response option" | Submission accepted_submission

definition finish_thread :: "env \<Rightarrow> uuid \<Rightarrow> string \<Rightarrow> agent_thread \<Rightarrow> stage_terminal \<Rightarrow> unit stage_tx" where
  "finish_thread e rid stage thread terminal =
     (case terminal of
        Completion response \<Rightarrow>
          (case response of
             Some r \<Rightarrow>
               tx_then (tx_map_err (map_runtime_error stage ''committing the thread terminal'')
                 (commit_one_shot_terminal e rid thread r)) (tx_return ())
           | None \<Rightarrow>
               tx_map_err (map_runtime_error stage ''committing the thread terminal'')
                 (commit_noop_terminal e thread))
      | Submission accepted \<Rightarrow>
          tx_then (tx_map_err (map_runtime_error stage ''committing the loop terminal'')
            (commit_loop_terminal e rid thread accepted)) (tx_return ()))"

definition complete_stage_task :: "env \<Rightarrow> string \<Rightarrow> task \<Rightarrow> uuid \<Rightarrow> unit stage_tx" where
  "complete_stage_task e stage task tok =
     tx_bind (st_db stage ''completing task'' (task_complete e (tk_id task) tok)) (\<lambda>rows.
     if rows = 0 then tx_fail OwnershipLostError else tx_return ())"

section \<open>Extraction\<close>

record commit_ids =
  ci_record :: uuid
  ci_row :: uuid
  ci_many :: "nat \<Rightarrow> uuid"
  ci_decision :: "nat \<Rightarrow> uuid"
  ci_embedding :: uuid
  ci_task :: uuid
  ci_item :: uuid

definition completed_transition :: "env \<Rightarrow> job_outcome \<Rightarrow> job_transition" where
  "completed_transition e out = \<lparr>jt_status = JobCompleted, jt_outcome = Some out,
     jt_error_message = None, jt_completed_at = Some (env_utc_now e)\<rparr>"

definition triaging_transition :: job_transition where
  "triaging_transition = \<lparr>jt_status = JobTriaging, jt_outcome = None, jt_error_message = None,
     jt_completed_at = None\<rparr>"

record extraction_commit =
  ec_result :: new_extraction_result
  ec_identity :: inference_identity
  ec_triage_tasks :: "new_task list"
  ec_batch_size :: nat
  ec_original_count :: nat

text \<open>The value is the job state the watchers are told of, if the job moved.\<close>

definition commit_extraction_txn :: "env \<Rightarrow> commit_ids \<Rightarrow> task \<Rightarrow> uuid \<Rightarrow> extraction_commit \<Rightarrow> agent_thread
    \<Rightarrow> stage_terminal \<Rightarrow> owed_notification option ending stage_tx" where
  "commit_extraction_txn e ids task tok c thread terminal =
     (let stage = ''extraction''; empty = (ec_batch_size c = 0) in
      tx_then (st_db stage ''committing extraction identity''
         (job_set_extraction_identity e (tk_job_id task) (ec_identity c)))
     (tx_then (st_db stage ''inserting extraction result''
         (extraction_result_insert e (ci_row ids) (ec_result c)))
     (tx_then (if empty then tx_return ()
         else tx_each (\<lambda>(k, nt). st_db stage ''creating triage task'' (task_insert e (ci_many ids k) nt))
           (enumerate 0 (ec_triage_tasks c)))
     (tx_then (st_db stage ''updating batch size''
         (job_update_batch_size e (tk_job_id task) (ec_batch_size c) (ec_original_count c)))
     (tx_bind (st_db stage ''transitioning job status''
         (job_update_status_if_live e (tk_job_id task)
           (if empty then completed_transition e Empty else triaging_transition))) (\<lambda>moved.
      tx_then (complete_stage_task e stage task tok)
     (tx_then (finish_thread e (ci_record ids) stage thread terminal)
      (tx_return (Commit (if moved = None then None
         else Some \<lparr>on_job_id = tk_job_id task,
           on_state = (if empty then StateCompleted else StateTriaging)\<rparr>))))))))))"

definition commit_extraction :: "env \<Rightarrow> commit_ids \<Rightarrow> task \<Rightarrow> extraction_commit \<Rightarrow> agent_thread
    \<Rightarrow> stage_terminal \<Rightarrow> db \<Rightarrow> (stage_error + owed_notification option) \<times> db" where
  "commit_extraction e ids task c thread terminal s =
     (case tk_claim_token task of
        None \<Rightarrow> (Inl OwnershipLostError, s)
      | Some tok \<Rightarrow> run_txn (commit_extraction_txn e ids task tok c thread terminal) s)"

section \<open>Triage\<close>

definition finalise_triage :: "env \<Rightarrow> commit_ids \<Rightarrow> new_decision list \<Rightarrow> task \<Rightarrow> uuid \<Rightarrow> agent_thread
    \<Rightarrow> stage_terminal \<Rightarrow> bool stage_tx" where
  "finalise_triage e ids decisions task tok thread terminal =
     (let stage = ''triage'' in
      tx_then (if decisions = [] then tx_return []
         else st_db stage ''inserting similar item decisions''
           (decision_batch_insert e (ci_decision ids) decisions))
     (tx_then (complete_stage_task e stage task tok)
     (tx_then (finish_thread e (ci_record ids) stage thread terminal)
      (st_db stage ''triage fan-in'' (triage_fan_in e (ci_task ids) (tk_job_id task) (tk_id task))))))"

record suggested_reference =
  sr_type :: string
  sr_value :: string
  sr_description :: "string option"

text \<open>A suggested reference of an unknown kind is skipped.\<close>

definition insert_suggested :: "uuid \<Rightarrow> uuid \<Rightarrow> uuid \<Rightarrow> suggested_reference \<Rightarrow> unit stage_tx" where
  "insert_suggested i item project r =
     (case reference_kind_from_str (to_ascii_lowercase (trim (sr_type r))) of
        Inl _ \<Rightarrow> tx_return ()
      | Inr kind \<Rightarrow> tx_then (st_db ''triage'' ''inserting reference''
          (reference_insert i \<lparr>nrf_knowledge_item_id = item, nrf_kind = kind, nrf_value = sr_value r,
             nrf_description = sr_description r, nrf_project_id = project, nrf_commit = None,
             nrf_branch = None\<rparr>)) (tx_return ()))"

record novel_decision =
  nv_item :: new_item
  nv_references :: "suggested_reference list"
  nv_new_tags :: "string list"
  nv_resolved_tags :: "string list"

record novel_embedding =
  ne_vector :: vector
  ne_model :: string
  ne_profile_id :: uuid
  ne_tag_vectors :: "vector list"

datatype commit_novel_outcome = NovelCommitted | Reembed embedding_profile

definition commit_novel :: "env \<Rightarrow> commit_ids \<Rightarrow> uuid \<Rightarrow> uuid \<Rightarrow> nat \<Rightarrow> novel_decision \<Rightarrow> novel_embedding
    \<Rightarrow> commit_novel_outcome stage_tx" where
  "commit_novel e ids job project batch_index d emb =
     (let stage = ''triage'' in
      tx_bind (tx_read profile_find_active) (\<lambda>found.
      case found of
        None \<Rightarrow> tx_fail (StageDatabase stage ''no active embedding profile'' (DbNotFound ''embedding_profile'' 0))
      | Some active \<Rightarrow>
      if ep_id active \<noteq> ne_profile_id emb then tx_return (Reembed active)
      else
        tx_then (if nv_new_tags d = [] then tx_return () else
           tx_then (st_db stage ''upserting tags'' (tag_batch_upsert e (nv_new_tags d)))
           (st_db stage ''upserting tag embeddings''
             (tag_embedding_batch_upsert
               (map (\<lambda>(t, v). \<lparr>tm_tag = t, tm_profile_id = ep_id active, tm_model = ne_model emb, tm_vector = v\<rparr>)
                 (zip (nv_new_tags d) (ne_tag_vectors emb))))))
       (tx_then (if nv_resolved_tags d @ nv_new_tags d = [] then tx_return ()
           else st_db stage ''incrementing tag usage counts''
             (tag_increment_usage e (nv_resolved_tags d @ nv_new_tags d)))
       (tx_bind (st_db stage ''inserting knowledge item'' (item_insert e (ci_item ids) (nv_item d))) (\<lambda>item.
        tx_then (st_db stage ''inserting embedding''
           (embedding_insert e (ci_embedding ids) \<lparr>nem_knowledge_item_id = ki_id item,
              nem_profile_id = ep_id active, nem_model = ne_model emb, nem_vector = ne_vector emb\<rparr>))
       (tx_then (tx_each (\<lambda>(k, r). insert_suggested (ci_many ids k) (ki_id item) project r)
           (enumerate 0 (nv_references d)))
       (tx_then (st_db stage ''inserting triage result''
           (triage_result_insert e (ci_row ids) \<lparr>ntr_job_id = job,
              ntr_principal_id = Some (nki_principal_id (nv_item d)), ntr_batch_index = batch_index,
              ntr_outcome = OutCreated (ki_id item)\<rparr>))
        (tx_return NovelCommitted))))))))"

definition commit_duplicate :: "env \<Rightarrow> commit_ids \<Rightarrow> uuid \<Rightarrow> nat \<Rightarrow> new_observation \<Rightarrow> unit stage_tx" where
  "commit_duplicate e ids job batch_index n =
     tx_bind (st_db ''triage'' ''inserting observation'' (observation_insert e (ci_item ids) n)) (\<lambda>obs.
     tx_then (st_db ''triage'' ''inserting triage result''
       (triage_result_insert e (ci_row ids) \<lparr>ntr_job_id = job,
          ntr_principal_id = Some (no_principal_id n), ntr_batch_index = batch_index,
          ntr_outcome = OutDuplicate (io_id obs) (no_knowledge_item_id n)\<rparr>))
     (tx_return ()))"

definition validate_triage_noop :: "uuid \<Rightarrow> nat \<Rightarrow> unit stage_tx" where
  "validate_triage_noop job batch_index =
     tx_bind (st_db ''triage'' ''re-checking triage idempotency'' (triage_result_find job batch_index)) (\<lambda>found.
     if found = None
     then tx_fail (StageDatabase ''triage'' ''NoOp triage decision without existing triage result''
       (DbNotFound ''triage_result'' job))
     else tx_return ())"

text \<open>What one attempt of a triage commit concluded.\<close>

datatype triage_attempt = TriageDone bool | TriageReembed embedding_profile

definition novel_txn :: "env \<Rightarrow> commit_ids \<Rightarrow> uuid \<Rightarrow> novel_decision \<Rightarrow> novel_embedding
    \<Rightarrow> new_decision list \<Rightarrow> task \<Rightarrow> nat \<Rightarrow> uuid \<Rightarrow> agent_thread \<Rightarrow> stage_terminal
    \<Rightarrow> triage_attempt ending stage_tx" where
  "novel_txn e ids project d emb decisions task batch_index tok thread terminal =
     tx_bind (commit_novel e ids (tk_job_id task) project batch_index d emb) (\<lambda>out.
     case out of
       Reembed active \<Rightarrow> tx_return (Rollback (TriageReembed active))
     | NovelCommitted \<Rightarrow>
         tx_bind (finalise_triage e ids decisions task tok thread terminal) (\<lambda>fired.
         tx_return (Commit (TriageDone fired))))"

definition max_reembed_retries :: nat where
  "max_reembed_retries = 3"

text \<open>The attempts. Other transactions may run between two attempts (\<open>others\<close>),
  which is how the active profile can flip again; \<open>reembed\<close> is the gateway.\<close>

fun novel_loop :: "nat \<Rightarrow> (nat \<Rightarrow> db \<Rightarrow> db) \<Rightarrow> (embedding_profile \<Rightarrow> stage_error + (vector \<times> vector list))
    \<Rightarrow> (novel_embedding \<Rightarrow> triage_attempt ending stage_tx) \<Rightarrow> novel_embedding \<Rightarrow> db
    \<Rightarrow> (stage_error + bool) \<times> db" where
  "novel_loop remaining others reembed txn emb s =
     (case run_txn (txn emb) s of
        (Inl err, s') \<Rightarrow> (Inl err, s')
      | (Inr (TriageDone fired), s') \<Rightarrow> (Inr fired, s')
      | (Inr (TriageReembed active), s') \<Rightarrow>
          (case remaining of
             0 \<Rightarrow> (Inl (Provider ''re-embedding against the flipped active profile''), s')
           | Suc r \<Rightarrow>
               (case reembed active of
                  Inl err \<Rightarrow> (Inl err, s')
                | Inr (item, tags) \<Rightarrow>
                    novel_loop r others reembed txn
                      \<lparr>ne_vector = item, ne_model = ep_model active, ne_profile_id = ep_id active,
                       ne_tag_vectors = tags\<rparr> (others r s'))))"

datatype triage_decision =
    Novel novel_decision novel_embedding
  | Duplicate new_observation
  | TriageNoOp

definition duplicate_txn :: "env \<Rightarrow> commit_ids \<Rightarrow> new_observation \<Rightarrow> new_decision list \<Rightarrow> task \<Rightarrow> nat
    \<Rightarrow> uuid \<Rightarrow> agent_thread \<Rightarrow> stage_terminal \<Rightarrow> bool ending stage_tx" where
  "duplicate_txn e ids n decisions task batch_index tok thread terminal =
     tx_then (commit_duplicate e ids (tk_job_id task) batch_index n)
    (tx_bind (finalise_triage e ids decisions task tok thread terminal) (\<lambda>fired. tx_return (Commit fired)))"

definition triage_noop_txn :: "env \<Rightarrow> commit_ids \<Rightarrow> new_decision list \<Rightarrow> task \<Rightarrow> nat \<Rightarrow> uuid
    \<Rightarrow> agent_thread \<Rightarrow> stage_terminal \<Rightarrow> bool ending stage_tx" where
  "triage_noop_txn e ids decisions task batch_index tok thread terminal =
     tx_then (validate_triage_noop (tk_job_id task) batch_index)
    (tx_bind (finalise_triage e ids decisions task tok thread terminal) (\<lambda>fired. tx_return (Commit fired)))"

text \<open>The value says whether the fan-in fired; a triage task always has its batch
  index (\<open>expect\<close> otherwise).\<close>

definition commit_triage :: "env \<Rightarrow> commit_ids \<Rightarrow> (nat \<Rightarrow> db \<Rightarrow> db)
    \<Rightarrow> (embedding_profile \<Rightarrow> string \<Rightarrow> string list \<Rightarrow> stage_error + (vector \<times> vector list)) \<Rightarrow> task \<Rightarrow> uuid
    \<Rightarrow> triage_decision \<Rightarrow> new_decision list \<Rightarrow> agent_thread \<Rightarrow> stage_terminal
    \<Rightarrow> db \<Rightarrow> (stage_error + bool) \<times> db" where
  "commit_triage e ids others reembed task project decision decisions thread terminal s =
     (case (tk_batch_index task, tk_claim_token task) of
        (None, _) \<Rightarrow> (Inl (StageDatabase ''triage'' ''batch index'' (DbPanic ''triage task without batch_index'')), s)
      | (_, None) \<Rightarrow> (Inl OwnershipLostError, s)
      | (Some b, Some tok) \<Rightarrow>
          (case decision of
             Novel d emb \<Rightarrow>
               novel_loop max_reembed_retries others (\<lambda>p. reembed p (nki_content (nv_item d)) (nv_new_tags d))
                 (\<lambda>m. novel_txn e ids project d m decisions task b tok thread terminal) emb s
           | Duplicate n \<Rightarrow> run_txn (duplicate_txn e ids n decisions task b tok thread terminal) s
           | TriageNoOp \<Rightarrow> run_txn (triage_noop_txn e ids decisions task b tok thread terminal) s))"

section \<open>Relation\<close>

text \<open>Relations with a missing endpoint are dropped.\<close>

definition validate_relation_endpoints :: "new_relation list \<Rightarrow> db \<Rightarrow> new_relation list" where
  "validate_relation_endpoints relations s =
     (let existing = item_find_existing_ids
            (concat (map (\<lambda>r. [nrl_source_id r, nrl_target_id r]) relations)) s in
      filter (\<lambda>r. nrl_source_id r \<in> set existing \<and> nrl_target_id r \<in> set existing) relations)"

definition relate_txn :: "env \<Rightarrow> commit_ids \<Rightarrow> task \<Rightarrow> uuid \<Rightarrow> new_relation list \<Rightarrow> uuid \<Rightarrow> job_outcome
    \<Rightarrow> agent_thread \<Rightarrow> stage_terminal \<Rightarrow> bool stage_tx" where
  "relate_txn e ids task tok relations batch out thread terminal =
     (let stage = ''relation'' in
      tx_bind (st_db stage ''setting committed batch ID''
         (job_set_committed_batch_id e (tk_job_id task) batch)) (\<lambda>won.
      if won = None then
        tx_then (complete_stage_task e stage task tok)
       (tx_then (finish_thread e (ci_record ids) stage thread terminal) (tx_return False))
      else
        tx_bind (tx_read (validate_relation_endpoints relations)) (\<lambda>valid.
        tx_then (if valid = [] then tx_return []
           else st_db stage ''batch-inserting relations'' (relation_batch_insert e (ci_many ids) valid))
       (tx_bind (st_db stage ''transitioning job to completed''
           (job_update_status_if_live e (tk_job_id task) (completed_transition e out))) (\<lambda>moved.
        tx_then (complete_stage_task e stage task tok)
       (tx_then (finish_thread e (ci_record ids) stage thread terminal)
        (tx_return (moved \<noteq> None))))))))"

datatype relation_decision = Relate "new_relation list" uuid job_outcome | RelationNoOp

text \<open>The value says whether the job's completion is published.\<close>

definition commit_relation_txn :: "env \<Rightarrow> commit_ids \<Rightarrow> task \<Rightarrow> uuid \<Rightarrow> relation_decision \<Rightarrow> agent_thread
    \<Rightarrow> stage_terminal \<Rightarrow> bool ending stage_tx" where
  "commit_relation_txn e ids task tok decision thread terminal =
     (case decision of
        Relate relations batch out \<Rightarrow>
          tx_bind (relate_txn e ids task tok relations batch out thread terminal) (\<lambda>won.
          tx_return (Commit won))
      | RelationNoOp \<Rightarrow>
          tx_then (complete_stage_task e ''relation'' task tok)
         (tx_then (finish_thread e (ci_record ids) ''relation'' thread terminal)
          (tx_return (Commit False))))"

definition commit_relation :: "env \<Rightarrow> commit_ids \<Rightarrow> task \<Rightarrow> relation_decision \<Rightarrow> agent_thread
    \<Rightarrow> stage_terminal \<Rightarrow> db \<Rightarrow> (stage_error + bool) \<times> db" where
  "commit_relation e ids task decision thread terminal s =
     (case tk_claim_token task of
        None \<Rightarrow> (Inl OwnershipLostError, s)
      | Some tok \<Rightarrow> run_txn (commit_relation_txn e ids task tok decision thread terminal) s)"

section \<open>The stage commits are calm\<close>

lemma keeps_calm_finish_thread: "keeps calm (finish_thread e rid stage th t)"
  unfolding finish_thread_def
  by (cases t) (auto intro!: keeps_calm_rules keeps_calm_turn_commits split: option.splits)

lemma keeps_calm_complete_stage_task: "keeps calm (complete_stage_task e stage t tok)"
  unfolding complete_stage_task_def by (intro keeps_calm_rules keeps_calm_st_db)

lemmas keeps_calm_commit_rules = keeps_calm_rules keeps_calm_st_db keeps_calm_graph_statements
  keeps_calm_finish_thread keeps_calm_complete_stage_task keeps_calm_coupling

lemma keeps_calm_commit_extraction: "keeps calm (commit_extraction_txn e ids t tok c th term)"
  unfolding commit_extraction_txn_def Let_def by (intro keeps_calm_commit_rules)

lemma keeps_calm_finalise_triage: "keeps calm (finalise_triage e ids ds t tok th term)"
  unfolding finalise_triage_def Let_def by (intro keeps_calm_commit_rules)

lemma keeps_calm_insert_suggested: "keeps calm (insert_suggested i it p r)"
  unfolding insert_suggested_def by (intro keeps_calm_commit_rules)

lemma keeps_calm_commit_novel: "keeps calm (commit_novel e ids j p b d m)"
  unfolding commit_novel_def Let_def by (intro keeps_calm_commit_rules keeps_calm_insert_suggested)

lemma keeps_calm_triage_txns:
  "keeps calm (novel_txn e ids p d m ds t b tok th term)"
  "keeps calm (duplicate_txn e ids n ds t b tok th term)"
  "keeps calm (triage_noop_txn e ids ds t b tok th term)"
proof -
  have "keeps calm (case out of
       Reembed active \<Rightarrow> tx_return (Rollback (TriageReembed active))
     | NovelCommitted \<Rightarrow>
         tx_bind (finalise_triage e ids ds t tok th term) (\<lambda>fired.
         tx_return (Commit (TriageDone fired))))" for out
    by (cases out) (auto intro!: keeps_calm_commit_rules keeps_calm_finalise_triage)
  then show "keeps calm (novel_txn e ids p d m ds t b tok th term)"
    unfolding novel_txn_def by (intro calm.keeps_bind keeps_calm_commit_novel)
  show "keeps calm (duplicate_txn e ids n ds t b tok th term)"
    "keeps calm (triage_noop_txn e ids ds t b tok th term)"
    unfolding duplicate_txn_def triage_noop_txn_def commit_duplicate_def validate_triage_noop_def
    by (intro keeps_calm_commit_rules keeps_calm_finalise_triage)+
qed

lemma keeps_calm_commit_relation: "keeps calm (commit_relation_txn e ids t tok d th term)"
  unfolding commit_relation_txn_def relate_txn_def Let_def
  by (cases d) (auto intro!: keeps_calm_commit_rules)

end
