(* ===== verification/Orders.thy ===== *)
theory Orders
  imports Managed Sweep DriverLoop StageCommit
begin

text \<open>
  Orders between stores that the base statements keep. A property of the store
  that no statement can break need only be checked on the statements of the
  repositories: every transaction of the runtime and the worker then keeps it,
  by the lemmas of the locales here. \<open>protocol_order\<close> asks for the statements
  that leave the coupling of threads and tasks alone, \<open>graph_order\<close> adds the
  writes of a novel item, \<open>whole_order\<close> the suspensions and wakes.
\<close>

locale protocol_order = store_order R for R :: "db \<Rightarrow> db \<Rightarrow> bool" +
  assumes task_statements:
      "keeps R (task_heartbeat e i tok)"
      "keeps R (task_reset_retry_count e i tok)"
      "keeps R (task_complete e i tok)"
      "keeps R (task_fail e i tok m av k msg)"
      "keeps R (task_requeue_claimed e i tok n av k msg)"
      "keeps R (task_reclaim_requeue e i n b k msg)"
      "keeps R (task_dead_letter_claimed e i tok k msg)"
    and task_inserts:
      "keeps R (task_insert e i nt)"
      "keeps R (task_upsert e i nt)"
    and task_reclaims: "keeps R (task_reclaim_stale e locked timeout m limit k msg flat)"
    and driver_statements:
      "keeps R (driver_complete e i tok)"
      "keeps R (driver_requeue e i tok a av msg)"
      "keeps R (driver_dead_letter e i tok msg)"
      "keeps R (driver_heartbeat e i tok)"
      "keeps R (driver_dispose_unclaimed e i msg)"
      "keeps R (driver_insert e i nd)"
    and thread_statements:
      "keeps R (thread_adopt_managed e i tok)"
      "keeps R (thread_disarm_wake e i)"
      "keeps R (thread_record_cancel_intent e i txt)"
      "keeps R (thread_increment_recovery_attempts e i)"
      "keeps R (thread_cascade_cancel_to_children e i txt)"
      "keeps R (thread_cascade_cancel_to_orphans e locked limit txt)"
      "keeps R (thread_set_execution_spend e i spend)"
    and thread_moves:
      "keeps R (thread_insert e i nthd)"
      "keeps R (thread_mark_running e i ThreadQueued)"
      "keeps R (thread_complete e i t ThreadRunning)"
      "keeps R (thread_complete e i t ThreadQueued)"
    and job_statements:
      "keeps R (job_update_status_if_live e i jt)"
      "keeps R (job_update_batch_size e i n m)"
      "keeps R (job_set_extraction_identity e i ident)"
      "keeps R (job_set_committed_batch_id e i j)"
      "keeps R (job_fail_stale_dead_lettered e)"
    and job_inserts:
      "keeps R (job_insert e i nj)"
      "keeps R (job_insert_or_resolve e i nj)"
    and record_statement: "keeps R (record_append e i nr)"
    and graph_statements:
      "keeps R (extraction_result_insert e i ne)"
      "keeps R (triage_result_insert e i ntr)"
      "keeps R (observation_insert e i no)"
      "keeps R (relation_batch_insert e ids rs)"
      "keeps R (decision_batch_insert e ids ds)"
      "keeps R (reference_insert i nrf)"
      "keeps R (tag_batch_upsert e tags)"
      "keeps R (tag_increment_usage e tags)"
      "keeps R (tag_embedding_batch_upsert tms)"
begin

lemma keeps_task_find_by_id: "keeps R (task_find_by_id i)"
  by (auto simp: keeps_def task_find_by_id_def order_refl split: option.splits)

lemma keeps_rt_db: "keeps R m \<Longrightarrow> keeps R (rt_db ctx m)"
  by (simp add: rt_db_def keeps_map_err)

lemma keeps_st_db: "keeps R m \<Longrightarrow> keeps R (st_db stage ctx m)"
  by (simp add: st_db_def keeps_map_err)

lemma keeps_append_tail: "keeps R (append_tail e rid th k a c u ctx)"
  unfolding append_tail_def by (intro keeps_intros keeps_rt_db record_statement)

lemma keeps_insert_guard: "keeps R (insert_guard ok ctx uniques)"
  by (auto simp: keeps_def insert_guard_Inr order_refl)

lemma keeps_job_find_by_id: "keeps R (job_find_by_id i)"
  by (auto simp: keeps_def job_find_by_id_def order_refl split: option.splits)

lemma keeps_triage_result_find: "keeps R (triage_result_find j b)"
  unfolding triage_result_find_def by (intro keeps_intros)

lemmas protocol_rules = keeps_intros keeps_rt_db keeps_st_db keeps_append_tail keeps_task_find_by_id
  keeps_insert_guard keeps_triage_result_find task_statements task_inserts task_reclaims
  driver_statements thread_statements thread_moves job_statements job_inserts record_statement
  graph_statements keeps_job_find_by_id

lemma keeps_turn_parts:
  "keeps R (claim_require c)" "keeps R (finish_running e i t ctx)"
  "keeps R (reset_progress e deps)" "keeps R (guard_claim deps)"
  unfolding claim_require_def finish_running_def reset_progress_def guard_claim_def
  by (intro protocol_rules)+

lemma keeps_commit_assistant_record: "keeps R (commit_assistant_record e rid th c j u)"
  unfolding commit_assistant_record_def by (intro protocol_rules keeps_turn_parts)

lemma keeps_turn_commits:
  "keeps R (begin_turn_txn e rid th c j)"
  "keeps R (commit_one_shot_terminal e rid th r)"
  "keeps R (commit_noop_terminal e th)"
  "keeps R (commit_loop_terminal e rid th a)"
  "keeps R (assistant_turn_txn e rid deps r)"
  "keeps R (model_call_txn e rid th c r)"
  "keeps R (artifact_record_txn e rid th c j)"
  "keeps R (drift_input_txn e rid deps d)"
  unfolding begin_turn_txn_def commit_one_shot_terminal_def commit_noop_terminal_def
    commit_loop_terminal_def assistant_turn_txn_def model_call_txn_def artifact_record_txn_def
    drift_input_txn_def
  by (intro protocol_rules keeps_turn_parts keeps_commit_assistant_record)+

lemma keeps_result_record: "keeps R (result_record_txn e rid deps q i c)"
proof -
  have "keeps R (case err of DbUniqueViolation x y \<Rightarrow> tx_return (Rollback FenceConflict)
      | _ \<Rightarrow> tx_fail (Database ''committing a tool result'' err))" for err
    by (cases err) (simp_all add: keeps_return keeps_fail)
  then show ?thesis
    unfolding result_record_txn_def
    by (intro keeps_match protocol_rules keeps_turn_parts) auto
qed

lemma keeps_store:
  "keeps R (create_stage_txn e i job task tok b)" "keeps R (mark_running_txn e th task tok)"
proof -
  have "keeps R (case err of DbUniqueViolation x y \<Rightarrow> tx_return (Rollback None)
      | _ \<Rightarrow> tx_fail (Database ''creating the thread'' err))" for err
    by (cases err) (simp_all add: keeps_return keeps_fail)
  then show "keeps R (create_stage_txn e i job task tok b)"
    unfolding create_stage_txn_def stage_holds_claim_def by (intro protocol_rules) auto
  show "keeps R (mark_running_txn e th task tok)"
    unfolding mark_running_txn_def stage_holds_claim_def by (intro protocol_rules)
qed

lemma keeps_coupling:
  "keeps R (triage_fan_in e n j t)" "keeps R (couple_dead_lettered_task e n tk msg)"
  unfolding couple_dead_lettered_task_def triage_fan_in_def by (intro protocol_rules)+

lemma keeps_failure:
  "keeps R (apply_dead_letter e t th tok out msg)"
  "keeps R (couple_failure e n t dead msg)"
  unfolding apply_dead_letter_def Let_def couple_failure_def
  by (intro protocol_rules keeps_coupling)+

lemma keeps_apply_inline: "keeps R (apply_inline_disposition e t th tok d out msg)"
  unfolding apply_inline_disposition_def
  by (cases d) (auto intro!: protocol_rules keeps_failure)

lemma keeps_persist_failure: "keeps R (persist_failure_txn e n cfg ex t tok out msg)"
  unfolding persist_failure_txn_def
  by (intro protocol_rules keeps_apply_inline keeps_failure)

lemma keeps_run_child: "keeps R (run_child_txn e t tok c)"
  unfolding run_child_txn_def by (intro protocol_rules)

lemma keeps_finish_thread: "keeps R (finish_thread e rid stage th t)"
  unfolding finish_thread_def
  by (cases t) (auto intro!: protocol_rules keeps_turn_commits split: option.splits)

lemma keeps_complete_stage_task: "keeps R (complete_stage_task e stage t tok)"
  unfolding complete_stage_task_def by (intro protocol_rules)

lemmas protocol_commit_rules = protocol_rules keeps_finish_thread
  keeps_complete_stage_task keeps_coupling

lemma keeps_commit_extraction: "keeps R (commit_extraction_txn e ids t tok c th term)"
  unfolding commit_extraction_txn_def Let_def by (intro protocol_commit_rules)

lemma keeps_finalise_triage: "keeps R (finalise_triage e ids ds t tok th term)"
  unfolding finalise_triage_def Let_def by (intro protocol_commit_rules)

lemma keeps_insert_suggested: "keeps R (insert_suggested i it p r)"
  unfolding insert_suggested_def by (intro protocol_commit_rules)

text \<open>The novel transaction, given its domain effect.\<close>

lemma keeps_novel_txn_of:
  assumes "\<And>j q b d m. keeps R (commit_novel e ids j q b d m)"
  shows "keeps R (novel_txn e ids p d m ds t b tok th term)"
proof -
  have "keeps R (case out of
       Reembed active \<Rightarrow> tx_return (Rollback (TriageReembed active))
     | NovelCommitted \<Rightarrow>
         tx_bind (finalise_triage e ids ds t tok th term) (\<lambda>fired.
         tx_return (Commit (TriageDone fired))))" for out
    by (cases out) (auto intro!: protocol_commit_rules keeps_finalise_triage)
  then show ?thesis
    unfolding novel_txn_def using assms by (intro keeps_bind)
qed

lemma keeps_triage_txns:
  "keeps R (duplicate_txn e ids n ds t b tok th term)"
  "keeps R (triage_noop_txn e ids ds t b tok th term)"
  unfolding duplicate_txn_def triage_noop_txn_def commit_duplicate_def validate_triage_noop_def
  by (intro protocol_commit_rules keeps_finalise_triage)+

lemma keeps_commit_relation: "keeps R (commit_relation_txn e ids t tok d th term)"
  unfolding commit_relation_txn_def relate_txn_def Let_def
  by (cases d) (auto intro!: protocol_commit_rules)

lemma keeps_managed:
  "keeps R (opening_input_txn e rid th k tok j)"
  "keeps R (managed_terminal_txn e th c d)"
  "keeps R (clear_managed_wake_txn e th c)"
  unfolding opening_input_txn_def managed_terminal_txn_def clear_managed_wake_txn_def
  by (intro protocol_rules keeps_turn_parts)+

lemma keeps_adopt_or_create: "keeps R (adopt_or_create_managed e i k tok)"
proof -
  have *: "keeps R (case err of
          DbUniqueViolation _ _ \<Rightarrow>
            tx_bind (rt_db ''re-adopting after a create race'' (thread_adopt_managed e k tok)) (\<lambda>a.
            case a of
              None \<Rightarrow> tx_fail (Database ''the run-key uniqueness held but no thread bears the key''
                (DbNotFound ''managed thread'' k))
            | Some th \<Rightarrow> tx_return th)
        | _ \<Rightarrow> tx_fail (Database ''creating the managed thread'' err))" for err
    by (cases err) (auto intro!: protocol_rules)
  have "keeps R (create_managed_thread e i k tok)"
    unfolding create_managed_thread_def
    by (intro keeps_match thread_moves keeps_return *)
  then show ?thesis
    unfolding adopt_or_create_managed_def by (intro protocol_rules)
qed

end

locale graph_order = protocol_order +
  assumes item_writes:
      "keeps R (item_insert e i nki)"
      "keeps R (embedding_insert e i nem)"
begin

lemma keeps_commit_novel: "keeps R (commit_novel e ids j p b d m)"
  unfolding commit_novel_def Let_def
  by (intro protocol_commit_rules item_writes keeps_insert_suggested)

lemma keeps_novel_txn: "keeps R (novel_txn e ids p d m ds t b tok th term)"
  by (intro keeps_novel_txn_of keeps_commit_novel)

end

locale whole_order = protocol_order +
  assumes suspension_statements:
      "keeps R (task_block e i tok)"
      "keeps R (task_requeue_from_blocked e i)"
      "keeps R (task_dead_letter_unclaimed e i k msg)"
      "keeps R (thread_suspend e i cause wake)"
      "keeps R (thread_mark_running e i ThreadSuspended)"
    and thread_ends: "keeps R (thread_complete e i t st)"
begin

lemmas whole_rules = protocol_rules suspension_statements thread_ends

lemma keeps_suspends:
  "keeps R (suspend_stage_txn e rid th t tok c w)"
  "keeps R (resolve_stage_txn e rid i r)"
  "keeps R (cancel_thread_in_txn e rid i)"
  "keeps R (suspend_with_child_txn e lids p t tok q call l inp)"
  "keeps R (suspend_managed_txn e rid th dc c w)"
  unfolding suspend_stage_txn_def resolve_stage_txn_def cancel_thread_in_txn_def
    suspend_with_child_txn_def suspend_managed_txn_def Let_def
  by (intro whole_rules keeps_turn_parts)+

lemma keeps_hand_back: "keeps R (hand_back e rid p r)"
  unfolding hand_back_def by (intro whole_rules)

lemma keeps_finish_child:
  "keeps R (finish_child_status e c t)" "keeps R (finish_child e rid c r t)"
  unfolding finish_child_def finish_child_status_def
  by (intro whole_rules keeps_turn_parts)+

lemma keeps_child_terminals:
  "keeps R (child_terminal_txn e tids c d tok r p)"
  "keeps R (deferred_death_txn e rid c d tok p msg)"
  unfolding child_terminal_txn_def deferred_death_txn_def complete_driver_task_def
  by (intro whole_rules keeps_hand_back keeps_finish_child)+

lemma keeps_dispose_driving: "keeps R (dispose_cancelled_driving_task e th)"
  unfolding dispose_cancelled_driving_task_def by (intro whole_rules)

lemma keeps_cancel_thread: "keeps R (cancel_thread_txn e rid n th)"
proof -
  have "keeps R (case d of
        CoupleStage task \<Rightarrow>
          tx_bind (rt_db ''coupling the cancelled job''
             (couple_dead_lettered_task e n task ''thread cancelled'')) (\<lambda>n.
          tx_return (Commit (ThreadCancelledWith n)))
      | _ \<Rightarrow> tx_return (Commit (ThreadCancelledWith None)))" for d
    by (cases d) (auto intro!: whole_rules keeps_coupling)
  then show ?thesis
    unfolding cancel_thread_txn_def by (intro whole_rules keeps_dispose_driving keeps_suspends)
qed

lemma keeps_dispose_thread: "keeps R (dispose_thread_txn e rid n stage t th tok)"
  unfolding dispose_thread_txn_def cancel_at_claim_def
  by (intro whole_rules keeps_coupling keeps_suspends)

lemma keeps_exhaust_thread: "keeps R (exhaust_thread e n t th tok k msg)"
  unfolding exhaust_thread_def by (intro whole_rules keeps_coupling)

lemma keeps_reclaim_one: "keeps R (reclaim_one_txn e n cfg ex l k msg flat)"
proof -
  have "keeps R (case d of
        Requeue retry_count \<Rightarrow>
          tx_then (task_reclaim_requeue e (tk_id task) retry_count
             (case flat of Some f \<Rightarrow> f | None \<Rightarrow> saturating_pow2 32 (retry_count - 1)) k msg)
          (tx_return (Commit (Some (Requeue retry_count))))
      | RecoveryCycle retry_count recovery_attempts \<Rightarrow>
          tx_then (thread_increment_recovery_attempts e (th_id thread))
         (tx_then (task_reclaim_requeue e (tk_id task) retry_count
             (recovery_backoff_seconds recovery_attempts) k msg)
          (tx_return (Commit (Some (RecoveryCycle retry_count recovery_attempts)))))
      | ExhaustThread \<Rightarrow>
          tx_then (exhaust_thread e n task thread tok k msg)
          (tx_return (Commit (Some ExhaustThread)))
      | CompleteTask \<Rightarrow> tx_return (Rollback None)
      | DeadLetterTask \<Rightarrow> tx_return (Rollback None))" for d task thread tok
    by (cases d) (auto intro!: whole_rules keeps_exhaust_thread)
  then show ?thesis
    unfolding reclaim_one_txn_def by (intro whole_rules)
qed

end

end
