(* ===== verification/Lockstep.thy ===== *)
theory Lockstep
  imports Orders
begin

text \<open>
  A stage thread and the task that drives it move in lock-step: the thread is
  suspended exactly while its task is blocked. Most transactions touch
  neither side; the few that do (suspend, resolve, hand-back, cancel) move
  both, and this theory shows it for each of them. It is why a woken thread
  always finds its task blocked, and why a claimed task never finds its
  thread suspended.
\<close>

definition blocked_tasks :: "db \<Rightarrow> uuid set" where
  "blocked_tasks s = set (map tk_id (filter (\<lambda>t. tk_status t = TaskBlocked) (db_tasks s)))"

definition suspended_tasks :: "db \<Rightarrow> uuid set" where
  "suspended_tasks s =
     set (some_keys th_stage_task_id (filter (\<lambda>th. th_status th = ThreadSuspended) (db_threads s)))"

definition coupled :: "db \<Rightarrow> bool" where
  "coupled s \<longleftrightarrow> blocked_tasks s = suspended_tasks s"

definition neutral :: "db \<Rightarrow> db \<Rightarrow> bool" where
  "neutral s s' \<longleftrightarrow> blocked_tasks s' = blocked_tasks s \<and> suspended_tasks s' = suspended_tasks s"

text \<open>The task a thread row drives, as a set of at most one.\<close>

definition stage_of :: "uuid \<Rightarrow> db \<Rightarrow> uuid set" where
  "stage_of i s = set (some_keys th_stage_task_id (filter (\<lambda>th. th_id th = i) (db_threads s)))"

lemma blocked_tasks_iff:
  "i \<in> blocked_tasks s \<longleftrightarrow> (\<exists>t \<in> set (db_tasks s). tk_id t = i \<and> tk_status t = TaskBlocked)"
  by (auto simp: blocked_tasks_def)

lemma suspended_tasks_iff:
  "i \<in> suspended_tasks s \<longleftrightarrow>
     (\<exists>th \<in> set (db_threads s). th_stage_task_id th = Some i \<and> th_status th = ThreadSuspended)"
  by (auto simp: suspended_tasks_def set_some_keys)

lemma stage_of_iff:
  "i \<in> stage_of j s \<longleftrightarrow> (\<exists>th \<in> set (db_threads s). th_id th = j \<and> th_stage_task_id th = Some i)"
  by (auto simp: stage_of_def set_some_keys)

interpretation neutral: store_order neutral
  by unfold_locales (auto simp: neutral_def)

lemma neutral_coupled: "neutral s s' \<Longrightarrow> coupled s \<Longrightarrow> coupled s'"
  by (simp add: neutral_def coupled_def)

lemma keeps_neutral_coupled: "keeps neutral m \<Longrightarrow> m s = Inr (a, s') \<Longrightarrow> coupled s \<Longrightarrow> coupled s'"
  by (auto simp: keeps_def neutral_def coupled_def)

lemma coupled_by_tables:
  "db_tasks s' = db_tasks s \<Longrightarrow> db_threads s' = db_threads s \<Longrightarrow> neutral s s'"
  by (simp add: neutral_def blocked_tasks_def suspended_tasks_def)

section \<open>Neutral statements\<close>

lemma keeps_neutral_update_tasks:
  assumes "\<And>t. P t \<Longrightarrow> tk_id (f t) = tk_id t \<and> (tk_status (f t) = TaskBlocked \<longleftrightarrow> tk_status t = TaskBlocked)"
  shows "keeps neutral (update_tasks P f)"
proof -
  have "map tk_id (filter (\<lambda>t. tk_status t = TaskBlocked) (sql_update P f rows)) =
      map tk_id (filter (\<lambda>t. tk_status t = TaskBlocked) rows)" for rows
    using assms by (induction rows) (auto simp: sql_update_Cons)
  then show ?thesis
    by (simp add: keeps_def update_tasks_def neutral_def blocked_tasks_def suspended_tasks_def del: set_map)
qed

lemma keeps_neutral_update_threads:
  assumes "\<And>th. P th \<Longrightarrow> th_stage_task_id (f th) = th_stage_task_id th \<and>
    (th_status (f th) = ThreadSuspended \<longleftrightarrow> th_status th = ThreadSuspended)"
  shows "keeps neutral (update_threads P f)"
proof -
  have "some_keys th_stage_task_id (filter (\<lambda>th. th_status th = ThreadSuspended) (sql_update P f rows)) =
      some_keys th_stage_task_id (filter (\<lambda>th. th_status th = ThreadSuspended) rows)" for rows
    using assms by (induction rows) (auto simp: sql_update_Cons some_keys_def)
  then show ?thesis
    by (simp add: keeps_def update_threads_def neutral_def blocked_tasks_def suspended_tasks_def)
qed

lemma keeps_neutral_update_other:
  "keeps neutral (update_jobs P f)" "keeps neutral (update_drivers Q g)"
  by (auto simp: keeps_def update_jobs_def update_drivers_def intro: coupled_by_tables)

lemmas keeps_neutral_update = keeps_neutral_update_tasks keeps_neutral_update_threads
  keeps_neutral_update_other

lemma keeps_neutral_task_statements:
  "keeps neutral (task_heartbeat e i tok)"
  "keeps neutral (task_reset_retry_count e i tok)"
  "keeps neutral (task_complete e i tok)"
  "keeps neutral (task_fail e i tok m av k msg)"
  "keeps neutral (task_requeue_claimed e i tok r av k msg)"
  "keeps neutral (task_reclaim_requeue e i r b k msg)"
  "keeps neutral (task_dead_letter_claimed e i tok k msg)"
  unfolding task_statement_defs
  by (intro neutral.keeps_intros keeps_neutral_update; simp add: holds_task_def)+

lemma keeps_neutral_driver_statements:
  "keeps neutral (driver_complete e i tok)"
  "keeps neutral (driver_requeue e i tok a av msg)"
  "keeps neutral (driver_dead_letter e i tok msg)"
  "keeps neutral (driver_heartbeat e i tok)"
  "keeps neutral (driver_dispose_unclaimed e i msg)"
  unfolding driver_statement_defs
  by (intro neutral.keeps_intros keeps_neutral_update)+

lemma keeps_neutral_thread_statements:
  "keeps neutral (thread_adopt_managed e k tok)"
  "keeps neutral (thread_disarm_wake e i)"
  "keeps neutral (thread_record_cancel_intent e i by)"
  "keeps neutral (thread_increment_recovery_attempts e i)"
  "keeps neutral (thread_cascade_cancel_to_children e i by)"
  "keeps neutral (thread_set_execution_spend e i spend)"
  "keeps neutral (thread_mark_running e i ThreadQueued)"
  "keeps neutral (thread_complete e i t ThreadRunning)"
  "keeps neutral (thread_complete e i t ThreadQueued)"
  unfolding thread_statement_defs
  by (intro neutral.keeps_intros keeps_neutral_update; cases t; simp add: cancel_intent_row_def; fail)+

lemma keeps_neutral_cascade_orphans: "keeps neutral (thread_cascade_cancel_to_orphans e locked n by)"
proof -
  have "keeps neutral (update_threads P (cancel_intent_row e by))" for P
    by (intro keeps_neutral_update) (simp add: cancel_intent_row_def)
  then show ?thesis
    by (simp add: keeps_def thread_cascade_cancel_to_orphans_def Let_def)
qed


text \<open>Statements that leave both tables alone, or only append queued rows.\<close>

definition same_rows :: "db \<Rightarrow> db \<Rightarrow> bool" where
  "same_rows s s' \<longleftrightarrow> db_tasks s' = db_tasks s \<and> db_threads s' = db_threads s"

interpretation same_rows: store_order same_rows
  by unfold_locales (auto simp: same_rows_def)

lemma keeps_same_rows_neutral: "keeps same_rows m \<Longrightarrow> keeps neutral m"
  by (auto simp: keeps_def same_rows_def intro: coupled_by_tables)

lemma keeps_neutral_job_statements:
  "keeps neutral (job_update_status_if_live e i jt)"
  "keeps neutral (job_find_by_id i)"
  "keeps neutral (job_update_batch_size e i n m)"
  "keeps neutral (job_set_extraction_identity e i ident)"
  "keeps neutral (job_set_committed_batch_id e i b)"
  "keeps neutral (job_fail_stale_dead_lettered e)"
  "keeps neutral (job_insert e i nj)"
  "keeps neutral (job_insert_or_resolve e i nj)"
proof -
  have upd: "keeps same_rows (update_jobs P f)" for P f
    by (simp add: keeps_def update_jobs_def same_rows_def)
  have find: "keeps same_rows (job_find_by_id j)" for j
    by (auto simp: keeps_def job_find_by_id_def same_rows_def split: option.splits)
  show "keeps neutral (job_update_batch_size e i n m)"
    unfolding job_update_batch_size_def
    by (intro keeps_same_rows_neutral same_rows.keeps_intros upd find)
  show "keeps neutral (job_update_status_if_live e i jt)" "keeps neutral (job_find_by_id i)"
    "keeps neutral (job_set_extraction_identity e i ident)"
    "keeps neutral (job_set_committed_batch_id e i b)" "keeps neutral (job_fail_stale_dead_lettered e)"
    "keeps neutral (job_insert e i nj)" "keeps neutral (job_insert_or_resolve e i nj)"
    by (rule keeps_same_rows_neutral; auto simp: keeps_def same_rows_def Let_def tx_defs
        job_update_status_if_live_def job_find_by_id_def job_set_extraction_identity_def
        job_set_committed_batch_id_def job_fail_stale_dead_lettered_def job_insert_def append_job_def
        job_insert_or_resolve_def update_jobs_def
        split: list.splits if_splits option.splits sum.splits extraction_commit_outcome.splits; fail)+
qed

lemma keeps_neutral_record_append: "keeps neutral (record_append e i nr)"
  by (auto simp: keeps_def record_append_Inr intro: coupled_by_tables)

lemma keeps_neutral_driver_insert: "keeps neutral (driver_insert e f nd)"
  by (auto simp: keeps_def driver_insert_def Let_def intro: coupled_by_tables split: if_splits)

lemma keeps_neutral_thread_insert: "keeps neutral (thread_insert e i n)"
  by (auto simp: keeps_def thread_insert_Inr neutral_def blocked_tasks_def suspended_tasks_def)

lemma keeps_neutral_task_insert: "keeps neutral (task_insert e i nt)" "keeps neutral (task_upsert e i nt)"
proof -
  have "tk_status (new_task_row e i nt) = TaskQueued" by (simp add: new_task_row_def)
  then have "neutral s (s\<lparr>db_tasks := db_tasks s @ [new_task_row e i nt]\<rparr>)" for s
    by (simp add: neutral_def blocked_tasks_def suspended_tasks_def)
  then show "keeps neutral (task_insert e i nt)" "keeps neutral (task_upsert e i nt)"
    by (auto simp: keeps_def task_insert_Inr task_upsert_Inr neutral.order_refl split: if_splits)
qed

lemma keeps_neutral_task_reclaim_stale:
  "keeps neutral (task_reclaim_stale e locked timeout m limit k msg flat)"
proof (rule keepsI)
  fix s a s' assume run: "task_reclaim_stale e locked timeout m limit k msg flat s = Inr (a, s')"
  define stale where "stale = sql_select_ordered
            (\<lambda>t. task_stale e timeout t \<and> \<not> drives_thread s t \<and> \<not> locked (tk_id t))
            tk_heartbeat_at limit (db_tasks s)"
  have "tk_status t = TaskClaimed" if "t \<in> set stale" for t
    using that set_sql_select_ordered unfolding stale_def task_stale_def by fastforce
  then have "keeps neutral (update_tasks (\<lambda>t. t \<in> set stale) (task_reclaim_row e m k msg flat))"
    by (intro keeps_neutral_update) (auto simp: task_reclaim_row_def)
  then show "neutral s s'"
    using run
    by (auto simp: task_reclaim_stale_def Let_def keeps_def tx_defs update_tasks_def
        simp flip: stale_def split: if_splits)
qed

lemma keeps_neutral_task_claim: "keeps neutral (task_claim e locked fresh limit by)"
proof (rule keepsI)
  fix s a s' assume run: "task_claim e locked fresh limit by s = Inr (a, s')"
  have "keeps neutral (update_tasks (\<lambda>t. t \<in> set (task_claimable e locked limit s))
      (\<lambda>t. task_claim_row e (fresh (tk_id t)) by t))"
    using task_claimable_mem by (intro keeps_neutral_update) fastforce
  then show "neutral s s'"
    using run by (auto simp: task_claim_def Let_def keeps_def tx_defs update_tasks_def)
qed

lemma keeps_neutral_driver_claim: "keeps neutral (driver_claim e locked fresh limit by)"
  by (auto simp: keeps_def driver_claim_def Let_def tx_defs update_drivers_def intro: coupled_by_tables)

lemma keeps_neutral_graph_statements:
  "keeps same_protocol m \<Longrightarrow> keeps neutral m"
  by (auto simp: keeps_def same_protocol_def protocol_tables_def intro: coupled_by_tables)

lemmas keeps_neutral_base = keeps_neutral_task_statements keeps_neutral_driver_statements
  keeps_neutral_thread_statements keeps_neutral_cascade_orphans keeps_neutral_job_statements
  keeps_neutral_record_append keeps_neutral_driver_insert keeps_neutral_thread_insert
  keeps_neutral_task_insert keeps_neutral_task_reclaim_stale
  keeps_same_graph_statements [THEN keeps_neutral_graph_statements]

text \<open>Every transaction that does not suspend or wake is neutral.\<close>

interpretation neutral: graph_order neutral
  by unfold_locales (rule keeps_neutral_base)+

section \<open>Statements that move one side\<close>

lemma blocked_update:
  "i \<in> blocked_tasks (s\<lparr>db_tasks := sql_update P f (db_tasks s)\<rparr>) \<longleftrightarrow>
     (\<exists>t \<in> set (db_tasks s). tk_id (if P t then f t else t) = i \<and>
       tk_status (if P t then f t else t) = TaskBlocked)"
  by (simp add: blocked_tasks_iff sql_update_bex)

lemma suspended_update:
  "i \<in> suspended_tasks (s\<lparr>db_threads := sql_update P f (db_threads s)\<rparr>) \<longleftrightarrow>
     (\<exists>th \<in> set (db_threads s). th_stage_task_id (if P th then f th else th) = Some i \<and>
       th_status (if P th then f th else th) = ThreadSuspended)"
  by (simp add: suspended_tasks_iff sql_update_bex)

text \<open>Unblocking one task's row.\<close>

lemma unblock_effect:
  assumes "\<And>t. P t \<Longrightarrow> tk_id t = i \<and> tk_status (f t) \<noteq> TaskBlocked"
    and "\<And>t. t \<in> set (db_tasks s) \<Longrightarrow> tk_id t = i \<Longrightarrow> tk_status t = TaskBlocked \<Longrightarrow> P t"
  shows "blocked_tasks (s\<lparr>db_tasks := sql_update P f (db_tasks s)\<rparr>) = blocked_tasks s - {i}"
proof (rule set_eqI)
  fix k
  have "tk_id (if P t then f t else t) = k \<and> tk_status (if P t then f t else t) = TaskBlocked \<longleftrightarrow>
      tk_id t = k \<and> tk_status t = TaskBlocked \<and> k \<noteq> i" if "t \<in> set (db_tasks s)" for t
    using assms(1) [of t] assms(2) [OF that] by (cases "P t") auto
  then show "k \<in> blocked_tasks (s\<lparr>db_tasks := sql_update P f (db_tasks s)\<rparr>) \<longleftrightarrow> k \<in> blocked_tasks s - {i}"
    unfolding blocked_update by (auto simp: blocked_tasks_iff)
qed

lemma tables_independent [simp]:
  "suspended_tasks (s\<lparr>db_tasks := ts\<rparr>) = suspended_tasks s"
  "blocked_tasks (s\<lparr>db_threads := ths\<rparr>) = blocked_tasks s"
  by (simp_all add: suspended_tasks_def blocked_tasks_def)

lemma task_block_effect:
  assumes run: "task_block e i tok s = Inr (n, s')" "n \<noteq> 0"
  shows "blocked_tasks s' = insert i (blocked_tasks s)" "suspended_tasks s' = suspended_tasks s"
    "db_threads s' = db_threads s"
proof -
  define f where "f = (\<lambda>t. (task_unlease t)\<lparr>tk_status := TaskBlocked, tk_updated_at := env_now e\<rparr>)"
  have s': "s' = s\<lparr>db_tasks := sql_update (holds_task i tok) f (db_tasks s)\<rparr>"
    and hit: "\<exists>t \<in> set (db_tasks s). holds_task i tok t"
    using run by (auto simp: task_block_def update_tasks_def f_def simp flip: sql_count_pos)
  show "blocked_tasks s' = insert i (blocked_tasks s)"
  proof (rule set_eqI)
    fix k
    have "tk_id (if holds_task i tok t then f t else t) = k \<and>
        tk_status (if holds_task i tok t then f t else t) = TaskBlocked \<longleftrightarrow>
        holds_task i tok t \<and> k = i \<or> tk_id t = k \<and> tk_status t = TaskBlocked" for t
      by (auto simp: f_def holds_task_def)
    then show "k \<in> blocked_tasks s' \<longleftrightarrow> k \<in> insert i (blocked_tasks s)"
      using hit unfolding s' blocked_update by (auto simp: blocked_tasks_iff)
  qed
  show "suspended_tasks s' = suspended_tasks s" "db_threads s' = db_threads s" by (simp_all add: s')
qed

lemma task_requeue_effect:
  assumes "task_requeue_from_blocked e i s = Inr (n, s')"
  shows "blocked_tasks s' = blocked_tasks s - {i}" "suspended_tasks s' = suspended_tasks s"
    "db_threads s' = db_threads s"
  using assms by (auto simp: task_requeue_from_blocked_def update_tasks_def intro!: unblock_effect)

lemma task_dead_letter_effect:
  assumes run: "task_dead_letter_unclaimed e i k msg s = Inr (n, s')" and ok: "db_ok s"
  shows "blocked_tasks s' = blocked_tasks s - {i}" "suspended_tasks s' = suspended_tasks s"
    "db_threads s' = db_threads s"
proof -
  have "tk_claim_token t = None \<and> tk_status t \<notin> set task_terminal_set"
    if "t \<in> set (db_tasks s)" "tk_status t = TaskBlocked" for t
    using that ok by (auto simp: db_ok_def task_ok_def task_terminal_set_iff task_status_terminal_def)
  then show "blocked_tasks s' = blocked_tasks s - {i}"
    using run unfolding task_dead_letter_unclaimed_def update_tasks_def
    by (auto intro!: unblock_effect)
  show "suspended_tasks s' = suspended_tasks s" "db_threads s' = db_threads s"
    using run by (auto simp: task_dead_letter_unclaimed_def update_tasks_def)
qed

lemma thread_row_unique:
  assumes "db_ok s" "r \<in> set (db_threads s)" "q \<in> set (db_threads s)"
  shows "th_id r = th_id q \<Longrightarrow> r = q"
    "th_stage_task_id r = Some i \<Longrightarrow> th_stage_task_id q = Some i \<Longrightarrow> r = q"
  using assms by (auto simp: db_ok_def db_unique_def dest: distinct_map_key_eq distinct_some_keys_eq)

lemma thread_suspend_effect:
  assumes "thread_suspend e j cause wake s = Inr (n, s')" "n \<noteq> 0" "db_ok s"
  shows "suspended_tasks s' = suspended_tasks s \<union> stage_of j s" "blocked_tasks s' = blocked_tasks s"
proof -
  let ?P = "\<lambda>th. th_id th = j \<and> th_status th = ThreadRunning \<and> th_cancel_requested_at th = None"
  have s': "s' = s\<lparr>db_threads := sql_update ?P (\<lambda>th. th\<lparr>th_status := ThreadSuspended,
        th_suspension := Some cause, th_wake_at := wake, th_updated_at := env_now e\<rparr>) (db_threads s)\<rparr>"
    and "\<exists>r \<in> set (db_threads s). ?P r"
    using assms(1,2) by (auto simp: thread_suspend_def update_threads_def simp flip: sql_count_pos)
  then have hit: "?P r" if "r \<in> set (db_threads s)" "th_id r = j" for r
    using thread_row_unique(1) [OF assms(3)] that by metis
  show "suspended_tasks s' = suspended_tasks s \<union> stage_of j s"
    by (intro set_eqI) (unfold s' suspended_update, use hit in \<open>auto simp: suspended_tasks_iff stage_of_iff split: if_splits\<close>)
  show "blocked_tasks s' = blocked_tasks s" by (simp add: s')
qed

lemma thread_unsuspend_effect:
  assumes upd: "update_threads (\<lambda>th. th_id th = j \<and> th_status th = from) f s = Inr (n, s')"
    and ok: "db_ok s" and cond: "from = ThreadSuspended \<or> n \<noteq> 0"
    and f: "\<And>th. th_stage_task_id (f th) = th_stage_task_id th \<and> th_status (f th) \<noteq> ThreadSuspended"
  shows "suspended_tasks s' = suspended_tasks s - stage_of j s" "blocked_tasks s' = blocked_tasks s"
proof -
  let ?P = "\<lambda>th. th_id th = j \<and> th_status th = from"
  have s': "s' = s\<lparr>db_threads := sql_update ?P f (db_threads s)\<rparr>"
    and n: "n = sql_count ?P (db_threads s)"
    using upd by (auto simp: update_threads_def)
  have hit: "?P r" if "r \<in> set (db_threads s)" "th_id r = j" "th_status r = ThreadSuspended" for r
    using cond
  proof
    assume "n \<noteq> 0"
    then obtain q where "q \<in> set (db_threads s)" "?P q" unfolding n sql_count_pos by blast
    then show ?thesis using thread_row_unique(1) [OF ok that(1)] that(2) by metis
  qed (use that in simp)
  have "i \<in> suspended_tasks s' \<longleftrightarrow> i \<in> suspended_tasks s - stage_of j s" for i
  proof
    assume "i \<in> suspended_tasks s'"
    then obtain q where q: "q \<in> set (db_threads s)" "\<not> ?P q" "th_stage_task_id q = Some i" "th_status q = ThreadSuspended"
      using f unfolding s' suspended_update by (auto split: if_splits)
    have "r \<noteq> q" if "r \<in> set (db_threads s)" "th_id r = j" for r
      using that q hit by blast
    then have "i \<notin> stage_of j s"
      using q thread_row_unique(2) [OF ok _ q(1) _ q(3)] unfolding stage_of_iff by blast
    with q show "i \<in> suspended_tasks s - stage_of j s" by (auto simp: suspended_tasks_iff)
  next
    assume "i \<in> suspended_tasks s - stage_of j s"
    then obtain q where "q \<in> set (db_threads s)" "th_id q \<noteq> j" "th_stage_task_id q = Some i" "th_status q = ThreadSuspended"
      by (auto simp: suspended_tasks_iff stage_of_iff)
    then show "i \<in> suspended_tasks s'"
      unfolding s' suspended_update by auto
  qed
  then show "suspended_tasks s' = suspended_tasks s - stage_of j s" by blast
  show "blocked_tasks s' = blocked_tasks s" by (simp add: s')
qed

lemma thread_wake_effect:
  assumes "thread_mark_running e j ThreadSuspended s = Inr (n, s')" "db_ok s"
  shows "suspended_tasks s' = suspended_tasks s - stage_of j s" "blocked_tasks s' = blocked_tasks s"
  by (rule thread_unsuspend_effect [OF assms(1) [unfolded thread_mark_running_def] assms(2)]; simp)+

lemma thread_complete_effect:
  assumes "thread_complete e j t from s = Inr (n, s')" "db_ok s" "n \<noteq> 0"
  shows "suspended_tasks s' = suspended_tasks s - stage_of j s" "blocked_tasks s' = blocked_tasks s"
proof -
  have "thread_status_of_terminal t \<noteq> ThreadSuspended" by (cases t) auto
  then show "suspended_tasks s' = suspended_tasks s - stage_of j s" "blocked_tasks s' = blocked_tasks s"
    using thread_unsuspend_effect [OF assms(1) [unfolded thread_complete_def] assms(2)] assms(3) by auto
qed


section \<open>Transactions that move both sides\<close>

lemma run_Inr:
  "rt_db ctx m s = Inr x \<longleftrightarrow> m s = Inr x"
  "st_db stage ctx m s = Inr x \<longleftrightarrow> m s = Inr x"
  "tx_map_err g n s = Inr y \<longleftrightarrow> n s = Inr y"
  by (auto simp: rt_db_def st_db_def tx_map_err_def split: sum.splits)

lemmas run_simps = run_Inr tx_simps

lemma append_tail_tables:
  assumes "append_tail e rid th k a c u ctx s = Inr (r, s')"
  shows "db_threads s' = db_threads s" "db_tasks s' = db_tasks s" "neutral s s'"
    "db_ok s \<Longrightarrow> db_ok s'"
proof -
  show "db_threads s' = db_threads s" "db_tasks s' = db_tasks s" "neutral s s'"
    using assms by (auto simp: append_tail_def run_simps record_append_Inr elim!: tx_elims
        intro: coupled_by_tables)
  show "db_ok s \<Longrightarrow> db_ok s'"
    using keepsD [OF keeps_calm_append_tail assms] by (simp add: calm_def evolves_def)
qed

lemma calm_db_ok: "keeps calm m \<Longrightarrow> m s = Inr (a, s') \<Longrightarrow> db_ok s \<Longrightarrow> db_ok s'"
  by (auto simp: keeps_def calm_def evolves_def)

lemma stage_of_row:
  assumes "db_ok s" "th \<in> set (db_threads s)"
  shows "stage_of (th_id th) s = set_option (th_stage_task_id th)"
  using thread_row_unique(1) [OF assms] assms(2) by (fastforce simp: stage_of_iff)

lemma thread_lock_Some: "thread_lock i s = Some th \<Longrightarrow> th \<in> set (db_threads s) \<and> th_id th = i"
  unfolding thread_lock_def by (rule find_Some_set)

lemma stage_of_lock: "db_ok s \<Longrightarrow> thread_lock i s = Some th \<Longrightarrow> stage_of i s = set_option (th_stage_task_id th)"
  using stage_of_row thread_lock_Some by blast

lemma coupled_minus:
  "coupled s \<Longrightarrow> blocked_tasks s' = blocked_tasks s - A \<Longrightarrow> suspended_tasks s' = suspended_tasks s - A
    \<Longrightarrow> coupled s'"
  by (simp add: coupled_def)

text \<open>A thread row a worker read earlier: the lineage it shows is still the row's.\<close>

definition snapshot_of :: "db \<Rightarrow> agent_thread \<Rightarrow> bool" where
  "snapshot_of s th \<longleftrightarrow> (\<exists>r \<in> set (db_threads s). thread_lineage r = thread_lineage th)"

lemma snapshot_stage_of:
  assumes "db_ok s" "snapshot_of s th"
  shows "stage_of (th_id th) s = set_option (th_stage_task_id th)"
  using stage_of_row [OF assms(1)] assms(2) by (fastforce simp: snapshot_of_def thread_lineage_def)

text \<open>The common part of the two suspensions: block, record, suspend.\<close>

lemma block_and_suspend:
  assumes ok: "db_ok s" and snap: "snapshot_of s th" "th_stage_task_id th = Some i"
    and block: "task_block e i tok s = Inr (n, s1)" "n \<noteq> 0"
    and tail: "append_tail e rid (th_id th) k a c u ctx s1 = Inr (r, s2)"
    and susp: "thread_suspend e (th_id th) cause wake s2 = Inr (m, s3)" "m \<noteq> 0"
  shows "blocked_tasks s3 = insert i (blocked_tasks s)" "suspended_tasks s3 = insert i (suspended_tasks s)"
proof -
  have ok1: "db_ok s1"
    by (rule calm_db_ok [OF keeps_calm_task_statements(7) block(1) ok])
  have ok2: "db_ok s2" using append_tail_tables(4) [OF tail ok1] .
  have "stage_of (th_id th) s2 = {i}"
    using snapshot_stage_of [OF ok snap(1)] snap(2) append_tail_tables(1) [OF tail] task_block_effect(3) [OF block]
    by (simp add: stage_of_def)
  then show "suspended_tasks s3 = insert i (suspended_tasks s)" "blocked_tasks s3 = insert i (blocked_tasks s)"
    using thread_suspend_effect [OF susp ok2] append_tail_tables(3) [OF tail] task_block_effect [OF block]
    by (auto simp: neutral_def)
qed

lemma suspend_stage_moves:
  assumes "suspend_stage_txn e rid th i tok cause wake s = Inr (Commit out, s')" "db_ok s"
    "snapshot_of s th" "th_stage_task_id th = Some i"
  shows "blocked_tasks s' = insert i (blocked_tasks s)" "suspended_tasks s' = insert i (suspended_tasks s)"
  using assms(1) block_and_suspend [OF assms(2-4)]
  by (auto simp: suspend_stage_txn_def run_simps elim!: tx_elims split: if_splits)

lemma resolve_stage_coupled:
  assumes run: "resolve_stage_txn e rid i j s = Inr (Commit out, s')" and ok: "db_ok s" and "coupled s"
  shows "coupled s'"
proof -
  obtain th where th: "thread_lock i s = Some th"
    using run by (auto simp: resolve_stage_txn_def run_simps elim!: tx_elims split: option.splits)
  obtain r s1 where tail: "append_tail e rid (th_id th) InputRecord None j None
      ''committing the resolution record'' s = Inr (r, s1)"
    using run th by (auto simp: resolve_stage_txn_def run_simps elim!: tx_elims)
  have cpl: "coupled s1" using append_tail_tables(3) [OF tail] neutral_coupled assms(3) by blast
  have ok1: "db_ok s1" using append_tail_tables(4) [OF tail ok] .
  have stage: "stage_of (th_id th) s1 = set_option (th_stage_task_id th)"
    using stage_of_lock [OF ok th] thread_lock_Some [OF th] append_tail_tables(1) [OF tail]
    by (simp add: stage_of_def)
  show ?thesis
  proof (cases "out = Woken")
    case True
    obtain n s2 where wake: "thread_mark_running e (th_id th) ThreadSuspended s1 = Inr (n, s2)"
      and rest: "case th_stage_task_id th of None \<Rightarrow> s' = s2
        | Some t \<Rightarrow> \<exists>m. task_requeue_from_blocked e t s2 = Inr (m, s')"
      using run th tail True by (auto simp: resolve_stage_txn_def run_simps elim!: tx_elims split: if_splits option.splits)
    show ?thesis
      using thread_wake_effect [OF wake ok1] rest stage task_requeue_effect
      by (intro coupled_minus [OF cpl, of s' "set_option (th_stage_task_id th)"])
        (auto split: option.splits)
  next
    case False
    then show ?thesis
      using run th tail cpl
      by (auto simp: resolve_stage_txn_def run_simps elim!: tx_elims split: if_splits option.splits)
  qed
qed


lemma suspend_with_child_moves:
  assumes run: "suspend_with_child_txn e ids th i tok q call l inp s = Inr (Commit out, s')" and ok: "db_ok s"
    and snap: "snapshot_of s th" "th_stage_task_id th = Some i"
  shows "blocked_tasks s' = insert i (blocked_tasks s)" "suspended_tasks s' = insert i (suspended_tasks s)"
proof -
  let ?cause = "DeferredToolResults q [call]"
  obtain n s1 r s2 m s3 where block: "task_block e i tok s = Inr (n, s1)" "n \<noteq> 0"
    and tail: "append_tail e (li_suspension_record ids) (th_id th) SuspensionRecord None
         (suspension_to_json ?cause) None ''committing the suspension record'' s1 = Inr (r, s2)"
    and susp: "thread_suspend e (th_id th) ?cause None s2 = Inr (m, s3)" "m \<noteq> 0"
    and rest: "neutral s3 s'"
    using run unfolding suspend_with_child_txn_def Let_def
    by (auto simp: run_simps elim!: tx_elims split: if_splits
        dest!: keepsD [OF keeps_neutral_thread_insert] keepsD [OF keeps_neutral_driver_insert]
          keepsD [OF keeps_neutral_record_append])
      (blast intro: neutral.order_trans)
  show "blocked_tasks s' = insert i (blocked_tasks s)" "suspended_tasks s' = insert i (suspended_tasks s)"
    using block_and_suspend [OF ok snap block tail susp] rest by (auto simp: neutral_def)
qed

lemma hand_back_coupled:
  assumes run: "hand_back e rid p res s = Inr (out, s')" and ok: "db_ok s" and "coupled s"
  shows "coupled s'"
proof (cases "out = HandedBack")
  case True
  obtain th where th: "thread_lock (pr_thread_id p) s = Some th"
    using run True by (auto simp: hand_back_def run_simps elim!: tx_elims split: option.splits)
  obtain r s1 n s2 where tail: "append_tail e rid (pr_thread_id p) ToolResult
       (Some (pr_requesting_seq p, pr_tool_call_id p)) (tool_result_to_json res) None
       ''committing the parent's hand-back result'' s = Inr (r, s1)"
    and wake: "thread_mark_running e (pr_thread_id p) ThreadSuspended s1 = Inr (n, s2)"
    and rest: "case th_stage_task_id th of None \<Rightarrow> s' = s2
      | Some t \<Rightarrow> \<exists>m. task_requeue_from_blocked e t s2 = Inr (m, s')"
    using run th True by (auto simp: hand_back_def run_simps elim!: tx_elims split: if_splits option.splits)
  have cpl: "coupled s1" using append_tail_tables(3) [OF tail] neutral_coupled assms(3) by blast
  have stage: "stage_of (pr_thread_id p) s1 = set_option (th_stage_task_id th)"
    using stage_of_lock [OF ok th] append_tail_tables(1) [OF tail] by (simp add: stage_of_def)
  show ?thesis
    using thread_wake_effect [OF wake append_tail_tables(4) [OF tail ok]] rest stage task_requeue_effect
    by (intro coupled_minus [OF cpl, of s' "set_option (th_stage_task_id th)"]) (auto split: option.splits)
next
  case False
  then show ?thesis
    using run assms(3)
    by (auto simp: hand_back_def run_simps elim!: tx_elims split: if_splits option.splits)
qed

lemma keeps_neutral_child_parts:
  "keeps neutral (complete_driver_task e d tok)" "keeps neutral (finish_child_status e c t)"
  "keeps neutral (finish_child e rid c r t)"
  unfolding complete_driver_task_def finish_child_def finish_child_status_def
  by (intro neutral.protocol_rules neutral.keeps_turn_parts)+

lemma keeps_calm_child_parts:
  "keeps calm (complete_driver_task e d tok)" "keeps calm (driver_dead_letter e d tok m)"
  unfolding complete_driver_task_def by (intro keeps_calm_rules)+

lemma child_terminal_coupled:
  assumes run: "child_terminal_txn e ids c d tok r p s = Inr (Commit out, s')" and ok: "db_ok s" and cpl: "coupled s"
  shows "coupled s'"
proof -
  obtain u s1 v s2 where parts: "complete_driver_task e d tok s = Inr (u, s1)"
      "finish_child e (ti_child_record ids) c (Some r) TermCompleted s1 = Inr (v, s2)"
    and hb: "hand_back e (ti_parent_record ids) p \<lparr>tr_output = cr_text r, tr_is_error = False\<rparr> s2 = Inr (out, s')"
    using run unfolding child_terminal_txn_def by (auto simp: run_simps elim!: tx_elims)
  have "neutral s s2" "db_ok s2"
    using keepsD [OF keeps_neutral_child_parts(1) parts(1)] keepsD [OF keeps_neutral_child_parts(3) parts(2)]
      neutral.order_trans calm_db_ok [OF keeps_calm_child_parts(1) parts(1) ok]
      calm_db_ok [OF keeps_calm_finish_child(2) parts(2)] by blast+
  then show ?thesis using hand_back_coupled [OF hb] neutral_coupled cpl by blast
qed

lemma deferred_death_coupled:
  assumes run: "deferred_death_txn e rid c d tok p msg s = Inr (Commit out, s')" and ok: "db_ok s" and cpl: "coupled s"
  shows "coupled s'"
proof -
  obtain u s1 v s2 where parts: "driver_dead_letter e d tok msg s = Inr (u, s1)"
      "finish_child_status e c TermDeadLetter s1 = Inr (v, s2)"
    and hb: "hand_back e rid p \<lparr>tr_output = msg, tr_is_error = True\<rparr> s2 = Inr (out, s')"
    using run unfolding deferred_death_txn_def by (auto simp: run_simps elim!: tx_elims split: if_splits)
  have "neutral s s2" "db_ok s2"
    using keepsD [OF keeps_neutral_driver_statements(3) parts(1)] keepsD [OF keeps_neutral_child_parts(2) parts(2)]
      neutral.order_trans calm_db_ok [OF keeps_calm_child_parts(2) parts(1) ok]
      calm_db_ok [OF keeps_calm_finish_child(1) parts(2)] by blast+
  then show ?thesis using hand_back_coupled [OF hb] neutral_coupled cpl by blast
qed

text \<open>Cancelling a thread takes its task out of the suspended set.\<close>

lemma cancel_in_txn_moves:
  assumes run: "cancel_thread_in_txn e rid i s = Inr (CancelledOutcome, s')" and ok: "db_ok s"
  shows "suspended_tasks s' = suspended_tasks s - stage_of i s" "blocked_tasks s' = blocked_tasks s"
proof -
  obtain th r s1 n where tail: "append_tail e rid i CancellationRecord None (cancellation_content th) None
       ''committing the cancellation record'' s = Inr (r, s1)"
    and compl: "thread_complete e i TermCancelled (th_status th) s1 = Inr (n, s')" "n \<noteq> 0"
    using run by (auto simp: cancel_thread_in_txn_def run_simps elim!: tx_elims split: option.splits if_splits)
  show "suspended_tasks s' = suspended_tasks s - stage_of i s" "blocked_tasks s' = blocked_tasks s"
    using thread_complete_effect [OF compl(1) append_tail_tables(4) [OF tail ok] compl(2)]
      append_tail_tables(1,3) [OF tail] by (auto simp: neutral_def stage_of_def)
qed

lemma cancel_in_txn_idle:
  assumes "cancel_thread_in_txn e rid i s = Inr (out, s')" "out \<noteq> CancelledOutcome"
  shows "s' = s"
  using assms by (auto simp: cancel_thread_in_txn_def run_simps elim!: tx_elims split: option.splits if_splits)


lemma dispose_cancelled_moves:
  assumes run: "dispose_cancelled_driving_task e th s = Inr (d, s')" and ok: "db_ok s"
  shows "blocked_tasks s' = blocked_tasks s - set_option (th_stage_task_id th)"
    "suspended_tasks s' = suspended_tasks s" "db_threads s' = db_threads s"
proof -
  have "blocked_tasks s' = blocked_tasks s - set_option (th_stage_task_id th) \<and>
      suspended_tasks s' = suspended_tasks s \<and> db_threads s' = db_threads s"
  proof (cases "th_stage_task_id th")
    case (Some i)
    then obtain n where "task_dead_letter_unclaimed e i InternalError ''thread cancelled'' s = Inr (n, s')"
      using run by (auto simp: dispose_cancelled_driving_task_def run_simps task_find_by_id_def
          elim!: tx_elims split: option.splits)
    then show ?thesis using task_dead_letter_effect [OF _ ok] Some by auto
  next
    case None
    then show ?thesis
      using run by (auto simp: dispose_cancelled_driving_task_def run_simps driver_dispose_unclaimed_def
          update_drivers_def blocked_tasks_def suspended_tasks_def elim!: tx_elims split: option.splits)
  qed
  then show "blocked_tasks s' = blocked_tasks s - set_option (th_stage_task_id th)"
    "suspended_tasks s' = suspended_tasks s" "db_threads s' = db_threads s" by blast+
qed

lemma cancel_thread_coupled:
  assumes run: "cancel_thread_txn e rid n th s = Inr (Commit out, s')" and ok: "db_ok s" and cpl: "coupled s"
    and snap: "snapshot_of s th"
  shows "coupled s'"
proof -
  obtain d s1 s2 where disp: "dispose_cancelled_driving_task e th s = Inr (d, s1)"
    and can: "cancel_thread_in_txn e rid (th_id th) s1 = Inr (CancelledOutcome, s2)"
    and rest: "neutral s2 s'"
    using run unfolding cancel_thread_txn_def
    by (auto simp: run_simps neutral.order_refl elim!: tx_elims split: if_splits driving_disposition.splits
        dest!: keepsD [OF neutral.keeps_coupling(2)])
  have ok1: "db_ok s1" by (rule calm_db_ok [OF keeps_calm_coupling(3) disp ok])
  have "stage_of (th_id th) s1 = set_option (th_stage_task_id th)"
    using snapshot_stage_of [OF ok snap] dispose_cancelled_moves(3) [OF disp ok] by (simp add: stage_of_def)
  then have "coupled s2"
    using cancel_in_txn_moves [OF can ok1] dispose_cancelled_moves [OF disp ok]
    by (intro coupled_minus [OF cpl, of s2 "set_option (th_stage_task_id th)"]) auto
  then show ?thesis using rest neutral_coupled by blast
qed

text \<open>A claimed task is not blocked, so its thread is not suspended.\<close>

lemma held_not_suspended:
  assumes "db_ok s" "coupled s" "t \<in> set (db_tasks s)" "tk_status t = TaskClaimed"
  shows "tk_id t \<notin> suspended_tasks s"
proof -
  have "tk_status q \<noteq> TaskBlocked" if "q \<in> set (db_tasks s)" "tk_id q = tk_id t" for q
    using assms that distinct_map_key_eq [of tk_id "db_tasks s" q t] by (auto simp: db_ok_def db_unique_def)
  then have "tk_id t \<notin> blocked_tasks s" by (auto simp: blocked_tasks_iff)
  then show ?thesis using assms(2) by (simp add: coupled_def)
qed

lemma held_by_count:
  assumes "update_tasks (holds_task i tok) f s = Inr (n, s')" "n \<noteq> 0"
  shows "\<exists>t \<in> set (db_tasks s). holds_task i tok t"
  using assms by (auto simp: update_tasks_def simp flip: sql_count_pos)

lemma cancel_at_claim_coupled:
  assumes run: "cancel_at_claim e rid n stage task th tok s = Inr (owed, s')"
    and ok: "db_ok s" and cpl: "coupled s"
    and snap: "snapshot_of s th" "th_stage_task_id th = Some (tk_id task)"
  shows "coupled s'"
proof -
  obtain m s1 out s2 where dl: "task_dead_letter_claimed e (tk_id task) tok InternalError ''thread cancelled'' s = Inr (m, s1)"
      "m \<noteq> 0"
    and can: "cancel_thread_in_txn e rid (th_id th) s1 = Inr (out, s2)" and rest: "neutral s2 s'"
    using run unfolding cancel_at_claim_def
    by (auto simp: run_simps elim!: tx_elims split: if_splits dest!: keepsD [OF neutral.keeps_coupling(2)])
  have n1: "neutral s s1" and ok1: "db_ok s1"
    using keepsD [OF keeps_neutral_task_statements(7) dl(1)]
      calm_db_ok [OF keeps_calm_task_statements(9) dl(1) ok] by blast+
  obtain t where "t \<in> set (db_tasks s)" "holds_task (tk_id task) tok t"
    using held_by_count [OF dl(1) [unfolded task_dead_letter_claimed_def] dl(2)] by blast
  then have "tk_id task \<notin> suspended_tasks s"
    using held_not_suspended [OF ok cpl] unfolding holds_task_def by metis
  moreover have "db_threads s1 = db_threads s"
    using dl(1) by (auto simp: task_dead_letter_claimed_def update_tasks_def)
  then have "stage_of (th_id th) s1 = {tk_id task}"
    using snapshot_stage_of [OF ok snap(1)] snap(2) by (simp add: stage_of_def)
  ultimately have keep: "suspended_tasks s1 - stage_of (th_id th) s1 = suspended_tasks s1"
    using n1 by (simp add: neutral_def)
  have "neutral s1 s2"
  proof (cases "out = CancelledOutcome")
    case True
    with can have "cancel_thread_in_txn e rid (th_id th) s1 = Inr (CancelledOutcome, s2)" by simp
    from cancel_in_txn_moves [OF this ok1] keep show ?thesis by (simp add: neutral_def)
  next
    case False
    then show ?thesis using cancel_in_txn_idle [OF can] by (simp add: neutral.order_refl)
  qed
  then show ?thesis using n1 rest cpl neutral_coupled by blast
qed

lemma dispose_thread_coupled:
  assumes run: "dispose_thread_txn e rid n stage task th tok s = Inr (Commit out, s')"
    and ok: "db_ok s" and cpl: "coupled s"
    and snap: "snapshot_of s th" "th_stage_task_id th = Some (tk_id task)"
    and fresh: "th_status th = ThreadSuspended \<Longrightarrow> \<forall>t \<in> set (db_tasks s). \<not> holds_task (tk_id task) tok t"
  shows "coupled s'"
proof -
  consider (cancel) "th_cancel_requested_at th \<noteq> None \<and> \<not> thread_status_terminal (th_status th)"
    | (susp) "th_status th = ThreadSuspended" "\<not> (th_cancel_requested_at th \<noteq> None \<and> \<not> thread_status_terminal (th_status th))"
    | (rest) "th_status th \<noteq> ThreadSuspended" "\<not> (th_cancel_requested_at th \<noteq> None \<and> \<not> thread_status_terminal (th_status th))"
    by blast
  then show ?thesis
  proof cases
    case cancel
    then obtain owed where "cancel_at_claim e rid n stage task th tok s = Inr (owed, s')"
      using run by (auto simp: dispose_thread_txn_def run_simps elim!: tx_elims)
    then show ?thesis using cancel_at_claim_coupled [OF _ ok cpl snap] by blast
  next
    case susp
    then obtain m s1 where "task_block e (tk_id task) tok s = Inr (m, s1)" "m \<noteq> 0"
      using run by (auto simp: dispose_thread_txn_def run_simps elim!: tx_elims split: if_splits)
    then show ?thesis using held_by_count fresh susp(1) unfolding task_block_def by blast
  next
    case rest
    let ?m = "dispose_thread_txn e rid n stage task th tok"
    have m: "keeps neutral ?m"
      unfolding dispose_thread_txn_def
      by (intro neutral.protocol_rules neutral.keeps_coupling; use rest in blast)
    then show ?thesis using keeps_neutral_coupled [OF m run cpl] by simp
  qed
qed


lemma exhaust_thread_coupled:
  assumes run: "exhaust_thread e n task th tok k msg s = Inr (out, s')"
    and ok: "db_ok s" and cpl: "coupled s"
    and row: "th \<in> set (db_threads s)" "th_stage_task_id th = Some (tk_id task)"
    and claimed: "task \<in> set (db_tasks s)" "tk_status task = TaskClaimed"
  shows "coupled s'"
proof -
  obtain cur where cur: "thread_lock (th_id th) s = Some cur"
    using find_distinct [of th_id "db_threads s" th "th_id th"] row(1) ok
    by (simp add: thread_lock_def db_ok_def db_unique_def)
  obtain m s1 u s2 where compl: "(if thread_status_terminal (th_status cur) then tx_return 0
        else thread_complete e (th_id th) TermDeadLetter (th_status cur)) s = Inr (m, s1)"
    and dl: "task_dead_letter_claimed e (tk_id task) tok k msg s1 = Inr (u, s2)"
    and coup: "couple_dead_lettered_task e n task msg s2 = Inr (out, s')"
    using run cur unfolding exhaust_thread_def
    by (auto simp: run_simps elim!: tx_elims split: if_splits)
  have gone: "stage_of (th_id th) s = {tk_id task}" using stage_of_row [OF ok row(1)] row(2) by simp
  have "neutral s s1"
  proof (cases "m = 0 \<or> thread_status_terminal (th_status cur)")
    case True
    then show ?thesis
      using compl by (auto simp: run_simps neutral.order_refl thread_complete_def update_threads_def
          sql_update_none split: if_splits)
  next
    case False
    then show ?thesis
      using thread_complete_effect [of e "th_id th" TermDeadLetter "th_status cur" s m s1] compl ok gone
        held_not_suspended [OF ok cpl claimed] by (auto simp: neutral_def)
  qed
  then have "neutral s s'"
    using keepsD [OF keeps_neutral_task_statements(7) dl] keepsD [OF neutral.keeps_coupling(2) coup]
      neutral.order_trans by blast
  then show ?thesis using cpl neutral_coupled by blast
qed

lemma lock_stale_task:
  assumes "task_lock_stale_thread_driving e locked timeout s = Some t"
  shows "t \<in> set (db_tasks s)" "tk_status t = TaskClaimed"
proof -
  have "t \<in> set (sql_select_ordered (\<lambda>t. task_stale e timeout t \<and> drives_thread s t \<and> \<not> locked (tk_id t))
         tk_heartbeat_at 1 (db_tasks s))"
    using assms unfolding task_lock_stale_thread_driving_def by (auto split: list.splits)
  then have "t \<in> set (db_tasks s) \<and> task_stale e timeout t"
    using set_sql_select_ordered by fast
  then show "t \<in> set (db_tasks s)" "tk_status t = TaskClaimed" by (simp_all add: task_stale_def)
qed

lemma reclaim_one_coupled:
  assumes run: "reclaim_one_txn e n cfg ex locked k msg flat s = Inr (Commit out, s')"
    and ok: "db_ok s" and cpl: "coupled s"
  shows "coupled s'"
proof -
  obtain t th tok where t: "task_lock_stale_thread_driving e locked (wc_task_timeout_secs cfg) s = Some t"
    and th: "thread_find_by_stage_task_id (tk_id t) s = Some th" and tok: "tk_claim_token t = Some tok"
    using run by (auto simp: reclaim_one_txn_def run_simps elim!: tx_elims split: option.splits)
  have row: "th \<in> set (db_threads s)" "th_stage_task_id th = Some (tk_id t)"
    using th find_Some_set unfolding thread_find_by_stage_task_id_def by fast+
  show ?thesis
  proof (cases "decide_disposition RetryableFailure (task_counters cfg ex t th)")
    case ExhaustThread
    then obtain w where "exhaust_thread e n t th tok k msg s = Inr (w, s')"
      using run t th tok by (auto simp: reclaim_one_txn_def run_simps elim!: tx_elims)
    then show ?thesis using exhaust_thread_coupled [OF _ ok cpl row] lock_stale_task [OF t] by blast
  next
    case (Requeue r)
    then show ?thesis
      using run t th tok keeps_neutral_coupled [OF keeps_neutral_task_statements(6) _ cpl]
      by (auto simp: reclaim_one_txn_def run_simps elim!: tx_elims)
  next
    case (RecoveryCycle r m)
    then obtain a s1 b where "thread_increment_recovery_attempts e (th_id th) s = Inr (a, s1)"
      "task_reclaim_requeue e (tk_id t) r (recovery_backoff_seconds m) k msg s1 = Inr (b, s')"
      using run t th tok by (auto simp: reclaim_one_txn_def run_simps elim!: tx_elims)
    then show ?thesis
      using keeps_neutral_coupled [OF keeps_neutral_task_statements(6)]
        keeps_neutral_coupled [OF keeps_neutral_thread_statements(4) _ cpl] by blast
  qed (use run t th tok in \<open>auto simp: reclaim_one_txn_def run_simps elim!: tx_elims\<close>)
qed

text \<open>A managed thread drives no stage task, so its suspension blocks none.\<close>

lemma suspend_managed_coupled:
  assumes run: "suspend_managed_txn e rid th c cause w s = Inr (Commit out, s')"
    and ok: "db_ok s" and cpl: "coupled s"
    and snap: "snapshot_of s th" "th_stage_task_id th = None"
  shows "coupled s'"
proof -
  obtain r s1 m where tail: "append_tail e rid (th_id th) SuspensionRecord None (suspension_to_json cause) None
        ''committing the managed suspension record'' s = Inr (r, s1)"
    and susp: "thread_suspend e (th_id th) cause w s1 = Inr (m, s')" "m \<noteq> 0"
    using run unfolding suspend_managed_txn_def claim_require_def
    by (auto simp: run_simps elim!: tx_elims split: if_splits)
  have "stage_of (th_id th) s1 = {}"
    using snapshot_stage_of [OF ok snap(1)] snap(2) append_tail_tables(1) [OF tail] by (simp add: stage_of_def)
  then have "neutral s s'"
    using thread_suspend_effect [OF susp append_tail_tables(4) [OF tail ok]] append_tail_tables(3) [OF tail]
    by (simp add: neutral_def)
  then show ?thesis using cpl neutral_coupled by blast
qed

end
