(* ===== verification/ReindexRepo.thy ===== *)
theory ReindexRepo
  imports GraphRepo
begin

text \<open>
  The statements of the reindex repositories
  (\<open>tribal-db/src/repositories/{reindex_run, reindex_task, reindex_quarantine}.rs\<close>):
  the runs with their single-flight index, the leased batches of a run, and
  the durable record of what cannot be embedded. A run's leases are a lease
  queue. Tallies are 64-bit columns far from their bound and are integers here.
\<close>

definition profile_exists :: "uuid \<Rightarrow> db \<Rightarrow> bool" where
  "profile_exists i s = sql_exists (\<lambda>p. ep_id p = i) (gr_profiles (db_graph s))"

definition run_exists :: "uuid \<Rightarrow> db \<Rightarrow> bool" where
  "run_exists i s = sql_exists (\<lambda>r. rr_id r = i) (gr_runs (db_graph s))"

definition run_live :: "reindex_run \<Rightarrow> bool" where
  "run_live r \<longleftrightarrow> rr_state r \<in> {RunQueued, RunRunning}"

lemma run_live_not_terminal: "run_live r \<longleftrightarrow> \<not> run_state_terminal (rr_state r)"
  by (auto simp: run_live_def run_state_terminal_def)

section \<open>Runs\<close>

record new_run =
  nrr_target_profile_id :: uuid
  nrr_epoch :: int
  nrr_initiated_by :: uuid
  nrr_trace_context :: "string option"

definition new_run_row :: "env \<Rightarrow> uuid \<Rightarrow> new_run \<Rightarrow> reindex_run" where
  "new_run_row e i n = \<lparr>rr_id = i, rr_target_profile_id = nrr_target_profile_id n,
     rr_epoch = nrr_epoch n, rr_state = RunQueued, rr_initiated_by = nrr_initiated_by n,
     rr_items_enumerated = None, rr_items_embedded = 0, rr_tags_enumerated = None,
     rr_tags_embedded = 0, rr_items_quarantined = 0, rr_tags_quarantined = 0,
     rr_error_message = None, rr_trace_context = nrr_trace_context n, rr_started_at = env_now e,
     rr_completed_at = None\<rparr>"

text \<open>The partial unique index admits one live run; every failed insert is a failed
  query.\<close>

definition run_insert :: "env \<Rightarrow> uuid \<Rightarrow> new_run \<Rightarrow> reindex_run db_tx" where
  "run_insert e i n s =
     (if profile_exists (nrr_target_profile_id n) s \<and> \<not> run_exists i s \<and>
         \<not> sql_exists run_live (gr_runs (db_graph s)) \<and>
         (case nrr_trace_context n of None \<Rightarrow> True | Some c \<Rightarrow> length c \<le> 128)
      then tx_then (update_graph (\<lambda>g. g\<lparr>gr_runs := gr_runs g @ [new_run_row e i n]\<rparr>))
        (tx_return (new_run_row e i n)) s
      else Inl (DbQueryFailed ''inserting reindex run''))"

definition run_find_by_id :: "uuid \<Rightarrow> db \<Rightarrow> reindex_run option" where
  "run_find_by_id i s = find (\<lambda>r. rr_id r = i) (gr_runs (db_graph s))"

definition run_find_live :: "db \<Rightarrow> reindex_run option" where
  "run_find_live s =
     (case sort_key (\<lambda>r. - rr_started_at r) (filter run_live (gr_runs (db_graph s))) of
        [] \<Rightarrow> None
      | r # _ \<Rightarrow> Some r)"

definition run_transition_row :: "env \<Rightarrow> run_state \<Rightarrow> string option \<Rightarrow> reindex_run \<Rightarrow> reindex_run" where
  "run_transition_row e target msg r = r\<lparr>rr_state := target, rr_error_message := msg,
     rr_completed_at := (if run_state_terminal target
       then Some (case rr_completed_at r of Some t \<Rightarrow> t | None \<Rightarrow> env_now e) else None)\<rparr>"

text \<open>A compare-and-set; the value says whether the run was in the source state. The
  code never makes a terminal run live again, which the single-flight index
  could refuse.\<close>

definition run_transition :: "env \<Rightarrow> uuid \<Rightarrow> run_state \<Rightarrow> run_state \<Rightarrow> string option \<Rightarrow> bool db_tx" where
  "run_transition e i source target msg s =
     (let hit = (\<lambda>r. rr_id r = i \<and> rr_state r = source) in
      tx_then (update_graph (\<lambda>g. g\<lparr>gr_runs := sql_update hit (run_transition_row e target msg) (gr_runs g)\<rparr>))
        (tx_return (sql_exists hit (gr_runs (db_graph s)))) s)"

definition update_run :: "uuid \<Rightarrow> (reindex_run \<Rightarrow> reindex_run) \<Rightarrow> unit db_tx" where
  "update_run i f = update_graph (\<lambda>g. g\<lparr>gr_runs := sql_update (\<lambda>r. rr_id r = i) f (gr_runs g)\<rparr>)"

definition run_set_enumerated :: "uuid \<Rightarrow> nat \<Rightarrow> nat \<Rightarrow> unit db_tx" where
  "run_set_enumerated i items tags =
     tx_then (tx_ensure (fits_i32 items \<and> fits_i32 tags) (DbPanic ''count exceeds i32::MAX''))
       (update_run i (\<lambda>r. r\<lparr>rr_items_enumerated := Some items, rr_tags_enumerated := Some tags\<rparr>))"

definition run_bump_embedded :: "uuid \<Rightarrow> nat \<Rightarrow> nat \<Rightarrow> unit db_tx" where
  "run_bump_embedded i items tags = update_run i (\<lambda>r. r\<lparr>rr_items_embedded := rr_items_embedded r + int items,
     rr_tags_embedded := rr_tags_embedded r + int tags\<rparr>)"

definition run_bump_quarantined :: "uuid \<Rightarrow> nat \<Rightarrow> nat \<Rightarrow> unit db_tx" where
  "run_bump_quarantined i items tags = update_run i (\<lambda>r. r\<lparr>rr_items_quarantined := rr_items_quarantined r + int items,
     rr_tags_quarantined := rr_tags_quarantined r + int tags\<rparr>)"

section \<open>Tasks\<close>

record new_rtask =
  nrt_run_id :: uuid
  nrt_kind :: reindex_entity
  nrt_target_ref :: string

definition new_rtask_row :: "env \<Rightarrow> uuid \<Rightarrow> new_rtask \<Rightarrow> reindex_task" where
  "new_rtask_row e i n = \<lparr>rt_id = i, rt_run_id = nrt_run_id n, rt_kind = nrt_kind n,
     rt_target_ref = nrt_target_ref n, rt_state = RTaskPending, rt_attempt = 0, rt_max_attempts = 8,
     rt_available_at = env_now e, rt_claim_token = None, rt_claimed_by = None, rt_claimed_at = None,
     rt_heartbeat_at = None, rt_last_error = None, rt_last_error_class = None,
     rt_created_at = env_now e, rt_updated_at = env_now e, rt_completed_at = None\<rparr>"

definition rtask_key :: "reindex_task \<Rightarrow> uuid \<times> reindex_entity \<times> string" where
  "rtask_key t = (rt_run_id t, rt_kind t, rt_target_ref t)"

definition rtask_upsert :: "env \<Rightarrow> uuid \<Rightarrow> new_rtask \<Rightarrow> nat db_tx" where
  "rtask_upsert e i n s =
     (let t = new_rtask_row e i n in
      if sql_exists (\<lambda>x. rtask_key x = rtask_key t) (gr_rtasks (db_graph s)) then Inr (0, s)
      else if run_exists (nrt_run_id n) s \<and> \<not> sql_exists (\<lambda>x. rt_id x = i) (gr_rtasks (db_graph s))
      then tx_then (update_graph (\<lambda>g. g\<lparr>gr_rtasks := gr_rtasks g @ [t]\<rparr>)) (tx_return 1) s
      else Inl (DbQueryFailed ''enrolling reindex task''))"

definition rtask_find_by_id :: "uuid \<Rightarrow> db \<Rightarrow> reindex_task option" where
  "rtask_find_by_id i s = find (\<lambda>t. rt_id t = i) (gr_rtasks (db_graph s))"

text \<open>Rows locked by another transaction are skipped, and so is every task while
  the run row is exclusively locked.\<close>

definition rtask_claimable :: "uuid \<Rightarrow> bool \<Rightarrow> env \<Rightarrow> (uuid \<Rightarrow> bool) \<Rightarrow> nat \<Rightarrow> db \<Rightarrow> reindex_task list" where
  "rtask_claimable run run_locked e locked limit s =
     sql_select_ordered
       (\<lambda>t. rt_run_id t = run \<and> \<not> run_locked \<and>
          sql_exists (\<lambda>r. rr_id r = run \<and> run_live r) (gr_runs (db_graph s)) \<and>
          rt_state t = RTaskPending \<and> rt_available_at t \<le> env_now e \<and> \<not> locked (rt_id t))
       (\<lambda>t. (rt_available_at t, rt_created_at t)) limit (gr_rtasks (db_graph s))"

definition rtask_claim_row :: "env \<Rightarrow> uuid \<Rightarrow> string \<Rightarrow> reindex_task \<Rightarrow> reindex_task" where
  "rtask_claim_row e tok by t =
     t\<lparr>rt_state := RTaskClaimed, rt_claim_token := Some tok, rt_claimed_by := Some by,
       rt_claimed_at := Some (env_now e), rt_heartbeat_at := Some (env_now e),
       rt_updated_at := env_now e\<rparr>"

definition update_rtasks :: "(reindex_task \<Rightarrow> bool) \<Rightarrow> (reindex_task \<Rightarrow> reindex_task) \<Rightarrow> nat db_tx" where
  "update_rtasks P f s =
     tx_then (update_graph (\<lambda>g. g\<lparr>gr_rtasks := sql_update P f (gr_rtasks g)\<rparr>))
       (tx_return (sql_count P (gr_rtasks (db_graph s)))) s"

definition rtask_claim :: "uuid \<Rightarrow> bool \<Rightarrow> env \<Rightarrow> (uuid \<Rightarrow> bool) \<Rightarrow> (uuid \<Rightarrow> uuid) \<Rightarrow> nat \<Rightarrow> string
    \<Rightarrow> reindex_task list db_tx" where
  "rtask_claim run run_locked e locked fresh limit by s =
     (let hit = (\<lambda>t. t \<in> set (rtask_claimable run run_locked e locked limit s));
          f = (\<lambda>t. rtask_claim_row e (fresh (rt_id t)) by t) in
      tx_then (update_rtasks hit f) (tx_return (map f (filter hit (gr_rtasks (db_graph s))))) s)"

definition holds_rtask :: "uuid \<Rightarrow> uuid \<Rightarrow> reindex_task \<Rightarrow> bool" where
  "holds_rtask i tok t \<longleftrightarrow> rt_id t = i \<and> rt_claim_token t = Some tok \<and> rt_state t = RTaskClaimed"

definition rtask_complete :: "env \<Rightarrow> uuid \<Rightarrow> uuid \<Rightarrow> nat db_tx" where
  "rtask_complete e i tok = update_rtasks (holds_rtask i tok)
     (\<lambda>t. t\<lparr>rt_state := RTaskCompleted, rt_claim_token := None, rt_completed_at := Some (env_now e),
        rt_updated_at := env_now e\<rparr>)"

definition rtask_fail_row :: "env \<Rightarrow> instant \<Rightarrow> embedding_error_class \<Rightarrow> string \<Rightarrow> reindex_task \<Rightarrow> reindex_task" where
  "rtask_fail_row e available class msg t =
     (let spent = rt_max_attempts t < rt_attempt t + 1 in
      t\<lparr>rt_attempt := rt_attempt t + 1, rt_state := (if spent then RTaskDeadLetter else RTaskPending),
        rt_available_at := (if spent then rt_available_at t else available), rt_claim_token := None,
        rt_claimed_by := None, rt_claimed_at := None, rt_heartbeat_at := None,
        rt_last_error_class := Some class, rt_last_error := Some msg, rt_updated_at := env_now e\<rparr>)"

definition rtask_fail :: "env \<Rightarrow> uuid \<Rightarrow> uuid \<Rightarrow> instant \<Rightarrow> embedding_error_class \<Rightarrow> string \<Rightarrow> nat db_tx" where
  "rtask_fail e i tok available class msg =
     update_rtasks (holds_rtask i tok) (rtask_fail_row e available class msg)"

definition rtask_count :: "rtask_state \<Rightarrow> uuid \<Rightarrow> db \<Rightarrow> nat" where
  "rtask_count st run s = sql_count (\<lambda>t. rt_run_id t = run \<and> rt_state t = st) (gr_rtasks (db_graph s))"

text \<open>One row per state that occurs; SQL leaves the order of groups open.\<close>

definition rtask_count_by_state :: "uuid \<Rightarrow> db \<Rightarrow> (rtask_state \<times> nat) list" where
  "rtask_count_by_state run s =
     filter (\<lambda>c. snd c \<noteq> 0) (map (\<lambda>st. (st, rtask_count st run s))
       [RTaskPending, RTaskClaimed, RTaskCompleted, RTaskDeadLetter])"

definition rtask_retry_wait :: "env \<Rightarrow> uuid \<Rightarrow> db \<Rightarrow> instant option" where
  "rtask_retry_wait e run s =
     (case sort (map rt_available_at (filter (\<lambda>t. rt_run_id t = run \<and> rt_state t = RTaskPending \<and>
          env_now e < rt_available_at t) (gr_rtasks (db_graph s)))) of
        [] \<Rightarrow> None
      | t # _ \<Rightarrow> Some t)"

section \<open>Quarantine\<close>

record new_quarantine =
  nq_run_id :: uuid
  nq_profile_id :: uuid
  nq_kind :: reindex_entity
  nq_entity_ref :: string
  nq_error_class :: embedding_error_class
  nq_error_message :: "string option"

definition quarantine_record :: "env \<Rightarrow> new_quarantine \<Rightarrow> bool db_tx" where
  "quarantine_record e n s =
     (if is_quarantined (nq_profile_id n) (nq_kind n) (nq_entity_ref n) s then Inr (False, s)
      else if run_exists (nq_run_id n) s \<and> profile_exists (nq_profile_id n) s
      then tx_then (update_graph (\<lambda>g. g\<lparr>gr_quarantine := gr_quarantine g @
          [\<lparr>qt_run_id = nq_run_id n, qt_profile_id = nq_profile_id n, qt_kind = nq_kind n,
            qt_entity_ref = nq_entity_ref n, qt_error_class = nq_error_class n,
            qt_error_message = nq_error_message n, qt_at = env_now e\<rparr>]\<rparr>)) (tx_return True) s
      else Inl (DbQueryFailed ''quarantining''))"

definition quarantine_count_for_profile :: "uuid \<Rightarrow> db \<Rightarrow> nat" where
  "quarantine_count_for_profile i s = sql_count (\<lambda>q. qt_profile_id q = i) (gr_quarantine (db_graph s))"

section \<open>Reindex statements leave the protocol tables alone\<close>

lemma keeps_same_reindex_statements:
  "keeps same_protocol (run_insert e i nr)"
  "keeps same_protocol (run_transition e i st st' msg)"
  "keeps same_protocol (run_set_enumerated i items tags)"
  "keeps same_protocol (run_bump_embedded i items tags)"
  "keeps same_protocol (run_bump_quarantined i items tags)"
  "keeps same_protocol (rtask_upsert e i nt)"
  "keeps same_protocol (rtask_claim run run_locked e locked fresh limit by)"
  "keeps same_protocol (rtask_complete e i tok)"
  "keeps same_protocol (rtask_fail e i tok av class txt)"
  "keeps same_protocol (quarantine_record e nq)"
  by (auto simp: keeps_def run_insert_def run_transition_def run_set_enumerated_def run_bump_embedded_def
      run_bump_quarantined_def update_run_def rtask_upsert_def rtask_claim_def rtask_complete_def
      rtask_fail_def update_rtasks_def quarantine_record_def Let_def tx_defs update_graph_def
      same_protocol.order_refl split: if_splits option.splits)

lemmas keeps_same_rules = same_protocol.keeps_intros keeps_same_graph_statements keeps_same_reindex_statements

end
