(* ===== verification/Inference.thy ===== *)
theory Inference
  imports Graph
begin

text \<open>
  The errors of the inference layer and how they are classified for retry
  (\<open>tribal-inference/src/error.rs\<close>, \<open>tribal-inference/src/http.rs\<close>). The reason
  phrase of an HTTP status is a parameter. Durations are microseconds.
\<close>

datatype gateway_error = NotEntitled | OverCap | Unpriceable | InFlight nat | GatewayFailed

text \<open>The wrapped source errors carry no decision and are left out.\<close>

datatype inference_error =
    ProviderUnavailable string string "nat option" "int option"
  | EmbeddingFailed string string
  | LlmCallFailed string string
  | ResponseParseFailed string string
  | PermitTimeout string nat
  | MaxTokensRequired string
  | GatewayRefused gateway_error

definition provider_unavailable :: "string \<Rightarrow> string \<Rightarrow> inference_error" where
  "provider_unavailable provider reason = ProviderUnavailable provider reason None None"

fun gateway_error_debug :: "gateway_error \<Rightarrow> string" where
  "gateway_error_debug NotEntitled = ''NotEntitled''"
| "gateway_error_debug OverCap = ''OverCap''"
| "gateway_error_debug Unpriceable = ''Unpriceable''"
| "gateway_error_debug (InFlight ms) = ''InFlight { retry_after_ms: '' @ show_nat ms @ '' }''"
| "gateway_error_debug GatewayFailed = ''Failed''"

fun inference_error_text :: "inference_error \<Rightarrow> string" where
  "inference_error_text (ProviderUnavailable p r _ _) = ''provider '' @ p @ '' unavailable: '' @ r"
| "inference_error_text (EmbeddingFailed m c) = ''embedding generation failed for model '' @ m @ '': '' @ c"
| "inference_error_text (LlmCallFailed m c) = ''LLM call failed for model '' @ m @ '': '' @ c"
| "inference_error_text (ResponseParseFailed x a) = ''response parse failed: expected '' @ x @ '', got: '' @ a"
| "inference_error_text (PermitTimeout k ms) =
     ''timed out waiting for a permit for provider '' @ k @ '' after '' @ show_nat ms @ ''ms''"
| "inference_error_text (MaxTokensRequired m) =
     ''the metered path requires max_tokens; model '' @ m @ '' request omitted it''"
| "inference_error_text (GatewayRefused g) =
     ''the platform gateway refused the metered call: '' @ gateway_error_debug g"

section \<open>Classification\<close>

definition overloaded_status :: nat where
  "overloaded_status = 529"

definition classify_embedding_error :: "inference_error \<Rightarrow> embedding_error_class" where
  "classify_embedding_error err =
     (case err of
        ProviderUnavailable _ _ status _ \<Rightarrow>
          (if status = Some 429 then RateLimited
           else if status = Some overloaded_status then Overloaded else Transient)
      | PermitTimeout _ _ \<Rightarrow> Transient
      | _ \<Rightarrow> Permanent)"

definition embedding_retry_after :: "inference_error \<Rightarrow> int option" where
  "embedding_retry_after err = (case err of ProviderUnavailable _ _ _ ra \<Rightarrow> ra | _ \<Rightarrow> None)"

definition is_retryable_status :: "nat \<Rightarrow> bool" where
  "is_retryable_status st \<longleftrightarrow> st = 429 \<or> (500 \<le> st \<and> st \<le> 599) \<or> st = overloaded_status"

section \<open>Building an error from a response\<close>

definition body_preview_limit :: nat where
  "body_preview_limit = 200"

text \<open>Characters up to U+007F take one byte, the others of the model two.\<close>

definition byte_len :: "string \<Rightarrow> nat" where
  "byte_len x = sum_list (map (\<lambda>c. if of_char c < (128::nat) then 1 else 2) x)"

fun split_words :: "string \<Rightarrow> string \<Rightarrow> string list" where
  "split_words cur [] = (if cur = [] then [] else [cur])"
| "split_words cur (c # cs) =
     (if is_whitespace c then (if cur = [] then [] else [cur]) @ split_words [] cs
      else split_words (cur @ [c]) cs)"

fun join_with :: "string \<Rightarrow> string list \<Rightarrow> string" where
  "join_with sep [] = []"
| "join_with sep [x] = x"
| "join_with sep (x # y # ys) = x @ sep @ join_with sep (y # ys)"

text \<open>The longest prefix of at most \<open>n\<close> bytes.\<close>

fun take_bytes :: "nat \<Rightarrow> string \<Rightarrow> string" where
  "take_bytes n [] = []"
| "take_bytes n (c # cs) =
     (let w = (if of_char c < (128::nat) then 1 else 2) in
      if w \<le> n then c # take_bytes (n - w) cs else [])"

definition body_preview :: "string \<Rightarrow> string" where
  "body_preview body =
     (let normalised = join_with '' '' (split_words [] body) in
      if byte_len normalised \<le> body_preview_limit then normalised
      else take_bytes body_preview_limit normalised @ ''...'')"

definition is_digit :: "char \<Rightarrow> bool" where
  "is_digit c \<longleftrightarrow> 48 \<le> (of_char c :: nat) \<and> (of_char c :: nat) \<le> 57"

definition digits_value :: "string \<Rightarrow> nat" where
  "digits_value ds = foldl (\<lambda>n c. 10 * n + (of_char c - 48)) 0 ds"

definition parse_u64 :: "string \<Rightarrow> nat option" where
  "parse_u64 x =
     (let ds = (case x of c # cs \<Rightarrow> if c = CHR ''+'' then cs else x | [] \<Rightarrow> []) in
      if ds \<noteq> [] \<and> list_all is_digit ds \<and> digits_value ds < 2 ^ 64 then Some (digits_value ds) else None)"

definition parse_retry_after :: "(string \<times> string) list \<Rightarrow> int option" where
  "parse_retry_after extra =
     (case find (\<lambda>(k, _). to_ascii_lowercase k = ''retry-after'') extra of
        None \<Rightarrow> None
      | Some (_, v) \<Rightarrow> map_option (\<lambda>n. seconds (int n)) (parse_u64 (trim v)))"

definition error_context :: "(nat \<Rightarrow> string) \<Rightarrow> nat \<Rightarrow> string \<Rightarrow> (string \<times> string) list \<Rightarrow> string" where
  "error_context status_text st body extra =
     ''HTTP '' @ status_text st @ '': '' @ body_preview body @
     concat (map (\<lambda>(k, v). ''; '' @ k @ '': '' @ v) extra)"

definition map_http_error :: "(nat \<Rightarrow> string) \<Rightarrow> nat \<Rightarrow> string \<Rightarrow> string \<Rightarrow> (string \<times> string) list
    \<Rightarrow> (string \<Rightarrow> inference_error) \<Rightarrow> inference_error" where
  "map_http_error status_text st body provider extra non_retryable =
     (let ctx = error_context status_text st body extra in
      if is_retryable_status st then ProviderUnavailable provider ctx (Some st) (parse_retry_after extra)
      else non_retryable ctx)"

text \<open>A successful response passes; the header is attached to the context when its
  value is text.\<close>

definition ensure_success :: "(nat \<Rightarrow> string) \<Rightarrow> nat \<Rightarrow> string option \<Rightarrow> string \<Rightarrow> string
    \<Rightarrow> (string \<Rightarrow> inference_error) \<Rightarrow> inference_error option" where
  "ensure_success status_text st retry_after body provider on_client_error =
     (if 200 \<le> st \<and> st \<le> 299 then None
      else Some (map_http_error status_text st body provider
        (case retry_after of None \<Rightarrow> [] | Some v \<Rightarrow> [(''Retry-After'', v)]) on_client_error))"

fun strip_slashes :: "string \<Rightarrow> string" where
  "strip_slashes [] = []"
| "strip_slashes (c # cs) = (if c = CHR ''/'' then strip_slashes cs else c # cs)"

definition normalise_base_url :: "string \<Rightarrow> string" where
  "normalise_base_url url = rev (strip_slashes (rev url))"

section \<open>Facts\<close>

lemma normalise_base_url_idem [simp]: "normalise_base_url (normalise_base_url u) = normalise_base_url u"
proof -
  have "strip_slashes (strip_slashes x) = strip_slashes x" for x by (induction x) simp_all
  then show ?thesis by (simp add: normalise_base_url_def)
qed

lemma byte_len_simps [simp]: "byte_len [] = 0"
  "byte_len (c # cs) = (if of_char c < (128::nat) then 1 else 2) + byte_len cs"
  "byte_len (xs @ ys) = byte_len xs + byte_len ys"
  by (simp_all add: byte_len_def)

lemma take_bytes_bound: "byte_len (take_bytes n x) \<le> n"
proof (induction n x rule: take_bytes.induct)
  case (2 n c cs)
  then show ?case by (cases "of_char c < (128 :: nat)") (auto simp: Let_def)
qed simp

lemma retry_after_key [simp]: "to_ascii_lowercase ''Retry-After'' = ''retry-after''"
  by code_simp

lemma parse_retry_after_single [simp]:
  "parse_retry_after [(''Retry-After'', v)] = map_option (\<lambda>n. seconds (int n)) (parse_u64 (trim v))"
  by (simp add: parse_retry_after_def)

lemma body_preview_bound: "byte_len (body_preview body) \<le> body_preview_limit + 3"
  using take_bytes_bound [of body_preview_limit] by (simp add: body_preview_def Let_def)



end
