(* ===== verification/Reindex.thy ===== *)
theory Reindex
  imports ReindexRepo Inference
begin

text \<open>
  A reindex (\<open>tribal-worker/src/worker/reindex.rs\<close>, \<open>reindex_ops.rs\<close>, the genesis
  of \<open>tribal-server/src/startup/provisioning.rs\<close>): a run is created with its
  building profile, its backlog is leased out in batches and embedded, and the
  cutover flips the profile to active once nothing is missing.
  Statements outside a transaction commit one by one (\<open>Prelude.proc\<close>).
  Parameters: the gateway, the digest of a probe vector, SHA-256, the advisory
  locks a try may miss, the index catalogue; each action has the ambient values
  and the gateway answers of its round. Blocking locks are the isolation of the
  transaction that takes them.
\<close>

section \<open>Targets\<close>

record reindex_target =
  tgt_provider_kind :: provider_kind
  tgt_base_url :: string
  tgt_model :: string
  tgt_dimensions :: nat
  tgt_distance_metric :: distance_metric
  tgt_revision_token :: string
  tgt_probe_digest :: "string option"
  tgt_fingerprint_hash :: string

definition newline :: string where
  "newline = [char_of (10 :: nat)]"

definition embedding_profile_fingerprint :: "(string \<Rightarrow> string) \<Rightarrow> string \<Rightarrow> string \<Rightarrow> string \<Rightarrow> nat
    \<Rightarrow> string \<Rightarrow> string \<Rightarrow> string" where
  "embedding_profile_fingerprint sha256_hex provider url model dimensions metric token =
     sha256_hex (''provider_kind='' @ provider @ newline @ ''base_url='' @ url @ newline @
       ''model='' @ model @ newline @ ''dimensions='' @ show_nat dimensions @ newline @
       ''distance_metric='' @ metric @ newline @ ''revision_token='' @ token)"

definition with_probe_forced_revision :: "(string \<Rightarrow> string) \<Rightarrow> reindex_target \<Rightarrow> reindex_target" where
  "with_probe_forced_revision sha256_hex t =
     (let token = (case tgt_probe_digest t of Some d \<Rightarrow> d | None \<Rightarrow> '''') in
      t\<lparr>tgt_revision_token := token,
        tgt_fingerprint_hash := embedding_profile_fingerprint sha256_hex
          (provider_kind_as_str (tgt_provider_kind t)) (tgt_base_url t) (tgt_model t) (tgt_dimensions t)
          (distance_metric_as_str (tgt_distance_metric t)) token\<rparr>)"

definition to_new_profile :: "reindex_target \<Rightarrow> new_profile" where
  "to_new_profile t = \<lparr>npr_provider_kind = tgt_provider_kind t, npr_base_url = tgt_base_url t,
     npr_model = tgt_model t, npr_dimensions = tgt_dimensions t,
     npr_distance_metric = tgt_distance_metric t, npr_revision_token = tgt_revision_token t,
     npr_probe_digest = tgt_probe_digest t, npr_fingerprint_hash = tgt_fingerprint_hash t\<rparr>"

definition declared_identity_matches :: "reindex_target \<Rightarrow> embedding_profile \<Rightarrow> bool" where
  "declared_identity_matches t p \<longleftrightarrow> matches_geometry p (tgt_provider_kind t) (tgt_base_url t) (tgt_model t)
     (tgt_dimensions t) (tgt_distance_metric t)"

definition target_matches_profile :: "reindex_target \<Rightarrow> embedding_profile \<Rightarrow> bool" where
  "target_matches_profile t p \<longleftrightarrow> declared_identity_matches t p \<and> tgt_probe_digest t = ep_probe_digest p \<and>
     (tgt_revision_token t = '''' \<or> tgt_revision_token t = ep_revision_token p)"

section \<open>Creation\<close>

datatype creation_outcome =
    CreationCreated reindex_run
  | CreationUnchanged embedding_profile
  | CreationAlreadyLive reindex_run
  | CreationLockContended
  | CreationTransitionInProgress

record creation_ids =
  cr_profile :: uuid
  cr_run :: uuid
  cr_gap :: nat

text \<open>The two locks are tried; a refused one writes nothing.\<close>

definition create_reindex_run :: "env \<Rightarrow> creation_ids \<Rightarrow> (string \<Rightarrow> string) \<Rightarrow> bool \<Rightarrow> bool \<Rightarrow> reindex_target
    \<Rightarrow> uuid \<Rightarrow> creation_outcome db_tx" where
  "create_reindex_run e ids sha256_hex admitted granted target by =
     (if \<not> admitted then tx_return CreationTransitionInProgress
      else if \<not> granted then tx_return CreationLockContended
      else tx_bind (tx_read run_find_live) (\<lambda>live.
      case live of
        Some r \<Rightarrow> tx_return (CreationAlreadyLive r)
      | None \<Rightarrow>
      tx_bind (tx_read profile_find_active) (\<lambda>active.
      case active of
        Some p \<Rightarrow>
          if target_matches_profile target p then tx_return (CreationUnchanged p)
          else
            (let t = (if declared_identity_matches target p \<and> tgt_revision_token target = ''''
               then with_probe_forced_revision sha256_hex target else target) in
             tx_bind (profile_insert e (cr_profile ids) (cr_gap ids) (to_new_profile t)) (\<lambda>profile.
             tx_bind (run_insert e (cr_run ids) \<lparr>nrr_target_profile_id = ep_id profile,
                 nrr_epoch = ep_epoch profile, nrr_initiated_by = by, nrr_trace_context = None\<rparr>) (\<lambda>run.
             tx_return (CreationCreated run))))
      | None \<Rightarrow>
          tx_bind (profile_insert e (cr_profile ids) (cr_gap ids) (to_new_profile target)) (\<lambda>profile.
          tx_bind (run_insert e (cr_run ids) \<lparr>nrr_target_profile_id = ep_id profile,
              nrr_epoch = ep_epoch profile, nrr_initiated_by = by, nrr_trace_context = None\<rparr>) (\<lambda>run.
          tx_return (CreationCreated run))))))"

definition reconcile_orphan_building_profile :: "env \<Rightarrow> bool \<Rightarrow> bool db_tx" where
  "reconcile_orphan_building_profile e granted =
     (if \<not> granted then tx_return False
      else tx_bind (tx_read profile_find_building) (\<lambda>building.
      case building of
        None \<Rightarrow> tx_return False
      | Some p \<Rightarrow>
          tx_bind (tx_read run_find_live) (\<lambda>live.
          if live \<noteq> None then tx_return False else profile_mark_failed e (ep_id p))))"

text \<open>The genesis profile of a first boot, under the provisioning locks: each statement
  commits on its own, a building profile a crashed boot left is adopted, \<open>index\<close>
  is what building the empty tables' indexes returned.\<close>

definition provision_genesis :: "env \<Rightarrow> uuid \<Rightarrow> nat \<Rightarrow> new_profile \<Rightarrow> db_error + unit
    \<Rightarrow> (db, db_error, unit) proc" where
  "provision_genesis e i gap genesis index =
     proc_bind (proc_read profile_find_active) (\<lambda>active.
     if active \<noteq> None then proc_return () else
     proc_bind (proc_read profile_find_building) (\<lambda>building.
     proc_bind (case building of Some p \<Rightarrow> proc_return p | None \<Rightarrow> stmt (profile_insert e i gap genesis)) (\<lambda>p.
     case index of
       Inl err \<Rightarrow> proc_fail err
     | Inr _ \<Rightarrow> proc_then (stmt (profile_mark_complete e (ep_id p))) (proc_return ()))))"

section \<open>Enrolment\<close>

definition backfill_range_width :: nat where
  "backfill_range_width = 256"

definition range_ref :: "uuid \<Rightarrow> uuid \<Rightarrow> string" where
  "range_ref lo hi = ''range:'' @ uuid_text lo @ ''..'' @ uuid_text hi"

text \<open>What remains to page through after an identifier.\<close>

definition missing_after :: "uuid \<Rightarrow> uuid option \<Rightarrow> db \<Rightarrow> uuid list" where
  "missing_after building after s = sort (map ki_id (filter (\<lambda>k. item_unembedded building s k \<and>
     (case after of None \<Rightarrow> True | Some a \<Rightarrow> a < ki_id k)) (gr_items (db_graph s))))"

lemma embedding_find_missing_take:
  "embedding_find_missing building after limit s = take limit (missing_after building after s)"
  by (simp add: embedding_find_missing_def missing_after_def)

lemma rtask_upsert_items:
  "rtask_upsert e i n s = Inr (r, s') \<Longrightarrow> missing_after b a s' = missing_after b a s"
  by (auto simp: rtask_upsert_def Let_def tx_defs update_graph_def missing_after_def item_unembedded_def
      is_quarantined_def split: if_splits)

lemma missing_after_next:
  assumes "take limit (missing_after b after s) \<noteq> []"
  shows "length (missing_after b (Some (last (take limit (missing_after b after s)))) s)
    < length (missing_after b after s)"
proof -
  let ?hi = "last (take limit (missing_after b after s))"
  let ?P = "\<lambda>k. item_unembedded b s k \<and> (case after of None \<Rightarrow> True | Some a \<Rightarrow> a < ki_id k)"
  have "?hi \<in> set (missing_after b after s)" using assms last_in_set in_set_takeD by metis
  then obtain k where k: "k \<in> set (gr_items (db_graph s))" "?P k" "ki_id k = ?hi"
    by (auto simp: missing_after_def)
  have "length (filter (\<lambda>j. item_unembedded b s j \<and> ?hi < ki_id j) xs) < length (filter ?P xs)"
    if "k \<in> set xs" for xs
  proof -
    have "\<exists>ys zs. xs = ys @ k # zs" using that by (rule split_list)
    then obtain ys zs where xs: "xs = ys @ k # zs" by blast
    have "length (filter (\<lambda>j. item_unembedded b s j \<and> ?hi < ki_id j) ys) \<le> length (filter ?P ys)" for ys
      using k(2,3) by (induction ys) (auto split: option.splits)
    then show ?thesis using k(2,3) unfolding xs by (simp add: add_le_less_mono le_imp_less_Suc add_mono)
  qed
  then show ?thesis using k(1) by (simp add: missing_after_def)
qed

function enrol_items :: "env \<Rightarrow> (nat \<Rightarrow> uuid) \<Rightarrow> nat \<Rightarrow> uuid \<Rightarrow> uuid \<Rightarrow> nat \<Rightarrow> uuid option \<Rightarrow> db
    \<Rightarrow> (db_error + nat) \<times> db" where
  "enrol_items e ids k run building items after s =
     (let page = embedding_find_missing building after backfill_range_width s in
      if page = [] then (Inr items, s)
      else case rtask_upsert e (ids k) \<lparr>nrt_run_id = run, nrt_kind = ItemEntity,
           nrt_target_ref = range_ref (hd page) (last page)\<rparr> s of
        Inl err \<Rightarrow> (Inl err, s)
      | Inr (_, s') \<Rightarrow> enrol_items e ids (k + 1) run building (items + length page) (Some (last page)) s')"
  by pat_completeness auto
termination
proof (relation "measure (\<lambda>(e, ids, k, run, building, items, after, s). length (missing_after building after s))")
  show "wf (measure (\<lambda>(e, ids, k, run, building, items, after, s). length (missing_after building after s)))"
    by simp
next
  fix e ids and k :: nat and run building items after s page x n s'
  assume page: "page = embedding_find_missing building after backfill_range_width s" "page \<noteq> []"
    and up: "rtask_upsert e (ids k) \<lparr>nrt_run_id = run, nrt_kind = ItemEntity,
           nrt_target_ref = range_ref (hd page) (last page)\<rparr> s = Inr x" "(n, s') = x"
  have "missing_after building (Some (last page)) s' = missing_after building (Some (last page)) s"
    using rtask_upsert_items up by metis
  then show "((e, ids, k + 1, run, building, items + length page, Some (last page), s'),
      (e, ids, k, run, building, items, after, s))
    \<in> measure (\<lambda>(e, ids, k, run, building, items, after, s). length (missing_after building after s))"
    using missing_after_next page by (simp add: embedding_find_missing_take)
qed

fun enrol_tags :: "env \<Rightarrow> (nat \<Rightarrow> uuid) \<Rightarrow> nat \<Rightarrow> uuid \<Rightarrow> string list \<Rightarrow> db \<Rightarrow> (db_error + unit) \<times> db" where
  "enrol_tags e ids k run [] = proc_return ()"
| "enrol_tags e ids k run (t # ts) =
     proc_then (stmt (rtask_upsert e (ids k) \<lparr>nrt_run_id = run, nrt_kind = TagEntity,
         nrt_target_ref = ''tag:'' @ t\<rparr>))
       (enrol_tags e ids (k + 1) run ts)"

definition clamp_u32 :: "nat \<Rightarrow> nat" where
  "clamp_u32 n = min n (2 ^ 32 - 1)"

definition enrol_backfill :: "env \<Rightarrow> (nat \<Rightarrow> uuid) \<Rightarrow> (nat \<Rightarrow> uuid) \<Rightarrow> uuid \<Rightarrow> uuid \<Rightarrow> db
    \<Rightarrow> (db_error + nat \<times> nat) \<times> db" where
  "enrol_backfill e ids tag_ids run building =
     proc_bind (enrol_items e ids 0 run building 0 None) (\<lambda>items.
     proc_bind (proc_read (tags_missing_embeddings building)) (\<lambda>tags.
     proc_then (enrol_tags e tag_ids 0 run tags)
     (proc_return (clamp_u32 items, clamp_u32 (length tags)))))"

definition drive_reindex :: "env \<Rightarrow> (nat \<Rightarrow> uuid) \<Rightarrow> (nat \<Rightarrow> uuid) \<Rightarrow> db
    \<Rightarrow> (db_error + reindex_run option) \<times> db" where
  "drive_reindex e ids tag_ids =
     proc_bind (proc_read run_find_live) (\<lambda>live.
     case live of
       None \<Rightarrow> proc_return None
     | Some run \<Rightarrow>
         proc_bind (if rr_state run = RunQueued
           then stmt (run_transition e (rr_id run) RunQueued RunRunning None) else proc_return True) (\<lambda>going.
         if \<not> going then proc_return None
         else if rr_items_enumerated run = None then
           proc_bind (enrol_backfill e ids tag_ids (rr_id run) (rr_target_profile_id run)) (\<lambda>(items, tags).
           proc_then (stmt (run_set_enumerated (rr_id run) items tags)) (proc_return (Some run)))
         else proc_return (Some run)))"

section \<open>Retries\<close>

definition reindex_retry_shift_cap :: nat where
  "reindex_retry_shift_cap = 6"

definition retry_at :: "env \<Rightarrow> nat \<Rightarrow> instant" where
  "retry_at e attempt = env_utc_now e + seconds (2 ^ min attempt reindex_retry_shift_cap)"

record retry_signal =
  rs_class :: embedding_error_class
  rs_retry_after :: "int option"
  rs_message :: string

text \<open>A delay too long for its duration type is cut to that type's maximum; adding it
  past the last representable instant panics, which is \<open>None\<close>.\<close>

definition retry_at_for :: "env \<Rightarrow> retry_signal \<Rightarrow> nat \<Rightarrow> instant option" where
  "retry_at_for e signal attempt =
     (case rs_retry_after signal of
        None \<Rightarrow> Some (retry_at e attempt)
      | Some delay \<Rightarrow>
          (let t = env_utc_now e + min delay time_delta_max in
           if t \<le> date_time_max then Some t else None))"

definition retry_signal_for :: "inference_error \<Rightarrow> retry_signal" where
  "retry_signal_for err = \<lparr>rs_class = classify_embedding_error err,
     rs_retry_after = embedding_retry_after err, rs_message = inference_error_text err\<rparr>"

datatype embed_failure = FailQuarantine string | FailRetry retry_signal

definition classify_embedding :: "embedding_profile \<Rightarrow> inference_error + vector \<Rightarrow> embed_failure + vector" where
  "classify_embedding building result =
     (case result of
        Inr v \<Rightarrow>
          if length v = ep_dimensions building then Inr v
          else Inl (FailQuarantine (''expected '' @ show_nat (ep_dimensions building) @
            '' dimensions, got '' @ show_nat (length v)))
      | Inl err \<Rightarrow>
          Inl (if classify_embedding_error err = Permanent then FailQuarantine (inference_error_text err)
            else FailRetry (retry_signal_for err)))"

end
