(* ===== verification/ReindexDrive.thy ===== *)
theory ReindexDrive
  imports Reindex
begin

text \<open>
  The drive cycle of a reindex run (\<open>tribal-worker/src/worker/reindex.rs\<close>) and
  the operator's cancel and prune (\<open>reindex_ops.rs\<close>). Round \<open>k\<close> of the cycle has
  the ambient values, generated identifiers and gateway answers of that moment,
  and \<open>dv_others k\<close> is what other transactions did while the round's provider
  call was in flight.
\<close>

datatype embedding_purpose = PurposeCandidate | PurposeQuery | PurposeTag | PurposeProbe

record drive =
  dv_env :: "nat \<Rightarrow> env"
  dv_ids :: "nat \<Rightarrow> nat \<Rightarrow> uuid"
  dv_tag_ids :: "nat \<Rightarrow> nat \<Rightarrow> uuid"
  dv_fresh :: "nat \<Rightarrow> uuid \<Rightarrow> uuid"
  dv_locked :: "nat \<Rightarrow> uuid \<Rightarrow> bool"
  dv_run_locked :: "nat \<Rightarrow> bool"
  dv_others :: "nat \<Rightarrow> db \<Rightarrow> db"
  dv_embed :: "nat \<Rightarrow> embedding_purpose \<Rightarrow> string list \<Rightarrow> inference_error + (inference_error + vector) list"
  dv_token :: "nat \<Rightarrow> inference_error + string"
  dv_probe :: "nat \<Rightarrow> inference_error + vector"
  dv_digest :: "vector \<Rightarrow> string"
  dv_prepare :: "inference_error + unit"
  dv_index :: "db_error + unit"

type_synonym 'a db_proc = "(db, db_error, 'a) proc"

definition in_flight :: "drive \<Rightarrow> nat \<Rightarrow> unit db_proc" where
  "in_flight dv k s = (Inr (), dv_others dv k s)"

section \<open>Embedding what is missing\<close>

definition quarantine_entity :: "env \<Rightarrow> reindex_run \<Rightarrow> embedding_profile \<Rightarrow> reindex_entity \<Rightarrow> string \<Rightarrow> string
    \<Rightarrow> bool db_tx" where
  "quarantine_entity e run building kind ref msg = quarantine_record e \<lparr>nq_run_id = rr_id run,
     nq_profile_id = ep_id building, nq_kind = kind, nq_entity_ref = ref, nq_error_class = Permanent,
     nq_error_message = Some msg\<rparr>"

fun settle_items :: "env \<Rightarrow> reindex_run \<Rightarrow> embedding_profile
    \<Rightarrow> (knowledge_item \<times> (inference_error + vector)) list
    \<Rightarrow> (new_embedding list \<times> nat \<times> retry_signal option) db_proc" where
  "settle_items e run building [] = proc_return ([], 0, None)"
| "settle_items e run building ((item, result) # rest) =
     (case classify_embedding building result of
        Inr v \<Rightarrow>
          proc_bind (settle_items e run building rest) (\<lambda>(rows, q, retry).
          proc_return (\<lparr>nem_knowledge_item_id = ki_id item, nem_profile_id = ep_id building,
             nem_model = ep_model building, nem_vector = v\<rparr> # rows, q, retry))
      | Inl (FailQuarantine msg) \<Rightarrow>
          proc_bind (stmt (quarantine_entity e run building ItemEntity (uuid_text (ki_id item)) msg)) (\<lambda>new.
          proc_bind (settle_items e run building rest) (\<lambda>(rows, q, retry).
          proc_return (rows, (if new then q + 1 else q), retry)))
      | Inl (FailRetry signal) \<Rightarrow>
          proc_bind (settle_items e run building rest) (\<lambda>(rows, q, _).
          proc_return (rows, q, Some signal)))"

definition embed_pending_batch :: "drive \<Rightarrow> nat \<Rightarrow> reindex_run \<Rightarrow> embedding_profile
    \<Rightarrow> retry_signal option db_proc" where
  "embed_pending_batch dv k run building =
     proc_bind (proc_read (embedding_find_missing (ep_id building) None backfill_range_width)) (\<lambda>ids.
     if ids = [] then proc_return None else
     proc_bind (proc_read (item_find_by_ids ids)) (\<lambda>items.
     proc_then (in_flight dv k)
     (case dv_embed dv k PurposeCandidate (map ki_content items) of
        Inl err \<Rightarrow> proc_return (Some (retry_signal_for err))
      | Inr results \<Rightarrow>
          proc_bind (settle_items (dv_env dv k) run building (zip items results)) (\<lambda>(rows, q, retry).
          proc_bind (stmt (embedding_batch_insert (dv_env dv k) (dv_ids dv k) rows)) (\<lambda>n.
          proc_then (if n > 0 then stmt (run_bump_embedded (rr_id run) n 0) else proc_return ())
         (proc_then (if q > 0 then stmt (run_bump_quarantined (rr_id run) q 0) else proc_return ())
          (proc_return retry)))))))"

definition embed_one_tag :: "drive \<Rightarrow> nat \<Rightarrow> reindex_run \<Rightarrow> embedding_profile \<Rightarrow> string
    \<Rightarrow> retry_signal option db_proc" where
  "embed_one_tag dv k run building tag =
     proc_then (in_flight dv k)
     (case dv_embed dv k PurposeTag [tag] of
        Inl err \<Rightarrow> proc_return (Some (retry_signal_for err))
      | Inr [] \<Rightarrow> proc_return (Some \<lparr>rs_class = Transient, rs_retry_after = None,
            rs_message = ''embedding returned no result''\<rparr>)
      | Inr (r # rs) \<Rightarrow>
          (case classify_embedding building (last (r # rs)) of
             Inr v \<Rightarrow>
               proc_then (stmt (tag_embedding_batch_upsert
                 [\<lparr>tm_tag = tag, tm_profile_id = ep_id building, tm_model = ep_model building, tm_vector = v\<rparr>]))
              (proc_then (stmt (run_bump_embedded (rr_id run) 0 1)) (proc_return None))
           | Inl (FailQuarantine msg) \<Rightarrow>
               proc_bind (stmt (quarantine_entity (dv_env dv k) run building TagEntity tag msg)) (\<lambda>new.
               proc_then (if new then stmt (run_bump_quarantined (rr_id run) 0 1) else proc_return ())
               (proc_return None))
           | Inl (FailRetry signal) \<Rightarrow> proc_return (Some signal)))"

section \<open>Tasks\<close>

datatype task_ref = ItemBatch | TagRef string

definition parse_task_ref :: "string \<Rightarrow> task_ref option" where
  "parse_task_ref r =
     (if take 6 r = ''range:'' then Some ItemBatch
      else if take 4 r = ''tag:'' then Some (TagRef (drop 4 r)) else None)"

text \<open>A batch or tag that must be retried fails its task until the retry instant; a
  panic of the instant's arithmetic surfaces as one.\<close>

definition settle_task :: "env \<Rightarrow> uuid \<Rightarrow> nat \<Rightarrow> uuid \<Rightarrow> retry_signal option \<Rightarrow> unit db_proc" where
  "settle_task e task attempt tok retry =
     (case retry of
        Some signal \<Rightarrow>
          (case retry_at_for e signal attempt of
             None \<Rightarrow> proc_fail (DbPanic ''DateTime + TimeDelta overflowed'')
           | Some t \<Rightarrow> proc_then (stmt (rtask_fail e task tok t (rs_class signal) (rs_message signal)))
               (proc_return ()))
      | None \<Rightarrow> proc_then (stmt (rtask_complete e task tok)) (proc_return ()))"

definition process_item_batch :: "drive \<Rightarrow> nat \<Rightarrow> reindex_run \<Rightarrow> embedding_profile \<Rightarrow> uuid \<Rightarrow> nat \<Rightarrow> uuid
    \<Rightarrow> unit db_proc" where
  "process_item_batch dv k run building task attempt tok =
     proc_bind (embed_pending_batch dv k run building) (settle_task (dv_env dv k) task attempt tok)"

definition process_tag :: "drive \<Rightarrow> nat \<Rightarrow> reindex_run \<Rightarrow> embedding_profile \<Rightarrow> string \<Rightarrow> uuid \<Rightarrow> nat \<Rightarrow> uuid
    \<Rightarrow> unit db_proc" where
  "process_tag dv k run building tag task attempt tok =
     proc_bind (embed_one_tag dv k run building tag) (settle_task (dv_env dv k) task attempt tok)"

definition process_one :: "drive \<Rightarrow> nat \<Rightarrow> reindex_run \<Rightarrow> embedding_profile \<Rightarrow> reindex_task \<Rightarrow> unit db_proc" where
  "process_one dv k run building t =
     (case rt_claim_token t of
        None \<Rightarrow> proc_return ()
      | Some tok \<Rightarrow>
          (case parse_task_ref (rt_target_ref t) of
             Some ItemBatch \<Rightarrow> process_item_batch dv k run building (rt_id t) (rt_attempt t) tok
           | Some (TagRef tag) \<Rightarrow> process_tag dv k run building tag (rt_id t) (rt_attempt t) tok
           | None \<Rightarrow> proc_then (stmt (rtask_fail (dv_env dv k) (rt_id t) tok
               (retry_at (dv_env dv k) (rt_attempt t)) Permanent ''unrecognised reindex task ref''))
               (proc_return ())))"

definition run_still_live :: "uuid \<Rightarrow> db \<Rightarrow> bool" where
  "run_still_live i s = (case run_find_by_id i s of None \<Rightarrow> False | Some r \<Rightarrow> \<not> run_state_terminal (rr_state r))"

text \<open>The loop ends when nothing is claimable; it is bounded by the rounds given,
  \<open>OutOfRounds\<close> says they did not suffice.\<close>

datatype task_drain = Drained | RunGone | OutOfRounds

definition reindex_task_claim_limit :: nat where
  "reindex_task_claim_limit = 1"

fun process_claimed :: "drive \<Rightarrow> nat \<Rightarrow> reindex_run \<Rightarrow> embedding_profile \<Rightarrow> reindex_task list \<Rightarrow> bool db_proc" where
  "process_claimed dv k run building [] = proc_return True"
| "process_claimed dv k run building (t # ts) =
     proc_bind (proc_read (run_still_live (rr_id run))) (\<lambda>live.
     if \<not> live then proc_return False
     else proc_then (process_one dv k run building t) (process_claimed dv k run building ts))"

fun process_tasks :: "drive \<Rightarrow> reindex_run \<Rightarrow> embedding_profile \<Rightarrow> string \<Rightarrow> nat \<Rightarrow> nat \<Rightarrow> task_drain db_proc" where
  "process_tasks dv run building by 0 k = proc_return OutOfRounds"
| "process_tasks dv run building by (Suc rounds) k =
     proc_bind (stmt (rtask_claim (rr_id run) (dv_run_locked dv k) (dv_env dv k) (dv_locked dv k)
        (dv_fresh dv k) reindex_task_claim_limit by)) (\<lambda>tasks.
     if tasks = [] then proc_return Drained else
     proc_bind (process_claimed dv k run building tasks) (\<lambda>going.
     if \<not> going then proc_return RunGone
     else process_tasks dv run building by rounds (k + 1)))"

section \<open>Failing a run\<close>

text \<open>Profile, then run; both are compare-and-set.\<close>

definition fail_run_tx :: "env \<Rightarrow> reindex_run \<Rightarrow> embedding_profile \<Rightarrow> string \<Rightarrow> unit db_tx" where
  "fail_run_tx e run building reason =
     tx_then (profile_mark_failed e (ep_id building))
    (tx_then (run_transition e (rr_id run) RunRunning RunFailed (Some reason)) (tx_return ()))"

definition fail_run :: "env \<Rightarrow> reindex_run \<Rightarrow> embedding_profile \<Rightarrow> string \<Rightarrow> unit db_proc" where
  "fail_run e run building reason =
     run_txn (tx_then (fail_run_tx e run building reason) (tx_return (Commit ())))"

definition reindex_quarantine_cap_divisor :: int where
  "reindex_quarantine_cap_divisor = 4"

definition quarantine_exceeds_cap :: "reindex_run \<Rightarrow> bool" where
  "quarantine_exceeds_cap r =
     (case rr_items_enumerated r of
        None \<Rightarrow> False
      | Some n \<Rightarrow> int n < rr_items_quarantined r * reindex_quarantine_cap_divisor)"

definition over_cap :: "uuid \<Rightarrow> db \<Rightarrow> bool" where
  "over_cap i s = (case run_find_by_id i s of None \<Rightarrow> False | Some r \<Rightarrow> quarantine_exceeds_cap r)"

definition run_dead_lettered :: "uuid \<Rightarrow> db \<Rightarrow> bool" where
  "run_dead_lettered i s = list_ex (\<lambda>(st, n). st = RTaskDeadLetter \<and> 0 < n) (rtask_count_by_state i s)"

section \<open>Cutover\<close>

datatype probe_outcome = ProbeStable | ProbeDrifted | ProbeUnavailable

definition probe_drifted :: "drive \<Rightarrow> nat \<Rightarrow> embedding_profile \<Rightarrow> probe_outcome" where
  "probe_drifted dv k building =
     (case dv_token dv k of
        Inl _ \<Rightarrow> ProbeUnavailable
      | Inr token \<Rightarrow>
          if token \<noteq> '''' \<and> token \<noteq> ep_revision_token building then ProbeDrifted
          else case ep_probe_digest building of
            None \<Rightarrow> ProbeStable
          | Some stored \<Rightarrow>
              (case dv_probe dv k of
                 Inr v \<Rightarrow> if dv_digest dv v = stored then ProbeStable else ProbeDrifted
               | Inl _ \<Rightarrow> ProbeUnavailable))"

definition count_remaining :: "uuid \<Rightarrow> db \<Rightarrow> nat" where
  "count_remaining building s =
     embedding_count_missing building s + length (tags_missing_embeddings building s)"

datatype cutover_outcome = CutFailed | CutLost | CutDone | CutRemaining nat

definition cutover_txn :: "env \<Rightarrow> reindex_run \<Rightarrow> embedding_profile \<Rightarrow> probe_outcome \<Rightarrow> cutover_outcome ending db_tx" where
  "cutover_txn e run building probe =
     tx_bind (tx_read (count_remaining (ep_id building))) (\<lambda>remaining.
     if remaining \<noteq> 0 then tx_return (Rollback (CutRemaining remaining))
     else if probe = ProbeDrifted then
       tx_then (fail_run_tx e run building
          ''probe digest or revision token drifted during build; rebuild required'')
         (tx_return (Commit CutFailed))
     else
       tx_bind (profile_mark_complete e (ep_id building)) (\<lambda>flipped.
       if \<not> flipped then tx_return (Rollback CutLost)
       else tx_then (run_transition e (rr_id run) RunRunning RunCompleted None)
         (tx_return (Commit CutDone))))"

fun embed_pending_tags :: "drive \<Rightarrow> nat \<Rightarrow> reindex_run \<Rightarrow> embedding_profile \<Rightarrow> string list
    \<Rightarrow> retry_signal option db_proc" where
  "embed_pending_tags dv k run building [] = proc_return None"
| "embed_pending_tags dv k run building (t # ts) =
     proc_bind (embed_one_tag dv k run building t) (\<lambda>first.
     proc_bind (embed_pending_tags dv k run building ts) (\<lambda>rest.
     proc_return (case first of Some x \<Rightarrow> Some x | None \<Rightarrow> rest)))"

definition sweep_pending :: "drive \<Rightarrow> nat \<Rightarrow> reindex_run \<Rightarrow> embedding_profile \<Rightarrow> retry_signal option db_proc" where
  "sweep_pending dv k run building =
     proc_bind (embed_pending_batch dv k run building) (\<lambda>items.
     proc_bind (proc_read (tags_missing_embeddings (ep_id building))) (\<lambda>tags.
     proc_bind (embed_pending_tags dv k run building tags) (\<lambda>retry.
     proc_return (case items of Some x \<Rightarrow> Some x | None \<Rightarrow> retry))))"

definition reindex_cutover_max_passes :: nat where
  "reindex_cutover_max_passes = 1024"

fun catch_up :: "drive \<Rightarrow> reindex_run \<Rightarrow> embedding_profile \<Rightarrow> nat \<Rightarrow> nat \<Rightarrow> nat option \<Rightarrow> bool db_proc" where
  "catch_up dv run building 0 k prev = proc_return False"
| "catch_up dv run building (Suc passes) k prev =
     proc_bind (sweep_pending dv k run building) (\<lambda>retry.
     proc_bind (proc_read (over_cap (rr_id run))) (\<lambda>over.
     if over then proc_then (fail_run (dv_env dv k) run building
         ''quarantined items exceeded the cap; rebuild required'') (proc_return False)
     else proc_bind (proc_read (count_remaining (ep_id building))) (\<lambda>remaining.
     if remaining \<noteq> 0 then
       if retry \<noteq> None \<and> prev = Some remaining then proc_return False
       else catch_up dv run building passes (k + 1) (Some remaining)
     else
       proc_then (in_flight dv k)
       (if probe_drifted dv k building = ProbeUnavailable then proc_return False
        else proc_bind (run_txn (cutover_txn (dv_env dv k) run building (probe_drifted dv k building))) (\<lambda>out.
          case out of
            CutFailed \<Rightarrow> proc_return False
          | CutLost \<Rightarrow> proc_return False
          | CutDone \<Rightarrow> proc_return True
          | CutRemaining n \<Rightarrow> catch_up dv run building passes (k + 1) (Some n))))))"

definition catch_up_and_cutover :: "drive \<Rightarrow> reindex_run \<Rightarrow> embedding_profile \<Rightarrow> nat \<Rightarrow> bool db_proc" where
  "catch_up_and_cutover dv run building k = catch_up dv run building reindex_cutover_max_passes k None"

section \<open>A cycle\<close>

datatype reindex_error = ReindexDb db_error | ReindexProvider inference_error

text \<open>Past the drain: fail a spent or degraded run, build the indexes, cut over.\<close>

definition finish_cycle :: "drive \<Rightarrow> nat \<Rightarrow> reindex_run \<Rightarrow> embedding_profile \<Rightarrow> unit db_proc" where
  "finish_cycle dv k run building =
     proc_bind (proc_read (run_still_live (rr_id run))) (\<lambda>live.
     if \<not> live then proc_return () else
     proc_bind (proc_read (run_dead_lettered (rr_id run))) (\<lambda>dead.
     if dead then fail_run (dv_env dv k) run building ''a reindex task dead-lettered; rebuild required''
     else proc_bind (proc_read (over_cap (rr_id run))) (\<lambda>over.
     if over then fail_run (dv_env dv k) run building ''quarantined items exceeded the cap; rebuild required''
     else proc_then (in_flight dv k)
    (case dv_index dv of
       Inl err \<Rightarrow> proc_fail err
     | Inr _ \<Rightarrow>
         proc_bind (proc_read (run_still_live (rr_id run))) (\<lambda>still.
         if \<not> still then proc_return ()
         else proc_then (catch_up_and_cutover dv run building (k + 1)) (proc_return ()))))))"

definition drive_reindex_cycle :: "drive \<Rightarrow> string \<Rightarrow> nat \<Rightarrow> (db, reindex_error, unit) proc" where
  "drive_reindex_cycle dv by rounds =
     proc_bind (proc_map_err ReindexDb (drive_reindex (dv_env dv 0) (dv_ids dv 0) (dv_tag_ids dv 0))) (\<lambda>live.
     case live of
       None \<Rightarrow> proc_return ()
     | Some run \<Rightarrow>
         proc_bind (proc_read profile_find_building) (\<lambda>found.
         case found of
           None \<Rightarrow> proc_return ()
         | Some building \<Rightarrow>
             (case dv_prepare dv of
                Inl err \<Rightarrow> proc_fail (ReindexProvider err)
              | Inr _ \<Rightarrow>
                  proc_bind (proc_map_err ReindexDb (process_tasks dv run building by rounds 1)) (\<lambda>drain.
                  if drain \<noteq> Drained then proc_return ()
                  else proc_map_err ReindexDb (finish_cycle dv (rounds + 1) run building)))))"

section \<open>Cancel and prune\<close>

datatype cancel_result = ReindexCancelled uuid | NoLiveRun

definition reindex_cancel :: "env \<Rightarrow> cancel_result db_tx" where
  "reindex_cancel e =
     tx_bind (tx_read run_find_live) (\<lambda>live.
     case live of
       None \<Rightarrow> tx_return NoLiveRun
     | Some run \<Rightarrow>
         tx_then (profile_mark_failed e (rr_target_profile_id run))
        (tx_bind (run_transition e (rr_id run) (rr_state run) RunAborted (Some ''cancelled by operator'')) (\<lambda>aborted.
         tx_return (if aborted then ReindexCancelled (rr_id run) else NoLiveRun))))"

record prune_outcome =
  pn_profiles :: nat
  pn_embeddings :: nat
  pn_tag_embeddings :: nat
  pn_epochs :: "int list"

definition reindex_prune :: "(int \<Rightarrow> bool) \<Rightarrow> prune_outcome db_tx" where
  "reindex_prune indexed =
     tx_bind profile_supersede_prunable (\<lambda>newly.
     tx_bind embedding_delete_superseded (\<lambda>embeddings.
     tx_bind tag_embedding_delete_superseded (\<lambda>tags.
     tx_bind (tx_read (profile_prunable_index_epochs indexed)) (\<lambda>epochs.
     tx_return \<lparr>pn_profiles = length newly, pn_embeddings = embeddings, pn_tag_embeddings = tags,
       pn_epochs = epochs\<rparr>))))"

definition prune_txn :: "bool \<Rightarrow> (int \<Rightarrow> bool) \<Rightarrow> prune_outcome ending db_tx" where
  "prune_txn preview indexed =
     tx_bind (reindex_prune indexed) (\<lambda>out. tx_return (if preview then Rollback out else Commit out))"

section \<open>The operator's create request\<close>

datatype reindex_resolution =
    ResolutionPlan
  | ResolutionCreated uuid
  | ResolutionAlreadyLive uuid
  | ResolutionUnchanged
  | ResolutionLockContended
  | ResolutionTransitionInProgress

fun resolution_label :: "reindex_resolution \<Rightarrow> string" where
  "resolution_label ResolutionPlan = ''plan''"
| "resolution_label (ResolutionCreated _) = ''created''"
| "resolution_label (ResolutionAlreadyLive _) = ''already_live''"
| "resolution_label ResolutionUnchanged = ''unchanged''"
| "resolution_label ResolutionLockContended = ''lock_contended''"
| "resolution_label ResolutionTransitionInProgress = ''graph_transition_in_progress''"

fun resolution_run_id :: "reindex_resolution \<Rightarrow> uuid option" where
  "resolution_run_id (ResolutionCreated i) = Some i"
| "resolution_run_id (ResolutionAlreadyLive i) = Some i"
| "resolution_run_id _ = None"

definition estimate_corpus :: "uuid \<Rightarrow> db \<Rightarrow> nat \<times> nat" where
  "estimate_corpus p s = (embedding_count_missing p s, length (tags_missing_embeddings p s))"

fun creation_estimate_profile :: "creation_outcome \<Rightarrow> uuid option" where
  "creation_estimate_profile (CreationCreated r) = Some (rr_target_profile_id r)"
| "creation_estimate_profile (CreationAlreadyLive r) = Some (rr_target_profile_id r)"
| "creation_estimate_profile (CreationUnchanged p) = Some (ep_id p)"
| "creation_estimate_profile _ = None"

fun creation_resolution :: "creation_outcome \<Rightarrow> reindex_resolution" where
  "creation_resolution (CreationCreated r) = ResolutionCreated (rr_id r)"
| "creation_resolution (CreationAlreadyLive r) = ResolutionAlreadyLive (rr_id r)"
| "creation_resolution (CreationUnchanged _) = ResolutionUnchanged"
| "creation_resolution CreationLockContended = ResolutionLockContended"
| "creation_resolution CreationTransitionInProgress = ResolutionTransitionInProgress"

text \<open>A dry run only estimates, against the active profile when the geometry is its
  own and otherwise against an identifier never used.\<close>

definition dry_run_estimate_profile :: "uuid \<Rightarrow> provider_kind \<Rightarrow> string \<Rightarrow> string \<Rightarrow> nat \<Rightarrow> db \<Rightarrow> uuid" where
  "dry_run_estimate_profile unused provider url model dimensions s =
     (case profile_find_active s of
        Some p \<Rightarrow> if matches_geometry p provider url model dimensions Cosine then ep_id p else unused
      | None \<Rightarrow> unused)"

definition stage_reindex_run :: "env \<Rightarrow> creation_ids \<Rightarrow> (string \<Rightarrow> string) \<Rightarrow> bool \<Rightarrow> bool \<Rightarrow> reindex_target
    \<Rightarrow> uuid \<Rightarrow> (reindex_resolution \<times> nat \<times> nat) ending db_tx" where
  "stage_reindex_run e ids sha256_hex admitted granted target by =
     tx_bind (create_reindex_run e ids sha256_hex admitted granted target by) (\<lambda>creation.
     tx_bind (tx_read (\<lambda>s. case creation_estimate_profile creation of
          Some p \<Rightarrow> estimate_corpus p s | None \<Rightarrow> (0, 0))) (\<lambda>(items, tags).
     tx_return (Commit (creation_resolution creation, items, tags))))"

definition plan_reindex_run :: "uuid \<Rightarrow> provider_kind \<Rightarrow> string \<Rightarrow> string \<Rightarrow> nat \<Rightarrow> db
    \<Rightarrow> reindex_resolution \<times> nat \<times> nat" where
  "plan_reindex_run unused provider url model dimensions s =
     (ResolutionPlan, estimate_corpus (dry_run_estimate_profile unused provider url model dimensions s) s)"

end
