(* ===== verification/Authority.thy ===== *)
theory Authority
  imports Graph
begin

text \<open>
  The contract of the embedding-profile authority, which the reindex statements
  and transactions implement (\<open>ReindexSteps\<close>): profiles in the order of their
  epochs, runs that build one each. At most one run is live; the profile it
  builds is the newest, so that completing it makes it the active one. Every
  change of a profile's or a run's state is one of the moves below.
\<close>

record auth_profile =
  ap_id :: uuid
  ap_epoch :: int
  ap_state :: profile_state

record auth_run =
  ar_id :: uuid
  ar_target :: uuid
  ar_state :: run_state

record authority =
  au_profiles :: "auth_profile list"
  au_runs :: "auth_run list"

definition au_live :: "authority \<Rightarrow> auth_run list" where
  "au_live a = filter (\<lambda>r. ar_state r \<in> {RunQueued, RunRunning}) (au_runs a)"

definition au_complete :: "authority \<Rightarrow> auth_profile list" where
  "au_complete a = filter (\<lambda>p. ap_state p = ProfileComplete) (au_profiles a)"

definition au_active :: "authority \<Rightarrow> auth_profile option" where
  "au_active a = (if au_complete a = [] then None else Some (last (au_complete a)))"

definition move_profile :: "uuid \<Rightarrow> profile_state \<Rightarrow> profile_state \<Rightarrow> authority \<Rightarrow> authority" where
  "move_profile i source target a = a\<lparr>au_profiles :=
     sql_update (\<lambda>p. ap_id p = i \<and> ap_state p = source) (\<lambda>p. p\<lparr>ap_state := target\<rparr>) (au_profiles a)\<rparr>"

definition move_run :: "uuid \<Rightarrow> run_state \<Rightarrow> run_state \<Rightarrow> authority \<Rightarrow> authority" where
  "move_run i source target a = a\<lparr>au_runs :=
     sql_update (\<lambda>r. ar_id r = i \<and> ar_state r = source) (\<lambda>r. r\<lparr>ar_state := target\<rparr>) (au_runs a)\<rparr>"

definition superseded_by :: "auth_profile list \<Rightarrow> auth_profile \<Rightarrow> bool" where
  "superseded_by ps p \<longleftrightarrow> ap_state p = ProfileFailed \<or> (ap_state p = ProfileComplete \<and>
     sql_exists (\<lambda>x. ap_state x = ProfileComplete \<and> ap_epoch p < ap_epoch x) ps)"

definition supersede :: "authority \<Rightarrow> authority" where
  "supersede a = a\<lparr>au_profiles :=
     sql_update (superseded_by (au_profiles a)) (\<lambda>p. p\<lparr>ap_state := ProfileSuperseded\<rparr>) (au_profiles a)\<rparr>"

definition new_building :: "uuid \<Rightarrow> int \<Rightarrow> authority \<Rightarrow> authority" where
  "new_building i n a = a\<lparr>au_profiles := au_profiles a @ [\<lparr>ap_id = i, ap_epoch = n, ap_state = ProfileBuilding\<rparr>]\<rparr>"

definition new_queued :: "uuid \<Rightarrow> uuid \<Rightarrow> authority \<Rightarrow> authority" where
  "new_queued j i a = a\<lparr>au_runs := au_runs a @ [\<lparr>ar_id = j, ar_target = i, ar_state = RunQueued\<rparr>]\<rparr>"

definition fresh_profile :: "uuid \<Rightarrow> int \<Rightarrow> authority \<Rightarrow> bool" where
  "fresh_profile i n a \<longleftrightarrow> i \<notin> ap_id ` set (au_profiles a) \<and> (\<forall>p \<in> set (au_profiles a). ap_epoch p < n)"

text \<open>A run that was started, with the profile it builds.\<close>

definition started :: "uuid \<Rightarrow> uuid \<Rightarrow> authority \<Rightarrow> bool" where
  "started j i a \<longleftrightarrow> (\<exists>r \<in> set (au_runs a). ar_id r = j \<and> ar_target r = i \<and> ar_state r \<noteq> RunQueued)"

inductive authority_step :: "authority \<Rightarrow> authority \<Rightarrow> bool" where
  create: "au_live a = [] \<Longrightarrow> fresh_profile i n a \<Longrightarrow> j \<notin> ar_id ` set (au_runs a)
    \<Longrightarrow> authority_step a (new_queued j i (new_building i n a))"
| genesis: "au_runs a = [] \<Longrightarrow> fresh_profile i n a \<Longrightarrow> authority_step a (new_building i n a)"
| genesis_done: "au_runs a = [] \<Longrightarrow> au_active a = None
    \<Longrightarrow> authority_step a (move_profile i ProfileBuilding ProfileComplete a)"
| orphan: "au_live a = [] \<Longrightarrow> authority_step a (move_profile i ProfileBuilding ProfileFailed a)"
| promote: "authority_step a (move_run j RunQueued RunRunning a)"
| abandon: "started j i a
    \<Longrightarrow> authority_step a (move_run j RunRunning RunFailed (move_profile i ProfileBuilding ProfileFailed a))"
| cutover: "started j i a \<Longrightarrow> sql_exists (\<lambda>p. ap_id p = i \<and> ap_state p = ProfileBuilding) (au_profiles a)
    \<Longrightarrow> authority_step a (move_run j RunRunning RunCompleted (move_profile i ProfileBuilding ProfileComplete a))"
| cancel: "r \<in> set (au_live a)
    \<Longrightarrow> authority_step a (move_run (ar_id r) (ar_state r) RunAborted
          (move_profile (ar_target r) ProfileBuilding ProfileFailed a))"
| prune: "authority_step a (supersede a)"

lemmas authority_defs = move_profile_def move_run_def supersede_def new_building_def new_queued_def

section \<open>The invariant\<close>

definition authority_ok :: "authority \<Rightarrow> bool" where
  "authority_ok a \<longleftrightarrow> sorted_wrt (<) (map ap_epoch (au_profiles a)) \<and>
     distinct (map ap_id (au_profiles a)) \<and> distinct (map ar_id (au_runs a)) \<and>
     distinct (map ar_target (au_runs a)) \<and> ar_target ` set (au_runs a) \<subseteq> ap_id ` set (au_profiles a) \<and>
     (\<forall>r \<in> set (au_live a). au_profiles a \<noteq> [] \<and> ap_id (last (au_profiles a)) = ar_target r \<and>
        ap_state (last (au_profiles a)) = ProfileBuilding)"

lemma last_sql_update:
  "xs \<noteq> [] \<Longrightarrow> last (sql_update P f xs) = (if P (last xs) then f (last xs) else last xs)"
  by (simp add: sql_update_def last_map)

lemma au_live_same: "au_runs a' = au_runs a \<Longrightarrow> au_live a' = au_live a"
  by (simp add: au_live_def)

lemma move_profile_keys [simp]:
  "map ap_id (au_profiles (move_profile i st st' a)) = map ap_id (au_profiles a)"
  "map ap_epoch (au_profiles (move_profile i st st' a)) = map ap_epoch (au_profiles a)"
  "au_runs (move_profile i st st' a) = au_runs a"
  by (simp_all add: move_profile_def sql_update_map_key)

lemma move_run_keys [simp]:
  "map ar_id (au_runs (move_run i rst rst' a)) = map ar_id (au_runs a)"
  "map ar_target (au_runs (move_run i rst rst' a)) = map ar_target (au_runs a)"
  "au_profiles (move_run i rst rst' a) = au_profiles a"
  by (simp_all add: move_run_def sql_update_map_key)

lemma au_live_kept [simp]:
  "au_live (new_building i n a) = au_live a" "au_live (move_profile i st st' a) = au_live a"
  "au_live (supersede a) = au_live a"
  by (auto intro!: au_live_same simp: authority_defs)

text \<open>A move that leaves the live runs among the live ones and the newest profile
  building keeps the invariant.\<close>

lemma authority_ok_moved:
  assumes ok: "authority_ok a"
    and keys: "map ap_id (au_profiles b) = map ap_id (au_profiles a)"
      "map ap_epoch (au_profiles b) = map ap_epoch (au_profiles a)"
      "map ar_id (au_runs b) = map ar_id (au_runs a)" "map ar_target (au_runs b) = map ar_target (au_runs a)"
    and live: "\<And>r. r \<in> set (au_live b) \<Longrightarrow> \<exists>q \<in> set (au_live a). ar_target q = ar_target r"
    and still: "au_live b \<noteq> [] \<Longrightarrow> au_profiles a \<noteq> [] \<Longrightarrow> ap_state (last (au_profiles a)) = ProfileBuilding
      \<Longrightarrow> ap_state (last (au_profiles b)) = ProfileBuilding"
  shows "authority_ok b"
proof -
  have sets: "ap_id ` set (au_profiles b) = ap_id ` set (au_profiles a)"
    "ar_target ` set (au_runs b) = ar_target ` set (au_runs a)"
    using keys(1,4) by (metis set_map)+
  have "au_profiles b \<noteq> [] \<and> ap_id (last (au_profiles b)) = ar_target r \<and>
      ap_state (last (au_profiles b)) = ProfileBuilding" if "r \<in> set (au_live b)" for r
  proof -
    have "\<exists>q \<in> set (au_live a). ar_target q = ar_target r" using that by (rule live)
    then obtain q where q: "q \<in> set (au_live a)" "ar_target q = ar_target r" by blast
    then have a: "au_profiles a \<noteq> []" "ap_id (last (au_profiles a)) = ar_target r"
      "ap_state (last (au_profiles a)) = ProfileBuilding"
      using ok by (auto simp: authority_ok_def)
    then have ne: "au_profiles b \<noteq> []" using keys(1) by auto
    then have "ap_id (last (au_profiles b)) = ap_id (last (au_profiles a))"
      using keys(1) a(1) by (metis last_map)
    moreover have "au_live b \<noteq> []" using that by auto
    ultimately show ?thesis using a ne still by simp
  qed
  then show ?thesis using ok keys sets unfolding authority_ok_def by auto
qed

lemma live_move_run:
  assumes "r \<in> set (au_live (move_run j st st' a))"
  shows "\<exists>q \<in> set (au_runs a). ar_target q = ar_target r \<and> ar_id q = ar_id r \<and>
    (if ar_id q = j \<and> ar_state q = st then st' \<in> {RunQueued, RunRunning} else q \<in> set (au_live a))"
proof -
  have "r \<in> set (au_runs (move_run j st st' a))" "ar_state r \<in> {RunQueued, RunRunning}"
    using assms by (auto simp: au_live_def)
  then obtain q where q: "q \<in> set (au_runs a)" "r = (if ar_id q = j \<and> ar_state q = st then q\<lparr>ar_state := st'\<rparr> else q)"
    by (auto simp: move_run_def set_sql_update)
  then show ?thesis using \<open>ar_state r \<in> _\<close> by (intro bexI [of _ q]) (auto simp: au_live_def)
qed

lemma run_unique:
  "authority_ok a \<Longrightarrow> r \<in> set (au_runs a) \<Longrightarrow> q \<in> set (au_runs a) \<Longrightarrow> ar_target r = ar_target q \<Longrightarrow> r = q"
  "authority_ok a \<Longrightarrow> r \<in> set (au_runs a) \<Longrightarrow> q \<in> set (au_runs a) \<Longrightarrow> ar_id r = ar_id q \<Longrightarrow> r = q"
  by (auto simp: authority_ok_def dest: distinct_map_key_eq)

lemma live_in_runs: "r \<in> set (au_live a) \<Longrightarrow> r \<in> set (au_runs a) \<and> ar_state r \<in> {RunQueued, RunRunning}"
  by (simp add: au_live_def)

text \<open>Single flight: two live runs would build the same newest profile.\<close>

lemma live_at_most_one:
  assumes "authority_ok a"
  shows "length (au_live a) \<le> 1"
proof -
  have same: "r = q" if "r \<in> set (au_live a)" "q \<in> set (au_live a)" for r q
  proof (rule run_unique(1) [OF assms])
    show "ar_target r = ar_target q" using assms that unfolding authority_ok_def by metis
  qed (use that live_in_runs in blast)+
  have dist: "distinct (au_live a)"
    using assms by (auto simp: authority_ok_def au_live_def distinct_map)
  show ?thesis
  proof (rule ccontr)
    assume "\<not> length (au_live a) \<le> 1"
    then obtain r q rs where xs: "au_live a = r # q # rs"
      by (cases "au_live a"; cases "tl (au_live a)") auto
    have "r = q" by (rule same) (simp_all add: xs)
    then show False using dist by (simp add: xs)
  qed
qed

section \<open>Every move keeps it\<close>

lemma ok_profile_move:
  assumes ok: "authority_ok a" and idle: "au_live a = []"
  shows "authority_ok (move_profile i st st' a)"
  by (rule authority_ok_moved [OF ok]) (simp_all add: idle)

lemma last_move_profile:
  "au_profiles a \<noteq> [] \<Longrightarrow> ap_id (last (au_profiles a)) \<noteq> i \<Longrightarrow>
     last (au_profiles (move_profile i st st' a)) = last (au_profiles a)"
  by (simp add: move_profile_def last_sql_update)

text \<open>The run of the moved profile is over once the move is done: no live run is
  left that builds it.\<close>

lemma ok_paired_move:
  assumes ok: "authority_ok a" and r: "r \<in> set (au_runs a)" "ar_id r = j" "ar_target r = i"
    and over: "st' \<notin> {RunQueued, RunRunning}"
    and hits: "ar_state r \<in> {RunQueued, RunRunning} \<Longrightarrow> ar_state r = st"
  shows "authority_ok (move_run j st st' (move_profile i pst pst' a))"
proof (rule authority_ok_moved [OF ok])
  let ?b = "move_run j st st' (move_profile i pst pst' a)"
  have other: "\<exists>q \<in> set (au_live a). ar_target q = ar_target x \<and> ar_target x \<noteq> i" if x: "x \<in> set (au_live ?b)" for x
  proof -
    obtain q where q: "q \<in> set (au_runs a)" "ar_target q = ar_target x" "ar_id q = ar_id x"
      "\<not> (ar_id q = j \<and> ar_state q = st)" "q \<in> set (au_live a)"
      using live_move_run [OF x] over by (auto split: if_splits)
    have "ar_target q \<noteq> i"
      using q run_unique(1) [OF ok q(1) r(1)] hits live_in_runs [OF q(5)] r by auto
    then show ?thesis using q by auto
  qed
  then show "\<exists>q \<in> set (au_live a). ar_target q = ar_target x" if "x \<in> set (au_live ?b)" for x
    using that by blast
  show "ap_state (last (au_profiles ?b)) = ProfileBuilding"
    if live: "au_live ?b \<noteq> []" and ps: "au_profiles a \<noteq> []" "ap_state (last (au_profiles a)) = ProfileBuilding"
  proof -
    obtain x where "x \<in> set (au_live ?b)" using live by (cases "au_live ?b") auto
    then obtain q where q: "q \<in> set (au_live a)" "ar_target q \<noteq> i" using other by metis
    then have "ap_id (last (au_profiles a)) \<noteq> i" using ok by (auto simp: authority_ok_def)
    then show ?thesis using last_move_profile ps by simp
  qed
qed simp_all

lemma ok_new_building:
  assumes ok: "authority_ok a" and fresh: "fresh_profile i n a" and idle: "au_live a = []"
  shows "authority_ok (new_building i n a)"
  using assms
  by (auto simp: authority_ok_def new_building_def fresh_profile_def au_live_def sorted_wrt_append)

lemma ok_create:
  assumes ok: "authority_ok a" and fresh: "fresh_profile i n a" and idle: "au_live a = []"
    and j: "j \<notin> ar_id ` set (au_runs a)"
  shows "authority_ok (new_queued j i (new_building i n a))"
proof -
  have b: "authority_ok (new_building i n a)" by (rule ok_new_building [OF ok fresh idle])
  have "i \<notin> ar_target ` set (au_runs a)" using ok fresh by (auto simp: authority_ok_def fresh_profile_def)
  moreover have "au_live (new_queued j i (new_building i n a)) =
      [\<lparr>ar_id = j, ar_target = i, ar_state = RunQueued\<rparr>]"
    using idle by (simp add: au_live_def new_queued_def new_building_def)
  ultimately show ?thesis
    using b j unfolding authority_ok_def
    by (auto simp: new_queued_def new_building_def)
qed

lemma ok_supersede:
  assumes ok: "authority_ok a"
  shows "authority_ok (supersede a)"
proof (rule authority_ok_moved [OF ok])
  show "map ap_id (au_profiles (supersede a)) = map ap_id (au_profiles a)"
    "map ap_epoch (au_profiles (supersede a)) = map ap_epoch (au_profiles a)"
    by (simp_all add: supersede_def sql_update_map_key)
  show "ap_state (last (au_profiles (supersede a))) = ProfileBuilding"
    if "au_profiles a \<noteq> []" "ap_state (last (au_profiles a)) = ProfileBuilding"
    using that by (simp add: supersede_def last_sql_update superseded_by_def)
qed (auto simp: supersede_def au_live_def)

theorem authority_step_ok:
  assumes "authority_step a b" "authority_ok a"
  shows "authority_ok b"
  using assms
proof (induction rule: authority_step.induct)
  case (create a i n j)
  then show ?case using ok_create by blast
next
  case (genesis a i n)
  then show ?case using ok_new_building by (simp add: au_live_def)
next
  case (genesis_done a i)
  then show ?case using ok_profile_move by (simp add: au_live_def)
next
  case (promote a j)
  show ?case
  proof (rule authority_ok_moved [OF promote])
    show "\<exists>q \<in> set (au_live a). ar_target q = ar_target r" if "r \<in> set (au_live (move_run j RunQueued RunRunning a))" for r
      using live_move_run [OF that] by (force simp: au_live_def split: if_splits)
  qed simp_all
next
  case (abandon j i a)
  then obtain r where "r \<in> set (au_runs a)" "ar_id r = j" "ar_target r = i" "ar_state r \<noteq> RunQueued"
    by (auto simp: started_def)
  then show ?case by (intro ok_paired_move [OF abandon(2)]) auto
next
  case (cutover j i a)
  then obtain r where "r \<in> set (au_runs a)" "ar_id r = j" "ar_target r = i" "ar_state r \<noteq> RunQueued"
    by (auto simp: started_def)
  then show ?case by (intro ok_paired_move [OF cutover(3)]) auto
next
  case (cancel r a)
  then show ?case by (intro ok_paired_move [OF cancel(2)]) (auto simp: au_live_def)
qed (auto intro: ok_profile_move ok_supersede)

section \<open>The active profile\<close>

lemma filter_sql_update_other:
  "(\<And>r. P r \<Longrightarrow> \<not> Q r \<and> \<not> Q (f r)) \<Longrightarrow> filter Q (sql_update P f rows) = filter Q rows"
  by (induction rows) (auto simp: sql_update_Cons)

lemma complete_move:
  "st' \<noteq> ProfileComplete \<Longrightarrow> au_complete (move_profile i ProfileBuilding st' a) = au_complete a"
  unfolding au_complete_def move_profile_def by (simp, rule filter_sql_update_other) auto

lemma complete_same [simp]:
  "au_complete (move_run j rst rst' a) = au_complete a"
  "au_complete (new_building i n a) = au_complete a"
  "au_complete (new_queued j i a) = au_complete a"
  by (simp_all add: au_complete_def new_building_def new_queued_def move_run_def)

lemma filter_last_sorted:
  assumes "sorted_wrt (<) (map k xs)"
  shows "filter (\<lambda>x. Q x \<and> \<not> (\<exists>y \<in> set xs. Q y \<and> k x < (k y :: int))) xs =
    (if filter Q xs = [] then [] else [last (filter Q xs)])"
  using assms
proof (induction xs rule: rev_induct)
  case (snoc x xs)
  have lt: "\<forall>y \<in> set xs. k y < k x" using snoc.prems by (auto simp: sorted_wrt_append)
  show ?case
  proof (cases "Q x")
    case True
    have "filter (\<lambda>z. Q z \<and> \<not> (\<exists>y \<in> set (xs @ [x]). Q y \<and> k z < k y)) xs = []"
      using True lt by (auto simp: filter_empty_conv)
    then show ?thesis using True lt by (auto simp: order.asym)
  next
    case False
    then have "filter (\<lambda>z. Q z \<and> \<not> (\<exists>y \<in> set (xs @ [x]). Q y \<and> k z < k y)) (xs @ [x]) =
        filter (\<lambda>z. Q z \<and> \<not> (\<exists>y \<in> set xs. Q y \<and> k z < k y)) xs"
      by (auto intro: filter_cong)
    then show ?thesis using snoc False by (simp add: sorted_wrt_append)
  qed
qed simp

lemma complete_supersede:
  assumes "authority_ok a"
  shows "au_complete (supersede a) = (if au_complete a = [] then [] else [last (au_complete a)])"
proof -
  let ?ps = "au_profiles a"
  have "filter (\<lambda>p. ap_state p = ProfileComplete) (sql_update (superseded_by qs) (\<lambda>p. p\<lparr>ap_state := ProfileSuperseded\<rparr>) xs)
      = filter (\<lambda>p. ap_state p = ProfileComplete \<and> \<not> (\<exists>x \<in> set qs. ap_state x = ProfileComplete \<and> ap_epoch p < ap_epoch x)) xs"
    for qs xs
    by (induction xs) (auto simp: sql_update_Cons superseded_by_def sql_exists_iff)
  then show ?thesis
    using filter_last_sorted [of ap_epoch ?ps "\<lambda>p. ap_state p = ProfileComplete"] assms
    by (simp add: au_complete_def supersede_def authority_ok_def)
qed

lemma active_supersede: "authority_ok a \<Longrightarrow> au_active (supersede a) = au_active a"
  by (simp add: au_active_def complete_supersede)

lemma active_move: "st' \<noteq> ProfileComplete \<Longrightarrow> au_active (move_profile i ProfileBuilding st' a) = au_active a"
  by (simp add: au_active_def complete_move)

lemma active_same [simp]:
  "au_active (move_run j rst rst' a) = au_active a"
  "au_active (new_building i n a) = au_active a"
  "au_active (new_queued j i a) = au_active a"
  by (simp_all add: au_active_def)

text \<open>Completing the profile a started run still builds makes it the active one.\<close>

lemma newest_when_building:
  assumes ok: "authority_ok a" and live: "r \<in> set (au_live a)"
  shows "\<exists>ps. au_profiles a = ps @ [\<lparr>ap_id = ar_target r, ap_epoch = ap_epoch (last (au_profiles a)),
    ap_state = ProfileBuilding\<rparr>]"
proof -
  have "au_profiles a \<noteq> []" "ap_id (last (au_profiles a)) = ar_target r"
    "ap_state (last (au_profiles a)) = ProfileBuilding"
    using assms by (auto simp: authority_ok_def)
  then have "au_profiles a = butlast (au_profiles a) @ [\<lparr>ap_id = ar_target r,
      ap_epoch = ap_epoch (last (au_profiles a)), ap_state = ProfileBuilding\<rparr>]"
    by (metis append_butlast_last_id auth_profile.surjective old.unit.exhaust)
  then show ?thesis by blast
qed

lemma completed_is_active:
  assumes ok: "authority_ok a" and live: "r \<in> set (au_live a)"
  shows "au_active (move_profile (ar_target r) ProfileBuilding ProfileComplete a) =
    Some (last (au_profiles a)\<lparr>ap_state := ProfileComplete\<rparr>)"
proof -
  have "\<exists>ps. au_profiles a = ps @ [\<lparr>ap_id = ar_target r, ap_epoch = ap_epoch (last (au_profiles a)),
      ap_state = ProfileBuilding\<rparr>]"
    by (rule newest_when_building [OF assms])
  then obtain ps l where a: "au_profiles a = ps @ [l]" and l: "ap_id l = ar_target r" "ap_state l = ProfileBuilding"
    by auto
  then show ?thesis by (simp add: au_active_def au_complete_def move_profile_def sql_update_append sql_update_Cons)
qed

lemma active_newest_complete:
  "au_active a = Some p \<Longrightarrow> p \<in> set (au_profiles a) \<and> ap_state p = ProfileComplete"
  using last_in_set [of "au_complete a"]
  by (auto simp: au_active_def au_complete_def split: if_splits)

lemma complete_sorted: "authority_ok a \<Longrightarrow> sorted_wrt (<) (map ap_epoch (au_complete a))"
  by (auto simp: authority_ok_def au_complete_def sorted_wrt_map intro: sorted_wrt_filter)

text \<open>The active profile is only ever replaced by a newer one.\<close>

lemma complete_move_grows:
  assumes ok: "authority_ok a" and p: "au_active a = Some p"
  shows "\<exists>q. au_active (move_profile i ProfileBuilding ProfileComplete a) = Some q \<and> ap_epoch p \<le> ap_epoch q"
proof -
  let ?b = "move_profile i ProfileBuilding ProfileComplete a"
  have "p \<in> set (au_complete ?b)"
    using active_newest_complete [OF p] by (auto simp: au_complete_def move_profile_def set_sql_update image_iff)
  moreover have srt: "sorted_wrt (<) (map ap_epoch (au_complete ?b))"
  proof -
    have "sorted_wrt (<) (map ap_epoch (au_profiles ?b))"
      unfolding move_profile_keys(2) using ok by (simp add: authority_ok_def)
    then show ?thesis unfolding au_complete_def sorted_wrt_map by (rule sorted_wrt_filter)
  qed
  ultimately obtain xs q where q: "au_complete ?b = xs @ [q]" by (cases "au_complete ?b" rule: rev_cases) auto
  then have "ap_epoch p \<le> ap_epoch q"
    using \<open>p \<in> set (au_complete ?b)\<close> srt by (auto simp: sorted_wrt_append order.order_iff_strict)
  then show ?thesis using q by (simp add: au_active_def)
qed

lemma authority_step_active:
  assumes "authority_step a b" "authority_ok a" "au_active a = Some p"
  shows "\<exists>q. au_active b = Some q \<and> ap_epoch p \<le> ap_epoch q"
  using assms
proof (induction rule: authority_step.induct)
  case (cutover j i a)
  then show ?case using complete_move_grows [OF cutover(3,4)] by simp
qed (simp_all add: active_move active_supersede)

section \<open>Finished runs\<close>

text \<open>A finished run left no profile building.\<close>

definition runs_over :: "authority \<Rightarrow> bool" where
  "runs_over a \<longleftrightarrow> (\<forall>r \<in> set (au_runs a). ar_state r \<notin> {RunQueued, RunRunning} \<longrightarrow>
     \<not> sql_exists (\<lambda>p. ap_id p = ar_target r \<and> ap_state p = ProfileBuilding) (au_profiles a))"

definition profile_over :: "uuid \<Rightarrow> authority \<Rightarrow> bool" where
  "profile_over i a \<longleftrightarrow>
     sql_exists (\<lambda>p. ap_id p = i \<and> ap_state p \<in> {ProfileFailed, ProfileSuperseded}) (au_profiles a)"

text \<open>Only a new profile is building, and only a new run or a live one is live.\<close>

lemma authority_step_building:
  assumes "authority_step a b"
  shows "sql_exists (\<lambda>p. ap_id p = i \<and> ap_state p = ProfileBuilding) (au_profiles b) \<Longrightarrow>
    i \<notin> ap_id ` set (au_profiles a) \<or> sql_exists (\<lambda>p. ap_id p = i \<and> ap_state p = ProfileBuilding) (au_profiles a)"
  using assms
  by (induction rule: authority_step.induct)
    (auto simp: authority_defs sql_exists_iff set_sql_update fresh_profile_def superseded_by_def split: if_splits)

lemma target_exists: "authority_ok a \<Longrightarrow> q \<in> set (au_runs a) \<Longrightarrow> ar_target q \<in> ap_id ` set (au_profiles a)"
  by (simp add: authority_ok_def image_subset_iff)

lemma runs_over_kept:
  assumes ok: "authority_ok a" and over: "runs_over a" and step: "authority_step a b"
    and fin: "\<And>r. r \<in> set (au_runs b) \<Longrightarrow> ar_state r \<notin> {RunQueued, RunRunning} \<Longrightarrow>
      (\<exists>q \<in> set (au_runs a). ar_target q = ar_target r \<and> ar_state q \<notin> {RunQueued, RunRunning}) \<or>
      \<not> sql_exists (\<lambda>p. ap_id p = ar_target r \<and> ap_state p = ProfileBuilding) (au_profiles b)"
  shows "runs_over b"
  unfolding runs_over_def
proof (intro ballI impI notI)
  fix r
  assume r: "r \<in> set (au_runs b)" "ar_state r \<notin> {RunQueued, RunRunning}"
    and b: "sql_exists (\<lambda>p. ap_id p = ar_target r \<and> ap_state p = ProfileBuilding) (au_profiles b)"
  then obtain q where q: "q \<in> set (au_runs a)" "ar_target q = ar_target r" "ar_state q \<notin> {RunQueued, RunRunning}"
    using fin by blast
  then have "ar_target r \<in> ap_id ` set (au_profiles a)" using target_exists [OF ok] by metis
  then show False using authority_step_building [OF step b] over q by (auto simp: runs_over_def)
qed

lemma moved_not_building:
  "pst \<noteq> ProfileBuilding \<Longrightarrow>
    \<not> sql_exists (\<lambda>p. ap_id p = i \<and> ap_state p = ProfileBuilding) (au_profiles (move_profile i ProfileBuilding pst a))"
  by (auto simp: move_profile_def sql_exists_iff sql_update_bex)

lemma run_move_cases:
  assumes "r \<in> set (au_runs (move_run j st st' a))"
  shows "r \<in> set (au_runs a) \<or> (\<exists>q \<in> set (au_runs a). ar_id q = j \<and> ar_state q = st \<and> r = q\<lparr>ar_state := st'\<rparr>)"
  using assms by (auto simp: move_run_def elim: sql_update_cases)

lemma paired_runs_over:
  assumes ok: "authority_ok a" and over: "runs_over a" and r: "r \<in> set (au_runs a)" "ar_id r = j" "ar_target r = i"
    and pst: "pst \<noteq> ProfileBuilding"
    and step: "authority_step a (move_run j st st' (move_profile i ProfileBuilding pst a))"
  shows "runs_over (move_run j st st' (move_profile i ProfileBuilding pst a))"
proof (rule runs_over_kept [OF ok over step])
  fix x
  assume x: "x \<in> set (au_runs (move_run j st st' (move_profile i ProfileBuilding pst a)))"
    "ar_state x \<notin> {RunQueued, RunRunning}"
  from run_move_cases [OF x(1)]
  show "(\<exists>q \<in> set (au_runs a). ar_target q = ar_target x \<and> ar_state q \<notin> {RunQueued, RunRunning}) \<or>
      \<not> sql_exists (\<lambda>p. ap_id p = ar_target x \<and> ap_state p = ProfileBuilding)
        (au_profiles (move_run j st st' (move_profile i ProfileBuilding pst a)))"
  proof
    assume "\<exists>q \<in> set (au_runs (move_profile i ProfileBuilding pst a)). ar_id q = j \<and> ar_state q = st \<and>
      x = q\<lparr>ar_state := st'\<rparr>"
    then obtain q where "q \<in> set (au_runs a)" "ar_id q = j" "x = q\<lparr>ar_state := st'\<rparr>" by auto
    then have "ar_target x = i" using run_unique(2) [OF ok _ r(1)] r(2,3) by auto
    then show ?thesis using moved_not_building [OF pst] by auto
  qed (use x in auto)
qed

theorem authority_step_over:
  assumes step: "authority_step a b" and ok: "authority_ok a" and over: "runs_over a"
  shows "runs_over b"
  using step
proof cases
  case (create i n j)
  then show ?thesis by (intro runs_over_kept [OF ok over step]) (auto simp: new_queued_def new_building_def)
next
  case (promote j)
  show ?thesis
  proof (rule runs_over_kept [OF ok over step])
    fix r assume "r \<in> set (au_runs b)" "ar_state r \<notin> {RunQueued, RunRunning}"
    then have "r \<in> set (au_runs a)" using run_move_cases unfolding promote by fastforce
    then show "(\<exists>q \<in> set (au_runs a). ar_target q = ar_target r \<and> ar_state q \<notin> {RunQueued, RunRunning}) \<or>
      \<not> sql_exists (\<lambda>p. ap_id p = ar_target r \<and> ap_state p = ProfileBuilding) (au_profiles b)"
      using \<open>ar_state r \<notin> _\<close> by blast
  qed
next
  case (abandon j i)
  then obtain r where r: "r \<in> set (au_runs a)" "ar_id r = j" "ar_target r = i" by (auto simp: started_def)
  show ?thesis using paired_runs_over [OF ok over r _ step [unfolded abandon(1)]] abandon(1) by simp
next
  case (cutover j i)
  then obtain r where r: "r \<in> set (au_runs a)" "ar_id r = j" "ar_target r = i" by (auto simp: started_def)
  show ?thesis using paired_runs_over [OF ok over r _ step [unfolded cutover(1)]] cutover(1) by simp
next
  case (cancel r)
  then have r: "r \<in> set (au_runs a)" by (simp add: au_live_def)
  show ?thesis using paired_runs_over [OF ok over r refl refl _ step [unfolded cancel(1)]] cancel(1) by simp
qed (intro runs_over_kept [OF ok over step]; auto simp: new_building_def move_profile_def supersede_def)+

text \<open>Along a run: finished runs and profiles given up stay as they are.\<close>

lemma authority_step_terminal:
  assumes "authority_step a b" "r \<in> set (au_runs a)" "ar_state r \<notin> {RunQueued, RunRunning}"
  shows "r \<in> set (au_runs b)"
  using assms
  by (induction rule: authority_step.induct)
    (auto simp: authority_defs set_sql_update au_live_def intro!: rev_image_eqI)

lemma authority_step_profile_over:
  assumes "authority_step a b" "profile_over i a"
  shows "profile_over i b"
proof -
  have k1: "profile_over i (move_profile j ProfileBuilding st c)" if "profile_over i c" for j st c
    using that by (auto simp: profile_over_def sql_exists_iff move_profile_def sql_update_bex)
  have k2: "profile_over i (move_run j st st' c) = profile_over i c" for j st st' c
    by (simp add: profile_over_def)
  have k3: "profile_over i (supersede c)" if "profile_over i c" for c
    using that by (auto simp: profile_over_def sql_exists_iff supersede_def sql_update_bex)
  have k4: "profile_over i (new_building j n c)" "profile_over i (new_queued j k c)" if "profile_over i c" for j k n c
    using that by (auto simp: profile_over_def sql_exists_iff new_building_def new_queued_def)
  show ?thesis using assms(1) by cases (simp_all add: assms(2) k1 k2 k3 k4)
qed

text \<open>A run that failed or was aborted gave its profile up.\<close>

definition runs_failed :: "authority \<Rightarrow> bool" where
  "runs_failed a \<longleftrightarrow> (\<forall>r \<in> set (au_runs a). ar_state r \<in> {RunFailed, RunAborted} \<longrightarrow> profile_over (ar_target r) a)"

lemma given_up:
  assumes ok: "authority_ok a" and live: "r \<in> set (au_live a)"
  shows "profile_over (ar_target r) (move_profile (ar_target r) ProfileBuilding ProfileFailed a)"
proof -
  have "\<exists>p \<in> set (au_profiles a). ap_id p = ar_target r \<and> ap_state p = ProfileBuilding"
    using assms last_in_set by (fastforce simp: authority_ok_def)
  then show ?thesis by (auto simp: profile_over_def sql_exists_iff move_profile_def sql_update_bex)
qed

lemma runs_failed_kept:
  assumes step: "authority_step a b" and failed: "runs_failed a"
    and new: "\<And>r. r \<in> set (au_runs b) \<Longrightarrow> ar_state r \<in> {RunFailed, RunAborted} \<Longrightarrow>
      r \<in> set (au_runs a) \<or> profile_over (ar_target r) b"
  shows "runs_failed b"
  using new failed authority_step_profile_over [OF step] unfolding runs_failed_def by blast

lemma paired_runs_failed:
  assumes ok: "authority_ok a" and failed: "runs_failed a" and r: "r \<in> set (au_runs a)"
    and live: "ar_state r = st \<Longrightarrow> r \<in> set (au_live a)"
    and step: "authority_step a (move_run (ar_id r) st st' (move_profile (ar_target r) ProfileBuilding ProfileFailed a))"
  shows "runs_failed (move_run (ar_id r) st st' (move_profile (ar_target r) ProfileBuilding ProfileFailed a))"
proof (rule runs_failed_kept [OF step failed])
  fix x
  assume x: "x \<in> set (au_runs (move_run (ar_id r) st st' (move_profile (ar_target r) ProfileBuilding ProfileFailed a)))"
  from run_move_cases [OF x]
  show "x \<in> set (au_runs a) \<or> profile_over (ar_target x)
      (move_run (ar_id r) st st' (move_profile (ar_target r) ProfileBuilding ProfileFailed a))"
  proof
    assume "\<exists>q \<in> set (au_runs (move_profile (ar_target r) ProfileBuilding ProfileFailed a)).
      ar_id q = ar_id r \<and> ar_state q = st \<and> x = q\<lparr>ar_state := st'\<rparr>"
    then obtain q where q: "q \<in> set (au_runs a)" "ar_id q = ar_id r" "ar_state q = st" "x = q\<lparr>ar_state := st'\<rparr>"
      by auto
    then have "q = r" using run_unique(2) [OF ok _ r] by blast
    then show ?thesis using given_up [OF ok live] q by (simp add: profile_over_def)
  qed simp
qed

theorem authority_step_failed:
  assumes step: "authority_step a b" and ok: "authority_ok a" and failed: "runs_failed a"
  shows "runs_failed b"
  using step
proof cases
  case (create i n j)
  then show ?thesis by (intro runs_failed_kept [OF step failed]) (auto simp: new_queued_def new_building_def)
next
  case (promote j)
  show ?thesis
  proof (rule runs_failed_kept [OF step failed])
    fix r assume "r \<in> set (au_runs b)" "ar_state r \<in> {RunFailed, RunAborted}"
    then show "r \<in> set (au_runs a) \<or> profile_over (ar_target r) b" using run_move_cases unfolding promote by fastforce
  qed
next
  case (abandon j i)
  then obtain r where r: "r \<in> set (au_runs a)" "ar_id r = j" "ar_target r = i" by (auto simp: started_def)
  then show ?thesis using paired_runs_failed [OF ok failed r(1), of RunRunning RunFailed] step
    unfolding abandon by (simp add: au_live_def)
next
  case (cutover j i)
  show ?thesis
  proof (rule runs_failed_kept [OF step failed])
    fix r assume "r \<in> set (au_runs b)" "ar_state r \<in> {RunFailed, RunAborted}"
    then show "r \<in> set (au_runs a) \<or> profile_over (ar_target r) b" using run_move_cases unfolding cutover by fastforce
  qed
next
  case (cancel r)
  then show ?thesis using paired_runs_failed [OF ok failed, of r "ar_state r" RunAborted] step
    unfolding cancel by (simp add: au_live_def)
qed (intro runs_failed_kept [OF step failed]; auto simp: new_building_def move_profile_def supersede_def)+

lemma authority_step_started: "authority_step a b \<Longrightarrow> started j i a \<Longrightarrow> started j i b"
proof -
  have k1: "started j i (move_run k st st' c)" if "started j i c" "st' \<noteq> RunQueued" for k st st' c
    using that by (auto simp: started_def move_run_def sql_update_bex)
  have k2: "started j i (move_profile k pst pst' c) = started j i c" "started j i (supersede c) = started j i c"
    "started j i (new_building k n c) = started j i c" for k n pst pst' c
    by (simp_all add: started_def supersede_def new_building_def)
  have k3: "started j i (new_queued k l c)" if "started j i c" for k l c
    using that by (auto simp: started_def new_queued_def)
  show "started j i b" if "authority_step a b" "started j i a"
    using that(1) by cases (simp_all add: that(2) k1 k2 k3)
qed

lemma authority_steps_started: "authority_step\<^sup>*\<^sup>* a b \<Longrightarrow> started j i a \<Longrightarrow> started j i b"
  by (induction rule: rtranclp_induct) (auto intro: authority_step_started)

definition authority_inv :: "authority \<Rightarrow> bool" where
  "authority_inv a \<longleftrightarrow> authority_ok a \<and> runs_over a \<and> runs_failed a"

definition authority_run :: "authority \<Rightarrow> authority \<Rightarrow> bool" where
  "authority_run a b \<longleftrightarrow> (authority_inv a \<longrightarrow> authority_inv b \<and> authority_step\<^sup>*\<^sup>* a b)"

lemma authority_run_refl: "authority_run a a"
  by (simp add: authority_run_def)

lemma authority_run_trans: "authority_run a b \<Longrightarrow> authority_run b c \<Longrightarrow> authority_run a c"
  by (auto simp: authority_run_def)

lemma authority_run_step: "authority_step a b \<Longrightarrow> authority_run a b"
  using authority_step_ok authority_step_over authority_step_failed by (auto simp: authority_run_def authority_inv_def)

lemma authority_run_facts:
  assumes "authority_step\<^sup>*\<^sup>* a b" "authority_inv a"
  shows "authority_inv b"
    "r \<in> set (au_runs a) \<Longrightarrow> ar_state r \<notin> {RunQueued, RunRunning} \<Longrightarrow> r \<in> set (au_runs b)"
    "profile_over i a \<Longrightarrow> profile_over i b"
    "au_active a = Some p \<Longrightarrow> \<exists>q. au_active b = Some q \<and> ap_epoch p \<le> ap_epoch q"
proof -
  have "authority_inv b \<and> (r \<in> set (au_runs a) \<longrightarrow> ar_state r \<notin> {RunQueued, RunRunning} \<longrightarrow> r \<in> set (au_runs b)) \<and>
    (profile_over i a \<longrightarrow> profile_over i b) \<and>
    (au_active a = Some p \<longrightarrow> (\<exists>q. au_active b = Some q \<and> ap_epoch p \<le> ap_epoch q))"
    using assms
  proof (induction rule: rtranclp_induct)
    case (step b c)
    then have inv: "authority_inv b" by blast
    then have "authority_inv c" using authority_run_step [OF step(2)] by (simp add: authority_run_def)
    moreover have "\<exists>q. au_active c = Some q \<and> ap_epoch p \<le> ap_epoch q" if "au_active a = Some p"
      using step that authority_step_active [OF step(2)] inv by (fastforce simp: authority_inv_def intro: order.trans)
    ultimately show ?case
      using step authority_step_terminal [OF step(2)] authority_step_profile_over [OF step(2)] by blast
  qed simp
  then show "authority_inv b"
    "r \<in> set (au_runs a) \<Longrightarrow> ar_state r \<notin> {RunQueued, RunRunning} \<Longrightarrow> r \<in> set (au_runs b)"
    "profile_over i a \<Longrightarrow> profile_over i b"
    "au_active a = Some p \<Longrightarrow> \<exists>q. au_active b = Some q \<and> ap_epoch p \<le> ap_epoch q"
    by blast+
qed

end
