(* ===== verification/ReindexSteps.thy ===== *)
theory ReindexSteps
  imports ReindexDrive Authority
begin

text \<open>
  The statements and transactions of the reindex plane as steps, and their
  simulation by the contract of the profile authority (\<open>Authority\<close>): what a
  step does to the states of profiles and runs is one move of the contract, or
  nothing. A server provisions its genesis profile before it serves reindex
  requests, so the genesis steps come before any run.
\<close>

definition profile_view :: "embedding_profile \<Rightarrow> auth_profile" where
  "profile_view p = \<lparr>ap_id = ep_id p, ap_epoch = ep_epoch p, ap_state = ep_state p\<rparr>"

definition run_view :: "reindex_run \<Rightarrow> auth_run" where
  "run_view r = \<lparr>ar_id = rr_id r, ar_target = rr_target_profile_id r, ar_state = rr_state r\<rparr>"

definition authority_of :: "db \<Rightarrow> authority" where
  "authority_of s = \<lparr>au_profiles = map profile_view (gr_profiles (db_graph s)),
     au_runs = map run_view (gr_runs (db_graph s))\<rparr>"

lemma view_simps [simp]:
  "ap_id (profile_view p) = ep_id p" "ap_epoch (profile_view p) = ep_epoch p"
  "ap_state (profile_view p) = ep_state p" "ar_id (run_view r) = rr_id r"
  "ar_target (run_view r) = rr_target_profile_id r" "ar_state (run_view r) = rr_state r"
  by (simp_all add: profile_view_def run_view_def)

lemma authority_of_tables:
  "au_profiles (authority_of s) = map profile_view (gr_profiles (db_graph s))"
  "au_runs (authority_of s) = map run_view (gr_runs (db_graph s))"
  by (simp_all add: authority_of_def)

lemma map_sql_update:
  "(\<And>r. Q (f r) = P r) \<Longrightarrow> (\<And>r. P r \<Longrightarrow> f (g r) = h (f r)) \<Longrightarrow> map f (sql_update P g rows) = sql_update Q h (map f rows)"
  by (induction rows) (simp_all add: sql_update_Cons)

definition same_authority :: "db \<Rightarrow> db \<Rightarrow> bool" where
  "same_authority s s' \<longleftrightarrow> authority_of s' = authority_of s"

interpretation same_authority: store_order same_authority
  by unfold_locales (auto simp: same_authority_def)

text \<open>Statements that leave the states of profiles and runs alone.\<close>

lemma keeps_authority_update_graph:
  assumes "\<And>g. gr_profiles (f g) = gr_profiles g"
    and "\<And>g. map run_view (gr_runs (f g)) = map run_view (gr_runs g)"
  shows "keeps same_authority (update_graph f)"
  using assms by (simp add: keeps_def update_graph_def same_authority_def authority_of_def)

lemma keeps_authority_reindex:
  "keeps same_authority (run_set_enumerated i items tags)"
  "keeps same_authority (run_bump_embedded i items tags)"
  "keeps same_authority (run_bump_quarantined i items tags)"
  "keeps same_authority (embedding_batch_insert e ids ms)"
  "keeps same_authority embedding_delete_superseded"
  "keeps same_authority (tag_embedding_batch_upsert tms)"
  "keeps same_authority tag_embedding_delete_superseded"
  "keeps same_authority (rtask_upsert e i nt)"
  "keeps same_authority (rtask_claim run run_locked e locked fresh limit by)"
  "keeps same_authority (rtask_complete e i tok)"
  "keeps same_authority (rtask_fail e i tok av class txt)"
  "keeps same_authority (quarantine_record e nq)"
proof -
  have "keeps same_authority (update_run i f)" if "\<And>r. run_view (f r) = run_view r" for f
    unfolding update_run_def using that
    by (intro keeps_authority_update_graph) (simp_all add: sql_update_map_key)
  then show "keeps same_authority (run_set_enumerated i items tags)"
    "keeps same_authority (run_bump_embedded i items tags)"
    "keeps same_authority (run_bump_quarantined i items tags)"
    unfolding run_set_enumerated_def run_bump_embedded_def run_bump_quarantined_def
    by (simp_all add: run_view_def same_authority.keeps_intros)
  show "keeps same_authority (embedding_batch_insert e ids ms)"
    "keeps same_authority embedding_delete_superseded"
    "keeps same_authority (tag_embedding_batch_upsert tms)"
    "keeps same_authority tag_embedding_delete_superseded"
    "keeps same_authority (rtask_upsert e i nt)"
    "keeps same_authority (rtask_claim run run_locked e locked fresh limit by)"
    "keeps same_authority (rtask_complete e i tok)"
    "keeps same_authority (rtask_fail e i tok av class txt)"
    "keeps same_authority (quarantine_record e nq)"
    by (auto simp: keeps_def embedding_batch_insert_def embedding_delete_superseded_def
        tag_embedding_batch_upsert_def tag_embedding_delete_superseded_def rtask_upsert_def rtask_claim_def
        rtask_complete_def rtask_fail_def update_rtasks_def quarantine_record_def Let_def tx_defs
        update_graph_def same_authority_def authority_of_def split: if_splits)
qed

section \<open>The statements that move the authority\<close>

lemma fold_max_start: "(x :: int) \<le> fold max xs x"
proof (induction xs arbitrary: x)
  case (Cons a xs)
  show ?case using order.trans [OF max.cobounded2 Cons.IH] by simp
qed simp

lemma fold_max_ge: "y \<in> set xs \<Longrightarrow> y \<le> fold max xs (x :: int)"
proof (induction xs arbitrary: x)
  case (Cons z xs)
  then show ?case using order.trans [OF max.cobounded1 fold_max_start] by auto
qed simp

lemma profile_insert_moves:
  assumes "profile_insert e i gap n s = Inr (p, s')"
  shows "authority_of s' = new_building i (ep_epoch p) (authority_of s)"
    "fresh_profile i (ep_epoch p) (authority_of s)" "ep_id p = i"
proof -
  let ?ps = "gr_profiles (db_graph s)"
  have p: "p = new_profile_row e i (next_epoch gap ?ps) n" "i \<notin> ep_id ` set ?ps"
    and s': "s' = s\<lparr>db_graph := db_graph s\<lparr>gr_profiles := ?ps @ [p]\<rparr>\<rparr>"
    using assms by (auto simp: profile_insert_def Let_def tx_defs update_graph_def sql_exists_iff split: if_splits)
  have "ep_epoch q < next_epoch gap ?ps" if "q \<in> set ?ps" for q
    using fold_max_ge [of "ep_epoch q" "map ep_epoch ?ps" 0] that by (simp add: next_epoch_def)
  then show "fresh_profile i (ep_epoch p) (authority_of s)"
    using p by (auto simp: fresh_profile_def new_profile_row_def authority_of_tables)
  show "authority_of s' = new_building i (ep_epoch p) (authority_of s)" "ep_id p = i"
    by (simp_all add: s' p authority_of_def new_building_def profile_view_def new_profile_row_def)
qed

lemma run_insert_moves:
  assumes "run_insert e j n s = Inr (r, s')"
  shows "authority_of s' = new_queued j (nrr_target_profile_id n) (authority_of s)"
    "au_live (authority_of s) = []" "j \<notin> ar_id ` set (au_runs (authority_of s))" "rr_id r = j"
  using assms
  by (auto simp: run_insert_def tx_defs update_graph_def sql_exists_iff run_exists_def au_live_def run_live_def
      new_run_row_def new_queued_def authority_of_def run_view_def filter_empty_conv split: if_splits)

lemma profile_transition_moves:
  "profile_transition e i st st' s = Inr (hit, s') \<Longrightarrow>
     authority_of s' = move_profile i st st' (authority_of s) \<and>
     hit = sql_exists (\<lambda>p. ap_id p = i \<and> ap_state p = st) (au_profiles (authority_of s))"
  by (auto simp: profile_transition_def Let_def tx_defs update_graph_def authority_of_def move_profile_def
      sql_exists_iff profile_view_def intro!: map_sql_update)

lemma run_transition_moves:
  "run_transition e i st st' msg s = Inr (hit, s') \<Longrightarrow>
     authority_of s' = move_run i st st' (authority_of s) \<and>
     hit = sql_exists (\<lambda>r. ar_id r = i \<and> ar_state r = st) (au_runs (authority_of s))"
  by (auto simp: run_transition_def Let_def tx_defs update_graph_def authority_of_def move_run_def
      sql_exists_iff run_view_def run_transition_row_def intro!: map_sql_update)

lemma supersede_moves:
  "profile_supersede_prunable s = Inr (es, s') \<Longrightarrow> authority_of s' = supersede (authority_of s)"
proof -
  have "superseded_by (map profile_view (gr_profiles (db_graph s))) (profile_view p) = profile_prunable s p" for p
    by (simp add: superseded_by_def profile_prunable_def sql_exists_iff)
  then show "authority_of s' = supersede (authority_of s)" if "profile_supersede_prunable s = Inr (es, s')"
    using that by (auto simp: profile_supersede_prunable_def tx_defs update_graph_def authority_of_def supersede_def
        profile_view_def intro!: map_sql_update)
qed

section \<open>Reads of the authority\<close>

lemma sort_key_rev:
  "sorted_wrt (<) (map k xs) \<Longrightarrow> sort_key (\<lambda>x. - k x :: int) xs = rev xs"
proof (induction xs)
  case (Cons x xs)
  have "insort_key (\<lambda>x. - k x) x ys = ys @ [x]" if "\<forall>y \<in> set ys. k x < k y" for ys
    using that by (induction ys) auto
  then show ?case using Cons by (simp add: sort_key_def del: sort_key_simps)
qed simp

lemma latest_profile_last:
  assumes "authority_ok (authority_of s)"
  shows "latest_profile st s = (let ps = filter (\<lambda>p. ep_state p = st) (gr_profiles (db_graph s)) in
    if ps = [] then None else Some (last ps))"
proof -
  let ?ps = "filter (\<lambda>p. ep_state p = st) (gr_profiles (db_graph s))"
  have "sorted_wrt (<) (map ep_epoch (gr_profiles (db_graph s)))"
    using assms by (simp add: authority_ok_def authority_of_tables o_def)
  then have "sorted_wrt (<) (map ep_epoch ?ps)" by (simp add: sorted_wrt_map sorted_wrt_filter)
  then have "sort_key (\<lambda>p. - ep_epoch p) ?ps = rev ?ps" by (rule sort_key_rev)
  then show ?thesis
    by (cases ?ps rule: rev_cases) (auto simp: latest_profile_def Let_def)
qed

lemma find_active_view:
  assumes "authority_ok (authority_of s)"
  shows "map_option profile_view (profile_find_active s) = au_active (authority_of s)"
proof -
  have "au_complete (authority_of s) =
      map profile_view (filter (\<lambda>p. ep_state p = ProfileComplete) (gr_profiles (db_graph s)))"
    by (simp add: au_complete_def filter_map o_def authority_of_tables)
  then show ?thesis
    unfolding profile_find_active_def latest_profile_last [OF assms] au_active_def Let_def
    by (simp add: last_map)
qed

lemma run_find_live_iff:
  "run_find_live s = None \<longleftrightarrow> au_live (authority_of s) = []"
  "run_find_live s = Some r \<Longrightarrow> r \<in> set (gr_runs (db_graph s)) \<and> run_view r \<in> set (au_live (authority_of s))"
proof -
  let ?xs = "sort_key (\<lambda>r. - rr_started_at r) (filter run_live (gr_runs (db_graph s)))"
  have "?xs = [] \<longleftrightarrow> au_live (authority_of s) = []"
    using set_sort [of "\<lambda>r. - rr_started_at r" "filter run_live (gr_runs (db_graph s))"]
    by (auto simp: au_live_def filter_empty_conv run_live_def authority_of_tables simp flip: set_empty)
  then show "run_find_live s = None \<longleftrightarrow> au_live (authority_of s) = []"
    by (cases ?xs) (simp_all add: run_find_live_def)
  show "r \<in> set (gr_runs (db_graph s)) \<and> run_view r \<in> set (au_live (authority_of s))" if "run_find_live s = Some r"
  proof -
    have "?xs = r # tl ?xs" using that by (cases ?xs) (auto simp: run_find_live_def)
    then have "r \<in> set ?xs" by (metis list.set_intros(1))
    then have "r \<in> set (gr_runs (db_graph s))" "run_live r" by auto
    then show ?thesis by (auto simp: au_live_def run_live_def authority_of_tables)
  qed
qed

text \<open>The building profile the drive cycle finds is the live run's.\<close>

lemma live_building:
  assumes ok: "authority_ok (authority_of s)" and live: "r \<in> set (au_live (authority_of s))"
  shows "\<exists>p. profile_find_building s = Some p \<and> ep_id p = ar_target r"
proof -
  let ?ps = "gr_profiles (db_graph s)"
  have l: "?ps \<noteq> []" "ep_id (last ?ps) = ar_target r" "ep_state (last ?ps) = ProfileBuilding"
    using assms by (auto simp: authority_ok_def authority_of_tables last_map)
  then obtain qs p where p: "?ps = qs @ [p]" by (cases ?ps rule: rev_cases) auto
  then have "filter (\<lambda>p. ep_state p = ProfileBuilding) ?ps = filter (\<lambda>p. ep_state p = ProfileBuilding) qs @ [p]"
    using l(3) by simp
  then show ?thesis using l(2) p by (simp add: profile_find_building_def latest_profile_last [OF ok] Let_def)
qed

section \<open>Steps\<close>

text \<open>A run that was started, with the profile the run row targets: what the drive
  cycle holds while it works, whatever happened to either since.\<close>

definition drives :: "reindex_run \<Rightarrow> embedding_profile \<Rightarrow> db \<Rightarrow> bool" where
  "drives run building s \<longleftrightarrow> started (rr_id run) (ep_id building) (authority_of s)"

inductive reindex_step :: "db \<Rightarrow> db \<Rightarrow> bool" where
  stage: "reindex_step s (committed (stage_reindex_run e ids sha256_hex admitted granted target by) s)"
| reconcile: "reindex_step s (executed (reconcile_orphan_building_profile e granted) s)"
| genesis_insert: "gr_runs (db_graph s) = [] \<Longrightarrow> reindex_step s (executed (profile_insert e i gap n) s)"
| genesis_complete: "gr_runs (db_graph s) = [] \<Longrightarrow> profile_find_active s = None
    \<Longrightarrow> reindex_step s (executed (profile_mark_complete e i) s)"
| start: "reindex_step s (executed (run_transition e i RunQueued RunRunning None) s)"
| enrol: "reindex_step s (executed (rtask_upsert e i nt) s)"
| enumerated: "reindex_step s (executed (run_set_enumerated i items tags) s)"
| claim: "reindex_step s (executed (rtask_claim run run_locked e locked fresh limit by) s)"
| embed: "reindex_step s (executed (embedding_batch_insert e vids ms) s)"
| embed_tags: "reindex_step s (executed (tag_embedding_batch_upsert tms) s)"
| quarantining: "reindex_step s (executed (quarantine_record e nq) s)"
| bump_embedded: "reindex_step s (executed (run_bump_embedded i items tags) s)"
| bump_quarantined: "reindex_step s (executed (run_bump_quarantined i items tags) s)"
| complete: "reindex_step s (executed (rtask_complete e i tok) s)"
| failing: "reindex_step s (executed (rtask_fail e i tok av class txt) s)"
| fail_run: "drives run building s \<Longrightarrow> reindex_step s (snd (fail_run e run building reason s))"
| cutover: "drives run building s \<Longrightarrow> reindex_step s (committed (cutover_txn e run building probe) s)"
| cancel: "reindex_step s (executed (reindex_cancel e) s)"
| prune: "reindex_step s (committed (prune_txn preview indexed) s)"

section \<open>The simulation\<close>

lemma authority_same_reads: "authority_of s = a \<Longrightarrow> au_live (authority_of s) = au_live a"
  by simp

lemma executed_same: "keeps same_authority m \<Longrightarrow> authority_of (executed m s) = authority_of s"
  using same_authority.executed_keeps [of m s] by (simp add: same_authority_def)

lemma executedE:
  assumes "\<And>a s'. m s = Inr (a, s') \<Longrightarrow> Q s'" "Q s"
  shows "Q (executed m s)"
  using assms by (auto simp: executed_def split: sum.splits)

lemma committedE:
  assumes "\<And>a s'. m s = Inr (Commit a, s') \<Longrightarrow> Q s'" "Q s"
  shows "Q (committed m s)"
  using assms by (auto simp: committed_def run_txn_def split: sum.splits ending.splits)

definition simulated :: "authority \<Rightarrow> authority \<Rightarrow> bool" where
  "simulated a b \<longleftrightarrow> b = a \<or> authority_step a b"

lemma create_simulated:
  assumes "create_reindex_run e ids h admitted granted target by s = Inr (out, s')"
  shows "simulated (authority_of s) (authority_of s')"
proof -
  have new: "authority_step (authority_of s) (authority_of s2)"
    if p: "profile_insert e (cr_profile ids) (cr_gap ids) n s = Inr (p, s1)"
      and r: "run_insert e (cr_run ids) nr s1 = Inr (r, s2)" and t: "nrr_target_profile_id nr = ep_id p"
    for n p s1 r s2 nr
  proof -
    have s1: "authority_of s1 = new_building (cr_profile ids) (ep_epoch p) (authority_of s)"
      "au_runs (authority_of s1) = au_runs (authority_of s)"
      by (simp_all add: profile_insert_moves(1) [OF p] new_building_def)
    then show ?thesis
      using run_insert_moves [OF r] profile_insert_moves(2,3) [OF p] t
      by (auto intro: authority_step.create)
  qed
  show ?thesis
    using assms
    by (auto simp: create_reindex_run_def tx_simps simulated_def Let_def elim!: tx_elims
        split: if_splits option.splits intro!: new)
qed

lemma mark_moves:
  "profile_mark_complete e i s = Inr (hit, s') \<Longrightarrow>
     authority_of s' = move_profile i ProfileBuilding ProfileComplete (authority_of s) \<and>
     hit = sql_exists (\<lambda>p. ap_id p = i \<and> ap_state p = ProfileBuilding) (au_profiles (authority_of s))"
  "profile_mark_failed e i s = Inr (hit, s') \<Longrightarrow>
     authority_of s' = move_profile i ProfileBuilding ProfileFailed (authority_of s)"
  by (auto simp: profile_mark_complete_def profile_mark_failed_def dest: profile_transition_moves)

lemma fail_run_tx_moves:
  "fail_run_tx e run building reason s = Inr (x, s') \<Longrightarrow>
     authority_of s' = move_run (rr_id run) RunRunning RunFailed
       (move_profile (ep_id building) ProfileBuilding ProfileFailed (authority_of s))"
  by (auto simp: fail_run_tx_def tx_simps elim!: tx_elims dest!: mark_moves(2) run_transition_moves)

lemma cutover_commits:
  assumes "cutover_txn e run building probe s = Inr (Commit out, s')"
  shows "count_remaining (ep_id building) s = 0"
    "out = CutFailed \<and> authority_of s' = move_run (rr_id run) RunRunning RunFailed
         (move_profile (ep_id building) ProfileBuilding ProfileFailed (authority_of s)) \<or>
     out = CutDone \<and> authority_of s' = move_run (rr_id run) RunRunning RunCompleted
         (move_profile (ep_id building) ProfileBuilding ProfileComplete (authority_of s)) \<and>
       sql_exists (\<lambda>p. ap_id p = ep_id building \<and> ap_state p = ProfileBuilding) (au_profiles (authority_of s))"
  using assms
  by (auto simp: cutover_txn_def tx_simps elim!: tx_elims split: if_splits
      dest!: fail_run_tx_moves mark_moves(1) run_transition_moves)

lemma cancel_simulated:
  assumes "reindex_cancel e s = Inr (out, s')"
  shows "simulated (authority_of s) (authority_of s')"
proof (cases "run_find_live s")
  case (Some run)
  have "authority_of s' = move_run (rr_id run) (rr_state run) RunAborted
      (move_profile (rr_target_profile_id run) ProfileBuilding ProfileFailed (authority_of s))"
    using assms Some
    by (auto simp: reindex_cancel_def tx_simps elim!: tx_elims dest!: mark_moves(2) run_transition_moves)
  then show ?thesis
    using authority_step.cancel [of "run_view run" "authority_of s"] run_find_live_iff(2) [OF Some]
    by (simp add: simulated_def)
qed (use assms in \<open>auto simp: reindex_cancel_def tx_simps simulated_def elim!: tx_elims\<close>)

lemma reindex_prune_moves:
  "reindex_prune indexed s = Inr (out, s') \<Longrightarrow> authority_of s' = supersede (authority_of s)"
  by (auto simp: reindex_prune_def tx_simps same_authority_def elim!: tx_elims
      dest!: supersede_moves keepsD [OF keeps_authority_reindex(5)] keepsD [OF keeps_authority_reindex(7)])

theorem reindex_step_simulated:
  assumes "reindex_step s s'" and ok: "authority_ok (authority_of s)"
  shows "simulated (authority_of s) (authority_of s')"
  using assms
proof (induction rule: reindex_step.induct)
  case (stage s e ids h admitted granted target b)
  show ?case
    by (rule committedE) (auto simp: stage_reindex_run_def tx_simps simulated_def elim!: tx_elims
        split: prod.splits dest!: create_simulated)
next
  case (reconcile s e granted)
  show ?case
    by (rule executedE) (auto simp: reconcile_orphan_building_profile_def tx_simps simulated_def run_find_live_iff
        elim!: tx_elims split: if_splits option.splits dest!: mark_moves(2) intro: authority_step.orphan)
next
  case (genesis_insert s e i gap n)
  show ?case
  proof (rule executedE)
    show "simulated (authority_of s) (authority_of s')" if "profile_insert e i gap n s = Inr (p, s')" for p s'
      using profile_insert_moves(1,2) [OF that] genesis_insert(1)
      by (simp add: simulated_def authority_of_tables authority_step.genesis)
  qed (simp add: simulated_def)
next
  case (genesis_complete s e i)
  have "au_active (authority_of s) = None"
    using find_active_view [OF genesis_complete(3)] genesis_complete(2) by simp
  moreover have "au_runs (authority_of s) = []" using genesis_complete(1) by (simp add: authority_of_tables)
  ultimately have "authority_step (authority_of s) (move_profile i ProfileBuilding ProfileComplete (authority_of s))"
    by (intro authority_step.genesis_done)
  then show ?case
    by - (rule executedE, auto simp: simulated_def dest!: mark_moves(1))
next
  case (start s e i)
  show ?case
    by (rule executedE) (auto simp: simulated_def dest!: run_transition_moves intro: authority_step.promote)
next
  case (fail_run run building s e reason)
  have "authority_step (authority_of s) (move_run (rr_id run) RunRunning RunFailed
       (move_profile (ep_id building) ProfileBuilding ProfileFailed (authority_of s)))"
    using fail_run(1) by (intro authority_step.abandon) (simp add: drives_def)
  then show ?case
    unfolding fail_run_def committed_def [symmetric]
    by - (rule committedE, auto simp: simulated_def tx_simps elim!: tx_elims dest!: fail_run_tx_moves)
next
  case (cutover run building s e probe)
  then have "started (rr_id run) (ep_id building) (authority_of s)" by (simp add: drives_def)
  then show ?case
    by - (rule committedE, auto simp: simulated_def dest!: cutover_commits(2)
        intro: authority_step.abandon authority_step.cutover)
next
  case (cancel s e)
  show ?case by (rule executedE) (auto simp: simulated_def dest!: cancel_simulated)
next
  case (prune s preview indexed)
  show ?case
    by (rule committedE) (auto simp: simulated_def prune_txn_def tx_simps elim!: tx_elims split: if_splits
        dest!: reindex_prune_moves intro: authority_step.prune)
qed (simp_all add: simulated_def executed_same keeps_authority_reindex)

lemma reindex_step_ok: "reindex_step s s' \<Longrightarrow> authority_ok (authority_of s) \<Longrightarrow> authority_ok (authority_of s')"
  using reindex_step_simulated [of s s'] authority_step_ok [of "authority_of s" "authority_of s'"]
  by (auto simp: simulated_def)

end
