(* ===== verification/Coverage.thy ===== *)
theory Coverage
  imports Orders ReindexSteps
begin

text \<open>
  The active embedding profile covers the corpus: every knowledge item has a
  vector under it, or a durable record of why it cannot have one. Search reads
  the active profile only, so nothing stored is invisible to it. The pipeline
  keeps this because a novel item is written with its vector under the profile
  read in the same transaction; the reindex plane because a profile becomes
  active only once nothing is missing under it, and pruning spares it.
\<close>

section \<open>The tables the index rests on\<close>

definition same_index :: "db \<Rightarrow> db \<Rightarrow> bool" where
  "same_index s s' \<longleftrightarrow> gr_items (db_graph s') = gr_items (db_graph s) \<and>
     gr_profiles (db_graph s') = gr_profiles (db_graph s) \<and> gr_runs (db_graph s') = gr_runs (db_graph s) \<and>
     gr_embeddings (db_graph s') = gr_embeddings (db_graph s) \<and>
     gr_quarantine (db_graph s') = gr_quarantine (db_graph s) \<and>
     gr_rtasks (db_graph s') = gr_rtasks (db_graph s)"

interpretation same_index: store_order same_index
  by unfold_locales (auto simp: same_index_def)

lemma same_index_graph: "db_graph s' = db_graph s \<Longrightarrow> same_index s s'"
  by (simp add: same_index_def)

lemma keeps_index_updates:
  "keeps same_index (update_tasks P f)" "keeps same_index (update_threads Q g)"
  "keeps same_index (update_jobs Pj h)" "keeps same_index (update_drivers Pd k)"
  by (simp_all add: keeps_def update_tasks_def update_threads_def update_jobs_def update_drivers_def
      same_index_graph)

lemma keeps_index_statements:
  "keeps same_index (task_heartbeat e i tok)"
  "keeps same_index (task_reset_retry_count e i tok)"
  "keeps same_index (task_complete e i tok)"
  "keeps same_index (task_fail e i tok m av k msg)"
  "keeps same_index (task_requeue_claimed e i tok n av k msg)"
  "keeps same_index (task_reclaim_requeue e i n b k msg)"
  "keeps same_index (task_dead_letter_claimed e i tok k msg)"
  "keeps same_index (task_dead_letter_unclaimed e i k msg)"
  "keeps same_index (task_block e i tok)"
  "keeps same_index (task_requeue_from_blocked e i)"
  "keeps same_index (driver_complete e i tok)"
  "keeps same_index (driver_requeue e i tok a av msg)"
  "keeps same_index (driver_dead_letter e i tok msg)"
  "keeps same_index (driver_heartbeat e i tok)"
  "keeps same_index (driver_dispose_unclaimed e i msg)"
  "keeps same_index (thread_adopt_managed e i tok)"
  "keeps same_index (thread_disarm_wake e i)"
  "keeps same_index (thread_record_cancel_intent e i txt)"
  "keeps same_index (thread_increment_recovery_attempts e i)"
  "keeps same_index (thread_cascade_cancel_to_children e i txt)"
  "keeps same_index (thread_set_execution_spend e i spend)"
  "keeps same_index (thread_suspend e i cause wake)"
  "keeps same_index (thread_mark_running e i st)"
  "keeps same_index (thread_complete e i t st)"
  unfolding task_statement_defs driver_statement_defs thread_statement_defs
  by (intro same_index.keeps_intros keeps_index_updates)+

lemma keeps_index_others:
  "keeps same_index (task_reclaim_stale e locked timeout m limit k msg flat)"
  "keeps same_index (task_insert e i nt)"
  "keeps same_index (task_upsert e i nt)"
  "keeps same_index (driver_insert e i nd)"
  "keeps same_index (thread_cascade_cancel_to_orphans e locked limit txt)"
  "keeps same_index (thread_insert e i nthd)"
  "keeps same_index (job_update_status_if_live e i jt)"
  "keeps same_index (job_set_extraction_identity e i ident)"
  "keeps same_index (job_set_committed_batch_id e i j)"
  "keeps same_index (job_fail_stale_dead_lettered e)"
  "keeps same_index (job_insert e i nj)"
  "keeps same_index (job_insert_or_resolve e i nj)"
  "keeps same_index (record_append e i nr)"
  "keeps same_index (extraction_result_insert e i ner)"
  "keeps same_index (triage_result_insert e i ntr)"
  "keeps same_index (observation_insert e i nob)"
  "keeps same_index (relation_batch_insert e ids rs)"
  "keeps same_index (decision_batch_insert e ids ds)"
  "keeps same_index (reference_insert i nrf)"
  "keeps same_index (tag_batch_upsert e tags)"
  "keeps same_index (tag_increment_usage e tags)"
  "keeps same_index (tag_embedding_batch_upsert tms)"
  by (auto simp: keeps_def task_reclaim_stale_def task_insert_def task_upsert_def append_task_def
      driver_insert_def thread_cascade_cancel_to_orphans_def thread_insert_Inr job_update_status_if_live_def
      job_set_extraction_identity_def job_set_committed_batch_id_def job_fail_stale_dead_lettered_def
      job_insert_def append_job_def job_insert_or_resolve_def record_append_Inr extraction_result_insert_def
      triage_result_insert_def observation_insert_def relation_batch_insert_def decision_batch_insert_def
      reference_insert_def tag_batch_upsert_def tag_increment_usage_def tag_embedding_batch_upsert_def
      insert_guard_def update_graph_def update_tasks_def update_threads_def update_jobs_def Let_def tx_defs
      same_index_def
      split: list.splits if_splits option.splits sum.splits extraction_commit_outcome.splits)

lemma keeps_index_batch_size: "keeps same_index (job_update_batch_size e i n m)"
proof -
  have "keeps same_index (job_find_by_id j)" for j
    by (auto simp: keeps_def job_find_by_id_def same_index.order_refl split: option.splits)
  then show ?thesis
    unfolding job_update_batch_size_def by (intro same_index.keeps_intros keeps_index_updates)
qed

interpretation same_index: whole_order same_index
  by unfold_locales (rule keeps_index_statements keeps_index_others keeps_index_batch_size)+

section \<open>Coverage\<close>

definition covers :: "uuid \<Rightarrow> db \<Rightarrow> bool" where
  "covers profile s \<longleftrightarrow> list_all (\<lambda>k. \<not> item_unembedded profile s k) (gr_items (db_graph s))"

definition covered :: "db \<Rightarrow> bool" where
  "covered s \<longleftrightarrow> (case profile_find_active s of
     None \<Rightarrow> gr_items (db_graph s) = []
   | Some p \<Rightarrow> covers (ep_id p) s)"

definition index_ok :: "db \<Rightarrow> bool" where
  "index_ok s \<longleftrightarrow> authority_ok (authority_of s) \<and> covered s"

text \<open>What is embedded or quarantined stays so, and no item appears.\<close>

definition bodies_grow :: "db \<Rightarrow> db \<Rightarrow> bool" where
  "bodies_grow s s' \<longleftrightarrow> gr_items (db_graph s') = gr_items (db_graph s) \<and>
     (\<forall>i p. embedded i p (gr_embeddings (db_graph s)) \<longrightarrow> embedded i p (gr_embeddings (db_graph s'))) \<and>
     (\<forall>p k ref. is_quarantined p k ref s \<longrightarrow> is_quarantined p k ref s')"

interpretation bodies_grow: store_order bodies_grow
  by unfold_locales (auto simp: bodies_grow_def)

lemma covers_grow: "bodies_grow s s' \<Longrightarrow> covers p s \<Longrightarrow> covers p s'"
  by (auto simp: bodies_grow_def covers_def item_unembedded_def list_all_iff)

lemma covered_view:
  assumes "authority_ok (authority_of s)"
  shows "covered s \<longleftrightarrow> (case au_active (authority_of s) of
     None \<Rightarrow> gr_items (db_graph s) = [] | Some p \<Rightarrow> covers (ap_id p) s)"
  using find_active_view [OF assms]
  by (auto simp: covered_def split: option.splits)

lemma index_ok_grow:
  assumes ok: "index_ok s" and grow: "bodies_grow s s'" and auth: "authority_ok (authority_of s')"
    and act: "map_option ap_id (au_active (authority_of s')) = map_option ap_id (au_active (authority_of s))"
  shows "index_ok s'"
proof -
  have ok': "authority_ok (authority_of s)" "covered s" using ok by (simp_all add: index_ok_def)
  have items: "gr_items (db_graph s') = gr_items (db_graph s)" using grow by (simp add: bodies_grow_def)
  show ?thesis
    using ok' act covers_grow [OF grow] items
    by (cases "au_active (authority_of s)"; cases "au_active (authority_of s')")
      (simp_all add: index_ok_def auth covered_view [OF auth] covered_view [OF ok'(1)])
qed

lemma same_index_ok:
  assumes "same_index s s'" "index_ok s"
  shows "index_ok s'"
proof (rule index_ok_grow [OF assms(2)])
  show "bodies_grow s s'" using assms(1) by (simp add: same_index_def bodies_grow_def is_quarantined_def)
  have "authority_of s' = authority_of s" using assms(1) by (simp add: same_index_def authority_of_def)
  then show "authority_ok (authority_of s')"
    "map_option ap_id (au_active (authority_of s')) = map_option ap_id (au_active (authority_of s))"
    using assms(2) by (simp_all add: index_ok_def)
qed

section \<open>Reindex statements\<close>

lemma embedded_insert_missing:
  "embedded i p rows \<Longrightarrow> embedded i p (insert_missing_embeddings ms rows)"
  by (induction ms rows rule: insert_missing_embeddings.induct) (auto simp: embedded_def sql_exists_iff)

lemma bodies_grow_profiles_runs:
  "gr_items (f (db_graph s)) = gr_items (db_graph s) \<Longrightarrow> gr_embeddings (f (db_graph s)) = gr_embeddings (db_graph s)
    \<Longrightarrow> gr_quarantine (f (db_graph s)) = gr_quarantine (db_graph s) \<Longrightarrow> bodies_grow s (s\<lparr>db_graph := f (db_graph s)\<rparr>)"
  by (simp add: bodies_grow_def is_quarantined_def)

lemma keeps_bodies:
  "keeps bodies_grow (profile_insert e i gap n)"
  "keeps bodies_grow (profile_transition e i st st')"
  "keeps bodies_grow (run_insert e i nr)"
  "keeps bodies_grow (run_transition e i rst rst' msg)"
  "keeps bodies_grow (run_set_enumerated i items tags)"
  "keeps bodies_grow (run_bump_embedded i items tags)"
  "keeps bodies_grow (run_bump_quarantined i items tags)"
  "keeps bodies_grow (tag_embedding_batch_upsert tms)"
  "keeps bodies_grow (rtask_upsert e i nt)"
  "keeps bodies_grow (rtask_claim run run_locked e locked fresh limit by)"
  "keeps bodies_grow (rtask_complete e i tok)"
  "keeps bodies_grow (rtask_fail e i tok av class txt)"
  "keeps bodies_grow (embedding_batch_insert e ids ms)"
  "keeps bodies_grow (quarantine_record e nq)"
  by (auto simp: keeps_def profile_insert_def profile_transition_def run_insert_def run_transition_def
      run_set_enumerated_def run_bump_embedded_def run_bump_quarantined_def update_run_def
      tag_embedding_batch_upsert_def rtask_upsert_def rtask_claim_def rtask_complete_def rtask_fail_def
      update_rtasks_def embedding_batch_insert_def quarantine_record_def Let_def tx_defs update_graph_def
      bodies_grow_def is_quarantined_def sql_exists_iff embedded_insert_missing split: if_splits)

lemmas bodies_rules = bodies_grow.keeps_intros keeps_bodies

lemma keeps_bodies_txns:
  "keeps bodies_grow (profile_mark_complete e i)"
  "keeps bodies_grow (profile_mark_failed e i)"
  "keeps bodies_grow (reconcile_orphan_building_profile e granted)"
  "keeps bodies_grow (fail_run_tx e run building reason)"
  "keeps bodies_grow (cutover_txn e run building probe)"
  "keeps bodies_grow (reindex_cancel e)"
  unfolding profile_mark_complete_def profile_mark_failed_def reconcile_orphan_building_profile_def
    fail_run_tx_def cutover_txn_def reindex_cancel_def
  by (intro bodies_rules)+

lemma keeps_bodies_stage: "keeps bodies_grow (stage_reindex_run e ids h admitted granted target by)"
  unfolding stage_reindex_run_def create_reindex_run_def Let_def by (intro bodies_rules)

text \<open>Completing a building profile makes it the active one or leaves the active one.\<close>

lemma active_after_complete:
  assumes "au_active (move_profile i ProfileBuilding ProfileComplete a) = Some q"
  shows "ap_id q = i \<or> au_active a = Some q"
proof -
  let ?f = "\<lambda>ps. filter (\<lambda>p. ap_state p = ProfileComplete)
    (sql_update (\<lambda>p. ap_id p = i \<and> ap_state p = ProfileBuilding) (\<lambda>p. p\<lparr>ap_state := ProfileComplete\<rparr>) ps)"
  have "?f ps \<noteq> [] \<Longrightarrow> last (?f ps) = q \<Longrightarrow> ap_id q = i \<or>
      (let cs = filter (\<lambda>p. ap_state p = ProfileComplete) ps in cs \<noteq> [] \<and> last cs = q)" for ps
  proof (induction ps rule: rev_induct)
    case (snoc p ps)
    then show ?case by (auto simp: sql_update_append sql_update_Cons Let_def split: if_splits)
  qed simp
  from this [of "au_profiles a"] show ?thesis
    using assms by (auto simp: au_active_def au_complete_def move_profile_def Let_def split: if_splits)
qed

lemma count_remaining_covers: "count_remaining p s = 0 \<Longrightarrow> covers p s"
  by (auto simp: count_remaining_def embedding_count_missing_def sql_count_zero covers_def list_all_iff)

text \<open>The cutover's final check is what the newly active profile rests on.\<close>

lemma index_ok_complete:
  assumes ok: "index_ok s" and grow: "bodies_grow s s'" and auth: "authority_ok (authority_of s')"
    and view: "au_active (authority_of s') = au_active (move_profile i ProfileBuilding ProfileComplete (authority_of s))"
    and fits: "covers i s" and hit: "au_active (authority_of s') \<noteq> None"
  shows "index_ok s'"
proof -
  obtain q where q: "au_active (authority_of s') = Some q" using hit by auto
  have "covers (ap_id q) s"
    using active_after_complete [of i "authority_of s" q] q view fits ok
    by (auto simp: index_ok_def covered_view)
  then show ?thesis
    using covers_grow [OF grow] by (simp add: index_ok_def auth covered_view [OF auth] q)
qed

lemma cutover_index_ok:
  assumes ok: "index_ok s" and auth: "authority_ok (authority_of s')"
    and run: "cutover_txn e run building probe s = Inr (Commit out, s')"
  shows "index_ok s'"
proof -
  have grow: "bodies_grow s s'" using keepsD [OF keeps_bodies_txns(5) run] .
  from cutover_commits(2) [OF run] show ?thesis
  proof
    assume "out = CutFailed \<and> authority_of s' = move_run (rr_id run) RunRunning RunFailed
         (move_profile (ep_id building) ProfileBuilding ProfileFailed (authority_of s))"
    then show ?thesis using index_ok_grow [OF ok grow auth] by (simp add: active_move)
  next
    assume fin: "out = CutDone \<and> authority_of s' = move_run (rr_id run) RunRunning RunCompleted
         (move_profile (ep_id building) ProfileBuilding ProfileComplete (authority_of s)) \<and>
       sql_exists (\<lambda>p. ap_id p = ep_id building \<and> ap_state p = ProfileBuilding) (au_profiles (authority_of s))"
    then obtain p where p: "p \<in> set (au_profiles (authority_of s))" "ap_id p = ep_id building \<and> ap_state p = ProfileBuilding"
      by (auto simp: sql_exists_iff)
    have "p\<lparr>ap_state := ProfileComplete\<rparr> \<in> set (au_profiles (authority_of s'))"
      using fin p sql_update_memI [of p "au_profiles (authority_of s)"
          "\<lambda>p. ap_id p = ep_id building \<and> ap_state p = ProfileBuilding" "\<lambda>p. p\<lparr>ap_state := ProfileComplete\<rparr>"]
      by (simp add: move_run_def move_profile_def)
    then have "au_complete (authority_of s') \<noteq> []" by (force simp: au_complete_def filter_empty_conv)
    then have "au_active (authority_of s') \<noteq> None" by (simp add: au_active_def)
    then show ?thesis
      using index_ok_complete [OF ok grow auth] count_remaining_covers [OF cutover_commits(1) [OF run]] fin
      by simp
  qed
qed

lemma genesis_index_ok:
  assumes ok: "index_ok s" and none: "profile_find_active s = None" and auth: "authority_ok (authority_of s')"
    and run: "profile_mark_complete e i s = Inr (hit, s')"
  shows "index_ok s'"
proof -
  have "gr_items (db_graph s') = []"
    using ok none keepsD [OF keeps_bodies_txns(1) run] by (simp add: index_ok_def covered_def bodies_grow_def)
  then show ?thesis by (simp add: index_ok_def auth covered_def covers_def split: option.split)
qed

lemma reindex_prune_effect:
  assumes "reindex_prune indexed s = Inr (out, s')"
  shows "gr_items (db_graph s') = gr_items (db_graph s)"
    "gr_quarantine (db_graph s') = gr_quarantine (db_graph s)"
    "gr_embeddings (db_graph s') =
       filter (\<lambda>m. \<not> profile_superseded (em_profile_id m) s') (gr_embeddings (db_graph s))"
  using assms
  by (auto simp: reindex_prune_def profile_supersede_prunable_def embedding_delete_superseded_def
      tag_embedding_delete_superseded_def tx_defs update_graph_def profile_superseded_def)

lemma prune_index_ok:
  assumes ok: "index_ok s" and auth: "authority_ok (authority_of s')"
    and run: "reindex_prune indexed s = Inr (out, s')"
  shows "index_ok s'"
proof -
  have ok': "authority_ok (authority_of s)" "covered s" using ok by (simp_all add: index_ok_def)
  have act: "au_active (authority_of s') = au_active (authority_of s)"
    using reindex_prune_moves [OF run] active_supersede [OF ok'(1)] by simp
  show ?thesis
  proof (cases "au_active (authority_of s)")
    case None
    then show ?thesis
      using ok' act reindex_prune_effect(1) [OF run]
      by (simp add: index_ok_def auth covered_view [OF auth] covered_view [OF ok'(1)])
  next
    case (Some p)
    have "\<not> profile_superseded (ap_id p) s'"
    proof
      assume "profile_superseded (ap_id p) s'"
      then have "\<exists>q \<in> set (au_profiles (authority_of s')). ap_id q = ap_id p \<and> ap_state q = ProfileSuperseded"
        by (auto simp: profile_superseded_def sql_exists_iff authority_of_tables)
      then obtain q where q: "q \<in> set (au_profiles (authority_of s'))" "ap_id q = ap_id p" "ap_state q = ProfileSuperseded"
        by blast
      have "p \<in> set (au_profiles (authority_of s'))" "ap_state p = ProfileComplete"
        using active_newest_complete Some act by auto
      then have "q = p" using q auth by (auto simp: authority_ok_def dest: distinct_map_key_eq)
      then show False using q \<open>ap_state p = ProfileComplete\<close> by simp
    qed
    then have "embedded i (ap_id p) (gr_embeddings (db_graph s'))" if "embedded i (ap_id p) (gr_embeddings (db_graph s))" for i
      using that by (auto simp: embedded_def sql_exists_iff reindex_prune_effect(3) [OF run])
    then have "covers (ap_id p) s'" if "covers (ap_id p) s"
      using that reindex_prune_effect(1,2) [OF run]
      by (auto simp: covers_def item_unembedded_def is_quarantined_def list_all_iff)
    then show ?thesis
      using ok' act Some by (simp add: index_ok_def auth covered_view [OF auth] covered_view [OF ok'(1)])
  qed
qed

section \<open>Every step keeps the corpus covered\<close>

lemma executed_grow_ok:
  assumes "index_ok s" "keeps bodies_grow m" "authority_ok (authority_of (executed m s))"
    "\<And>a s'. m s = Inr (a, s') \<Longrightarrow> au_active (authority_of s') = au_active (authority_of s)"
  shows "index_ok (executed m s)"
proof (rule index_ok_grow [OF assms(1) bodies_grow.executed_keeps [OF assms(2)] assms(3)])
  show "map_option ap_id (au_active (authority_of (executed m s))) = map_option ap_id (au_active (authority_of s))"
    by (rule executedE) (simp_all add: assms(4))
qed

lemma create_active:
  "create_reindex_run e ids h admitted granted target by s = Inr (out, s')
    \<Longrightarrow> au_active (authority_of s') = au_active (authority_of s)"
  by (auto simp: create_reindex_run_def tx_simps Let_def elim!: tx_elims split: if_splits option.splits
      dest!: run_insert_moves(1) profile_insert_moves(1))

theorem reindex_step_index_ok:
  assumes step: "reindex_step s s'" and ok: "index_ok s"
  shows "index_ok s'"
proof -
  have auth: "authority_ok (authority_of s')" using reindex_step_ok [OF step] ok by (simp add: index_ok_def)
  show ?thesis
    using step ok auth
  proof (induction rule: reindex_step.induct)
    case (stage s e ids h admitted granted target b)
    show ?case
    proof (rule index_ok_grow [OF stage(1) bodies_grow.committed_keeps [OF keeps_bodies_stage] stage(2)])
      show "map_option ap_id (au_active (authority_of (committed (stage_reindex_run e ids h admitted granted target b) s))) =
          map_option ap_id (au_active (authority_of s))"
        by (rule committedE) (auto simp: stage_reindex_run_def tx_simps elim!: tx_elims split: prod.splits
            dest!: create_active)
    qed
  next
    case (reconcile s e granted)
    show ?case
      by (rule executed_grow_ok [OF reconcile(1) keeps_bodies_txns(3) reconcile(2)])
        (auto simp: reconcile_orphan_building_profile_def tx_simps active_move elim!: tx_elims
          split: if_splits option.splits dest!: mark_moves(2))
  next
    case (genesis_insert s e i gap n)
    show ?case
      by (rule executed_grow_ok [OF genesis_insert(2) keeps_bodies(1) genesis_insert(3)])
        (auto dest!: profile_insert_moves(1))
  next
    case (genesis_complete s e i)
    show ?case
    proof (cases "profile_mark_complete e i s")
      case (Inr r)
      then show ?thesis using genesis_index_ok [OF genesis_complete(3,2)] genesis_complete(4)
        by (cases r) (simp add: executed_def)
    qed (use genesis_complete in \<open>simp add: executed_def\<close>)
  next
    case (start s e i)
    show ?case
      by (rule executed_grow_ok [OF start(1) keeps_bodies(4) start(2)]) (auto dest!: run_transition_moves)
  next
    case (fail_run run building s e reason)
    have "keeps bodies_grow (tx_then (fail_run_tx e run building reason) (tx_return (Commit ())))"
      by (intro bodies_rules keeps_bodies_txns)
    then have "bodies_grow s (snd (fail_run e run building reason s))"
      unfolding fail_run_def by (rule bodies_grow.run_txn_keeps)
    moreover have "au_active (authority_of (snd (fail_run e run building reason s))) = au_active (authority_of s)"
      unfolding fail_run_def committed_def [symmetric]
      by (rule committedE) (auto simp: tx_simps active_move elim!: tx_elims dest!: fail_run_tx_moves)
    ultimately show ?case using index_ok_grow [OF fail_run(2) _ fail_run(3)] by simp
  next
    case (cutover run building s e probe)
    show ?case
    proof (cases "\<exists>out t. cutover_txn e run building probe s = Inr (Commit out, t)")
      case True
      then obtain out t where "cutover_txn e run building probe s = Inr (Commit out, t)" by blast
      then show ?thesis using cutover_index_ok [OF cutover(2)] cutover(3) by (simp add: committed_def run_txn_def)
    next
      case False
      then have "committed (cutover_txn e run building probe) s = s" by - (rule committedE, auto)
      then show ?thesis using cutover(2) by simp
    qed
  next
    case (cancel s e)
    show ?case
      by (rule executed_grow_ok [OF cancel(1) keeps_bodies_txns(6) cancel(2)])
        (auto simp: reindex_cancel_def tx_simps active_move elim!: tx_elims split: option.splits
          dest!: mark_moves(2) run_transition_moves)
  next
    case (prune s preview indexed)
    show ?case
    proof (cases "\<exists>out t. reindex_prune indexed s = Inr (out, t) \<and> \<not> preview")
      case True
      then obtain out t where t: "reindex_prune indexed s = Inr (out, t)" "\<not> preview" by blast
      then have "committed (prune_txn preview indexed) s = t"
        by (simp add: committed_def run_txn_def prune_txn_def tx_simps)
      then show ?thesis using prune_index_ok [OF prune(1) _ t(1)] prune(2) by simp
    next
      case False
      then have "committed (prune_txn preview indexed) s = s"
        by - (rule committedE, auto simp: prune_txn_def tx_simps elim!: tx_elims split: if_splits)
      then show ?thesis using prune(1) by simp
    qed
  qed (rule executed_grow_ok; (assumption | rule keeps_bodies
        | drule keepsD [OF keeps_authority_reindex(1)] keepsD [OF keeps_authority_reindex(2)]
            keepsD [OF keeps_authority_reindex(3)] keepsD [OF keeps_authority_reindex(4)]
            keepsD [OF keeps_authority_reindex(6)] keepsD [OF keeps_authority_reindex(8)]
            keepsD [OF keeps_authority_reindex(9)] keepsD [OF keeps_authority_reindex(10)]
            keepsD [OF keeps_authority_reindex(11)] keepsD [OF keeps_authority_reindex(12)];
          simp add: same_authority_def))+
qed

section \<open>The pipeline\<close>

lemma st_db_Inr: "st_db stage ctx m s = Inr x \<longleftrightarrow> m s = Inr x"
  by (auto simp: st_db_def tx_map_err_def split: sum.splits)

lemma item_insert_effect:
  "item_insert e i n s = Inr (item, s') \<Longrightarrow> item = new_item_row e i n \<and>
     s' = s\<lparr>db_graph := db_graph s\<lparr>gr_items := gr_items (db_graph s) @ [item]\<rparr>\<rparr>"
  by (auto simp: item_insert_def tx_defs update_graph_def split: if_splits)

lemma embedding_insert_effect:
  "embedding_insert e i n s = Inr (row, s') \<Longrightarrow> row = new_embedding_row e i n \<and>
     s' = s\<lparr>db_graph := db_graph s\<lparr>gr_embeddings := gr_embeddings (db_graph s) @ [row]\<rparr>\<rparr>"
  by (auto simp: embedding_insert_def tx_defs update_graph_def insert_guard_def split: if_splits option.splits)

lemma item_with_vector_ok:
  assumes ok: "index_ok s" and active: "profile_find_active s = Some p"
    and item: "item_insert e i n s = Inr (item, s1)"
    and vector: "embedding_insert e vid \<lparr>nem_knowledge_item_id = ki_id item, nem_profile_id = ep_id p,
      nem_model = m, nem_vector = v\<rparr> s1 = Inr (row, s2)"
  shows "index_ok s2"
proof -
  have s2: "gr_items (db_graph s2) = gr_items (db_graph s) @ [item]"
    "gr_profiles (db_graph s2) = gr_profiles (db_graph s)" "gr_runs (db_graph s2) = gr_runs (db_graph s)"
    "gr_quarantine (db_graph s2) = gr_quarantine (db_graph s)"
    "gr_embeddings (db_graph s2) = gr_embeddings (db_graph s) @ [row]"
    and row: "em_knowledge_item_id row = ki_id item" "em_profile_id row = ep_id p"
    using item_insert_effect [OF item] embedding_insert_effect [OF vector]
    by (simp_all add: new_embedding_row_def)
  have "profile_find_active s2 = Some p"
    using active s2(2) by (simp add: profile_find_active_def latest_profile_def)
  moreover have "covers (ep_id p) s2"
    using ok active row s2
    by (auto simp: index_ok_def covered_def covers_def list_all_iff item_unembedded_def is_quarantined_def
        embedded_def sql_exists_iff)
  moreover have "authority_of s2 = authority_of s" by (simp add: authority_of_def s2)
  ultimately show ?thesis using ok by (simp add: index_ok_def covered_def)
qed

lemma same_index_active: "same_index s s' \<Longrightarrow> profile_find_active s' = profile_find_active s"
  by (simp add: same_index_def profile_find_active_def latest_profile_def)

lemma commit_novel_index_ok:
  assumes run: "commit_novel e ids job project b d emb s = Inr (out, s')" and ok: "index_ok s"
  shows "index_ok s'"
proof (cases "profile_find_active s")
  case (Some p)
  show ?thesis
  proof (cases "ep_id p = ne_profile_id emb")
    case True
    let ?st = "''triage''"
    have tags: "keeps same_index (if nv_new_tags d = [] then tx_return () else
           tx_then (st_db ?st ''upserting tags'' (tag_batch_upsert e (nv_new_tags d)))
           (st_db ?st ''upserting tag embeddings''
             (tag_embedding_batch_upsert
               (map (\<lambda>(t, v). \<lparr>tm_tag = t, tm_profile_id = ep_id p, tm_model = ne_model emb, tm_vector = v\<rparr>)
                 (zip (nv_new_tags d) (ne_tag_vectors emb))))))"
      and usage: "keeps same_index (if nv_resolved_tags d @ nv_new_tags d = [] then tx_return ()
           else st_db ?st ''incrementing tag usage counts''
             (tag_increment_usage e (nv_resolved_tags d @ nv_new_tags d)))"
      by (intro same_index.protocol_rules)+
    have refs: "keeps same_index (tx_each (\<lambda>(k, r). insert_suggested (ci_many ids k) item project r)
           (enumerate 0 (nv_references d)))" for item
      by (intro same_index.protocol_rules same_index.keeps_insert_suggested)
    obtain u1 u2 s1 s2 item s3 row s4 u5 s5 r6 where
      r: "(if nv_new_tags d = [] then tx_return () else
           tx_then (st_db ?st ''upserting tags'' (tag_batch_upsert e (nv_new_tags d)))
           (st_db ?st ''upserting tag embeddings''
             (tag_embedding_batch_upsert
               (map (\<lambda>(t, v). \<lparr>tm_tag = t, tm_profile_id = ep_id p, tm_model = ne_model emb, tm_vector = v\<rparr>)
                 (zip (nv_new_tags d) (ne_tag_vectors emb)))))) s = Inr (u1, s1)"
      "(if nv_resolved_tags d @ nv_new_tags d = [] then tx_return ()
           else st_db ?st ''incrementing tag usage counts''
             (tag_increment_usage e (nv_resolved_tags d @ nv_new_tags d))) s1 = Inr (u2, s2)"
      "item_insert e (ci_item ids) (nv_item d) s2 = Inr (item, s3)"
      "embedding_insert e (ci_embedding ids) \<lparr>nem_knowledge_item_id = ki_id item,
              nem_profile_id = ep_id p, nem_model = ne_model emb, nem_vector = ne_vector emb\<rparr> s3 = Inr (row, s4)"
      "tx_each (\<lambda>(k, r). insert_suggested (ci_many ids k) (ki_id item) project r)
           (enumerate 0 (nv_references d)) s4 = Inr (u5, s5)"
      "triage_result_insert e (ci_row ids) \<lparr>ntr_job_id = job,
              ntr_principal_id = Some (nki_principal_id (nv_item d)), ntr_batch_index = b,
              ntr_outcome = OutCreated (ki_id item)\<rparr> s5 = Inr (r6, s')"
      using run Some True
      by (auto simp: commit_novel_def Let_def tx_simps st_db_Inr elim!: tx_elims)
    have "same_index s s2" using same_index.order_trans keepsD [OF tags r(1)] keepsD [OF usage r(2)] by blast
    then have "index_ok s2" "profile_find_active s2 = Some p"
      using same_index_ok ok same_index_active Some by auto
    then have "index_ok s4" using item_with_vector_ok r(3,4) by blast
    moreover have "same_index s4 s'"
      using same_index.order_trans keepsD [OF refs r(5)] keepsD [OF same_index.graph_statements(2) r(6)] by blast
    ultimately show ?thesis using same_index_ok by blast
  qed (use run ok Some in \<open>auto simp: commit_novel_def Let_def tx_simps elim!: tx_elims\<close>)
qed (use run ok in \<open>auto simp: commit_novel_def Let_def tx_simps elim!: tx_elims\<close>)

definition index_order :: "db \<Rightarrow> db \<Rightarrow> bool" where
  "index_order s s' \<longleftrightarrow> (index_ok s \<longrightarrow> index_ok s')"

interpretation index_order: store_order index_order
  by unfold_locales (auto simp: index_order_def)

lemma keeps_same_index_order: "keeps same_index m \<Longrightarrow> keeps index_order m"
  by (auto simp: keeps_def index_order_def intro: same_index_ok)

interpretation index_order: whole_order index_order
  by unfold_locales (rule keeps_same_index_order,
      rule keeps_index_statements keeps_index_others keeps_index_batch_size)+

lemma keeps_index_novel: "keeps index_order (novel_txn e ids p d m ds t b tok th term)"
  by (rule index_order.keeps_novel_txn_of) (auto simp: keeps_def index_order_def intro: commit_novel_index_ok)

section \<open>Reindex steps leave the protocol tables alone\<close>

lemma keeps_same_reindex_txns:
  "keeps same_protocol (stage_reindex_run e ids h admitted granted target by)"
  "keeps same_protocol (reconcile_orphan_building_profile e granted)"
  "keeps same_protocol (fail_run_tx e run building reason)"
  "keeps same_protocol (cutover_txn e run building probe)"
  "keeps same_protocol (reindex_cancel e)"
  "keeps same_protocol (prune_txn preview indexed)"
  unfolding stage_reindex_run_def create_reindex_run_def reconcile_orphan_building_profile_def fail_run_tx_def
    cutover_txn_def reindex_cancel_def prune_txn_def reindex_prune_def profile_mark_complete_def
    profile_mark_failed_def Let_def
  by (intro keeps_same_rules)+

lemma reindex_step_same_protocol: "reindex_step s s' \<Longrightarrow> same_protocol s s'"
proof (induction rule: reindex_step.induct)
  case (genesis_complete s e i)
  show ?case
    unfolding profile_mark_complete_def by (intro same_protocol.executed_keeps keeps_same_rules)
next
  case (fail_run run building s e reason)
  show ?case
    unfolding fail_run_def by (intro same_protocol.run_txn_keeps keeps_same_rules keeps_same_reindex_txns)
qed (rule same_protocol.executed_keeps same_protocol.committed_keeps;
     rule keeps_same_rules keeps_same_reindex_txns)+

end
