(* ===== verification/System.thy ===== *)
theory System
  imports Lockstep Coverage
begin

text \<open>
  The running system: every transaction the server, the workers and the
  sweeps commit on the store is a step, and any interleaving of them is a run.
  A claim hands out tokens that were never handed out before; a worker or a
  sweep acts on thread rows it read in an earlier step, which may be stale by
  the time its transaction runs. The invariants of the store hold in every
  reachable state.
\<close>

section \<open>Steps\<close>

text \<open>The transactions that read all they decide on from the store, or only
  write rows they fence by a token or a status.\<close>

inductive plain_step :: "db \<Rightarrow> db \<Rightarrow> bool" where
  ingest_job: "plain_step s (executed (job_insert_or_resolve e i nj) s)"
| ingest_task: "plain_step s (executed (task_insert e i nt) s)"
| task_beat: "plain_step s (executed (task_heartbeat e i tok) s)"
| driver_beat: "plain_step s (executed (driver_heartbeat e i tok) s)"
| create_stage: "plain_step s (committed (create_stage_txn e i job task tok b) s)"
| mark_running: "plain_step s (committed (mark_running_txn e th task tok) s)"
| begin_turn: "plain_step s (committed (begin_turn_txn e rid th c j) s)"
| assistant_turn: "plain_step s (committed (assistant_turn_txn e rid deps r) s)"
| model_call: "plain_step s (committed (model_call_txn e rid th c r) s)"
| result_record: "plain_step s (committed (result_record_txn e rid deps q call out) s)"
| artifact_record: "plain_step s (committed (artifact_record_txn e rid th c j) s)"
| drift_input: "plain_step s (committed (drift_input_txn e rid deps d) s)"
| extraction: "plain_step s (committed (commit_extraction_txn e cids task tok x th term) s)"
| novel: "plain_step s (committed (novel_txn e cids p d emb ds task b tok th term) s)"
| duplicate: "plain_step s (committed (duplicate_txn e cids no ds task b tok th term) s)"
| triage_noop: "plain_step s (committed (triage_noop_txn e cids ds task b tok th term) s)"
| relation: "plain_step s (committed (commit_relation_txn e cids task tok rd th term) s)"
| failure: "plain_step s (committed (persist_failure_txn e n cfg ex task tok fo msg) s)"
| reclaim: "plain_step s (executed (task_reclaim_stale e locked timeout m limit k msg flat) s)"
| reclaim_thread: "plain_step s (committed (reclaim_one_txn e n cfg ex locked k msg flat) s)"
| fail_stale: "plain_step s (executed (job_fail_stale_dead_lettered e) s)"
| resolve: "plain_step s (committed (resolve_stage_txn e rid i j) s)"
| cancel_intent: "plain_step s (executed (thread_record_cancel_intent e i by) s)"
| cascade_children: "plain_step s (executed (thread_cascade_cancel_to_children e i by) s)"
| cascade_orphans: "plain_step s (executed (thread_cascade_cancel_to_orphans e locked limit by) s)"
| run_child: "plain_step s (committed (run_child_txn e dt tok i) s)"
| child_terminal: "plain_step s (committed (child_terminal_txn e tids th i tok r p) s)"
| deferred_death: "plain_step s (committed (deferred_death_txn e rid th i tok p msg) s)"
| driver_retry: "plain_step s (executed (driver_requeue e i tok attempt av msg) s)"
| driver_bury: "plain_step s (executed (driver_dead_letter e i tok msg) s)"
| adopt_managed: "plain_step s (executed (adopt_or_create_managed e i k tok) s)"
| opening_input: "plain_step s (committed (opening_input_txn e rid th k tok j) s)"
| managed_terminal: "plain_step s (committed (managed_terminal_txn e th c md) s)"
| clear_wake: "plain_step s (committed (clear_managed_wake_txn e th c) s)"
| reindex: "reindex_step s s' \<Longrightarrow> plain_step s s'"

record world =
  w_db :: db
  w_issued :: "uuid set"
  w_reads :: "(uuid option \<times> agent_thread) set"

definition world_init :: world where
  "world_init = \<lparr>w_db = db_empty, w_issued = {}, w_reads = {}\<rparr>"

definition fresh_tokens :: "(uuid \<Rightarrow> uuid) \<Rightarrow> uuid set \<Rightarrow> uuid set \<Rightarrow> bool" where
  "fresh_tokens fresh ids issued \<longleftrightarrow> inj_on fresh ids \<and> fresh ` ids \<inter> issued = {}"

text \<open>A read is tagged with the token it happened under, or with none when a
  sweep scanned.\<close>

inductive sys_step :: "world \<Rightarrow> world \<Rightarrow> bool" where
  plain: "plain_step (w_db w) s' \<Longrightarrow> sys_step w (w\<lparr>w_db := s'\<rparr>)"
| claim_tasks: "task_claim e locked fresh limit by (w_db w) = Inr (rows, s') \<Longrightarrow>
    fresh_tokens fresh (tk_id ` set (db_tasks (w_db w))) (w_issued w) \<Longrightarrow>
    sys_step w (w\<lparr>w_db := s', w_issued := w_issued w \<union> fresh ` tk_id ` set rows\<rparr>)"
| claim_drivers: "driver_claim e locked fresh limit by (w_db w) = Inr (ds, s') \<Longrightarrow>
    fresh_tokens fresh (dt_id ` set (db_drivers (w_db w))) (w_issued w) \<Longrightarrow>
    sys_step w (w\<lparr>w_db := s', w_issued := w_issued w \<union> fresh ` dt_id ` set ds\<rparr>)"
| read: "th \<in> set (db_threads (w_db w)) \<Longrightarrow> set_option tag \<subseteq> w_issued w \<Longrightarrow>
    sys_step w (w\<lparr>w_reads := insert (tag, th) (w_reads w)\<rparr>)"
| suspend: "(tag, th) \<in> w_reads w \<Longrightarrow> th_stage_task_id th = Some i \<Longrightarrow>
    sys_step w (w\<lparr>w_db := committed (suspend_stage_txn e rid th i tok cause wake) (w_db w)\<rparr>)"
| suspend_child: "(tag, th) \<in> w_reads w \<Longrightarrow> th_stage_task_id th = Some i \<Longrightarrow>
    sys_step w (w\<lparr>w_db := committed (suspend_with_child_txn e lids th i tok q call l inp) (w_db w)\<rparr>)"
| suspend_managed: "(tag, th) \<in> w_reads w \<Longrightarrow> th_run_key th = Some k \<Longrightarrow>
    sys_step w (w\<lparr>w_db := committed (suspend_managed_txn e rid th (claim_managed k tok) cause wake) (w_db w)\<rparr>)"
| cancel: "(tag, th) \<in> w_reads w \<Longrightarrow>
    sys_step w (w\<lparr>w_db := committed (cancel_thread_txn e rid n th) (w_db w)\<rparr>)"
| dispose: "(Some tok, th) \<in> w_reads w \<Longrightarrow> th_stage_task_id th = Some (tk_id task) \<Longrightarrow>
    sys_step w (w\<lparr>w_db := committed (dispose_thread_txn e rid n stage task th tok) (w_db w)\<rparr>)"

inductive reachable :: "world \<Rightarrow> bool" where
  init: "reachable world_init"
| step: "reachable w \<Longrightarrow> sys_step w w' \<Longrightarrow> reachable w'"

inductive_cases sys_stepE: "sys_step w w'"

section \<open>What every step keeps\<close>

lemma executed_calm: "keeps calm m \<Longrightarrow> calm s (executed m s)"
  by (rule calm.executed_keeps)

lemma executed_coupled: "keeps neutral m \<Longrightarrow> coupled s \<Longrightarrow> coupled (executed m s)"
  using neutral.executed_keeps neutral_coupled by blast

lemma committed_calm: "keeps calm m \<Longrightarrow> calm s (committed m s)"
  by (rule calm.committed_keeps)

lemma committed_coupled:
  assumes "\<And>a t. m s = Inr (Commit a, t) \<Longrightarrow> coupled t" "coupled s"
  shows "coupled (committed m s)"
  using assms by (auto simp: committed_def run_txn_def split: sum.splits ending.splits)

lemma committed_neutral: "keeps neutral m \<Longrightarrow> coupled s \<Longrightarrow> coupled (committed m s)"
  by (rule committed_coupled) (auto dest: keeps_neutral_coupled)

lemma plain_step_calm: "plain_step s s' \<Longrightarrow> calm s s'"
proof (induction rule: plain_step.induct)
  case (reindex s s')
  then show ?case by (intro same_protocol_calm reindex_step_same_protocol)
qed (rule executed_calm committed_calm;
     rule keeps_calm_statements keeps_calm_turn_commits keeps_calm_result_record
       keeps_calm_create_stage keeps_calm_mark_running_txn keeps_calm_commit_extraction
       keeps_calm_triage_txns keeps_calm_commit_relation keeps_calm_persist_failure
       keeps_calm_reclaim_one keeps_calm_resolve_stage keeps_calm_run_child_txn
       keeps_calm_child_terminals keeps_calm_adopt_or_create keeps_calm_opening_input
       keeps_calm_managed)+

lemma plain_step_coupled: "plain_step s s' \<Longrightarrow> db_ok s \<Longrightarrow> coupled s \<Longrightarrow> coupled s'"
proof (induction rule: plain_step.induct)
  case (reclaim_thread s e n cfg ex locked k msg flat)
  then show ?case using committed_coupled reclaim_one_coupled by metis
next
  case (resolve s e rid i j)
  then show ?case using committed_coupled resolve_stage_coupled by metis
next
  case (child_terminal s e tids th i tok r p)
  then show ?case using committed_coupled child_terminal_coupled by metis
next
  case (deferred_death s e rid th i tok p msg)
  then show ?case using committed_coupled deferred_death_coupled by metis
next
  case (reindex s s')
  then have "same_protocol s s'" by (intro reindex_step_same_protocol)
  then have "neutral s s'" by (auto simp: same_protocol_def protocol_tables_def intro: coupled_by_tables)
  then show ?case using reindex(3) by (rule neutral_coupled)
qed (rule executed_coupled committed_neutral;
     (rule neutral.protocol_rules neutral.keeps_turn_commits neutral.keeps_result_record
       neutral.keeps_store neutral.keeps_commit_extraction neutral.keeps_triage_txns neutral.keeps_novel_txn
       neutral.keeps_commit_relation neutral.keeps_persist_failure neutral.keeps_run_child
       neutral.keeps_adopt_or_create neutral.keeps_managed | assumption))+


section \<open>Claims\<close>

text \<open>A claim adds leases only under the tokens it hands out.\<close>

lemma task_claim_leases:
  assumes "task_claim e locked fresh limit by s = Inr (rows, s')"
  shows "task_lease i tok s' \<Longrightarrow> task_lease i tok s \<or> tok \<in> fresh ` tk_id ` set rows"
    "driver_lease i tok s' = driver_lease i tok s"
proof -
  show "driver_lease i tok s' = driver_lease i tok s"
    unfolding task_claim_Inr(1) [OF assms] by (simp add: driver_lease_def)
  assume "task_lease i tok s'"
  then show "task_lease i tok s \<or> tok \<in> fresh ` tk_id ` set rows"
    unfolding task_claim_Inr [OF assms]
    by (auto simp: task_lease_def image_image elim!: sql_update_cases dest: task_claimable_mem)
qed

lemma driver_claim_leases:
  assumes "driver_claim e locked fresh limit by s = Inr (rows, s')"
  shows "driver_lease i tok s' \<Longrightarrow> driver_lease i tok s \<or> tok \<in> fresh ` dt_id ` set rows"
    "task_lease i tok s' = task_lease i tok s"
proof -
  show "task_lease i tok s' = task_lease i tok s"
    unfolding driver_claim_Inr(1) [OF assms] by (simp add: task_lease_def)
  assume "driver_lease i tok s'"
  then show "driver_lease i tok s \<or> tok \<in> fresh ` dt_id ` set rows"
    unfolding driver_claim_Inr [OF assms]
    by (auto simp: driver_lease_def image_image driver_claim_row_def elim!: sql_update_cases
        dest: driver_claimable_mem)
qed

lemma claimed_ids:
  "task_claim e locked fresh limit by s = Inr (rows, s') \<Longrightarrow> tk_id ` set rows \<subseteq> tk_id ` set (db_tasks s)"
  "driver_claim e locked fresh limit by s = Inr (ds, s') \<Longrightarrow> dt_id ` set ds \<subseteq> dt_id ` set (db_drivers s)"
  by (auto dest!: task_claim_Inr(2) driver_claim_Inr(2) simp: driver_claim_row_def)

section \<open>The invariant of the running system\<close>

definition reads_current :: "world \<Rightarrow> bool" where
  "reads_current w \<longleftrightarrow> (\<forall>(tag, th) \<in> w_reads w. snapshot_of (w_db w) th \<and> set_option tag \<subseteq> w_issued w)"

text \<open>A suspended row a worker once read belongs to a task it no longer holds.\<close>

definition reads_fenced :: "world \<Rightarrow> bool" where
  "reads_fenced w \<longleftrightarrow> (\<forall>(tag, th) \<in> w_reads w. th_status th = ThreadSuspended \<longrightarrow>
     (\<forall>tok \<in> set_option tag. \<forall>i \<in> set_option (th_stage_task_id th). \<not> task_lease i tok (w_db w)))"

definition leases_issued :: "world \<Rightarrow> bool" where
  "leases_issued w \<longleftrightarrow>
     (\<forall>i tok. task_lease i tok (w_db w) \<or> driver_lease i tok (w_db w) \<longrightarrow> tok \<in> w_issued w)"

definition sys_ok :: "world \<Rightarrow> bool" where
  "sys_ok w \<longleftrightarrow> db_ok (w_db w) \<and> coupled (w_db w) \<and> leases_issued w \<and> reads_current w \<and> reads_fenced w"

lemmas sys_defs = leases_issued_def reads_current_def reads_fenced_def

lemma snapshot_of_evolves: "evolves s s' \<Longrightarrow> snapshot_of s th \<Longrightarrow> snapshot_of s' th"
  by (auto simp: snapshot_of_def evolves_def thread_evolves_def elim!: rows_evolve_mem)

lemma sys_ok_init: "sys_ok world_init"
  by (simp add: sys_ok_def sys_defs world_init_def db_empty_def db_ok_def db_unique_def db_refs_def
      log_contiguous_def thread_log_def coupled_def blocked_tasks_def suspended_tasks_def lease_defs)

text \<open>Between states that keep the row orders, with all new leases issued.\<close>

lemma sys_ok_evolve:
  assumes ok: "sys_ok w" and ev: "evolves (w_db w) s'" and "coupled s'"
    and grow: "issued \<supseteq> w_issued w"
    and tl: "\<And>i tok. task_lease i tok s' \<Longrightarrow> task_lease i tok (w_db w) \<or> tok \<in> issued - w_issued w"
    and dl: "\<And>i tok. driver_lease i tok s' \<Longrightarrow> driver_lease i tok (w_db w) \<or> tok \<in> issued - w_issued w"
  shows "sys_ok (w\<lparr>w_db := s', w_issued := issued\<rparr>)"
proof -
  have "db_ok s'" using ok ev by (simp add: sys_ok_def evolves_def)
  moreover have "leases_issued (w\<lparr>w_db := s', w_issued := issued\<rparr>)"
    using ok grow tl dl unfolding sys_ok_def leases_issued_def by simp blast
  moreover have "reads_current (w\<lparr>w_db := s', w_issued := issued\<rparr>)"
    using ok grow snapshot_of_evolves [OF ev] unfolding sys_ok_def reads_current_def by fastforce
  moreover have "reads_fenced (w\<lparr>w_db := s', w_issued := issued\<rparr>)"
    unfolding reads_fenced_def
  proof (clarsimp)
    fix tok th i
    assume r: "(Some tok, th) \<in> w_reads w" "th_status th = ThreadSuspended" "th_stage_task_id th = Some i"
      and l: "task_lease i tok s'"
    have "tok \<in> w_issued w" "\<not> task_lease i tok (w_db w)"
      using ok r unfolding sys_ok_def reads_current_def reads_fenced_def by fastforce+
    then show False using tl [OF l] by blast
  qed
  ultimately show ?thesis using assms(3) by (simp add: sys_ok_def)
qed

lemma sys_ok_calm: "sys_ok w \<Longrightarrow> calm (w_db w) s' \<Longrightarrow> coupled s' \<Longrightarrow> sys_ok (w\<lparr>w_db := s'\<rparr>)"
  using sys_ok_evolve [of w s' "w_issued w"] by (auto simp: calm_def no_new_lease_def)


lemma coupled_insert:
  "coupled s \<Longrightarrow> blocked_tasks s' = insert i (blocked_tasks s) \<Longrightarrow> suspended_tasks s' = insert i (suspended_tasks s)
    \<Longrightarrow> coupled s'"
  by (simp add: coupled_def)

lemma suspends_coupled:
  assumes "db_ok s" "coupled s" "snapshot_of s th" "th_stage_task_id th = Some i"
  shows "suspend_stage_txn e rid th i tok cause wake s = Inr (Commit a, t) \<Longrightarrow> coupled t"
    "suspend_with_child_txn e lids th i tok q call l inp s = Inr (Commit b, t) \<Longrightarrow> coupled t"
  using coupled_insert [OF assms(2) suspend_stage_moves [OF _ assms(1,3,4)]]
    coupled_insert [OF assms(2) suspend_with_child_moves [OF _ assms(1,3,4)]] by simp_all

text \<open>A run-key anchored thread drives no stage task.\<close>

lemma managed_no_stage:
  assumes "db_ok s" "snapshot_of s th" "th_run_key th = Some k"
  shows "th_stage_task_id th = None"
proof -
  obtain r where r: "r \<in> set (db_threads s)" "thread_lineage r = thread_lineage th"
    using assms(2) by (auto simp: snapshot_of_def)
  then have "thread_anchor_check r" using assms(1) by (auto simp: db_ok_def thread_check_def)
  then show ?thesis
    using r(2) assms(3) by (auto simp: thread_anchor_check_def thread_lineage_def split: if_splits)
qed

text \<open>Reading a suspended row: its task is blocked, so nobody holds it.\<close>

lemma suspended_row_unleased:
  assumes "db_ok s" "coupled s" "th \<in> set (db_threads s)" "th_status th = ThreadSuspended"
    "th_stage_task_id th = Some i"
  shows "\<not> task_lease i tok s"
proof
  assume "task_lease i tok s"
  then obtain t where t: "t \<in> set (db_tasks s)" "tk_id t = i" "tk_claim_token t = Some tok"
    by (auto simp: task_lease_def)
  then have "tk_status t = TaskClaimed" using assms(1) by (auto simp: db_ok_def task_ok_def)
  then have "i \<notin> suspended_tasks s" using held_not_suspended [OF assms(1,2) t(1)] t(2) by simp
  then show False using assms(3-5) by (auto simp: suspended_tasks_iff)
qed

lemma sys_ok_read:
  assumes "sys_ok w" "th \<in> set (db_threads (w_db w))" "set_option tag \<subseteq> w_issued w"
  shows "sys_ok (w\<lparr>w_reads := insert (tag, th) (w_reads w)\<rparr>)"
proof -
  have "snapshot_of (w_db w) th" using assms(2) by (auto simp: snapshot_of_def)
  moreover have "\<not> task_lease i tok (w_db w)"
    if "th_status th = ThreadSuspended" "th_stage_task_id th = Some i" for i tok
    using suspended_row_unleased [OF _ _ assms(2) that] assms(1) by (simp add: sys_ok_def)
  ultimately show ?thesis using assms(1,3) unfolding sys_ok_def sys_defs by simp
qed

lemma committed_step:
  assumes "sys_ok w" "keeps calm m"
    "\<And>a t. m (w_db w) = Inr (Commit a, t) \<Longrightarrow> db_ok (w_db w) \<Longrightarrow> coupled (w_db w) \<Longrightarrow> coupled t"
  shows "sys_ok (w\<lparr>w_db := committed m (w_db w)\<rparr>)"
  using assms committed_coupled [of m "w_db w"] committed_calm [OF assms(2)]
  by (intro sys_ok_calm) (auto simp: sys_ok_def)

lemma sys_ok_dispose:
  assumes ok: "sys_ok w" and r: "(Some tok, th) \<in> w_reads w" "th_stage_task_id th = Some (tk_id task)"
  shows "sys_ok (w\<lparr>w_db := committed (dispose_thread_txn e rid n stage task th tok) (w_db w)\<rparr>)"
proof (rule committed_step [OF ok keeps_calm_dispose_thread])
  fix a t
  assume run: "dispose_thread_txn e rid n stage task th tok (w_db w) = Inr (Commit a, t)"
  have "\<forall>t \<in> set (db_tasks (w_db w)). \<not> holds_task (tk_id task) tok t" if "th_status th = ThreadSuspended"
    using ok r that unfolding sys_ok_def reads_fenced_def task_lease_def holds_task_def by fastforce
  moreover have "db_ok (w_db w)" "coupled (w_db w)" "snapshot_of (w_db w) th"
    using ok r(1) unfolding sys_ok_def reads_current_def by auto
  ultimately show "coupled t" using dispose_thread_coupled [OF run _ _ _ r(2)] by blast
qed

lemma sys_ok_step:
  assumes "sys_step w w'" and ok: "sys_ok w"
  shows "sys_ok w'"
  using assms(1)
proof cases
  case (plain s')
  then show ?thesis
    using sys_ok_calm [OF ok plain_step_calm plain_step_coupled] ok by (simp add: sys_ok_def [of w])
next
  case (claim_tasks e locked fresh limit b rows s')
  let ?issued = "w_issued w \<union> fresh ` tk_id ` set rows"
  have new: "fresh ` tk_id ` set rows \<inter> w_issued w = {}"
    using claim_tasks(3) claimed_ids(1) [OF claim_tasks(2)] by (fastforce simp: fresh_tokens_def)
  have cpl: "coupled s'"
    using keeps_neutral_coupled [OF keeps_neutral_task_claim claim_tasks(2)] ok by (simp add: sys_ok_def)
  have "task_lease i tok (w_db w) \<or> tok \<in> ?issued - w_issued w" if "task_lease i tok s'" for i tok
    using task_claim_leases(1) [OF claim_tasks(2) that] new by blast
  moreover have "driver_lease i tok (w_db w) \<or> tok \<in> ?issued - w_issued w" if "driver_lease i tok s'" for i tok
    using that by (simp add: task_claim_leases(2) [OF claim_tasks(2)])
  ultimately show ?thesis
    unfolding claim_tasks(1) by (intro sys_ok_evolve [OF ok task_claim_evolves [OF claim_tasks(2)] cpl]) simp_all
next
  case (claim_drivers e locked fresh limit b ds s')
  let ?issued = "w_issued w \<union> fresh ` dt_id ` set ds"
  have new: "fresh ` dt_id ` set ds \<inter> w_issued w = {}"
    using claim_drivers(3) claimed_ids(2) [OF claim_drivers(2)] by (fastforce simp: fresh_tokens_def)
  have cpl: "coupled s'"
    using keeps_neutral_coupled [OF keeps_neutral_driver_claim claim_drivers(2)] ok by (simp add: sys_ok_def)
  have "task_lease i tok (w_db w) \<or> tok \<in> ?issued - w_issued w" if "task_lease i tok s'" for i tok
    using that by (simp add: driver_claim_leases(2) [OF claim_drivers(2)])
  moreover have "driver_lease i tok (w_db w) \<or> tok \<in> ?issued - w_issued w" if "driver_lease i tok s'" for i tok
    using driver_claim_leases(1) [OF claim_drivers(2) that] new by blast
  ultimately show ?thesis
    unfolding claim_drivers(1) by (intro sys_ok_evolve [OF ok driver_claim_evolves [OF claim_drivers(2)] cpl]) simp_all
next
  case (read th tag)
  then show ?thesis using sys_ok_read [OF ok] by simp
next
  case (suspend tag th i e rid tok cause wake)
  have snap: "snapshot_of (w_db w) th" using ok suspend(2) unfolding sys_ok_def reads_current_def by auto
  show ?thesis
    unfolding suspend(1)
    by (rule committed_step [OF ok keeps_calm_suspend_stage])
      (rule suspends_coupled(1) [OF _ _ snap suspend(3)])
next
  case (suspend_child tag th i e lids tok q call l inp)
  have snap: "snapshot_of (w_db w) th" using ok suspend_child(2) unfolding sys_ok_def reads_current_def by auto
  show ?thesis
    unfolding suspend_child(1)
    by (rule committed_step [OF ok keeps_calm_suspend_with_child])
      (rule suspends_coupled(2) [OF _ _ snap suspend_child(3)])
next
  case (suspend_managed tag th k e rid tok cause wake)
  have snap: "snapshot_of (w_db w) th" using ok suspend_managed(2) unfolding sys_ok_def reads_current_def by auto
  show ?thesis
    unfolding suspend_managed(1)
    by (rule committed_step [OF ok keeps_calm_managed(2)])
      (rule suspend_managed_coupled [OF _ _ _ snap managed_no_stage [OF _ snap suspend_managed(3)]])
next
  case (cancel tag th e rid n)
  have snap: "snapshot_of (w_db w) th" using ok cancel(2) unfolding sys_ok_def reads_current_def by auto
  show ?thesis
    unfolding cancel(1)
    by (rule committed_step [OF ok keeps_calm_cancel_thread_txn]) (rule cancel_thread_coupled [OF _ _ _ snap])
next
  case (dispose tok th task e rid n stage)
  then show ?thesis using sys_ok_dispose [OF ok] by simp
qed

lemma reachable_sys_ok: "reachable w \<Longrightarrow> sys_ok w"
  by (induction rule: reachable.induct) (auto intro: sys_ok_init sys_ok_step)

end
