(* ===== verification/Scenario.thy ===== *)
theory Scenario
  imports System
begin

text \<open>
  One concrete run of the system, on which the hypotheses of the properties
  are checked: a job is admitted with its relation task, a worker claims the
  task, creates its thread and starts it, the thread delegates a question to
  a child, a driver worker claims the child, and the child's answer wakes the
  parent.
\<close>

definition sc_env :: env where
  "sc_env = \<lparr>env_now = 1000, env_utc_now = 1000, env_trace_id = None, env_span_id = None\<rparr>"

definition sc_job :: new_job where
  "sc_job = \<lparr>nj_correlation_id = None, nj_project_id = 50, nj_principal_id = 51, nj_actor_id = None,
     nj_source_context = JObj [], nj_raw_input = ''input'', nj_ingest_idempotency_key = Some 52,
     nj_extraction_system_prompt_version_id = 53, nj_extraction_user_prompt_version_id = 53,
     nj_triage_system_prompt_version_id = 53, nj_triage_user_prompt_version_id = 53,
     nj_relation_system_prompt_version_id = 53, nj_relation_user_prompt_version_id = 53,
     nj_system_fingerprint_hash = ''f'', nj_trace_context = None\<rparr>"

definition sc_task :: new_task where
  "sc_task = \<lparr>nt_job_id = 1, nt_task_type = Relation, nt_batch_index = None\<rparr>"

definition sc_binding :: agent_binding where
  "sc_binding = \<lparr>bd_id = 60, bd_definition = JNull\<rparr>"

definition sc_launch :: child_launch where
  "sc_launch = \<lparr>la_pipeline_stage = Relation, la_binding_version_id = 60, la_principal_id = 51,
     la_job_id = Some 1, la_format_version = 1\<rparr>"

definition sc_question :: rendered_conversation where
  "sc_question = \<lparr>rn_system = None, rn_messages = [], rn_system_prompt_version_id = None,
     rn_user_prompt_version_id = None, rn_resolution_context = None, rn_response_schema = None\<rparr>"

definition sc_answer :: completion_response where
  "sc_answer = \<lparr>cr_text = ''yes'', cr_tool_calls = [],
     cr_usage = \<lparr>us_input_tokens = 1, us_output_tokens = 2, us_cache_read_tokens = 0,
       us_cache_write_tokens = 0, us_total_tokens = 3, us_latency_ms = 4\<rparr>\<rparr>"

definition sc_launch_ids :: launch_ids where
  "sc_launch_ids = \<lparr>li_suspension_record = 10, li_child_thread = 4, li_driver_task = 5, li_input_record = 11\<rparr>"

definition sc_parent :: parent_resolution where
  "sc_parent = \<lparr>pr_thread_id = 3, pr_requesting_seq = 0, pr_tool_call_id = ''c1''\<rparr>"

definition sc_ids :: terminal_ids where
  "sc_ids = \<lparr>ti_child_record = 12, ti_parent_record = 13\<rparr>"

section \<open>The rows along the run\<close>

definition sc_job_row :: job where
  "sc_job_row = new_job_row sc_env 1 sc_job"

definition sc_task0 :: task where
  "sc_task0 = new_task_row sc_env 2 sc_task"

definition sc_task1 :: task where
  "sc_task1 = task_claim_row sc_env 102 ''w'' sc_task0"

definition sc_task2 :: task where
  "sc_task2 = (task_unlease sc_task1)\<lparr>tk_status := TaskBlocked, tk_updated_at := 1000\<rparr>"

definition sc_task3 :: task where
  "sc_task3 = sc_task2\<lparr>tk_status := TaskQueued, tk_available_at := 1000, tk_updated_at := 1000\<rparr>"

definition sc_parent0 :: agent_thread where
  "sc_parent0 = new_thread_row sc_env 3 (stage_new_thread sc_job_row sc_task1 sc_binding)"

definition sc_parent1 :: agent_thread where
  "sc_parent1 = sc_parent0\<lparr>th_status := ThreadRunning, th_suspension := None, th_wake_at := None,
     th_updated_at := 1000\<rparr>"

definition sc_parent2 :: agent_thread where
  "sc_parent2 = sc_parent1\<lparr>th_status := ThreadSuspended,
     th_suspension := Some (DeferredToolResults 0 [''c1'']), th_wake_at := None, th_updated_at := 1000\<rparr>"

definition sc_parent3 :: agent_thread where
  "sc_parent3 = sc_parent2\<lparr>th_status := ThreadRunning, th_suspension := None, th_wake_at := None,
     th_updated_at := 1000\<rparr>"

definition sc_child0 :: agent_thread where
  "sc_child0 = new_thread_row sc_env 4 (child_new_thread sc_parent1 sc_launch 5)"

definition sc_child1 :: agent_thread where
  "sc_child1 = sc_child0\<lparr>th_status := ThreadRunning, th_suspension := None, th_wake_at := None,
     th_updated_at := 1000\<rparr>"

definition sc_child2 :: agent_thread where
  "sc_child2 = sc_child1\<lparr>th_status := ThreadCompleted, th_suspension := None, th_wake_at := None,
     th_completed_at := Some 1000, th_updated_at := 1000\<rparr>"

definition sc_driver0 :: driver_task where
  "sc_driver0 = new_driver_row sc_env 5 \<lparr>nd_id = Some 5, nd_thread_id = 4, nd_kind = Drive\<rparr>"

definition sc_driver1 :: driver_task where
  "sc_driver1 = driver_claim_row sc_env 205 ''d'' sc_driver0"

definition sc_driver2 :: driver_task where
  "sc_driver2 = (driver_unlease sc_driver1)\<lparr>dt_state := DriverCompleted, dt_completed_at := Some 1000,
     dt_updated_at := 1000\<rparr>"

definition sc_record0 :: thread_record where
  "sc_record0 = new_record_row sc_env 10 (tail_record sc_env 3 0 SuspensionRecord None
     (suspension_to_json (DeferredToolResults 0 [''c1''])) None)"

definition sc_record1 :: thread_record where
  "sc_record1 = new_record_row sc_env 11 (tail_record sc_env 4 0 InputRecord None
     (rendered_to_json sc_question) None)"

definition sc_record2 :: thread_record where
  "sc_record2 = new_record_row sc_env 12 (tail_record sc_env 4 1 AssistantMessage None
     (assistant_to_json \<lparr>ac_text = ''yes'', ac_tool_calls = []\<rparr>) (Some (usage_to_json (cr_usage sc_answer))))"

definition sc_record3 :: thread_record where
  "sc_record3 = new_record_row sc_env 13 (tail_record sc_env 3 1 ToolResult (Some (0, ''c1''))
     (tool_result_to_json \<lparr>tr_output = ''yes'', tr_is_error = False\<rparr>) None)"

definition sc_state :: "task list \<Rightarrow> agent_thread list \<Rightarrow> thread_record list \<Rightarrow> driver_task list \<Rightarrow> db" where
  "sc_state ts ths rs ds = \<lparr>db_jobs = [sc_job_row], db_tasks = ts, db_threads = ths, db_records = rs,
     db_drivers = ds, db_graph = graph_empty\<rparr>"

definition sc_admitted :: db where "sc_admitted = sc_state [sc_task0] [] [] []"

definition sc_claimed :: db where "sc_claimed = sc_state [sc_task1] [] [] []"

definition sc_created :: db where "sc_created = sc_state [sc_task1] [sc_parent0] [] []"

definition sc_running :: db where "sc_running = sc_state [sc_task1] [sc_parent1] [] []"

definition sc_suspended :: db where
  "sc_suspended = sc_state [sc_task2] [sc_parent2, sc_child0] [sc_record0, sc_record1] [sc_driver0]"

definition sc_driven :: db where
  "sc_driven = sc_state [sc_task2] [sc_parent2, sc_child0] [sc_record0, sc_record1] [sc_driver1]"

definition sc_child_running :: db where
  "sc_child_running = sc_state [sc_task2] [sc_parent2, sc_child1] [sc_record0, sc_record1] [sc_driver1]"

definition sc_woken :: db where
  "sc_woken = sc_state [sc_task3] [sc_parent3, sc_child2]
     [sc_record0, sc_record1, sc_record2, sc_record3] [sc_driver2]"

lemmas sc_data = sc_env_def sc_job_def sc_task_def sc_binding_def sc_launch_def sc_question_def
  sc_answer_def sc_launch_ids_def sc_parent_def sc_ids_def

lemmas sc_rows = sc_job_row_def sc_task0_def sc_task1_def sc_task2_def sc_task3_def sc_parent0_def
  sc_parent1_def sc_parent2_def sc_parent3_def sc_child0_def sc_child1_def sc_child2_def sc_driver0_def sc_driver1_def
  sc_driver2_def sc_record0_def sc_record1_def sc_record2_def sc_record3_def new_job_row_def
  new_task_row_def task_claim_row_def task_unlease_def new_thread_row_def new_driver_row_def
  driver_claim_row_def driver_unlease_def new_record_row_def stage_new_thread_def child_new_thread_def
  tail_record_def

lemmas sc_states = sc_state_def sc_admitted_def sc_claimed_def sc_created_def sc_running_def
  sc_suspended_def sc_driven_def sc_child_running_def sc_woken_def

lemmas sc_checks = task_check_def job_check_def thread_check_def thread_anchor_check_def record_check_def
  driver_check_def singleton_key_def triage_key_def idempotency_key_def record_fence_def
  task_ok_def driver_ok_def

lemmas sc_eval = tx_defs insert_guard_def sql_exists_def sql_count_def sql_update_def
  sql_select_ordered_def Let_def rt_db_def append_tail_def record_append_def record_next_seq_def
  thread_log_def seq_first_def seq_next_def update_tasks_def update_threads_def update_drivers_def
  thread_lock_def holds_task_def holds_driver_def

section \<open>The run\<close>

lemma sc_admit:
  "job_insert_or_resolve sc_env 1 sc_job db_empty = Inr (Inserted sc_job_row, sc_state [] [] [] [])"
  "task_insert sc_env 2 sc_task (sc_state [] [] [] []) = Inr (sc_task0, sc_admitted)"
  by (simp_all add: sc_data sc_rows sc_states sc_checks sc_eval job_insert_or_resolve_def append_job_def
      key_taken_def trace_context_fits_def db_empty_def task_insert_def batch_index_fits_def append_task_def)

lemma sc_claim: "task_claim sc_env (\<lambda>_. False) (\<lambda>i. 100 + i) 1 ''w'' sc_admitted = Inr ([sc_task1], sc_claimed)"
  by (simp add: task_claim_def task_claimable_def sc_data sc_rows sc_states sc_eval claim_ordering_def)


lemma sc_create:
  "create_stage_txn sc_env 3 sc_job_row sc_task1 102 sc_binding sc_claimed
     = Inr (Commit (Some sc_parent0), sc_created)"
  by (simp add: create_stage_txn_def stage_holds_claim_def task_holds_claim_def thread_insert_def
      thread_insert_refs_def sc_data sc_rows sc_states sc_eval sc_checks agent_thread_format_version_def
      fits_i32_def thread_status_terminal_def)

lemma sc_start:
  "mark_running_txn sc_env sc_parent0 sc_task1 102 sc_created = Inr (Commit 1, sc_running)"
  by (simp add: mark_running_txn_def stage_holds_claim_def task_holds_claim_def thread_mark_running_def
      sc_data sc_rows sc_states sc_eval)

lemma sc_suspend:
  "suspend_with_child_txn sc_env sc_launch_ids sc_parent1 2 102 0 ''c1'' sc_launch sc_question sc_running
     = Inr (Commit (Launched \<lparr>lc_thread_id = 4, lc_driver_task_id = 5\<rparr>), sc_suspended)"
  by (simp add: suspend_with_child_txn_def task_block_def thread_suspend_def thread_insert_def
      thread_insert_refs_def driver_insert_def sc_data sc_rows sc_states sc_eval sc_checks fits_i32_def
      agent_thread_format_version_def thread_status_terminal_def)

lemma sc_drive: "driver_claim sc_env (\<lambda>_. False) (\<lambda>i. 200 + i) 1 ''d'' sc_suspended = Inr ([sc_driver1], sc_driven)"
  by (simp add: driver_claim_def driver_claimable_def sc_data sc_rows sc_states sc_eval)

lemma sc_run_child: "run_child_txn sc_env sc_driver1 205 4 sc_driven = Inr (Commit (), sc_child_running)"
  by (simp add: run_child_txn_def driver_holds_claim_def thread_mark_running_def st_db_def
      sc_data sc_rows sc_states sc_eval)

lemma sc_wake:
  "child_terminal_txn sc_env sc_ids sc_child1 5 205 sc_answer sc_parent sc_child_running
     = Inr (Commit HandedBack, sc_woken)"
  by (simp add: child_terminal_txn_def complete_driver_task_def driver_complete_def finish_child_def
      finish_child_status_def finish_running_def thread_complete_def hand_back_def thread_mark_running_def
      task_requeue_from_blocked_def sc_data sc_rows sc_states sc_eval sc_checks)

section \<open>Its states are reachable\<close>

definition sc_w :: "db \<Rightarrow> uuid set \<Rightarrow> (uuid option \<times> agent_thread) set \<Rightarrow> world" where
  "sc_w s issued reads = \<lparr>w_db = s, w_issued = issued, w_reads = reads\<rparr>"

lemma sc_w_sel [simp]: "w_db (sc_w s i r) = s" "w_issued (sc_w s i r) = i" "w_reads (sc_w s i r) = r"
  "(sc_w s i r)\<lparr>w_db := t\<rparr> = sc_w t i r" "(sc_w s i r)\<lparr>w_reads := q\<rparr> = sc_w s i q"
  "(sc_w s i r)\<lparr>w_issued := j\<rparr> = sc_w s j r"
  by (simp_all add: sc_w_def)

lemma sc_plain: "reachable (sc_w s i r) \<Longrightarrow> plain_step s t \<Longrightarrow> reachable (sc_w t i r)"
  using reachable.step [of "sc_w s i r" "sc_w t i r"] sys_step.plain [of "sc_w s i r" t] by simp

lemma sc_reach_admitted: "reachable (sc_w sc_admitted {} {})"
proof -
  have "plain_step db_empty (sc_state [] [] [] [])"
    using plain_step.ingest_job [of db_empty sc_env 1 sc_job] unfolding executed_def sc_admit(1) by simp
  moreover have "plain_step (sc_state [] [] [] []) sc_admitted"
    using plain_step.ingest_task [of "sc_state [] [] [] []" sc_env 2 sc_task] unfolding executed_def sc_admit(2) by simp
  moreover have "reachable (sc_w db_empty {} {})" using reachable.init by (simp add: world_init_def sc_w_def)
  ultimately show ?thesis using sc_plain by blast
qed

lemma sc_reach_claimed: "reachable (sc_w sc_claimed {102} {})"
proof -
  have ids: "tk_id ` set (db_tasks sc_admitted) = {2}" "tk_id sc_task1 = 2"
    by (simp_all add: sc_rows sc_states)
  have fresh: "fresh_tokens (\<lambda>i. 100 + i) (tk_id ` set (db_tasks (w_db (sc_w sc_admitted {} {})))) (w_issued (sc_w sc_admitted {} {}))"
    by (simp add: fresh_tokens_def)
  have "sys_step (sc_w sc_admitted {} {}) (sc_w sc_claimed {102} {})"
    using sys_step.claim_tasks [OF _ fresh, of sc_env "\<lambda>_. False" 1 "''w''" "[sc_task1]" sc_claimed, unfolded sc_w_sel, OF sc_claim]
    by (simp add: ids)
  then show ?thesis using reachable.step [OF sc_reach_admitted] by blast
qed

lemma sc_reach_running: "reachable (sc_w sc_running {102} {})"
proof -
  have "plain_step sc_claimed sc_created"
    using plain_step.create_stage [of sc_claimed sc_env 3 sc_job_row sc_task1 102 sc_binding]
    by (simp add: committed_def run_txn_def sc_create)
  moreover have "plain_step sc_created sc_running"
    using plain_step.mark_running [of sc_created sc_env sc_parent0 sc_task1 102]
    by (simp add: committed_def run_txn_def sc_start)
  ultimately show ?thesis using sc_plain sc_reach_claimed by blast
qed

lemma sc_reach_suspended: "reachable (sc_w sc_suspended {102} {(Some 102, sc_parent1)})"
proof -
  let ?w = "sc_w sc_running {102} {(Some 102, sc_parent1)}"
  have "sys_step (sc_w sc_running {102} {}) ?w"
    using sys_step.read [of sc_parent1 "sc_w sc_running {102} {}" "Some 102"] by (simp add: sc_states)
  then have "reachable ?w" using reachable.step [OF sc_reach_running] by blast
  moreover have "sys_step ?w (sc_w sc_suspended {102} {(Some 102, sc_parent1)})"
    using sys_step.suspend_child [of "Some 102" sc_parent1 ?w 2 sc_env sc_launch_ids 102 0 "''c1''" sc_launch sc_question]
    by (simp add: committed_def run_txn_def sc_suspend) (simp add: sc_rows)
  ultimately show ?thesis by (rule reachable.step)
qed

lemma sc_step_drive:
  "sys_step (sc_w sc_suspended {102} {(Some 102, sc_parent1)}) (sc_w sc_driven {102, 205} {(Some 102, sc_parent1)})"
proof -
  let ?w = "sc_w sc_suspended {102} {(Some 102, sc_parent1)}"
  have ids: "dt_id ` set (db_drivers sc_suspended) = {5}" "dt_id sc_driver1 = 5"
    by (simp_all add: sc_rows sc_states)
  have fresh: "fresh_tokens (\<lambda>i. 200 + i) (dt_id ` set (db_drivers (w_db ?w))) (w_issued ?w)"
    by (simp add: fresh_tokens_def ids)
  show ?thesis
    using sys_step.claim_drivers [OF _ fresh, of sc_env "\<lambda>_. False" 1 "''d''" "[sc_driver1]" sc_driven, unfolded sc_w_sel, OF sc_drive]
    by (simp add: ids insert_commute)
qed

lemma sc_reach_child: "reachable (sc_w sc_child_running {102, 205} {(Some 102, sc_parent1)})"
proof -
  have "reachable (sc_w sc_driven {102, 205} {(Some 102, sc_parent1)})"
    using reachable.step [OF sc_reach_suspended sc_step_drive] .
  moreover have "plain_step sc_driven sc_child_running"
    using plain_step.run_child [of sc_driven sc_env sc_driver1 205 4]
    by (simp add: committed_def run_txn_def sc_run_child)
  ultimately show ?thesis by (rule sc_plain)
qed

lemma sc_step_wake: "sys_step (sc_w sc_child_running i r) (sc_w sc_woken i r)"
proof -
  have "plain_step sc_child_running sc_woken"
    using plain_step.child_terminal [of sc_child_running sc_env sc_ids sc_child1 5 205 sc_answer sc_parent]
    by (simp add: committed_def run_txn_def sc_wake)
  then show ?thesis using sys_step.plain [of "sc_w sc_child_running i r" sc_woken] by simp
qed

lemma sc_reach_woken: "reachable (sc_w sc_woken {102, 205} {(Some 102, sc_parent1)})"
  using reachable.step [OF sc_reach_child sc_step_wake] .

text \<open>Every state of the run keeps the invariants.\<close>

lemmas sc_ok = reachable_sys_ok [OF sc_reach_claimed] reachable_sys_ok [OF sc_reach_running]
  reachable_sys_ok [OF sc_reach_suspended] reachable_sys_ok [OF sc_reach_child]
  reachable_sys_ok [OF sc_reach_woken]

lemma sc_db_ok: "db_ok sc_claimed" "db_ok sc_running" "db_ok sc_suspended" "db_ok sc_child_running" "db_ok sc_woken"
  using sc_ok by (simp_all add: sys_ok_def)

end
