(* ===== verification/Guarantees.thy ===== *)
theory Guarantees
  imports Scenario
begin

text \<open>
  What holds in every run of the system: the schema's constraints, the
  lock-step of threads and tasks and the wakes that rely on it, the order of
  the logs, the fencing of lost leases and the finality of terminal states.
\<close>

section \<open>Evolution along runs\<close>

lemma sys_step_evolves: "sys_step w w' \<Longrightarrow> evolves (w_db w) (w_db w')"
proof (induction rule: sys_step.induct)
  case (plain w s')
  then show ?case using plain_step_calm by (auto simp: calm_def)
next
  case (claim_tasks e locked fresh limit b w rows s')
  then show ?case using task_claim_evolves by simp
next
  case (claim_drivers e locked fresh limit b w ds s')
  then show ?case using driver_claim_evolves by simp
next
  case (read th w tag)
  then show ?case by (simp add: evolves_refl)
qed (auto simp: intro!: calm_evolves committed_calm keeps_calm_suspend_stage keeps_calm_suspend_with_child
    keeps_calm_managed keeps_calm_cancel_thread_txn keeps_calm_dispose_thread)

lemma sys_run_evolves: "sys_step\<^sup>*\<^sup>* w w' \<Longrightarrow> evolves (w_db w) (w_db w')"
  by (induction rule: rtranclp_induct) (auto intro: evolves_refl evolves_trans sys_step_evolves)

lemma sys_run_reachable: "sys_step\<^sup>*\<^sup>* w w' \<Longrightarrow> reachable w \<Longrightarrow> reachable w'"
  by (induction rule: rtranclp_induct) (auto intro: reachable.step)

lemma reachable_db_ok: "reachable w \<Longrightarrow> db_ok (w_db w)" and reachable_coupled: "reachable w \<Longrightarrow> coupled (w_db w)"
  using reachable_sys_ok by (auto simp: sys_ok_def)

lemma rows_evolve_eq: "rows_evolve (=) xs ys \<Longrightarrow> \<exists>zs. ys = xs @ zs"
  by (metis append_take_drop_id list.rel_eq rows_evolve_def)

lemma no_new_leaseD: "calm s s' \<Longrightarrow> task_lease i tok s' \<Longrightarrow> task_lease i tok s"
  by (simp add: calm_def no_new_lease_def)

text \<open>A row with the same unique key evolved from the earlier one.\<close>

lemma rows_evolve_key:
  assumes "rows_evolve E xs ys" "x \<in> set xs" "y \<in> set ys" "distinct (map k ys)" "k x = k y"
    "\<And>a b. E a b \<Longrightarrow> k b = k a"
  shows "E x y"
proof -
  obtain z where "z \<in> set ys" "E x z" using assms(1,2) by (rule rows_evolve_mem)
  then show ?thesis using assms(3-6) distinct_map_key_eq [of k ys z y] by metis
qed

section \<open>Constraints of the schema\<close>



section \<open>Suspended threads and blocked tasks\<close>

text \<open>C1: In every reachable state, whatever was interleaved, a stage thread is
  suspended exactly while its driving task is blocked. So no wake meets a task
  that is not blocked, and no claimed task meets a suspended thread.\<close>

theorem suspended_iff_blocked:
  assumes "reachable w" "th \<in> set (db_threads (w_db w))" "t \<in> set (db_tasks (w_db w))"
    "th_stage_task_id th = Some (tk_id t)"
  shows "th_status th = ThreadSuspended \<longleftrightarrow> tk_status t = TaskBlocked"
proof -
  have "th_status th = ThreadSuspended \<longleftrightarrow> tk_id t \<in> suspended_tasks (w_db w)"
    using thread_row_unique(2) [OF reachable_db_ok [OF assms(1)] assms(2)] assms(2,4)
    unfolding suspended_tasks_iff by metis
  moreover have "tk_status t = TaskBlocked \<longleftrightarrow> tk_id t \<in> blocked_tasks (w_db w)"
    using task_row_unique [OF reachable_db_ok [OF assms(1)] assms(3)] assms(3)
    unfolding blocked_tasks_iff by metis
  ultimately show ?thesis using reachable_coupled [OF assms(1)] by (simp add: coupled_def)
qed

theorem suspended_iff_blocked_witness:
  "th_status sc_parent2 = ThreadSuspended \<and> tk_status sc_task2 = TaskBlocked"
  using suspended_iff_blocked [OF sc_reach_suspended, of sc_parent2 sc_task2]
  by (simp add: sc_states) (simp add: sc_rows)

section \<open>Error analysis\<close>

lemma rt_db_Inl: "rt_db ctx m s = Inl err \<longleftrightarrow> (\<exists>d. m s = Inl d \<and> err = Database ctx d)"
  by (auto simp: rt_db_def tx_map_err_def split: sum.splits)

lemma tx_bind_Inl_iff: "tx_bind m f s = Inl x \<longleftrightarrow> m s = Inl x \<or> (\<exists>a t. m s = Inr (a, t) \<and> f a t = Inl x)"
  by (auto simp: tx_bind_def split: sum.splits)

lemma tx_then_Inl_iff: "tx_then m n s = Inl x \<longleftrightarrow> m s = Inl x \<or> (\<exists>a t. m s = Inr (a, t) \<and> n t = Inl x)"
  by (simp add: tx_then_def tx_bind_Inl_iff)

lemmas run_Inl = rt_db_Inl tx_bind_Inl_iff tx_then_Inl_iff

lemma append_tail_Inl: "append_tail e rid th k a c u ctx s = Inl err \<Longrightarrow> \<exists>d. err = Database ctx d"
  by (auto simp: append_tail_def run_Inl run_simps)

lemma requeue_blocked_counts:
  assumes run: "task_requeue_from_blocked e i s = Inr (n, s')" and blocked: "i \<in> blocked_tasks s"
  shows "n \<noteq> 0"
proof -
  have "n = sql_count (\<lambda>t. tk_id t = i \<and> tk_status t = TaskBlocked) (db_tasks s)"
    using run by (simp add: task_requeue_from_blocked_def update_tasks_def)
  then show ?thesis using blocked unfolding blocked_tasks_iff by (simp only: sql_count_pos)
qed

text \<open>Waking a suspended stage thread finds its task blocked.\<close>

lemma wake_finds_blocked:
  assumes ok: "db_ok s" and cpl: "coupled s" and lock: "thread_lock i s = Some th"
    and st: "th_status th = ThreadSuspended" "th_stage_task_id th = Some k"
    and tail: "append_tail e rid i kd a c u ctx s = Inr (r, s1)"
    and wake: "thread_mark_running e i ThreadSuspended s1 = Inr (m, s2)"
  shows "k \<in> blocked_tasks s2"
proof -
  have "k \<in> suspended_tasks s" using thread_lock_Some [OF lock] st by (auto simp: suspended_tasks_iff)
  moreover have "blocked_tasks s2 = blocked_tasks s"
    using thread_wake_effect(2) [OF wake append_tail_tables(4) [OF tail ok]] append_tail_tables(3) [OF tail]
    by (simp add: neutral_def)
  ultimately show ?thesis using cpl by (simp add: coupled_def)
qed

lemma resolve_never_misses:
  assumes ok: "db_ok s" and cpl: "coupled s"
  shows "resolve_stage_txn e rid i j s \<noteq> Inl (DrivingTaskNotBlocked k)"
proof
  assume err: "resolve_stage_txn e rid i j s = Inl (DrivingTaskNotBlocked k)"
  then obtain th where th: "thread_lock i s = Some th"
    by (auto simp: resolve_stage_txn_def run_Inl run_simps split: option.splits)
  have same: "th_id th = i" using thread_lock_Some [OF th] by simp
  obtain r s1 m s2 n s3 where step: "append_tail e rid i InputRecord None j None
      ''committing the resolution record'' s = Inr (r, s1)"
      "thread_mark_running e i ThreadSuspended s1 = Inr (m, s2)" "th_status th = ThreadSuspended"
      "th_stage_task_id th = Some k" "task_requeue_from_blocked e k s2 = Inr (0, s3)"
    using err th same by (auto simp: resolve_stage_txn_def run_Inl run_simps split: option.splits if_splits
        dest: append_tail_Inl)
  then show False
    using requeue_blocked_counts [OF step(5)] wake_finds_blocked [OF ok cpl th step(3,4,1,2)] by blast
qed

lemma hand_back_never_misses:
  assumes ok: "db_ok s" and cpl: "coupled s"
  shows "hand_back e rid p res s \<noteq> Inl (DrivingTaskNotBlocked k)"
proof
  assume err: "hand_back e rid p res s = Inl (DrivingTaskNotBlocked k)"
  then obtain th where th: "thread_lock (pr_thread_id p) s = Some th"
    by (auto simp: hand_back_def run_Inl run_simps split: option.splits)
  obtain r s1 m s2 n s3 where step: "append_tail e rid (pr_thread_id p) ToolResult
       (Some (pr_requesting_seq p, pr_tool_call_id p)) (tool_result_to_json res) None
       ''committing the parent's hand-back result'' s = Inr (r, s1)"
      "thread_mark_running e (pr_thread_id p) ThreadSuspended s1 = Inr (m, s2)" "th_status th = ThreadSuspended"
      "th_stage_task_id th = Some k" "task_requeue_from_blocked e k s2 = Inr (0, s3)"
    using err th by (auto simp: hand_back_def run_Inl run_simps split: option.splits if_splits
        dest: append_tail_Inl)
  then show False
    using requeue_blocked_counts [OF step(5)] wake_finds_blocked [OF ok cpl th step(3,4,1,2)] by blast
qed


lemma child_terminal_never_misses:
  assumes ok: "db_ok s" and cpl: "coupled s"
  shows "child_terminal_txn e ids c d tok r p s \<noteq> Inl (DrivingTaskNotBlocked k)"
proof
  assume "child_terminal_txn e ids c d tok r p s = Inl (DrivingTaskNotBlocked k)"
  then obtain u s1 v s2 where p1: "complete_driver_task e d tok s = Inr (u, s1)"
    and p2: "finish_child e (ti_child_record ids) c (Some r) TermCompleted s1 = Inr (v, s2)"
    and hb: "hand_back e (ti_parent_record ids) p \<lparr>tr_output = cr_text r, tr_is_error = False\<rparr> s2
      = Inl (DrivingTaskNotBlocked k)"
    by (auto simp: child_terminal_txn_def complete_driver_task_def finish_child_def finish_child_status_def
        finish_running_def run_Inl run_simps dest: append_tail_Inl split: if_splits)
  have "db_ok s2" "coupled s2"
    using calm_db_ok [OF keeps_calm_finish_child(2) p2 calm_db_ok [OF keeps_calm_child_parts(1) p1 ok]]
      keeps_neutral_coupled [OF keeps_neutral_child_parts(3) p2 keeps_neutral_coupled
        [OF keeps_neutral_child_parts(1) p1 cpl]] by simp_all
  then show False using hand_back_never_misses hb by blast
qed

lemma deferred_death_never_misses:
  assumes ok: "db_ok s" and cpl: "coupled s"
  shows "deferred_death_txn e rid c d tok p msg s \<noteq> Inl (DrivingTaskNotBlocked k)"
proof
  assume "deferred_death_txn e rid c d tok p msg s = Inl (DrivingTaskNotBlocked k)"
  then obtain u s1 v s2 where p1: "driver_dead_letter e d tok msg s = Inr (u, s1)"
    and p2: "finish_child_status e c TermDeadLetter s1 = Inr (v, s2)"
    and hb: "hand_back e rid p \<lparr>tr_output = msg, tr_is_error = True\<rparr> s2 = Inl (DrivingTaskNotBlocked k)"
    by (auto simp: deferred_death_txn_def finish_child_status_def finish_running_def run_Inl run_simps
        split: if_splits)
  have "db_ok s2" "coupled s2"
    using calm_db_ok [OF keeps_calm_finish_child(1) p2 calm_db_ok [OF keeps_calm_child_parts(2) p1 ok]]
      keeps_neutral_coupled [OF keeps_neutral_child_parts(2) p2 keeps_neutral_coupled
        [OF keeps_neutral_driver_statements(3) p1 cpl]] by simp_all
  then show False using hand_back_never_misses hb by blast
qed

lemma fst_run_txn_Inl: "fst (run_txn m s) = Inl x \<longleftrightarrow> m s = Inl x"
  by (auto simp: run_txn_def split: sum.splits ending.splits)

text \<open>C5: In every reachable state a wake finds its task: resolving a suspended
  thread, handing a child's answer back and handing a child's death back never
  fail because the driving task is not blocked (\<open>DrivingTaskNotBlocked\<close>).\<close>

theorem wakes_find_their_task:
  assumes "reachable w"
  shows "fst (resolve_stage_thread e rid i j (w_db w)) \<noteq> Inl (DrivingTaskNotBlocked k) \<and>
    fst (commit_child_terminal_once e ids c d tok r p (w_db w)) \<noteq> Inl (DrivingTaskNotBlocked k) \<and>
    fst (commit_deferred_death e rid c d tok p msg (w_db w)) \<noteq> Inl (DrivingTaskNotBlocked k)"
  using resolve_never_misses child_terminal_never_misses deferred_death_never_misses
    reachable_db_ok [OF assms] reachable_coupled [OF assms]
  by (simp add: resolve_stage_thread_def commit_child_terminal_once_def commit_deferred_death_def fst_run_txn_Inl)

theorem wakes_find_their_task_witness:
  "fst (commit_child_terminal_once sc_env sc_ids sc_child1 5 205 sc_answer sc_parent sc_child_running)
     \<noteq> Inl (DrivingTaskNotBlocked 2) \<and>
   fst (commit_child_terminal_once sc_env sc_ids sc_child1 5 205 sc_answer sc_parent sc_child_running)
     = Inr HandedBack"
  using wakes_find_their_task [OF sc_reach_child] sc_wake
  by (simp add: commit_child_terminal_once_def run_txn_def)

section \<open>Logs\<close>





section \<open>Leases\<close>

text \<open>C3: A lost lease is lost for good: once a token that was handed out no
  longer holds its task, it never holds it again in any later state, and every
  write made under it there (heartbeat, retry reset, completion, block,
  failure, requeue, dead letter) changes nothing and says so.\<close>

theorem lost_lease_stays_lost:
  assumes "reachable w" "sys_step\<^sup>*\<^sup>* w w'" "tok \<in> w_issued w" "\<not> task_lease i tok (w_db w)"
    "f \<in> task_fenced" "f i tok (w_db w') = Inr (n, s')"
  shows "\<not> task_lease i tok (w_db w') \<and> n = 0 \<and> s' = w_db w'"
proof -
  have "tok \<in> w_issued w' \<and> \<not> task_lease i tok (w_db w')"
    using assms(2,1,3,4)
  proof (induction rule: rtranclp_induct)
    case (step v u)
    then have v: "tok \<in> w_issued v" "\<not> task_lease i tok (w_db v)" by blast+
    show ?case using step(2)
    proof cases
      case (plain s')
      then show ?thesis using v plain_step_calm by (auto simp: calm_def no_new_lease_def)
    next
      case (claim_tasks e locked fresh limit b rows s')
      then have "fresh ` tk_id ` set rows \<inter> w_issued v = {}"
        using claimed_ids(1) [OF claim_tasks(2)] by (fastforce simp: fresh_tokens_def)
      then show ?thesis using v claim_tasks(1) task_claim_leases(1) [OF claim_tasks(2), of i tok] by auto
    next
      case (claim_drivers e locked fresh limit b ds s')
      then show ?thesis using v driver_claim_leases(2) [OF claim_drivers(2)] by auto
    qed (use v in \<open>auto dest: no_new_leaseD
        [OF committed_calm [OF keeps_calm_suspend_stage]] no_new_leaseD [OF committed_calm [OF keeps_calm_suspend_with_child]]
        no_new_leaseD [OF committed_calm [OF keeps_calm_managed(2)]] no_new_leaseD [OF committed_calm [OF keeps_calm_cancel_thread_txn]]
        no_new_leaseD [OF committed_calm [OF keeps_calm_dispose_thread]]\<close>)
  qed blast
  then show ?thesis
    using task_queue.fenced_stale [OF assms(5) reachable_db_ok _ assms(6)] sys_run_reachable [OF assms(2,1)] by blast
qed


theorem lost_lease_stays_lost_witness:
  "\<not> task_lease 2 102 sc_driven \<and> task_complete sc_env 2 102 sc_driven = Inr (0, sc_driven)"
proof -
  let ?w = "sc_w sc_suspended {102} {(Some 102, sc_parent1)}"
  let ?v = "sc_w sc_driven {102, 205} {(Some 102, sc_parent1)}"
  obtain n s' where run: "task_complete sc_env 2 102 sc_driven = Inr (n, s')"
    by (simp add: task_complete_def update_tasks_def)
  have "\<not> task_lease 2 102 sc_suspended" by (simp add: task_lease_def sc_rows sc_states)
  then show ?thesis
    using lost_lease_stays_lost [OF sc_reach_suspended r_into_rtranclp [of sys_step, OF sc_step_drive],
        of 102 2 "task_complete sc_env" n s'] run task_fenced.intros(3) by simp
qed

section \<open>Final states\<close>

lemma thread_evolves_key: "thread_evolves a b \<Longrightarrow> th_id b = th_id a"
  by (simp add: thread_evolves_def thread_lineage_def)

text \<open>C9: Along any run of the system a thread keeps its identity, lineage,
  anchor and binding; once terminal its status and completion time never
  change; a recorded cancellation intent is never withdrawn; and its recovery
  attempts never fall.\<close>

theorem thread_history_is_final:
  assumes "reachable w" "sys_step\<^sup>*\<^sup>* w w'" "th \<in> set (db_threads (w_db w))" "th' \<in> set (db_threads (w_db w'))"
    "th_id th' = th_id th"
  shows "thread_lineage th' = thread_lineage th \<and>
    (thread_status_terminal (th_status th) \<longrightarrow>
       th_status th' = th_status th \<and> th_completed_at th' = th_completed_at th) \<and>
    (th_cancel_requested_at th \<noteq> None \<longrightarrow> th_cancel_requested_at th' = th_cancel_requested_at th) \<and>
    th_recovery_attempts th \<le> th_recovery_attempts th'"
proof -
  have "distinct (map th_id (db_threads (w_db w')))"
    using reachable_db_ok [OF sys_run_reachable [OF assms(2,1)]] by (simp add: db_ok_def db_unique_def)
  then have "thread_evolves th th'"
    using rows_evolve_key [of thread_evolves "db_threads (w_db w)" "db_threads (w_db w')" th th' th_id]
      sys_run_evolves [OF assms(2)] assms(3-5)
    by (simp add: evolves_def thread_evolves_key)
  then show ?thesis by (simp add: thread_evolves_def)
qed

theorem thread_history_is_final_witness:
  "th_recovery_attempts sc_parent2 \<le> th_recovery_attempts sc_parent3 \<and>
   thread_lineage sc_parent3 = thread_lineage sc_parent2"
  using thread_history_is_final [OF sc_reach_child r_into_rtranclp [of sys_step, OF sc_step_wake],
      of sc_parent2 sc_parent3]
  by (simp add: sc_states) (simp add: sc_rows)

lemma run_row_evolves:
  assumes "reachable w" "sys_step\<^sup>*\<^sup>* w w'"
  shows "t \<in> set (db_tasks (w_db w)) \<Longrightarrow> t' \<in> set (db_tasks (w_db w')) \<Longrightarrow> tk_id t' = tk_id t \<Longrightarrow> task_evolves t t'"
    "j \<in> set (db_jobs (w_db w)) \<Longrightarrow> j' \<in> set (db_jobs (w_db w')) \<Longrightarrow> jb_id j' = jb_id j \<Longrightarrow> job_evolves j j'"
    "d \<in> set (db_drivers (w_db w)) \<Longrightarrow> d' \<in> set (db_drivers (w_db w')) \<Longrightarrow> dt_id d' = dt_id d \<Longrightarrow> driver_evolves d d'"
proof -
  have ev: "evolves (w_db w) (w_db w')" by (rule sys_run_evolves [OF assms(2)])
  have uniq: "db_unique (w_db w')"
    using reachable_db_ok [OF sys_run_reachable [OF assms(2,1)]] by (simp add: db_ok_def)
  have keys: "task_evolves a b \<Longrightarrow> tk_id b = tk_id a" "job_evolves c e \<Longrightarrow> jb_id e = jb_id c"
    "driver_evolves f g \<Longrightarrow> dt_id g = dt_id f" for a b c e f g
    by (simp_all add: task_evolves_def job_evolves_def driver_evolves_def)
  show "task_evolves t t'" if "t \<in> set (db_tasks (w_db w))" "t' \<in> set (db_tasks (w_db w'))" "tk_id t' = tk_id t"
    using rows_evolve_key [of task_evolves "db_tasks (w_db w)" "db_tasks (w_db w')" t t' tk_id] ev uniq that keys
    by (simp add: evolves_def db_unique_def)
  show "job_evolves j j'" if "j \<in> set (db_jobs (w_db w))" "j' \<in> set (db_jobs (w_db w'))" "jb_id j' = jb_id j"
    using rows_evolve_key [of job_evolves "db_jobs (w_db w)" "db_jobs (w_db w')" j j' jb_id] ev uniq that keys
    by (simp add: evolves_def db_unique_def)
  show "driver_evolves d d'" if "d \<in> set (db_drivers (w_db w))" "d' \<in> set (db_drivers (w_db w'))" "dt_id d' = dt_id d"
    using rows_evolve_key [of driver_evolves "db_drivers (w_db w)" "db_drivers (w_db w')" d d' dt_id] ev uniq that keys
    by (simp add: evolves_def db_unique_def)
qed

text \<open>C10: Along any run of the system a task, job or driver task that reached a
  terminal status keeps it; a finished job keeps its outcome, and a job sealed
  with a relation batch keeps that batch.\<close>

theorem terminal_rows_are_final:
  assumes "reachable w" "sys_step\<^sup>*\<^sup>* w w'"
  shows "(\<forall>t \<in> set (db_tasks (w_db w)). \<forall>t' \<in> set (db_tasks (w_db w')).
       tk_id t' = tk_id t \<and> task_status_terminal (tk_status t) \<longrightarrow> tk_status t' = tk_status t) \<and>
    (\<forall>j \<in> set (db_jobs (w_db w)). \<forall>j' \<in> set (db_jobs (w_db w')). jb_id j' = jb_id j \<longrightarrow>
       (job_status_terminal (jb_status j) \<longrightarrow> jb_status j' = jb_status j \<and> jb_outcome j' = jb_outcome j) \<and>
       (jb_committed_batch_id j \<noteq> None \<longrightarrow> jb_committed_batch_id j' = jb_committed_batch_id j)) \<and>
    (\<forall>d \<in> set (db_drivers (w_db w)). \<forall>d' \<in> set (db_drivers (w_db w')).
       dt_id d' = dt_id d \<and> driver_state_terminal (dt_state d) \<longrightarrow> dt_state d' = dt_state d)"
proof (intro conjI ballI impI; (elim conjE)?)
  fix t t' assume "t \<in> set (db_tasks (w_db w))" "t' \<in> set (db_tasks (w_db w'))" "tk_id t' = tk_id t"
    "task_status_terminal (tk_status t)"
  then show "tk_status t' = tk_status t" using run_row_evolves(1) [OF assms, of t t'] by (simp add: task_evolves_def)
next
  fix j j' assume j: "j \<in> set (db_jobs (w_db w))" "j' \<in> set (db_jobs (w_db w'))" "jb_id j' = jb_id j"
  note ev = run_row_evolves(2) [OF assms j, unfolded job_evolves_def]
  show "jb_status j' = jb_status j" "jb_outcome j' = jb_outcome j" if "job_status_terminal (jb_status j)"
    using ev that by simp_all
  show "jb_committed_batch_id j' = jb_committed_batch_id j" if "jb_committed_batch_id j \<noteq> None"
    using ev that by simp
next
  fix d d' assume "d \<in> set (db_drivers (w_db w))" "d' \<in> set (db_drivers (w_db w'))" "dt_id d' = dt_id d"
    "driver_state_terminal (dt_state d)"
  then show "dt_state d' = dt_state d" using run_row_evolves(3) [OF assms, of d d'] by (simp add: driver_evolves_def)
qed

theorem terminal_rows_are_final_witness:
  "\<exists>d' \<in> set (db_drivers sc_woken). dt_id d' = dt_id sc_driver2 \<and> dt_state d' = DriverCompleted"
proof -
  have "dt_state sc_driver2 = DriverCompleted" "driver_state_terminal DriverCompleted"
    by (simp_all add: sc_rows driver_state_terminal_def)
  moreover have "sc_driver2 \<in> set (db_drivers sc_woken)" by (simp add: sc_states)
  ultimately show ?thesis
    using terminal_rows_are_final [OF sc_reach_woken rtranclp.rtrancl_refl [of sys_step]]
    unfolding sc_w_sel by metis
qed

end
