(* ===== verification/Wakes.thy ===== *)
theory Wakes
  imports Guarantees
begin

text \<open>
  What the guarded transitions do on each branch: resolving, suspending,
  cancelling, and the delegation's hand-back, with its single effect and its
  bounded retries.
\<close>

section \<open>Resolving\<close>

lemma append_tail_runs:
  assumes ok: "db_ok s" and th: "th \<in> set (db_threads s)" "th_id th = i"
    and fresh: "\<forall>r \<in> set (db_records s). rc_id r \<noteq> rid" and kind: "k \<noteq> ToolResult"
  shows "append_tail e rid i k a c u ctx s =
     Inr (new_record_row e rid (tail_record e i (record_next_seq i s) k a c u),
       s\<lparr>db_records := db_records s @ [new_record_row e rid (tail_record e i (record_next_seq i s) k a c u)]\<rparr>)"
proof -
  have "log_contiguous s" using ok by (simp add: db_ok_def)
  then have next_seq: "record_next_seq i s = int (length (thread_log i s))"
    and seqs: "map rc_seq (thread_log i s) = map int [0..<length (thread_log i s)]"
    by (simp_all add: record_next_seq_contiguous log_contiguous_def)
  have "rc_seq r < record_next_seq i s" if "r \<in> set (db_records s)" "rc_thread_id r = i" for r
  proof -
    have "rc_seq r \<in> set (map rc_seq (thread_log i s))" using that by (simp add: thread_log_def)
    then show ?thesis unfolding seqs next_seq by auto
  qed
  then have "record_append e rid (tail_record e i (record_next_seq i s) k a c u) s =
      Inr (new_record_row e rid (tail_record e i (record_next_seq i s) k a c u),
        s\<lparr>db_records := db_records s @ [new_record_row e rid (tail_record e i (record_next_seq i s) k a c u)]\<rparr>)"
    using fresh th kind by (fastforce simp: record_append_Inr tail_record_def record_check_def)
  then show ?thesis by (simp add: append_tail_def run_simps)
qed

lemma tail_record_log:
  "thread_log i (s\<lparr>db_records := db_records s @ [new_record_row e rid (tail_record e i q k a c u)]\<rparr>) =
     thread_log i s @ [new_record_row e rid (tail_record e i q k a c u)]"
  "rc_kind (new_record_row e rid (tail_record e i q k a c u)) = k"
  "rc_content (new_record_row e rid (tail_record e i q k a c u)) = c"
  by (simp_all add: thread_log_def tail_record_def)

lemma thread_log_other [simp]:
  "thread_log i (s\<lparr>db_threads := x\<rparr>) = thread_log i s" "thread_log i (s\<lparr>db_tasks := y\<rparr>) = thread_log i s"
  "thread_log i (s\<lparr>db_drivers := z\<rparr>) = thread_log i s"
  by (simp_all add: thread_log_def)

lemma thread_lock_row:
  "db_ok s \<Longrightarrow> th \<in> set (db_threads s) \<Longrightarrow> thread_lock (th_id th) s = Some th"
  by (simp add: thread_lock_def db_ok_def db_unique_def find_distinct)

lemma update_threads_hit:
  assumes "th \<in> set (db_threads s)" "P th"
  shows "\<exists>n s'. update_threads P f s = Inr (n, s') \<and> n \<noteq> 0 \<and> f th \<in> set (db_threads s') \<and>
    s' = s\<lparr>db_threads := sql_update P f (db_threads s)\<rparr>"
proof -
  have "sql_count P (db_threads s) \<noteq> 0" unfolding sql_count_pos using assms by blast
  then show ?thesis using assms by (simp add: update_threads_def sql_update_memI)
qed

lemma update_tasks_hit:
  assumes "t \<in> set (db_tasks s)" "P t"
  shows "\<exists>n s'. update_tasks P f s = Inr (n, s') \<and> n \<noteq> 0 \<and> f t \<in> set (db_tasks s') \<and>
    s' = s\<lparr>db_tasks := sql_update P f (db_tasks s)\<rparr>"
proof -
  have "sql_count P (db_tasks s) \<noteq> 0" unfolding sql_count_pos using assms by blast
  then show ?thesis using assms by (simp add: update_tasks_def sql_update_memI)
qed

text \<open>C6: In every reachable state, resolving a suspended stage thread wakes it:
  the thread runs again with its suspension cleared, its task is queued and
  available at once, and the resolution is the new last record of its log.\<close>

theorem resolve_wakes:
  assumes "reachable w" "th \<in> set (db_threads (w_db w))" "th_status th = ThreadSuspended"
    "th_stage_task_id th = Some k" "\<forall>r \<in> set (db_records (w_db w)). rc_id r \<noteq> rid"
  shows "\<exists>s' r. resolve_stage_thread e rid (th_id th) j (w_db w) = (Inr Woken, s') \<and>
    (\<exists>th' \<in> set (db_threads s'). th_id th' = th_id th \<and> th_status th' = ThreadRunning \<and>
       th_suspension th' = None \<and> th_wake_at th' = None) \<and>
    (\<exists>t \<in> set (db_tasks s'). tk_id t = k \<and> tk_status t = TaskQueued \<and> tk_available_at t = env_now e) \<and>
    thread_log (th_id th) s' = thread_log (th_id th) (w_db w) @ [r] \<and> rc_kind r = InputRecord \<and> rc_content r = j"
proof -
  let ?s = "w_db w" and ?i = "th_id th"
  let ?r = "new_record_row e rid (tail_record e ?i (record_next_seq ?i ?s) InputRecord None j None)"
  let ?s1 = "?s\<lparr>db_records := db_records ?s @ [?r]\<rparr>"
  have ok: "db_ok ?s" and cpl: "coupled ?s" using reachable_db_ok reachable_coupled assms(1) by blast+
  have tail: "append_tail e rid ?i InputRecord None j None ''committing the resolution record'' ?s = Inr (?r, ?s1)"
    using append_tail_runs [OF ok assms(2) refl assms(5)] by simp
  obtain n s2 where wake: "thread_mark_running e ?i ThreadSuspended ?s1 = Inr (n, s2)" "n \<noteq> 0"
    and run: "\<exists>th' \<in> set (db_threads s2). th_id th' = ?i \<and> th_status th' = ThreadRunning \<and>
       th_suspension th' = None \<and> th_wake_at th' = None"
    and s2: "db_tasks s2 = db_tasks ?s" "thread_log ?i s2 = thread_log ?i ?s @ [?r]"
    using update_threads_hit [of th ?s1 "\<lambda>r. th_id r = ?i \<and> th_status r = ThreadSuspended"
        "\<lambda>r. r\<lparr>th_status := ThreadRunning, th_suspension := None, th_wake_at := None, th_updated_at := env_now e\<rparr>"]
      assms(2,3) by (fastforce simp: thread_mark_running_def tail_record_log)
  have "k \<in> blocked_tasks ?s" using assms(2-4) cpl by (auto simp: coupled_def suspended_tasks_iff)
  then obtain t where t: "t \<in> set (db_tasks s2)" "tk_id t = k" "tk_status t = TaskBlocked"
    unfolding s2 by (auto simp: blocked_tasks_iff)
  obtain m s3 where req: "task_requeue_from_blocked e k s2 = Inr (m, s3)" "m \<noteq> 0"
    and queued: "\<exists>u \<in> set (db_tasks s3). tk_id u = k \<and> tk_status u = TaskQueued \<and> tk_available_at u = env_now e"
    and s3: "db_threads s3 = db_threads s2" "thread_log ?i s3 = thread_log ?i s2"
    using update_tasks_hit [of t s2 "\<lambda>r. tk_id r = k \<and> tk_status r = TaskBlocked"
        "\<lambda>r. r\<lparr>tk_status := TaskQueued, tk_available_at := env_now e, tk_updated_at := env_now e\<rparr>"]
      t by (fastforce simp: task_requeue_from_blocked_def)
  have "resolve_stage_txn e rid ?i j ?s = Inr (Commit Woken, s3)"
    using thread_lock_row [OF ok assms(2)] tail wake req assms(3,4)
    by (simp add: resolve_stage_txn_def tx_bind_def tx_then_def tx_read_def rt_db_def tx_map_err_def
        tx_return_def thread_status_terminal_def)
  then show ?thesis
    using run queued s3 s2 tail_record_log
    by (intro exI [of _ s3] exI [of _ ?r]) (simp add: resolve_stage_thread_def run_txn_def)
qed

theorem resolve_wakes_witness:
  "\<exists>s'. resolve_stage_thread sc_env 20 3 JNull sc_suspended = (Inr Woken, s') \<and>
     (\<exists>t \<in> set (db_tasks s'). tk_id t = 2 \<and> tk_status t = TaskQueued)"
proof -
  have "sc_parent2 \<in> set (db_threads sc_suspended)" "th_status sc_parent2 = ThreadSuspended"
    "th_stage_task_id sc_parent2 = Some 2" "th_id sc_parent2 = 3"
    "\<forall>r \<in> set (db_records sc_suspended). rc_id r \<noteq> 20"
    by (simp_all add: sc_states sc_rows)
  then show ?thesis
    using resolve_wakes [OF sc_reach_suspended, of sc_parent2 2 20 sc_env JNull] by auto
qed

text \<open>Resolving a thread that is not suspended wakes nothing: an unknown
  thread and a running or queued one leave the store as it was, and a terminal
  one only gains the late answer as a record.\<close>

theorem resolve_unsuspended:
  assumes "db_ok s" "\<forall>r \<in> set (db_records s). rc_id r \<noteq> rid"
    "\<forall>th \<in> set (db_threads s). th_id th = i \<longrightarrow> th_status th \<noteq> ThreadSuspended"
  shows "resolve_stage_thread e rid i j s =
    (case thread_lock i s of
       None \<Rightarrow> (Inr ResolveVanished, s)
     | Some th \<Rightarrow>
         if thread_status_terminal (th_status th)
         then (Inr RecordedAtTerminal, s\<lparr>db_records := db_records s @
                [new_record_row e rid (tail_record e i (record_next_seq i s) InputRecord None j None)]\<rparr>)
         else (Inr NotSuspended, s))"
proof (cases "thread_lock i s")
  case None
  then show ?thesis by (simp add: resolve_stage_thread_def resolve_stage_txn_def run_txn_def tx_defs)
next
  case (Some th)
  then have th: "th \<in> set (db_threads s)" "th_id th = i" using thread_lock_Some by blast+
  show ?thesis
    using Some th(2) append_tail_runs [OF assms(1) th assms(2)] assms(3) th(1)
    by (simp add: resolve_stage_thread_def resolve_stage_txn_def run_txn_def tx_bind_def tx_then_def
        tx_read_def tx_return_def)
qed

theorem resolve_unsuspended_witness:
  "resolve_stage_thread sc_env 20 3 JNull sc_woken = (Inr NotSuspended, sc_woken)"
proof -
  have "\<forall>r \<in> set (db_records sc_woken). rc_id r \<noteq> 20"
    "\<forall>th \<in> set (db_threads sc_woken). th_id th = 3 \<longrightarrow> th_status th \<noteq> ThreadSuspended"
    by (simp_all add: sc_states sc_rows)
  then show ?thesis
    using resolve_unsuspended [OF sc_db_ok(5), of 20 3 sc_env JNull]
    by (simp add: thread_lock_def sc_states thread_status_terminal_def) (simp add: sc_rows)
qed

end
