(* ===== verification/Corpus.thy ===== *)
theory Corpus
  imports Guarantees
begin

text \<open>
  What the profile authority and the corpus keep in every run of the system:
  one live reindex run at most, an active profile that only advances and
  always covers the corpus, and a finished or cancelled run that stays so.
\<close>

section \<open>Every transaction against the authority\<close>

lemma keeps_index_authority: "keeps same_index m \<Longrightarrow> keeps same_authority m"
  by (auto simp: keeps_def same_index_def same_authority_def authority_of_def)

interpretation same_authority: whole_order same_authority
  by unfold_locales (rule keeps_index_authority,
      rule keeps_index_statements keeps_index_others keeps_index_batch_size)+

interpretation same_authority: graph_order same_authority
  by unfold_locales (auto simp: keeps_def same_authority_def authority_of_def
      dest!: item_insert_effect embedding_insert_effect)

definition items_distinct :: "db \<Rightarrow> bool" where
  "items_distinct s \<longleftrightarrow> distinct (map ki_id (gr_items (db_graph s)))"

definition items_order :: "db \<Rightarrow> db \<Rightarrow> bool" where
  "items_order s s' \<longleftrightarrow> (items_distinct s \<longrightarrow> items_distinct s')"

interpretation items_order: store_order items_order
  by unfold_locales (auto simp: items_order_def)

lemma keeps_index_items: "keeps same_index m \<Longrightarrow> keeps items_order m"
  by (auto simp: keeps_def same_index_def items_order_def items_distinct_def)

interpretation items_order: whole_order items_order
  by unfold_locales (rule keeps_index_items,
      rule keeps_index_statements keeps_index_others keeps_index_batch_size)+

lemma keeps_items_item_insert: "keeps items_order (item_insert e i n)"
  by (auto simp: keeps_def items_order_def items_distinct_def item_insert_def item_exists_def sql_exists_iff
      new_item_row_def tx_defs update_graph_def split: if_splits)

interpretation items_order: graph_order items_order
proof unfold_locales
  show "keeps items_order (item_insert e i n)" for e i n by (rule keeps_items_item_insert)
  show "keeps items_order (embedding_insert e i n)" for e i n
    by (auto simp: keeps_def items_order_def items_distinct_def dest!: embedding_insert_effect)
qed

section \<open>Every step\<close>

locale system_order = whole_order +
  assumes claims:
      "keeps R (task_claim e locked fresh limit who)"
      "keeps R (driver_claim e locked fresh limit who)"
    and novel: "keeps R (novel_txn e ids p d m ds t b tok th terminal)"
    and reindex: "reindex_step s s' \<Longrightarrow> R s s'"
begin

lemma plain_step_keeps: "plain_step s s' \<Longrightarrow> R s s'"
proof (induction rule: plain_step.induct)
  case (reindex s s')
  then show ?case by (rule system_order.reindex [OF system_order_axioms])
qed (rule executed_keeps committed_keeps;
     (rule whole_rules keeps_turn_commits keeps_result_record keeps_store keeps_commit_extraction
       keeps_triage_txns novel keeps_commit_relation keeps_persist_failure keeps_reclaim_one
       keeps_suspends keeps_run_child keeps_child_terminals keeps_adopt_or_create keeps_managed
      | assumption))+

lemma sys_step_keeps: "sys_step w w' \<Longrightarrow> R (w_db w) (w_db w')"
proof (induction rule: sys_step.induct)
  case (plain w s')
  then show ?case using plain_step_keeps by simp
next
  case (claim_tasks e locked fresh limit b w rows s')
  then show ?case using keepsD [OF claims(1)] by simp
next
  case (claim_drivers e locked fresh limit b w ds s')
  then show ?case using keepsD [OF claims(2)] by simp
qed (simp_all add: order_refl committed_keeps keeps_suspends keeps_cancel_thread keeps_dispose_thread)

lemma run_keeps: "sys_step\<^sup>*\<^sup>* w w' \<Longrightarrow> R (w_db w) (w_db w')"
  by (induction rule: rtranclp_induct) (auto intro: order_refl order_trans sys_step_keeps)

lemma reachable_keeps: "reachable w \<Longrightarrow> R db_empty (w_db w)"
  by (induction rule: reachable.induct) (auto simp: world_init_def intro: order_refl order_trans sys_step_keeps)

end

lemma keeps_index_claims:
  "keeps same_index (task_claim e locked fresh limit who)" "keeps same_index (driver_claim e locked fresh limit who)"
  by (auto simp: keeps_def task_claim_def driver_claim_def Let_def tx_defs update_tasks_def update_drivers_def
      same_index_graph)

interpretation index_order: system_order index_order
proof unfold_locales
  show "keeps index_order (task_claim e locked fresh limit who)"
    "keeps index_order (driver_claim e locked fresh limit who)" for e locked fresh limit who
    by (rule keeps_same_index_order, rule keeps_index_claims)+
  show "keeps index_order (novel_txn e ids p d m ds t b tok th terminal)" for e ids p d m ds t b tok th terminal
    by (rule keeps_index_novel)
  show "reindex_step s s' \<Longrightarrow> index_order s s'" for s s'
    using reindex_step_index_ok by (simp add: index_order_def)
qed

lemma reachable_index_ok: "reachable w \<Longrightarrow> index_ok (w_db w)"
proof -
  have "index_ok db_empty"
    by (simp add: index_ok_def db_empty_def graph_empty_def authority_of_def authority_ok_def au_live_def
        covered_def profile_find_active_def latest_profile_def)
  then show "reachable w \<Longrightarrow> index_ok (w_db w)"
    using index_order.reachable_keeps by (simp add: index_order_def)
qed

definition authority_moves :: "db \<Rightarrow> db \<Rightarrow> bool" where
  "authority_moves s s' \<longleftrightarrow> authority_run (authority_of s) (authority_of s')"

interpretation authority_moves: store_order authority_moves
  by unfold_locales (auto simp: authority_moves_def intro: authority_run_refl authority_run_trans)

lemma keeps_authority_moves: "keeps same_authority m \<Longrightarrow> keeps authority_moves m"
  by (auto simp: keeps_def same_authority_def authority_moves_def authority_run_refl)

lemma reindex_step_moves: "reindex_step s s' \<Longrightarrow> authority_moves s s'"
proof (cases "authority_inv (authority_of s)")
  case True
  moreover assume "reindex_step s s'"
  ultimately have "simulated (authority_of s) (authority_of s')"
    using reindex_step_simulated by (simp add: authority_inv_def)
  then show ?thesis
    by (auto simp: simulated_def authority_moves_def authority_run_refl authority_run_step)
qed (simp add: authority_moves_def authority_run_def)

interpretation authority_moves: system_order authority_moves
proof unfold_locales
  show "reindex_step s s' \<Longrightarrow> authority_moves s s'" for s s' by (rule reindex_step_moves)
qed (rule keeps_authority_moves, (rule same_authority.keeps_novel_txn
    | (rule keeps_index_authority, rule keeps_index_statements keeps_index_others keeps_index_batch_size
        keeps_index_claims)))+

lemma keeps_items_bodies: "keeps bodies_grow m \<Longrightarrow> keeps items_order m"
  by (auto simp: keeps_def bodies_grow_def items_order_def items_distinct_def)

lemma keeps_items_prune: "keeps items_order (prune_txn preview indexed)"
proof -
  have "keeps items_order (reindex_prune indexed)"
    by (auto simp: keeps_def items_order_def items_distinct_def dest!: reindex_prune_effect(1))
  then show ?thesis unfolding prune_txn_def by (intro items_order.keeps_intros)
qed

lemma reindex_step_items: "reindex_step s s' \<Longrightarrow> items_order s s'"
proof (induction rule: reindex_step.induct)
  case (fail_run run building s e reason)
  have "keeps items_order (tx_then (fail_run_tx e run building reason) (tx_return (Commit ())))"
    by (intro items_order.keeps_intros keeps_items_bodies keeps_bodies_txns)
  then show ?case unfolding fail_run_def by (rule items_order.run_txn_keeps)
next
  case (prune s preview indexed)
  show ?case by (rule items_order.committed_keeps [OF keeps_items_prune])
qed (rule items_order.executed_keeps items_order.committed_keeps;
     rule keeps_items_bodies; rule keeps_bodies keeps_bodies_txns keeps_bodies_stage)+

interpretation items_order: system_order items_order
proof unfold_locales
  show "reindex_step s s' \<Longrightarrow> items_order s s'" for s s' by (rule reindex_step_items)
qed (rule items_order.keeps_novel_txn | (rule keeps_index_items, rule keeps_index_claims))+

lemma reachable_items_distinct: "reachable w \<Longrightarrow> items_distinct (w_db w)"
  using items_order.reachable_keeps [of w]
  by (simp add: items_order_def items_distinct_def db_empty_def graph_empty_def)

lemma reachable_authority: "reachable w \<Longrightarrow> authority_inv (authority_of (w_db w))"
proof -
  have "authority_inv (authority_of db_empty)"
    by (simp add: authority_inv_def runs_over_def runs_failed_def authority_of_def authority_ok_def au_live_def db_empty_def graph_empty_def)
  then show "reachable w \<Longrightarrow> authority_inv (authority_of (w_db w))"
    using authority_moves.reachable_keeps by (simp add: authority_moves_def authority_run_def)
qed

lemma run_authority:
  "reachable w \<Longrightarrow> sys_step\<^sup>*\<^sup>* w w' \<Longrightarrow> authority_step\<^sup>*\<^sup>* (authority_of (w_db w)) (authority_of (w_db w'))"
  using authority_moves.run_keeps reachable_authority by (simp add: authority_moves_def authority_run_def)

end
