(* ===== verification/ReindexRun.thy ===== *)
theory ReindexRun
  imports Corpus
begin

text \<open>
  A concrete reindex: the run of \<open>Scenario\<close> continues with a genesis profile,
  a novel item under it, a run for another model, its embedding, the cutover
  and the pruning.
\<close>

section \<open>Rows\<close>

definition rx_genesis :: new_profile where
  "rx_genesis = \<lparr>npr_provider_kind = Ollama, npr_base_url = ''u'', npr_model = ''m'', npr_dimensions = 2,
     npr_distance_metric = Cosine, npr_revision_token = ''r'', npr_probe_digest = None,
     npr_fingerprint_hash = ''h''\<rparr>"

definition rx_target :: reindex_target where
  "rx_target = \<lparr>tgt_provider_kind = Ollama, tgt_base_url = ''u'', tgt_model = ''n'', tgt_dimensions = 3,
     tgt_distance_metric = Cosine, tgt_revision_token = ''r'', tgt_probe_digest = None,
     tgt_fingerprint_hash = ''g''\<rparr>"

definition rx_item :: new_item where
  "rx_item = \<lparr>nki_project_id = 50, nki_principal_id = 51, nki_kind = Fact, nki_content = ''c'', nki_tags = [],
     nki_confidence = Verified, nki_claim_context = None, nki_source_context = JNull, nki_episode_id = None,
     nki_capture_commit = None, nki_capture_branch = None\<rparr>"

definition rx_ids :: commit_ids where
  "rx_ids = \<lparr>ci_record = 30, ci_row = 32, ci_many = (\<lambda>k. 33), ci_decision = (\<lambda>k. 34), ci_embedding = 35,
     ci_task = 31, ci_item = 8\<rparr>"

definition rx_novel :: novel_decision where
  "rx_novel = \<lparr>nv_item = rx_item, nv_references = [], nv_new_tags = [], nv_resolved_tags = []\<rparr>"

definition rx_vector :: novel_embedding where
  "rx_vector = \<lparr>ne_vector = [1, 2], ne_model = ''m'', ne_profile_id = 6, ne_tag_vectors = []\<rparr>"

definition rx_creation :: creation_ids where
  "rx_creation = \<lparr>cr_profile = 7, cr_run = 9, cr_gap = 0\<rparr>"

definition rx_profile0 :: embedding_profile where
  "rx_profile0 = new_profile_row sc_env 6 1 rx_genesis"

definition rx_profile1 :: embedding_profile where
  "rx_profile1 = rx_profile0\<lparr>ep_state := ProfileComplete, ep_completed_at := Some 1000\<rparr>"

definition rx_building :: embedding_profile where
  "rx_building = new_profile_row sc_env 7 2 (to_new_profile rx_target)"

definition rx_active :: embedding_profile where
  "rx_active = rx_building\<lparr>ep_state := ProfileComplete, ep_completed_at := Some 1000\<rparr>"

definition rx_run0 :: reindex_run where
  "rx_run0 = new_run_row sc_env 9 \<lparr>nrr_target_profile_id = 7, nrr_epoch = 2, nrr_initiated_by = 51, nrr_trace_context = None\<rparr>"

definition rx_run1 :: reindex_run where
  "rx_run1 = run_transition_row sc_env RunRunning None rx_run0"

definition rx_run2 :: reindex_run where
  "rx_run2 = run_transition_row sc_env RunCompleted None rx_run1"

definition rx_item_row :: knowledge_item where
  "rx_item_row = new_item_row sc_env 8 rx_item"

definition rx_old_vector :: item_embedding where
  "rx_old_vector = \<lparr>em_id = 35, em_knowledge_item_id = 8, em_profile_id = 6, em_model = ''m'', em_vector = [1, 2],
     em_created_at = 1000\<rparr>"

definition rx_new_vector :: item_embedding where
  "rx_new_vector = \<lparr>em_id = 36, em_knowledge_item_id = 8, em_profile_id = 7, em_model = ''n'', em_vector = [1, 2, 3],
     em_created_at = 1000\<rparr>"

definition rx_triage :: triage_result where
  "rx_triage = \<lparr>tg_id = 32, tg_job_id = 1, tg_principal_id = Some 51, tg_batch_index = 0,
     tg_similar_items = [], tg_outcome = OutCreated 8, tg_created_at = 1000\<rparr>"

definition rx_graph :: "embedding_profile list \<Rightarrow> reindex_run list \<Rightarrow> knowledge_item list \<Rightarrow> item_embedding list
    \<Rightarrow> triage_result list \<Rightarrow> graph" where
  "rx_graph ps rs items ms ts = graph_empty\<lparr>gr_profiles := ps, gr_runs := rs, gr_items := items,
     gr_embeddings := ms, gr_triage_results := ts\<rparr>"

lemmas rx_data = sc_env_def rx_genesis_def rx_target_def rx_item_def rx_ids_def rx_novel_def rx_vector_def
  rx_creation_def

lemmas rx_rows = rx_profile0_def rx_profile1_def rx_building_def rx_active_def rx_run0_def rx_run1_def
  rx_run2_def rx_item_row_def rx_old_vector_def rx_new_vector_def new_profile_row_def new_run_row_def
  run_transition_row_def new_item_row_def to_new_profile_def run_state_terminal_def

lemmas rx_eval = rx_graph_def graph_empty_def update_graph_def profile_transition_def run_transition_def
  profile_mark_complete_def profile_insert_def next_epoch_def tx_defs sql_exists_def sql_update_def Let_def
  latest_profile_def profile_find_active_def profile_find_building_def fits_i32_def

section \<open>Its states\<close>

lemma rx_genesis_steps:
  assumes "db_graph s = rx_graph [] [] [] [] []"
  shows "executed (profile_insert sc_env 6 0 rx_genesis) s = s\<lparr>db_graph := rx_graph [rx_profile0] [] [] [] []\<rparr>"
    "executed (profile_mark_complete sc_env 6) (s\<lparr>db_graph := rx_graph [rx_profile0] [] [] [] []\<rparr>) =
       s\<lparr>db_graph := rx_graph [rx_profile1] [] [] [] []\<rparr>"
  using assms by (simp_all add: executed_def rx_data rx_rows rx_eval)

lemma rx_novel_item:
  assumes "db_graph s = rx_graph [rx_profile1] [] [] [] []" "job_exists 1 s"
  shows "commit_novel sc_env rx_ids 1 50 0 rx_novel rx_vector s = Inr (NovelCommitted, s\<lparr>db_graph :=
     rx_graph [rx_profile1] [] [rx_item_row] [rx_old_vector] [rx_triage]\<rparr>)"
  using assms
  by (simp add: commit_novel_def st_db_def tx_map_err_def item_insert_def embedding_insert_def insert_guard_def
      embedding_admissible_def vector_admissible_def item_exists_def job_exists_def embedded_def new_embedding_row_def
      triage_result_insert_def triage_outcome_refs_def rx_triage_def rx_data rx_rows rx_eval)

definition rx_adopted :: db where
  "rx_adopted = sc_running\<lparr>db_graph := rx_graph [rx_profile1] [] [] [] []\<rparr>"

lemma rx_finalise:
  assumes "db_tasks s = [sc_task1]" "db_threads s = [sc_parent1]" "db_jobs s = [sc_job_row]"
  shows "\<exists>t. finalise_triage sc_env rx_ids [] sc_task1 102 sc_parent1 (Completion None) s = Inr (True, t) \<and>
    db_graph t = db_graph s"
  using assms
  by (simp add: finalise_triage_def complete_stage_task_def task_complete_def finish_thread_def
      commit_noop_terminal_def thread_complete_def finish_running_def triage_fan_in_def
      task_count_live_siblings_def task_upsert_def job_update_status_if_live_def relating_transition_def
      tx_map_err_def st_db_def sc_data sc_rows sc_eval sc_checks job_exists_def append_task_def
      batch_index_fits_def job_terminal_set_def job_transition_row_def update_jobs_def job_status_terminal_def job_status_all_def)

lemma rx_novel_commits:
  "\<exists>out t. novel_txn sc_env rx_ids 50 rx_novel rx_vector [] sc_task1 0 102 sc_parent1 (Completion None) rx_adopted
     = Inr (Commit out, t) \<and> db_graph t = rx_graph [rx_profile1] [] [rx_item_row] [rx_old_vector] [rx_triage]"
proof -
  let ?s = "rx_adopted\<lparr>db_graph := rx_graph [rx_profile1] [] [rx_item_row] [rx_old_vector] [rx_triage]\<rparr>"
  have job: "tk_job_id sc_task1 = 1" "job_exists 1 rx_adopted"
    by (simp_all add: rx_adopted_def job_exists_def sql_exists_def sc_data sc_rows sc_states)
  have "commit_novel sc_env rx_ids 1 50 0 rx_novel rx_vector rx_adopted = Inr (NovelCommitted, ?s)"
    by (rule rx_novel_item [OF _ job(2)]) (simp add: rx_adopted_def)
  moreover have "\<exists>t. finalise_triage sc_env rx_ids [] sc_task1 102 sc_parent1 (Completion None) ?s = Inr (True, t) \<and>
      db_graph t = db_graph ?s"
    by (rule rx_finalise) (simp_all add: rx_adopted_def sc_states)
  ultimately show ?thesis by (auto simp: novel_txn_def tx_bind_def tx_return_def job)
qed

lemma rx_stage:
  assumes "db_graph s = rx_graph [rx_profile1] [] [rx_item_row] [rx_old_vector] [rx_triage]"
  shows "committed (stage_reindex_run sc_env rx_creation (\<lambda>x. x) True True rx_target 51) s =
    s\<lparr>db_graph := rx_graph [rx_profile1, rx_building] [rx_run0] [rx_item_row] [rx_old_vector] [rx_triage]\<rparr>"
  using assms
  by (simp add: committed_def run_txn_def stage_reindex_run_def create_reindex_run_def run_find_live_def
      target_matches_profile_def declared_identity_matches_def matches_geometry_def run_insert_def run_exists_def profile_exists_def
      run_live_def rx_data rx_rows rx_eval)

lemma rx_start:
  assumes "db_graph s = rx_graph [rx_profile1, rx_building] [rx_run0] [rx_item_row] [rx_old_vector] [rx_triage]"
  shows "executed (run_transition sc_env 9 RunQueued RunRunning None) s =
    s\<lparr>db_graph := rx_graph [rx_profile1, rx_building] [rx_run1] [rx_item_row] [rx_old_vector] [rx_triage]\<rparr>"
  using assms by (simp add: executed_def rx_data rx_rows rx_eval)

definition rx_missing :: new_embedding where
  "rx_missing = \<lparr>nem_knowledge_item_id = 8, nem_profile_id = 7, nem_model = ''n'', nem_vector = [1, 2, 3]\<rparr>"

lemma rx_embed:
  assumes "db_graph s = rx_graph [rx_profile1, rx_building] [rx_run1] [rx_item_row] [rx_old_vector] [rx_triage]"
  shows "executed (embedding_batch_insert sc_env (\<lambda>_. 36) [rx_missing]) s =
    s\<lparr>db_graph := rx_graph [rx_profile1, rx_building] [rx_run1] [rx_item_row] [rx_old_vector, rx_new_vector] [rx_triage]\<rparr>"
  using assms
  by (simp add: executed_def embedding_batch_insert_def embedding_admissible_def vector_admissible_def
      item_exists_def embedded_def new_embedding_row_def rx_missing_def rx_data rx_rows rx_eval)

lemma rx_cutover:
  assumes "db_graph s = rx_graph [rx_profile1, rx_building] [rx_run1] [rx_item_row] [rx_old_vector, rx_new_vector] [rx_triage]"
  shows "cutover_txn sc_env rx_run1 rx_building ProbeStable s = Inr (Commit CutDone,
    s\<lparr>db_graph := rx_graph [rx_profile1, rx_active] [rx_run2] [rx_item_row] [rx_old_vector, rx_new_vector] [rx_triage]\<rparr>)"
  using assms
  by (simp add: cutover_txn_def count_remaining_def embedding_count_missing_def tags_missing_embeddings_def
      item_unembedded_def sql_count_def embedded_def rx_data rx_rows rx_eval)

section \<open>They are reachable\<close>

lemma rx_reindex: "reachable (sc_w s i r) \<Longrightarrow> reindex_step s t \<Longrightarrow> reachable (sc_w t i r)"
  by (blast intro: sc_plain plain_step.reindex)

lemma rx_reach_adopted: "reachable (sc_w rx_adopted {102} {})"
proof -
  have g: "db_graph sc_running = rx_graph [] [] [] [] []" by (simp add: sc_states rx_graph_def graph_empty_def)
  let ?s1 = "sc_running\<lparr>db_graph := rx_graph [rx_profile0] [] [] [] []\<rparr>"
  have "reindex_step sc_running ?s1"
    using reindex_step.genesis_insert [of sc_running sc_env 6 0 rx_genesis] g rx_genesis_steps(1) [OF g]
    by (simp add: rx_graph_def graph_empty_def)
  moreover have "reindex_step ?s1 rx_adopted"
    using reindex_step.genesis_complete [of ?s1 sc_env 6] rx_genesis_steps(2) [OF g]
    by (simp add: rx_adopted_def profile_find_active_def latest_profile_def rx_graph_def graph_empty_def rx_rows)
  ultimately show ?thesis using rx_reindex sc_reach_running by blast
qed

definition rx_stored :: db where
  "rx_stored = committed (novel_txn sc_env rx_ids 50 rx_novel rx_vector [] sc_task1 0 102 sc_parent1 (Completion None)) rx_adopted"

lemma rx_stored_graph: "db_graph rx_stored = rx_graph [rx_profile1] [] [rx_item_row] [rx_old_vector] [rx_triage]"
  using rx_novel_commits by (auto simp: rx_stored_def committed_def run_txn_def)

definition rx_staged :: db where
  "rx_staged = rx_stored\<lparr>db_graph := rx_graph [rx_profile1, rx_building] [rx_run0] [rx_item_row] [rx_old_vector] [rx_triage]\<rparr>"

definition rx_started :: db where
  "rx_started = rx_stored\<lparr>db_graph := rx_graph [rx_profile1, rx_building] [rx_run1] [rx_item_row] [rx_old_vector] [rx_triage]\<rparr>"

definition rx_embedded :: db where
  "rx_embedded = rx_stored\<lparr>db_graph :=
     rx_graph [rx_profile1, rx_building] [rx_run1] [rx_item_row] [rx_old_vector, rx_new_vector] [rx_triage]\<rparr>"

definition rx_cut :: db where
  "rx_cut = rx_stored\<lparr>db_graph :=
     rx_graph [rx_profile1, rx_active] [rx_run2] [rx_item_row] [rx_old_vector, rx_new_vector] [rx_triage]\<rparr>"

lemma rx_graphs [simp]:
  "db_graph rx_staged = rx_graph [rx_profile1, rx_building] [rx_run0] [rx_item_row] [rx_old_vector] [rx_triage]"
  "db_graph rx_started = rx_graph [rx_profile1, rx_building] [rx_run1] [rx_item_row] [rx_old_vector] [rx_triage]"
  "db_graph rx_embedded =
     rx_graph [rx_profile1, rx_building] [rx_run1] [rx_item_row] [rx_old_vector, rx_new_vector] [rx_triage]"
  "db_graph rx_cut =
     rx_graph [rx_profile1, rx_active] [rx_run2] [rx_item_row] [rx_old_vector, rx_new_vector] [rx_triage]"
  by (simp_all add: rx_staged_def rx_started_def rx_embedded_def rx_cut_def)

lemma rx_reach_stored: "reachable (sc_w rx_stored {102} {})"
  unfolding rx_stored_def by (rule sc_plain [OF rx_reach_adopted plain_step.novel])

lemma rx_steps:
  "reindex_step rx_stored rx_staged" "reindex_step rx_staged rx_started" "reindex_step rx_started rx_embedded"
  using reindex_step.stage [of rx_stored sc_env rx_creation "\<lambda>x. x" True True rx_target 51] rx_stage [OF rx_stored_graph]
    reindex_step.start [of rx_staged sc_env 9] rx_start [of rx_staged]
    reindex_step.embed [of rx_started sc_env "\<lambda>_. 36" "[rx_missing]"] rx_embed [of rx_started]
  by (simp_all add: rx_staged_def rx_started_def rx_embedded_def)

lemma rx_cut_txn: "cutover_txn sc_env rx_run1 rx_building ProbeStable rx_embedded = Inr (Commit CutDone, rx_cut)"
  using rx_cutover [of rx_embedded] by (simp add: rx_embedded_def rx_cut_def)

lemma rx_drives: "drives rx_run1 rx_building rx_embedded"
  by (simp add: drives_def started_def authority_of_tables rx_graph_def rx_rows)

lemma rx_step_cut: "reindex_step rx_embedded rx_cut"
  using reindex_step.cutover [OF rx_drives, of sc_env ProbeStable] rx_cut_txn
  by (simp add: committed_def run_txn_def)

lemma rx_reach:
  "reachable (sc_w rx_staged {102} {})" "reachable (sc_w rx_started {102} {})"
  "reachable (sc_w rx_embedded {102} {})" "reachable (sc_w rx_cut {102} {})"
proof -
  show a: "reachable (sc_w rx_staged {102} {})" by (rule rx_reindex [OF rx_reach_stored rx_steps(1)])
  show b: "reachable (sc_w rx_started {102} {})" by (rule rx_reindex [OF a rx_steps(2)])
  show c: "reachable (sc_w rx_embedded {102} {})" by (rule rx_reindex [OF b rx_steps(3)])
  show "reachable (sc_w rx_cut {102} {})" by (rule rx_reindex [OF c rx_step_cut])
qed

text \<open>The operator's cancel instead of the cutover, and the pruning after it.\<close>

definition rx_aborted :: reindex_run where
  "rx_aborted = run_transition_row sc_env RunAborted (Some ''cancelled by operator'') rx_run1"

definition rx_failed :: embedding_profile where
  "rx_failed = rx_building\<lparr>ep_state := ProfileFailed, ep_completed_at := Some 1000\<rparr>"

definition rx_cancelled :: db where
  "rx_cancelled = rx_stored\<lparr>db_graph := rx_graph [rx_profile1, rx_failed] [rx_aborted] [rx_item_row] [rx_old_vector] [rx_triage]\<rparr>"

lemma rx_cancel: "reindex_cancel sc_env rx_started = Inr (ReindexCancelled 9, rx_cancelled)"
  by (simp add: reindex_cancel_def run_find_live_def run_live_def profile_mark_failed_def rx_aborted_def rx_failed_def
      rx_cancelled_def rx_started_def rx_data rx_rows rx_eval)

lemma rx_reach_cancelled: "reachable (sc_w rx_cancelled {102} {})"
  using rx_reindex [OF rx_reach(2) reindex_step.cancel [of rx_started sc_env]] rx_cancel by (simp add: executed_def)

lemma rx_prune:
  "\<exists>out t. reindex_prune (\<lambda>_. False) rx_cut = Inr (out, t) \<and> pn_profiles out = 1 \<and> pn_embeddings out = 1 \<and>
     gr_embeddings (db_graph t) = [rx_new_vector]"
  by (simp add: reindex_prune_def profile_supersede_prunable_def profile_prunable_def embedding_delete_superseded_def
      tag_embedding_delete_superseded_def profile_superseded_def sql_count_def rx_data rx_rows rx_eval rx_cut_def)

end
