(* ===== verification/CorpusGuarantees.thy ===== *)
theory CorpusGuarantees
  imports ReindexRun
begin

text \<open>
  What every run of the system guarantees of the corpus and its embedding
  profiles, whatever the pipeline, the reindex worker, the operator and the
  sweeps interleave.
\<close>

lemma reachable_ok: "reachable w \<Longrightarrow> authority_ok (authority_of (w_db w))"
  using reachable_authority by (simp add: authority_inv_def)

lemma embedded_find:
  "embedded i p (gr_embeddings (db_graph s)) \<longleftrightarrow> embedding_find i p s \<noteq> None"
  by (auto simp: embedded_def sql_exists_iff embedding_find_def find_None_iff)

lemma active_row: "profile_find_active s = Some p \<Longrightarrow>
    p \<in> set (gr_profiles (db_graph s)) \<and> ep_state p = ProfileComplete"
proof -
  assume a: "profile_find_active s = Some p"
  let ?xs = "sort_key (\<lambda>p. - ep_epoch p) (filter (\<lambda>p. ep_state p = ProfileComplete) (gr_profiles (db_graph s)))"
  have "?xs = p # tl ?xs" using a by (cases ?xs) (auto simp: profile_find_active_def latest_profile_def)
  then have "p \<in> set ?xs" by (metis list.set_intros(1))
  then show ?thesis by simp
qed





text \<open>C16: A cutover that reports it is done made the profile its run was building the
  active one, completed the run, left no run live, and left no item uncovered.\<close>

theorem cutover_activates:
  assumes "reachable w" "drives run building (w_db w)"
    "cutover_txn e run building probe (w_db w) = Inr (Commit CutDone, t)"
  shows "\<exists>p. profile_find_active t = Some p \<and> ep_id p = ep_id building \<and> covers (ep_id building) t \<and>
    run_find_live t = None \<and>
    (\<exists>r \<in> set (gr_runs (db_graph t)). rr_id r = rr_id run \<and> rr_state r = RunCompleted)"
proof -
  let ?a = "authority_of (w_db w)" and ?i = "ep_id building"
  have inv: "authority_ok ?a" "runs_over ?a" using reachable_authority [OF assms(1)] by (simp_all add: authority_inv_def)
  have b: "authority_of t = move_run (rr_id run) RunRunning RunCompleted (move_profile ?i ProfileBuilding ProfileComplete ?a)"
    and hit: "sql_exists (\<lambda>p. ap_id p = ?i \<and> ap_state p = ProfileBuilding) (au_profiles ?a)"
    using cutover_commits(2) [OF assms(3)] by simp_all
  obtain r where r: "r \<in> set (au_runs ?a)" "ar_id r = rr_id run" "ar_target r = ?i" "ar_state r \<noteq> RunQueued"
    using assms(2) unfolding drives_def started_def by blast
  have "ar_state r \<in> {RunQueued, RunRunning}"
    using inv(2) [unfolded runs_over_def, rule_format, OF r(1)] hit unfolding r(3) by metis
  then have running: "ar_state r = RunRunning" using r(4) by simp
  then have live: "r \<in> set (au_live ?a)" using r by (simp add: au_live_def)
  have ok: "authority_ok (authority_of t)"
    using reindex_step_ok [OF reindex_step.cutover [OF assms(2), of e probe] inv(1)] assms(3) by (simp add: committed_def run_txn_def)
  have act: "au_active (authority_of t) = Some (last (au_profiles ?a)\<lparr>ap_state := ProfileComplete\<rparr>)"
    using completed_is_active [OF inv(1) live] r by (simp add: b)
  have lst: "ap_id (last (au_profiles ?a)) = ?i" using inv(1) live r by (auto simp: authority_ok_def)
  obtain p where p: "profile_find_active t = Some p" "profile_view p = last (au_profiles ?a)\<lparr>ap_state := ProfileComplete\<rparr>"
    using find_active_view [OF ok] act by (cases "profile_find_active t") auto
  have pid: "ep_id p = ?i" using arg_cong [OF p(2), of ap_id] lst by simp
  have cov: "covers ?i t"
    using covers_grow [OF keepsD [OF keeps_bodies_txns(5) assms(3)] count_remaining_covers [OF cutover_commits(1) [OF assms(3)]]] .
  have "r\<lparr>ar_state := RunCompleted\<rparr> \<in> set (au_runs (authority_of t))"
    using sql_update_memI [of r "au_runs ?a" "\<lambda>x. ar_id x = rr_id run \<and> ar_state x = RunRunning" "\<lambda>x. x\<lparr>ar_state := RunCompleted\<rparr>"]
      r running by (simp add: b move_run_def)
  then obtain x where x: "x \<in> set (gr_runs (db_graph t))" "run_view x = r\<lparr>ar_state := RunCompleted\<rparr>"
    unfolding authority_of_tables by auto
  have fin: "\<exists>r \<in> set (gr_runs (db_graph t)). rr_id r = rr_id run \<and> rr_state r = RunCompleted"
  proof (rule bexI [OF _ x(1)])
    have "ar_id (run_view x) = ar_id r \<and> ar_state (run_view x) = RunCompleted" by (simp add: x(2))
    then show "rr_id x = rr_id run \<and> rr_state x = RunCompleted" using r(2) by simp
  qed
  have "au_live (authority_of t) = []"
  proof (rule ccontr)
    assume "au_live (authority_of t) \<noteq> []"
    then obtain x where x: "x \<in> set (au_live (authority_of t))" by (cases "au_live (authority_of t)") auto
    then have "ap_state (last (au_profiles (authority_of t))) = ProfileBuilding" using ok by (auto simp: authority_ok_def)
    moreover have "au_profiles ?a \<noteq> []" "ap_state (last (au_profiles ?a)) = ProfileBuilding"
      using inv(1) live by (auto simp: authority_ok_def)
    ultimately show False using lst by (simp add: b move_profile_def last_sql_update)
  qed
  then show ?thesis using p pid cov fin run_find_live_iff(1) by blast
qed

theorem cutover_activates_witness:
  "\<exists>p. profile_find_active rx_cut = Some p \<and> ep_id p = 7"
  using cutover_activates [OF rx_reach(3), of rx_run1 rx_building sc_env ProbeStable rx_cut] rx_drives rx_cut_txn
  by (auto simp: rx_building_def new_profile_row_def)

text \<open>C17: A reindex run that failed or was cancelled stays so in every continuation,
  and the profile it was building is never the active one, however cancel,
  failure and cutover raced.\<close>

theorem abandoned_profile_never_serves:
  assumes "reachable w" "r \<in> set (gr_runs (db_graph (w_db w)))" "rr_state r \<in> {RunFailed, RunAborted}"
    "sys_step\<^sup>*\<^sup>* w w'"
  shows "(\<exists>r' \<in> set (gr_runs (db_graph (w_db w'))). rr_id r' = rr_id r \<and> rr_state r' = rr_state r) \<and>
    (\<forall>p. profile_find_active (w_db w') = Some p \<longrightarrow> ep_id p \<noteq> rr_target_profile_id r)"
proof -
  let ?a = "authority_of (w_db w)" and ?b = "authority_of (w_db w')"
  note run = run_authority [OF assms(1,4)] and inv = reachable_authority [OF assms(1)]
  have r: "run_view r \<in> set (au_runs ?a)" "ar_state (run_view r) \<notin> {RunQueued, RunRunning}"
    using assms(2,3) by (auto simp: authority_of_tables)
  have "run_view r \<in> set (au_runs ?b)" using authority_run_facts(2) [OF run inv] r by blast
  then have "\<exists>r' \<in> set (gr_runs (db_graph (w_db w'))). rr_id r' = rr_id r \<and> rr_state r' = rr_state r"
    by (auto simp: authority_of_tables run_view_def)
  moreover have "profile_over (rr_target_profile_id r) ?a"
    using inv assms(2,3) by (auto simp: authority_inv_def runs_failed_def authority_of_tables)
  then have over: "profile_over (rr_target_profile_id r) ?b" using authority_run_facts(3) [OF run inv] by blast
  have "ep_id p \<noteq> rr_target_profile_id r" if p: "profile_find_active (w_db w') = Some p" for p
  proof
    assume e: "ep_id p = rr_target_profile_id r"
    have ok: "authority_ok ?b" using authority_run_facts(1) [OF run inv] by (simp add: authority_inv_def)
    have pb: "profile_view p \<in> set (au_profiles ?b)" "ap_state (profile_view p) = ProfileComplete"
      using active_row [OF p] by (auto simp: authority_of_tables)
    obtain q where q: "q \<in> set (au_profiles ?b)" "ap_id q = ap_id (profile_view p)"
      "ap_state q \<in> {ProfileFailed, ProfileSuperseded}"
      using over e by (auto simp: profile_over_def sql_exists_iff)
    then have "q = profile_view p" using ok pb(1) by (auto simp: authority_ok_def dest: distinct_map_key_eq)
    then show False using q(3) pb(2) by simp
  qed
  ultimately show ?thesis by blast
qed

theorem abandoned_profile_never_serves_witness:
  "\<exists>r \<in> set (gr_runs (db_graph rx_cancelled)). rr_id r = 9 \<and> rr_state r = RunAborted"
proof -
  have "rx_aborted \<in> set (gr_runs (db_graph (w_db (sc_w rx_cancelled {102} {}))))" "rr_state rx_aborted = RunAborted"
    by (simp_all add: rx_cancelled_def rx_graph_def rx_aborted_def rx_rows)
  then show ?thesis
    using abandoned_profile_never_serves [OF rx_reach_cancelled, of rx_aborted "sc_w rx_cancelled {102} {}"]
    by (simp add: rx_aborted_def rx_rows)
qed

text \<open>Along any run of the system the active profile is only replaced by one of a
  later epoch, and never disappears.\<close>

theorem active_profile_only_advances:
  assumes "reachable w" "profile_find_active (w_db w) = Some p" "sys_step\<^sup>*\<^sup>* w w'"
  shows "\<exists>q. profile_find_active (w_db w') = Some q \<and> ep_epoch p \<le> ep_epoch q"
proof -
  note run = run_authority [OF assms(1,3)] and inv = reachable_authority [OF assms(1)]
  have ok: "authority_ok (authority_of (w_db w'))"
    using authority_run_facts(1) [OF run inv] by (simp add: authority_inv_def)
  have "au_active (authority_of (w_db w)) = Some (profile_view p)"
    using find_active_view [OF reachable_ok [OF assms(1)]] assms(2) by simp
  then obtain q where q: "au_active (authority_of (w_db w')) = Some q" "ep_epoch p \<le> ap_epoch q"
    using authority_run_facts(4) [OF run inv] by fastforce
  then show ?thesis using find_active_view [OF ok] by (cases "profile_find_active (w_db w')") auto
qed

theorem active_profile_only_advances_witness:
  "\<exists>q. profile_find_active rx_cut = Some q \<and> 1 \<le> ep_epoch q"
proof -
  have "profile_find_active rx_embedded = Some rx_profile1"
    by (simp add: profile_find_active_def latest_profile_def rx_graph_def rx_rows)
  then have "\<exists>q. profile_find_active (w_db (sc_w rx_cut {102} {})) = Some q \<and> ep_epoch rx_profile1 \<le> ep_epoch q"
    using active_profile_only_advances [OF rx_reach(3), of rx_profile1 "sc_w rx_cut {102} {}"]
      sys_step.plain [OF plain_step.reindex, of "sc_w rx_embedded {102} {}" rx_cut] rx_step_cut by auto
  then show ?thesis by (simp add: rx_rows)
qed





end
