(* ===== verification/DriveCycle.thy ===== *)
theory DriveCycle
  imports CorpusGuarantees
begin

text \<open>
  The drive cycle of \<open>ReindexDrive\<close> refines the step relation of \<open>System\<close>:
  whatever the gateway answers and whatever commits while a provider call is
  in flight, a cycle leaves the store where some run of the system would. What
  holds in every run so holds across the worker's cycles.
\<close>

definition steps_on :: "db \<Rightarrow> db \<Rightarrow> bool" where
  "steps_on s s' \<longleftrightarrow> (authority_inv (authority_of s) \<longrightarrow>
     plain_step\<^sup>*\<^sup>* s s' \<and> authority_inv (authority_of s'))"

definition driven :: "reindex_run \<Rightarrow> embedding_profile \<Rightarrow> db \<Rightarrow> db \<Rightarrow> bool" where
  "driven run building s s' \<longleftrightarrow> (authority_inv (authority_of s) \<and> drives run building s \<longrightarrow>
     plain_step\<^sup>*\<^sup>* s s' \<and> authority_inv (authority_of s') \<and> drives run building s')"

interpretation steps_on: store_order steps_on
  by unfold_locales (auto simp: steps_on_def intro: rtranclp_trans)

interpretation driven: store_order "driven run building"
  by unfold_locales (auto simp: driven_def intro: rtranclp_trans)

lemma plain_steps_authority:
  assumes "plain_step\<^sup>*\<^sup>* s s'" "authority_inv (authority_of s)"
  shows "authority_inv (authority_of s') \<and> authority_step\<^sup>*\<^sup>* (authority_of s) (authority_of s')"
proof -
  have "authority_moves s s'"
    using assms(1)
    by (induction rule: rtranclp_induct)
      (auto intro: authority_moves.order_refl authority_moves.order_trans authority_moves.plain_step_keeps)
  then show ?thesis using assms(2) by (simp add: authority_moves_def authority_run_def)
qed

lemma steps_on_plain: "plain_step\<^sup>*\<^sup>* s s' \<Longrightarrow> steps_on s s'"
  using plain_steps_authority by (auto simp: steps_on_def)

lemma driven_plain: "plain_step\<^sup>*\<^sup>* s s' \<Longrightarrow> driven run building s s'"
  using plain_steps_authority authority_steps_started by (fastforce simp: driven_def drives_def)

lemma keeps_driven:
  assumes "\<And>s. reindex_step s (executed m s)"
  shows "keeps (driven run building) m" "keeps steps_on m"
proof -
  have "plain_step\<^sup>*\<^sup>* s s'" if "m s = Inr (a, s')" for s a s'
    using plain_step.reindex [OF assms, of s] that by (auto simp: executed_def)
  then show "keeps (driven run building) m" "keeps steps_on m"
    by (auto simp: keeps_def intro: driven_plain steps_on_plain)
qed

lemmas keeps_driven_statements =
  keeps_driven [OF reindex_step.start] keeps_driven [OF reindex_step.enrol]
  keeps_driven [OF reindex_step.enumerated] keeps_driven [OF reindex_step.claim]
  keeps_driven [OF reindex_step.embed] keeps_driven [OF reindex_step.embed_tags]
  keeps_driven [OF reindex_step.quarantining] keeps_driven [OF reindex_step.bump_embedded]
  keeps_driven [OF reindex_step.bump_quarantined] keeps_driven [OF reindex_step.complete]
  keeps_driven [OF reindex_step.failing]

lemma keeps_driven_quarantine: "keeps (driven run building) (quarantine_entity e run2 building2 kind ref msg)"
  unfolding quarantine_entity_def by (rule keeps_driven_statements)

lemma driven_fail_run: "steps_by (driven run building) (fail_run e run building reason)"
  unfolding steps_by_def
proof
  fix s
  show "driven run building s (snd (fail_run e run building reason s))"
  proof (cases "drives run building s")
    case True
    then show ?thesis by (intro driven_plain r_into_rtranclp plain_step.reindex reindex_step.fail_run)
  qed (simp add: driven_def)
qed

lemma driven_cutover: "steps_by (driven run building) (run_txn (cutover_txn e run building probe))"
  unfolding steps_by_def
proof
  fix s
  show "driven run building s (snd (run_txn (cutover_txn e run building probe) s))"
  proof (cases "drives run building s")
    case True
    then show ?thesis
      unfolding committed_def [symmetric]
      by (intro driven_plain r_into_rtranclp plain_step.reindex reindex_step.cutover)
  qed (simp add: driven_def)
qed

lemmas driven_rules = driven.steps_intros keeps_driven_statements keeps_driven_quarantine
  driven_fail_run driven_cutover

section \<open>The work of a cycle\<close>

lemma driven_settle_items: "steps_by (driven run building) (settle_items e run building pairs)"
proof (induction e run building pairs rule: settle_items.induct)
  case (2 e run building item result rest)
  show ?case
  proof (cases "classify_embedding building result")
    case (Inl f)
    then show ?thesis using 2 by (cases f) (auto intro!: driven_rules)
  qed (use 2 in \<open>auto intro!: driven_rules\<close>)
qed (simp add: driven.steps_return)

definition others_step :: "drive \<Rightarrow> bool" where
  "others_step dv \<longleftrightarrow> (\<forall>k s. plain_step\<^sup>*\<^sup>* s (dv_others dv k s))"

lemma driven_in_flight: "others_step dv \<Longrightarrow> steps_by (driven run building) (in_flight dv k)"
  by (simp add: steps_by_def in_flight_def others_step_def driven_plain)

lemma driven_embed_batch:
  assumes others: "others_step dv"
  shows "steps_by (driven run building) (embed_pending_batch dv k run building)"
  unfolding embed_pending_batch_def
  by (intro driven_rules driven_settle_items driven_in_flight [OF others])

lemma driven_embed_tag:
  assumes others: "others_step dv"
  shows "steps_by (driven run building) (embed_one_tag dv k run building tag)"
proof -
  have "steps_by (driven run building)
     (case dv_embed dv k PurposeTag [tag] of
        Inl err \<Rightarrow> proc_return (Some (retry_signal_for err))
      | Inr [] \<Rightarrow> proc_return (Some \<lparr>rs_class = Transient, rs_retry_after = None,
            rs_message = ''embedding returned no result''\<rparr>)
      | Inr (r # rs) \<Rightarrow>
          (case classify_embedding building (last (r # rs)) of
             Inr v \<Rightarrow>
               proc_then (stmt (tag_embedding_batch_upsert
                 [\<lparr>tm_tag = tag, tm_profile_id = ep_id building, tm_model = ep_model building, tm_vector = v\<rparr>]))
              (proc_then (stmt (run_bump_embedded (rr_id run) 0 1)) (proc_return None))
           | Inl (FailQuarantine msg) \<Rightarrow>
               proc_bind (stmt (quarantine_entity (dv_env dv k) run building TagEntity tag msg)) (\<lambda>new.
               proc_then (if new then stmt (run_bump_quarantined (rr_id run) 0 1) else proc_return ())
               (proc_return None))
           | Inl (FailRetry signal) \<Rightarrow> proc_return (Some signal)))"
    by (auto intro!: driven_rules split: sum.split list.split embed_failure.split)
  then show ?thesis
    unfolding embed_one_tag_def by (intro driven.steps_then driven_in_flight [OF others])
qed

lemma driven_settle_task: "steps_by (driven run building) (settle_task e task attempt tok retry)"
  unfolding settle_task_def by (intro driven_rules)

lemma driven_process_one:
  assumes others: "others_step dv"
  shows "steps_by (driven run building) (process_one dv k run building t)"
  unfolding process_one_def process_item_batch_def process_tag_def
  by (auto intro!: driven_rules driven_embed_batch [OF others] driven_embed_tag [OF others] driven_settle_task
      split: option.split task_ref.split)

lemma driven_process_claimed:
  assumes others: "others_step dv"
  shows "steps_by (driven run building) (process_claimed dv k run building ts)"
  by (induction ts) (auto intro!: driven_rules driven_process_one [OF others])

lemma driven_process_tasks:
  assumes others: "others_step dv"
  shows "steps_by (driven run building) (process_tasks dv run building who rounds k)"
  by (induction rounds arbitrary: k) (auto intro!: driven_rules driven_process_claimed [OF others])

lemma driven_embed_tags:
  assumes others: "others_step dv"
  shows "steps_by (driven run building) (embed_pending_tags dv k run building ts)"
  by (induction ts) (auto intro!: driven_rules driven_embed_tag [OF others])

lemma driven_sweep:
  assumes others: "others_step dv"
  shows "steps_by (driven run building) (sweep_pending dv k run building)"
  unfolding sweep_pending_def by (intro driven_rules driven_embed_batch [OF others] driven_embed_tags [OF others])

lemma driven_catch_up:
  assumes others: "others_step dv"
  shows "steps_by (driven run building) (catch_up dv run building passes k prev)"
proof (induction passes arbitrary: k prev)
  case (Suc passes)
  have "steps_by (driven run building) (case out of
            CutFailed \<Rightarrow> proc_return False
          | CutLost \<Rightarrow> proc_return False
          | CutDone \<Rightarrow> proc_return True
          | CutRemaining n \<Rightarrow> catch_up dv run building passes (k + 1) (Some n))" for out
    using Suc by (cases out) (auto intro: driven.steps_return)
  then show ?case
    unfolding catch_up.simps
    by (intro driven_rules driven_sweep [OF others] driven_in_flight [OF others] Suc)
qed (simp add: driven.steps_return)

lemma driven_finish_cycle:
  assumes others: "others_step dv"
  shows "steps_by (driven run building) (finish_cycle dv k run building)"
  unfolding finish_cycle_def catch_up_and_cutover_def
  by (intro driven_rules driven_in_flight [OF others] driven_catch_up [OF others])

section \<open>Starting a cycle\<close>

lemma enrol_items_by:
  assumes R: "store_order R" and up: "\<And>e i n. keeps R (rtask_upsert e i n)"
  shows "steps_by R (enrol_items e ids k run building items after)"
proof -
  have "R s (snd (enrol_items e ids k run building items after s))" for s
  proof (induction e ids k run building items after s rule: enrol_items.induct)
    case (1 e ids k run building items after s)
    let ?page = "embedding_find_missing building after backfill_range_width s"
    let ?up = "rtask_upsert e (ids k) \<lparr>nrt_run_id = run, nrt_kind = ItemEntity,
           nrt_target_ref = range_ref (hd ?page) (last ?page)\<rparr>"
    show ?case
    proof (cases "?page = [] \<or> (\<exists>err. ?up s = Inl err)")
      case True
      then show ?thesis
        by (subst enrol_items.simps) (auto simp: Let_def store_order.order_refl [OF R])
    next
      case False
      then obtain n s' where step: "?page \<noteq> []" "?up s = Inr (n, s')" by (cases "?up s") auto
      have "R s s'" using keepsD [OF up step(2)] .
      moreover have "R s' (snd (enrol_items e ids (k + 1) run building (items + length ?page) (Some (last ?page)) s'))"
        using 1 [OF refl step(1) step(2) refl] .
      moreover have "enrol_items e ids k run building items after s =
          enrol_items e ids (k + 1) run building (items + length ?page) (Some (last ?page)) s'"
        using step by (subst enrol_items.simps) (simp add: Let_def)
      ultimately show ?thesis using store_order.order_trans [OF R] by metis
    qed
  qed
  then show ?thesis by (simp add: steps_by_def)
qed

lemma steps_on_enrol_tags: "steps_by steps_on (enrol_tags e ids k run ts)"
  by (induction ts arbitrary: k) (auto intro!: steps_on.steps_intros keeps_driven_statements)

lemma steps_on_enrol: "steps_by steps_on (enrol_backfill e ids tag_ids run building)"
  unfolding enrol_backfill_def
  by (intro steps_on.steps_intros steps_on_enrol_tags enrol_items_by [OF steps_on.store_order_axioms]
      keeps_driven_statements)

lemma steps_on_drive: "steps_by steps_on (drive_reindex e ids tag_ids)"
  unfolding drive_reindex_def
  by (intro steps_on.steps_intros steps_on_enrol keeps_driven_statements)

lemma authority_enrol_tags: "steps_by same_authority (enrol_tags e ids k run ts)"
  by (induction ts arbitrary: k) (auto intro!: same_authority.steps_intros keeps_authority_reindex)

lemma authority_enrol: "steps_by same_authority (enrol_backfill e ids tag_ids run building)"
  unfolding enrol_backfill_def
  by (intro same_authority.steps_intros authority_enrol_tags keeps_authority_reindex
      enrol_items_by [OF same_authority.store_order_axioms])

lemma proc_bind_InrE:
  assumes "proc_bind m f s = (Inr b, s')"
  obtains a t where "m s = (Inr a, t)" "f a t = (Inr b, s')"
  using assms by (cases "m s"; cases "fst (m s)") (auto simp: proc_bind_def)

lemma proc_then_InrE:
  assumes "proc_then m n s = (Inr b, s')"
  obtains a t where "m s = (Inr a, t)" "n t = (Inr b, s')"
  using assms unfolding proc_then_def by (rule proc_bind_InrE)

lemma stepsD: "steps_by R m \<Longrightarrow> m s = (r, s') \<Longrightarrow> R s s'"
  by (auto simp: steps_by_def dest: spec [of _ s])

text \<open>A cycle that goes on works on a run that is live and started.\<close>

lemma drive_reindex_starts:
  assumes run: "drive_reindex e ids tag_ids s = (Inr (Some run), s1)" and inv: "authority_inv (authority_of s)"
  shows "\<exists>r \<in> set (au_live (authority_of s1)). ar_id r = rr_id run \<and> ar_target r = rr_target_profile_id run \<and>
    ar_state r = RunRunning"
proof -
  let ?go = "\<lambda>l. if rr_state l = RunQueued
           then stmt (run_transition e (rr_id l) RunQueued RunRunning None) else proc_return True"
  let ?rest = "\<lambda>l. if rr_items_enumerated l = None then
           proc_bind (enrol_backfill e ids tag_ids (rr_id l) (rr_target_profile_id l)) (\<lambda>(items, tags).
           proc_then (stmt (run_set_enumerated (rr_id l) items tags)) (proc_return (Some l)))
         else proc_return (Some l)"
  have "\<exists>l. run_find_live s = Some l"
    using run by (cases "run_find_live s") (auto simp: drive_reindex_def proc_bind_def proc_read_def proc_return_def)
  then obtain l where l: "run_find_live s = Some l" by blast
  have "proc_bind (?go l) (\<lambda>going. if \<not> going then proc_return None else ?rest l) s = (Inr (Some run), s1)"
    using run l by (simp add: drive_reindex_def proc_bind_def [of "proc_read _"] proc_read_def)
  then obtain going t where going: "?go l s = (Inr going, t)"
    and rest0: "(if \<not> going then proc_return None else ?rest l) t = (Inr (Some run), s1)"
    by (rule proc_bind_InrE)
  have yes: "going = True" using rest0 by (cases going) (simp_all add: proc_return_def)
  have eq: "l = run" using rest0 yes
    by (auto simp: proc_return_def elim!: proc_bind_InrE proc_then_InrE split: if_splits prod.splits)
  have live: "run_find_live s = Some run" and t: "?go run s = (Inr True, t)"
    and rest: "?rest run t = (Inr (Some run), s1)"
    using l going rest0 unfolding eq yes by simp_all
  have "steps_by same_authority (if rr_items_enumerated run = None then
           proc_bind (enrol_backfill e ids tag_ids (rr_id run) (rr_target_profile_id run)) (\<lambda>(items, tags).
           proc_then (stmt (run_set_enumerated (rr_id run) items tags)) (proc_return (Some run)))
         else proc_return (Some run))"
    by (intro same_authority.steps_intros authority_enrol keeps_authority_reindex)
  then have "same_authority t (snd (?rest run t))" unfolding steps_by_def by blast
  then have same: "authority_of s1 = authority_of t" unfolding rest by (simp add: same_authority_def)
  have r: "run_view run \<in> set (au_live (authority_of s))" using run_find_live_iff(2) [OF live] by simp
  show ?thesis
  proof (cases "rr_state run = RunQueued")
    case True
    then obtain u where "run_transition e (rr_id run) RunQueued RunRunning None s = Inr (True, u)" "t = u"
      using t by (auto simp: stmt_def split: sum.splits)
    then have "authority_of t = move_run (rr_id run) RunQueued RunRunning (authority_of s)"
      using run_transition_moves by blast
    moreover have "(run_view run)\<lparr>ar_state := RunRunning\<rparr> \<in>
        set (au_runs (move_run (rr_id run) RunQueued RunRunning (authority_of s)))"
      using sql_update_memI [of "run_view run" "au_runs (authority_of s)"
          "\<lambda>r. ar_id r = rr_id run \<and> ar_state r = RunQueued" "\<lambda>r. r\<lparr>ar_state := RunRunning\<rparr>"] r True
      by (simp add: move_run_def au_live_def)
    ultimately show ?thesis using same by (force simp: au_live_def)
  next
    case False
    then have "t = s" "rr_state run = RunRunning" using t r by (auto simp: proc_return_def au_live_def)
    then show ?thesis using r same by (intro bexI [of _ "run_view run"]) auto
  qed
qed

text \<open>C21: A drive cycle of the reindex worker, with any provider answers and any
  transactions of others while calls are in flight, moves the store as a run of
  the system does: every guarantee of the step relation holds across it.\<close>

theorem drive_cycle_is_a_run:
  assumes "authority_inv (authority_of s)" "others_step dv"
  shows "plain_step\<^sup>*\<^sup>* s (snd (drive_reindex_cycle dv who rounds s))"
proof -
  obtain r s1 where d: "drive_reindex (dv_env dv 0) (dv_ids dv 0) (dv_tag_ids dv 0) s = (r, s1)"
    by (cases "drive_reindex (dv_env dv 0) (dv_ids dv 0) (dv_tag_ids dv 0) s")
  have s1: "plain_step\<^sup>*\<^sup>* s s1" "authority_inv (authority_of s1)"
    using stepsD [OF steps_on_drive d] assms(1) by (simp_all add: steps_on_def)
  have "plain_step\<^sup>*\<^sup>* s1 (snd (drive_reindex_cycle dv who rounds s))"
  proof (cases "\<exists>run b. r = Inr (Some run) \<and> profile_find_building s1 = Some b \<and> (\<exists>u. dv_prepare dv = Inr u)")
    case False
    then have "snd (drive_reindex_cycle dv who rounds s) = s1"
      by (cases r) (auto simp: drive_reindex_cycle_def proc_bind_def proc_map_err_def d proc_return_def proc_read_def
          proc_fail_def split: option.splits sum.splits)
    then show ?thesis by simp
  next
    case True
    then obtain run b u where c: "r = Inr (Some run)" "profile_find_building s1 = Some b" "dv_prepare dv = Inr u"
      by blast
    obtain q where q: "q \<in> set (au_live (authority_of s1))" "ar_id q = rr_id run"
      "ar_target q = rr_target_profile_id run" "ar_state q = RunRunning"
      using drive_reindex_starts d assms(1) unfolding c(1) by blast
    have "ep_id b = ar_target q" using live_building [OF _ q(1)] s1(2) c(2) by (auto simp: authority_inv_def)
    then have dr: "drives run b s1" using q by (auto simp: drives_def started_def au_live_def)
    let ?work = "proc_bind (proc_map_err ReindexDb (process_tasks dv run b who rounds 1)) (\<lambda>drain.
                  if drain \<noteq> Drained then proc_return ()
                  else proc_map_err ReindexDb (finish_cycle dv (rounds + 1) run b))"
    have "steps_by (driven run b) ?work"
      by (intro driven_rules driven_process_tasks [OF assms(2)] driven_finish_cycle [OF assms(2)])
    then have "driven run b s1 (snd (?work s1))" by (simp add: steps_by_def)
    moreover have "drive_reindex_cycle dv who rounds s = ?work s1"
      by (simp add: drive_reindex_cycle_def proc_bind_def [of "proc_map_err ReindexDb (drive_reindex _ _ _)"]
          proc_bind_def [of "proc_read _"] proc_map_err_def [of _ "drive_reindex _ _ _"] proc_read_def d c)
    ultimately show ?thesis using s1(2) dr by (simp add: driven_def)
  qed
  then show ?thesis using s1(1) by simp
qed

definition rx_dv :: drive where
  "rx_dv = \<lparr>dv_env = (\<lambda>_. sc_env), dv_ids = (\<lambda>k i. 40 + k + i), dv_tag_ids = (\<lambda>k i. 60 + k + i),
     dv_fresh = (\<lambda>k i. 300 + k), dv_locked = (\<lambda>_ _. False), dv_run_locked = (\<lambda>_. False),
     dv_others = (\<lambda>_ s. s), dv_embed = (\<lambda>_ _ texts. Inr (map (\<lambda>_. Inr [1, 2, 3]) texts)),
     dv_token = (\<lambda>_. Inr ''r''), dv_probe = (\<lambda>_. Inr [1, 2, 3]), dv_digest = (\<lambda>_. ''d''), dv_prepare = Inr (),
     dv_index = Inr ()\<rparr>"

theorem drive_cycle_is_a_run_witness:
  "plain_step\<^sup>*\<^sup>* rx_staged (snd (drive_reindex_cycle rx_dv ''w'' 3 rx_staged))"
proof (rule drive_cycle_is_a_run)
  show "authority_inv (authority_of rx_staged)" using reachable_authority [OF rx_reach(1)] by simp
  show "others_step rx_dv" by (simp add: others_step_def rx_dv_def)
qed

end
