(* ===== verification/ReindexQueue.thy ===== *)
theory ReindexQueue
  imports ReindexRepo LeaseQueue
begin

text \<open>
  The reindex tasks as a lease queue (\<open>tribal-db/src/repositories/reindex_task.rs\<close>):
  a task holds a token exactly while it is claimed, and it is dead-lettered
  exactly when its failures exceed its budget. Every statement keeps this, so
  the laws of \<open>LeaseQueue\<close> hold of the batches of a run as they do of the stage
  and driver tasks.
\<close>

definition rtask_ok :: "reindex_task \<Rightarrow> bool" where
  "rtask_ok t \<longleftrightarrow> (rt_claim_token t \<noteq> None \<longleftrightarrow> rt_state t = RTaskClaimed) \<and>
     (rt_state t = RTaskDeadLetter \<longleftrightarrow> rt_max_attempts t < rt_attempt t) \<and> rt_attempt t \<le> rt_max_attempts t + 1"

definition rtasks_ok :: "db \<Rightarrow> bool" where
  "rtasks_ok s \<longleftrightarrow> distinct (map rt_id (gr_rtasks (db_graph s))) \<and> (\<forall>t \<in> set (gr_rtasks (db_graph s)). rtask_ok t)"

definition rtask_lease :: "uuid \<Rightarrow> uuid \<Rightarrow> db \<Rightarrow> bool" where
  "rtask_lease i tok s \<longleftrightarrow> (\<exists>t \<in> set (gr_rtasks (db_graph s)). rt_id t = i \<and> rt_claim_token t = Some tok)"

inductive_set rtask_fenced :: "(uuid \<Rightarrow> uuid \<Rightarrow> nat db_tx) set" where
  "rtask_complete e \<in> rtask_fenced"
| "(\<lambda>i tok. rtask_fail e i tok av class msg) \<in> rtask_fenced"

lemma rtask_row_unique:
  "rtasks_ok s \<Longrightarrow> t \<in> set (gr_rtasks (db_graph s)) \<Longrightarrow> u \<in> set (gr_rtasks (db_graph s)) \<Longrightarrow> rt_id t = rt_id u \<Longrightarrow> t = u"
  by (auto simp: rtasks_ok_def dest: distinct_map_key_eq)

lemma update_rtasks_Inr:
  assumes "update_rtasks P f s = Inr (n, s')"
  shows "gr_rtasks (db_graph s') = sql_update P f (gr_rtasks (db_graph s))"
    "n = sql_count P (gr_rtasks (db_graph s))" "n = 0 \<Longrightarrow> s' = s"
  using assms by (auto simp: update_rtasks_def tx_defs update_graph_def sql_update_none sql_count_pos)

lemma update_rtasks_ok:
  assumes "update_rtasks P f s = Inr (n, s')" "rtasks_ok s"
    "\<And>t. P t \<Longrightarrow> rtask_ok t \<Longrightarrow> rt_id (f t) = rt_id t \<and> rtask_ok (f t)"
  shows "rtasks_ok s'"
proof -
  let ?ts = "gr_rtasks (db_graph s)"
  have ok: "distinct (map rt_id ?ts)" "\<forall>t \<in> set ?ts. rtask_ok t" using assms(2) by (simp_all add: rtasks_ok_def)
  have "map rt_id (sql_update P f ?ts) = map rt_id ?ts" "\<forall>t \<in> set (sql_update P f ?ts). rtask_ok t"
    using ok(2) assms(3) by (auto simp: sql_update_def)
  then show ?thesis using ok(1) by (simp add: rtasks_ok_def update_rtasks_Inr(1) [OF assms(1)])
qed

lemma rtask_complete_row_ok:
  "holds_rtask i tok t \<Longrightarrow> rtask_ok t \<Longrightarrow>
     rtask_ok (t\<lparr>rt_state := RTaskCompleted, rt_claim_token := None, rt_completed_at := Some a, rt_updated_at := b\<rparr>)"
  by (auto simp: holds_rtask_def rtask_ok_def)

lemma rtask_fail_row_ok:
  "holds_rtask i tok t \<Longrightarrow> rtask_ok t \<Longrightarrow> rtask_ok (rtask_fail_row e av class msg t)"
  by (auto simp: holds_rtask_def rtask_ok_def rtask_fail_row_def Let_def)

lemma rtask_fail_row_id: "rt_id (rtask_fail_row e av class msg t) = rt_id t"
  by (simp add: rtask_fail_row_def Let_def)

lemma rtask_claimable_mem:
  assumes "t \<in> set (rtask_claimable run rl e locked limit s)"
  shows "t \<in> set (gr_rtasks (db_graph s)) \<and> rt_state t = RTaskPending \<and> rt_run_id t = run \<and> \<not> locked (rt_id t) \<and>
    rt_available_at t \<le> env_now e \<and> \<not> rl \<and> sql_exists (\<lambda>r. rr_id r = run \<and> run_live r) (gr_runs (db_graph s))"
  using assms set_sql_select_ordered unfolding rtask_claimable_def by fastforce

lemma rtask_claim_Inr:
  assumes "rtask_claim run rl e locked fresh limit by s = Inr (rows, s')"
  shows "gr_rtasks (db_graph s') = sql_update (\<lambda>t. t \<in> set (rtask_claimable run rl e locked limit s))
      (\<lambda>t. rtask_claim_row e (fresh (rt_id t)) by t) (gr_rtasks (db_graph s))"
    "rows = map (\<lambda>t. rtask_claim_row e (fresh (rt_id t)) by t)
      (filter (\<lambda>t. t \<in> set (rtask_claimable run rl e locked limit s)) (gr_rtasks (db_graph s)))"
  using assms by (auto simp: rtask_claim_def Let_def update_rtasks_def update_graph_def tx_defs)

lemma rtask_claim_ok:
  assumes "rtask_claim run rl e locked fresh limit by s = Inr (rows, s')" "rtasks_ok s"
  shows "rtasks_ok s'"
proof -
  have "rtask_ok (rtask_claim_row e tok by t)" if "rtask_ok t" "rt_state t = RTaskPending" for t tok
    using that by (auto simp: rtask_ok_def rtask_claim_row_def)
  moreover have "rt_id (rtask_claim_row e tok by t) = rt_id t" for t tok by (simp add: rtask_claim_row_def)
  ultimately show ?thesis
    using assms(2) unfolding rtasks_ok_def rtask_claim_Inr(1) [OF assms(1)]
    by (auto simp: sql_update_def o_def if_distrib cong: if_cong dest: rtask_claimable_mem)
qed

lemma rtask_upsert_ok: "rtask_upsert e i n s = Inr (m, s') \<Longrightarrow> rtasks_ok s \<Longrightarrow> rtasks_ok s'"
  by (auto simp: rtask_upsert_def Let_def tx_defs update_graph_def rtasks_ok_def new_rtask_row_def rtask_ok_def
      sql_exists_iff split: if_splits)

lemma rtask_fenced_shape:
  assumes "f \<in> rtask_fenced"
  obtains g where "\<And>i tok. f i tok = update_rtasks (holds_rtask i tok) g"
    "\<And>i tok t. holds_rtask i tok t \<Longrightarrow> rtask_ok t \<Longrightarrow> rt_id (g t) = rt_id t \<and> rtask_ok (g t)"
  using assms
proof (cases rule: rtask_fenced.cases)
  case (1 e)
  then show ?thesis
    using rtask_complete_row_ok
    by (intro that [of "\<lambda>t. t\<lparr>rt_state := RTaskCompleted, rt_claim_token := None, rt_completed_at := Some (env_now e),
        rt_updated_at := env_now e\<rparr>"]) (simp_all add: rtask_complete_def)
next
  case (2 e av cl msg)
  then show ?thesis
    using rtask_fail_row_ok rtask_fail_row_id
    by (intro that [of "rtask_fail_row e av cl msg"]) (simp_all add: rtask_fail_def)
qed

lemma rtask_fenced_ok: "f \<in> rtask_fenced \<Longrightarrow> f i tok s = Inr (n, s') \<Longrightarrow> rtasks_ok s \<Longrightarrow> rtasks_ok s'"
  by (erule rtask_fenced_shape) (metis update_rtasks_ok)

lemma holds_rtask_iff_lease:
  assumes "rtasks_ok s"
  shows "(\<exists>t \<in> set (gr_rtasks (db_graph s)). holds_rtask i tok t) \<longleftrightarrow> rtask_lease i tok s"
proof -
  have "rt_state t = RTaskClaimed" if "t \<in> set (gr_rtasks (db_graph s))" "rt_claim_token t = Some tok" for t
    using assms that by (auto simp: rtasks_ok_def rtask_ok_def)
  then show ?thesis by (auto simp: holds_rtask_def rtask_lease_def)
qed

lemma update_held_rtask:
  assumes "update_rtasks (holds_rtask i tok) g s = Inr (n, s')" "rtasks_ok s"
  shows "rtask_lease i tok s \<Longrightarrow> n = 1" "\<not> rtask_lease i tok s \<Longrightarrow> n = 0 \<and> s' = s"
proof -
  note n = update_rtasks_Inr [OF assms(1)]
  have "n \<le> 1"
    using assms(2) unfolding n(2)
    by (intro sql_count_distinct_le_one [of rt_id]) (auto simp: rtasks_ok_def holds_rtask_def)
  moreover have "n \<noteq> 0 \<longleftrightarrow> rtask_lease i tok s"
    unfolding n(2) sql_count_pos using holds_rtask_iff_lease [OF assms(2)] .
  ultimately show "rtask_lease i tok s \<Longrightarrow> n = 1" "\<not> rtask_lease i tok s \<Longrightarrow> n = 0 \<and> s' = s"
    using n(3) by auto
qed

interpretation rtask_queue: lease_queue rtasks_ok rtask_lease rt_id "rtask_claim run run_locked" rtask_fenced
  for run run_locked
proof
  fix f s i tok n s'
  assume f: "f \<in> rtask_fenced" "rtasks_ok s" "f i tok s = Inr (n, s')"
  show "\<not> rtask_lease i tok s \<Longrightarrow> n = 0 \<and> s' = s" "rtask_lease i tok s \<Longrightarrow> n = 1"
    using rtask_fenced_shape [OF f(1)] f(3) update_held_rtask [OF _ f(2)] by metis+
next
  fix s i a b
  show "rtasks_ok s \<Longrightarrow> rtask_lease i a s \<Longrightarrow> rtask_lease i b s \<Longrightarrow> a = b"
    unfolding rtask_lease_def by (metis option.inject rtask_row_unique)
next
  fix e locked fresh limit "by" s rows s' r tok
  assume c: "rtask_claim run run_locked e locked fresh limit by s = Inr (rows, s')"
  show "r \<in> set rows \<Longrightarrow> rtask_lease (rt_id r) (fresh (rt_id r)) s'"
    unfolding rtask_lease_def rtask_claim_Inr [OF c] by (auto simp: set_sql_update rtask_claim_row_def)
  show "rtasks_ok s'" if "rtasks_ok s" using rtask_claim_ok [OF c that] .
  show "\<not> rtask_lease (rt_id r) tok s" if ok: "rtasks_ok s" and r: "r \<in> set rows"
  proof -
    obtain t where "t \<in> set (rtask_claimable run run_locked e locked limit s)" "rt_id r = rt_id t"
      using r unfolding rtask_claim_Inr(2) [OF c] by (auto simp: rtask_claim_row_def)
    moreover from this have "t \<in> set (gr_rtasks (db_graph s))" "rt_state t = RTaskPending"
      using rtask_claimable_mem by blast+
    moreover from this have "rt_claim_token t = None" using ok by (auto simp: rtasks_ok_def rtask_ok_def)
    ultimately show ?thesis using rtask_row_unique [OF ok] unfolding rtask_lease_def by (metis option.distinct(1))
  qed
qed (auto simp: rtask_claim_def Let_def tx_defs update_rtasks_def update_graph_def)

end
