(* ===== verification/ReindexTasks.thy ===== *)
theory ReindexTasks
  imports DriveCycle ReindexQueue
begin

text \<open>
  The tasks of a reindex run across every run of the system: they stay well
  formed, so their claims keep the contract of \<open>LeaseQueue\<close> in every reachable
  state; and the enrolment that creates them reaches every item without a
  vector.
\<close>

section \<open>Well-formed in every reachable state\<close>

definition rtasks_order :: "db \<Rightarrow> db \<Rightarrow> bool" where
  "rtasks_order s s' \<longleftrightarrow> (rtasks_ok s \<longrightarrow> rtasks_ok s')"

interpretation rtasks_order: store_order rtasks_order
  by unfold_locales (auto simp: rtasks_order_def)

lemma rtasks_same: "gr_rtasks (db_graph s') = gr_rtasks (db_graph s) \<Longrightarrow> rtasks_order s s'"
  by (simp add: rtasks_order_def rtasks_ok_def)

lemma keeps_index_rtasks: "keeps same_index m \<Longrightarrow> keeps rtasks_order m"
  by (auto simp: keeps_def same_index_def intro: rtasks_same)

interpretation rtasks_order: whole_order rtasks_order
  by unfold_locales (rule keeps_index_rtasks,
      rule keeps_index_statements keeps_index_others keeps_index_batch_size)+

lemma keeps_rtasks_graph:
  "keeps rtasks_order (item_insert e i ni)"
  "keeps rtasks_order (embedding_insert e i nem)"
  "keeps rtasks_order (profile_insert e i gap n)"
  "keeps rtasks_order (profile_transition e i st st')"
  "keeps rtasks_order (profile_supersede_prunable)"
  "keeps rtasks_order (embedding_delete_superseded)"
  "keeps rtasks_order (tag_embedding_delete_superseded)"
  "keeps rtasks_order (embedding_batch_insert e ids ms)"
  "keeps rtasks_order (tag_embedding_batch_upsert tms)"
  "keeps rtasks_order (run_insert e i nr)"
  "keeps rtasks_order (run_transition e i rst rst' msg)"
  "keeps rtasks_order (run_set_enumerated i items tags)"
  "keeps rtasks_order (run_bump_embedded i items tags)"
  "keeps rtasks_order (run_bump_quarantined i items tags)"
  "keeps rtasks_order (quarantine_record e nq)"
  by (auto simp: keeps_def item_insert_def embedding_insert_def insert_guard_def profile_insert_def
      profile_transition_def profile_supersede_prunable_def embedding_delete_superseded_def
      tag_embedding_delete_superseded_def embedding_batch_insert_def tag_embedding_batch_upsert_def
      run_insert_def run_transition_def run_set_enumerated_def run_bump_embedded_def run_bump_quarantined_def
      update_run_def quarantine_record_def Let_def tx_defs update_graph_def intro!: rtasks_same
      split: if_splits option.splits)

lemma keeps_rtasks_queue:
  "keeps rtasks_order (rtask_upsert e i nt)"
  "keeps rtasks_order (rtask_claim run run_locked e locked fresh limit who)"
  "keeps rtasks_order (rtask_complete e i tok)"
  "keeps rtasks_order (rtask_fail e i tok av kind msg)"
  using rtask_fenced_ok [OF rtask_fenced.intros(1)] rtask_fenced_ok [OF rtask_fenced.intros(2)]
  by (auto simp: keeps_def rtasks_order_def intro: rtask_upsert_ok rtask_claim_ok)

interpretation rtasks_order: graph_order rtasks_order
  by unfold_locales (rule keeps_rtasks_graph)+

lemmas rtasks_rules = rtasks_order.keeps_intros keeps_rtasks_graph keeps_rtasks_queue

lemma keeps_rtasks_txns:
  "keeps rtasks_order (profile_mark_complete e i)"
  "keeps rtasks_order (profile_mark_failed e i)"
  "keeps rtasks_order (reconcile_orphan_building_profile e granted)"
  "keeps rtasks_order (fail_run_tx e run building reason)"
  "keeps rtasks_order (cutover_txn e run building probe)"
  "keeps rtasks_order (reindex_cancel e)"
  "keeps rtasks_order (prune_txn preview indexed)"
  "keeps rtasks_order (stage_reindex_run e cids h admitted granted target who)"
  unfolding profile_mark_complete_def profile_mark_failed_def reconcile_orphan_building_profile_def
    fail_run_tx_def cutover_txn_def reindex_cancel_def prune_txn_def reindex_prune_def
    stage_reindex_run_def create_reindex_run_def Let_def
  by (intro rtasks_rules)+

lemma reindex_step_rtasks: "reindex_step s s' \<Longrightarrow> rtasks_order s s'"
proof (induction rule: reindex_step.induct)
  case (fail_run run building s e reason)
  show ?case unfolding fail_run_def by (rule rtasks_order.run_txn_keeps) (intro rtasks_rules keeps_rtasks_txns)
qed (rule rtasks_order.executed_keeps rtasks_order.committed_keeps;
     rule keeps_rtasks_graph keeps_rtasks_queue keeps_rtasks_txns)+

interpretation rtasks_order: system_order rtasks_order
proof unfold_locales
  show "reindex_step s s' \<Longrightarrow> rtasks_order s s'" for s s' by (rule reindex_step_rtasks)
qed (rule rtasks_order.keeps_novel_txn | (rule keeps_index_rtasks, rule keeps_index_claims))+

lemma reachable_rtasks_ok: "reachable w \<Longrightarrow> rtasks_ok (w_db w)"
  using rtasks_order.reachable_keeps [of w]
  by (simp add: rtasks_order_def rtasks_ok_def db_empty_def graph_empty_def)

section \<open>Enrolment\<close>

lemma filter_above_take:
  assumes "sorted M" "distinct M" "take n M \<noteq> []"
  shows "filter (\<lambda>i. last (take n M) < (i :: uuid)) M = drop n M"
proof -
  obtain ys x where t: "take n M = ys @ [x]" using assms(3) by (cases "take n M" rule: rev_cases) auto
  have M: "M = ys @ x # drop n M" using append_take_drop_id [of n M] t by simp
  have "sorted (ys @ x # drop n M)" "distinct (ys @ x # drop n M)" using assms(1,2) M by metis+
  then have le: "\<forall>i \<in> set (drop n M). x \<le> i \<and> i \<noteq> x" "\<forall>i \<in> set ys. i \<le> x" by (auto simp: sorted_append)
  then have "\<forall>i \<in> set (drop n M). x < i" "\<forall>i \<in> set ys. \<not> x < i" by (auto simp: less_le leD)
  then have "filter (\<lambda>i. x < i) (ys @ x # drop n M) = drop n M" by (simp add: filter_empty_conv filter_id_conv)
  then show ?thesis using M t by (metis last_snoc)
qed

lemma missing_after_drop:
  assumes "items_distinct s" "take n (missing_after b after s) \<noteq> []"
  shows "missing_after b (Some (last (take n (missing_after b after s)))) s = drop n (missing_after b after s)"
proof -
  let ?M = "missing_after b after s" and ?hi = "last (take n (missing_after b after s))"
  have "distinct (map ki_id (filter P (gr_items (db_graph s))))" for P
    using assms(1) by (simp add: items_distinct_def distinct_map_filter)
  then have M: "sorted ?M" "distinct ?M" by (simp_all add: missing_after_def)
  have "?hi \<in> set ?M" using assms(2) last_in_set in_set_takeD by metis
  then have "case after of None \<Rightarrow> True | Some a \<Rightarrow> a < ?hi" by (auto simp: missing_after_def split: option.splits)
  then have "missing_after b (Some ?hi) s = filter (\<lambda>i. ?hi < i) ?M"
    by (auto simp: missing_after_def filter_sort filter_map o_def intro!: arg_cong [of _ _ sort] arg_cong [of _ _ "map ki_id"]
        filter_cong split: option.splits)
  then show ?thesis using filter_above_take [OF M assms(2)] by simp
qed

definition enrolled :: "uuid \<Rightarrow> uuid \<Rightarrow> db \<Rightarrow> bool" where
  "enrolled run i s \<longleftrightarrow> (\<exists>t \<in> set (gr_rtasks (db_graph s)). rt_run_id t = run \<and> rt_kind t = ItemEntity \<and>
     (\<exists>lo hi. rt_target_ref t = range_ref lo hi \<and> lo \<le> i \<and> i \<le> hi))"

definition tag_enrolled :: "uuid \<Rightarrow> string \<Rightarrow> db \<Rightarrow> bool" where
  "tag_enrolled run tag s \<longleftrightarrow> (\<exists>t \<in> set (gr_rtasks (db_graph s)). rt_run_id t = run \<and> rt_kind t = TagEntity \<and>
     rt_target_ref t = ''tag:'' @ tag)"

lemma rtask_upsert_effect:
  assumes "rtask_upsert e i n s = Inr (r, s')"
  shows "set (gr_rtasks (db_graph s)) \<subseteq> set (gr_rtasks (db_graph s'))"
    "\<exists>t \<in> set (gr_rtasks (db_graph s')). rtask_key t = (nrt_run_id n, nrt_kind n, nrt_target_ref n)"
    "items_distinct s' = items_distinct s" "tags_missing_embeddings b s' = tags_missing_embeddings b s"
  using assms
  by (auto simp: rtask_upsert_def Let_def tx_defs update_graph_def items_distinct_def sql_exists_iff
      rtask_key_def new_rtask_row_def tags_missing_embeddings_def tag_unembedded_def [abs_def] is_quarantined_def
      split: if_splits)

lemma enrolled_mono:
  "set (gr_rtasks (db_graph s)) \<subseteq> set (gr_rtasks (db_graph s')) \<Longrightarrow> enrolled run i s \<Longrightarrow> enrolled run i s'"
  "set (gr_rtasks (db_graph s)) \<subseteq> set (gr_rtasks (db_graph s')) \<Longrightarrow> tag_enrolled run x s \<Longrightarrow> tag_enrolled run x s'"
  unfolding enrolled_def tag_enrolled_def by blast+

lemma enrol_items_grows:
  "set (gr_rtasks (db_graph s)) \<subseteq> set (gr_rtasks (db_graph (snd (enrol_items e ids k run b items after s))))"
proof -
  have "store_order (\<lambda>s s'. set (gr_rtasks (db_graph s)) \<subseteq> set (gr_rtasks (db_graph s')))"
    by unfold_locales auto
  then have "steps_by (\<lambda>s s'. set (gr_rtasks (db_graph s)) \<subseteq> set (gr_rtasks (db_graph s')))
      (enrol_items e ids k run b items after)"
    by (rule enrol_items_by) (simp add: keeps_def rtask_upsert_effect(1))
  then show ?thesis by (simp add: steps_by_def)
qed

lemma sorted_between: "sorted xs \<Longrightarrow> (i :: uuid) \<in> set xs \<Longrightarrow> hd xs \<le> i \<and> i \<le> last xs"
proof (induction xs)
  case (Cons x xs)
  then show ?case by (cases xs) (auto intro: order_trans)
qed simp

text \<open>The pages of a complete enrolment.\<close>

lemma enrol_items_complete:
  assumes "enrol_items e ids k run b items after s = (Inr n, s')" "items_distinct s"
  shows "n = items + length (missing_after b after s) \<and> (\<forall>i \<in> set (missing_after b after s). enrolled run i s') \<and>
    tags_missing_embeddings b s' = tags_missing_embeddings b s"
  using assms
proof (induction e ids k run b items after s rule: enrol_items.induct)
  case (1 e ids k run b items after s)
  let ?M = "missing_after b after s"
  let ?page = "embedding_find_missing b after backfill_range_width s"
  let ?up = "rtask_upsert e (ids k) \<lparr>nrt_run_id = run, nrt_kind = ItemEntity,
           nrt_target_ref = range_ref (hd ?page) (last ?page)\<rparr>"
  have page: "?page = take backfill_range_width ?M" by (rule embedding_find_missing_take)
  show ?case
  proof (cases "?page = []")
    case True
    then have "?M = []" using page by (simp add: backfill_range_width_def)
    moreover have "enrol_items e ids k run b items after s = (Inr items, s)"
      using True by (subst enrol_items.simps) (simp add: Let_def)
    ultimately show ?thesis using 1(2) by simp
  next
    case False
    have "\<exists>m t. ?up s = Inr (m, t)"
      using 1(2) False by (subst (asm) enrol_items.simps) (cases "?up s", auto simp: Let_def)
    then obtain m t where up: "?up s = Inr (m, t)" by blast
    have run: "enrol_items e ids (k + 1) run b (items + length ?page) (Some (last ?page)) t = (Inr n, s')"
      using 1(2) False up by (subst (asm) enrol_items.simps) (simp add: Let_def)
    have "missing_after b (Some (last ?page)) s = drop backfill_range_width ?M"
      using missing_after_drop [OF 1(3), of backfill_range_width b after] False unfolding page by simp
    then have rest: "missing_after b (Some (last ?page)) t = drop backfill_range_width ?M"
      by (simp add: rtask_upsert_items [OF up])
    have ih: "n = items + length ?page + length (drop backfill_range_width ?M)"
      "\<forall>i \<in> set (drop backfill_range_width ?M). enrolled run i s'"
      "tags_missing_embeddings b s' = tags_missing_embeddings b t"
      using 1(1) [OF refl False up refl run] 1(3) rtask_upsert_effect(3) [OF up] unfolding rest by simp_all
    have "enrolled run i t" if "i \<in> set ?page" for i
    proof -
      have "sorted ?page" unfolding page missing_after_def by (intro sorted_wrt_take) simp
      then have "hd ?page \<le> i" "i \<le> last ?page" using sorted_between that by blast+
      then show ?thesis
        using rtask_upsert_effect(2) [OF up] unfolding enrolled_def rtask_key_def by fastforce
    qed
    moreover have "set (gr_rtasks (db_graph t)) \<subseteq> set (gr_rtasks (db_graph s'))"
      using enrol_items_grows [where s = t] run by (metis snd_conv)
    ultimately have here: "\<forall>i \<in> set ?page. enrolled run i s'" using enrolled_mono(1) by blast
    have pages: "set ?M = set ?page \<union> set (drop backfill_range_width ?M)"
      unfolding page by (metis append_take_drop_id set_append)
    have len: "length ?M = length ?page + length (drop backfill_range_width ?M)" by (simp add: page)
    show ?thesis
    proof (intro conjI)
      show "n = items + length ?M" using ih(1) unfolding len by (rule trans) (rule add.assoc)
      show "\<forall>i \<in> set ?M. enrolled run i s'" unfolding pages using here ih(2) by blast
      show "tags_missing_embeddings b s' = tags_missing_embeddings b s"
        using ih(3) rtask_upsert_effect(4) [OF up] by simp
    qed
  qed
qed

lemma enrol_tags_complete:
  assumes "enrol_tags e ids k run tags s = (Inr u, s')"
  shows "set (gr_rtasks (db_graph s)) \<subseteq> set (gr_rtasks (db_graph s')) \<and> (\<forall>x \<in> set tags. tag_enrolled run x s')"
  using assms
proof (induction tags arbitrary: k s)
  case (Cons x tags)
  let ?up = "rtask_upsert e (ids k) \<lparr>nrt_run_id = run, nrt_kind = TagEntity, nrt_target_ref = ''tag:'' @ x\<rparr>"
  obtain m t where up: "?up s = Inr (m, t)" and run: "enrol_tags e ids (k + 1) run tags t = (Inr u, s')"
    using Cons(2) by (auto simp: stmt_def elim!: proc_then_InrE split: sum.splits)
  have t: "tag_enrolled run x t"
    using rtask_upsert_effect(2) [OF up] unfolding tag_enrolled_def rtask_key_def by fastforce
  have grow: "set (gr_rtasks (db_graph t)) \<subseteq> set (gr_rtasks (db_graph s'))" using Cons(1) [OF run] ..
  show ?case
    using Cons(1) [OF run] rtask_upsert_effect(1) [OF up] enrolled_mono(2) [OF grow t] by auto
qed (simp add: proc_return_def)

section \<open>A concrete backlog\<close>

definition rx_range :: reindex_task where
  "rx_range = new_rtask_row sc_env 40 \<lparr>nrt_run_id = 9, nrt_kind = ItemEntity, nrt_target_ref = range_ref 8 8\<rparr>"

definition rx_enrolled :: db where
  "rx_enrolled = rx_started\<lparr>db_graph := (db_graph rx_started)\<lparr>gr_rtasks := [rx_range]\<rparr>\<rparr>"

lemma rx_enrol:
  "rtask_upsert sc_env 40 \<lparr>nrt_run_id = 9, nrt_kind = ItemEntity, nrt_target_ref = range_ref 8 8\<rparr> rx_started =
     Inr (1, rx_enrolled)"
  by (simp add: rtask_upsert_def run_exists_def rx_enrolled_def rx_range_def rx_rows rx_eval)

lemma rx_reach_enrolled: "reachable (sc_w rx_enrolled {102} {})"
proof -
  have "executed (rtask_upsert sc_env 40 \<lparr>nrt_run_id = 9, nrt_kind = ItemEntity, nrt_target_ref = range_ref 8 8\<rparr>) rx_started =
      rx_enrolled"
    by (simp add: executed_def rx_enrol)
  then show ?thesis using rx_reindex [OF rx_reach(2)] reindex_step.enrol by metis
qed

lemma rx_first_page: "embedding_find_missing 7 None backfill_range_width rx_started = [8]"
  "embedding_find_missing 7 (Some 8) backfill_range_width rx_enrolled = []"
  by (simp_all add: embedding_find_missing_def item_unembedded_def embedded_def is_quarantined_def
      backfill_range_width_def rx_enrolled_def rx_rows rx_eval)

lemma rx_backfill: "enrol_backfill sc_env (\<lambda>k. 40 + k) (\<lambda>k. 60 + k) 9 7 rx_started = (Inr (1, 0), rx_enrolled)"
proof -
  have "enrol_items sc_env (\<lambda>k. 40 + k) (0 + 1) 9 7 (0 + length [8 :: uuid]) (Some (last [8 :: uuid])) rx_enrolled = (Inr 1, rx_enrolled)"
    by (subst enrol_items.simps) (simp add: Let_def rx_first_page)
  then have "enrol_items sc_env (\<lambda>k. 40 + k) 0 9 7 0 None rx_started = (Inr 1, rx_enrolled)"
    by (subst enrol_items.simps) (simp add: Let_def rx_first_page rx_enrol)
  moreover have "tags_missing_embeddings 7 rx_enrolled = []"
    by (simp add: tags_missing_embeddings_def rx_enrolled_def rx_eval)
  ultimately show ?thesis
    by (simp add: enrol_backfill_def proc_bind_def proc_then_def proc_read_def proc_return_def clamp_u32_def)
qed

lemma rx_claim:
  "\<exists>s'. rtask_claim 9 False sc_env (\<lambda>_. False) (\<lambda>_. 300) 1 ''w'' rx_enrolled =
     Inr ([rtask_claim_row sc_env 300 ''w'' rx_range], s')"
  by (simp add: rtask_claim_def rtask_claimable_def update_rtasks_def sql_select_ordered_def run_live_def rx_enrolled_def
      rx_range_def new_rtask_row_def sc_env_def rx_rows rx_eval)

section \<open>Properties\<close>

text \<open>C24: In every reachable state a reindex task holds a claim token exactly while it
  is claimed, is dead-lettered exactly when it has failed more often than its
  budget allows, and never fails again after that.\<close>

theorem reindex_tasks_well_formed:
  assumes "reachable w" "t \<in> set (gr_rtasks (db_graph (w_db w)))"
  shows "(rt_claim_token t \<noteq> None \<longleftrightarrow> rt_state t = RTaskClaimed) \<and>
    (rt_state t = RTaskDeadLetter \<longleftrightarrow> rt_max_attempts t < rt_attempt t) \<and> rt_attempt t \<le> rt_max_attempts t + 1"
  using reachable_rtasks_ok [OF assms(1)] assms(2) by (simp add: rtasks_ok_def rtask_ok_def)

theorem reindex_tasks_well_formed_witness: "rt_claim_token rx_range = None \<and> rt_attempt rx_range \<le> 9"
proof -
  have "rx_range \<in> set (gr_rtasks (db_graph (w_db (sc_w rx_enrolled {102} {}))))" by (simp add: rx_enrolled_def)
  from reindex_tasks_well_formed [OF rx_reach_enrolled this] show ?thesis
    by (simp add: rx_range_def new_rtask_row_def)
qed





text \<open>A batch that must be retried goes back to the queue with one more failure
  and without its lease, and becomes available between one and sixty-four
  seconds later, or exactly when the provider asked; with its budget spent it
  is dead-lettered instead.\<close>

theorem retry_goes_back:
  assumes "rtasks_ok s" "t \<in> set (gr_rtasks (db_graph s))" "rt_claim_token t = Some tok"
    "retry_at_for e signal (rt_attempt t) = Some at"
  shows "\<exists>s' t'. settle_task e (rt_id t) (rt_attempt t) tok (Some signal) s = (Inr (), s') \<and>
    t' \<in> set (gr_rtasks (db_graph s')) \<and> rt_id t' = rt_id t \<and> rt_claim_token t' = None \<and>
    rt_attempt t' = rt_attempt t + 1 \<and>
    rt_state t' = (if rt_max_attempts t \<le> rt_attempt t then RTaskDeadLetter else RTaskPending) \<and>
    (rt_attempt t < rt_max_attempts t \<longrightarrow> rt_available_at t' = at) \<and>
    (case rs_retry_after signal of
       None \<Rightarrow> env_utc_now e + seconds 1 \<le> at \<and> at \<le> env_utc_now e + seconds 64
     | Some d \<Rightarrow> at = env_utc_now e + min d time_delta_max)"
proof -
  let ?f = "rtask_fail_row e at (rs_class signal) (rs_message signal)"
  have "holds_rtask (rt_id t) tok t"
    using assms(1-3) by (auto simp: holds_rtask_def rtasks_ok_def rtask_ok_def)
  then have mem: "?f t \<in> set (sql_update (holds_rtask (rt_id t) tok) ?f (gr_rtasks (db_graph s)))"
    using assms(2) by (intro sql_update_memI) auto
  have "(2 :: int) ^ min n reindex_retry_shift_cap \<le> 2 ^ 6" "(1 :: int) \<le> 2 ^ min n reindex_retry_shift_cap" for n
    by (rule power_increasing) (simp_all add: reindex_retry_shift_cap_def)
  then have band: "case rs_retry_after signal of
       None \<Rightarrow> env_utc_now e + seconds 1 \<le> at \<and> at \<le> env_utc_now e + seconds 64
     | Some d \<Rightarrow> at = env_utc_now e + min d time_delta_max"
    using assms(4) by (auto simp: retry_at_for_def retry_at_def seconds_def Let_def split: option.splits if_splits)
  show ?thesis
    using mem band assms(4)
    by (intro exI [of _ "s\<lparr>db_graph := (db_graph s)\<lparr>gr_rtasks :=
          sql_update (holds_rtask (rt_id t) tok) ?f (gr_rtasks (db_graph s))\<rparr>\<rparr>"] exI [of _ "?f t"])
      (simp add: settle_task_def rtask_fail_def update_rtasks_def tx_defs update_graph_def stmt_def proc_then_def
        proc_bind_def proc_return_def rtask_fail_row_def Let_def)
qed

theorem retry_goes_back_witness:
  "\<exists>(s :: db) t'. t' \<in> set (gr_rtasks (db_graph s)) \<and> rt_id t' = 40 \<and> rt_state t' = RTaskPending \<and> rt_attempt t' = 1"
proof -
  let ?t = "rtask_claim_row sc_env 300 ''w'' rx_range" and ?sig = "\<lparr>rs_class = Transient, rs_retry_after = None, rs_message = ''m''\<rparr>"
  let ?s = "rx_enrolled\<lparr>db_graph := (db_graph rx_enrolled)\<lparr>gr_rtasks := [?t]\<rparr>\<rparr>"
  have t: "rtasks_ok ?s" "?t \<in> set (gr_rtasks (db_graph ?s))" "rt_claim_token ?t = Some 300"
    by (simp_all add: rtasks_ok_def rtask_ok_def rtask_claim_row_def rx_range_def new_rtask_row_def)
  have at: "retry_at_for sc_env ?sig (rt_attempt ?t) = Some (retry_at sc_env (rt_attempt ?t))"
    by (simp add: retry_at_for_def)
  have "rt_id ?t = 40" "rt_attempt ?t = 0" "rt_max_attempts ?t = 8"
    by (simp_all add: rtask_claim_row_def rx_range_def new_rtask_row_def)
  then show ?thesis using retry_goes_back [OF t at] by simp blast
qed

text \<open>C26: A provider that asks to be left alone past the last instant the calendar
  represents makes the worker panic instead of postponing the task.\<close>

theorem huge_retry_after_panics:
  assumes "rs_retry_after signal = Some d" "date_time_max - env_utc_now e < d" "0 \<le> env_utc_now e"
  shows "settle_task e i n tok (Some signal) s = (Inl (DbPanic ''DateTime + TimeDelta overflowed''), s)"
proof -
  have "date_time_max < env_utc_now e + min d time_delta_max"
    using assms(2,3) by (simp add: date_time_max_def time_delta_max_def)
  then show ?thesis using assms(1) by (simp add: settle_task_def retry_at_for_def Let_def proc_fail_def)
qed

theorem huge_retry_after_panics_witness:
  "fst (settle_task sc_env 40 0 300 (Some \<lparr>rs_class = RateLimited, rs_retry_after = Some (seconds (10 ^ 15)), rs_message = ''m''\<rparr>) rx_started)
     = Inl (DbPanic ''DateTime + TimeDelta overflowed'')"
  using huge_retry_after_panics [of "\<lparr>rs_class = RateLimited, rs_retry_after = Some (seconds (10 ^ 15)), rs_message = ''m''\<rparr>"
      "seconds (10 ^ 15)" sc_env 40 0 300 rx_started]
  by (simp add: date_time_max_def seconds_def sc_env_def)

end
