(* ===== verification/Scopes.thy ===== *)
theory Scopes
  imports SourceContext "HOL-Library.Sublist"
begin

text \<open>
  Permission scopes (\<open>tribal-domain/src/scope.rs\<close>) and the grants of the
  authorisation server over them (\<open>tribal-auth/src/oauth/scope.rs\<close>). A scope is
  \<open>resource.path:operation\<close>; a granted scope covers every scope of its operation
  at or below its path. The code decides this on the text, byte by byte; the
  reference is the prefix order on dotted paths.
\<close>

section \<open>Text operations\<close>

definition split_once :: "char \<Rightarrow> string \<Rightarrow> (string \<times> string) option" where
  "split_once c x = (if c \<in> set x then Some (takeWhile (\<lambda>d. d \<noteq> c) x, tl (dropWhile (\<lambda>d. d \<noteq> c) x)) else None)"

definition starts_with :: "string \<Rightarrow> string \<Rightarrow> bool" where
  "starts_with p x \<longleftrightarrow> take (length p) x = p"

definition ends_with :: "string \<Rightarrow> string \<Rightarrow> bool" where
  "ends_with p x \<longleftrightarrow> starts_with (rev p) (rev x)"

definition byte_at :: "nat \<Rightarrow> string \<Rightarrow> char option" where
  "byte_at n x = (if n < length x then Some (x ! n) else None)"

fun contains :: "string \<Rightarrow> string \<Rightarrow> bool" where
  "contains p [] \<longleftrightarrow> p = []"
| "contains p (c # cs) \<longleftrightarrow> starts_with p (c # cs) \<or> contains p cs"

definition is_ascii_lowercase :: "char \<Rightarrow> bool" where
  "is_ascii_lowercase c \<longleftrightarrow> 97 \<le> (of_char c :: nat) \<and> (of_char c :: nat) \<le> 122"

definition is_ascii_whitespace :: "char \<Rightarrow> bool" where
  "is_ascii_whitespace c \<longleftrightarrow> (of_char c :: nat) \<in> {9, 10, 12, 13, 32}"

fun ascii_words :: "string \<Rightarrow> string \<Rightarrow> string list" where
  "ascii_words cur [] = (if cur = [] then [] else [cur])"
| "ascii_words cur (c # cs) =
     (if is_ascii_whitespace c then (if cur = [] then [] else [cur]) @ ascii_words [] cs
      else ascii_words (cur @ [c]) cs)"

definition split_ascii_whitespace :: "string \<Rightarrow> string list" where
  "split_ascii_whitespace x = ascii_words [] x"

lemma split_once_parts: "split_once c x = Some (a, b) \<longleftrightarrow> x = a @ c # b \<and> c \<notin> set a"
proof
  assume s: "split_once c x = Some (a, b)"
  then have c: "c \<in> set x" and a: "a = takeWhile (\<lambda>d. d \<noteq> c) x" and b: "b = tl (dropWhile (\<lambda>d. d \<noteq> c) x)"
    by (auto simp: split_once_def split: if_splits)
  have "dropWhile (\<lambda>d. d \<noteq> c) x \<noteq> []" using c by (simp add: dropWhile_eq_Nil_conv)
  then have "dropWhile (\<lambda>d. d \<noteq> c) x = c # b" using hd_dropWhile [of "\<lambda>d. d \<noteq> c" x] b by (metis list.collapse)
  then have "x = a @ c # b" using a by (metis takeWhile_dropWhile_id)
  moreover have "c \<notin> set a" using a by (auto dest: set_takeWhileD)
  ultimately show "x = a @ c # b \<and> c \<notin> set a" ..
next
  assume x: "x = a @ c # b \<and> c \<notin> set a"
  then have "takeWhile (\<lambda>d. d \<noteq> c) x = a" "dropWhile (\<lambda>d. d \<noteq> c) x = c # b"
    by (induction a arbitrary: x) auto
  then show "split_once c x = Some (a, b)" using x by (simp add: split_once_def)
qed

lemma starts_with_append: "starts_with p x \<longleftrightarrow> (\<exists>y. x = p @ y)"
  unfolding starts_with_def by (metis append_eq_conv_conj append_take_drop_id)

section \<open>Scopes\<close>

type_synonym scope = string

definition scope_root :: string where
  "scope_root = ''tribal''"

definition full_access_read :: scope where
  "full_access_read = ''tribal:read''"

definition full_access_write :: scope where
  "full_access_write = ''tribal:write''"

definition embedding_execute :: scope where
  "embedding_execute = ''tribal.embedding:execute''"

definition is_valid_scope :: "string \<Rightarrow> bool" where
  "is_valid_scope raw =
     (case split_once CHR '':'' raw of
        None \<Rightarrow> False
      | Some (resource, operation) \<Rightarrow>
          CHR '':'' \<notin> set operation \<and> operation \<in> {''read'', ''write'', ''execute''} \<and> resource \<noteq> '''' \<and>
          (resource = scope_root \<or>
             starts_with scope_root resource \<and> byte_at (length scope_root) resource = Some CHR ''.'') \<and>
          list_all (\<lambda>c. is_ascii_lowercase c \<or> c = CHR ''.'') resource \<and>
          \<not> starts_with ''.'' resource \<and> \<not> ends_with ''.'' resource \<and> \<not> contains ''..'' resource)"

definition scope_parse :: "string \<Rightarrow> scope option" where
  "scope_parse raw = (if is_valid_scope raw then Some raw else None)"

text \<open>The code's \<open>expect\<close>s on the colon cannot fire on a parsed scope
  (\<open>valid_scope_split\<close>).\<close>

definition scope_satisfies :: "scope \<Rightarrow> scope \<Rightarrow> bool" where
  "scope_satisfies granted required =
     (case (split_once CHR '':'' granted, split_once CHR '':'' required) of
        (Some (granted_resource, granted_op), Some (required_resource, required_op)) \<Rightarrow>
          granted_op = required_op \<and>
          (required_resource = granted_resource \<or>
             starts_with granted_resource required_resource \<and>
             byte_at (length granted_resource) required_resource = Some CHR ''.'')
      | _ \<Rightarrow> False)"

definition is_authorised :: "scope list \<Rightarrow> scope \<Rightarrow> bool" where
  "is_authorised granted required = list_ex (\<lambda>g. scope_satisfies g required) granted"

definition full_access_scopes :: "scope list" where
  "full_access_scopes = [full_access_read, full_access_write]"

definition stdio_principal_scopes :: "scope list" where
  "stdio_principal_scopes = full_access_scopes @ [embedding_execute]"

definition mintable_execute_scopes :: "scope list" where
  "mintable_execute_scopes = [embedding_execute]"

definition is_mintable_scope :: "scope \<Rightarrow> bool" where
  "is_mintable_scope s = (if ends_with '':execute'' s then s \<in> set mintable_execute_scopes else True)"

section \<open>The reference: paths\<close>

fun segments :: "string \<Rightarrow> string list" where
  "segments [] = [[]]"
| "segments (c # cs) =
     (if c = CHR ''.'' then [] # segments cs
      else case segments cs of [] \<Rightarrow> [[c]] | x # xs \<Rightarrow> (c # x) # xs)"

fun dotted :: "string list \<Rightarrow> string" where
  "dotted [] = []"
| "dotted [x] = x"
| "dotted (x # y # xs) = x @ CHR ''.'' # dotted (y # xs)"

definition scope_path :: "scope \<Rightarrow> string list" where
  "scope_path s = segments (takeWhile (\<lambda>c. c \<noteq> CHR '':'') s)"

definition scope_op :: "scope \<Rightarrow> string" where
  "scope_op s = tl (dropWhile (\<lambda>c. c \<noteq> CHR '':'') s)"

lemma segments_not_Nil [simp]: "segments x \<noteq> []"
  by (induction x) (auto split: list.splits)

lemma segments_dot: "segments (a @ CHR ''.'' # b) = segments a @ segments b"
proof (induction a)
  case (Cons c a)
  then show ?case by (cases "segments a") auto
qed simp

lemma dotted_segments [simp]: "dotted (segments x) = x"
proof (induction x)
  case (Cons c cs)
  then show ?case
    by (cases "segments cs" rule: dotted.cases) auto
qed simp

lemma dotted_append: "xs \<noteq> [] \<Longrightarrow> ys \<noteq> [] \<Longrightarrow> dotted (xs @ ys) = dotted xs @ CHR ''.'' # dotted ys"
proof (induction xs rule: dotted.induct)
  case (2 x)
  then show ?case by (cases ys) auto
qed auto

lemma path_prefix_text:
  "(\<exists>ys. segments r = segments g @ ys) \<longleftrightarrow>
     r = g \<or> starts_with g r \<and> byte_at (length g) r = Some CHR ''.''"
proof
  assume "\<exists>ys. segments r = segments g @ ys"
  then obtain ys where ys: "segments r = segments g @ ys" by blast
  show "r = g \<or> starts_with g r \<and> byte_at (length g) r = Some CHR ''.''"
  proof (cases "ys = []")
    case True
    then show ?thesis using ys dotted_segments [of r] by simp
  next
    case False
    then have "r = g @ CHR ''.'' # dotted ys"
      using ys dotted_append [OF segments_not_Nil] dotted_segments [of r] by simp
    then show ?thesis by (auto simp: starts_with_append byte_at_def nth_append)
  qed
next
  assume "r = g \<or> starts_with g r \<and> byte_at (length g) r = Some CHR ''.''"
  then show "\<exists>ys. segments r = segments g @ ys"
  proof
    assume "starts_with g r \<and> byte_at (length g) r = Some CHR ''.''"
    then obtain y where r: "r = g @ y" "y \<noteq> []" "hd y = CHR ''.''"
      by (auto simp: starts_with_append byte_at_def nth_append hd_conv_nth split: if_splits)
    then have "r = g @ CHR ''.'' # tl y" by (cases y) auto
    then show ?thesis by (simp add: segments_dot)
  qed auto
qed

lemma valid_scope_split:
  assumes "is_valid_scope s"
  shows "split_once CHR '':'' s = Some (dotted (scope_path s), scope_op s)"
  using assms by (auto simp: is_valid_scope_def split_once_def scope_path_def scope_op_def split: if_splits)

text \<open>C35: A granted scope satisfies a required one exactly when they name the same
  operation and the granted path is a prefix, segment by segment, of the
  required path: deciding it on the text of the two scopes is the same as
  deciding it on their paths.\<close>

theorem satisfies_is_path_prefix:
  assumes "is_valid_scope g" "is_valid_scope r"
  shows "scope_satisfies g r \<longleftrightarrow> scope_op g = scope_op r \<and> prefix (scope_path g) (scope_path r)"
proof -
  have "prefix (scope_path g) (scope_path r) \<longleftrightarrow> (\<exists>ys. segments (dotted (scope_path r)) = segments (dotted (scope_path g)) @ ys)"
    by (simp add: prefix_def scope_path_def)
  then show ?thesis
    unfolding path_prefix_text by (simp add: scope_satisfies_def valid_scope_split [OF assms(1)] valid_scope_split [OF assms(2)])
qed

theorem satisfies_is_path_prefix_witness:
  "scope_satisfies ''tribal:read'' ''tribal.jobs:read'' \<and> \<not> scope_satisfies ''tribal.job:read'' ''tribal.jobs:read''"
proof -
  have v: "is_valid_scope ''tribal:read''" "is_valid_scope ''tribal.jobs:read''" "is_valid_scope ''tribal.job:read''"
    by code_simp+
  show ?thesis
    unfolding satisfies_is_path_prefix [OF v(1,2)] satisfies_is_path_prefix [OF v(3,2)]
    by (simp add: scope_op_def scope_path_def)
qed

lemma satisfies_refl: "is_valid_scope s \<Longrightarrow> scope_satisfies s s"
  by (simp add: scope_satisfies_def valid_scope_split)

lemma satisfies_trans:
  "scope_satisfies a b \<Longrightarrow> scope_satisfies b c \<Longrightarrow> scope_satisfies a c"
  unfolding scope_satisfies_def
  by (auto simp: path_prefix_text [symmetric] split: option.splits)

section \<open>Grants\<close>

definition scopes_catalogue :: "string list" where
  "scopes_catalogue = [''tribal:read'', ''tribal:write'', ''tribal.knowledge:read'',
     ''tribal.knowledge:write'', ''tribal.jobs:read'', ''tribal.jobs:write'']"

definition default_grant_scope :: string where
  "default_grant_scope = ''tribal:read''"

definition present_scope :: "string option \<Rightarrow> string option" where
  "present_scope raw = (case raw of None \<Rightarrow> None | Some x \<Rightarrow> if trim x = [] then None else Some (trim x))"

definition effective_scope :: "string option \<Rightarrow> string option \<Rightarrow> string" where
  "effective_scope requested registered =
     (case present_scope requested of
        Some x \<Rightarrow> x
      | None \<Rightarrow> (case present_scope registered of Some x \<Rightarrow> x | None \<Rightarrow> default_grant_scope))"

definition grant_or_default :: "string option \<Rightarrow> string" where
  "grant_or_default stored = (case present_scope stored of Some x \<Rightarrow> x | None \<Rightarrow> default_grant_scope)"

text \<open>The error is the first token that is no scope.\<close>

definition parse_scope_list :: "string \<Rightarrow> string + scope list" where
  "parse_scope_list raw =
     (let ts = split_ascii_whitespace raw in
      case find (\<lambda>t. scope_parse t = None) ts of Some t \<Rightarrow> Inl t | None \<Rightarrow> Inr ts)"

definition first_uncatalogued_scope :: "string \<Rightarrow> string option" where
  "first_uncatalogued_scope raw = find (\<lambda>t. t \<notin> set scopes_catalogue) (split_ascii_whitespace raw)"

definition scope_exceeding_registration :: "string \<Rightarrow> string \<Rightarrow> string option" where
  "scope_exceeding_registration requested registered =
     (let granted = filter is_valid_scope (split_ascii_whitespace registered) in
      find (\<lambda>t. case scope_parse t of Some s \<Rightarrow> \<not> is_authorised granted s | None \<Rightarrow> True)
        (split_ascii_whitespace requested))"

lemma catalogue_valid: "t \<in> set scopes_catalogue \<Longrightarrow> is_valid_scope t \<and> \<not> ends_with '':execute'' t"
proof -
  have "list_all (\<lambda>t. is_valid_scope t \<and> \<not> ends_with '':execute'' t) scopes_catalogue" by code_simp
  then show "t \<in> set scopes_catalogue \<Longrightarrow> is_valid_scope t \<and> \<not> ends_with '':execute'' t"
    by (simp add: list_all_iff)
qed

lemma ascii_words_white: "is_ascii_whitespace w \<Longrightarrow> ascii_words cur (x @ [w]) = ascii_words cur x"
  by (induction cur x rule: ascii_words.induct) auto

lemma set_ascii_words: "\<Union> (set ` set (ascii_words cur x)) = set cur \<union> {c \<in> set x. \<not> is_ascii_whitespace c}"
  by (induction cur x rule: ascii_words.induct) auto

lemma words_lstrip: "split_ascii_whitespace (dropWhile is_ascii_whitespace x) = split_ascii_whitespace x"
  by (induction x) (auto simp: split_ascii_whitespace_def)

lemma words_rstrip: "split_ascii_whitespace (rev (dropWhile is_ascii_whitespace (rev x))) = split_ascii_whitespace x"
proof (induction x rule: rev_induct)
  case (snoc w x)
  then show ?case by (auto simp: split_ascii_whitespace_def ascii_words_white)
qed simp

text \<open>Trimming removes white characters that do not separate words; there are none
  in a list of catalogued scopes.\<close>

lemma words_trim:
  assumes "\<forall>t \<in> set (split_ascii_whitespace x). \<forall>c \<in> set t. \<not> is_whitespace c"
  shows "split_ascii_whitespace (trim x) = split_ascii_whitespace x"
proof -
  have "\<not> is_whitespace c" if "c \<in> set x" "\<not> is_ascii_whitespace c" for c
    using assms that set_ascii_words [of "[]" x] unfolding split_ascii_whitespace_def by auto
  moreover have "is_ascii_whitespace c \<Longrightarrow> is_whitespace c" for c
    by (auto simp: is_ascii_whitespace_def is_whitespace_def Let_def)
  ultimately have white: "is_whitespace c \<longleftrightarrow> is_ascii_whitespace c" if "c \<in> set x" for c using that by blast
  then have y: "dropWhile is_whitespace x = dropWhile is_ascii_whitespace x" (is "_ = ?y")
    by (intro dropWhile_cong) auto
  have "dropWhile is_whitespace (rev ?y) = dropWhile is_ascii_whitespace (rev ?y)"
    using white by (intro dropWhile_cong) (auto dest: set_dropWhileD)
  then show ?thesis by (simp add: trim_def y words_rstrip words_lstrip)
qed

lemma catalogued_words_trim:
  assumes "first_uncatalogued_scope x = None"
  shows "split_ascii_whitespace (trim x) = split_ascii_whitespace x"
proof (rule words_trim)
  have "list_all (list_all (\<lambda>c. \<not> is_whitespace c)) scopes_catalogue" by code_simp
  then show "\<forall>t \<in> set (split_ascii_whitespace x). \<forall>c \<in> set t. \<not> is_whitespace c"
    using assms by (auto simp: first_uncatalogued_scope_def find_None_iff list_all_iff)
qed

text \<open>What a grant may hold: catalogued scopes, within the registered ones.\<close>

definition within_registration :: "string option \<Rightarrow> scope \<Rightarrow> bool" where
  "within_registration registered t \<longleftrightarrow>
     (case registered of None \<Rightarrow> True | Some r \<Rightarrow> is_authorised (split_ascii_whitespace r) t)"

definition bounded_grant :: "string option \<Rightarrow> string \<Rightarrow> bool" where
  "bounded_grant registered granted \<longleftrightarrow>
     (\<forall>t \<in> set (split_ascii_whitespace granted). t \<in> set scopes_catalogue \<and> within_registration registered t)"

definition registered_ok :: "string option \<Rightarrow> bool" where
  "registered_ok registered \<longleftrightarrow>
     (case registered of None \<Rightarrow> True | Some r \<Rightarrow> trim r \<noteq> [] \<and> first_uncatalogued_scope r = None)"

lemma registered_present: "registered_ok (Some r) \<Longrightarrow> present_scope (Some r) = Some (trim r)"
  by (simp add: registered_ok_def present_scope_def)

lemma exceeding_None:
  assumes "scope_exceeding_registration q r = None" "t \<in> set (split_ascii_whitespace q)"
  shows "is_authorised (split_ascii_whitespace r) t"
  using assms
  by (auto simp: scope_exceeding_registration_def find_None_iff Let_def is_authorised_def list_ex_iff scope_parse_def
      split: if_splits)

lemma bounded_within:
  assumes "first_uncatalogued_scope x = None" "\<And>t. t \<in> set (split_ascii_whitespace x) \<Longrightarrow> within_registration registered t"
  shows "bounded_grant registered (trim x)"
  using assms catalogued_words_trim [OF assms(1)]
  by (auto simp: bounded_grant_def first_uncatalogued_scope_def find_None_iff)

lemma effective_bounded:
  assumes "registered_ok registered" "\<And>q. requested = Some q \<Longrightarrow> first_uncatalogued_scope q = None"
    "\<And>q r. requested = Some q \<Longrightarrow> registered = Some r \<Longrightarrow> scope_exceeding_registration q r = None"
  shows "bounded_grant registered (effective_scope requested registered)"
proof (cases "present_scope requested")
  case (Some x)
  then obtain q where q: "requested = Some q" "x = trim q" by (auto simp: present_scope_def split: option.splits if_splits)
  have "within_registration registered t" if "t \<in> set (split_ascii_whitespace q)" for t
    using exceeding_None assms(3) [OF q(1)] that by (auto simp: within_registration_def split: option.split)
  then show ?thesis using bounded_within assms(2) [OF q(1)] Some q(2) by (simp add: effective_scope_def)
next
  case None
  show ?thesis
  proof (cases registered)
    case (Some r)
    have r: "first_uncatalogued_scope r = None" using assms(1) Some by (simp add: registered_ok_def)
    have "within_registration registered t" if "t \<in> set (split_ascii_whitespace r)" for t
      using that r catalogue_valid satisfies_refl unfolding Some
      by (fastforce simp: within_registration_def is_authorised_def list_ex_iff first_uncatalogued_scope_def find_None_iff)
    then show ?thesis
      using bounded_within [OF r] None Some registered_present assms(1) by (simp add: effective_scope_def)
  next
    case none: None
    have "split_ascii_whitespace default_grant_scope = [default_grant_scope]" "default_grant_scope \<in> set scopes_catalogue"
      by code_simp+
    then show ?thesis
      using None none by (simp add: effective_scope_def present_scope_def bounded_grant_def within_registration_def)
  qed
qed

text \<open>A bounded grant is minted as it stands.\<close>

lemma bounded_parses:
  assumes "bounded_grant registered g"
  shows "parse_scope_list g = Inr (split_ascii_whitespace g)"
proof -
  have "find (\<lambda>t. scope_parse t = None) (split_ascii_whitespace g) = None"
    using assms catalogue_valid by (auto simp: find_None_iff bounded_grant_def scope_parse_def)
  then show ?thesis by (simp add: parse_scope_list_def)
qed

end
