(* ===== verification/AuthStore.thy ===== *)
theory AuthStore
  imports Scopes Database
begin

text \<open>
  The tables of authentication and their statements
  (\<open>tribal-db/src/repositories/{principal, oauth_client, oauth_authorization_code,
  auth_token}.rs\<close>): principals, registered clients, authorisation codes and access
  tokens. Raw codes, secrets and tokens are never stored, only their digests.
\<close>

section \<open>Rows\<close>

record platform_binding =
  pb_account_reference :: string
  pb_platform_user_id :: string

record principal =
  pr_id :: uuid
  pr_key :: string
  pr_display_name :: "string option"
  pr_binding :: "platform_binding option"
  pr_created_at :: instant

definition local_principal_key :: string where
  "local_principal_key = ''principal:local''"

datatype auth_method = AuthNone | ClientSecretBasic | ClientSecretPost

fun auth_method_as_str :: "auth_method \<Rightarrow> string" where
  "auth_method_as_str AuthNone = ''none''"
| "auth_method_as_str ClientSecretBasic = ''client_secret_basic''"
| "auth_method_as_str ClientSecretPost = ''client_secret_post''"

definition auth_method_parse :: "string \<Rightarrow> auth_method option" where
  "auth_method_parse raw =
     (if raw = ''none'' then Some AuthNone
      else if raw = ''client_secret_basic'' then Some ClientSecretBasic
      else if raw = ''client_secret_post'' then Some ClientSecretPost else None)"

fun requires_secret :: "auth_method \<Rightarrow> bool" where
  "requires_secret AuthNone = False"
| "requires_secret ClientSecretBasic = True"
| "requires_secret ClientSecretPost = True"

datatype application_type = Web | Native

fun application_type_as_str :: "application_type \<Rightarrow> string" where
  "application_type_as_str Web = ''web''"
| "application_type_as_str Native = ''native''"

definition application_type_parse :: "string \<Rightarrow> application_type option" where
  "application_type_parse raw =
     (if raw = ''web'' then Some Web else if raw = ''native'' then Some Native else None)"

record oauth_client =
  oc_client_id :: string
  oc_secret_hash :: "string option"
  oc_client_name :: "string option"
  oc_redirect_uris :: "string list"
  oc_grant_types :: "string list"
  oc_response_types :: "string list"
  oc_auth_method :: auth_method
  oc_scope :: "string option"
  oc_application_type :: "application_type option"
  oc_created_at :: instant
  oc_secret_expires_at :: "instant option"

record auth_code =
  ac_code_hash :: string
  ac_client_id :: string
  ac_redirect_uri :: string
  ac_code_challenge :: string
  ac_scope :: "string option"
  ac_resource :: "string option"
  ac_principal_id :: uuid
  ac_issued_at :: instant
  ac_expires_at :: instant
  ac_consumed_at :: "instant option"

record auth_token =
  at_id :: uuid
  at_token_hash :: string
  at_principal_id :: uuid
  at_scopes :: "scope list"
  at_audience :: string
  at_expires_at :: instant
  at_created_at :: instant
  at_revoked_at :: "instant option"

record auth_db =
  ad_principals :: "principal list"
  ad_clients :: "oauth_client list"
  ad_codes :: "auth_code list"
  ad_tokens :: "auth_token list"

type_synonym 'a auth_tx = "(auth_db, db_error, 'a) tx"

definition auth_empty :: auth_db where
  "auth_empty = \<lparr>ad_principals = [], ad_clients = [], ad_codes = [], ad_tokens = []\<rparr>"

definition is_hash_text :: "string \<Rightarrow> bool" where
  "is_hash_text h \<longleftrightarrow> length h = 64 \<and> list_all (\<lambda>c. c \<in> set ''0123456789abcdef'') h"

definition principal_exists :: "uuid \<Rightarrow> auth_db \<Rightarrow> bool" where
  "principal_exists i s = sql_exists (\<lambda>p. pr_id p = i) (ad_principals s)"

section \<open>Principals\<close>

definition principal_conflict :: "string \<Rightarrow> platform_binding option \<Rightarrow> auth_db \<Rightarrow> bool" where
  "principal_conflict key binding s = sql_exists (\<lambda>p. pr_key p = key \<or> (binding \<noteq> None \<and> pr_binding p = binding)) (ad_principals s)"

definition new_principal_row :: "env \<Rightarrow> uuid \<Rightarrow> string \<Rightarrow> string option \<Rightarrow> platform_binding option \<Rightarrow> principal" where
  "new_principal_row e i key name binding = \<lparr>pr_id = i, pr_key = key, pr_display_name = name,
     pr_binding = binding, pr_created_at = env_now e\<rparr>"

definition append_principal :: "principal \<Rightarrow> unit auth_tx" where
  "append_principal p s = Inr ((), s\<lparr>ad_principals := ad_principals s @ [p]\<rparr>)"

text \<open>A platform-bound principal stores no name (a check of the table).\<close>

definition principal_insert :: "env \<Rightarrow> uuid \<Rightarrow> string \<Rightarrow> string option \<Rightarrow> platform_binding option \<Rightarrow> principal auth_tx" where
  "principal_insert e i key name binding s =
     tx_then (insert_guard (binding = None \<or> name = None) ''inserting principal''
       [(principal_exists i s, ''principals'', ''principals_pkey''),
        (sql_exists (\<lambda>p. pr_key p = key) (ad_principals s), ''principals'', ''principals_principal_key_key''),
        (binding \<noteq> None \<and> sql_exists (\<lambda>p. pr_binding p = binding) (ad_principals s),
           ''principals'', ''principals_platform_binding_unique'')])
    (tx_then (append_principal (new_principal_row e i key name binding))
    (tx_return (new_principal_row e i key name binding))) s"

definition principal_find_by_key :: "string \<Rightarrow> auth_db \<Rightarrow> principal option" where
  "principal_find_by_key key s = find (\<lambda>p. pr_key p = key) (ad_principals s)"

definition principal_find_by_id :: "uuid \<Rightarrow> principal auth_tx" where
  "principal_find_by_id i s =
     (case find (\<lambda>p. pr_id p = i) (ad_principals s) of
        None \<Rightarrow> Inl (DbNotFound ''principal'' i)
      | Some p \<Rightarrow> Inr (p, s))"

definition principal_find_by_ids :: "uuid list \<Rightarrow> auth_db \<Rightarrow> principal list" where
  "principal_find_by_ids ids s = filter (\<lambda>p. pr_id p \<in> set ids) (ad_principals s)"

datatype ensure_principal = PrincipalInserted principal | PrincipalExisting principal

text \<open>\<open>ON CONFLICT DO NOTHING\<close>: a local principal conflicts on its key alone, so the
  read that follows finds it.\<close>

definition principal_ensure_local :: "env \<Rightarrow> uuid \<Rightarrow> string \<Rightarrow> ensure_principal auth_tx" where
  "principal_ensure_local e i key s =
     (if principal_conflict key None s then
        (case principal_find_by_key key s of
           Some p \<Rightarrow> Inr (PrincipalExisting p, s)
         | None \<Rightarrow> Inl (DbNotFound ''principal'' 0))
      else tx_then (append_principal (new_principal_row e i key None None))
        (tx_return (PrincipalInserted (new_principal_row e i key None None))) s)"

definition platform_principal_key :: "platform_binding \<Rightarrow> string" where
  "platform_principal_key b = ''platform:'' @ show_nat (length (pb_account_reference b)) @ '':'' @
     pb_account_reference b @ ''/'' @ pb_platform_user_id b"

definition principal_find_or_create_bound :: "env \<Rightarrow> uuid \<Rightarrow> platform_binding \<Rightarrow> principal auth_tx" where
  "principal_find_or_create_bound e i b s =
     (if principal_conflict (platform_principal_key b) (Some b) s then
        (case find (\<lambda>p. pr_binding p = Some b) (ad_principals s) of
           Some p \<Rightarrow> Inr (p, s)
         | None \<Rightarrow> Inl (DbQueryFailed ''reading platform-bound principal''))
      else tx_then (append_principal (new_principal_row e i (platform_principal_key b) None (Some b)))
        (tx_return (new_principal_row e i (platform_principal_key b) None (Some b))) s)"

section \<open>Clients\<close>

record new_client =
  nc_client_id :: string
  nc_secret_hash :: "string option"
  nc_client_name :: "string option"
  nc_redirect_uris :: "string list"
  nc_grant_types :: "string list"
  nc_response_types :: "string list"
  nc_auth_method :: auth_method
  nc_scope :: "string option"
  nc_application_type :: "application_type option"
  nc_secret_expires_at :: "instant option"

definition new_client_row :: "env \<Rightarrow> new_client \<Rightarrow> oauth_client" where
  "new_client_row e n = \<lparr>oc_client_id = nc_client_id n, oc_secret_hash = nc_secret_hash n,
     oc_client_name = nc_client_name n, oc_redirect_uris = nc_redirect_uris n,
     oc_grant_types = nc_grant_types n, oc_response_types = nc_response_types n,
     oc_auth_method = nc_auth_method n, oc_scope = nc_scope n,
     oc_application_type = nc_application_type n, oc_created_at = env_now e,
     oc_secret_expires_at = nc_secret_expires_at n\<rparr>"

definition client_insert :: "env \<Rightarrow> new_client \<Rightarrow> oauth_client auth_tx" where
  "client_insert e n s =
     tx_then (insert_guard (case nc_secret_hash n of None \<Rightarrow> True | Some h \<Rightarrow> is_hash_text h) ''inserting oauth client''
       [(sql_exists (\<lambda>c. oc_client_id c = nc_client_id n) (ad_clients s), ''oauth_clients'', ''oauth_clients_pkey'')])
     (\<lambda>t. Inr (new_client_row e n, t\<lparr>ad_clients := ad_clients t @ [new_client_row e n]\<rparr>)) s"

definition client_find_by_id :: "string \<Rightarrow> auth_db \<Rightarrow> oauth_client option" where
  "client_find_by_id i s = find (\<lambda>c. oc_client_id c = i) (ad_clients s)"

section \<open>Authorisation codes\<close>

record new_code =
  na_code_hash :: string
  na_client_id :: string
  na_redirect_uri :: string
  na_code_challenge :: string
  na_scope :: "string option"
  na_resource :: "string option"
  na_principal_id :: uuid
  na_expires_at :: instant

definition new_code_row :: "env \<Rightarrow> new_code \<Rightarrow> auth_code" where
  "new_code_row e n = \<lparr>ac_code_hash = na_code_hash n, ac_client_id = na_client_id n,
     ac_redirect_uri = na_redirect_uri n, ac_code_challenge = na_code_challenge n,
     ac_scope = na_scope n, ac_resource = na_resource n, ac_principal_id = na_principal_id n,
     ac_issued_at = env_now e, ac_expires_at = na_expires_at n, ac_consumed_at = None\<rparr>"

definition code_insert :: "env \<Rightarrow> new_code \<Rightarrow> auth_code auth_tx" where
  "code_insert e n s =
     tx_then (insert_guard (is_hash_text (na_code_hash n) \<and> principal_exists (na_principal_id n) s)
         ''inserting oauth authorization code''
       [(sql_exists (\<lambda>c. ac_code_hash c = na_code_hash n) (ad_codes s),
           ''oauth_authorization_codes'', ''oauth_authorization_codes_pkey'')])
     (\<lambda>t. Inr (new_code_row e n, t\<lparr>ad_codes := ad_codes t @ [new_code_row e n]\<rparr>)) s"

definition consumable :: "string \<Rightarrow> instant \<Rightarrow> auth_code \<Rightarrow> bool" where
  "consumable h now c \<longleftrightarrow> ac_code_hash c = h \<and> ac_consumed_at c = None \<and> now < ac_expires_at c"

definition code_consume :: "string \<Rightarrow> instant \<Rightarrow> auth_code option auth_tx" where
  "code_consume h now s =
     (let f = (\<lambda>c. c\<lparr>ac_consumed_at := Some now\<rparr>) in
      Inr (map_option f (find (consumable h now) (ad_codes s)),
        s\<lparr>ad_codes := sql_update (consumable h now) f (ad_codes s)\<rparr>))"

section \<open>Access tokens\<close>

record new_token =
  nt_token_hash :: string
  nt_token_principal :: uuid
  nt_scopes :: "scope list"
  nt_audience :: string
  nt_expires_at :: instant

definition new_token_row :: "env \<Rightarrow> uuid \<Rightarrow> new_token \<Rightarrow> auth_token" where
  "new_token_row e i n = \<lparr>at_id = i, at_token_hash = nt_token_hash n, at_principal_id = nt_token_principal n,
     at_scopes = nt_scopes n, at_audience = nt_audience n, at_expires_at = nt_expires_at n,
     at_created_at = env_now e, at_revoked_at = None\<rparr>"

definition token_insert :: "env \<Rightarrow> uuid \<Rightarrow> new_token \<Rightarrow> auth_token auth_tx" where
  "token_insert e i n s =
     tx_then (insert_guard (is_hash_text (nt_token_hash n) \<and> principal_exists (nt_token_principal n) s)
         ''inserting auth token''
       [(sql_exists (\<lambda>t. at_id t = i) (ad_tokens s), ''auth_tokens'', ''auth_tokens_pkey''),
        (sql_exists (\<lambda>t. at_token_hash t = nt_token_hash n) (ad_tokens s),
           ''auth_tokens'', ''auth_tokens_token_hash_key'')])
     (\<lambda>t. Inr (new_token_row e i n, t\<lparr>ad_tokens := ad_tokens t @ [new_token_row e i n]\<rparr>)) s"

definition token_find_by_hash :: "string \<Rightarrow> auth_db \<Rightarrow> auth_token option" where
  "token_find_by_hash h s = find (\<lambda>t. at_token_hash t = h) (ad_tokens s)"

definition token_find_by_id :: "uuid \<Rightarrow> auth_db \<Rightarrow> auth_token option" where
  "token_find_by_id i s = find (\<lambda>t. at_id t = i) (ad_tokens s)"

definition token_find_by_principal :: "uuid \<Rightarrow> auth_db \<Rightarrow> auth_token list" where
  "token_find_by_principal p s =
     sort_key (\<lambda>t. (- at_created_at t, int (at_id t))) (filter (\<lambda>t. at_principal_id t = p) (ad_tokens s))"

definition token_find_all :: "auth_db \<Rightarrow> auth_token list" where
  "token_find_all s = sort_key (\<lambda>t. (- at_created_at t, int (at_id t))) (ad_tokens s)"

definition revocable :: "uuid \<Rightarrow> auth_token \<Rightarrow> bool" where
  "revocable i t \<longleftrightarrow> at_id t = i \<and> at_revoked_at t = None"

definition token_revoke :: "uuid \<Rightarrow> instant \<Rightarrow> (auth_token \<times> bool) auth_tx" where
  "token_revoke i now s =
     (let s' = s\<lparr>ad_tokens := sql_update (revocable i) (\<lambda>t. t\<lparr>at_revoked_at := Some now\<rparr>) (ad_tokens s)\<rparr> in
      case token_find_by_id i s' of
        None \<Rightarrow> Inl (DbNotFound ''auth_token'' i)
      | Some t \<Rightarrow> Inr ((t, 0 < sql_count (revocable i) (ad_tokens s)), s'))"

definition token_revoke_all :: "uuid option \<Rightarrow> instant \<Rightarrow> nat auth_tx" where
  "token_revoke_all owner now s =
     (let hit = (\<lambda>t. at_revoked_at t = None \<and> now \<le> at_expires_at t \<and>
         (case owner of None \<Rightarrow> True | Some p \<Rightarrow> at_principal_id t = p)) in
      Inr (sql_count hit (ad_tokens s),
        s\<lparr>ad_tokens := sql_update hit (\<lambda>t. t\<lparr>at_revoked_at := Some now\<rparr>) (ad_tokens s)\<rparr>))"

section \<open>The token inventory\<close>

text \<open>Pages descend by creation and identifier, below a high water captured once.\<close>

definition token_key :: "auth_token \<Rightarrow> instant \<times> uuid" where
  "token_key t = (at_created_at t, at_id t)"

definition tokens_newest_first :: "auth_token list \<Rightarrow> auth_token list" where
  "tokens_newest_first ts = rev (sort_key token_key ts)"

definition page_high_water :: "auth_db \<Rightarrow> (instant \<times> uuid) option" where
  "page_high_water s = (case tokens_newest_first (ad_tokens s) of [] \<Rightarrow> None | t # _ \<Rightarrow> Some (token_key t))"

definition inventory_row :: "auth_db \<Rightarrow> auth_token \<Rightarrow> (auth_token \<times> string) option" where
  "inventory_row s t = map_option (\<lambda>p. (t, pr_key p)) (find (\<lambda>p. pr_id p = at_principal_id t) (ad_principals s))"

definition token_list_page :: "instant \<times> uuid \<Rightarrow> (instant \<times> uuid) option \<Rightarrow> nat \<Rightarrow> auth_db
    \<Rightarrow> (auth_token \<times> string) list" where
  "token_list_page high after limit s =
     take limit (List.map_filter (inventory_row s) (tokens_newest_first
       (filter (\<lambda>t. token_key t \<le> high \<and> (case after of None \<Rightarrow> True | Some a \<Rightarrow> token_key t < a)) (ad_tokens s))))"

end
