(* ===== verification/Bearer.thy ===== *)
theory Bearer
  imports AuthStore
begin

text \<open>
  The resource-server plane (\<open>tribal-auth/src/{issuance, authenticator, principal,
  context, middleware, error}.rs\<close>, \<open>oauth/challenge.rs\<close>): one primitive mints
  every token, one function verifies a presented token, and the middleware turns
  a failure into a response.

  What other crates compute is a field of \<open>externals\<close>: SHA-256, Base64, the URL
  parser, Unicode categories, the rendered consent page. A parsed URL is the
  record of what its methods return.
\<close>

section \<open>Externals\<close>

record url =
  url_text :: string
  url_scheme :: string
  url_host :: "string option"
  url_port :: "nat option"
  url_port_or_default :: "nat option"
  url_path :: string
  url_query :: "string option"
  url_fragment :: "string option"
  url_bare :: string

datatype general_category = CategoryControl | CategoryFormat | CategoryLineSeparator
  | CategoryParagraphSeparator | CategoryOther

record consent_page =
  cp_target :: string
  cp_redirect_host :: string
  cp_client_id :: string
  cp_client_name :: "string option"
  cp_scope_display :: string
  cp_is_loopback :: bool

record externals =
  x_sha256 :: "string \<Rightarrow> nat list"
  x_base64url :: "nat list \<Rightarrow> string"
  x_base64_text :: "string \<Rightarrow> string option"
  x_parse_url :: "string \<Rightarrow> url option"
  x_append_pairs :: "url \<Rightarrow> (string \<times> string) list \<Rightarrow> string"
  x_category :: "char \<Rightarrow> general_category"
  x_render :: "consent_page \<Rightarrow> string option"

definition sha256_hex :: "externals \<Rightarrow> string \<Rightarrow> string" where
  "sha256_hex x content = concat (map (hex_digits 2) (x_sha256 x content))"

text \<open>A digest has 32 bytes; its text is one the tables accept.\<close>

lemma hex_digits_hex: "length (hex_digits k n) = k \<and> set (hex_digits k n) \<subseteq> set ''0123456789abcdef''"
proof (induction k n rule: hex_digits.induct)
  case (2 k n)
  have "''0123456789abcdef'' ! (n mod 16) \<in> set ''0123456789abcdef''" by (rule nth_mem) simp
  then show ?case using 2 by simp
qed simp

lemma sha256_hex_text:
  assumes "length (x_sha256 x c) = 32"
  shows "is_hash_text (sha256_hex x c)"
proof -
  have "length (concat (map (hex_digits 2) bs)) = 2 * length bs" for bs
    by (induction bs) (simp_all add: hex_digits_hex)
  then have "length (sha256_hex x c) = 64" using assms by (simp add: sha256_hex_def)
  moreover have "set (concat (map (hex_digits 2) bs)) \<subseteq> set ''0123456789abcdef''" for bs
  proof (induction bs)
    case (Cons b bs)
    then show ?case using hex_digits_hex [of 2 b] unfolding list.map concat.simps set_append by blast
  qed simp
  ultimately show ?thesis unfolding is_hash_text_def list_all_iff sha256_hex_def by blast
qed

section \<open>Responses\<close>

datatype http_body = JsonBody json | TextBody string

datatype http_response = HttpResponse nat "(string \<times> string) list" http_body | HttpRedirect string

section \<open>Issuance\<close>

definition generate_token_value :: "externals \<Rightarrow> nat list \<Rightarrow> string" where
  "generate_token_value x bytes = x_base64url x bytes"

record issued_token =
  it_raw :: string
  it_token :: auth_token

definition issue_token_with_record :: "externals \<Rightarrow> env \<Rightarrow> uuid \<Rightarrow> nat list \<Rightarrow> uuid \<Rightarrow> scope list
    \<Rightarrow> string \<Rightarrow> instant \<Rightarrow> issued_token auth_tx" where
  "issue_token_with_record x e i bytes owner scopes audience expires_at =
     (let raw = generate_token_value x bytes;
          n = \<lparr>nt_token_hash = sha256_hex x raw, nt_token_principal = owner, nt_scopes = scopes,
               nt_audience = audience, nt_expires_at = expires_at\<rparr> in
      tx_bind (token_insert e i n) (\<lambda>t. tx_return \<lparr>it_raw = raw, it_token = t\<rparr>))"

definition issue_token :: "externals \<Rightarrow> env \<Rightarrow> uuid \<Rightarrow> nat list \<Rightarrow> uuid \<Rightarrow> scope list
    \<Rightarrow> string \<Rightarrow> instant \<Rightarrow> string auth_tx" where
  "issue_token x e i bytes owner scopes audience expires_at =
     tx_bind (issue_token_with_record x e i bytes owner scopes audience expires_at)
       (\<lambda>issued. tx_return (it_raw issued))"

section \<open>Verification\<close>

record authenticated_principal =
  ap_principal_id :: uuid
  ap_principal_key :: string
  ap_scopes :: "scope list"

datatype auth_error =
    InvalidToken string
  | TokenRevoked string
  | TokenExpired string
  | PrincipalNotFound uuid
  | LocalPrincipalMissing string
  | DatabaseUnavailable string
  | InsufficientScope scope "scope list"
  | AudienceMismatch string string

text \<open>The two reads run on one connection; the principal of a token is a foreign key,
  so a principal that is not found is a violated constraint.\<close>

definition resolve_principal :: "auth_token \<Rightarrow> auth_db \<Rightarrow> auth_error + authenticated_principal" where
  "resolve_principal token s =
     (case principal_find_by_id (at_principal_id token) s of
        Inr (p, _) \<Rightarrow> Inr \<lparr>ap_principal_id = pr_id p, ap_principal_key = pr_key p, ap_scopes = at_scopes token\<rparr>
      | Inl (DbNotFound _ _) \<Rightarrow> Inl (PrincipalNotFound (at_principal_id token))
      | Inl _ \<Rightarrow> Inl (DatabaseUnavailable ''finding principal by id''))"

definition verify_token :: "externals \<Rightarrow> string option \<Rightarrow> instant \<Rightarrow> string \<Rightarrow> auth_db
    \<Rightarrow> auth_error + authenticated_principal" where
  "verify_token x expected_audience now raw_token s =
     (let token_hash = sha256_hex x raw_token in
      case token_find_by_hash token_hash s of
        None \<Rightarrow> Inl (InvalidToken token_hash)
      | Some token \<Rightarrow>
          if at_revoked_at token \<noteq> None then Inl (TokenRevoked token_hash)
          else if at_expires_at token < now then Inl (TokenExpired token_hash)
          else (case expected_audience of
              Some expected \<Rightarrow> if at_audience token = expected then resolve_principal token s
                else Inl (AudienceMismatch expected (at_audience token))
            | None \<Rightarrow> resolve_principal token s))"

text \<open>The server's own standard input needs no token.\<close>

definition resolve_stdio_principal :: "auth_db \<Rightarrow> auth_error + authenticated_principal" where
  "resolve_stdio_principal s =
     (case principal_find_by_key local_principal_key s of
        Some p \<Rightarrow> Inr \<lparr>ap_principal_id = pr_id p, ap_principal_key = pr_key p, ap_scopes = stdio_principal_scopes\<rparr>
      | None \<Rightarrow> Inl (LocalPrincipalMissing local_principal_key))"

definition require_scope :: "authenticated_principal \<Rightarrow> scope \<Rightarrow> auth_error + unit" where
  "require_scope p required =
     (if is_authorised (ap_scopes p) required then Inr () else Inl (InsufficientScope required (ap_scopes p)))"

section \<open>The challenge header\<close>

record bearer_challenge =
  bc_resource_metadata_url :: url
  bc_scope :: "string option"
  bc_error :: "string option"

definition quoted :: "string \<Rightarrow> string" where
  "quoted v = CHR 0x22 # concat (map (\<lambda>c. if c = CHR 0x22 \<or> c = CHR 0x5C then [CHR 0x5C, c] else [c]) v) @ [CHR 0x22]"

definition challenge_params :: "bearer_challenge \<Rightarrow> (string \<times> string) list" where
  "challenge_params c =
     (case bc_error c of None \<Rightarrow> [] | Some e \<Rightarrow> [(''error'', e)]) @
     (case bc_scope c of None \<Rightarrow> [] | Some v \<Rightarrow> [(''scope'', v)]) @
     [(''resource_metadata'', url_text (bc_resource_metadata_url c))]"

fun append_params :: "string \<Rightarrow> (string \<times> string) list \<Rightarrow> string" where
  "append_params sep [] = []"
| "append_params sep ((k, v) # ps) = sep @ k @ ''='' @ quoted v @ append_params '', '' ps"

definition build_bearer_challenge_header :: "bearer_challenge \<Rightarrow> string" where
  "build_bearer_challenge_header c = ''Bearer'' @ append_params '' '' (challenge_params c)"

section \<open>The middleware\<close>

definition eq_ignore_ascii_case :: "string \<Rightarrow> string \<Rightarrow> bool" where
  "eq_ignore_ascii_case a b \<longleftrightarrow> to_ascii_lowercase a = to_ascii_lowercase b"

definition bearer_prefix :: string where
  "bearer_prefix = ''Bearer ''"

text \<open>The argument is the \<open>Authorization\<close> header when its value is visible ASCII.\<close>

definition extract_bearer_token :: "string option \<Rightarrow> string option" where
  "extract_bearer_token authorization =
     (case authorization of
        None \<Rightarrow> None
      | Some v \<Rightarrow>
          if length v < length bearer_prefix then None
          else if drop (length bearer_prefix) v \<noteq> [] \<and>
            eq_ignore_ascii_case (take (length bearer_prefix) v) bearer_prefix
          then Some (drop (length bearer_prefix) v) else None)"

definition unauthorised_response :: "string \<Rightarrow> bearer_challenge \<Rightarrow> string option \<Rightarrow> http_response" where
  "unauthorised_response message challenge err =
     HttpResponse 401 [(''www-authenticate'', build_bearer_challenge_header (challenge\<lparr>bc_error := err\<rparr>))]
       (JsonBody (JObj [(''error'', JStr ''unauthorized''), (''message'', JStr message)]))"

definition service_unavailable_response :: "string \<Rightarrow> http_response" where
  "service_unavailable_response message =
     HttpResponse 503 [] (JsonBody (JObj [(''error'', JStr ''service unavailable''), (''message'', JStr message)]))"

fun auth_error_response :: "auth_error \<Rightarrow> bearer_challenge \<Rightarrow> http_response" where
  "auth_error_response (DatabaseUnavailable _) c = service_unavailable_response ''database unavailable''"
| "auth_error_response (TokenRevoked _) c = unauthorised_response ''token revoked'' c (Some ''invalid_token'')"
| "auth_error_response (TokenExpired _) c = unauthorised_response ''token expired'' c (Some ''invalid_token'')"
| "auth_error_response (InvalidToken _) c = unauthorised_response ''invalid token'' c (Some ''invalid_token'')"
| "auth_error_response (AudienceMismatch _ _) c = unauthorised_response ''invalid token'' c (Some ''invalid_token'')"
| "auth_error_response (PrincipalNotFound _) c = unauthorised_response ''invalid token'' c (Some ''invalid_token'')"
| "auth_error_response (LocalPrincipalMissing _) c = unauthorised_response ''invalid token'' c (Some ''invalid_token'')"
| "auth_error_response (InsufficientScope _ _) c = unauthorised_response ''invalid token'' c (Some ''invalid_token'')"

text \<open>A request goes on with the principal it proved, or is answered here.\<close>

definition require_bearer_auth :: "externals \<Rightarrow> string option \<Rightarrow> bearer_challenge \<Rightarrow> instant \<Rightarrow> string option
    \<Rightarrow> auth_db \<Rightarrow> http_response + authenticated_principal" where
  "require_bearer_auth x expected_audience challenge now authorization s =
     (case extract_bearer_token authorization of
        None \<Rightarrow> Inl (unauthorised_response ''missing bearer token'' challenge None)
      | Some token \<Rightarrow>
          (case verify_token x expected_audience now token s of
             Inr p \<Rightarrow> Inr p
           | Inl err \<Rightarrow> Inl (auth_error_response err challenge)))"

section \<open>What verification decides\<close>

lemma principal_found:
  "principal_find_by_id i s = Inr (p, s') \<longleftrightarrow> find (\<lambda>p. pr_id p = i) (ad_principals s) = Some p \<and> s' = s"
  by (auto simp: principal_find_by_id_def split: option.split)

lemma resolve_principal_iff:
  "resolve_principal t s = Inr a \<longleftrightarrow>
     (\<exists>p. find (\<lambda>p. pr_id p = at_principal_id t) (ad_principals s) = Some p \<and>
        a = \<lparr>ap_principal_id = pr_id p, ap_principal_key = pr_key p, ap_scopes = at_scopes t\<rparr>)"
  by (auto simp: resolve_principal_def principal_find_by_id_def split: option.splits)

lemma verify_token_iff:
  "verify_token x aud now raw s = Inr a \<longleftrightarrow>
     (\<exists>t p. token_find_by_hash (sha256_hex x raw) s = Some t \<and> at_revoked_at t = None \<and> now \<le> at_expires_at t \<and>
        (aud = None \<or> aud = Some (at_audience t)) \<and>
        find (\<lambda>p. pr_id p = at_principal_id t) (ad_principals s) = Some p \<and>
        a = \<lparr>ap_principal_id = pr_id p, ap_principal_key = pr_key p, ap_scopes = at_scopes t\<rparr>)"
  by (auto simp: verify_token_def Let_def resolve_principal_iff split: option.splits if_splits)

end
