(* ===== verification/OAuthRules.thy ===== *)
theory OAuthRules
  imports Bearer
begin

text \<open>
  The rules of the authorisation server (\<open>tribal-auth/src/oauth/{error, pkce, common,
  redirect, config, metadata}.rs\<close>): its errors and how each is answered, proof keys,
  loopback hosts, redirect matching, the canonical form of a resource, the
  metadata documents.
\<close>

section \<open>Errors\<close>

datatype invalid_request_reason =
    MalformedCodeChallenge
  | UnsupportedCodeChallengeMethod string
  | MalformedRedirectUri string
  | UnsupportedGrantType string
  | MissingParameter string
  | MalformedRequest string

datatype invalid_client_reason = Unregistered | SecretRequired | SecretMismatch

datatype invalid_grant_reason =
    MalformedCodeVerifier
  | UnknownOrExpiredOrUsedCode
  | ClientIdMismatch
  | RedirectUriMismatch
  | PkceVerificationFailed

datatype invalid_target_reason =
    TargetMissing
  | TargetMalformed string
  | TargetFragmentPresent string
  | TargetMismatch string string

datatype redirect_uri_rejection =
    NoneRegistered
  | RedirectMalformed string
  | RedirectFragmentPresent string
  | NonLoopbackHttp string
  | UnsupportedScheme string
  | NoRegisteredMatch

datatype client_metadata_rejection =
    UnsupportedAuthMethod string
  | UnsupportedApplicationType string
  | GrantResponseInconsistent
  | NoSupportedGrantType
  | NoSupportedResponseType
  | UnsupportedScope string
  | InvalidClientName string
  | MalformedMetadata string

datatype internal_operation =
    PoolAcquire | BeginTransaction | CommitTransaction | ClientLookup | PrincipalLookup
  | OpLocalPrincipalMissing | ConsumeAuthorizationCode | InsertAuthorizationCode | InsertOauthClient
  | InsertAccessToken | ConfidentialClientMissingSecret | AuthorizationCodeTtlConversion
  | AccessTokenTtlConversion | MalformedRegisteredRedirectUri | MalformedStoredCodeChallenge
  | RenderConsentPage

text \<open>The source of an internal error, which is only logged, is left out. A panic of the
  instant arithmetic, which unwinds the handler, is \<open>OAuthPanic\<close>.\<close>

datatype oauth_error =
    InvalidRequest invalid_request_reason
  | InvalidClient invalid_client_reason
  | InvalidGrant invalid_grant_reason
  | InvalidTarget invalid_target_reason
  | InvalidScope string
  | InvalidRedirectUri redirect_uri_rejection
  | InvalidClientMetadata client_metadata_rejection
  | UnsupportedResponseType string
  | OAuthInternal internal_operation
  | OAuthPanic string

fun error_code :: "oauth_error \<Rightarrow> string" where
  "error_code (InvalidRequest _) = ''invalid_request''"
| "error_code (InvalidClient _) = ''invalid_client''"
| "error_code (InvalidGrant _) = ''invalid_grant''"
| "error_code (InvalidTarget _) = ''invalid_target''"
| "error_code (InvalidScope _) = ''invalid_scope''"
| "error_code (InvalidRedirectUri _) = ''invalid_redirect_uri''"
| "error_code (InvalidClientMetadata _) = ''invalid_client_metadata''"
| "error_code (UnsupportedResponseType _) = ''unsupported_response_type''"
| "error_code (OAuthInternal _) = ''server_error''"
| "error_code (OAuthPanic _) = ''''"

fun http_status :: "oauth_error \<Rightarrow> nat" where
  "http_status (OAuthInternal _) = 500"
| "http_status (InvalidClient _) = 401"
| "http_status _ = 400"

text \<open>The debug form of a text (\<open>{:?}\<close>): quoted, with escapes.\<close>

fun hex_text :: "nat \<Rightarrow> string" where
  "hex_text n = (if n < 16 then hex_digits 1 n else hex_text (n div 16) @ hex_digits 1 n)"

declare hex_text.simps [simp del]

definition debug_char :: "char \<Rightarrow> string" where
  "debug_char c =
     (let n = of_char c :: nat in
      if n = 0 then [CHR 0x5C, CHR ''0''] else if n = 9 then [CHR 0x5C, CHR ''t'']
      else if n = 10 then [CHR 0x5C, CHR ''n''] else if n = 13 then [CHR 0x5C, CHR ''r'']
      else if n = 34 \<or> n = 92 then [CHR 0x5C, c]
      else if n < 32 \<or> 127 \<le> n \<and> n \<le> 160 \<or> n = 173 then CHR 0x5C # ''u{'' @ hex_text n @ ''}''
      else [c])"

definition debug_text :: "string \<Rightarrow> string" where
  "debug_text v = CHR 0x22 # concat (map debug_char v) @ [CHR 0x22]"

fun request_reason_text :: "invalid_request_reason \<Rightarrow> string" where
  "request_reason_text MalformedCodeChallenge = ''code_challenge is malformed''"
| "request_reason_text (UnsupportedCodeChallengeMethod p) =
     ''code_challenge_method must be '' @ debug_text ''S256'' @ '' (got '' @ debug_text p @ '')''"
| "request_reason_text (MalformedRedirectUri v) = ''redirect_uri is not a valid URL: '' @ debug_text v"
| "request_reason_text (UnsupportedGrantType p) =
     ''grant_type must be '' @ debug_text ''authorization_code'' @ '' (got '' @ debug_text p @ '')''"
| "request_reason_text (MissingParameter p) = ''required parameter '' @ p @ '' is missing''"
| "request_reason_text (MalformedRequest d) = ''request is malformed: '' @ d"

fun client_reason_text :: "invalid_client_reason \<Rightarrow> string" where
  "client_reason_text Unregistered = ''client_id is not registered''"
| "client_reason_text SecretRequired = ''client requires a client_secret''"
| "client_reason_text SecretMismatch = ''client_secret does not match''"

fun target_reason_text :: "invalid_target_reason \<Rightarrow> string" where
  "target_reason_text TargetMissing = ''resource parameter is required per RFC 8707''"
| "target_reason_text (TargetMalformed v) = ''resource is not a valid URL: '' @ debug_text v"
| "target_reason_text (TargetFragmentPresent v) = ''resource must not contain a fragment: '' @ debug_text v"
| "target_reason_text (TargetMismatch e p) =
     ''resource '' @ debug_text p @ '' does not match the expected '' @ debug_text e"

fun redirect_rejection_text :: "redirect_uri_rejection \<Rightarrow> string" where
  "redirect_rejection_text NoneRegistered = ''redirect_uris must contain at least one entry''"
| "redirect_rejection_text (RedirectMalformed v) = ''redirect_uri is not a valid URL: '' @ debug_text v"
| "redirect_rejection_text (RedirectFragmentPresent v) = ''redirect_uri must not contain a fragment: '' @ debug_text v"
| "redirect_rejection_text (NonLoopbackHttp v) =
     ''redirect_uri http scheme is reserved for loopback hosts: '' @ debug_text v"
| "redirect_rejection_text (UnsupportedScheme s) = ''redirect_uri scheme '' @ s @ '' is not supported''"
| "redirect_rejection_text NoRegisteredMatch = ''redirect_uri does not match a registered value''"

fun metadata_rejection_text :: "client_metadata_rejection \<Rightarrow> string" where
  "metadata_rejection_text (UnsupportedAuthMethod p) = ''unsupported token_endpoint_auth_method: '' @ p"
| "metadata_rejection_text (UnsupportedApplicationType p) = ''unsupported application_type: '' @ p"
| "metadata_rejection_text GrantResponseInconsistent = ''response_type=code requires grant_type=authorization_code''"
| "metadata_rejection_text NoSupportedGrantType = ''no supported grant_type was declared''"
| "metadata_rejection_text NoSupportedResponseType = ''no supported response_type was declared''"
| "metadata_rejection_text (UnsupportedScope p) = ''unsupported scope: '' @ p"
| "metadata_rejection_text (InvalidClientName d) = ''client_name is not acceptable: '' @ d"
| "metadata_rejection_text (MalformedMetadata d) = ''client metadata is malformed: '' @ d"

fun client_description :: "oauth_error \<Rightarrow> string" where
  "client_description (InvalidGrant _) = ''the authorization grant is invalid''"
| "client_description (OAuthInternal _) = ''internal server error''"
| "client_description (InvalidRequest r) = request_reason_text r"
| "client_description (InvalidClient r) = client_reason_text r"
| "client_description (InvalidTarget r) = target_reason_text r"
| "client_description (InvalidScope t) = ''unknown scope token: '' @ debug_text t"
| "client_description (InvalidRedirectUri r) = redirect_rejection_text r"
| "client_description (InvalidClientMetadata r) = metadata_rejection_text r"
| "client_description (UnsupportedResponseType p) =
     ''response_type must be '' @ debug_text ''code'' @ '' (got '' @ debug_text p @ '')''"
| "client_description (OAuthPanic _) = ''''"

definition into_json_response :: "oauth_error \<Rightarrow> http_response" where
  "into_json_response err = HttpResponse (http_status err) []
     (JsonBody (JObj [(''error'', JStr (error_code err)), (''error_description'', JStr (client_description err))]))"

definition into_redirect_response :: "externals \<Rightarrow> oauth_error \<Rightarrow> url \<Rightarrow> string option \<Rightarrow> http_response" where
  "into_redirect_response x err redirect_uri state =
     HttpRedirect (x_append_pairs x redirect_uri
       ([(''error'', error_code err), (''error_description'', client_description err)] @
        (case state of None \<Rightarrow> [] | Some v \<Rightarrow> [(''state'', v)])))"

definition require_param :: "string option \<Rightarrow> string \<Rightarrow> oauth_error + string" where
  "require_param v parameter =
     (case v of
        None \<Rightarrow> Inl (InvalidRequest (MissingParameter parameter))
      | Some t \<Rightarrow> if t = [] then Inl (InvalidRequest (MissingParameter parameter)) else Inr t)"

section \<open>Proof keys\<close>

definition is_ascii_alphanumeric :: "char \<Rightarrow> bool" where
  "is_ascii_alphanumeric c \<longleftrightarrow>
     (let n = of_char c :: nat in 48 \<le> n \<and> n \<le> 57 \<or> 65 \<le> n \<and> n \<le> 90 \<or> 97 \<le> n \<and> n \<le> 122)"

definition is_unreserved_pkce :: "char \<Rightarrow> bool" where
  "is_unreserved_pkce c \<longleftrightarrow> is_ascii_alphanumeric c \<or> c \<in> set ''-._~''"

definition is_valid_verifier :: "string \<Rightarrow> bool" where
  "is_valid_verifier raw \<longleftrightarrow> 43 \<le> length raw \<and> length raw \<le> 128 \<and> list_all is_unreserved_pkce raw"

definition is_valid_challenge :: "string \<Rightarrow> bool" where
  "is_valid_challenge raw \<longleftrightarrow> length raw = 43 \<and> list_all is_unreserved_pkce raw"

definition derive_s256 :: "externals \<Rightarrow> string \<Rightarrow> string" where
  "derive_s256 x verifier = x_base64url x (x_sha256 x verifier)"

definition verify_s256 :: "externals \<Rightarrow> string \<Rightarrow> string \<Rightarrow> bool" where
  "verify_s256 x challenge verifier \<longleftrightarrow> x_base64url x (x_sha256 x verifier) = challenge"

section \<open>Loopback hosts\<close>

text \<open>The address parser of the standard library: a reader takes a text and returns
  what is left, or fails and consumes nothing. \<open>read_groups\<close> reads up to the limit
  from the given index, and tells the number of groups and whether the last two
  were written as an IPv4 address.\<close>

definition is_hex_digit :: "char \<Rightarrow> bool" where
  "is_hex_digit c \<longleftrightarrow>
     (let n = of_char c :: nat in 48 \<le> n \<and> n \<le> 57 \<or> 65 \<le> n \<and> n \<le> 70 \<or> 97 \<le> n \<and> n \<le> 102)"

definition is_dec_digit :: "char \<Rightarrow> bool" where
  "is_dec_digit c \<longleftrightarrow> (let n = of_char c :: nat in 48 \<le> n \<and> n \<le> 57)"

definition read_given_char :: "char \<Rightarrow> string \<Rightarrow> string option" where
  "read_given_char c s = (case s of [] \<Rightarrow> None | d # r \<Rightarrow> if d = c then Some r else None)"

definition read_separator :: "char \<Rightarrow> nat \<Rightarrow> (string \<Rightarrow> string option) \<Rightarrow> string \<Rightarrow> string option" where
  "read_separator sep i inner s = (if 0 < i then Option.bind (read_given_char sep s) inner else inner s)"

definition read_hex_group :: "string \<Rightarrow> string option" where
  "read_hex_group s =
     (let n = length (takeWhile is_hex_digit s) in if 1 \<le> n \<and> n \<le> 4 then Some (drop n s) else None)"

definition decimal_value :: "string \<Rightarrow> nat" where
  "decimal_value ds = foldl (\<lambda>n c. 10 * n + (of_char c - 48)) 0 ds"

definition read_octet :: "string \<Rightarrow> string option" where
  "read_octet s =
     (let ds = takeWhile is_dec_digit s in
      if 1 \<le> length ds \<and> length ds \<le> 3 \<and> decimal_value ds \<le> 255 \<and> (1 < length ds \<longrightarrow> hd ds \<noteq> CHR ''0'')
      then Some (drop (length ds) s) else None)"

definition read_ipv4_addr :: "string \<Rightarrow> string option" where
  "read_ipv4_addr s =
     Option.bind (read_separator CHR ''.'' 0 read_octet s) (\<lambda>s.
     Option.bind (read_separator CHR ''.'' 1 read_octet s) (\<lambda>s.
     Option.bind (read_separator CHR ''.'' 2 read_octet s) (\<lambda>s.
     read_separator CHR ''.'' 3 read_octet s)))"

function read_groups :: "nat \<Rightarrow> nat \<Rightarrow> string \<Rightarrow> nat \<times> bool \<times> string" where
  "read_groups limit i s =
     (if limit \<le> i then (limit, False, s)
      else case (if i + 1 < limit then read_separator CHR '':'' i read_ipv4_addr s else None) of
        Some r \<Rightarrow> (i + 2, True, r)
      | None \<Rightarrow>
          (case read_separator CHR '':'' i read_hex_group s of
             Some r \<Rightarrow> read_groups limit (i + 1) r
           | None \<Rightarrow> (i, False, s)))"
  by pat_completeness auto
termination by (relation "measure (\<lambda>(limit, i, _). limit - i)") auto

definition read_ipv6_addr :: "string \<Rightarrow> string option" where
  "read_ipv6_addr s =
     (case read_groups 8 0 s of (head_size, head_ipv4, r) \<Rightarrow>
        if head_size = 8 then Some r
        else if head_ipv4 then None
        else Option.bind (read_given_char CHR '':'' r) (\<lambda>r.
          Option.bind (read_given_char CHR '':'' r) (\<lambda>r.
          case read_groups (8 - (head_size + 1)) 0 r of (_, _, r) \<Rightarrow> Some r)))"

definition parses_ipv6 :: "string \<Rightarrow> bool" where
  "parses_ipv6 s \<longleftrightarrow> read_ipv6_addr s = Some []"

definition loopback_hosts :: "string list" where
  "loopback_hosts = [''127.0.0.1'', ''::1'', ''localhost'']"

definition strip_brackets :: "string \<Rightarrow> string option" where
  "strip_brackets host =
     (case host of
        c # inner \<Rightarrow> if c = CHR ''['' \<and> inner \<noteq> [] \<and> last inner = CHR '']'' then Some (butlast inner) else None
      | [] \<Rightarrow> None)"

definition is_loopback_host :: "string \<Rightarrow> bool" where
  "is_loopback_host host \<longleftrightarrow>
     (let candidate = (case strip_brackets host of
        Some inner \<Rightarrow> if parses_ipv6 inner then inner else host
      | None \<Rightarrow> host) in
      candidate \<in> set loopback_hosts)"

text \<open>Brackets are unwrapped around an IPv6 address alone.\<close>

lemma loopback_host_iff:
  "is_loopback_host h \<longleftrightarrow> h \<in> {''127.0.0.1'', ''::1'', ''localhost'', ''[::1]''}"
proof (cases "strip_brackets h")
  case None
  then have "h \<noteq> ''[::1]''" by (auto simp: strip_brackets_def)
  then show ?thesis using None by (simp add: is_loopback_host_def loopback_hosts_def)
next
  case (Some inner)
  then have h: "h = CHR ''['' # inner @ '']''"
    by (auto simp: strip_brackets_def split: list.splits if_splits) (metis append_butlast_last_id)
  have "parses_ipv6 ''::1''" "\<not> parses_ipv6 ''127.0.0.1''" "\<not> parses_ipv6 ''localhost''" by code_simp+
  then have "is_loopback_host h \<longleftrightarrow> inner = ''::1''"
    using Some h by (auto simp: is_loopback_host_def loopback_hosts_def)
  then show ?thesis by (simp add: h)
qed

section \<open>Redirect matching\<close>

definition matches_redirect_uri :: "url \<Rightarrow> url \<Rightarrow> bool" where
  "matches_redirect_uri registered incoming \<longleftrightarrow>
     url_scheme registered = url_scheme incoming \<and>
     url_host registered = url_host incoming \<and>
     url_path registered = url_path incoming \<and>
     url_query registered = url_query incoming \<and>
     url_fragment incoming = None \<and>
     (let is_loopback = url_scheme registered = ''http'' \<and>
        (case url_host registered of None \<Rightarrow> False | Some h \<Rightarrow> is_loopback_host h) in
      is_loopback \<or> url_port_or_default registered = url_port_or_default incoming)"

section \<open>Configuration\<close>

record oauth_config =
  cfg_issuer_url :: "string option"
  cfg_resource_url :: "string option"
  cfg_access_token_ttl_hours :: nat
  cfg_authorization_code_ttl_seconds :: nat

datatype oauth_config_error = IssuerUrlMalformed string | ResourceUrlMalformed string

record oauth_runtime =
  rt_issuer_url :: url
  rt_resource_url :: url
  rt_canonical_resource :: string
  rt_access_token_ttl :: int
  rt_authorization_code_ttl :: int
  rt_dcr_enabled :: bool

definition parse_optional_url :: "externals \<Rightarrow> string option \<Rightarrow> url \<Rightarrow> string + url" where
  "parse_optional_url x maybe fallback =
     (case maybe of
        None \<Rightarrow> Inr fallback
      | Some raw \<Rightarrow> if raw = [] then Inr fallback
          else (case x_parse_url x raw of None \<Rightarrow> Inl raw | Some u \<Rightarrow> Inr u))"

definition canonicalise_resource_url :: "url \<Rightarrow> string" where
  "canonicalise_resource_url u =
     (let s = url_bare u in if ends_with ''/'' s \<and> \<not> ends_with ''//'' s then butlast s else s)"

text \<open>Durations are microseconds; the hours are multiplied at 64 bits, and validation
  keeps them far below the width.\<close>

definition oauth_runtime_build :: "externals \<Rightarrow> oauth_config \<Rightarrow> url \<Rightarrow> url \<Rightarrow> bool \<Rightarrow> oauth_config_error + oauth_runtime" where
  "oauth_runtime_build x cfg fallback_issuer fallback_resource dcr =
     (case parse_optional_url x (cfg_issuer_url cfg) fallback_issuer of
        Inl raw \<Rightarrow> Inl (IssuerUrlMalformed raw)
      | Inr issuer \<Rightarrow>
          (case parse_optional_url x (cfg_resource_url cfg) fallback_resource of
             Inl raw \<Rightarrow> Inl (ResourceUrlMalformed raw)
           | Inr resource \<Rightarrow> Inr
               \<lparr>rt_issuer_url = issuer, rt_resource_url = resource,
                rt_canonical_resource = canonicalise_resource_url resource,
                rt_access_token_ttl = seconds (int (cfg_access_token_ttl_hours cfg * 3600 mod 2 ^ 64)),
                rt_authorization_code_ttl = seconds (int (cfg_authorization_code_ttl_seconds cfg)),
                rt_dcr_enabled = dcr\<rparr>))"

section \<open>Metadata documents\<close>

definition json_texts :: "string list \<Rightarrow> json" where
  "json_texts vs = JArr (map JStr vs)"

definition protected_resource_metadata :: "oauth_runtime \<Rightarrow> json" where
  "protected_resource_metadata rt = JObj
     [(''resource'', JStr (rt_canonical_resource rt)),
      (''authorization_servers'', json_texts [url_text (rt_issuer_url rt)]),
      (''scopes_supported'', json_texts scopes_catalogue),
      (''bearer_methods_supported'', json_texts [''header''])]"

definition join_issuer :: "url \<Rightarrow> string \<Rightarrow> string" where
  "join_issuer issuer path =
     (let base = url_text issuer in (if ends_with ''/'' base then butlast base else base) @ path)"

definition authorization_server_metadata :: "oauth_runtime \<Rightarrow> json" where
  "authorization_server_metadata rt = JObj
     ([(''issuer'', JStr (url_text (rt_issuer_url rt))),
       (''authorization_endpoint'', JStr (join_issuer (rt_issuer_url rt) ''/authorize'')),
       (''token_endpoint'', JStr (join_issuer (rt_issuer_url rt) ''/token''))] @
      (if rt_dcr_enabled rt then [(''registration_endpoint'', JStr (join_issuer (rt_issuer_url rt) ''/register''))] else []) @
      [(''response_types_supported'', json_texts [''code'']),
       (''grant_types_supported'', json_texts [''authorization_code'']),
       (''code_challenge_methods_supported'', json_texts [''S256'']),
       (''token_endpoint_auth_methods_supported'', json_texts (map auth_method_as_str
          (if rt_dcr_enabled rt then [AuthNone, ClientSecretBasic, ClientSecretPost] else [AuthNone]))),
       (''scopes_supported'', json_texts scopes_catalogue)])"

definition metadata_response :: "json \<Rightarrow> http_response" where
  "metadata_response body = HttpResponse 200 [(''cache-control'', ''public, max-age=300'')] (JsonBody body)"

text \<open>The endpoints of the router: method, path, and what serves it.\<close>

datatype oauth_endpoint = ServeProtectedResource | ServeAuthorizationServer | ServeAuthorize | ServeToken | ServeRegister

definition oauth_routes :: "oauth_runtime \<Rightarrow> (string \<times> string \<times> oauth_endpoint) list" where
  "oauth_routes rt =
     (let resource_path = dropWhile (\<lambda>c. c = CHR ''/'') (url_path (rt_resource_url rt)) in
      [(''GET'', ''/.well-known/oauth-protected-resource'', ServeProtectedResource),
       (''GET'', ''/.well-known/oauth-authorization-server'', ServeAuthorizationServer),
       (''GET'', ''/authorize'', ServeAuthorize),
       (''POST'', ''/token'', ServeToken)] @
      (if resource_path \<noteq> [] then [(''GET'', ''/.well-known/oauth-protected-resource/'' @ resource_path, ServeProtectedResource)] else []) @
      (if rt_dcr_enabled rt then [(''POST'', ''/register'', ServeRegister)] else []))"

end
