(* ===== verification/OAuth.thy ===== *)
theory OAuth
  imports OAuthRules
begin

text \<open>
  The three endpoints of the authorisation server
  (\<open>tribal-auth/src/oauth/{register, authorize, token}.rs\<close>): a client registers,
  a browser asks for a code bound to it, and the code is exchanged once for a token.
  Random bytes and row identifiers are arguments.
\<close>

type_synonym 'a oauth_tx = "(auth_db, oauth_error, 'a) tx"

definition during :: "internal_operation \<Rightarrow> 'a auth_tx \<Rightarrow> 'a oauth_tx" where
  "during operation m = tx_map_err (\<lambda>_. OAuthInternal operation) m"

text \<open>\<open>Utc::now() + Duration::from_std(ttl)?\<close>: too long a duration is the error, an
  instant past the last one a panic.\<close>

definition expiry_after :: "instant \<Rightarrow> int \<Rightarrow> internal_operation \<Rightarrow> oauth_error + instant" where
  "expiry_after now ttl operation =
     (if time_delta_max < ttl then Inl (OAuthInternal operation)
      else if date_time_max < now + ttl then Inl (OAuthPanic ''DateTime + TimeDelta overflowed'')
      else Inr (now + ttl))"

section \<open>Registration\<close>

record register_request =
  rg_redirect_uris :: "string list option"
  rg_client_name :: "string option"
  rg_grant_types :: "string list option"
  rg_response_types :: "string list option"
  rg_auth_method :: "string option"
  rg_scope :: "string option"
  rg_application_type :: "string option"

record register_response =
  rs_client_id :: string
  rs_client_secret :: "string option"
  rs_client_id_issued_at :: int
  rs_client_secret_expires_at :: "int option"
  rs_client_name :: "string option"
  rs_redirect_uris :: "string list"
  rs_grant_types :: "string list"
  rs_response_types :: "string list"
  rs_auth_method :: string
  rs_scope :: "string option"
  rs_application_type :: "string option"

definition validate_redirect_uri :: "externals \<Rightarrow> string \<Rightarrow> oauth_error + unit" where
  "validate_redirect_uri x raw =
     (case x_parse_url x raw of
        None \<Rightarrow> Inl (InvalidRedirectUri (RedirectMalformed raw))
      | Some u \<Rightarrow>
          if url_fragment u \<noteq> None then Inl (InvalidRedirectUri (RedirectFragmentPresent raw))
          else if url_scheme u = ''https'' then Inr ()
          else if url_scheme u = ''http'' then
            (if (case url_host u of None \<Rightarrow> False | Some h \<Rightarrow> is_loopback_host h) then Inr ()
             else Inl (InvalidRedirectUri (NonLoopbackHttp raw)))
          else Inl (InvalidRedirectUri (UnsupportedScheme (url_scheme u))))"

definition filter_supported :: "string list option \<Rightarrow> string \<Rightarrow> string list" where
  "filter_supported declared supported =
     (case declared of None \<Rightarrow> [supported] | Some vs \<Rightarrow> filter (\<lambda>v. v = supported) vs)"

definition validate_grant_response_consistency :: "string list \<Rightarrow> string list \<Rightarrow> oauth_error + unit" where
  "validate_grant_response_consistency grants responses =
     (if ''code'' \<in> set responses \<and> ''authorization_code'' \<notin> set grants
      then Inl (InvalidClientMetadata GrantResponseInconsistent) else Inr ())"

definition is_unsafe_display_char :: "externals \<Rightarrow> char \<Rightarrow> bool" where
  "is_unsafe_display_char x c \<longleftrightarrow> x_category x c \<in> {CategoryControl, CategoryFormat, CategoryLineSeparator, CategoryParagraphSeparator}"

definition validate_client_name :: "externals \<Rightarrow> string option \<Rightarrow> oauth_error + string option" where
  "validate_client_name x raw =
     (case raw of
        None \<Rightarrow> Inr None
      | Some name \<Rightarrow>
          (let trimmed = trim name in
           if trimmed = [] then Inr None
           else if 200 < length trimmed then
             Inl (InvalidClientMetadata (InvalidClientName ''exceeds 200 characters''))
           else if list_ex (is_unsafe_display_char x) trimmed then
             Inl (InvalidClientMetadata (InvalidClientName ''contains control or directional formatting characters''))
           else Inr (Some trimmed)))"

definition parse_auth_method :: "string \<Rightarrow> oauth_error + auth_method" where
  "parse_auth_method raw = (case auth_method_parse raw of Some m \<Rightarrow> Inr m
     | None \<Rightarrow> Inl (InvalidClientMetadata (UnsupportedAuthMethod raw)))"

definition parse_application_type :: "string option \<Rightarrow> oauth_error + application_type option" where
  "parse_application_type raw = (case raw of None \<Rightarrow> Inr None
     | Some t \<Rightarrow> (case application_type_parse t of Some a \<Rightarrow> Inr (Some a)
         | None \<Rightarrow> Inl (InvalidClientMetadata (UnsupportedApplicationType t))))"

definition registered_client :: "externals \<Rightarrow> nat list \<Rightarrow> string option \<Rightarrow> string option \<Rightarrow> string list
    \<Rightarrow> string list \<Rightarrow> string list \<Rightarrow> auth_method \<Rightarrow> string option \<Rightarrow> application_type option \<Rightarrow> new_client" where
  "registered_client x id_bytes secret name uris grants responses method scope app =
     \<lparr>nc_client_id = generate_token_value x id_bytes, nc_secret_hash = map_option (sha256_hex x) secret,
      nc_client_name = name, nc_redirect_uris = uris, nc_grant_types = grants, nc_response_types = responses,
      nc_auth_method = method, nc_scope = scope, nc_application_type = app, nc_secret_expires_at = None\<rparr>"

definition register_response_of :: "string option \<Rightarrow> oauth_client \<Rightarrow> register_response" where
  "register_response_of secret c =
     \<lparr>rs_client_id = oc_client_id c, rs_client_secret = secret,
      rs_client_id_issued_at = oc_created_at c div 1000000,
      rs_client_secret_expires_at = (if oc_secret_hash c \<noteq> None then Some 0 else None),
      rs_client_name = oc_client_name c, rs_redirect_uris = oc_redirect_uris c,
      rs_grant_types = oc_grant_types c, rs_response_types = oc_response_types c,
      rs_auth_method = auth_method_as_str (oc_auth_method c), rs_scope = oc_scope c,
      rs_application_type = map_option application_type_as_str (oc_application_type c)\<rparr>"

definition check_catalogued :: "(string \<Rightarrow> oauth_error) \<Rightarrow> string option \<Rightarrow> oauth_error + unit" where
  "check_catalogued reject scope =
     (case Option.bind scope first_uncatalogued_scope of Some t \<Rightarrow> Inl (reject t) | None \<Rightarrow> Inr ())"

definition register :: "externals \<Rightarrow> env \<Rightarrow> nat list \<Rightarrow> nat list \<Rightarrow> register_request \<Rightarrow> register_response oauth_tx" where
  "register x e id_bytes secret_bytes req =
     (let uris = (case rg_redirect_uris req of None \<Rightarrow> [] | Some us \<Rightarrow> us);
          grants = filter_supported (rg_grant_types req) ''authorization_code'';
          responses = filter_supported (rg_response_types req) ''code'';
          scope = present_scope (rg_scope req) in
      tx_then (tx_ensure (uris \<noteq> []) (InvalidRedirectUri NoneRegistered))
     (tx_then (tx_each (\<lambda>raw. tx_from (validate_redirect_uri x raw)) uris)
     (tx_then (tx_ensure (grants \<noteq> []) (InvalidClientMetadata NoSupportedGrantType))
     (tx_then (tx_ensure (responses \<noteq> []) (InvalidClientMetadata NoSupportedResponseType))
     (tx_then (tx_from (validate_grant_response_consistency grants responses))
     (tx_then (tx_from (check_catalogued (\<lambda>t. InvalidClientMetadata (UnsupportedScope t)) scope))
     (tx_bind (tx_from (validate_client_name x (rg_client_name req))) (\<lambda>name.
      tx_bind (tx_from (parse_auth_method (case rg_auth_method req of None \<Rightarrow> ''none'' | Some m \<Rightarrow> m))) (\<lambda>method.
      tx_bind (tx_from (parse_application_type (rg_application_type req))) (\<lambda>app.
      let secret = (if requires_secret method then Some (generate_token_value x secret_bytes) else None) in
      tx_bind (during InsertOauthClient
          (client_insert e (registered_client x id_bytes secret name uris grants responses method scope app)))
        (\<lambda>c. tx_return (register_response_of secret c))))))))))))"

definition opt_field :: "string \<Rightarrow> ('a \<Rightarrow> json) \<Rightarrow> 'a option \<Rightarrow> (string \<times> json) list" where
  "opt_field k f v = (case v of None \<Rightarrow> [] | Some a \<Rightarrow> [(k, f a)])"

definition register_response_json :: "register_response \<Rightarrow> json" where
  "register_response_json r = JObj
     ([(''client_id'', JStr (rs_client_id r))] @ opt_field ''client_secret'' JStr (rs_client_secret r) @
      [(''client_id_issued_at'', JNum (rs_client_id_issued_at r))] @
      opt_field ''client_secret_expires_at'' JNum (rs_client_secret_expires_at r) @
      opt_field ''client_name'' JStr (rs_client_name r) @
      [(''redirect_uris'', json_texts (rs_redirect_uris r)), (''grant_types'', json_texts (rs_grant_types r)),
       (''response_types'', json_texts (rs_response_types r)),
       (''token_endpoint_auth_method'', JStr (rs_auth_method r))] @
      opt_field ''scope'' JStr (rs_scope r) @ opt_field ''application_type'' JStr (rs_application_type r))"

text \<open>An answered request, or the panic that ended it; either way the store it leaves.
  A body the framework could not read carries the framework's text.\<close>

type_synonym answered = "(string + http_response) \<times> auth_db"

definition reject_with :: "(oauth_error \<Rightarrow> http_response) \<Rightarrow> oauth_error \<Rightarrow> string + http_response" where
  "reject_with render err = (case err of OAuthPanic m \<Rightarrow> Inl m | _ \<Rightarrow> Inr (render err))"

definition handle_register :: "externals \<Rightarrow> env \<Rightarrow> nat list \<Rightarrow> nat list \<Rightarrow> string + register_request
    \<Rightarrow> auth_db \<Rightarrow> answered" where
  "handle_register x e id_bytes secret_bytes body s =
     (case body of
        Inl detail \<Rightarrow> (reject_with into_json_response (InvalidClientMetadata (MalformedMetadata detail)), s)
      | Inr req \<Rightarrow>
          (case stmt (register x e id_bytes secret_bytes req) s of
             (Inl err, t) \<Rightarrow> (reject_with into_json_response err, t)
           | (Inr r, t) \<Rightarrow> (Inr (HttpResponse 201 [(''cache-control'', ''no-store'')]
               (JsonBody (register_response_json r))), t)))"

section \<open>Authorisation\<close>

record authorize_query =
  aq_response_type :: "string option"
  aq_client_id :: "string option"
  aq_redirect_uri :: "string option"
  aq_code_challenge :: "string option"
  aq_code_challenge_method :: "string option"
  aq_state :: "string option"
  aq_scope :: "string option"
  aq_resource :: "string option"

record validated_query =
  vq_response_type :: string
  vq_client_id :: string
  vq_redirect_uri :: "string option"
  vq_code_challenge :: string
  vq_code_challenge_method :: string
  vq_state :: "string option"
  vq_scope :: "string option"
  vq_resource :: "string option"

definition authorize_validate :: "authorize_query \<Rightarrow> oauth_error + validated_query" where
  "authorize_validate q =
     (case require_param (aq_response_type q) ''response_type'' of Inl err \<Rightarrow> Inl err | Inr response_type \<Rightarrow>
     (case require_param (aq_client_id q) ''client_id'' of Inl err \<Rightarrow> Inl err | Inr client_id \<Rightarrow>
     (case require_param (aq_code_challenge q) ''code_challenge'' of Inl err \<Rightarrow> Inl err | Inr challenge \<Rightarrow>
     (case require_param (aq_code_challenge_method q) ''code_challenge_method'' of Inl err \<Rightarrow> Inl err | Inr method \<Rightarrow>
      Inr \<lparr>vq_response_type = response_type, vq_client_id = client_id, vq_redirect_uri = aq_redirect_uri q,
        vq_code_challenge = challenge, vq_code_challenge_method = method, vq_state = aq_state q,
        vq_scope = Option.bind (aq_scope q) (\<lambda>raw. if trim raw = [] then None else Some raw),
        vq_resource = aq_resource q\<rparr>))))"

record resolved_client =
  rv_redirect_uri :: url
  rv_registered_scope :: "string option"
  rv_client_name :: "string option"

definition resolve_client :: "string \<Rightarrow> oauth_client oauth_tx" where
  "resolve_client client_id s =
     (case client_find_by_id client_id s of Some c \<Rightarrow> Inr (c, s) | None \<Rightarrow> Inl (InvalidClient Unregistered))"

definition parse_registered_redirect_uris :: "externals \<Rightarrow> oauth_client \<Rightarrow> oauth_error + url list" where
  "parse_registered_redirect_uris x c =
     (case those (map (x_parse_url x) (oc_redirect_uris c)) of
        Some us \<Rightarrow> Inr us | None \<Rightarrow> Inl (OAuthInternal MalformedRegisteredRedirectUri))"

definition resolve_redirect_uri :: "externals \<Rightarrow> string option \<Rightarrow> url list \<Rightarrow> oauth_error + url" where
  "resolve_redirect_uri x requested registered =
     (case requested of
        Some raw \<Rightarrow>
          (case x_parse_url x raw of
             None \<Rightarrow> Inl (InvalidRequest (MalformedRedirectUri raw))
           | Some parsed \<Rightarrow>
               if list_ex (\<lambda>candidate. matches_redirect_uri candidate parsed) registered then Inr parsed
               else Inl (InvalidRedirectUri NoRegisteredMatch))
      | None \<Rightarrow>
          (case registered of [single] \<Rightarrow> Inr single | _ \<Rightarrow> Inl (InvalidRequest (MissingParameter ''redirect_uri''))))"

definition validate_pre_redirect :: "externals \<Rightarrow> validated_query \<Rightarrow> resolved_client oauth_tx" where
  "validate_pre_redirect x q =
     tx_then (tx_ensure (vq_response_type q = ''code'') (UnsupportedResponseType (vq_response_type q)))
    (tx_then (tx_ensure (vq_code_challenge_method q = ''S256'')
        (InvalidRequest (UnsupportedCodeChallengeMethod (vq_code_challenge_method q))))
    (tx_bind (resolve_client (vq_client_id q)) (\<lambda>c.
     tx_bind (tx_from (parse_registered_redirect_uris x c)) (\<lambda>registered.
     tx_bind (tx_from (resolve_redirect_uri x (vq_redirect_uri q) registered)) (\<lambda>redirect.
     tx_return \<lparr>rv_redirect_uri = redirect, rv_registered_scope = oc_scope c, rv_client_name = oc_client_name c\<rparr>)))))"

text \<open>The indicator of a resource, canonical, must be the expected one.\<close>

definition check_resource :: "externals \<Rightarrow> string option \<Rightarrow> string \<Rightarrow> oauth_error + string" where
  "check_resource x resource expected =
     (case resource of
        None \<Rightarrow> Inl (InvalidTarget TargetMissing)
      | Some raw \<Rightarrow>
          (case x_parse_url x raw of
             None \<Rightarrow> Inl (InvalidTarget (TargetMalformed raw))
           | Some u \<Rightarrow>
               if url_fragment u \<noteq> None then Inl (InvalidTarget (TargetFragmentPresent raw))
               else if canonicalise_resource_url u \<noteq> expected then
                 Inl (InvalidTarget (TargetMismatch expected (canonicalise_resource_url u)))
               else Inr (canonicalise_resource_url u)))"

definition local_principal_id :: "uuid oauth_tx" where
  "local_principal_id s =
     (case principal_find_by_key local_principal_key s of
        Some p \<Rightarrow> Inr (pr_id p, s) | None \<Rightarrow> Inl (OAuthInternal OpLocalPrincipalMissing))"

definition single_quoted :: "string \<Rightarrow> string" where
  "single_quoted v = CHR 0x27 # v @ [CHR 0x27]"

definition consent_csp :: string where
  "consent_csp = ''default-src '' @ single_quoted ''none'' @ ''; style-src '' @ single_quoted ''unsafe-inline'' @
     ''; base-uri '' @ single_quoted ''none'' @ ''; form-action '' @ single_quoted ''none'' @
     ''; frame-ancestors '' @ single_quoted ''none''"

definition consent_page_response :: "externals \<Rightarrow> url \<Rightarrow> string \<Rightarrow> string option \<Rightarrow> string \<Rightarrow> string option \<Rightarrow> string
    \<Rightarrow> oauth_error + http_response" where
  "consent_page_response x redirect code state client_id client_name scope =
     (let target = x_append_pairs x redirect ((''code'', code) # (case state of None \<Rightarrow> [] | Some v \<Rightarrow> [(''state'', v)]));
          bare_host = (case url_host redirect of None \<Rightarrow> '''' | Some h \<Rightarrow> h);
          authority = (case url_port redirect of None \<Rightarrow> bare_host | Some p \<Rightarrow> bare_host @ '':'' @ show_nat p) in
      case x_render x \<lparr>cp_target = target, cp_redirect_host = authority, cp_client_id = client_id,
          cp_client_name = client_name, cp_scope_display = scope, cp_is_loopback = is_loopback_host bare_host\<rparr> of
        None \<Rightarrow> Inl (OAuthInternal RenderConsentPage)
      | Some page \<Rightarrow> Inr (HttpResponse 200
          [(''content-type'', ''text/html; charset=utf-8''), (''cache-control'', ''no-store''),
           (''content-security-policy'', consent_csp), (''x-frame-options'', ''DENY''),
           (''x-content-type-options'', ''nosniff''), (''referrer-policy'', ''no-referrer'')] (TextBody page)))"

definition check_within_registration :: "string option \<Rightarrow> string option \<Rightarrow> oauth_error + unit" where
  "check_within_registration registered requested =
     (case (registered, requested) of
        (Some r, Some q) \<Rightarrow>
          (case scope_exceeding_registration q r of Some t \<Rightarrow> Inl (InvalidScope t) | None \<Rightarrow> Inr ())
      | _ \<Rightarrow> Inr ())"

definition issued_code :: "externals \<Rightarrow> string \<Rightarrow> validated_query \<Rightarrow> resolved_client \<Rightarrow> string \<Rightarrow> uuid \<Rightarrow> instant \<Rightarrow> new_code" where
  "issued_code x raw_code q resolved canonical owner expires_at =
     \<lparr>na_code_hash = sha256_hex x raw_code, na_client_id = vq_client_id q,
      na_redirect_uri = url_text (rv_redirect_uri resolved), na_code_challenge = vq_code_challenge q,
      na_scope = Some (effective_scope (vq_scope q) (rv_registered_scope resolved)),
      na_resource = Some canonical, na_principal_id = owner, na_expires_at = expires_at\<rparr>"

text \<open>The read of the principal and the insertion use separate connections; no statement
  between them can take the principal away.\<close>

definition issue_code :: "externals \<Rightarrow> oauth_runtime \<Rightarrow> env \<Rightarrow> nat list \<Rightarrow> validated_query \<Rightarrow> resolved_client
    \<Rightarrow> http_response oauth_tx" where
  "issue_code x rt e bytes q resolved =
     tx_then (tx_ensure (is_valid_challenge (vq_code_challenge q)) (InvalidRequest MalformedCodeChallenge))
    (tx_then (tx_from (check_catalogued InvalidScope (vq_scope q)))
    (tx_then (tx_from (check_within_registration (rv_registered_scope resolved) (vq_scope q)))
    (tx_bind (tx_from (check_resource x (vq_resource q) (rt_canonical_resource rt))) (\<lambda>canonical.
     tx_bind local_principal_id (\<lambda>owner.
     tx_bind (tx_from (expiry_after (env_utc_now e) (rt_authorization_code_ttl rt) AuthorizationCodeTtlConversion)) (\<lambda>expires_at.
     tx_bind (tx_from (consent_page_response x (rv_redirect_uri resolved) (x_base64url x bytes) (vq_state q)
         (vq_client_id q) (rv_client_name resolved)
         (effective_scope (vq_scope q) (rv_registered_scope resolved)))) (\<lambda>response.
     tx_then (during InsertAuthorizationCode
         (code_insert e (issued_code x (x_base64url x bytes) q resolved canonical owner expires_at)))
     (tx_return response))))))))"

definition handle_authorize :: "externals \<Rightarrow> oauth_runtime \<Rightarrow> env \<Rightarrow> nat list \<Rightarrow> string + authorize_query
    \<Rightarrow> auth_db \<Rightarrow> answered" where
  "handle_authorize x rt e bytes query s =
     (case query of
        Inl detail \<Rightarrow> (reject_with into_json_response (InvalidRequest (MalformedRequest detail)), s)
      | Inr q \<Rightarrow>
          (case authorize_validate q of
             Inl err \<Rightarrow> (reject_with into_json_response err, s)
           | Inr v \<Rightarrow>
               (case stmt (validate_pre_redirect x v) s of
                  (Inl err, t) \<Rightarrow> (reject_with into_json_response err, t)
                | (Inr resolved, t) \<Rightarrow>
                    (case stmt (issue_code x rt e bytes v resolved) t of
                       (Inl err, u) \<Rightarrow>
                         (reject_with (\<lambda>err. into_redirect_response x err (rv_redirect_uri resolved) (vq_state v)) err, u)
                     | (Inr response, u) \<Rightarrow> (Inr response, u)))))"

section \<open>The token endpoint\<close>

record token_request =
  tr_grant_type :: "string option"
  tr_code :: "string option"
  tr_redirect_uri :: "string option"
  tr_client_id :: "string option"
  tr_code_verifier :: "string option"
  tr_resource :: "string option"
  tr_client_secret :: "string option"

record validated_token_request =
  vt_grant_type :: string
  vt_code :: string
  vt_redirect_uri :: string
  vt_client_id :: string
  vt_code_verifier :: string
  vt_resource :: "string option"
  vt_client_secret :: "string option"

definition token_validate :: "token_request \<Rightarrow> oauth_error + validated_token_request" where
  "token_validate r =
     (case require_param (tr_grant_type r) ''grant_type'' of Inl err \<Rightarrow> Inl err | Inr grant_type \<Rightarrow>
     (case require_param (tr_code r) ''code'' of Inl err \<Rightarrow> Inl err | Inr code \<Rightarrow>
     (case require_param (tr_redirect_uri r) ''redirect_uri'' of Inl err \<Rightarrow> Inl err | Inr redirect_uri \<Rightarrow>
     (case require_param (tr_client_id r) ''client_id'' of Inl err \<Rightarrow> Inl err | Inr client_id \<Rightarrow>
     (case require_param (tr_code_verifier r) ''code_verifier'' of Inl err \<Rightarrow> Inl err | Inr verifier \<Rightarrow>
      Inr \<lparr>vt_grant_type = grant_type, vt_code = code, vt_redirect_uri = redirect_uri, vt_client_id = client_id,
        vt_code_verifier = verifier, vt_resource = tr_resource r, vt_client_secret = tr_client_secret r\<rparr>)))))"

record basic_credentials =
  bs_client_id :: string
  bs_client_secret :: string

definition basic_from_header :: "externals \<Rightarrow> string option \<Rightarrow> basic_credentials option" where
  "basic_from_header x authorization =
     Option.bind authorization (\<lambda>v.
     Option.bind (split_once CHR '' '' v) (\<lambda>(auth_scheme, encoded).
     if eq_ignore_ascii_case auth_scheme ''Basic'' then
       Option.bind (x_base64_text x encoded) (\<lambda>decoded.
       map_option (\<lambda>(i, secret). \<lparr>bs_client_id = i, bs_client_secret = secret\<rparr>) (split_once CHR '':'' decoded))
     else None))"

definition verify_client_secret :: "externals \<Rightarrow> string option \<Rightarrow> string option \<Rightarrow> oauth_error + unit" where
  "verify_client_secret x stored presented =
     (case (stored, presented) of
        (None, _) \<Rightarrow> Inl (OAuthInternal ConfidentialClientMissingSecret)
      | (Some _, None) \<Rightarrow> Inl (InvalidClient SecretRequired)
      | (Some h, Some p) \<Rightarrow> if sha256_hex x p = h then Inr () else Inl (InvalidClient SecretMismatch))"

definition presented_secret :: "auth_method \<Rightarrow> validated_token_request \<Rightarrow> basic_credentials option \<Rightarrow> string option" where
  "presented_secret method req basic =
     (case method of
        ClientSecretBasic \<Rightarrow> Option.bind basic (\<lambda>b. if bs_client_id b = vt_client_id req then Some (bs_client_secret b) else None)
      | _ \<Rightarrow> vt_client_secret req)"

definition enforce_client_secret :: "externals \<Rightarrow> validated_token_request \<Rightarrow> basic_credentials option \<Rightarrow> unit oauth_tx" where
  "enforce_client_secret x req basic =
     tx_bind (tx_read (client_find_by_id (vt_client_id req))) (\<lambda>found.
     case found of
       None \<Rightarrow> tx_fail (InvalidClient Unregistered)
     | Some c \<Rightarrow>
         if oc_auth_method c = AuthNone then tx_return ()
         else tx_from (verify_client_secret x (oc_secret_hash c) (presented_secret (oc_auth_method c) req basic)))"

record token_response =
  to_access_token :: string
  to_token_type :: string
  to_expires_in :: int
  to_scope :: string

definition consume_code :: "string \<Rightarrow> instant \<Rightarrow> auth_code oauth_tx" where
  "consume_code h now =
     tx_bind (during ConsumeAuthorizationCode (code_consume h now)) (\<lambda>found.
     case found of None \<Rightarrow> tx_fail (InvalidGrant UnknownOrExpiredOrUsedCode) | Some c \<Rightarrow> tx_return c)"

definition check_redirect :: "externals \<Rightarrow> auth_code \<Rightarrow> string \<Rightarrow> oauth_error + unit" where
  "check_redirect x code presented =
     (case x_parse_url x presented of
        None \<Rightarrow> Inl (InvalidGrant RedirectUriMismatch)
      | Some u \<Rightarrow> if ac_redirect_uri code = url_text u then Inr () else Inl (InvalidGrant RedirectUriMismatch))"

definition granted_scopes :: "auth_code \<Rightarrow> oauth_error + scope list" where
  "granted_scopes code =
     (case parse_scope_list (grant_or_default (ac_scope code)) of Inl t \<Rightarrow> Inl (InvalidScope t) | Inr ts \<Rightarrow> Inr ts)"

definition exchange_body :: "externals \<Rightarrow> oauth_runtime \<Rightarrow> env \<Rightarrow> uuid \<Rightarrow> nat list \<Rightarrow> validated_token_request
    \<Rightarrow> basic_credentials option \<Rightarrow> token_response ending oauth_tx" where
  "exchange_body x rt e i bytes req basic =
     tx_bind (consume_code (sha256_hex x (vt_code req)) (env_utc_now e)) (\<lambda>code.
     tx_then (tx_ensure (ac_client_id code = vt_client_id req) (InvalidGrant ClientIdMismatch))
    (tx_then (tx_from (check_redirect x code (vt_redirect_uri req)))
    (tx_then (tx_from (check_resource x (vt_resource req) (case ac_resource code of None \<Rightarrow> '''' | Some r \<Rightarrow> r)))
    (tx_then (enforce_client_secret x req basic)
    (tx_then (tx_ensure (is_valid_challenge (ac_code_challenge code)) (OAuthInternal MalformedStoredCodeChallenge))
    (tx_then (tx_ensure (verify_s256 x (ac_code_challenge code) (vt_code_verifier req)) (InvalidGrant PkceVerificationFailed))
    (tx_bind (tx_from (granted_scopes code)) (\<lambda>scopes.
     tx_bind (tx_from (expiry_after (env_utc_now e) (rt_access_token_ttl rt) AccessTokenTtlConversion)) (\<lambda>expires_at.
     tx_bind (during InsertAccessToken
         (issue_token x e i bytes (ac_principal_id code) scopes (rt_canonical_resource rt) expires_at)) (\<lambda>raw.
     tx_return (Commit \<lparr>to_access_token = raw, to_token_type = ''Bearer'',
       to_expires_in = min (rt_access_token_ttl rt div 1000000) (2 ^ 63 - 1),
       to_scope = grant_or_default (ac_scope code)\<rparr>)))))))))))"

definition exchange :: "externals \<Rightarrow> oauth_runtime \<Rightarrow> env \<Rightarrow> uuid \<Rightarrow> nat list \<Rightarrow> validated_token_request
    \<Rightarrow> basic_credentials option \<Rightarrow> (auth_db, oauth_error, token_response) proc" where
  "exchange x rt e i bytes req basic s =
     (if vt_grant_type req \<noteq> ''authorization_code'' then (Inl (InvalidRequest (UnsupportedGrantType (vt_grant_type req))), s)
      else if \<not> is_valid_verifier (vt_code_verifier req) then (Inl (InvalidGrant MalformedCodeVerifier), s)
      else run_txn (exchange_body x rt e i bytes req basic) s)"

definition token_response_json :: "token_response \<Rightarrow> json" where
  "token_response_json r = JObj [(''access_token'', JStr (to_access_token r)), (''token_type'', JStr (to_token_type r)),
     (''expires_in'', JNum (to_expires_in r)), (''scope'', JStr (to_scope r))]"

text \<open>A failed client authentication is challenged for Basic credentials.\<close>

definition token_error_response :: "oauth_error \<Rightarrow> http_response" where
  "token_error_response err =
     (case (err, into_json_response err) of
        (InvalidClient _, HttpResponse status headers body) \<Rightarrow>
          HttpResponse status (headers @ [(''www-authenticate'', ''Basic'')]) body
      | (_, response) \<Rightarrow> response)"

definition handle_token :: "externals \<Rightarrow> oauth_runtime \<Rightarrow> env \<Rightarrow> uuid \<Rightarrow> nat list \<Rightarrow> string option
    \<Rightarrow> string + token_request \<Rightarrow> auth_db \<Rightarrow> answered" where
  "handle_token x rt e i bytes authorization body s =
     (case body of
        Inl detail \<Rightarrow> (reject_with token_error_response (InvalidRequest (MalformedRequest detail)), s)
      | Inr req \<Rightarrow>
          (case token_validate req of
             Inl err \<Rightarrow> (reject_with token_error_response err, s)
           | Inr v \<Rightarrow>
               (case exchange x rt e i bytes v (basic_from_header x authorization) s of
                  (Inl err, t) \<Rightarrow> (reject_with token_error_response err, t)
                | (Inr r, t) \<Rightarrow> (Inr (HttpResponse 200 [(''cache-control'', ''no-store''), (''pragma'', ''no-cache'')]
                    (JsonBody (token_response_json r))), t))))"

end
