(* ===== verification/AuthSteps.thy ===== *)
theory AuthSteps
  imports OAuth
begin

text \<open>
  The authentication plane over time. Rows of its tables are added and never
  removed; a code is stamped once when it is consumed and a token once when it
  is revoked. The operations of the plane are the steps of a relation on worlds,
  which keep this order and the grants sound.
\<close>

section \<open>The statements\<close>

lemma principal_insert_Inr: "principal_insert e i key name binding s = Inr (p, s') \<Longrightarrow>
   pr_id p = i \<and> \<not> principal_exists i s \<and> s' = s\<lparr>ad_principals := ad_principals s @ [p]\<rparr>"
  unfolding principal_insert_def insert_guard_then
  by (auto simp: append_principal_def tx_defs new_principal_row_def)

lemma client_insert_Inr: "client_insert e n s = Inr (c, s') \<longleftrightarrow>
   (case nc_secret_hash n of None \<Rightarrow> True | Some h \<Rightarrow> is_hash_text h) \<and>
   nc_client_id n \<notin> oc_client_id ` set (ad_clients s) \<and> c = new_client_row e n \<and>
   s' = s\<lparr>ad_clients := ad_clients s @ [c]\<rparr>"
  by (auto simp: client_insert_def insert_guard_then sql_exists_iff image_iff)

lemma code_insert_Inr: "code_insert e n s = Inr (c, s') \<longleftrightarrow>
   is_hash_text (na_code_hash n) \<and> principal_exists (na_principal_id n) s \<and>
   na_code_hash n \<notin> ac_code_hash ` set (ad_codes s) \<and> c = new_code_row e n \<and>
   s' = s\<lparr>ad_codes := ad_codes s @ [c]\<rparr>"
  by (auto simp: code_insert_def insert_guard_then sql_exists_iff image_iff)

lemma token_insert_Inr: "token_insert e i n s = Inr (t, s') \<longleftrightarrow>
   is_hash_text (nt_token_hash n) \<and> principal_exists (nt_token_principal n) s \<and>
   i \<notin> at_id ` set (ad_tokens s) \<and> nt_token_hash n \<notin> at_token_hash ` set (ad_tokens s) \<and>
   t = new_token_row e i n \<and> s' = s\<lparr>ad_tokens := ad_tokens s @ [t]\<rparr>"
  by (auto simp: token_insert_def insert_guard_then sql_exists_iff image_iff)

lemma issue_token_with_record_Inr: "issue_token_with_record x e i bytes owner scopes aud expires s = Inr (r, s') \<longleftrightarrow>
   (\<exists>n. n = \<lparr>nt_token_hash = sha256_hex x (x_base64url x bytes), nt_token_principal = owner, nt_scopes = scopes,
      nt_audience = aud, nt_expires_at = expires\<rparr> \<and>
    token_insert e i n s = Inr (it_token r, s') \<and> r = \<lparr>it_raw = x_base64url x bytes, it_token = it_token r\<rparr>)"
  by (auto simp: issue_token_with_record_def Let_def generate_token_value_def tx_defs split: sum.splits)

lemma issue_token_Inr: "issue_token x e i bytes owner scopes aud expires s = Inr (raw, s') \<longleftrightarrow>
   raw = x_base64url x bytes \<and>
   (\<exists>t. token_insert e i \<lparr>nt_token_hash = sha256_hex x raw, nt_token_principal = owner, nt_scopes = scopes,
      nt_audience = aud, nt_expires_at = expires\<rparr> s = Inr (t, s'))"
  by (auto simp: issue_token_def issue_token_with_record_def Let_def generate_token_value_def tx_defs split: sum.splits)

section \<open>The order\<close>

definition code_evolves :: "auth_code \<Rightarrow> auth_code \<Rightarrow> bool" where
  "code_evolves c c' \<longleftrightarrow> c' = c \<or> ac_consumed_at c = None \<and> (\<exists>at. c' = c\<lparr>ac_consumed_at := Some at\<rparr>)"

definition token_evolves :: "auth_token \<Rightarrow> auth_token \<Rightarrow> bool" where
  "token_evolves t t' \<longleftrightarrow> t' = t \<or> at_revoked_at t = None \<and> (\<exists>at. t' = t\<lparr>at_revoked_at := Some at\<rparr>)"

definition auth_ok :: "auth_db \<Rightarrow> bool" where
  "auth_ok s \<longleftrightarrow>
     distinct (map pr_id (ad_principals s)) \<and> distinct (map oc_client_id (ad_clients s)) \<and>
     distinct (map ac_code_hash (ad_codes s)) \<and> distinct (map at_id (ad_tokens s)) \<and>
     distinct (map at_token_hash (ad_tokens s)) \<and>
     ac_principal_id ` set (ad_codes s) \<subseteq> pr_id ` set (ad_principals s) \<and>
     at_principal_id ` set (ad_tokens s) \<subseteq> pr_id ` set (ad_principals s)"

definition auth_evolves :: "auth_db \<Rightarrow> auth_db \<Rightarrow> bool" where
  "auth_evolves s s' \<longleftrightarrow>
     rows_evolve (=) (ad_principals s) (ad_principals s') \<and>
     rows_evolve (=) (ad_clients s) (ad_clients s') \<and>
     rows_evolve code_evolves (ad_codes s) (ad_codes s') \<and>
     rows_evolve token_evolves (ad_tokens s) (ad_tokens s') \<and>
     (auth_ok s \<longrightarrow> auth_ok s')"

lemma code_evolves_trans: "code_evolves a b \<Longrightarrow> code_evolves b c \<Longrightarrow> code_evolves a c"
  by (auto simp: code_evolves_def)

lemma token_evolves_trans: "token_evolves a b \<Longrightarrow> token_evolves b c \<Longrightarrow> token_evolves a c"
  by (auto simp: token_evolves_def)

lemma auth_row_refl [simp]: "code_evolves c c" "token_evolves t t"
  by (simp_all add: code_evolves_def token_evolves_def)

interpretation auth_evolves: store_order auth_evolves
proof
  show "auth_evolves s s" for s by (simp add: auth_evolves_def rows_evolve_refl)
  show "auth_evolves s u" if "auth_evolves s t" "auth_evolves t u" for s t u
    using that unfolding auth_evolves_def
    by (auto intro: rows_evolve_trans [of "(=)"] rows_evolve_trans [of code_evolves] rows_evolve_trans [of token_evolves]
        code_evolves_trans token_evolves_trans)
qed

lemma append_evolves:
  "pr_id p \<notin> pr_id ` set (ad_principals s) \<Longrightarrow> auth_evolves s (s\<lparr>ad_principals := ad_principals s @ [p]\<rparr>)"
  "oc_client_id c \<notin> oc_client_id ` set (ad_clients s) \<Longrightarrow> auth_evolves s (s\<lparr>ad_clients := ad_clients s @ [c]\<rparr>)"
  "ac_code_hash k \<notin> ac_code_hash ` set (ad_codes s) \<Longrightarrow> principal_exists (ac_principal_id k) s \<Longrightarrow>
     auth_evolves s (s\<lparr>ad_codes := ad_codes s @ [k]\<rparr>)"
  "at_id t \<notin> at_id ` set (ad_tokens s) \<Longrightarrow> at_token_hash t \<notin> at_token_hash ` set (ad_tokens s) \<Longrightarrow>
     principal_exists (at_principal_id t) s \<Longrightarrow> auth_evolves s (s\<lparr>ad_tokens := ad_tokens s @ [t]\<rparr>)"
  by (auto simp: auth_evolves_def rows_evolve_refl rows_evolve_append auth_ok_def principal_exists_def
      sql_exists_iff rev_image_eqI)

lemma stamp_evolves:
  "(\<And>c. P c \<Longrightarrow> ac_consumed_at c = None) \<Longrightarrow>
     auth_evolves s (s\<lparr>ad_codes := sql_update P (\<lambda>c. c\<lparr>ac_consumed_at := Some at\<rparr>) (ad_codes s)\<rparr>)"
  "(\<And>t. Q t \<Longrightarrow> at_revoked_at t = None) \<Longrightarrow>
     auth_evolves s (s\<lparr>ad_tokens := sql_update Q (\<lambda>t. t\<lparr>at_revoked_at := Some at\<rparr>) (ad_tokens s)\<rparr>)"
  by (auto simp: auth_evolves_def rows_evolve_refl code_evolves_def token_evolves_def auth_ok_def
      sql_update_map_key sql_update_image intro!: rows_evolve_update)

lemma keeps_auth_statements:
  "keeps auth_evolves (principal_insert e i key name binding)"
  "keeps auth_evolves (client_insert e n)"
  "keeps auth_evolves (code_insert e k)"
  "keeps auth_evolves (code_consume h now)"
  "keeps auth_evolves (token_insert e i m)"
  "keeps auth_evolves (token_revoke i now)"
  "keeps auth_evolves (token_revoke_all owner now)"
proof -
  show "keeps auth_evolves (principal_insert e i key name binding)"
    by (auto intro!: keepsI append_evolves dest!: principal_insert_Inr simp: principal_exists_def sql_exists_iff)
  show "keeps auth_evolves (client_insert e n)"
    by (auto intro!: keepsI append_evolves simp: client_insert_Inr new_client_row_def)
  show "keeps auth_evolves (code_insert e k)"
    by (auto intro!: keepsI append_evolves simp: code_insert_Inr new_code_row_def)
  show "keeps auth_evolves (token_insert e i m)"
    by (auto intro!: keepsI append_evolves simp: token_insert_Inr new_token_row_def)
  show "keeps auth_evolves (code_consume h now)"
    by (auto intro!: keepsI stamp_evolves simp: code_consume_def consumable_def Let_def)
  show "keeps auth_evolves (token_revoke i now)"
    by (auto intro!: keepsI stamp_evolves simp: token_revoke_def revocable_def Let_def split: option.splits)
  show "keeps auth_evolves (token_revoke_all owner now)"
    by (auto intro!: keepsI stamp_evolves simp: token_revoke_all_def Let_def)
qed

section \<open>What a successful request went through\<close>

lemma during_Inr [simp]: "during op m s = Inr r \<longleftrightarrow> m s = Inr r"
  by (auto simp: during_def tx_map_err_def split: sum.splits)

lemma keeps_during: "keeps R m \<Longrightarrow> keeps R (during op m)"
  by (simp add: keeps_def)

declare tx_from_Inr [simp] tx_ensure_Inr [simp]

lemmas auth_success = tx_success during_Inr

lemma consume_code_Inr: "consume_code h now s = Inr (c, s') \<longleftrightarrow>
   (\<exists>c0. find (consumable h now) (ad_codes s) = Some c0 \<and> c = c0\<lparr>ac_consumed_at := Some now\<rparr>) \<and>
   s' = s\<lparr>ad_codes := sql_update (consumable h now) (\<lambda>c. c\<lparr>ac_consumed_at := Some now\<rparr>) (ad_codes s)\<rparr>"
  by (auto simp: consume_code_def auth_success code_consume_def Let_def tx_fail_app tx_return_app split: option.splits)

lemma expiry_after_Inr: "expiry_after now ttl op = Inr at \<longleftrightarrow>
   at = now + ttl \<and> ttl \<le> time_delta_max \<and> at \<le> date_time_max"
  by (auto simp: expiry_after_def)

lemma check_resource_Inr: "check_resource x resource expected = Inr r \<longleftrightarrow>
   r = expected \<and> (\<exists>raw u. resource = Some raw \<and> x_parse_url x raw = Some u \<and> url_fragment u = None \<and>
     canonicalise_resource_url u = expected)"
  by (auto simp: check_resource_def split: option.splits)

lemma check_redirect_Inr: "check_redirect x code raw = Inr u \<longleftrightarrow>
   (\<exists>v. x_parse_url x raw = Some v \<and> ac_redirect_uri code = url_text v)"
  by (auto simp: check_redirect_def split: option.splits)

text \<open>How a client proves itself.\<close>

definition proves_secret :: "externals \<Rightarrow> oauth_client \<Rightarrow> validated_token_request \<Rightarrow> basic_credentials option \<Rightarrow> bool" where
  "proves_secret x c req basic \<longleftrightarrow> oc_auth_method c = AuthNone \<or>
     (\<exists>secret. oc_secret_hash c = Some (sha256_hex x secret) \<and>
        (oc_auth_method c = ClientSecretBasic \<longrightarrow>
           (\<exists>b. basic = Some b \<and> bs_client_id b = vt_client_id req \<and> bs_client_secret b = secret)) \<and>
        (oc_auth_method c = ClientSecretPost \<longrightarrow> vt_client_secret req = Some secret))"

lemma verify_client_secret_Inr: "verify_client_secret x stored presented = Inr u \<longleftrightarrow>
   (\<exists>p. presented = Some p \<and> stored = Some (sha256_hex x p))"
  by (auto simp: verify_client_secret_def split: option.splits)

lemma presented_secret_Some: "presented_secret m req basic = Some p \<longleftrightarrow>
   (if m = ClientSecretBasic then \<exists>b. basic = Some b \<and> bs_client_id b = vt_client_id req \<and> bs_client_secret b = p
    else vt_client_secret req = Some p)"
  by (cases m) (auto simp: presented_secret_def bind_eq_Some_conv split: if_splits)

lemma enforce_client_secret_Inr: "enforce_client_secret x req basic s = Inr (u, s') \<longleftrightarrow>
   s' = s \<and> (\<exists>c. client_find_by_id (vt_client_id req) s = Some c \<and> proves_secret x c req basic)"
proof (cases "client_find_by_id (vt_client_id req) s")
  case None
  then show ?thesis by (simp add: enforce_client_secret_def auth_success tx_defs)
next
  case (Some c)
  then show ?thesis
    by (cases "oc_auth_method c")
      (auto simp: enforce_client_secret_def auth_success tx_read_app tx_return_app proves_secret_def verify_client_secret_Inr
        presented_secret_Some)
qed

lemma granted_scopes_Inr: "granted_scopes code = Inr ts \<longleftrightarrow> parse_scope_list (grant_or_default (ac_scope code)) = Inr ts"
  by (auto simp: granted_scopes_def split: sum.splits)

definition consumed_state :: "string \<Rightarrow> instant \<Rightarrow> auth_db \<Rightarrow> auth_db" where
  "consumed_state h now s =
     s\<lparr>ad_codes := sql_update (consumable h now) (\<lambda>c. c\<lparr>ac_consumed_at := Some now\<rparr>) (ad_codes s)\<rparr>"

lemma consumed_state_tables [simp]:
  "ad_clients (consumed_state h now s) = ad_clients s" "ad_tokens (consumed_state h now s) = ad_tokens s"
  "ad_principals (consumed_state h now s) = ad_principals s"
  by (simp_all add: consumed_state_def)

lemma exchange_success:
  assumes "exchange x rt e i bytes req basic s = (Inr r, s')"
  obtains code c v u raw scopes where
    "find (consumable (sha256_hex x (vt_code req)) (env_utc_now e)) (ad_codes s) = Some code"
    "ac_client_id code = vt_client_id req"
    "x_parse_url x (vt_redirect_uri req) = Some v" "ac_redirect_uri code = url_text v"
    "vt_resource req = Some raw" "x_parse_url x raw = Some u" "url_fragment u = None"
    "canonicalise_resource_url u = (case ac_resource code of None \<Rightarrow> '''' | Some r \<Rightarrow> r)"
    "client_find_by_id (vt_client_id req) s = Some c" "proves_secret x c req basic"
    "is_valid_verifier (vt_code_verifier req)" "is_valid_challenge (ac_code_challenge code)"
    "derive_s256 x (vt_code_verifier req) = ac_code_challenge code"
    "parse_scope_list (grant_or_default (ac_scope code)) = Inr scopes"
    "env_utc_now e + rt_access_token_ttl rt \<le> date_time_max"
    "to_access_token r = x_base64url x bytes" "to_scope r = grant_or_default (ac_scope code)"
    "token_insert e i \<lparr>nt_token_hash = sha256_hex x (to_access_token r), nt_token_principal = ac_principal_id code,
       nt_scopes = scopes, nt_audience = rt_canonical_resource rt,
       nt_expires_at = env_utc_now e + rt_access_token_ttl rt\<rparr>
       (consumed_state (sha256_hex x (vt_code req)) (env_utc_now e) s)
     = Inr (new_token_row e i \<lparr>nt_token_hash = sha256_hex x (to_access_token r), nt_token_principal = ac_principal_id code,
       nt_scopes = scopes, nt_audience = rt_canonical_resource rt,
       nt_expires_at = env_utc_now e + rt_access_token_ttl rt\<rparr>, s')"
proof -
  have v: "is_valid_verifier (vt_code_verifier req)" and run: "run_txn (exchange_body x rt e i bytes req basic) s = (Inr r, s')"
    using assms by (auto simp: exchange_def split: if_splits)
  have "\<exists>r. fin = Commit r" if "exchange_body x rt e i bytes req basic s = Inr (fin, t)" for fin t
    using that by (auto simp: exchange_body_def auth_success tx_return_app)
  then have "exchange_body x rt e i bytes req basic s = Inr (Commit r, s')"
    using run by (fastforce simp: run_txn_def split: sum.splits ending.splits)
  then show ?thesis
    by (auto simp: exchange_body_def auth_success consume_code_Inr check_redirect_Inr check_resource_Inr enforce_client_secret_Inr
        granted_scopes_Inr expiry_after_Inr issue_token_Inr tx_return_app verify_s256_def derive_s256_def
        client_find_by_id_def token_insert_Inr consumed_state_def v
        intro!: that)
qed

section \<open>Sound grants\<close>

definition safe_redirect :: "url \<Rightarrow> bool" where
  "safe_redirect u \<longleftrightarrow> url_fragment u = None \<and>
     (url_scheme u = ''https'' \<or>
      url_scheme u = ''http'' \<and> (\<exists>h. url_host u = Some h \<and> is_loopback_host h))"

definition redirects_for :: "externals \<Rightarrow> oauth_client \<Rightarrow> url \<Rightarrow> bool" where
  "redirects_for x c u \<longleftrightarrow>
     (\<exists>raw \<in> set (oc_redirect_uris c). \<exists>reg. x_parse_url x raw = Some reg \<and> (u = reg \<or> matches_redirect_uri reg u))"

definition client_sound :: "externals \<Rightarrow> oauth_client \<Rightarrow> bool" where
  "client_sound x c \<longleftrightarrow> registered_ok (oc_scope c) \<and>
     (\<forall>raw \<in> set (oc_redirect_uris c). validate_redirect_uri x raw = Inr ()) \<and>
     (oc_auth_method c \<noteq> AuthNone \<longrightarrow> oc_secret_hash c \<noteq> None)"

definition resolved_sound :: "externals \<Rightarrow> oauth_client set \<Rightarrow> validated_query \<Rightarrow> resolved_client \<Rightarrow> bool" where
  "resolved_sound x cs v r \<longleftrightarrow>
     (\<exists>c \<in> cs. oc_client_id c = vq_client_id v \<and> rv_registered_scope r = oc_scope c \<and>
        redirects_for x c (rv_redirect_uri r))"

definition code_sound :: "externals \<Rightarrow> oauth_runtime \<Rightarrow> oauth_client set \<Rightarrow> auth_code \<Rightarrow> bool" where
  "code_sound x rt cs k \<longleftrightarrow>
     ac_resource k = Some (rt_canonical_resource rt) \<and> is_valid_challenge (ac_code_challenge k) \<and>
     (\<exists>c \<in> cs. oc_client_id c = ac_client_id k \<and>
        (\<exists>g. ac_scope k = Some g \<and> grant_or_default (Some g) = g \<and> bounded_grant (oc_scope c) g) \<and>
        (\<exists>u. ac_redirect_uri k = url_text u \<and> redirects_for x c u))"

definition db_sound :: "externals \<Rightarrow> oauth_runtime \<Rightarrow> auth_db \<Rightarrow> bool" where
  "db_sound x rt s \<longleftrightarrow> (\<forall>c \<in> set (ad_clients s). client_sound x c) \<and>
     (\<forall>k \<in> set (ad_codes s). code_sound x rt (set (ad_clients s)) k)"

lemma code_sound_mono: "code_sound x rt cs k \<Longrightarrow> cs \<subseteq> ds \<Longrightarrow> code_sound x rt ds k"
  unfolding code_sound_def by blast

lemma resolved_sound_mono: "resolved_sound x cs v r \<Longrightarrow> cs \<subseteq> ds \<Longrightarrow> resolved_sound x ds v r"
  unfolding resolved_sound_def by blast

lemma code_sound_stamp [simp]: "code_sound x rt cs (k\<lparr>ac_consumed_at := at\<rparr>) = code_sound x rt cs k"
  by (simp add: code_sound_def)

lemma redirects_safe:
  assumes "client_sound x c" "redirects_for x c u"
  shows "safe_redirect u"
proof -
  obtain raw reg where "raw \<in> set (oc_redirect_uris c)" and reg: "x_parse_url x raw = Some reg"
    and u: "u = reg \<or> matches_redirect_uri reg u" using assms(2) by (auto simp: redirects_for_def)
  then have "validate_redirect_uri x raw = Inr ()" using assms(1) by (simp add: client_sound_def)
  then have "safe_redirect reg" using reg
    by (auto simp: validate_redirect_uri_def safe_redirect_def split: if_splits option.splits)
  moreover have "safe_redirect u" if "matches_redirect_uri reg u"
    using that calculation by (cases "url_host u") (auto simp: matches_redirect_uri_def safe_redirect_def)
  ultimately show ?thesis using u by blast
qed

lemma rows_evolve_same: "rows_evolve (=) xs ys \<Longrightarrow> set xs \<subseteq> set ys"
  by (auto elim: rows_evolve_mem)

section \<open>Scope texts\<close>

lemma dropWhile_idem [simp]: "dropWhile P (dropWhile P x) = dropWhile P x"
  by (induction x) auto

lemma dropWhile_hd: "dropWhile P x = [] \<or> \<not> P (hd (dropWhile P x))"
  by (induction x) auto

lemma trim_trim [simp]: "trim (trim x) = trim x"
proof -
  let ?y = "dropWhile is_whitespace x" and ?z = "rev (dropWhile is_whitespace (rev (dropWhile is_whitespace x)))"
  obtain w where w: "?y = ?z @ w"
    by (metis rev_append rev_rev_ident takeWhile_dropWhile_id)
  have "dropWhile is_whitespace ?z = ?z"
  proof (cases ?z)
    case (Cons c cs)
    then have "?y = c # cs @ w" using w by simp
    then have "\<not> is_whitespace c" using dropWhile_hd [of is_whitespace x] by (metis list.distinct(1) list.sel(1))
    then show ?thesis unfolding Cons by simp
  next
    case Nil
    show ?thesis unfolding Nil by simp
  qed
  then show ?thesis by (simp add: trim_def)
qed

lemma present_scope_trimmed: "present_scope raw = Some g \<Longrightarrow> trim g = g \<and> g \<noteq> []"
  by (auto simp: present_scope_def split: option.splits if_splits)

lemma effective_scope_kept: "grant_or_default (Some (effective_scope requested registered)) = effective_scope requested registered"
proof -
  have "trim default_grant_scope = default_grant_scope" "default_grant_scope \<noteq> []" by code_simp+
  then have "trim (effective_scope requested registered) = effective_scope requested registered \<and>
      effective_scope requested registered \<noteq> []"
    using present_scope_trimmed [of requested] present_scope_trimmed [of registered]
    by (simp add: effective_scope_def split: option.split)
  then show ?thesis by (simp add: grant_or_default_def present_scope_def)
qed

lemma catalogued_check: "check_catalogued reject scope = Inr u \<longleftrightarrow> (\<forall>g. scope = Some g \<longrightarrow> first_uncatalogued_scope g = None)"
  by (cases scope) (auto simp: check_catalogued_def split: option.splits)

lemma within_check: "check_within_registration registered requested = Inr u \<longleftrightarrow>
   (\<forall>r q. registered = Some r \<longrightarrow> requested = Some q \<longrightarrow> scope_exceeding_registration q r = None)"
  by (auto simp: check_within_registration_def split: option.splits)

section \<open>The operations keep the grants sound\<close>

definition soundly :: "externals \<Rightarrow> oauth_runtime \<Rightarrow> auth_db \<Rightarrow> auth_db \<Rightarrow> bool" where
  "soundly x rt s s' \<longleftrightarrow> auth_evolves s s' \<and> (db_sound x rt s \<longrightarrow> db_sound x rt s')"

interpretation soundly: store_order "soundly x rt"
  by unfold_locales (auto simp: soundly_def intro: auth_evolves.order_refl auth_evolves.order_trans)

lemma keeps_sound_other:
  assumes "keeps auth_evolves m" "\<And>s a s'. m s = Inr (a, s') \<Longrightarrow> ad_clients s' = ad_clients s \<and> ad_codes s' = ad_codes s"
  shows "keeps (soundly x rt) m"
  using assms unfolding keeps_def soundly_def db_sound_def by fastforce

lemma keeps_sound_statements:
  "keeps (soundly x rt) (principal_insert e i key name binding)"
  "keeps (soundly x rt) (code_consume h now)"
  "keeps (soundly x rt) (token_insert e i m)"
  "keeps (soundly x rt) (token_revoke i now)"
  "keeps (soundly x rt) (token_revoke_all owner now)"
proof -
  show "keeps (soundly x rt) (principal_insert e i key name binding)"
    by (rule keeps_sound_other [OF keeps_auth_statements(1)]) (auto dest!: principal_insert_Inr)
  show "keeps (soundly x rt) (token_insert e i m)"
    by (rule keeps_sound_other [OF keeps_auth_statements(5)]) (auto simp: token_insert_Inr)
  show "keeps (soundly x rt) (token_revoke i now)"
    by (rule keeps_sound_other [OF keeps_auth_statements(6)]) (auto simp: token_revoke_def Let_def split: option.splits)
  show "keeps (soundly x rt) (token_revoke_all owner now)"
    by (rule keeps_sound_other [OF keeps_auth_statements(7)]) (auto simp: token_revoke_all_def Let_def)
  show "keeps (soundly x rt) (code_consume h now)"
  proof (rule keepsI)
    fix s :: auth_db and a s'
    assume run: "code_consume h now s = Inr (a, s')"
    then have "auth_evolves s s'" using keepsD [OF keeps_auth_statements(4)] by blast
    moreover have "db_sound x rt s \<longrightarrow> db_sound x rt s'"
      using run by (auto simp: code_consume_def Let_def db_sound_def elim!: sql_update_cases)
    ultimately show "soundly x rt s s'" by (simp add: soundly_def)
  qed
qed

lemma tx_each_from: "tx_each (\<lambda>v. tx_from (f v)) vs s = Inr (u, s') \<longleftrightarrow> s' = s \<and> (\<forall>v \<in> set vs. \<exists>w. f v = Inr w)"
  by (induction vs) (auto simp: auth_success tx_return_app)

lemma register_success:
  assumes "register x e id_bytes secret_bytes req s = Inr (r, s')"
  obtains n c where "client_insert e n s = Inr (c, s')" "client_sound x c"
proof -
  let ?uris = "case rg_redirect_uris req of None \<Rightarrow> [] | Some us \<Rightarrow> us" and ?scope = "present_scope (rg_scope req)"
  obtain name how kind c grants responses secret where
    uris: "\<forall>raw \<in> set ?uris. \<exists>w. validate_redirect_uri x raw = Inr w"
    and cat: "check_catalogued (\<lambda>t. InvalidClientMetadata (UnsupportedScope t)) ?scope = Inr ()"
    and secret: "secret = (if requires_secret how then Some (generate_token_value x secret_bytes) else None)"
    and ins: "client_insert e (registered_client x id_bytes secret name ?uris grants responses how ?scope kind) s = Inr (c, s')"
    using assms by (auto simp: register_def Let_def auth_success tx_each_from tx_return_app)
  have "registered_ok ?scope"
  proof (cases ?scope)
    case (Some g)
    then have "trim g = g" "g \<noteq> []" using present_scope_trimmed by blast+
    then show ?thesis using cat Some by (simp add: registered_ok_def catalogued_check)
  qed (simp add: registered_ok_def)
  then have "client_sound x c"
    using ins uris secret
    by (cases how) (auto simp: client_insert_Inr client_sound_def new_client_row_def registered_client_def)
  with ins show ?thesis by (rule that)
qed

lemma issue_code_success:
  assumes "issue_code x rt e bytes q r s = Inr (response, s')"
  obtains owner at where
    "find (\<lambda>p. pr_key p = local_principal_key) (ad_principals s) = Some owner"
    "is_valid_challenge (vq_code_challenge q)" "at = env_utc_now e + rt_authorization_code_ttl rt"
    "\<forall>g. vq_scope q = Some g \<longrightarrow> first_uncatalogued_scope g = None"
    "\<forall>g reg. vq_scope q = Some g \<longrightarrow> rv_registered_scope r = Some reg \<longrightarrow> scope_exceeding_registration g reg = None"
    "consent_page_response x (rv_redirect_uri r) (x_base64url x bytes) (vq_state q) (vq_client_id q) (rv_client_name r)
       (effective_scope (vq_scope q) (rv_registered_scope r)) = Inr response"
    "code_insert e (issued_code x (x_base64url x bytes) q r (rt_canonical_resource rt) (pr_id owner) at) s
       = Inr (new_code_row e (issued_code x (x_base64url x bytes) q r (rt_canonical_resource rt) (pr_id owner) at), s')"
proof -
  obtain canonical owner at k where
    run: "is_valid_challenge (vq_code_challenge q)" "check_catalogued InvalidScope (vq_scope q) = Inr ()"
    "check_within_registration (rv_registered_scope r) (vq_scope q) = Inr ()"
    "check_resource x (vq_resource q) (rt_canonical_resource rt) = Inr canonical"
    "local_principal_id s = Inr (owner, s)"
    "expiry_after (env_utc_now e) (rt_authorization_code_ttl rt) AuthorizationCodeTtlConversion = Inr at"
    "consent_page_response x (rv_redirect_uri r) (x_base64url x bytes) (vq_state q) (vq_client_id q) (rv_client_name r)
       (effective_scope (vq_scope q) (rv_registered_scope r)) = Inr response"
    "code_insert e (issued_code x (x_base64url x bytes) q r canonical owner at) s = Inr (k, s')"
    using assms by (auto simp: issue_code_def auth_success tx_return_app local_principal_id_def split: option.splits)
  obtain p where p: "find (\<lambda>p. pr_key p = local_principal_key) (ad_principals s) = Some p" "owner = pr_id p"
    using run(5) by (auto simp: local_principal_id_def principal_find_by_key_def split: option.splits)
  have "canonical = rt_canonical_resource rt" using run(4) by (simp add: check_resource_Inr)
  then show ?thesis
    using run p by (intro that [of p at]) (auto simp: catalogued_check within_check expiry_after_Inr code_insert_Inr)
qed

lemma keeps_sound_register: "keeps (soundly x rt) (register x e id_bytes secret_bytes req)"
proof (rule keepsI)
  fix s r s'
  assume "register x e id_bytes secret_bytes req s = Inr (r, s')"
  then obtain n c where ins: "client_insert e n s = Inr (c, s')" and c: "client_sound x c" by (rule register_success)
  have "auth_evolves s s'" using keepsD [OF keeps_auth_statements(2) ins] .
  moreover have "ad_clients s' = ad_clients s @ [c]" "ad_codes s' = ad_codes s" using ins by (auto simp: client_insert_Inr)
  ultimately show "soundly x rt s s'"
    using c by (auto simp: soundly_def db_sound_def intro: code_sound_mono)
qed

lemma issued_sound:
  assumes "issue_code x rt e bytes q r s = Inr (response, s')" "db_sound x rt s" "resolved_sound x (set (ad_clients s)) q r"
  shows "db_sound x rt s'"
proof -
  obtain owner :: principal and at where chal: "is_valid_challenge (vq_code_challenge q)"
    and cat: "\<forall>g. vq_scope q = Some g \<longrightarrow> first_uncatalogued_scope g = None"
    and reg: "\<forall>g reg. vq_scope q = Some g \<longrightarrow> rv_registered_scope r = Some reg \<longrightarrow> scope_exceeding_registration g reg = None"
    and ins: "code_insert e (issued_code x (x_base64url x bytes) q r (rt_canonical_resource rt) (pr_id owner) at) s
       = Inr (new_code_row e (issued_code x (x_base64url x bytes) q r (rt_canonical_resource rt) (pr_id owner) at), s')"
    using assms(1) by (rule issue_code_success) (rule that)
  let ?k = "new_code_row e (issued_code x (x_base64url x bytes) q r (rt_canonical_resource rt) (pr_id owner) at)"
  have s': "s' = s\<lparr>ad_codes := ad_codes s @ [?k]\<rparr>" using ins by (simp add: code_insert_Inr)
  obtain c where c: "c \<in> set (ad_clients s)" "oc_client_id c = vq_client_id q" "rv_registered_scope r = oc_scope c"
    "redirects_for x c (rv_redirect_uri r)" using assms(3) by (auto simp: resolved_sound_def)
  then have "registered_ok (rv_registered_scope r)" using assms(2) by (auto simp: db_sound_def client_sound_def)
  then have "bounded_grant (oc_scope c) (effective_scope (vq_scope q) (oc_scope c))"
    using cat reg c(3) by (intro effective_bounded) auto
  then have "code_sound x rt (set (ad_clients s)) ?k"
    using c chal effective_scope_kept unfolding code_sound_def
    by (auto simp: new_code_row_def issued_code_def)
  then show ?thesis using assms(2) by (simp add: s' db_sound_def)
qed

lemma keeps_evolves_issue_code: "keeps auth_evolves (issue_code x rt e bytes q r)"
  by (rule keepsI) (blast elim: issue_code_success intro: keepsD [OF keeps_auth_statements(3)])

lemma keeps_sound_issue_token:
  "keeps (soundly x rt) (issue_token y e i bytes owner scopes aud at)"
  "keeps (soundly x rt) (issue_token_with_record y e i bytes owner scopes aud at)"
  using keepsD [OF keeps_sound_statements(3)]
  by (auto simp: keeps_def issue_token_Inr issue_token_with_record_Inr)

lemma exchange_sound: "soundly x rt s (snd (exchange y qt e i bytes req basic s))"
proof (cases "fst (exchange y qt e i bytes req basic s)")
  case (Inl err)
  then have "snd (exchange y qt e i bytes req basic s) = s"
    by (auto simp: exchange_def run_txn_def split: if_splits sum.splits ending.splits)
  then show ?thesis by (simp add: soundly.order_refl)
next
  case (Inr r)
  then obtain s' where run: "exchange y qt e i bytes req basic s = (Inr r, s')" by (metis prod.collapse)
  then obtain n t where ins: "token_insert e i n (consumed_state (sha256_hex y (vt_code req)) (env_utc_now e) s) = Inr (t, s')"
    by (rule exchange_success)
  obtain c where "code_consume (sha256_hex y (vt_code req)) (env_utc_now e) s
      = Inr (c, consumed_state (sha256_hex y (vt_code req)) (env_utc_now e) s)"
    by (simp add: code_consume_def consumed_state_def Let_def)
  then have "soundly x rt s s'"
    using keepsD [OF keeps_sound_statements(2)] keepsD [OF keeps_sound_statements(3) ins] soundly.order_trans by blast
  then show ?thesis by (simp add: run)
qed

section \<open>The plane as a transition system\<close>

text \<open>A client resolved for a request is remembered, because the code is inserted
  later. Identifiers of principals are fresh.\<close>

record auth_world =
  aw_db :: auth_db
  aw_resolved :: "(validated_query \<times> resolved_client) set"

definition auth_start :: auth_world where
  "auth_start = \<lparr>aw_db = auth_empty, aw_resolved = {}\<rparr>"

inductive auth_step :: "externals \<Rightarrow> oauth_runtime \<Rightarrow> auth_world \<Rightarrow> auth_world \<Rightarrow> bool" for x rt where
  step_principal: "auth_step x rt w (w\<lparr>aw_db := executed (principal_insert e i key name binding) (aw_db w)\<rparr>)"
| step_ensure_local: "\<not> principal_exists i (aw_db w) \<Longrightarrow>
    auth_step x rt w (w\<lparr>aw_db := executed (principal_ensure_local e i key) (aw_db w)\<rparr>)"
| step_bind_principal: "\<not> principal_exists i (aw_db w) \<Longrightarrow>
    auth_step x rt w (w\<lparr>aw_db := executed (principal_find_or_create_bound e i b) (aw_db w)\<rparr>)"
| step_register: "auth_step x rt w (w\<lparr>aw_db := executed (register x e id_bytes secret_bytes req) (aw_db w)\<rparr>)"
| step_resolve: "validate_pre_redirect x q (aw_db w) = Inr (r, s) \<Longrightarrow>
    auth_step x rt w (w\<lparr>aw_resolved := insert (q, r) (aw_resolved w)\<rparr>)"
| step_issue: "(q, r) \<in> aw_resolved w \<Longrightarrow>
    auth_step x rt w (w\<lparr>aw_db := executed (issue_code x rt e bytes q r) (aw_db w)\<rparr>)"
| step_exchange: "auth_step x rt w (w\<lparr>aw_db := snd (exchange x rt e i bytes treq basic (aw_db w))\<rparr>)"
| step_mint: "auth_step x rt w
    (w\<lparr>aw_db := executed (issue_token_with_record x e i bytes owner scopes aud expires) (aw_db w)\<rparr>)"
| step_revoke: "auth_step x rt w (w\<lparr>aw_db := executed (token_revoke i now) (aw_db w)\<rparr>)"
| step_revoke_all: "auth_step x rt w (w\<lparr>aw_db := executed (token_revoke_all own now) (aw_db w)\<rparr>)"

definition auth_run :: "externals \<Rightarrow> oauth_runtime \<Rightarrow> auth_world \<Rightarrow> auth_world \<Rightarrow> bool" where
  "auth_run x rt = (auth_step x rt)\<^sup>*\<^sup>*"

lemma executed_principal_evolves:
  assumes "\<not> principal_exists i s"
  shows "soundly x rt s (executed (principal_ensure_local e i key) s)"
    "soundly x rt s (executed (principal_find_or_create_bound e i b) s)"
proof -
  have app: "soundly x rt s (s\<lparr>ad_principals := ad_principals s @ [p]\<rparr>)" if "pr_id p = i" for p
  proof -
    have "auth_evolves s (s\<lparr>ad_principals := ad_principals s @ [p]\<rparr>)"
      using assms that by (intro append_evolves) (auto simp: principal_exists_def sql_exists_iff)
    then show ?thesis by (simp add: soundly_def db_sound_def)
  qed
  show "soundly x rt s (executed (principal_ensure_local e i key) s)"
    using app by (auto simp: executed_def principal_ensure_local_def append_principal_def tx_defs new_principal_row_def
        soundly.order_refl split: option.splits)
  show "soundly x rt s (executed (principal_find_or_create_bound e i b) s)"
    using app by (auto simp: executed_def principal_find_or_create_bound_def append_principal_def tx_defs
        new_principal_row_def soundly.order_refl split: option.splits)
qed

lemma executed_sound: "keeps (soundly x rt) m \<Longrightarrow>
   auth_evolves s (executed m s) \<and> (db_sound x rt s \<longrightarrow> db_sound x rt (executed m s))"
  using soundly.executed_keeps unfolding soundly_def by blast

lemma step_soundly:
  assumes "auth_step x rt w w'"
  shows "auth_evolves (aw_db w) (aw_db w')"
proof -
  note soundD = executed_sound [of x rt _ "aw_db w"]
  from assms show ?thesis
  proof cases
    case (step_issue q r e bytes)
    then show ?thesis using auth_evolves.executed_keeps [OF keeps_evolves_issue_code] by simp
  next
    case (step_register e id_bytes secret_bytes req)
    then show ?thesis using soundD [OF keeps_sound_register] by simp
  next
    case (step_exchange e i bytes treq basic)
    then show ?thesis using exchange_sound [of x rt "aw_db w"] by (simp add: soundly_def)
  next
    case (step_mint e i bytes owner scopes aud expires)
    then show ?thesis using soundD [OF keeps_sound_issue_token(2)] by simp
  next
    case (step_ensure_local i e key)
    then show ?thesis using executed_principal_evolves(1) [of i "aw_db w"] by (simp add: soundly_def)
  next
    case (step_bind_principal i e b)
    then show ?thesis using executed_principal_evolves(2) [of i "aw_db w"] by (simp add: soundly_def)
  qed (use soundD [OF keeps_sound_statements(1)] soundD [OF keeps_sound_statements(4)]
      soundD [OF keeps_sound_statements(5)] auth_evolves.order_refl in simp_all)
qed

lemma run_evolves:
  assumes "auth_run x rt w w'"
  shows "auth_evolves (aw_db w) (aw_db w')"
  using assms unfolding auth_run_def
  by (induction rule: rtranclp_induct) (auto intro: auth_evolves.order_refl auth_evolves.order_trans step_soundly)

definition world_sound :: "externals \<Rightarrow> oauth_runtime \<Rightarrow> auth_world \<Rightarrow> bool" where
  "world_sound x rt w \<longleftrightarrow> auth_ok (aw_db w) \<and> db_sound x rt (aw_db w) \<and>
     (\<forall>(q, r) \<in> aw_resolved w. resolved_sound x (set (ad_clients (aw_db w))) q r)"

lemma start_sound: "world_sound x rt auth_start"
  by (simp add: world_sound_def auth_start_def auth_empty_def auth_ok_def db_sound_def)

lemma those_Some: "those xs = Some ys \<Longrightarrow> xs = map Some ys"
  by (induction xs arbitrary: ys) (auto split: option.splits)

lemma resolves_soundly:
  assumes "validate_pre_redirect x q s = Inr (r, s')"
  shows "resolved_sound x (set (ad_clients s)) q r"
proof -
  obtain c us u where c: "client_find_by_id (vq_client_id q) s = Some c"
    and us: "those (map (x_parse_url x) (oc_redirect_uris c)) = Some us"
    and u: "resolve_redirect_uri x (vq_redirect_uri q) us = Inr u"
    and r: "r = \<lparr>rv_redirect_uri = u, rv_registered_scope = oc_scope c, rv_client_name = oc_client_name c\<rparr>"
    using assms by (auto simp: validate_pre_redirect_def resolve_client_def parse_registered_redirect_uris_def auth_success
        tx_return_app split: option.splits)
  have "reg \<in> set us \<Longrightarrow> \<exists>raw \<in> set (oc_redirect_uris c). x_parse_url x raw = Some reg" for reg
    using those_Some [OF us] by (metis (no_types, lifting) imageE imageI list.set_map)
  note us = this
  have "redirects_for x c u"
    using u us by (fastforce simp: resolve_redirect_uri_def redirects_for_def list_ex_iff split: option.splits if_splits list.splits)
  then show ?thesis
    using c r find_Some_set [of _ "ad_clients s" c] by (auto simp: resolved_sound_def client_find_by_id_def)
qed

lemma step_db_sound:
  assumes "auth_step x rt w w'" "world_sound x rt w"
  shows "db_sound x rt (aw_db w')"
proof -
  have db: "db_sound x rt (aw_db w)" using assms(2) by (simp add: world_sound_def)
  note soundD = executed_sound [of x rt _ "aw_db w"]
  from assms(1) show ?thesis
  proof cases
    case (step_issue q r e bytes)
    then have "resolved_sound x (set (ad_clients (aw_db w))) q r" using assms(2) by (auto simp: world_sound_def)
    then show ?thesis using step_issue issued_sound [OF _ db] db
      by (fastforce simp: executed_def split: sum.splits)
  next
    case (step_register e id_bytes secret_bytes req)
    then show ?thesis using soundD [OF keeps_sound_register] db by simp
  next
    case (step_exchange e i bytes treq basic)
    then show ?thesis using exchange_sound [of x rt "aw_db w"] db by (simp add: soundly_def)
  next
    case (step_mint e i bytes owner scopes aud expires)
    then show ?thesis using soundD [OF keeps_sound_issue_token(2)] db by simp
  next
    case (step_ensure_local i e key)
    then show ?thesis using executed_principal_evolves(1) [of i "aw_db w"] db by (simp add: soundly_def)
  next
    case (step_bind_principal i e b)
    then show ?thesis using executed_principal_evolves(2) [of i "aw_db w"] db by (simp add: soundly_def)
  qed (use soundD [OF keeps_sound_statements(1)] soundD [OF keeps_sound_statements(4)]
      soundD [OF keeps_sound_statements(5)] db in simp_all)
qed

lemma step_resolved:
  assumes "auth_step x rt w w'" "(q, r) \<in> aw_resolved w'" "(q, r) \<notin> aw_resolved w"
  shows "resolved_sound x (set (ad_clients (aw_db w))) q r"
  using assms(1) by cases (use assms(2,3) resolves_soundly in auto)

lemma step_world_sound:
  assumes step: "auth_step x rt w w'" and sound: "world_sound x rt w"
  shows "world_sound x rt w'"
proof -
  have ev: "auth_evolves (aw_db w) (aw_db w')" by (rule step_soundly [OF step])
  then have grow: "set (ad_clients (aw_db w)) \<subseteq> set (ad_clients (aw_db w'))"
    by (auto simp: auth_evolves_def dest: rows_evolve_same)
  have "resolved_sound x (set (ad_clients (aw_db w'))) q r" if "(q, r) \<in> aw_resolved w'" for q r
  proof (rule resolved_sound_mono [OF _ grow])
    show "resolved_sound x (set (ad_clients (aw_db w))) q r"
      using sound step_resolved [OF step that] by (cases "(q, r) \<in> aw_resolved w") (auto simp: world_sound_def)
  qed
  then show ?thesis
    using ev step_db_sound [OF step sound] sound by (auto simp: world_sound_def auth_evolves_def)
qed

lemma run_sound:
  assumes "auth_run x rt w w'" "world_sound x rt w"
  shows "world_sound x rt w'"
  using assms unfolding auth_run_def by (induction rule: rtranclp_induct) (auto intro: step_world_sound)

lemma reachable_sound: "auth_run x rt auth_start w \<Longrightarrow> world_sound x rt w"
  by (rule run_sound [OF _ start_sound])

section \<open>What a row keeps\<close>

lemma find_append_Some: "find P xs = Some y \<Longrightarrow> find P (xs @ ys) = Some y"
  by (induction xs) auto

lemma client_stays:
  assumes "auth_evolves s s'" "client_find_by_id i s = Some c"
  shows "client_find_by_id i s' = Some c"
proof -
  have "rows_evolve (=) (ad_clients s) (ad_clients s')" using assms(1) by (simp add: auth_evolves_def)
  then have "take (length (ad_clients s)) (ad_clients s') = ad_clients s"
    by (auto simp: rows_evolve_def list.rel_eq)
  then obtain more where "ad_clients s' = ad_clients s @ more" by (metis append_take_drop_id)
  then show ?thesis
    using assms(2) by (simp add: client_find_by_id_def find_append_Some)
qed

text \<open>A code that was consumed is not consumable again, and a token that was revoked is found
  revoked by its hash.\<close>

lemma consumed_stays:
  assumes "auth_evolves s s'" "auth_ok s" "k \<in> set (ad_codes s)" "ac_consumed_at k \<noteq> None"
  shows "find (consumable (ac_code_hash k) now) (ad_codes s') = None"
proof -
  have "rows_evolve code_evolves (ad_codes s) (ad_codes s')" using assms(1) by (simp add: auth_evolves_def)
  then obtain k' where k': "k' \<in> set (ad_codes s')" "code_evolves k k'" using assms(3) by (rule rows_evolve_mem)
  then have "k' = k" using assms(4) by (auto simp: code_evolves_def)
  have "distinct (map ac_code_hash (ad_codes s'))" using assms(1,2) by (auto simp: auth_evolves_def auth_ok_def)
  then have "\<not> consumable (ac_code_hash k) now c" if "c \<in> set (ad_codes s')" for c
    using distinct_map_key_eq [of ac_code_hash "ad_codes s'" c k'] k'(1) that assms(4)
    unfolding \<open>k' = k\<close> consumable_def by blast
  then show ?thesis by (simp add: find_None_iff)
qed

lemma revoked_stays:
  assumes "auth_evolves s s'" "auth_ok s" "t \<in> set (ad_tokens s)" "at_revoked_at t \<noteq> None"
  shows "token_find_by_hash (at_token_hash t) s' = Some t"
proof -
  have "rows_evolve token_evolves (ad_tokens s) (ad_tokens s')" using assms(1) by (simp add: auth_evolves_def)
  then obtain t' where t': "t' \<in> set (ad_tokens s')" "token_evolves t t'" using assms(3) by (rule rows_evolve_mem)
  then have "t' = t" using assms(4) by (auto simp: token_evolves_def)
  have "distinct (map at_token_hash (ad_tokens s'))" using assms(1,2) by (auto simp: auth_evolves_def auth_ok_def)
  then show ?thesis using find_distinct [OF _ t'(1) refl] unfolding \<open>t' = t\<close> token_find_by_hash_def by blast
qed

end
