(* ===== verification/AuthGuarantees.thy ===== *)
theory AuthGuarantees
  imports AuthSteps
begin

text \<open>
  What the authentication plane guarantees along every run of its operations from an
  empty store: codes are redeemed once and only by the party they are bound to, the
  token carries what the consent page displayed, a revoked token stays dead, and
  codes are sent to registered places only.
\<close>

section \<open>A run to apply the theorems to\<close>

definition demo_url :: "string \<Rightarrow> string \<Rightarrow> string \<Rightarrow> url" where
  "demo_url text protocol host = \<lparr>url_text = text, url_scheme = protocol, url_host = Some host, url_port = None,
     url_port_or_default = None, url_path = ''/a'', url_query = None, url_fragment = None, url_bare = text\<rparr>"

definition demo_ext :: externals where
  "demo_ext = \<lparr>x_sha256 = (\<lambda>c. take 32 (map of_char c @ replicate 32 0)),
     x_base64url = (\<lambda>bs. map (\<lambda>b. char_of (97 + b mod 26)) (take 43 (bs @ replicate 43 0))),
     x_base64_text = Some,
     x_parse_url = (\<lambda>raw. if raw = ''http://localhost/a'' then Some (demo_url raw ''http'' ''localhost'')
       else if raw = ''https://h/a'' then Some (demo_url raw ''https'' ''h'') else None),
     x_append_pairs = (\<lambda>u ps. url_text u @ concat (map fst ps)),
     x_category = (\<lambda>_. CategoryOther), x_render = (\<lambda>p. Some (cp_scope_display p))\<rparr>"

definition demo_runtime :: oauth_runtime where
  "demo_runtime = \<lparr>rt_issuer_url = demo_url ''https://h/a'' ''https'' ''h'', rt_resource_url = demo_url ''https://h/a'' ''https'' ''h'',
     rt_canonical_resource = ''https://h/a'', rt_access_token_ttl = 1000, rt_authorization_code_ttl = 100,
     rt_dcr_enabled = True\<rparr>"

definition demo_env :: "int \<Rightarrow> env" where
  "demo_env t = \<lparr>env_now = t, env_utc_now = t, env_trace_id = None, env_span_id = None\<rparr>"

definition demo_verifier :: string where
  "demo_verifier = replicate 43 CHR ''v''"

definition demo_registration :: register_request where
  "demo_registration = \<lparr>rg_redirect_uris = Some [''http://localhost/a''], rg_client_name = None, rg_grant_types = None,
     rg_response_types = None, rg_auth_method = None, rg_scope = Some ''tribal:read'', rg_application_type = None\<rparr>"

definition demo_query :: validated_query where
  "demo_query = \<lparr>vq_response_type = ''code'', vq_client_id = x_base64url demo_ext [1], vq_redirect_uri = None,
     vq_code_challenge = derive_s256 demo_ext demo_verifier, vq_code_challenge_method = ''S256'', vq_state = None,
     vq_scope = Some ''tribal.jobs:read'', vq_resource = Some ''https://h/a''\<rparr>"

definition demo_resolved :: resolved_client where
  "demo_resolved = \<lparr>rv_redirect_uri = demo_url ''http://localhost/a'' ''http'' ''localhost'',
     rv_registered_scope = Some ''tribal:read'', rv_client_name = None\<rparr>"

definition demo_request :: validated_token_request where
  "demo_request = \<lparr>vt_grant_type = ''authorization_code'', vt_code = x_base64url demo_ext [2],
     vt_redirect_uri = ''http://localhost/a'', vt_client_id = x_base64url demo_ext [1],
     vt_code_verifier = demo_verifier, vt_resource = Some ''https://h/a'', vt_client_secret = None\<rparr>"

definition demo_registered :: auth_world where
  "demo_registered = \<lparr>aw_db = executed (register demo_ext (demo_env 5) [1] [] demo_registration)
       (executed (principal_insert (demo_env 5) 7 local_principal_key None None) auth_empty), aw_resolved = {}\<rparr>"

definition demo_asked :: auth_world where
  "demo_asked = demo_registered\<lparr>aw_resolved := {(demo_query, demo_resolved)}\<rparr>"

definition demo_issued :: auth_world where
  "demo_issued = demo_asked\<lparr>aw_db := executed (issue_code demo_ext demo_runtime (demo_env 10) [2] demo_query demo_resolved)
     (aw_db demo_registered)\<rparr>"

definition demo_exchange :: "(oauth_error + token_response) \<times> auth_db" where
  "demo_exchange = exchange demo_ext demo_runtime (demo_env 20) 3 [9] demo_request None (aw_db demo_issued)"

definition demo_principal :: principal where
  "demo_principal = \<lparr>pr_id = 7, pr_key = local_principal_key, pr_display_name = None, pr_binding = None, pr_created_at = 5\<rparr>"

definition demo_client :: oauth_client where
  "demo_client = \<lparr>oc_client_id = x_base64url demo_ext [1], oc_secret_hash = None, oc_client_name = None,
     oc_redirect_uris = [''http://localhost/a''], oc_grant_types = [''authorization_code''], oc_response_types = [''code''],
     oc_auth_method = AuthNone, oc_scope = Some ''tribal:read'', oc_application_type = None, oc_created_at = 5,
     oc_secret_expires_at = None\<rparr>"

lemma demo_text [simp]:
  "present_scope (Some ''tribal:read'') = Some ''tribal:read''"
  "first_uncatalogued_scope ''tribal:read'' = None"
  "first_uncatalogued_scope ''tribal.jobs:read'' = None"
  "scope_exceeding_registration ''tribal.jobs:read'' ''tribal:read'' = None"
  "effective_scope (Some ''tribal.jobs:read'') (Some ''tribal:read'') = ''tribal.jobs:read''"
  "grant_or_default (Some ''tribal.jobs:read'') = ''tribal.jobs:read''"
  "parse_scope_list ''tribal.jobs:read'' = Inr [''tribal.jobs:read'']"
  "is_loopback_host ''localhost''"
  "is_valid_verifier demo_verifier"
  by code_simp+

lemma demo_ext_simps [simp]:
  "is_hash_text (sha256_hex demo_ext c)"
  "x_parse_url demo_ext ''http://localhost/a'' = Some (demo_url ''http://localhost/a'' ''http'' ''localhost'')"
  "x_parse_url demo_ext ''https://h/a'' = Some (demo_url ''https://h/a'' ''https'' ''h'')"
  "x_render demo_ext p = Some (cp_scope_display p)"
  by (rule sha256_hex_text) (simp_all add: demo_ext_def)

lemma demo_challenge [simp]: "is_valid_challenge (derive_s256 demo_ext demo_verifier)"
  by code_simp

lemma demo_registered_db: "aw_db demo_registered = \<lparr>ad_principals = [demo_principal], ad_clients = [demo_client],
   ad_codes = [], ad_tokens = []\<rparr>"
proof -
  have p: "executed (principal_insert (demo_env 5) 7 local_principal_key None None) auth_empty
      = auth_empty\<lparr>ad_principals := [demo_principal]\<rparr>"
    by (simp add: executed_def principal_insert_def insert_guard_def append_principal_def tx_defs new_principal_row_def
        principal_exists_def sql_exists_iff auth_empty_def demo_env_def demo_principal_def)
  show ?thesis
    unfolding demo_registered_def p
    by (simp add: executed_def register_def demo_registration_def Let_def filter_supported_def tx_defs tx_from_def
        validate_redirect_uri_def demo_url_def validate_grant_response_consistency_def check_catalogued_def
        validate_client_name_def parse_auth_method_def auth_method_parse_def parse_application_type_def during_def
        client_insert_def insert_guard_def registered_client_def generate_token_value_def new_client_row_def
        demo_client_def demo_env_def auth_empty_def sql_exists_iff)
qed

definition demo_code :: auth_code where
  "demo_code = \<lparr>ac_code_hash = sha256_hex demo_ext (x_base64url demo_ext [2]), ac_client_id = x_base64url demo_ext [1],
     ac_redirect_uri = ''http://localhost/a'', ac_code_challenge = derive_s256 demo_ext demo_verifier,
     ac_scope = Some ''tribal.jobs:read'', ac_resource = Some ''https://h/a'', ac_principal_id = 7,
     ac_issued_at = 10, ac_expires_at = 110, ac_consumed_at = None\<rparr>"

definition demo_token :: auth_token where
  "demo_token = \<lparr>at_id = 3, at_token_hash = sha256_hex demo_ext (x_base64url demo_ext [9]), at_principal_id = 7,
     at_scopes = [''tribal.jobs:read''], at_audience = ''https://h/a'', at_expires_at = 1020, at_created_at = 20,
     at_revoked_at = None\<rparr>"

definition demo_done :: auth_db where
  "demo_done = \<lparr>ad_principals = [demo_principal], ad_clients = [demo_client],
     ad_codes = [demo_code\<lparr>ac_consumed_at := Some 20\<rparr>], ad_tokens = [demo_token]\<rparr>"

definition demo_response :: token_response where
  "demo_response = \<lparr>to_access_token = x_base64url demo_ext [9], to_token_type = ''Bearer'', to_expires_in = 0,
     to_scope = ''tribal.jobs:read''\<rparr>"

lemma demo_resolves: "validate_pre_redirect demo_ext demo_query (aw_db demo_registered) = Inr (demo_resolved, aw_db demo_registered)"
  unfolding demo_registered_db
  by (simp add: validate_pre_redirect_def demo_query_def tx_defs tx_from_def resolve_client_def client_find_by_id_def
      demo_client_def parse_registered_redirect_uris_def resolve_redirect_uri_def demo_resolved_def)

lemma demo_canonical [simp]: "canonicalise_resource_url (demo_url ''https://h/a'' ''https'' ''h'') = ''https://h/a''"
  by code_simp

lemma demo_issues: "issue_code demo_ext demo_runtime (demo_env 10) [2] demo_query demo_resolved (aw_db demo_registered)
   = Inr (HttpResponse 200 [(''content-type'', ''text/html; charset=utf-8''), (''cache-control'', ''no-store''),
           (''content-security-policy'', consent_csp), (''x-frame-options'', ''DENY''),
           (''x-content-type-options'', ''nosniff''), (''referrer-policy'', ''no-referrer'')] (TextBody ''tribal.jobs:read''),
       (aw_db demo_registered)\<lparr>ad_codes := [demo_code]\<rparr>)"
proof -
  have r: "check_resource demo_ext (Some ''https://h/a'') ''https://h/a'' = Inr ''https://h/a''"
    by (simp add: check_resource_Inr) (simp add: demo_url_def)
  have u: "url_text (demo_url t p h) = t" "url_host (demo_url t p h) = Some h" "url_port (demo_url t p h) = None" for t p h
    by (simp_all add: demo_url_def)
  show ?thesis
    unfolding demo_registered_db
    by (simp add: issue_code_def demo_query_def demo_resolved_def tx_defs check_catalogued_def check_within_registration_def
        r demo_runtime_def local_principal_id_def principal_find_by_key_def demo_principal_def expiry_after_def
        time_delta_max_def date_time_max_def demo_env_def consent_page_response_def during_def code_insert_def
        insert_guard_def issued_code_def new_code_row_def demo_code_def sql_exists_iff principal_exists_def Let_def
        tx_from_def u)
qed

lemma demo_issued_db: "aw_db demo_issued = (aw_db demo_registered)\<lparr>ad_codes := [demo_code]\<rparr>"
  by (simp add: demo_issued_def executed_def demo_issues)

lemma demo_exchanges: "exchange demo_ext demo_runtime (demo_env 20) 3 [9] demo_request None (aw_db demo_issued)
   = (Inr demo_response, demo_done)"
proof -
  have r: "check_resource demo_ext (Some ''https://h/a'') ''https://h/a'' = Inr ''https://h/a''"
    by (simp add: check_resource_Inr) (simp add: demo_url_def)
  have u: "url_text (demo_url t p h) = t" for t p h by (simp add: demo_url_def)
  have "exchange_body demo_ext demo_runtime (demo_env 20) 3 [9] demo_request None (aw_db demo_issued)
      = Inr (Commit demo_response, demo_done)"
    unfolding demo_issued_db demo_registered_db
    by (simp add: demo_request_def exchange_body_def consume_code_def code_consume_def during_def tx_defs tx_from_def
        Let_def consumable_def demo_env_def check_redirect_def u r granted_scopes_def demo_code_def demo_runtime_def
        enforce_client_secret_def client_find_by_id_def demo_client_def verify_s256_def derive_s256_def [symmetric]
        expiry_after_def time_delta_max_def date_time_max_def issue_token_def issue_token_with_record_def
        generate_token_value_def token_insert_def insert_guard_def new_token_row_def sql_exists_iff principal_exists_def
        demo_principal_def demo_response_def demo_done_def demo_token_def sql_update_Cons)
  then show ?thesis by (simp add: exchange_def run_txn_def demo_request_def)
qed

lemma run_step: "auth_run x rt w w' \<Longrightarrow> auth_step x rt w' w'' \<Longrightarrow> auth_run x rt w w''"
  unfolding auth_run_def by (rule rtranclp.rtrancl_into_rtrancl)

lemma run_refl [simp]: "auth_run x rt w w"
  by (simp add: auth_run_def)

lemma run_trans: "auth_run x rt w w' \<Longrightarrow> auth_run x rt w' w'' \<Longrightarrow> auth_run x rt w w''"
  unfolding auth_run_def by (rule rtranclp_trans)

lemma demo_run_registered: "auth_run demo_ext demo_runtime auth_start demo_registered"
proof -
  let ?w = "auth_start\<lparr>aw_db := executed (principal_insert (demo_env 5) 7 local_principal_key None None) (aw_db auth_start)\<rparr>"
  have "auth_run demo_ext demo_runtime auth_start ?w" by (rule run_step [OF run_refl step_principal])
  then have "auth_run demo_ext demo_runtime auth_start
      (?w\<lparr>aw_db := executed (register demo_ext (demo_env 5) [1] [] demo_registration) (aw_db ?w)\<rparr>)"
    by (rule run_step [OF _ step_register])
  then show ?thesis by (simp add: demo_registered_def auth_start_def)
qed

lemma demo_run_asked: "auth_run demo_ext demo_runtime auth_start demo_asked"
proof -
  have "aw_resolved demo_registered = {}" by (simp add: demo_registered_def)
  then show ?thesis using run_step [OF demo_run_registered step_resolve [OF demo_resolves]] by (simp add: demo_asked_def)
qed

lemma demo_asked_db: "aw_db demo_asked = aw_db demo_registered" "(demo_query, demo_resolved) \<in> aw_resolved demo_asked"
  by (simp_all add: demo_asked_def)

lemma demo_run_issued: "auth_run demo_ext demo_runtime auth_start demo_issued"
  using run_step [OF demo_run_asked step_issue [OF demo_asked_db(2)]] unfolding demo_issued_def demo_asked_db .

section \<open>Guarantees\<close>

lemma exchange_error_keeps: "exchange x rt e i bytes req basic s = (Inl err, s') \<Longrightarrow> s' = s"
  by (auto simp: exchange_def split: if_splits dest: run_txn_error)

lemma exchange_run:
  assumes "exchange x rt e i bytes req basic (aw_db w) = (Inr r, s)"
  shows "auth_run x rt w (w\<lparr>aw_db := s\<rparr>)"
  using run_step [OF run_refl step_exchange [of x rt w e i bytes req basic]] assms by simp

lemma exchange_consumes:
  assumes "exchange x rt e i bytes req basic s = (Inr r, s')"
  obtains k where "k \<in> set (ad_codes s')" "ac_code_hash k = sha256_hex x (vt_code req)" "ac_consumed_at k \<noteq> None"
proof -
  obtain code n t where code: "find (consumable (sha256_hex x (vt_code req)) (env_utc_now e)) (ad_codes s) = Some code"
    and ins: "token_insert e i n (consumed_state (sha256_hex x (vt_code req)) (env_utc_now e) s) = Inr (t, s')"
    using assms by (rule exchange_success) (rule that)
  let ?k = "code\<lparr>ac_consumed_at := Some (env_utc_now e)\<rparr>"
  have "?k \<in> set (ad_codes (consumed_state (sha256_hex x (vt_code req)) (env_utc_now e) s))"
    using find_Some_set [OF code]
    by (simp add: consumed_state_def) (rule sql_update_memI, auto)
  then have "?k \<in> set (ad_codes s')" using ins by (auto simp: token_insert_Inr)
  moreover have "ac_code_hash ?k = sha256_hex x (vt_code req)" using find_Some_set [OF code] by (simp add: consumable_def)
  ultimately show ?thesis using that by simp
qed

text \<open>C29: A code is redeemed at most once: after a token has been exchanged for it, no
  later request with the same code succeeds, whoever sends it and whatever ran in
  between, and the request changes nothing.\<close>

theorem code_redeemed_once:
  assumes "auth_run x rt auth_start w" "exchange x rt e i bytes req basic (aw_db w) = (Inr r, s)"
    "auth_run x rt (w\<lparr>aw_db := s\<rparr>) w'" "vt_code req' = vt_code req"
  shows "\<exists>err. exchange x rt e' i' bytes' req' basic' (aw_db w') = (Inl err, aw_db w')"
proof -
  have "auth_run x rt auth_start (w\<lparr>aw_db := s\<rparr>)" by (rule run_trans [OF assms(1) exchange_run [OF assms(2)]])
  then have ok: "auth_ok s" using reachable_sound by (fastforce simp: world_sound_def)
  have ev: "auth_evolves s (aw_db w')" using run_evolves [OF assms(3)] by simp
  obtain k where k: "k \<in> set (ad_codes s)" "ac_code_hash k = sha256_hex x (vt_code req)" "ac_consumed_at k \<noteq> None"
    using assms(2) by (rule exchange_consumes)
  have none: "find (consumable (sha256_hex x (vt_code req')) now) (ad_codes (aw_db w')) = None" for now
    using consumed_stays [OF ev ok k(1,3)] k(2) assms(4) by simp
  show ?thesis
  proof (cases "exchange x rt e' i' bytes' req' basic' (aw_db w')")
    case (Pair res t)
    show ?thesis
    proof (cases res)
      case (Inl err)
      then show ?thesis using Pair exchange_error_keeps by blast
    next
      case (Inr r')
      then have "exchange x rt e' i' bytes' req' basic' (aw_db w') = (Inr r', t)" using Pair by simp
      then have False by (rule exchange_success) (simp add: none)
      then show ?thesis ..
    qed
  qed
qed

theorem code_redeemed_once_witness:
  "\<exists>err. exchange demo_ext demo_runtime (demo_env 30) 4 [8] demo_request None demo_done = (Inl err, demo_done)"
  using code_redeemed_once [OF demo_run_issued demo_exchanges run_refl refl, of "demo_env 30" 4 "[8]" None] by simp

text \<open>C30: A successful exchange consumes a code that was not consumed and had not expired,
  that was issued to the same client, for the same redirect URI, whose challenge is
  the S256 digest of the presented verifier, by a client that proved the secret its
  registered method asks for. It adds one token for the principal of the code, for
  the server's own resource, alive for the configured time, whose scopes are
  catalogued and within what the client registered.\<close>

theorem exchange_binding:
  assumes "auth_run x rt auth_start w" "exchange x rt e i bytes req basic (aw_db w) = (Inr r, s)"
  shows "\<exists>code c t. code \<in> set (ad_codes (aw_db w)) \<and> ac_code_hash code = sha256_hex x (vt_code req) \<and>
     ac_consumed_at code = None \<and> env_utc_now e < ac_expires_at code \<and>
     ac_client_id code = vt_client_id req \<and>
     map_option url_text (x_parse_url x (vt_redirect_uri req)) = Some (ac_redirect_uri code) \<and>
     derive_s256 x (vt_code_verifier req) = ac_code_challenge code \<and>
     client_find_by_id (vt_client_id req) (aw_db w) = Some c \<and> proves_secret x c req basic \<and>
     ad_tokens s = ad_tokens (aw_db w) @ [t] \<and> at_token_hash t = sha256_hex x (to_access_token r) \<and>
     at_principal_id t = ac_principal_id code \<and> at_audience t = rt_canonical_resource rt \<and>
     at_expires_at t = env_utc_now e + rt_access_token_ttl rt \<and> at_revoked_at t = None \<and>
     set (at_scopes t) \<subseteq> {k \<in> set scopes_catalogue. within_registration (oc_scope c) k}"
proof -
  obtain code c v scopes where
    code: "find (consumable (sha256_hex x (vt_code req)) (env_utc_now e)) (ad_codes (aw_db w)) = Some code"
      "ac_client_id code = vt_client_id req" "x_parse_url x (vt_redirect_uri req) = Some v" "ac_redirect_uri code = url_text v"
      "derive_s256 x (vt_code_verifier req) = ac_code_challenge code"
    and c: "client_find_by_id (vt_client_id req) (aw_db w) = Some c" "proves_secret x c req basic"
    and scopes: "parse_scope_list (grant_or_default (ac_scope code)) = Inr scopes"
    and ins: "token_insert e i \<lparr>nt_token_hash = sha256_hex x (to_access_token r), nt_token_principal = ac_principal_id code,
       nt_scopes = scopes, nt_audience = rt_canonical_resource rt,
       nt_expires_at = env_utc_now e + rt_access_token_ttl rt\<rparr>
       (consumed_state (sha256_hex x (vt_code req)) (env_utc_now e) (aw_db w))
     = Inr (new_token_row e i \<lparr>nt_token_hash = sha256_hex x (to_access_token r), nt_token_principal = ac_principal_id code,
       nt_scopes = scopes, nt_audience = rt_canonical_resource rt,
       nt_expires_at = env_utc_now e + rt_access_token_ttl rt\<rparr>, s)"
    using assms(2) by (rule exchange_success) (rule that)
  have mem: "code \<in> set (ad_codes (aw_db w))" "consumable (sha256_hex x (vt_code req)) (env_utc_now e) code"
    using find_Some_set [OF code(1)] by auto
  have sound: "world_sound x rt w" by (rule reachable_sound [OF assms(1)])
  then have "code_sound x rt (set (ad_clients (aw_db w))) code" using mem(1) by (auto simp: world_sound_def db_sound_def)
  then obtain c' g where c': "c' \<in> set (ad_clients (aw_db w))" "oc_client_id c' = ac_client_id code"
    and g: "ac_scope code = Some g" "grant_or_default (Some g) = g" "bounded_grant (oc_scope c') g"
    by (auto simp: code_sound_def)
  have "c' = c"
    using find_distinct [OF _ c'(1), of oc_client_id] c'(2) c(1) code(2) sound
    by (auto simp: world_sound_def auth_ok_def client_find_by_id_def)
  then have "scopes = split_ascii_whitespace g" "set scopes \<subseteq> {k \<in> set scopes_catalogue. within_registration (oc_scope c) k}"
    using scopes g bounded_parses [OF g(3)] by (auto simp: bounded_grant_def)
  then show ?thesis
    using code c mem ins
    by (intro exI [of _ code] exI [of _ c] exI conjI) (auto simp: consumable_def token_insert_Inr new_token_row_def)
qed

theorem exchange_binding_witness:
  "\<exists>code c t. code \<in> set (ad_codes (aw_db demo_issued)) \<and> ac_consumed_at code = None \<and>
     client_find_by_id (vt_client_id demo_request) (aw_db demo_issued) = Some c \<and>
     ad_tokens demo_done = ad_tokens (aw_db demo_issued) @ [t] \<and>
     set (at_scopes t) \<subseteq> {k \<in> set scopes_catalogue. within_registration (oc_scope c) k}"
  using exchange_binding [OF demo_run_issued demo_exchanges] by blast

lemma token_revoke_leaves:
  assumes "token_revoke i now s = Inr ((t, fresh), s')"
  shows "t \<in> set (ad_tokens s')" "at_revoked_at t \<noteq> None" "at_id t = i"
proof -
  have t: "token_find_by_id i s' = Some t"
    and s': "ad_tokens s' = sql_update (revocable i) (\<lambda>t. t\<lparr>at_revoked_at := Some now\<rparr>) (ad_tokens s)"
    using assms by (auto simp: token_revoke_def Let_def split: option.splits)
  have m: "t \<in> set (ad_tokens s') \<and> at_id t = i" using find_Some_set t unfolding token_find_by_id_def by fast
  then show "t \<in> set (ad_tokens s')" "at_id t = i" by auto
  have "t \<in> set (sql_update (revocable i) (\<lambda>t. t\<lparr>at_revoked_at := Some now\<rparr>) (ad_tokens s))" using m s' by simp
  then show "at_revoked_at t \<noteq> None" by (rule sql_update_cases) (use m in \<open>auto simp: revocable_def\<close>)
qed

text \<open>C34: A revoked token never authenticates again: after a revocation, whatever runs, every
  presentation of the token is refused as revoked, whatever the clock and the
  audience.\<close>

theorem revoked_never_authenticates:
  assumes "auth_run x rt auth_start w" "token_revoke i at (aw_db w) = Inr ((t, fresh), s)"
    "auth_run x rt (w\<lparr>aw_db := s\<rparr>) w'" "sha256_hex x raw = at_token_hash t"
  shows "verify_token x aud now raw (aw_db w') = Inl (TokenRevoked (at_token_hash t))"
proof -
  have "auth_run x rt w (w\<lparr>aw_db := s\<rparr>)"
    using run_step [OF run_refl step_revoke [of x rt w i at]] assms(2) by (simp add: executed_def)
  then have "auth_ok s" using reachable_sound [OF run_trans [OF assms(1)]] by (fastforce simp: world_sound_def)
  moreover have "auth_evolves s (aw_db w')" using run_evolves [OF assms(3)] by simp
  ultimately have "token_find_by_hash (at_token_hash t) (aw_db w') = Some t"
    using revoked_stays token_revoke_leaves(1,2) [OF assms(2)] by blast
  then show ?thesis using token_revoke_leaves(2) [OF assms(2)] assms(4) by (simp add: verify_token_def)
qed

definition demo_redeemed :: auth_world where
  "demo_redeemed = demo_issued\<lparr>aw_db := demo_done\<rparr>"

lemma demo_run_redeemed: "auth_run demo_ext demo_runtime auth_start demo_redeemed"
  unfolding demo_redeemed_def by (rule run_trans [OF demo_run_issued exchange_run [OF demo_exchanges]])

theorem revoked_never_authenticates_witness:
  "verify_token demo_ext None 50 (x_base64url demo_ext [9])
     (demo_done\<lparr>ad_tokens := [demo_token\<lparr>at_revoked_at := Some 40\<rparr>]\<rparr>) = Inl (TokenRevoked (at_token_hash demo_token))"
proof -
  have "token_revoke 3 40 (aw_db demo_redeemed) = Inr ((demo_token\<lparr>at_revoked_at := Some 40\<rparr>, True),
      demo_done\<lparr>ad_tokens := [demo_token\<lparr>at_revoked_at := Some 40\<rparr>]\<rparr>)"
    by (simp add: token_revoke_def Let_def demo_redeemed_def demo_done_def sql_update_Cons sql_count_def revocable_def
        demo_token_def token_find_by_id_def)
  from revoked_never_authenticates [OF demo_run_redeemed this run_refl, of "x_base64url demo_ext [9]" None 50]
  show ?thesis by (simp add: demo_token_def)
qed

lemma exchange_mints:
  assumes "auth_run x rt auth_start w" "exchange x rt e i bytes req basic (aw_db w) = (Inr r, s)"
  obtains code t where
    "code \<in> set (ad_codes (aw_db w))" "ac_code_hash code = sha256_hex x (vt_code req)" "auth_ok (aw_db w)" "auth_ok s"
    "t \<in> set (ad_tokens s)" "token_find_by_hash (sha256_hex x (to_access_token r)) s = Some t" "at_revoked_at t = None"
    "at_expires_at t = env_utc_now e + rt_access_token_ttl rt" "at_audience t = rt_canonical_resource rt"
    "at_principal_id t = ac_principal_id code" "at_scopes t = split_ascii_whitespace (to_scope r)"
proof -
  obtain code scopes where
    code: "find (consumable (sha256_hex x (vt_code req)) (env_utc_now e)) (ad_codes (aw_db w)) = Some code"
    and scopes: "parse_scope_list (grant_or_default (ac_scope code)) = Inr scopes" "to_scope r = grant_or_default (ac_scope code)"
    and ins: "token_insert e i \<lparr>nt_token_hash = sha256_hex x (to_access_token r), nt_token_principal = ac_principal_id code,
       nt_scopes = scopes, nt_audience = rt_canonical_resource rt,
       nt_expires_at = env_utc_now e + rt_access_token_ttl rt\<rparr>
       (consumed_state (sha256_hex x (vt_code req)) (env_utc_now e) (aw_db w))
     = Inr (new_token_row e i \<lparr>nt_token_hash = sha256_hex x (to_access_token r), nt_token_principal = ac_principal_id code,
       nt_scopes = scopes, nt_audience = rt_canonical_resource rt,
       nt_expires_at = env_utc_now e + rt_access_token_ttl rt\<rparr>, s)"
    using assms(2) by (rule exchange_success) (rule that)
  define t where "t = new_token_row e i \<lparr>nt_token_hash = sha256_hex x (to_access_token r), nt_token_principal = ac_principal_id code,
       nt_scopes = scopes, nt_audience = rt_canonical_resource rt, nt_expires_at = env_utc_now e + rt_access_token_ttl rt\<rparr>"
  have mem: "code \<in> set (ad_codes (aw_db w))" "ac_code_hash code = sha256_hex x (vt_code req)"
    using find_Some_set [OF code] by (auto simp: consumable_def)
  have ok: "auth_ok (aw_db w)" "auth_ok s"
    using reachable_sound [OF assms(1)] reachable_sound [OF run_trans [OF assms(1) exchange_run [OF assms(2)]]]
    by (auto simp: world_sound_def)
  have ts: "t \<in> set (ad_tokens s)" using ins by (auto simp: token_insert_Inr t_def)
  have t: "at_token_hash t = sha256_hex x (to_access_token r)" "at_revoked_at t = None"
    "at_expires_at t = env_utc_now e + rt_access_token_ttl rt" "at_audience t = rt_canonical_resource rt"
    "at_principal_id t = ac_principal_id code" "at_scopes t = split_ascii_whitespace (to_scope r)"
    using scopes by (auto simp: t_def new_token_row_def parse_scope_list_def Let_def split: option.splits)
  have found: "token_find_by_hash (sha256_hex x (to_access_token r)) s = Some t"
    using find_distinct [where k = at_token_hash, OF _ ts t(1)] ok(2) by (simp add: token_find_by_hash_def auth_ok_def)
  then show ?thesis using that mem ok ts t by blast
qed

text \<open>C33: The token an exchange returns authenticates at once, exactly until its expiry and
  for the audience it was minted for (or a server that expects none), as the
  principal of the code and with the scopes of the answer.\<close>

theorem minted_token_authenticates:
  assumes "auth_run x rt auth_start w" "exchange x rt e i bytes req basic (aw_db w) = (Inr r, s)"
  shows "verify_token x aud now (to_access_token r) s = Inr a \<longleftrightarrow>
     now \<le> env_utc_now e + rt_access_token_ttl rt \<and> (aud = None \<or> aud = Some (rt_canonical_resource rt)) \<and>
     (\<exists>code p. code \<in> set (ad_codes (aw_db w)) \<and> ac_code_hash code = sha256_hex x (vt_code req) \<and>
        p \<in> set (ad_principals s) \<and> pr_id p = ac_principal_id code \<and>
        a = \<lparr>ap_principal_id = pr_id p, ap_principal_key = pr_key p, ap_scopes = split_ascii_whitespace (to_scope r)\<rparr>)"
    (is "?verified \<longleftrightarrow> ?live")
proof -
  obtain code t where mem: "code \<in> set (ad_codes (aw_db w))" "ac_code_hash code = sha256_hex x (vt_code req)"
    and ok: "auth_ok (aw_db w)" "auth_ok s" and ts: "t \<in> set (ad_tokens s)"
    and found: "token_find_by_hash (sha256_hex x (to_access_token r)) s = Some t"
    and t: "at_revoked_at t = None" "at_expires_at t = env_utc_now e + rt_access_token_ttl rt"
      "at_audience t = rt_canonical_resource rt" "at_principal_id t = ac_principal_id code"
      "at_scopes t = split_ascii_whitespace (to_scope r)"
    using assms by (rule exchange_mints) (rule that)
  have pf: "find (\<lambda>p. pr_id p = at_principal_id t) (ad_principals s) = Some q \<longleftrightarrow> q \<in> set (ad_principals s) \<and> pr_id q = ac_principal_id code" for q
    using find_distinct [of pr_id "ad_principals s" q "ac_principal_id code"] find_Some_set ok(2) t(4)
    by (fastforce simp: auth_ok_def)
  have uniq: "code' = code" if "code' \<in> set (ad_codes (aw_db w))" "ac_code_hash code' = sha256_hex x (vt_code req)" for code'
    using distinct_map_key_eq [of ac_code_hash "ad_codes (aw_db w)" code' code] that mem ok(1) by (simp add: auth_ok_def)
  show ?thesis
  proof
    assume ?verified
    then obtain q where q: "now \<le> at_expires_at t" "aud = None \<or> aud = Some (at_audience t)"
      "q \<in> set (ad_principals s)" "pr_id q = ac_principal_id code"
      "a = \<lparr>ap_principal_id = pr_id q, ap_principal_key = pr_key q, ap_scopes = at_scopes t\<rparr>"
      unfolding verify_token_iff found using pf by blast
    then show ?live unfolding t using mem by blast
  next
    assume ?live
    then obtain code' q where "code' \<in> set (ad_codes (aw_db w))" "ac_code_hash code' = sha256_hex x (vt_code req)"
      and q: "now \<le> at_expires_at t" "aud = None \<or> aud = Some (at_audience t)"
      "q \<in> set (ad_principals s)" "pr_id q = ac_principal_id code'"
      "a = \<lparr>ap_principal_id = pr_id q, ap_principal_key = pr_key q, ap_scopes = at_scopes t\<rparr>"
      unfolding t by blast
    then have "pr_id q = ac_principal_id code" using uniq by blast
    then have "find (\<lambda>p. pr_id p = at_principal_id t) (ad_principals s) = Some q" unfolding pf using q(3) by blast
    then show ?verified unfolding verify_token_iff using found t(1) q by blast
  qed
qed

theorem minted_token_authenticates_witness:
  "\<exists>a. verify_token demo_ext (Some ''https://h/a'') 1020 (x_base64url demo_ext [9]) demo_done = Inr a \<and>
     \<not> (\<exists>b. verify_token demo_ext (Some ''https://h/a'') 1021 (x_base64url demo_ext [9]) demo_done = Inr b)"
proof -
  note iff = minted_token_authenticates [OF demo_run_issued demo_exchanges]
  have c: "demo_code \<in> set (ad_codes (aw_db demo_issued))" "ac_code_hash demo_code = sha256_hex demo_ext (vt_code demo_request)"
    "demo_principal \<in> set (ad_principals demo_done)" "pr_id demo_principal = ac_principal_id demo_code"
    "rt_canonical_resource demo_runtime = ''https://h/a''" "env_utc_now (demo_env 20) + rt_access_token_ttl demo_runtime = 1020"
    "to_access_token demo_response = x_base64url demo_ext [9]"
    by (simp_all add: demo_issued_db demo_code_def demo_request_def demo_principal_def demo_done_def demo_runtime_def
        demo_env_def demo_response_def)
  have "verify_token demo_ext (Some ''https://h/a'') 1020 (to_access_token demo_response) demo_done
      = Inr \<lparr>ap_principal_id = pr_id demo_principal, ap_principal_key = pr_key demo_principal,
          ap_scopes = split_ascii_whitespace (to_scope demo_response)\<rparr>"
    unfolding iff using c by (auto intro!: exI [of _ demo_code] exI [of _ demo_principal])
  moreover have "verify_token demo_ext (Some ''https://h/a'') 1021 (to_access_token demo_response) demo_done \<noteq> Inr b" for b
    unfolding iff using c by simp
  ultimately show ?thesis unfolding c(7) by blast
qed

text \<open>C32: Every code is bound to a redirect URI of its own client: one the client registered,
  or that matches a registered one up to the port of a loopback host; so it is
  delivered over https or to a process on this machine, and to no fragment.\<close>

theorem codes_go_to_registered_uris:
  assumes "auth_run x rt auth_start w" "code \<in> set (ad_codes (aw_db w))"
  shows "\<exists>c u. c \<in> set (ad_clients (aw_db w)) \<and> oc_client_id c = ac_client_id code \<and>
     ac_redirect_uri code = url_text u \<and> redirects_for x c u \<and> safe_redirect u"
proof -
  have sound: "db_sound x rt (aw_db w)" using reachable_sound [OF assms(1)] by (simp add: world_sound_def)
  then obtain c u where c: "c \<in> set (ad_clients (aw_db w))" "oc_client_id c = ac_client_id code"
    "ac_redirect_uri code = url_text u" "redirects_for x c u"
    using assms(2) by (fastforce simp: db_sound_def code_sound_def)
  moreover have "safe_redirect u" using sound c(1) redirects_safe [OF _ c(4)] by (simp add: db_sound_def)
  ultimately show ?thesis by blast
qed

theorem codes_go_to_registered_uris_witness:
  "\<exists>c u. c \<in> set (ad_clients (aw_db demo_issued)) \<and> ac_redirect_uri demo_code = url_text u \<and>
     redirects_for demo_ext c u \<and> safe_redirect u"
proof -
  have "demo_code \<in> set (ad_codes (aw_db demo_issued))" by (simp add: demo_issued_db)
  from codes_go_to_registered_uris [OF demo_run_issued this] show ?thesis by blast
qed

lemma code_row_stays:
  assumes "auth_evolves s s'" "auth_ok s" "k \<in> set (ad_codes s)" "k' \<in> set (ad_codes s')" "ac_code_hash k' = ac_code_hash k"
  shows "code_evolves k k'"
proof -
  have "rows_evolve code_evolves (ad_codes s) (ad_codes s')" using assms(1) by (simp add: auth_evolves_def)
  then obtain k'' where k'': "k'' \<in> set (ad_codes s')" "code_evolves k k''" using assms(3) by (rule rows_evolve_mem)
  then have "ac_code_hash k'' = ac_code_hash k'" using assms(5) by (auto simp: code_evolves_def)
  moreover have "distinct (map ac_code_hash (ad_codes s'))" using assms(1,2) by (auto simp: auth_evolves_def auth_ok_def)
  ultimately have "k'' = k'" using distinct_map_key_eq k''(1) assms(4) by metis
  then show ?thesis using k''(2) by simp
qed

text \<open>C31: The scope of a token is the scope the user was shown: when a code is exchanged,
  whatever ran since it was issued, the page that presented the code is the consent
  page rendered for exactly the scope the token is minted with.\<close>

theorem token_scope_was_consented:
  assumes "auth_run x rt auth_start w" "(q, v) \<in> aw_resolved w"
    "issue_code x rt e bytes q v (aw_db w) = Inr (page, s)" "auth_run x rt (w\<lparr>aw_db := s\<rparr>) w'"
    "exchange x rt e' i bytes' req basic (aw_db w') = (Inr r, s')" "vt_code req = x_base64url x bytes"
  shows "consent_page_response x (rv_redirect_uri v) (vt_code req) (vq_state q) (vq_client_id q) (rv_client_name v) (to_scope r)
       = Inr page \<and>
     (\<exists>t. ad_tokens s' = ad_tokens (aw_db w') @ [t] \<and> at_scopes t = split_ascii_whitespace (to_scope r))"
proof -
  let ?g = "effective_scope (vq_scope q) (rv_registered_scope v)"
  obtain owner :: principal and at where
    page: "consent_page_response x (rv_redirect_uri v) (x_base64url x bytes) (vq_state q) (vq_client_id q) (rv_client_name v) ?g = Inr page"
    and ins: "code_insert e (issued_code x (x_base64url x bytes) q v (rt_canonical_resource rt) (pr_id owner) at) (aw_db w)
       = Inr (new_code_row e (issued_code x (x_base64url x bytes) q v (rt_canonical_resource rt) (pr_id owner) at), s)"
    using assms(3) by (rule issue_code_success) (rule that)
  let ?k = "new_code_row e (issued_code x (x_base64url x bytes) q v (rt_canonical_resource rt) (pr_id owner) at)"
  have k: "?k \<in> set (ad_codes s)" "ac_code_hash ?k = sha256_hex x (vt_code req)" "ac_scope ?k = Some ?g"
    using ins assms(6) by (auto simp: code_insert_Inr new_code_row_def issued_code_def)
  have "auth_run x rt w (w\<lparr>aw_db := s\<rparr>)"
    using run_step [OF run_refl step_issue [OF assms(2), of x rt e bytes]] assms(3) by (simp add: executed_def)
  then have ok: "auth_ok s" using reachable_sound [OF run_trans [OF assms(1)]] by (fastforce simp: world_sound_def)
  have ev: "auth_evolves s (aw_db w')" using run_evolves [OF assms(4)] by simp
  obtain code scopes n where
    code: "find (consumable (sha256_hex x (vt_code req)) (env_utc_now e')) (ad_codes (aw_db w')) = Some code"
    and scopes: "parse_scope_list (grant_or_default (ac_scope code)) = Inr scopes" "to_scope r = grant_or_default (ac_scope code)"
    and tok: "n = \<lparr>nt_token_hash = sha256_hex x (to_access_token r), nt_token_principal = ac_principal_id code,
       nt_scopes = scopes, nt_audience = rt_canonical_resource rt, nt_expires_at = env_utc_now e' + rt_access_token_ttl rt\<rparr>"
      "token_insert e' i n (consumed_state (sha256_hex x (vt_code req)) (env_utc_now e') (aw_db w')) = Inr (new_token_row e' i n, s')"
    using assms(5) by (rule exchange_success) (rule that, auto)
  have "code_evolves ?k code"
    using code_row_stays [OF ev ok k(1)] find_Some_set [OF code] k(2) by (simp add: consumable_def)
  then have "ac_scope code = Some ?g" using k(3) by (auto simp: code_evolves_def)
  then have "to_scope r = ?g" using scopes(2) effective_scope_kept by simp
  moreover have "scopes = split_ascii_whitespace (to_scope r)"
    using scopes by (auto simp: parse_scope_list_def Let_def split: option.splits)
  ultimately show ?thesis using page assms(6) tok by (auto simp: token_insert_Inr new_token_row_def)
qed

theorem token_scope_was_consented_witness:
  "\<exists>page t. consent_page_response demo_ext (rv_redirect_uri demo_resolved) (vt_code demo_request) None
       (vq_client_id demo_query) None ''tribal.jobs:read'' = Inr page \<and>
     ad_tokens demo_done = ad_tokens (aw_db demo_issued) @ [t] \<and>
     at_scopes t = split_ascii_whitespace ''tribal.jobs:read''"
proof -
  have s: "demo_asked\<lparr>aw_db := (aw_db demo_registered)\<lparr>ad_codes := [demo_code]\<rparr>\<rparr> = demo_issued"
    unfolding demo_issued_db [symmetric] by (simp add: demo_issued_def)
  have run: "auth_run demo_ext demo_runtime (demo_asked\<lparr>aw_db := (aw_db demo_asked)\<lparr>ad_codes := [demo_code]\<rparr>\<rparr>) demo_issued"
    unfolding demo_asked_db(1) s by simp
  have "vt_code demo_request = x_base64url demo_ext [2]" "to_scope demo_response = ''tribal.jobs:read''"
    "vq_state demo_query = None" "rv_client_name demo_resolved = None"
    by (simp_all add: demo_request_def demo_response_def demo_query_def demo_resolved_def)
  then show ?thesis
    using token_scope_was_consented [OF demo_run_asked demo_asked_db(2) demo_issues [folded demo_asked_db(1)] run demo_exchanges]
    by auto
qed

end
