(* ===== verification/Tools.thy ===== *)
theory Tools
  imports ClaimDisposal "HOL-Library.List_Lexorder" "HOL-Library.Char_ord"
begin

text \<open>
  The stage's tools: the failure vocabulary (\<open>tribal-domain/src/tool_failure.rs\<close>),
  a tool's contract (\<open>agent_binding.rs\<close>) and the registry
  (\<open>tribal-agent-runtime/src/tools.rs\<close>). A string is the list of its UTF-8
  bytes. What a tool does is a parameter: its provider-touching phase and its
  phase inside the caller's transaction are functions of the ambient values.
\<close>

section \<open>Failures\<close>

datatype recoverable_tool_failure =
    UnknownTool string "string list"
  | InvalidArguments string string
  | OutOfScope string string
  | EmptyResult string string

datatype tool_failure = Recoverable recoverable_tool_failure | SystemFailure string

definition quoted :: "string \<Rightarrow> string" where
  "quoted x = CHR 0x27 # x @ [CHR 0x27]"

fun render_failure :: "recoverable_tool_failure \<Rightarrow> string" where
  "render_failure (UnknownTool name available) =
     ''No tool named '' @ quoted name @ '' exists here. Available tools: '' @ join_comma available @ ''.''"
| "render_failure (InvalidArguments tool detail) =
     ''Invalid arguments for '' @ quoted tool @ '': '' @ detail"
| "render_failure (OutOfScope tool detail) =
     quoted tool @ '' refused an out-of-scope request: '' @ detail"
| "render_failure (EmptyResult tool detail) = quoted tool @ '' found nothing: '' @ detail"

section \<open>Contracts\<close>

datatype safety_tier = InternalTransactional | ExternalWithIntent | PureTool

datatype execution_mode = Immediate | Deferred

record tool_descriptor =
  td_name :: string
  td_description :: string
  td_input_schema :: json
  td_response_size_bound :: nat
  td_safety_tier :: safety_tier
  td_execution_mode :: execution_mode

record stage_tool =
  tl_descriptor :: tool_descriptor
  tl_prepare :: "env \<Rightarrow> json \<Rightarrow> tool_failure + json"
  tl_execute :: "env \<Rightarrow> json \<Rightarrow> json \<Rightarrow> (db, tool_failure, string) tx"

section \<open>The registry\<close>

text \<open>The tools by name, kept in the order of their names.\<close>

type_synonym tool_registry = "(string \<times> stage_tool) list"

datatype tool_registry_error =
    DuplicateName string
  | DeferredUnsupported string
  | ExternalTierUnsupported string

definition registry_new :: tool_registry where
  "registry_new = []"

definition register :: "tool_registry \<Rightarrow> stage_tool \<Rightarrow> tool_registry_error + tool_registry" where
  "register reg tool =
     (let d = tl_descriptor tool in
      if td_execution_mode d = Deferred then Inl (DeferredUnsupported (td_name d))
      else if td_safety_tier d = ExternalWithIntent then Inl (ExternalTierUnsupported (td_name d))
      else if map_of reg (td_name d) \<noteq> None then Inl (DuplicateName (td_name d))
      else Inr (insort_key fst (td_name d, tool) reg))"

definition lookup_tool :: "tool_registry \<Rightarrow> string \<Rightarrow> recoverable_tool_failure + stage_tool" where
  "lookup_tool reg name =
     (case map_of reg name of None \<Rightarrow> Inl (UnknownTool name (map fst reg)) | Some tool \<Rightarrow> Inr tool)"

definition registry_descriptors :: "tool_registry \<Rightarrow> tool_descriptor list" where
  "registry_descriptors reg = map (\<lambda>(_, tool). tl_descriptor tool) reg"

section \<open>Bounding a result\<close>

definition is_char_boundary :: "string \<Rightarrow> nat \<Rightarrow> bool" where
  "is_char_boundary x i \<longleftrightarrow> i = 0 \<or> i = length x \<or>
     (i < length x \<and> \<not> (128 \<le> (of_char (x ! i) :: nat) \<and> (of_char (x ! i) :: nat) < 192))"

text \<open>The loop stepping back from a cut to the nearest boundary.\<close>

fun floor_boundary :: "string \<Rightarrow> nat \<Rightarrow> nat" where
  "floor_boundary x 0 = 0"
| "floor_boundary x (Suc n) = (if is_char_boundary x (Suc n) then Suc n else floor_boundary x n)"

definition trim_marker :: "nat \<Rightarrow> string" where
  "trim_marker bound = CHR 0x0A # ''[truncated: over the '' @ show_nat bound @ ''-byte limit]''"

definition trim_to_bound :: "tool_descriptor \<Rightarrow> string \<Rightarrow> string" where
  "trim_to_bound d content =
     (let bound = td_response_size_bound d in
      if length content \<le> bound then content
      else let marker = trim_marker bound in
        if bound \<le> length marker then take (floor_boundary marker bound) marker
        else take (floor_boundary content (bound - length marker)) content @ marker)"

definition bound_result :: "tool_descriptor \<Rightarrow> string \<Rightarrow> string \<times> bool" where
  "bound_result d content = (trim_to_bound d content, td_response_size_bound d < length content)"

section \<open>What bounding guarantees\<close>

lemma floor_boundary_le: "floor_boundary x n \<le> n"
  by (induction n) auto

lemma floor_boundary_is_boundary: "is_char_boundary x (floor_boundary x n)"
  by (induction n) (auto simp: is_char_boundary_def)

lemma trim_to_bound_length: "length (trim_to_bound d content) \<le> td_response_size_bound d"
  using floor_boundary_le [of "trim_marker (td_response_size_bound d)" "td_response_size_bound d"]
    floor_boundary_le [of content "td_response_size_bound d - length (trim_marker (td_response_size_bound d))"]
  by (auto simp: trim_to_bound_def Let_def min_def)

lemma bound_result_bounded: "bound_result d content = (out, oversized) \<Longrightarrow> length out \<le> td_response_size_bound d"
  using trim_to_bound_length by (auto simp: bound_result_def)

lemma bound_result_whole: "bound_result d content = (out, False) \<Longrightarrow> out = content"
  by (auto simp: bound_result_def trim_to_bound_def Let_def)

section \<open>What the registry guarantees\<close>

definition registry_ok :: "tool_registry \<Rightarrow> bool" where
  "registry_ok reg \<longleftrightarrow> sorted (map fst reg) \<and> distinct (map fst reg) \<and>
     list_all (\<lambda>(name, tool). name = td_name (tl_descriptor tool) \<and>
        td_execution_mode (tl_descriptor tool) = Immediate \<and>
        td_safety_tier (tl_descriptor tool) \<noteq> ExternalWithIntent) reg"

lemma map_fst_insort_key: "map fst (insort_key fst x xs) = insort (fst x) (map fst xs)"
  by (induction xs) auto

lemma register_ok:
  assumes "registry_ok reg" "register reg tool = Inr reg'"
  shows "registry_ok reg'"
proof -
  have mode: "td_execution_mode (tl_descriptor tool) = Immediate"
    using assms(2) by (cases "td_execution_mode (tl_descriptor tool)") (auto simp: register_def Let_def)
  show ?thesis
    using assms mode
    by (auto simp: register_def registry_ok_def Let_def map_fst_insort_key sorted_insort distinct_insort
        map_of_eq_None_iff set_insort_key list_all_iff split: if_splits)
qed

lemma register_lookup:
  assumes "registry_ok reg" "register reg tool = Inr reg'"
  shows "lookup_tool reg' name =
     (if name = td_name (tl_descriptor tool) then Inr tool
      else case lookup_tool reg name of
        Inr t \<Rightarrow> Inr t
      | Inl _ \<Rightarrow> Inl (UnknownTool name (insort (td_name (tl_descriptor tool)) (map fst reg))))"
proof -
  have dist: "distinct (map fst reg')"
    using register_ok [OF assms] by (simp add: registry_ok_def)
  have reg': "reg' = insort_key fst (td_name (tl_descriptor tool), tool) reg"
    using assms(2) by (auto simp: register_def Let_def split: if_splits)
  have "distinct (map fst ((td_name (tl_descriptor tool), tool) # reg))"
    using dist by (simp add: reg' map_fst_insort_key distinct_insort)
  then have "map_of reg' = map_of ((td_name (tl_descriptor tool), tool) # reg)"
    using dist by (intro map_of_eqI) (auto simp: reg' set_insort_key map_fst_insort_key)
  then show ?thesis
    by (auto simp: lookup_tool_def reg' map_fst_insort_key split: option.splits)
qed

end
