(* ===== verification/TurnLoop.thy ===== *)
theory TurnLoop
  imports DriverLoop Tools
begin

text \<open>
  The agentic turn loop (\<open>tribal-agent-runtime/src/turn_loop.rs\<close>): the reading
  of the committed log it resumes from, the admission checks before a call,
  the streamed call, the tool batch under the result fence, and the verdict of
  a verifier child. Its per-turn commits are those of \<open>Turn\<close>. The submission
  pipeline, the tools, the provider's stream, the token ledger's sum and the
  parser of JSON text are parameters.
\<close>

section \<open>Budgets\<close>

record execution_budgets =
  eb_max_total_tokens :: "nat option"
  eb_max_turns :: "nat option"
  eb_max_child_launches :: "nat option"
  eb_execution_deadline_seconds :: "nat option"

datatype admission = Admitted | Exhausted nat nat

text \<open>The sum over the usage ledger is read only under a cap.\<close>

definition admit_inference :: "execution_budgets \<Rightarrow> nat \<Rightarrow> admission" where
  "admit_inference budgets spent =
     (case eb_max_total_tokens budgets of
        None \<Rightarrow> Admitted
      | Some cap \<Rightarrow> if cap \<le> spent then Exhausted spent cap else Admitted)"

record recheck_policy =
  rp_delay_seconds :: nat
  rp_bound :: nat

datatype budget_failure =
    TurnCap nat nat
  | Deadline nat
  | RecheckExhausted nat nat nat

fun budget_failure_text :: "budget_failure \<Rightarrow> string" where
  "budget_failure_text (TurnCap turns cap) =
     ''the turn cap: '' @ show_nat turns @ '' committed turns against a cap of '' @ show_nat cap"
| "budget_failure_text (Deadline n) =
     ''the execution deadline: the thread outlived its '' @ show_nat n @ ''s bound''"
| "budget_failure_text (RecheckExhausted spent cap rechecks) =
     ''the token budget: '' @ show_nat spent @ '' spent against a cap of '' @ show_nat cap @ '' after ''
     @ show_nat rechecks @ '' unchanged re-checks''"

datatype admission_decision = Proceed | SuspendFor nat | BudgetExhausted budget_failure

fun admission_decision_label :: "admission_decision \<Rightarrow> string" where
  "admission_decision_label Proceed = ''admitted''"
| "admission_decision_label (SuspendFor _) = ''suspend''"
| "admission_decision_label (BudgetExhausted _) = ''failed''"

definition u32_saturating_add :: "nat \<Rightarrow> nat \<Rightarrow> nat" where
  "u32_saturating_add a b = min (a + b) (2 ^ 32 - 1)"

definition decide_admission :: "execution_budgets \<Rightarrow> recheck_policy \<Rightarrow> nat option \<Rightarrow> nat \<Rightarrow> admission_decision" where
  "decide_admission budgets recheck carried spent =
     (case admit_inference budgets spent of
        Admitted \<Rightarrow> Proceed
      | Exhausted spent cap \<Rightarrow>
          (case carried of
             Some count \<Rightarrow>
               let unchanged = u32_saturating_add count 1 in
               if rp_bound recheck \<le> unchanged then BudgetExhausted (RecheckExhausted spent cap unchanged)
               else SuspendFor unchanged
           | None \<Rightarrow> SuspendFor 0))"

definition budget_recheck_cause :: string where
  "budget_recheck_cause = ''budget_recheck''"

definition wake_count :: "thread_record \<Rightarrow> nat option" where
  "wake_count r =
     (if rc_kind r \<noteq> InputRecord then None
      else if json_field json_str (rc_content r) ''cause'' \<noteq> Some budget_recheck_cause then None
      else json_field json_u32 (rc_content r) ''unchanged_rechecks'')"

definition carried_rechecks :: "agent_thread \<Rightarrow> db \<Rightarrow> nat option" where
  "carried_rechecks thread s = Option.bind (record_last (th_id thread) s) wake_count"

section \<open>Messages and requests\<close>

datatype message =
    MsgUser string
  | MsgAssistant string "tool_call list"
  | MsgTool string string

record tool_wire_definition =
  tw_name :: string
  tw_description :: string
  tw_input_schema :: json

text \<open>The temperature is the bit pattern of its \<open>f32\<close>; the loop passes it on.\<close>

record completion_request =
  rq_system :: "string option"
  rq_messages :: "message list"
  rq_tools :: "tool_wire_definition list"
  rq_temperature :: "nat option"
  rq_max_tokens :: "nat option"
  rq_response_format :: "json option"

definition recorded_to_wire :: "recorded_message \<Rightarrow> message" where
  "recorded_to_wire m =
     (if rm_role m = ''assistant'' then MsgAssistant (rm_content m) [] else MsgUser (rm_content m))"

definition wire_definition :: "tool_descriptor \<Rightarrow> tool_wire_definition" where
  "wire_definition d = \<lparr>tw_name = td_name d, tw_description = td_description d,
     tw_input_schema = td_input_schema d\<rparr>"

section \<open>Submissions and verdicts\<close>

definition submit_result_tool :: string where
  "submit_result_tool = ''submit_result''"

datatype submission_outcome = Accepted json | Bounced string

record verifier_launch =
  vl_binding_version_id :: uuid
  vl_pipeline_stage :: task_type
  vl_child_input :: rendered_conversation

record verdict_content =
  vc_accepted :: bool
  vc_critique :: "string option"

definition verdict_of_json :: "json \<Rightarrow> verdict_content option" where
  "verdict_of_json j =
     Option.bind (json_field json_bool j ''accepted'') (\<lambda>a.
     Option.bind (json_option_field json_str j ''critique'') (\<lambda>c.
     Some \<lparr>vc_accepted = a, vc_critique = c\<rparr>))"

text \<open>What the model was shown as graph content.\<close>

type_synonym seen_corpus = "string list"

definition corpus_push :: "string \<Rightarrow> seen_corpus \<Rightarrow> seen_corpus" where
  "corpus_push text corpus = corpus @ [text]"

fun text_contains :: "string \<Rightarrow> string \<Rightarrow> bool" where
  "text_contains [] i = (i = [])"
| "text_contains (c # cs) i = (take (length i) (c # cs) = i \<or> text_contains cs i)"

definition corpus_contains :: "seen_corpus \<Rightarrow> string \<Rightarrow> bool" where
  "corpus_contains corpus i = list_ex (\<lambda>text. text_contains text i) corpus"

section \<open>The projection\<close>

record pending_batch =
  pb_requesting_seq :: record_seq
  pb_calls :: "tool_call list"
  pb_answered :: "string list"

record resolved_submission =
  rs_arguments :: json
  rs_requesting_seq :: record_seq
  rs_tool_call_id :: string
  rs_verdict :: verdict_content

record projection =
  pj_system :: "string option"
  pj_messages :: "message list"
  pj_corpus :: seen_corpus
  pj_assistant_turns :: nat
  pj_tail :: "pending_batch option"
  pj_carried_rechecks :: "nat option"
  pj_resolved_submission :: "resolved_submission option"
  pj_child_launches :: nat

definition projection_new :: projection where
  "projection_new = \<lparr>pj_system = None, pj_messages = [], pj_corpus = [], pj_assistant_turns = 0,
     pj_tail = None, pj_carried_rechecks = None, pj_resolved_submission = None, pj_child_launches = 0\<rparr>"

text \<open>The state of the fold over the records; its locals beside the projection
  are the flag, the last turn's batch and the verdict read so far.\<close>

record log_reading =
  lr_projection :: projection
  lr_saw_rendered :: bool
  lr_pending :: "pending_batch option"
  lr_resolved :: "resolved_submission option"

definition log_reading_new :: log_reading where
  "log_reading_new = \<lparr>lr_projection = projection_new, lr_saw_rendered = False, lr_pending = None,
     lr_resolved = None\<rparr>"

definition log_fault :: "agent_thread \<Rightarrow> string \<Rightarrow> runtime_error" where
  "log_fault thread what = LogProjection (''thread '' @ uuid_text (th_id thread) @ '' holds '' @ what)"

definition parse_fault :: "string \<Rightarrow> runtime_error" where
  "parse_fault what = ContentSerialisation (''re-reading '' @ what)"

definition injected_message :: "json \<Rightarrow> string option" where
  "injected_message j =
     (if json_field json_str j ''content_kind'' \<noteq> Some ''injected_message'' then None
      else json_field json_str j ''content'')"

definition push_message :: "message \<Rightarrow> projection \<Rightarrow> projection" where
  "push_message m p = p\<lparr>pj_messages := pj_messages p @ [m]\<rparr>"

definition adopt_opening :: "rendered_conversation \<Rightarrow> projection \<Rightarrow> projection" where
  "adopt_opening r p = p\<lparr>pj_system := rn_system r,
     pj_messages := pj_messages p @ map recorded_to_wire (rn_messages r),
     pj_corpus := pj_corpus p @ map rm_content (rn_messages r)\<rparr>"

definition read_input :: "agent_thread \<Rightarrow> thread_record \<Rightarrow> log_reading \<Rightarrow> runtime_error + log_reading" where
  "read_input thread r st =
     (if is_rendered_conversation (rc_content r) then
        (if lr_saw_rendered st then Inl (log_fault thread ''a second rendered conversation'')
         else case rendered_of_json (rc_content r) of
           None \<Rightarrow> Inl (parse_fault ''the rendered conversation'')
         | Some rendered \<Rightarrow>
             Inr (st\<lparr>lr_saw_rendered := True, lr_projection := adopt_opening rendered (lr_projection st)\<rparr>))
      else case injected_message (rc_content r) of
        Some m \<Rightarrow>
          Inr (st\<lparr>lr_projection := push_message (MsgUser m) (lr_projection st), lr_resolved := None\<rparr>)
      | None \<Rightarrow>
          Inr (st\<lparr>lr_projection := (lr_projection st)\<lparr>pj_carried_rechecks := wake_count r\<rparr>\<rparr>))"

definition pending_of_calls :: "record_seq \<Rightarrow> tool_call list \<Rightarrow> pending_batch option" where
  "pending_of_calls q calls =
     (if calls = [] then None
      else Some \<lparr>pb_requesting_seq = q, pb_calls = calls, pb_answered = []\<rparr>)"

definition push_assistant :: "string \<Rightarrow> tool_call list \<Rightarrow> projection \<Rightarrow> projection" where
  "push_assistant text calls p = (push_message (MsgAssistant text calls) p)
     \<lparr>pj_assistant_turns := pj_assistant_turns p + 1\<rparr>"

definition read_assistant :: "thread_record \<Rightarrow> log_reading \<Rightarrow> runtime_error + log_reading" where
  "read_assistant r st =
     (case assistant_of_json (rc_content r) of
        None \<Rightarrow> Inl (parse_fault ''an assistant message'')
      | Some content \<Rightarrow>
          Inr (st\<lparr>lr_projection := push_assistant (ac_text content) (ac_tool_calls content) (lr_projection st),
            lr_resolved := None, lr_pending := pending_of_calls (rc_seq r) (ac_tool_calls content)\<rparr>))"

definition append_tool_result :: "string \<Rightarrow> tool_result_content \<Rightarrow> projection \<Rightarrow> projection" where
  "append_tool_result call_id content p =
     (let p' = push_message (MsgTool call_id (tr_output content)) p in
      if tr_is_error content then p' else p'\<lparr>pj_corpus := corpus_push (tr_output content) (pj_corpus p')\<rparr>)"

text \<open>A non-error result that answers the turn's submit call and reads as a
  verdict is a returned verdict.\<close>

definition returned_verdict :: "(string \<Rightarrow> json option) \<Rightarrow> pending_batch \<Rightarrow> string \<Rightarrow> tool_result_content
    \<Rightarrow> resolved_submission option" where
  "returned_verdict parse batch call_id content =
     (if tr_is_error content then None
      else case find (\<lambda>c. tc_id c = call_id \<and> tc_name c = submit_result_tool) (pb_calls batch) of
        None \<Rightarrow> None
      | Some submit \<Rightarrow>
          map_option (\<lambda>v. \<lparr>rs_arguments = tc_arguments submit,
              rs_requesting_seq = pb_requesting_seq batch, rs_tool_call_id = call_id, rs_verdict = v\<rparr>)
            (Option.bind (parse (tr_output content)) verdict_of_json))"

definition read_tool_result :: "(string \<Rightarrow> json option) \<Rightarrow> agent_thread \<Rightarrow> thread_record
    \<Rightarrow> log_reading \<Rightarrow> runtime_error + log_reading" where
  "read_tool_result parse thread r st =
     (case tool_result_of_json (rc_content r) of
        None \<Rightarrow> Inl (parse_fault ''a tool result'')
      | Some content \<Rightarrow>
          (case rc_tool_call_id r of
             None \<Rightarrow> Inl (log_fault thread ''a tool result without its call id'')
           | Some call_id \<Rightarrow>
               let st' = st\<lparr>lr_projection := append_tool_result call_id content (lr_projection st)\<rparr> in
               (case lr_pending st of
                  Some batch \<Rightarrow>
                    if rc_requesting_seq r = Some (pb_requesting_seq batch) then
                      Inr (st'\<lparr>lr_pending := Some (batch\<lparr>pb_answered := pb_answered batch @ [call_id]\<rparr>),
                        lr_resolved := (case returned_verdict parse batch call_id content of
                            Some v \<Rightarrow> Some v | None \<Rightarrow> lr_resolved st)\<rparr>)
                    else Inr st'
                | None \<Rightarrow> Inr st')))"

definition read_suspension :: "thread_record \<Rightarrow> log_reading \<Rightarrow> log_reading" where
  "read_suspension r st =
     (case suspension_of_json (rc_content r) of
        Some (DeferredToolResults _ _) \<Rightarrow>
          st\<lparr>lr_projection := (lr_projection st)
            \<lparr>pj_child_launches := pj_child_launches (lr_projection st) + 1\<rparr>\<rparr>
      | _ \<Rightarrow> st)"

definition project_record :: "(string \<Rightarrow> json option) \<Rightarrow> agent_thread \<Rightarrow> thread_record \<Rightarrow> log_reading
    \<Rightarrow> runtime_error + log_reading" where
  "project_record parse thread r st0 =
     (let st = st0\<lparr>lr_projection := (lr_projection st0)\<lparr>pj_carried_rechecks := None\<rparr>\<rparr> in
      case rc_kind r of
        InputRecord \<Rightarrow> read_input thread r st
      | AssistantMessage \<Rightarrow> read_assistant r st
      | ToolResult \<Rightarrow> read_tool_result parse thread r st
      | SuspensionRecord \<Rightarrow> Inr (read_suspension r st)
      | _ \<Rightarrow> Inr st)"

fun project_records :: "(string \<Rightarrow> json option) \<Rightarrow> agent_thread \<Rightarrow> thread_record list \<Rightarrow> log_reading
    \<Rightarrow> runtime_error + log_reading" where
  "project_records parse thread [] st = Inr st"
| "project_records parse thread (r # rs) st =
     (case project_record parse thread r st of
        Inl err \<Rightarrow> Inl err
      | Inr st' \<Rightarrow> project_records parse thread rs st')"

definition unanswered :: "pending_batch \<Rightarrow> bool" where
  "unanswered batch \<longleftrightarrow> \<not> list_all (\<lambda>c. tc_id c \<in> set (pb_answered batch)) (pb_calls batch)"

definition open_tail :: "pending_batch option \<Rightarrow> pending_batch option" where
  "open_tail pending = (case pending of Some batch \<Rightarrow> if unanswered batch then Some batch else None | None \<Rightarrow> None)"

definition close_reading :: "agent_thread \<Rightarrow> log_reading \<Rightarrow> runtime_error + projection" where
  "close_reading thread st =
     (if \<not> lr_saw_rendered st then Inl (log_fault thread ''no rendered conversation'')
      else Inr ((lr_projection st)\<lparr>pj_resolved_submission := lr_resolved st,
        pj_tail := open_tail (lr_pending st)\<rparr>))"

definition project :: "(string \<Rightarrow> json option) \<Rightarrow> agent_thread \<Rightarrow> thread_record list \<Rightarrow> runtime_error + projection" where
  "project parse thread records =
     (case project_records parse thread records log_reading_new of
        Inl err \<Rightarrow> Inl err
      | Inr st \<Rightarrow> close_reading thread st)"

definition read_log :: "agent_thread \<Rightarrow> db \<Rightarrow> thread_record list" where
  "read_log thread s = record_find_by_thread_id (th_id thread) s"

definition read_projection :: "(string \<Rightarrow> json option) \<Rightarrow> agent_thread \<Rightarrow> db \<Rightarrow> runtime_error + projection" where
  "read_projection parse thread s = project parse thread (read_log thread s)"

section \<open>What a loop runs against\<close>

text \<open>The captured dependencies. The claim and the thread are those of
  \<open>loop_deps\<close>; the pipeline reads the store it is called on.\<close>

record turn_deps =
  td_loop :: loop_deps
  td_job_id :: "uuid option"
  td_registry :: tool_registry
  td_submit_descriptor :: tool_descriptor
  td_evaluate :: "env \<Rightarrow> db \<Rightarrow> agent_thread \<Rightarrow> seen_corpus \<Rightarrow> json \<Rightarrow> tool_failure + submission_outcome"
  td_verifier_launch :: "env \<Rightarrow> db \<Rightarrow> agent_thread \<Rightarrow> json \<Rightarrow> tool_failure + verifier_launch option"
  td_rendered :: rendered_conversation
  td_budgets :: execution_budgets
  td_recheck :: recheck_policy
  td_temperature :: "nat option"
  td_max_tokens :: "nat option"
  td_parse_json :: "string \<Rightarrow> json option"

text \<open>What the wait on the stream and on the cancellation watch yields, in order:
  the watch fired, the watch closed, an event, or a provider fault.\<close>

datatype inference_event =
    TextDelta string
  | ReasoningDelta string
  | ToolCallDelta nat "string option" "string option" string
  | CompletedEvent completion_response

datatype stream_poll = WatchFired | WatchClosed | Delivered inference_event | StreamFault

datatype stream_open = OpenFault | Opened "stream_poll list"

text \<open>The values one iteration takes from outside the store: the ambient values of
  its statements, the identifiers it generates, the ledger's sum, whether the
  run was already cancelled, and the provider.\<close>

record round_input =
  ri_env :: env
  ri_record :: "nat \<Rightarrow> uuid"
  ri_launch :: launch_ids
  ri_spent :: nat
  ri_cancelled :: bool
  ri_stream :: "completion_request \<Rightarrow> stream_open"

datatype loop_outcome =
    LoopSubmitted accepted_submission
  | LoopSuspended
  | LoopCancelIntent
  | LoopBudgetFailed budget_failure

fun loop_outcome_label :: "loop_outcome \<Rightarrow> string" where
  "loop_outcome_label (LoopSubmitted _) = ''submitted''"
| "loop_outcome_label LoopSuspended = ''suspended''"
| "loop_outcome_label LoopCancelIntent = ''cancel_intent''"
| "loop_outcome_label (LoopBudgetFailed _) = ''budget_failed''"

definition td_thread :: "turn_deps \<Rightarrow> agent_thread" where
  "td_thread deps = ld_thread (td_loop deps)"

definition build_request :: "turn_deps \<Rightarrow> projection \<Rightarrow> completion_request" where
  "build_request deps p = \<lparr>rq_system = pj_system p, rq_messages = pj_messages p,
     rq_tools = map wire_definition (registry_descriptors (td_registry deps))
       @ [wire_definition (td_submit_descriptor deps)],
     rq_temperature = td_temperature deps, rq_max_tokens = td_max_tokens deps,
     rq_response_format = None\<rparr>"

definition append_assistant :: "completion_response \<Rightarrow> record_seq \<Rightarrow> tool_call list \<Rightarrow> projection \<Rightarrow> projection" where
  "append_assistant response q calls p =
     (push_assistant (cr_text response) (cr_tool_calls response) p)\<lparr>pj_tail := pending_of_calls q calls\<rparr>"

section \<open>The streamed call\<close>

datatype stream_outcome = StreamCompleted completion_response | StreamCancelled

definition opening_context :: string where
  "opening_context = ''opening the loop's streamed call''"

definition consuming_context :: string where
  "consuming_context = ''consuming the loop's streamed call''"

fun drain_stream :: "completion_response option \<Rightarrow> stream_poll list \<Rightarrow> runtime_error + stream_outcome" where
  "drain_stream terminal [] =
     (case terminal of None \<Rightarrow> Inl (Inference consuming_context) | Some r \<Rightarrow> Inr (StreamCompleted r))"
| "drain_stream terminal (WatchFired # _) = Inr StreamCancelled"
| "drain_stream terminal (WatchClosed # _) = Inl CancelWatchClosed"
| "drain_stream terminal (StreamFault # _) = Inl (Inference consuming_context)"
| "drain_stream terminal (Delivered ev # polls) =
     drain_stream (case ev of CompletedEvent r \<Rightarrow> Some r | _ \<Rightarrow> terminal) polls"

definition stream_to_terminal :: "round_input \<Rightarrow> completion_request \<Rightarrow> runtime_error + stream_outcome" where
  "stream_to_terminal ri request =
     (if ri_cancelled ri then Inr StreamCancelled
      else case ri_stream ri request of
        OpenFault \<Rightarrow> Inl (Inference opening_context)
      | Opened polls \<Rightarrow> drain_stream None polls)"

section \<open>Handling one call\<close>

datatype call_step =
    StepCommitted
  | StepFenceConflict
  | StepSubmitted accepted_submission
  | StepSuspended
  | StepCancelIntervened

fun call_step_label :: "call_step \<Rightarrow> string" where
  "call_step_label StepCommitted = ''committed''"
| "call_step_label StepFenceConflict = ''fence_conflict''"
| "call_step_label (StepSubmitted _) = ''submitted''"
| "call_step_label StepSuspended = ''suspended''"
| "call_step_label StepCancelIntervened = ''cancel_intervened''"

fun commit_to_step :: "result_commit \<Rightarrow> call_step" where
  "commit_to_step Committed = StepCommitted"
| "commit_to_step FenceConflict = StepFenceConflict"

text \<open>A result is mirrored into the projection only when it committed.\<close>

definition error_result :: "env \<Rightarrow> uuid \<Rightarrow> turn_deps \<Rightarrow> projection \<Rightarrow> record_seq \<Rightarrow> tool_call \<Rightarrow> string
    \<Rightarrow> (db, runtime_error, result_commit \<times> projection) proc" where
  "error_result e rid deps p req call diagnostics =
     (let content = \<lparr>tr_output = diagnostics, tr_is_error = True\<rparr> in
      proc_bind (commit_result_record e rid (td_loop deps) req (tc_id call) content) (\<lambda>c.
      proc_return (c, if c = Committed then append_tool_result (tc_id call) content p else p)))"

text \<open>The fenced transaction of an ordinary tool. A recoverable failure of the
  tool leaves the transaction to roll back and is reported by a second one.\<close>

datatype tool_txn = ToolDone result_commit tool_result_content | ToolRecoverable recoverable_tool_failure

definition tool_txn :: "env \<Rightarrow> uuid \<Rightarrow> loop_deps \<Rightarrow> stage_tool \<Rightarrow> json \<Rightarrow> record_seq \<Rightarrow> tool_call
    \<Rightarrow> tool_txn ending rt" where
  "tool_txn e rid deps tool prepared req call =
     tx_then (guard_claim deps)
    (tx_bind (tx_read (record_next_seq (th_id (ld_thread deps)))) (\<lambda>q.
     tx_match (tl_execute tool e prepared (tc_arguments call))
       (\<lambda>product.
          case bound_result (tl_descriptor tool) product of (out, oversized) \<Rightarrow>
          let content = \<lparr>tr_output = out, tr_is_error = oversized\<rparr> in
          tx_match (record_append e rid (tail_record e (th_id (ld_thread deps)) q ToolResult
              (Some (req, tc_id call)) (tool_result_to_json content) None))
            (\<lambda>_. tx_then (reset_progress e deps) (tx_return (Commit (ToolDone Committed content))))
            (\<lambda>err. case err of
               DbUniqueViolation _ _ \<Rightarrow> tx_return (Rollback (ToolDone FenceConflict content))
             | _ \<Rightarrow> tx_fail (Database ''committing a tool result'' err)))
       (\<lambda>failure. case failure of
          Recoverable f \<Rightarrow> tx_return (Rollback (ToolRecoverable f))
        | SystemFailure ctx \<Rightarrow> tx_fail (ToolExecution ctx))))"

definition execute_ordinary :: "env \<Rightarrow> uuid \<Rightarrow> turn_deps \<Rightarrow> projection \<Rightarrow> record_seq \<Rightarrow> tool_call
    \<Rightarrow> (db, runtime_error, result_commit \<times> projection) proc" where
  "execute_ordinary e rid deps p req call =
     (case lookup_tool (td_registry deps) (tc_name call) of
        Inl unknown \<Rightarrow> error_result e rid deps p req call (render_failure unknown)
      | Inr tool \<Rightarrow>
          (case tl_prepare tool e (tc_arguments call) of
             Inl (Recoverable f) \<Rightarrow> error_result e rid deps p req call (render_failure f)
           | Inl (SystemFailure ctx) \<Rightarrow> proc_fail (ToolExecution ctx)
           | Inr prepared \<Rightarrow>
               proc_bind (run_txn (tool_txn e rid (td_loop deps) tool prepared req call)) (\<lambda>res.
               case res of
                 ToolRecoverable f \<Rightarrow> error_result e rid deps p req call (render_failure f)
               | ToolDone c content \<Rightarrow>
                   proc_return (c, if c = Committed then append_tool_result (tc_id call) content p else p))))"

definition accepted_call :: "json \<Rightarrow> record_seq \<Rightarrow> tool_call \<Rightarrow> accepted_submission" where
  "accepted_call payload req call =
     \<lparr>as_payload = payload, as_requesting_seq = req, as_tool_call_id = tc_id call\<rparr>"

definition launch_verifier :: "round_input \<Rightarrow> turn_deps \<Rightarrow> projection \<Rightarrow> record_seq \<Rightarrow> tool_call \<Rightarrow> json
    \<Rightarrow> verifier_launch \<Rightarrow> (db, runtime_error, call_step \<times> projection) proc" where
  "launch_verifier ri deps p req call payload launch =
     (if (case eb_max_child_launches (td_budgets deps) of
            None \<Rightarrow> False | Some cap \<Rightarrow> cap \<le> pj_child_launches p)
      then proc_return (StepSubmitted (accepted_call payload req call), p)
      else case th_principal_id (td_thread deps) of
        None \<Rightarrow> proc_fail (ProductInvariant ''a product thread carries a principal'')
      | Some principal_id \<Rightarrow>
          proc_bind (suspend_with_child (ri_env ri) (ri_launch ri) (td_thread deps) (ld_task_id (td_loop deps))
              (ld_claim_token (td_loop deps)) req (tc_id call)
              \<lparr>la_pipeline_stage = vl_pipeline_stage launch,
                la_binding_version_id = vl_binding_version_id launch, la_principal_id = principal_id,
                la_job_id = td_job_id deps, la_format_version = th_format_version (td_thread deps)\<rparr>
              (vl_child_input launch)) (\<lambda>out.
          proc_return (case out of
              Launched _ \<Rightarrow> StepSuspended
            | ChildCancelIntervened \<Rightarrow> StepCancelIntervened, p)))"

definition as_step :: "(db, runtime_error, result_commit \<times> projection) proc
    \<Rightarrow> (db, runtime_error, call_step \<times> projection) proc" where
  "as_step m = proc_bind m (\<lambda>(c, p). proc_return (commit_to_step c, p))"

definition handle_submission :: "round_input \<Rightarrow> uuid \<Rightarrow> turn_deps \<Rightarrow> projection \<Rightarrow> record_seq \<Rightarrow> tool_call
    \<Rightarrow> (db, runtime_error, call_step \<times> projection) proc" where
  "handle_submission ri rid deps p req call =
     proc_bind (proc_read (\<lambda>s. td_evaluate deps (ri_env ri) s (td_thread deps) (pj_corpus p) (tc_arguments call)))
       (\<lambda>evaluation.
     case evaluation of
       Inr (Accepted payload) \<Rightarrow>
         proc_bind (proc_read (\<lambda>s. td_verifier_launch deps (ri_env ri) s (td_thread deps) payload)) (\<lambda>verifier.
         case verifier of
           Inr None \<Rightarrow> proc_return (StepSubmitted (accepted_call payload req call), p)
         | Inr (Some launch) \<Rightarrow> launch_verifier ri deps p req call payload launch
         | Inl (Recoverable f) \<Rightarrow> as_step (error_result (ri_env ri) rid deps p req call (render_failure f))
         | Inl (SystemFailure ctx) \<Rightarrow> proc_fail (ToolExecution ctx))
     | Inr (Bounced diagnostics) \<Rightarrow> as_step (error_result (ri_env ri) rid deps p req call diagnostics)
     | Inl (Recoverable f) \<Rightarrow> as_step (error_result (ri_env ri) rid deps p req call (render_failure f))
     | Inl (SystemFailure ctx) \<Rightarrow> proc_fail (ToolExecution ctx))"

definition handle_call :: "round_input \<Rightarrow> uuid \<Rightarrow> turn_deps \<Rightarrow> projection \<Rightarrow> record_seq \<Rightarrow> tool_call
    \<Rightarrow> (db, runtime_error, call_step \<times> projection) proc" where
  "handle_call ri rid deps p req call =
     (if tc_name call = submit_result_tool then handle_submission ri rid deps p req call
      else as_step (execute_ordinary (ri_env ri) rid deps p req call))"

section \<open>The batch\<close>

datatype batch_outcome =
    BatchCompleted
  | BatchSubmitted accepted_submission
  | BatchSuspended
  | BatchCancelIntervened
  | Reproject

fun execute_calls :: "round_input \<Rightarrow> nat \<Rightarrow> turn_deps \<Rightarrow> pending_batch \<Rightarrow> tool_call list \<Rightarrow> projection
    \<Rightarrow> (db, runtime_error, batch_outcome \<times> projection) proc" where
  "execute_calls ri n deps batch [] p = proc_return (BatchCompleted, p\<lparr>pj_tail := None\<rparr>)"
| "execute_calls ri n deps batch (call # calls) p =
     (if tc_id call \<in> set (pb_answered batch) then execute_calls ri (Suc n) deps batch calls p
      else proc_bind (handle_call ri (ri_record ri n) deps p (pb_requesting_seq batch) call) (\<lambda>(step, p').
        case step of
          StepCommitted \<Rightarrow> execute_calls ri (Suc n) deps batch calls p'
        | StepFenceConflict \<Rightarrow> proc_return (Reproject, p')
        | StepSubmitted a \<Rightarrow> proc_return (BatchSubmitted a, p')
        | StepSuspended \<Rightarrow> proc_return (BatchSuspended, p')
        | StepCancelIntervened \<Rightarrow> proc_return (BatchCancelIntervened, p')))"

definition execute_batch :: "round_input \<Rightarrow> turn_deps \<Rightarrow> pending_batch \<Rightarrow> projection
    \<Rightarrow> (db, runtime_error, batch_outcome \<times> projection) proc" where
  "execute_batch ri deps batch p = execute_calls ri 0 deps batch (pb_calls batch) p"

section \<open>A returned verdict\<close>

definition resolve_drift :: "round_input \<Rightarrow> turn_deps \<Rightarrow> projection \<Rightarrow> string
    \<Rightarrow> (db, runtime_error, accepted_submission option \<times> projection) proc" where
  "resolve_drift ri deps p diagnostics =
     proc_then (commit_drift_input (ri_env ri) (ri_record ri 0) (td_loop deps) diagnostics)
       (proc_return (None, push_message (MsgUser (drift_message diagnostics)) p))"

definition resolve_verdict :: "round_input \<Rightarrow> turn_deps \<Rightarrow> projection \<Rightarrow> resolved_submission
    \<Rightarrow> (db, runtime_error, accepted_submission option \<times> projection) proc" where
  "resolve_verdict ri deps p resolved =
     (if \<not> vc_accepted (rs_verdict resolved) then proc_return (None, p)
      else proc_bind (proc_read (\<lambda>s. td_evaluate deps (ri_env ri) s (td_thread deps) (pj_corpus p)
          (rs_arguments resolved))) (\<lambda>evaluation.
        case evaluation of
          Inr (Accepted payload) \<Rightarrow>
            proc_return (Some \<lparr>as_payload = payload, as_requesting_seq = rs_requesting_seq resolved,
              as_tool_call_id = rs_tool_call_id resolved\<rparr>, p)
        | Inr (Bounced diagnostics) \<Rightarrow> resolve_drift ri deps p diagnostics
        | Inl (Recoverable f) \<Rightarrow> resolve_drift ri deps p (render_failure f)
        | Inl (SystemFailure ctx) \<Rightarrow> proc_fail (ToolExecution ctx)))"

section \<open>An iteration of the loop\<close>

datatype loop_step = Break loop_outcome | Continue projection

definition budget_suspend :: "round_input \<Rightarrow> turn_deps \<Rightarrow> nat \<Rightarrow> (db, runtime_error, loop_step) proc" where
  "budget_suspend ri deps unchanged =
     proc_bind (suspend_stage_thread (ri_env ri) (ri_record ri 0) (td_thread deps) (ld_task_id (td_loop deps))
         (ld_claim_token (td_loop deps)) (BudgetExhaustion unchanged)
         (Some (env_utc_now (ri_env ri) + seconds (int (rp_delay_seconds (td_recheck deps)))))) (\<lambda>out.
     proc_return (Break (case out of SuspendedOutcome \<Rightarrow> LoopSuspended | SuspendCancelIntervened \<Rightarrow> LoopCancelIntent)))"

definition call_and_commit :: "round_input \<Rightarrow> turn_deps \<Rightarrow> projection \<Rightarrow> (db, runtime_error, loop_step) proc" where
  "call_and_commit ri deps p =
     (case stream_to_terminal ri (build_request deps p) of
        Inl err \<Rightarrow> proc_fail err
      | Inr StreamCancelled \<Rightarrow> proc_return (Break LoopCancelIntent)
      | Inr (StreamCompleted response) \<Rightarrow>
          proc_bind (commit_assistant_turn (ri_env ri) (ri_record ri 0) (td_loop deps) response) (\<lambda>(record, calls).
          proc_return (Continue (append_assistant response (rc_seq record) calls p))))"

definition turn_cap_reached :: "turn_deps \<Rightarrow> projection \<Rightarrow> nat option" where
  "turn_cap_reached deps p =
     (case eb_max_turns (td_budgets deps) of
        Some cap \<Rightarrow> if cap \<le> pj_assistant_turns p then Some cap else None
      | None \<Rightarrow> None)"

definition deadline_passed :: "round_input \<Rightarrow> turn_deps \<Rightarrow> nat option" where
  "deadline_passed ri deps =
     (case eb_execution_deadline_seconds (td_budgets deps) of
        Some n \<Rightarrow> if seconds (int n) < env_utc_now (ri_env ri) - th_created_at (td_thread deps) then Some n else None
      | None \<Rightarrow> None)"

text \<open>A turn boundary: the cancellation intent, the turn cap, the deadline, the
  token admission, and only then the call.\<close>

definition turn_boundary :: "round_input \<Rightarrow> turn_deps \<Rightarrow> nat option \<Rightarrow> projection \<Rightarrow> (db, runtime_error, loop_step) proc" where
  "turn_boundary ri deps carried p =
     proc_bind (proc_read (thread_find_by_id (th_id (td_thread deps)))) (\<lambda>current.
     case current of
       None \<Rightarrow> proc_fail (ThreadMissing (ld_task_id (td_loop deps)))
     | Some th \<Rightarrow>
         if th_cancel_requested_at th \<noteq> None then proc_return (Break LoopCancelIntent)
         else case turn_cap_reached deps p of
           Some cap \<Rightarrow> proc_return (Break (LoopBudgetFailed (TurnCap (pj_assistant_turns p) cap)))
         | None \<Rightarrow>
             (case deadline_passed ri deps of
                Some n \<Rightarrow> proc_return (Break (LoopBudgetFailed (Deadline n)))
              | None \<Rightarrow>
                  (case decide_admission (td_budgets deps) (td_recheck deps) carried (ri_spent ri) of
                     Proceed \<Rightarrow> call_and_commit ri deps p
                   | BudgetExhausted cause \<Rightarrow> proc_return (Break (LoopBudgetFailed cause))
                   | SuspendFor unchanged \<Rightarrow> budget_suspend ri deps unchanged)))"

definition loop_round :: "round_input \<Rightarrow> turn_deps \<Rightarrow> projection \<Rightarrow> (db, runtime_error, loop_step) proc" where
  "loop_round ri deps p =
     (case pj_resolved_submission p of
        Some resolved \<Rightarrow>
          proc_bind (resolve_verdict ri deps (p\<lparr>pj_resolved_submission := None\<rparr>) resolved) (\<lambda>(accepted, p').
          proc_return (case accepted of Some a \<Rightarrow> Break (LoopSubmitted a) | None \<Rightarrow> Continue p'))
      | None \<Rightarrow>
          (case pj_tail p of
             Some batch \<Rightarrow>
               proc_bind (execute_batch ri deps batch (p\<lparr>pj_tail := None\<rparr>)) (\<lambda>(out, p').
               case out of
                 BatchCompleted \<Rightarrow> proc_return (Continue p')
               | BatchSubmitted a \<Rightarrow> proc_return (Break (LoopSubmitted a))
               | BatchSuspended \<Rightarrow> proc_return (Break LoopSuspended)
               | BatchCancelIntervened \<Rightarrow> proc_return (Break LoopCancelIntent)
               | Reproject \<Rightarrow>
                   proc_bind (proc_read (read_projection (td_parse_json deps) (td_thread deps))) (\<lambda>q.
                   case q of Inl err \<Rightarrow> proc_fail err | Inr p'' \<Rightarrow> proc_return (Continue p'')))
           | None \<Rightarrow> turn_boundary ri deps (pj_carried_rechecks p) (p\<lparr>pj_carried_rechecks := None\<rparr>)))"

section \<open>The run\<close>

text \<open>Entry: the log decides whether the opening is committed.\<close>

definition loop_entry :: "env \<Rightarrow> uuid \<Rightarrow> turn_deps \<Rightarrow> (db, runtime_error, projection) proc" where
  "loop_entry e rid deps =
     proc_bind (proc_read (\<lambda>s. list_ex (\<lambda>r. is_rendered_conversation (rc_content r)) (read_log (td_thread deps) s)))
       (\<lambda>resumed.
     proc_then
       (if resumed then proc_return (td_rendered deps)
        else begin_turn e rid (td_thread deps)
          (claim_stage (ld_task_id (td_loop deps)) (ld_claim_token (td_loop deps))) None (td_rendered deps))
       (proc_bind (proc_read (read_projection (td_parse_json deps) (td_thread deps))) (\<lambda>p.
        case p of Inl err \<Rightarrow> proc_fail err | Inr p' \<Rightarrow> proc_return p')))"

text \<open>The loop over a finite supply of iterations; running out leaves it at the
  position it reached.\<close>

fun loop_rounds :: "round_input list \<Rightarrow> turn_deps \<Rightarrow> projection \<Rightarrow> (db, runtime_error, loop_step) proc" where
  "loop_rounds [] deps p = proc_return (Continue p)"
| "loop_rounds (ri # ris) deps p =
     proc_bind (loop_round ri deps p) (\<lambda>step.
     case step of Break out \<Rightarrow> proc_return (Break out) | Continue p' \<Rightarrow> loop_rounds ris deps p')"

definition run_turn_loop :: "env \<Rightarrow> uuid \<Rightarrow> round_input list \<Rightarrow> turn_deps \<Rightarrow> (db, runtime_error, loop_step) proc" where
  "run_turn_loop e rid ris deps = proc_bind (loop_entry e rid deps) (loop_rounds ris deps)"

end
