(* ===== verification/TurnReplay.thy ===== *)
theory TurnReplay
  imports TurnLoop
begin

text \<open>
  The in-memory projection of the turn loop and the reading of the committed
  log: how one appended record moves the reading, what each committed write of
  the loop appends, and that an iteration leaves the two in step.
\<close>

section \<open>Recorded content reads back\<close>

lemma tool_result_roundtrip [simp]: "tool_result_of_json (tool_result_to_json c) = Some c"
  by (simp add: tool_result_of_json_def tool_result_to_json_def json_field_def)

lemma tool_call_roundtrip [simp]: "tool_call_of_json (tool_call_to_json c) = Some c"
  by (simp add: tool_call_of_json_def tool_call_to_json_def json_field_def)

lemma assistant_roundtrip [simp]: "assistant_of_json (assistant_to_json a) = Some a"
  by (cases a) (simp add: assistant_of_json_def assistant_to_json_def json_field_def json_field_or_def comp_def)

lemma injected_roundtrip [simp]: "injected_message (injected_to_json m) = Some m"
  by (simp add: injected_message_def injected_to_json_def json_field_def)

lemma injected_not_rendered [simp]: "\<not> is_rendered_conversation (injected_to_json m)"
  by (simp add: is_rendered_conversation_def injected_to_json_def)

section \<open>Reading a longer log\<close>

lemma project_records_append:
  "project_records parse th (rs @ rs') st =
     (case project_records parse th rs st of Inl err \<Rightarrow> Inl err | Inr st' \<Rightarrow> project_records parse th rs' st')"
  by (induction rs arbitrary: st) (auto split: sum.splits)

lemma project_Inr: "project parse th rs = Inr p \<longleftrightarrow>
   (\<exists>st. project_records parse th rs log_reading_new = Inr st \<and> lr_saw_rendered st \<and>
      p = (lr_projection st)\<lparr>pj_resolved_submission := lr_resolved st, pj_tail := open_tail (lr_pending st)\<rparr>)"
  by (auto simp: project_def close_reading_def split: sum.splits)

text \<open>What later records do to the conversation: once the opening is read the
  system prompt stays, and messages and corpus only grow at the end.\<close>

definition extends :: "log_reading \<Rightarrow> log_reading \<Rightarrow> bool" where
  "extends st st' \<longleftrightarrow>
     (lr_saw_rendered st \<longrightarrow> lr_saw_rendered st' \<and> pj_system (lr_projection st') = pj_system (lr_projection st)) \<and>
     (\<exists>ms. pj_messages (lr_projection st') = pj_messages (lr_projection st) @ ms) \<and>
     (\<exists>cs. pj_corpus (lr_projection st') = pj_corpus (lr_projection st) @ cs) \<and>
     pj_assistant_turns (lr_projection st) \<le> pj_assistant_turns (lr_projection st') \<and>
     pj_child_launches (lr_projection st) \<le> pj_child_launches (lr_projection st')"

lemma extends_refl: "extends st st"
  by (simp add: extends_def)

lemma extends_trans: "extends st st' \<Longrightarrow> extends st' st'' \<Longrightarrow> extends st st''"
  by (auto simp: extends_def)

lemmas project_record_defs = project_record_def read_input_def read_assistant_def read_tool_result_def
  read_suspension_def push_message_def push_assistant_def adopt_opening_def append_tool_result_def
  corpus_push_def Let_def

lemma project_record_extends: "project_record parse th r st = Inr st' \<Longrightarrow> extends st st'"
  by (auto simp: extends_def project_record_defs
      split: record_kind.splits if_splits option.splits suspension.splits)

lemma project_records_extends: "project_records parse th rs st = Inr st' \<Longrightarrow> extends st st'"
  by (induction rs arbitrary: st)
    (auto simp: extends_refl split: sum.splits dest!: project_record_extends intro: extends_trans)

lemma project_prefix:
  assumes "project parse th rs = Inr p" "project parse th (rs @ rs') = Inr p'"
  shows "pj_system p' = pj_system p" "\<exists>ms. pj_messages p' = pj_messages p @ ms"
    "\<exists>cs. pj_corpus p' = pj_corpus p @ cs"
    "pj_assistant_turns p \<le> pj_assistant_turns p'" "pj_child_launches p \<le> pj_child_launches p'"
proof -
  from assms(1) obtain st where st: "project_records parse th rs log_reading_new = Inr st" "lr_saw_rendered st"
    and p: "p = (lr_projection st)\<lparr>pj_resolved_submission := lr_resolved st, pj_tail := open_tail (lr_pending st)\<rparr>"
    by (auto simp: project_Inr)
  from assms(2) obtain st' where st': "project_records parse th rs' st = Inr st'"
    and p': "p' = (lr_projection st')\<lparr>pj_resolved_submission := lr_resolved st', pj_tail := open_tail (lr_pending st')\<rparr>"
    by (auto simp: project_Inr project_records_append st(1))
  have "extends st st'" by (rule project_records_extends [OF st'])
  then show "pj_system p' = pj_system p" "\<exists>ms. pj_messages p' = pj_messages p @ ms"
    "\<exists>cs. pj_corpus p' = pj_corpus p @ cs"
    "pj_assistant_turns p \<le> pj_assistant_turns p'" "pj_child_launches p \<le> pj_child_launches p'"
    using st(2) by (auto simp: p p' extends_def)
qed

section \<open>The log of a thread\<close>

lemma read_log_thread_log: "log_contiguous s \<Longrightarrow> read_log th s = thread_log (th_id th) s"
proof -
  assume "log_contiguous s"
  then have "sorted (map rc_seq (thread_log (th_id th) s))"
    by (simp add: log_contiguous_def sorted_map sorted_wrt_map strict_sorted_iff)
  then show ?thesis
    by (simp add: read_log_def record_find_by_thread_id_def sort_key_id_if_sorted)
qed

definition same_records :: "db \<Rightarrow> db \<Rightarrow> bool" where
  "same_records s s' \<longleftrightarrow> db_records s' = db_records s"

interpretation same_records: store_order same_records
  by unfold_locales (auto simp: same_records_def)

lemma same_records_log:
  "same_records s s' \<Longrightarrow> thread_log th s' = thread_log th s"
  "same_records s s' \<Longrightarrow> log_contiguous s' = log_contiguous s"
  by (simp_all add: same_records_def thread_log_def log_contiguous_def)

lemma keeps_same_records_rt_db: "keeps same_records m \<Longrightarrow> keeps same_records (rt_db ctx m)"
  unfolding rt_db_def by (rule same_records.keeps_map_err)

lemma keeps_same_records_update:
  "keeps same_records (update_tasks P f)" "keeps same_records (update_threads Q g)"
  by (auto intro!: keepsI simp: update_tasks_def update_threads_def same_records_def)

lemma keeps_same_records_reset: "keeps same_records (reset_progress e deps)"
  unfolding reset_progress_def task_reset_retry_count_def
  by (intro same_records.keeps_intros keeps_same_records_rt_db keeps_same_records_update)

lemma keeps_same_records_spend: "keeps same_records (rt_db ctx (thread_set_execution_spend e i j))"
  unfolding thread_set_execution_spend_def
  by (intro same_records.keeps_intros keeps_same_records_rt_db keeps_same_records_update)

lemma guard_claim_Inr: "guard_claim deps s = Inr (u, s') \<Longrightarrow> s' = s"
  by (auto simp: guard_claim_def claim_require_def tx_success tx_read_Inr tx_return_Inr tx_fail_app split: if_splits)

lemma claim_require_Inr: "claim_require c s = Inr (u, s') \<Longrightarrow> s' = s \<and> claim_holds c s"
  by (auto simp: claim_require_def tx_success tx_read_Inr tx_return_Inr tx_fail_app split: if_splits)

text \<open>One record appended at a thread's tail, whatever else the store did.\<close>

definition appends :: "uuid \<Rightarrow> thread_record \<Rightarrow> db \<Rightarrow> db \<Rightarrow> bool" where
  "appends th r s s' \<longleftrightarrow> rc_thread_id r = th \<and> db_records s' = db_records s @ [r] \<and>
     rc_seq r = record_next_seq th s"

lemma appends_log: "appends th r s s' \<Longrightarrow> thread_log th s' = thread_log th s @ [r]"
  by (simp add: appends_def thread_log_def)

lemma appends_contiguous:
  assumes "appends th r s s'" "log_contiguous s"
  shows "log_contiguous s'"
proof -
  have "rc_seq r = int (length (thread_log th s))"
    using assms record_next_seq_contiguous by (simp add: appends_def)
  moreover have "thread_log i s' = thread_log i s @ (if i = th then [r] else [])" for i
    using assms(1) by (auto simp: appends_def thread_log_def)
  ultimately show ?thesis using assms(2) by (simp add: log_contiguous_def)
qed

lemma appends_read_log:
  assumes "appends (th_id th) r s s'" "log_contiguous s"
  shows "read_log th s' = read_log th s @ [r]"
  using appends_log [OF assms(1)] appends_contiguous [OF assms] assms(2) by (simp add: read_log_thread_log)

lemma appends_same: "appends th r s t \<Longrightarrow> same_records t s' \<Longrightarrow> appends th r s s'"
  by (simp add: appends_def same_records_def)

lemma record_append_appends:
  assumes "record_append e i (tail_record e th (record_next_seq th s) k ans c u) s = Inr (r, s')"
  shows "appends th r s s' \<and> rc_kind r = k \<and> rc_content r = c \<and> rc_id r = i \<and>
    rc_requesting_seq r = map_option fst ans \<and> rc_tool_call_id r = map_option snd ans"
  using assms by (auto simp: record_append_Inr appends_def tail_record_def new_record_row_def)

lemma append_tail_appends:
  assumes "append_tail e i th k ans c u ctx s = Inr (r, s')"
  shows "appends th r s s' \<and> rc_kind r = k \<and> rc_content r = c \<and> rc_id r = i \<and>
    rc_requesting_seq r = map_option fst ans \<and> rc_tool_call_id r = map_option snd ans"
  using assms record_append_appends
  by (auto simp: append_tail_def rt_db_def tx_success tx_read_Inr tx_map_err_Inr)

section \<open>One more record\<close>

text \<open>The reading of the committed log, once an opening is in it.\<close>

definition reads :: "(string \<Rightarrow> json option) \<Rightarrow> agent_thread \<Rightarrow> db \<Rightarrow> log_reading \<Rightarrow> bool" where
  "reads parse th s st \<longleftrightarrow> log_contiguous s \<and> lr_saw_rendered st \<and>
     project_records parse th (read_log th s) log_reading_new = Inr st"

lemma reads_projection:
  "reads parse th s st \<Longrightarrow> read_projection parse th s =
     Inr ((lr_projection st)\<lparr>pj_resolved_submission := lr_resolved st, pj_tail := open_tail (lr_pending st)\<rparr>)"
  by (simp add: reads_def read_projection_def project_def close_reading_def)

lemma projection_reads:
  assumes "read_projection parse th s = Inr p" "log_contiguous s"
  obtains st where "reads parse th s st"
    "p = (lr_projection st)\<lparr>pj_resolved_submission := lr_resolved st, pj_tail := open_tail (lr_pending st)\<rparr>"
  using assms by (auto simp: reads_def read_projection_def project_Inr)

lemma reads_same: "reads parse th s st \<Longrightarrow> same_records s s' \<Longrightarrow> reads parse th s' st"
  by (simp add: reads_def same_records_log read_log_def record_find_by_thread_id_def)

lemma reads_append:
  assumes "reads parse th s st" "appends (th_id th) r s s'" "project_record parse th r st = Inr st'"
  shows "reads parse th s' st'"
  using assms appends_contiguous appends_read_log project_record_extends [OF assms(3)]
  by (auto simp: reads_def project_records_append extends_def)

definition forget_recheck :: "projection \<Rightarrow> projection" where
  "forget_recheck p = p\<lparr>pj_carried_rechecks := None\<rparr>"

lemma read_result_record:
  assumes "reads parse th s st" "appends (th_id th) r s s'" "rc_kind r = ToolResult"
    "rc_content r = tool_result_to_json c" "rc_requesting_seq r = Some q" "rc_tool_call_id r = Some i"
    "lr_pending st = Some b" "pb_requesting_seq b = q"
  obtains st' where "reads parse th s' st'"
    "lr_projection st' = append_tool_result i c (forget_recheck (lr_projection st))"
    "lr_pending st' = Some (b\<lparr>pb_answered := pb_answered b @ [i]\<rparr>)"
proof (rule that)
  show "reads parse th s' (st\<lparr>lr_projection := append_tool_result i c (forget_recheck (lr_projection st)),
      lr_pending := Some (b\<lparr>pb_answered := pb_answered b @ [i]\<rparr>),
      lr_resolved := (case returned_verdict parse b i c of Some v \<Rightarrow> Some v | None \<Rightarrow> lr_resolved st)\<rparr>)"
    by (rule reads_append [OF assms(1,2)])
      (use assms(3-) in \<open>simp add: project_record_def read_tool_result_def forget_recheck_def Let_def split: option.split\<close>)
qed simp_all

lemma read_assistant_record:
  assumes "reads parse th s st" "appends (th_id th) r s s'" "rc_kind r = AssistantMessage"
    "rc_content r = assistant_to_json a"
  obtains st' where "reads parse th s' st'"
    "lr_projection st' = push_assistant (ac_text a) (ac_tool_calls a) (forget_recheck (lr_projection st))"
    "lr_pending st' = pending_of_calls (rc_seq r) (ac_tool_calls a)"
proof (rule that)
  show "reads parse th s' (st\<lparr>lr_projection := push_assistant (ac_text a) (ac_tool_calls a) (forget_recheck (lr_projection st)),
      lr_resolved := None, lr_pending := pending_of_calls (rc_seq r) (ac_tool_calls a)\<rparr>)"
    by (rule reads_append [OF assms(1,2)])
      (use assms(3-) in \<open>simp add: project_record_def read_assistant_def forget_recheck_def Let_def\<close>)
qed simp_all

lemma read_injected_record:
  assumes "reads parse th s st" "appends (th_id th) r s s'" "rc_kind r = InputRecord"
    "rc_content r = injected_to_json m"
  obtains st' where "reads parse th s' st'"
    "lr_projection st' = push_message (MsgUser m) (forget_recheck (lr_projection st))"
    "lr_pending st' = lr_pending st" "lr_resolved st' = None"
proof (rule that)
  show "reads parse th s' (st\<lparr>lr_projection := push_message (MsgUser m) (forget_recheck (lr_projection st)),
      lr_resolved := None\<rparr>)"
    by (rule reads_append [OF assms(1,2)])
      (use assms(3-) in \<open>simp add: project_record_def read_input_def forget_recheck_def Let_def\<close>)
qed simp_all

section \<open>What the loop's commits append\<close>

lemma run_txn_Inr:
  assumes "run_txn m s = (Inr a, s')"
  shows "m s = Inr (Commit a, s') \<or> (\<exists>t. m s = Inr (Rollback a, t) \<and> s' = s)"
  using assms by (auto simp: run_txn_def split: sum.splits ending.splits prod.splits)

lemma commit_assistant_turn_appends:
  assumes "commit_assistant_turn e rid deps resp s = (Inr (r, calls), s')"
  shows "appends (th_id (ld_thread deps)) r s s'" "rc_kind r = AssistantMessage"
    "rc_content r = assistant_to_json \<lparr>ac_text = cr_text resp, ac_tool_calls = cr_tool_calls resp\<rparr>"
    "calls = cr_tool_calls resp" "rc_id r = rid" "rc_requesting_seq r = None"
proof -
  obtain t current spend u t' where run: "commit_assistant_record e rid (ld_thread deps)
      (claim_stage (ld_task_id deps) (ld_claim_token deps))
      (assistant_to_json \<lparr>ac_text = cr_text resp, ac_tool_calls = cr_tool_calls resp\<rparr>)
      (usage_to_json (cr_usage resp)) s = Inr ((r, current), t)"
    and spend: "rt_db ''projecting the turn's spend''
        (thread_set_execution_spend e (th_id (ld_thread deps)) (spend_to_json (add_spend resp spend))) t = Inr (u, t')"
    and reset: "reset_progress e deps t' = Inr ((), s')" and calls: "calls = cr_tool_calls resp"
    using assms
    by (auto simp: commit_assistant_turn_def assistant_turn_txn_def tx_success tx_return_Inr tx_fail_app
        dest!: run_txn_Inr split: option.splits)
  have "appends (th_id (ld_thread deps)) r s t \<and> rc_kind r = AssistantMessage \<and> rc_id r = rid \<and>
    rc_requesting_seq r = None \<and>
    rc_content r = assistant_to_json \<lparr>ac_text = cr_text resp, ac_tool_calls = cr_tool_calls resp\<rparr>"
    using run by (auto simp: commit_assistant_record_def tx_success tx_read_Inr tx_return_Inr tx_fail_app
        dest!: claim_require_Inr append_tail_appends split: option.splits)
  moreover have "same_records t s'"
    using same_records.order_trans keepsD [OF keeps_same_records_spend spend] keepsD [OF keeps_same_records_reset reset]
    by blast
  ultimately show "appends (th_id (ld_thread deps)) r s s'" "rc_kind r = AssistantMessage"
    "rc_content r = assistant_to_json \<lparr>ac_text = cr_text resp, ac_tool_calls = cr_tool_calls resp\<rparr>"
    "calls = cr_tool_calls resp" "rc_id r = rid" "rc_requesting_seq r = None"
    using calls appends_same by auto
qed

text \<open>A fenced result either is the one new record or leaves the store alone.\<close>

definition result_appended :: "uuid \<Rightarrow> uuid \<Rightarrow> record_seq \<Rightarrow> string \<Rightarrow> tool_result_content \<Rightarrow> db \<Rightarrow> db \<Rightarrow> bool" where
  "result_appended rid th q i c s s' \<longleftrightarrow>
     (\<exists>r. appends th r s s' \<and> rc_kind r = ToolResult \<and> rc_content r = tool_result_to_json c \<and> rc_id r = rid \<and>
        rc_requesting_seq r = Some q \<and> rc_tool_call_id r = Some i)"

lemma result_appendedI:
  assumes "record_append e rid (tail_record e th (record_next_seq th s) ToolResult (Some (q, i))
      (tool_result_to_json c) None) t = Inr (r, t')"
    "same_records s t" "same_records t' s'"
  shows "result_appended rid th q i c s s'"
proof -
  have "record_next_seq th s = record_next_seq th t"
    using assms(2) by (simp add: record_next_seq_def same_records_log)
  then have "appends th r t t' \<and> rc_kind r = ToolResult \<and> rc_content r = tool_result_to_json c \<and> rc_id r = rid \<and>
      rc_requesting_seq r = Some q \<and> rc_tool_call_id r = Some i"
    using record_append_appends [of e rid th t] assms(1) by simp
  moreover have "appends th r s s'"
    using calculation assms(2,3) by (auto simp: appends_def same_records_def record_next_seq_def thread_log_def)
  ultimately show ?thesis by (auto simp: result_appended_def)
qed

text \<open>Why the fence refuses an append under a fresh record identifier: the log
  holds a result for that call.\<close>

definition answered_in :: "uuid \<Rightarrow> record_seq \<Rightarrow> string \<Rightarrow> db \<Rightarrow> bool" where
  "answered_in th q i s \<longleftrightarrow> (\<exists>r \<in> set (thread_log th s). rc_kind r = ToolResult \<and>
     rc_requesting_seq r = Some q \<and> rc_tool_call_id r = Some i)"

definition refused :: "uuid \<Rightarrow> uuid \<Rightarrow> record_seq \<Rightarrow> string \<Rightarrow> db \<Rightarrow> db \<Rightarrow> bool" where
  "refused rid th q i s s' \<longleftrightarrow> s' = s \<and>
     (log_contiguous s \<longrightarrow> rid \<notin> rc_id ` set (db_records s) \<longrightarrow> answered_in th q i s)"

lemma insert_guard_violation:
  "tx_then (insert_guard ok ctx uniques) m s = Inl (DbUniqueViolation t c) \<Longrightarrow>
     (\<exists>u \<in> set uniques. fst u) \<or> m s = Inl (DbUniqueViolation t c)"
  by (cases "find fst uniques") (auto simp: tx_then_def tx_bind_def insert_guard_def dest: find_Some_set split: if_splits)

lemma record_append_refused:
  assumes "record_append e rid (tail_record e th (record_next_seq th s) ToolResult (Some (q, i)) j u) t
      = Inl (DbUniqueViolation x y)" "same_records s t"
  shows "refused rid th q i s s"
proof -
  have records: "db_records t = db_records s" using assms(2) by (simp add: same_records_def)
  have "rc_thread_id r = th \<Longrightarrow> r \<in> set (db_records s) \<Longrightarrow> log_contiguous s \<Longrightarrow> rc_seq r \<noteq> record_next_seq th s" for r
  proof -
    assume r: "rc_thread_id r = th" "r \<in> set (db_records s)" and ok: "log_contiguous s"
    then have "rc_seq r \<in> set (map rc_seq (thread_log th s))" by (simp add: thread_log_def)
    also have "\<dots> = int ` {0..<length (thread_log th s)}" using ok by (simp add: log_contiguous_def)
    finally show ?thesis using record_next_seq_contiguous [OF ok] by auto
  qed
  then show ?thesis
    using assms(1)
    by (auto simp: refused_def answered_in_def record_append_def Let_def records sql_exists_iff tail_record_def
        new_record_row_def record_fence_def thread_log_def dest!: insert_guard_violation)
qed

lemma commit_result_record_cases:
  assumes "commit_result_record e rid deps q i c s = (Inr out, s')"
  shows "out = Committed \<and> result_appended rid (th_id (ld_thread deps)) q i c s s' \<or>
    out = FenceConflict \<and> refused rid (th_id (ld_thread deps)) q i s s'"
proof -
  let ?a = "record_append e rid (tail_record e (th_id (ld_thread deps))
      (record_next_seq (th_id (ld_thread deps)) s) ToolResult (Some (q, i)) (tool_result_to_json c) None) s"
  show ?thesis
  proof (cases ?a)
    case (Inl err)
    then have "out = FenceConflict \<and> s' = s \<and> (\<exists>x y. err = DbUniqueViolation x y)"
      using assms by (cases err) (auto simp: commit_result_record_def result_record_txn_def tx_success tx_read_Inr
          tx_return_Inr tx_fail_app tx_match_def dest!: run_txn_Inr guard_claim_Inr)
    then show ?thesis using Inl record_append_refused same_records.order_refl by blast
  next
    case (Inr x)
    then obtain r t where a: "?a = Inr (r, t)" by (cases x) auto
    then have "out = Committed \<and> same_records t s'"
      using assms by (auto simp: commit_result_record_def result_record_txn_def tx_success tx_read_Inr
          tx_return_Inr tx_match_def dest!: run_txn_Inr guard_claim_Inr keepsD [OF keeps_same_records_reset])
    then show ?thesis using result_appendedI [OF a same_records.order_refl] by auto
  qed
qed

section \<open>What a handled call leaves behind\<close>

lemma proc_bind_Inr: "proc_bind m f s = (Inr b, s') \<longleftrightarrow> (\<exists>a t. m s = (Inr a, t) \<and> f a t = (Inr b, s'))"
  by (auto simp: proc_bind_def split: prod.splits sum.splits)

lemma proc_simps:
  "proc_then m n = proc_bind m (\<lambda>_. n)" "proc_return a s = (Inr b, s') \<longleftrightarrow> b = a \<and> s' = s"
  "proc_read f s = (Inr c, s') \<longleftrightarrow> c = f s \<and> s' = s" "proc_fail err s \<noteq> (Inr b, s')"
  by (auto simp: proc_then_def proc_return_def proc_read_def proc_fail_def)

lemma proc_from_Inr: "(case x of Inl err \<Rightarrow> proc_fail err | Inr a \<Rightarrow> proc_return (f a)) s = (Inr b, s') \<longleftrightarrow>
   (\<exists>a. x = Inr a \<and> b = f a) \<and> s' = s"
  by (auto simp: proc_return_def proc_fail_def split: sum.splits)

text \<open>The tools a registry offers never touch the logs: they read, or write
  tables of their own.\<close>

definition tools_leave_logs :: "tool_registry \<Rightarrow> bool" where
  "tools_leave_logs reg \<longleftrightarrow>
     (\<forall>tool \<in> snd ` set reg. \<forall>e prepared args. keeps same_records (tl_execute tool e prepared args))"

lemma tools_leave_logsD:
  assumes "tools_leave_logs reg" "lookup_tool reg name = Inr tool" "tl_execute tool e prepared args s = Inr (out, s')"
  shows "same_records s s'"
proof -
  have "(name, tool) \<in> set reg"
    using assms(2) by (auto simp: lookup_tool_def map_of_SomeD split: option.splits)
  then show ?thesis
    using assms(1,3) by (force simp: tools_leave_logs_def intro: keepsD)
qed

definition result_mirrored :: "uuid \<Rightarrow> turn_deps \<Rightarrow> record_seq \<Rightarrow> string \<Rightarrow> projection \<Rightarrow> db \<Rightarrow> projection \<Rightarrow> db \<Rightarrow> bool" where
  "result_mirrored rid deps q i p s p' s' \<longleftrightarrow>
     (\<exists>c. result_appended rid (th_id (td_thread deps)) q i c s s' \<and> p' = append_tool_result i c p)"

lemma error_result_cases:
  assumes "error_result e rid deps p q call d s = (Inr (out, p'), s')"
  shows "out = Committed \<and> result_mirrored rid deps q (tc_id call) p s p' s' \<or>
    out = FenceConflict \<and> p' = p \<and> refused rid (th_id (td_thread deps)) q (tc_id call) s s'"
proof -
  obtain c where c: "commit_result_record e rid (td_loop deps) q (tc_id call) \<lparr>tr_output = d, tr_is_error = True\<rparr> s = (Inr c, s')"
    "out = c" "p' = (if c = Committed then append_tool_result (tc_id call) \<lparr>tr_output = d, tr_is_error = True\<rparr> p else p)"
    using assms by (auto simp: error_result_def Let_def proc_bind_Inr proc_simps)
  show ?thesis
    using commit_result_record_cases [OF c(1)] c(2,3) by (auto simp: result_mirrored_def td_thread_def)
qed

lemma tool_txn_cases:
  assumes run: "run_txn (tool_txn e rid deps tool prepared q call) s = (Inr out, s')"
    and neutral: "\<And>x t. tl_execute tool e prepared (tc_arguments call) s = Inr (x, t) \<Longrightarrow> same_records s t"
  shows "(\<exists>c. out = ToolDone Committed c \<and> result_appended rid (th_id (ld_thread deps)) q (tc_id call) c s s') \<or>
    (\<exists>c. out = ToolDone FenceConflict c \<and> refused rid (th_id (ld_thread deps)) q (tc_id call) s s') \<or>
    (\<exists>f. out = ToolRecoverable f \<and> s' = s)"
proof (cases "tl_execute tool e prepared (tc_arguments call) s")
  case (Inl failure)
  then show ?thesis
    using run by (cases failure) (auto simp: tool_txn_def tx_success tx_read_Inr tx_return_Inr tx_fail_app tx_match_def
        dest!: run_txn_Inr guard_claim_Inr)
next
  case (Inr x)
  then obtain product t where x: "tl_execute tool e prepared (tc_arguments call) s = Inr (product, t)" by (cases x) auto
  obtain body oversized where b: "bound_result (tl_descriptor tool) product = (body, oversized)" by (cases "bound_result (tl_descriptor tool) product")
  let ?c = "\<lparr>tr_output = body, tr_is_error = oversized\<rparr>"
  let ?a = "record_append e rid (tail_record e (th_id (ld_thread deps)) (record_next_seq (th_id (ld_thread deps)) s)
      ToolResult (Some (q, tc_id call)) (tool_result_to_json ?c) None) t"
  show ?thesis
  proof (cases ?a)
    case (Inl err)
    then have "out = ToolDone FenceConflict ?c \<and> s' = s \<and> (\<exists>x y. err = DbUniqueViolation x y)"
      using run x b by (cases err) (auto simp: tool_txn_def tx_success tx_read_Inr tx_return_Inr tx_fail_app tx_match_def
          Let_def dest!: run_txn_Inr guard_claim_Inr)
    then obtain w y where out: "out = ToolDone FenceConflict ?c" "s' = s" and err: "err = DbUniqueViolation w y" by blast
    have "refused rid (th_id (ld_thread deps)) q (tc_id call) s s"
      by (rule record_append_refused [OF Inl [unfolded err] neutral [OF x]])
    then show ?thesis using out by blast
  next
    case (Inr y)
    then obtain r u where a: "?a = Inr (r, u)" by (cases y) auto
    have "out = ToolDone Committed ?c \<and> same_records u s'"
      using run x b a by (auto simp: tool_txn_def tx_success tx_read_Inr tx_return_Inr tx_match_def Let_def
          dest!: run_txn_Inr guard_claim_Inr keepsD [OF keeps_same_records_reset])
    then show ?thesis using result_appendedI [OF a neutral [OF x]] by auto
  qed
qed

lemma execute_ordinary_cases:
  assumes run: "execute_ordinary e rid deps p q call s = (Inr (out, p'), s')"
    and tools: "tools_leave_logs (td_registry deps)"
  shows "out = Committed \<and> result_mirrored rid deps q (tc_id call) p s p' s' \<or>
    out = FenceConflict \<and> p' = p \<and> refused rid (th_id (td_thread deps)) q (tc_id call) s s'"
proof (cases "lookup_tool (td_registry deps) (tc_name call)")
  case (Inl unknown)
  then show ?thesis using run error_result_cases by (simp add: execute_ordinary_def)
next
  case (Inr tool)
  show ?thesis
  proof (cases "tl_prepare tool e (tc_arguments call)")
    case (Inl failure)
    then show ?thesis
      using run Inr error_result_cases by (cases failure) (simp_all add: execute_ordinary_def proc_simps)
  next
    case prep: (Inr prepared)
    obtain res t where res: "run_txn (tool_txn e rid (td_loop deps) tool prepared q call) s = (Inr res, t)"
      and rest: "(case res of ToolRecoverable f \<Rightarrow> error_result e rid deps p q call (render_failure f)
        | ToolDone c content \<Rightarrow> proc_return (c, if c = Committed then append_tool_result (tc_id call) content p else p)) t
          = (Inr (out, p'), s')"
      using run Inr prep by (auto simp: execute_ordinary_def proc_bind_Inr)
    have "(\<exists>c. res = ToolDone Committed c \<and> result_appended rid (th_id (td_thread deps)) q (tc_id call) c s t) \<or>
        (\<exists>c. res = ToolDone FenceConflict c \<and> refused rid (th_id (td_thread deps)) q (tc_id call) s t) \<or>
        (\<exists>f. res = ToolRecoverable f \<and> t = s)"
      unfolding td_thread_def by (rule tool_txn_cases [OF res]) (rule tools_leave_logsD [OF tools Inr])
    then show ?thesis
      using rest error_result_cases [of e rid deps p q call _ t out p' s'] by (auto simp: proc_simps result_mirrored_def)
  qed
qed

text \<open>What a step of the batch can be: a committed and mirrored result, the fence's
  refusal, or an end; a submission is handed out only when the pipeline accepts
  the call against the corpus shown so far.\<close>

definition accepts :: "turn_deps \<Rightarrow> env \<Rightarrow> db \<Rightarrow> seen_corpus \<Rightarrow> record_seq \<Rightarrow> tool_call \<Rightarrow> accepted_submission \<Rightarrow> bool" where
  "accepts deps e s corpus q call a \<longleftrightarrow>
     td_evaluate deps e s (td_thread deps) corpus (tc_arguments call) = Inr (Accepted (as_payload a)) \<and>
     tc_name call = submit_result_tool \<and> as_requesting_seq a = q \<and> as_tool_call_id a = tc_id call"

lemma as_step_Inr: "as_step m s = (Inr (step, p'), s') \<longleftrightarrow>
   (\<exists>out. m s = (Inr (out, p'), s') \<and> step = commit_to_step out)"
  by (auto simp: as_step_def proc_bind_Inr proc_simps)

lemma as_step_result:
  assumes "as_step m s = (Inr (step, p'), s')"
    "\<And>out. m s = (Inr (out, p'), s') \<Longrightarrow> out = Committed \<and> Q \<or> out = FenceConflict \<and> Q'"
  shows "step = StepCommitted \<and> Q \<or> step = StepFenceConflict \<and> Q'"
  using assms by (fastforce simp: as_step_Inr)

lemma as_step_error:
  assumes "as_step (error_result e rid deps p q call d) s = (Inr (step, p'), s')"
  shows "step = StepCommitted \<and> result_mirrored rid deps q (tc_id call) p s p' s' \<or>
    step = StepFenceConflict \<and> p' = p \<and> refused rid (th_id (td_thread deps)) q (tc_id call) s s'"
  using as_step_result [OF assms error_result_cases] .

lemma launch_verifier_cases:
  assumes "launch_verifier ri deps p q call payload l s = (Inr (step, p'), s')"
  shows "step = StepSubmitted (accepted_call payload q call) \<and> p' = p \<and> s' = s \<or>
    step = StepSuspended \<or> step = StepCancelIntervened"
proof -
  have "(case out of Launched x \<Rightarrow> StepSuspended | ChildCancelIntervened \<Rightarrow> StepCancelIntervened)
      \<in> {StepSuspended, StepCancelIntervened}" for out by (cases out) simp_all
  then show ?thesis
    using assms by (fastforce simp: launch_verifier_def proc_bind_Inr proc_simps split: option.splits if_splits)
qed

lemma handle_submission_cases:
  assumes run: "handle_submission ri rid deps p q call s = (Inr (step, p'), s')"
    and name: "tc_name call = submit_result_tool"
  shows "step = StepCommitted \<and> result_mirrored rid deps q (tc_id call) p s p' s' \<or>
    step = StepFenceConflict \<and> p' = p \<and> refused rid (th_id (td_thread deps)) q (tc_id call) s s' \<or>
    (\<exists>a. step = StepSubmitted a \<and> p' = p \<and> s' = s \<and> accepts deps (ri_env ri) s (pj_corpus p) q call a) \<or>
    step = StepSuspended \<or> step = StepCancelIntervened"
proof -
  note steps = as_step_error [of "ri_env ri" rid deps p q call _ s step p' s']
  let ?eval = "td_evaluate deps (ri_env ri) s (td_thread deps) (pj_corpus p) (tc_arguments call)"
  show ?thesis
  proof (cases ?eval)
    case (Inl f)
    then show ?thesis using run steps
      by (cases f) (auto simp: handle_submission_def proc_bind_Inr proc_simps)
  next
    case (Inr outcome)
    show ?thesis
    proof (cases outcome)
      case (Bounced d)
      then show ?thesis using run Inr steps by (auto simp: handle_submission_def proc_bind_Inr proc_simps)
    next
      case (Accepted payload)
      then have eval: "?eval = Inr (Accepted payload)" using Inr by simp
      show ?thesis
      proof (cases "td_verifier_launch deps (ri_env ri) s (td_thread deps) payload")
        case (Inl f)
        then show ?thesis using run eval steps
          by (cases f) (auto simp: handle_submission_def proc_bind_Inr proc_simps)
      next
        case verifier: (Inr launch)
        show ?thesis
        proof (cases launch)
          case None
          then show ?thesis using run eval verifier name
            by (auto simp: handle_submission_def accepts_def accepted_call_def proc_bind_Inr proc_simps)
        next
          case (Some l)
          then have "launch_verifier ri deps p q call payload l s = (Inr (step, p'), s')"
            using run eval verifier by (auto simp: handle_submission_def proc_bind_Inr proc_simps)
          then have "step = StepSubmitted (accepted_call payload q call) \<and> p' = p \<and> s' = s \<or>
              step = StepSuspended \<or> step = StepCancelIntervened"
            by (rule launch_verifier_cases)
          then show ?thesis using eval name by (auto simp: accepts_def accepted_call_def)
        qed
      qed
    qed
  qed
qed

lemma handle_call_cases:
  assumes run: "handle_call ri rid deps p q call s = (Inr (step, p'), s')"
    and tools: "tools_leave_logs (td_registry deps)"
  shows "step = StepCommitted \<and> result_mirrored rid deps q (tc_id call) p s p' s' \<or>
    step = StepFenceConflict \<and> p' = p \<and> refused rid (th_id (td_thread deps)) q (tc_id call) s s' \<or>
    (\<exists>a. step = StepSubmitted a \<and> p' = p \<and> s' = s \<and> accepts deps (ri_env ri) s (pj_corpus p) q call a) \<or>
    step = StepSuspended \<or> step = StepCancelIntervened"
proof (cases "tc_name call = submit_result_tool")
  case True
  then show ?thesis using run handle_submission_cases by (simp add: handle_call_def)
next
  case False
  then have "as_step (execute_ordinary (ri_env ri) rid deps p q call) s = (Inr (step, p'), s')"
    using run by (simp add: handle_call_def)
  then have "step = StepCommitted \<and> result_mirrored rid deps q (tc_id call) p s p' s' \<or>
      step = StepFenceConflict \<and> p' = p \<and> refused rid (th_id (td_thread deps)) q (tc_id call) s s'"
    by (rule as_step_result) (rule execute_ordinary_cases [OF _ tools])
  then show ?thesis by blast
qed

section \<open>In step with the log\<close>

text \<open>What a request is built from, and what the budgets count.\<close>

definition shown :: "projection \<Rightarrow> string option \<times> message list \<times> seen_corpus \<times> nat \<times> nat" where
  "shown p = (pj_system p, pj_messages p, pj_corpus p, pj_assistant_turns p, pj_child_launches p)"

lemma shown_simps [simp]:
  "shown (forget_recheck p) = shown p" "shown (p\<lparr>pj_tail := b\<rparr>) = shown p"
  "shown (p\<lparr>pj_carried_rechecks := c\<rparr>) = shown p" "shown (p\<lparr>pj_resolved_submission := v\<rparr>) = shown p"
  by (simp_all add: shown_def forget_recheck_def)

lemma shown_steps:
  assumes "shown p = shown q"
  shows "shown (append_tool_result i c p) = shown (append_tool_result i c q)"
    "shown (push_message m p) = shown (push_message m q)"
    "shown (push_assistant t cs p) = shown (push_assistant t cs q)"
  using assms by (simp_all add: shown_def append_tool_result_def push_message_def push_assistant_def corpus_push_def Let_def)

lemma shown_request: "shown p = shown q \<Longrightarrow> build_request deps p = build_request deps q"
  by (simp add: shown_def build_request_def)

definition in_step :: "turn_deps \<Rightarrow> projection \<Rightarrow> db \<Rightarrow> bool" where
  "in_step deps p s \<longleftrightarrow> (\<exists>st. reads (td_parse_json deps) (td_thread deps) s st \<and>
     shown p = shown (lr_projection st) \<and> pj_tail p = open_tail (lr_pending st) \<and>
     (pj_resolved_submission p = None \<or> pj_resolved_submission p = lr_resolved st))"

lemma in_step_projection:
  assumes "read_projection (td_parse_json deps) (td_thread deps) s = Inr p" "log_contiguous s"
  shows "in_step deps p s"
  by (rule projection_reads [OF assms]) (auto simp: in_step_def)

lemma in_step_reading:
  assumes "in_step deps p s"
  obtains q where "read_projection (td_parse_json deps) (td_thread deps) s = Inr q" "shown q = shown p"
    "pj_tail q = pj_tail p"
  using assms by (auto simp: in_step_def dest!: reads_projection)

text \<open>Within a batch: every call handled so far is answered in the log.\<close>

definition mid_batch :: "turn_deps \<Rightarrow> pending_batch \<Rightarrow> string set \<Rightarrow> projection \<Rightarrow> db \<Rightarrow> bool" where
  "mid_batch deps batch handled p s \<longleftrightarrow> (\<exists>st b. reads (td_parse_json deps) (td_thread deps) s st \<and>
     shown p = shown (lr_projection st) \<and> pj_resolved_submission p = None \<and> lr_pending st = Some b \<and>
     pb_requesting_seq b = pb_requesting_seq batch \<and> pb_calls b = pb_calls batch \<and>
     set (pb_answered batch) \<union> handled \<subseteq> set (pb_answered b))"

lemma mid_batch_start: "in_step deps p s \<Longrightarrow> pj_resolved_submission p = None \<Longrightarrow> pj_tail p = Some batch \<Longrightarrow> mid_batch deps batch {} (p\<lparr>pj_tail := None\<rparr>) s"
  by (auto simp: in_step_def mid_batch_def open_tail_def split: option.splits if_splits)

lemma mid_batch_answered: "mid_batch deps batch handled p s \<Longrightarrow> i \<in> set (pb_answered batch) \<Longrightarrow> mid_batch deps batch (insert i handled) p s"
  by (auto simp: mid_batch_def)

lemma mid_batch_result:
  assumes "mid_batch deps batch handled p s"
    "result_mirrored rid deps (pb_requesting_seq batch) i p s p' s'"
  shows "mid_batch deps batch (insert i handled) p' s'"
proof -
  obtain st b where st: "reads (td_parse_json deps) (td_thread deps) s st" "shown p = shown (lr_projection st)"
    "lr_pending st = Some b" "pb_requesting_seq b = pb_requesting_seq batch" "pb_calls b = pb_calls batch"
    "set (pb_answered batch) \<union> handled \<subseteq> set (pb_answered b)" "pj_resolved_submission p = None"
    using assms(1) by (auto simp: mid_batch_def)
  obtain c r where r: "appends (th_id (td_thread deps)) r s s'" "rc_kind r = ToolResult"
    "rc_content r = tool_result_to_json c" "rc_requesting_seq r = Some (pb_requesting_seq batch)"
    "rc_tool_call_id r = Some i" "p' = append_tool_result i c p"
    using assms(2) by (auto simp: result_mirrored_def result_appended_def)
  obtain st' where "reads (td_parse_json deps) (td_thread deps) s' st'"
    "lr_projection st' = append_tool_result i c (forget_recheck (lr_projection st))"
    "lr_pending st' = Some (b\<lparr>pb_answered := pb_answered b @ [i]\<rparr>)"
    by (rule read_result_record [OF st(1) r(1-5) st(3,4)])
  then show ?thesis
    using st r(6) shown_steps(1) [of p "forget_recheck (lr_projection st)"]
    unfolding mid_batch_def by (intro exI [of _ st'] exI [of _ "b\<lparr>pb_answered := pb_answered b @ [i]\<rparr>"])
      (auto simp: append_tool_result_def push_message_def Let_def)
qed

lemma mid_batch_end:
  assumes "mid_batch deps batch handled p s" "tc_id ` set (pb_calls batch) \<subseteq> set (pb_answered batch) \<union> handled"
  shows "in_step deps (p\<lparr>pj_tail := None\<rparr>) s"
proof -
  obtain st b where st: "reads (td_parse_json deps) (td_thread deps) s st" "shown p = shown (lr_projection st)"
    "lr_pending st = Some b" "pj_resolved_submission p = None" and b: "pb_calls b = pb_calls batch" "set (pb_answered batch) \<union> handled \<subseteq> set (pb_answered b)"
    using assms(1) by (auto simp: mid_batch_def)
  have "\<not> unanswered b"
    using assms(2) b by (auto simp: unanswered_def list_all_iff)
  then show ?thesis using st by (auto simp: in_step_def open_tail_def)
qed

definition batch_ends :: "turn_deps \<Rightarrow> env \<Rightarrow> pending_batch \<Rightarrow> tool_call list \<Rightarrow> batch_outcome \<Rightarrow> projection \<Rightarrow> db \<Rightarrow> bool" where
  "batch_ends deps e batch calls out p s =
     (case out of
        BatchCompleted \<Rightarrow> in_step deps p s
      | BatchSubmitted a \<Rightarrow> \<exists>handled call. mid_batch deps batch handled p s \<and> call \<in> set calls \<and>
          accepts deps e s (pj_corpus p) (pb_requesting_seq batch) call a
      | Reproject \<Rightarrow> \<exists>handled. mid_batch deps batch handled p s
      | _ \<Rightarrow> True)"

lemma batch_ends_Cons: "batch_ends deps e batch calls out p s \<Longrightarrow> batch_ends deps e batch (call # calls) out p s"
  by (cases out) (auto simp: batch_ends_def)

lemma execute_calls_ends:
  assumes "execute_calls ri n deps batch calls p s = (Inr (out, p'), s')"
    and "mid_batch deps batch handled p s" "tools_leave_logs (td_registry deps)"
    and "tc_id ` set (pb_calls batch) \<subseteq> set (pb_answered batch) \<union> handled \<union> tc_id ` set calls"
  shows "batch_ends deps (ri_env ri) batch calls out p' s'"
  using assms
proof (induction calls arbitrary: n p s handled)
  case Nil
  then show ?case by (auto simp: proc_simps batch_ends_def intro: mid_batch_end)
next
  case (Cons call calls)
  show ?case
  proof (cases "tc_id call \<in> set (pb_answered batch)")
    case True
    then have incl: "tc_id ` set (pb_calls batch) \<subseteq> set (pb_answered batch) \<union> handled \<union> tc_id ` set calls"
      using Cons.prems(4) by auto
    have "execute_calls ri (Suc n) deps batch calls p s = (Inr (out, p'), s')"
      using Cons.prems(1) True by simp
    from Cons.IH [OF this Cons.prems(2,3) incl] show ?thesis by (rule batch_ends_Cons)
  next
    case False
    then obtain step q t where step: "handle_call ri (ri_record ri n) deps p (pb_requesting_seq batch) call s = (Inr (step, q), t)"
      and rest: "(case step of StepCommitted \<Rightarrow> execute_calls ri (Suc n) deps batch calls q
        | StepFenceConflict \<Rightarrow> proc_return (Reproject, q) | StepSubmitted a \<Rightarrow> proc_return (BatchSubmitted a, q)
        | StepSuspended \<Rightarrow> proc_return (BatchSuspended, q)
        | StepCancelIntervened \<Rightarrow> proc_return (BatchCancelIntervened, q)) t = (Inr (out, p'), s')"
      using Cons.prems(1) by (auto simp: proc_bind_Inr)
    from handle_call_cases [OF step Cons.prems(3)] consider
      (result) "step = StepCommitted" "result_mirrored (ri_record ri n) deps (pb_requesting_seq batch) (tc_id call) p s q t"
      | (conflict) "step = StepFenceConflict" "q = p"
          "refused (ri_record ri n) (th_id (td_thread deps)) (pb_requesting_seq batch) (tc_id call) s t"
      | (submitted) a where "step = StepSubmitted a" "q = p" "t = s"
          "accepts deps (ri_env ri) s (pj_corpus p) (pb_requesting_seq batch) call a"
      | (left) "step = StepSuspended \<or> step = StepCancelIntervened"
      by blast
    then show ?thesis
    proof cases
      case result
      have incl: "tc_id ` set (pb_calls batch) \<subseteq> set (pb_answered batch) \<union> insert (tc_id call) handled \<union> tc_id ` set calls"
        using Cons.prems(4) by auto
      have "execute_calls ri (Suc n) deps batch calls q t = (Inr (out, p'), s')"
        using rest result(1) by simp
      from Cons.IH [OF this mid_batch_result [OF Cons.prems(2) result(2)] Cons.prems(3) incl]
      show ?thesis by (rule batch_ends_Cons)
    qed (use Cons.prems(2) rest in \<open>auto simp: proc_simps batch_ends_def refused_def\<close>)
  qed
qed

section \<open>An iteration stays in step\<close>

lemma commit_drift_input_appends:
  assumes "commit_drift_input e rid deps d s = (Inr u, s')"
  obtains r where "appends (th_id (ld_thread deps)) r s s'" "rc_kind r = InputRecord"
    "rc_content r = injected_to_json (drift_message d)" "rc_id r = rid" "rc_requesting_seq r = None"
proof -
  obtain r t where a: "append_tail e rid (th_id (ld_thread deps)) InputRecord None (injected_to_json (drift_message d)) None
      ''committing the drift input'' s = Inr (r, t)" and reset: "reset_progress e deps t = Inr ((), s')"
    using assms by (auto simp: commit_drift_input_def drift_input_txn_def tx_success tx_return_Inr
        dest!: run_txn_Inr guard_claim_Inr)
  then have "appends (th_id (ld_thread deps)) r s t \<and> rc_kind r = InputRecord \<and>
      rc_content r = injected_to_json (drift_message d) \<and> rc_id r = rid \<and> rc_requesting_seq r = None"
    using append_tail_appends [OF a] by simp
  then show ?thesis
    using that appends_same keepsD [OF keeps_same_records_reset reset] by blast
qed

lemma begin_turn_appends:
  assumes "begin_turn e rid th c None rendered s = (Inr u, s')"
  obtains r where "appends (th_id th) r s s'" "rc_kind r = InputRecord" "rc_content r = rendered_to_json rendered"
    "rc_id r = rid" "rc_requesting_seq r = None"
proof -
  obtain r where "append_tail e rid (th_id th) InputRecord None (rendered_to_json rendered) None
      ''committing the input record'' s = Inr (r, s')"
    using assms by (auto simp: begin_turn_def begin_turn_txn_def tx_success tx_return_Inr
        dest!: run_txn_Inr claim_require_Inr split: prod.splits sum.splits)
  then show ?thesis using append_tail_appends that by fastforce
qed

text \<open>Accepting a returned verdict re-runs the pipeline on the current store.\<close>

definition reaccepts :: "turn_deps \<Rightarrow> env \<Rightarrow> db \<Rightarrow> seen_corpus \<Rightarrow> resolved_submission \<Rightarrow> accepted_submission \<Rightarrow> bool" where
  "reaccepts deps e s corpus v a \<longleftrightarrow> vc_accepted (rs_verdict v) \<and>
     td_evaluate deps e s (td_thread deps) corpus (rs_arguments v) = Inr (Accepted (as_payload a)) \<and>
     as_requesting_seq a = rs_requesting_seq v \<and> as_tool_call_id a = rs_tool_call_id v"

definition drifted :: "uuid \<Rightarrow> turn_deps \<Rightarrow> projection \<Rightarrow> db \<Rightarrow> projection \<Rightarrow> db \<Rightarrow> bool" where
  "drifted rid deps p s p' s' \<longleftrightarrow> (\<exists>d r. appends (th_id (td_thread deps)) r s s' \<and> rc_kind r = InputRecord \<and>
     rc_id r = rid \<and> rc_requesting_seq r = None \<and>
     rc_content r = injected_to_json (drift_message d) \<and> p' = push_message (MsgUser (drift_message d)) p)"

lemma resolve_drift_cases:
  "resolve_drift ri deps p d s = (Inr (out, p'), s') \<Longrightarrow> out = None \<and> drifted (ri_record ri 0) deps p s p' s'"
  by (auto simp: resolve_drift_def proc_bind_Inr proc_simps drifted_def td_thread_def elim!: commit_drift_input_appends)

lemma resolve_verdict_cases:
  assumes "resolve_verdict ri deps p v s = (Inr (out, p'), s')"
  shows "out = None \<and> p' = p \<and> s' = s \<or> out = None \<and> drifted (ri_record ri 0) deps p s p' s' \<or>
    (\<exists>a. out = Some a \<and> p' = p \<and> s' = s \<and> reaccepts deps (ri_env ri) s (pj_corpus p) v a)"
  using assms
  by (auto simp: resolve_verdict_def proc_bind_Inr proc_simps reaccepts_def dest!: resolve_drift_cases
      split: if_splits sum.splits tool_failure.splits submission_outcome.splits)

lemma drifted_in_step:
  assumes "in_step deps p s" "pj_resolved_submission p = None" "drifted rid deps p s p' s'"
  shows "in_step deps p' s'"
proof -
  obtain st where st: "reads (td_parse_json deps) (td_thread deps) s st" "shown p = shown (lr_projection st)"
    "pj_tail p = open_tail (lr_pending st)"
    using assms(1) by (auto simp: in_step_def)
  obtain d r where r: "appends (th_id (td_thread deps)) r s s'" "rc_kind r = InputRecord"
    "rc_content r = injected_to_json (drift_message d)" and p': "p' = push_message (MsgUser (drift_message d)) p"
    using assms(3) by (auto simp: drifted_def)
  obtain st' where "reads (td_parse_json deps) (td_thread deps) s' st'"
    "lr_projection st' = push_message (MsgUser (drift_message d)) (forget_recheck (lr_projection st))"
    "lr_pending st' = lr_pending st"
    by (rule read_injected_record [OF st(1) r]) (rule that)
  then show ?thesis
    using st(2,3) assms(2) shown_steps(2) [of p "forget_recheck (lr_projection st)"]
    by (auto simp: p' in_step_def push_message_def)
qed

lemma open_tail_pending [simp]: "open_tail (pending_of_calls q calls) = pending_of_calls q calls"
  by (cases calls) (auto simp: open_tail_def pending_of_calls_def unanswered_def)

lemma call_and_commit_in_step:
  assumes "call_and_commit ri deps p s = (Inr (Continue p'), s')" "in_step deps p s" "pj_resolved_submission p = None"
  shows "in_step deps p' s' \<and> pj_assistant_turns p' = pj_assistant_turns p + 1"
proof -
  obtain resp r calls where turn: "commit_assistant_turn (ri_env ri) (ri_record ri 0) (td_loop deps) resp s = (Inr (r, calls), s')"
    and p': "p' = append_assistant resp (rc_seq r) calls p"
    using assms(1) by (auto simp: call_and_commit_def proc_bind_Inr proc_simps split: sum.splits stream_outcome.splits)
  obtain st where st: "reads (td_parse_json deps) (td_thread deps) s st" "shown p = shown (lr_projection st)"
    using assms(2) by (auto simp: in_step_def)
  note appended = commit_assistant_turn_appends [OF turn, folded td_thread_def]
  obtain st' where "reads (td_parse_json deps) (td_thread deps) s' st'"
    "lr_projection st' = push_assistant (cr_text resp) (cr_tool_calls resp) (forget_recheck (lr_projection st))"
    "lr_pending st' = pending_of_calls (rc_seq r) (cr_tool_calls resp)"
    using read_assistant_record [OF st(1) appended(1-3)] by auto
  then show ?thesis
    using st(2) assms(3) shown_steps(3) [of p "forget_recheck (lr_projection st)"] appended(4)
    by (auto simp: p' in_step_def append_assistant_def push_assistant_def push_message_def)
qed

lemma in_step_shown:
  "in_step deps p s \<Longrightarrow> shown p' = shown p \<Longrightarrow> pj_tail p' = pj_tail p \<Longrightarrow> pj_resolved_submission p' = None \<Longrightarrow>
     in_step deps p' s"
  by (auto simp: in_step_def)

lemma turn_boundary_Continue:
  assumes "turn_boundary ri deps carried p s = (Inr (Continue p'), s')"
  shows "call_and_commit ri deps p s = (Inr (Continue p'), s') \<and> turn_cap_reached deps p = None \<and>
    deadline_passed ri deps = None \<and> decide_admission (td_budgets deps) (td_recheck deps) carried (ri_spent ri) = Proceed \<and>
    (\<exists>th. thread_find_by_id (th_id (td_thread deps)) s = Some th \<and> th_cancel_requested_at th = None)"
  using assms by (auto simp: turn_boundary_def budget_suspend_def proc_bind_Inr proc_simps
      split: option.splits if_splits admission_decision.splits)

lemma execute_batch_ends:
  assumes "execute_batch ri deps batch (p\<lparr>pj_tail := None\<rparr>) s = (Inr (out, p'), s')"
    and "in_step deps p s" "pj_resolved_submission p = None" "pj_tail p = Some batch" "tools_leave_logs (td_registry deps)"
  shows "batch_ends deps (ri_env ri) batch (pb_calls batch) out p' s'"
  by (rule execute_calls_ends [OF assms(1) [unfolded execute_batch_def] mid_batch_start [OF assms(2-4)] assms(5)]) auto

lemma loop_round_batch:
  assumes "loop_round ri deps p s = (Inr step, s')" "pj_resolved_submission p = None" "pj_tail p = Some batch"
  obtains out q where "execute_batch ri deps batch (p\<lparr>pj_tail := None\<rparr>) s = (Inr (out, q), s')"
    "case out of BatchCompleted \<Rightarrow> step = Continue q | BatchSubmitted a \<Rightarrow> step = Break (LoopSubmitted a)
      | BatchSuspended \<Rightarrow> step = Break LoopSuspended | BatchCancelIntervened \<Rightarrow> step = Break LoopCancelIntent
      | Reproject \<Rightarrow> \<exists>p'. read_projection (td_parse_json deps) (td_thread deps) s' = Inr p' \<and> step = Continue p'"
proof -
  obtain out q t where b: "execute_batch ri deps batch (p\<lparr>pj_tail := None\<rparr>) s = (Inr (out, q), t)"
    and rest: "(case out of BatchCompleted \<Rightarrow> proc_return (Continue q)
       | BatchSubmitted a \<Rightarrow> proc_return (Break (LoopSubmitted a)) | BatchSuspended \<Rightarrow> proc_return (Break LoopSuspended)
       | BatchCancelIntervened \<Rightarrow> proc_return (Break LoopCancelIntent)
       | Reproject \<Rightarrow> proc_bind (proc_read (read_projection (td_parse_json deps) (td_thread deps)))
           (\<lambda>q. case q of Inl err \<Rightarrow> proc_fail err | Inr p' \<Rightarrow> proc_return (Continue p'))) t = (Inr step, s')"
    using assms by (auto simp: loop_round_def proc_bind_Inr)
  show ?thesis
    by (rule that [of out q]; cases out)
      (use b rest in \<open>auto simp: proc_bind_Inr proc_simps split: sum.splits\<close>)
qed

lemma loop_round_in_step:
  assumes run: "loop_round ri deps p s = (Inr (Continue p'), s')"
    and step: "in_step deps p s" and tools: "tools_leave_logs (td_registry deps)"
  shows "in_step deps p' s'"
proof (cases "pj_resolved_submission p")
  case (Some v)
  then obtain out where "resolve_verdict ri deps (p\<lparr>pj_resolved_submission := None\<rparr>) v s = (Inr (out, p'), s')" "out = None"
    using run by (auto simp: loop_round_def proc_bind_Inr proc_simps split: option.splits)
  moreover have "in_step deps (p\<lparr>pj_resolved_submission := None\<rparr>) s"
    by (rule in_step_shown [OF step]) simp_all
  ultimately show ?thesis using resolve_verdict_cases drifted_in_step by fastforce
next
  case None
  show ?thesis
  proof (cases "pj_tail p")
    case tail: None
    then have "call_and_commit ri deps (p\<lparr>pj_carried_rechecks := None\<rparr>) s = (Inr (Continue p'), s')"
      using run None turn_boundary_Continue by (simp add: loop_round_def)
    moreover have "in_step deps (p\<lparr>pj_carried_rechecks := None\<rparr>) s"
      by (rule in_step_shown [OF step]) (simp_all add: None)
    ultimately show ?thesis using call_and_commit_in_step None by simp
  next
    case tail: (Some batch)
    obtain out q where b: "execute_batch ri deps batch (p\<lparr>pj_tail := None\<rparr>) s = (Inr (out, q), s')"
      and rest: "case out of BatchCompleted \<Rightarrow> Continue p' = Continue q | BatchSubmitted a \<Rightarrow> Continue p' = Break (LoopSubmitted a)
      | BatchSuspended \<Rightarrow> Continue p' = Break LoopSuspended | BatchCancelIntervened \<Rightarrow> Continue p' = Break LoopCancelIntent
      | Reproject \<Rightarrow> \<exists>p''. read_projection (td_parse_json deps) (td_thread deps) s' = Inr p'' \<and> Continue p' = Continue p''"
      by (rule loop_round_batch [OF run None tail])
    have ends: "batch_ends deps (ri_env ri) batch (pb_calls batch) out q s'"
      by (rule execute_batch_ends [OF b step None tail tools])
    then show ?thesis
      using rest by (cases out) (auto simp: batch_ends_def mid_batch_def reads_def intro: in_step_projection)
  qed
qed

section \<open>Entry and runs\<close>

lemma loop_entry_in_step:
  assumes "loop_entry e rid deps s = (Inr p, s')" "log_contiguous s"
  shows "in_step deps p s'"
proof -
  let ?claim = "claim_stage (ld_task_id (td_loop deps)) (ld_claim_token (td_loop deps))"
  obtain rendered where entry: "rendered = td_rendered deps \<and> s' = s \<or>
      begin_turn e rid (td_thread deps) ?claim None (td_rendered deps) s = (Inr rendered, s')"
    and p: "read_projection (td_parse_json deps) (td_thread deps) s' = Inr p"
    using assms(1)
    by (auto simp: loop_entry_def proc_bind_Inr proc_simps proc_from_Inr [where f = "\<lambda>x. x"] split: if_splits)
  have "log_contiguous s'"
    using entry assms(2) appends_contiguous by (auto elim!: begin_turn_appends)
  then show ?thesis using in_step_projection [OF p] by simp
qed

lemma loop_rounds_Continue:
  assumes "loop_rounds (ri # ris) deps p s = (Inr (Continue p'), s')"
  obtains q t where "loop_round ri deps p s = (Inr (Continue q), t)" "loop_rounds ris deps q t = (Inr (Continue p'), s')"
proof -
  obtain step t where "loop_round ri deps p s = (Inr step, t)"
    "(case step of Break out \<Rightarrow> proc_return (Break out) | Continue q \<Rightarrow> loop_rounds ris deps q) t = (Inr (Continue p'), s')"
    using assms by (auto simp: proc_bind_Inr)
  then show ?thesis using that by (cases step) (auto simp: proc_simps)
qed

lemma loop_rounds_in_step:
  assumes "loop_rounds ris deps p s = (Inr (Continue p'), s')" "in_step deps p s" "tools_leave_logs (td_registry deps)"
  shows "in_step deps p' s'"
  using assms
proof (induction ris arbitrary: p s)
  case (Cons ri ris)
  obtain q t where "loop_round ri deps p s = (Inr (Continue q), t)" "loop_rounds ris deps q t = (Inr (Continue p'), s')"
    by (rule loop_rounds_Continue [OF Cons.prems(1)])
  then show ?case using Cons loop_round_in_step by blast
qed (simp add: proc_simps)

section \<open>The answers a log holds\<close>

text \<open>A well-formed log: a result answers a turn committed before it.\<close>

definition answers_follow :: "uuid \<Rightarrow> db \<Rightarrow> bool" where
  "answers_follow th s \<longleftrightarrow> list_all (\<lambda>r. case rc_requesting_seq r of None \<Rightarrow> True | Some q \<Rightarrow> q < rc_seq r) (thread_log th s)"

lemma reading_answers:
  assumes "project_records parse th rs log_reading_new = Inr st" "map rc_seq rs = map int [0..<length rs]"
    "\<And>r q. r \<in> set rs \<Longrightarrow> rc_requesting_seq r = Some q \<Longrightarrow> q < rc_seq r" "lr_pending st = Some b"
  shows "pb_requesting_seq b < int (length rs) \<and>
    (\<forall>r \<in> set rs. rc_kind r = ToolResult \<longrightarrow> rc_requesting_seq r = Some (pb_requesting_seq b) \<longrightarrow>
       rc_tool_call_id r \<in> Some ` set (pb_answered b))"
  using assms
proof (induction rs arbitrary: st b rule: rev_induct)
  case Nil
  then show ?case by (auto simp: log_reading_new_def)
next
  case (snoc r rs)
  obtain st1 where st1: "project_records parse th rs log_reading_new = Inr st1" "project_record parse th r st1 = Inr st"
    using snoc.prems(1) by (auto simp: project_records_append split: sum.splits)
  have seqs: "map rc_seq rs = map int [0..<length rs]" "rc_seq r = int (length rs)"
    using snoc.prems(2) by simp_all
  have below: "rc_seq x < int (length rs)" if "x \<in> set rs" for x
  proof -
    have "rc_seq x \<in> set (map rc_seq rs)" using that by simp
    then show ?thesis by (auto simp: seqs(1))
  qed
  have IH: "pb_requesting_seq b1 < int (length rs) \<and> (\<forall>x \<in> set rs. rc_kind x = ToolResult \<longrightarrow>
      rc_requesting_seq x = Some (pb_requesting_seq b1) \<longrightarrow> rc_tool_call_id x \<in> Some ` set (pb_answered b1))"
    if "lr_pending st1 = Some b1" for b1
    by (rule snoc.IH [OF st1(1) seqs(1) _ that]) (use snoc.prems(3) in simp)
  show ?case
  proof (cases "rc_kind r = AssistantMessage \<or> rc_kind r = ToolResult")
    case False
    then have "lr_pending st = lr_pending st1"
      using st1(2) by (auto simp: project_record_defs split: record_kind.splits option.splits if_splits suspension.splits)
    then show ?thesis using IH [of b] snoc.prems(4) False by auto
  next
    case True
    show ?thesis
    proof (cases "rc_kind r = ToolResult")
      case tool: True
      then obtain b1 i c where b1: "lr_pending st1 = Some b1" "rc_tool_call_id r = Some i"
        and b: "rc_requesting_seq r = Some (pb_requesting_seq b1) \<and> b = b1\<lparr>pb_answered := pb_answered b1 @ [i]\<rparr> \<or>
           rc_requesting_seq r \<noteq> Some (pb_requesting_seq b1) \<and> b = b1"
        using st1(2) snoc.prems(4)
        by (auto simp: project_record_def read_tool_result_def Let_def split: option.splits if_splits)
      then show ?thesis using IH [OF b1(1)] tool by auto
    next
      case False
      then have b: "pb_requesting_seq b = rc_seq r" and kind: "rc_kind r = AssistantMessage"
        using True st1(2) snoc.prems(4)
        by (auto simp: project_record_def read_assistant_def pending_of_calls_def Let_def split: option.splits if_splits)
      have "rc_requesting_seq x \<noteq> Some (pb_requesting_seq b)" if "x \<in> set rs" for x
        using below [OF that] snoc.prems(3) [of x] that by (auto simp: b seqs(2))
      then show ?thesis using kind by (auto simp: b seqs(2))
    qed
  qed
qed

lemma reads_answers:
  assumes "reads parse th s st" "answers_follow (th_id th) s" "lr_pending st = Some b"
  shows "pb_requesting_seq b < record_next_seq (th_id th) s"
    "answered_in (th_id th) (pb_requesting_seq b) i s \<Longrightarrow> i \<in> set (pb_answered b)"
proof -
  have log: "log_contiguous s" "project_records parse th (thread_log (th_id th) s) log_reading_new = Inr st"
    using assms(1) by (auto simp: reads_def read_log_thread_log)
  have "pb_requesting_seq b < int (length (thread_log (th_id th) s)) \<and>
    (\<forall>r \<in> set (thread_log (th_id th) s). rc_kind r = ToolResult \<longrightarrow> rc_requesting_seq r = Some (pb_requesting_seq b) \<longrightarrow>
       rc_tool_call_id r \<in> Some ` set (pb_answered b))"
    by (rule reading_answers [OF log(2) _ _ assms(3)])
      (use log(1) assms(2) in \<open>auto simp: log_contiguous_def answers_follow_def list_all_iff split: option.splits\<close>)
  then show "pb_requesting_seq b < record_next_seq (th_id th) s"
    "answered_in (th_id th) (pb_requesting_seq b) i s \<Longrightarrow> i \<in> set (pb_answered b)"
    by (auto simp: record_next_seq_contiguous [OF log(1)] answered_in_def)
qed

lemma answers_follow_append:
  assumes "answers_follow th s" "appends th r s s'" "\<And>q. rc_requesting_seq r = Some q \<Longrightarrow> q < record_next_seq th s"
  shows "answers_follow th s'"
  using assms by (auto simp: answers_follow_def appends_log appends_def split: option.splits)

end
