(* ===== verification/TurnProgress.thy ===== *)
theory TurnProgress
  imports TurnReplay
begin

text \<open>
  The turn loop cannot run for ever under a turn cap: every iteration that
  goes on commits a turn, answers the tail of one, makes a stale reading
  current, or disposes of a verdict.
\<close>

section \<open>The measure\<close>

text \<open>The calls of the tail no result answers; a closed tail waits for nothing.\<close>

definition waiting :: "projection \<Rightarrow> nat" where
  "waiting p = (case pj_tail p of None \<Rightarrow> 0
     | Some b \<Rightarrow> card (tc_id ` set (pb_calls b) - set (pb_answered b)))"

definition undisposed :: "projection \<Rightarrow> nat" where
  "undisposed p = (if pj_resolved_submission p = None then 0 else 1)"

definition turns_left :: "nat \<Rightarrow> projection \<Rightarrow> nat" where
  "turns_left cap p = cap - pj_assistant_turns p"

definition loop_measure :: "nat \<Rightarrow> (projection \<times> projection) set" where
  "loop_measure cap = measures [turns_left cap, waiting, undisposed]"

lemma wf_loop_measure: "wf (loop_measure cap)"
  by (simp add: loop_measure_def)

lemma unanswered_waiting: "unanswered b \<Longrightarrow> 0 < card (tc_id ` set (pb_calls b) - set (pb_answered b))"
  by (auto simp: unanswered_def list_all_iff card_gt_0_iff)

lemma in_step_waiting: "in_step deps p s \<Longrightarrow> pj_tail p = Some b \<Longrightarrow> 0 < waiting p"
  using unanswered_waiting by (auto simp: in_step_def waiting_def open_tail_def split: option.splits if_splits)

section \<open>Fresh identifiers and answered calls\<close>

definition record_ids :: "db \<Rightarrow> uuid set" where
  "record_ids s = rc_id ` set (db_records s)"

lemma appends_ids: "appends th r s s' \<Longrightarrow> record_ids s' = insert (rc_id r) (record_ids s)"
  by (auto simp: appends_def record_ids_def)

text \<open>What an iteration needs of the store beside being in step with it.\<close>

definition sound_log :: "turn_deps \<Rightarrow> uuid set \<Rightarrow> db \<Rightarrow> bool" where
  "sound_log deps used s \<longleftrightarrow> answers_follow (th_id (td_thread deps)) s \<and> record_ids s \<subseteq> used"

definition fresh_input :: "uuid set \<Rightarrow> round_input \<Rightarrow> bool" where
  "fresh_input used ri \<longleftrightarrow> inj (ri_record ri) \<and> range (ri_record ri) \<inter> used = {}"

lemma sound_log_append:
  assumes "sound_log deps used s" "appends (th_id (td_thread deps)) r s s'"
    "\<And>q. rc_requesting_seq r = Some q \<Longrightarrow> q < record_next_seq (th_id (td_thread deps)) s"
  shows "sound_log deps (insert (rc_id r) used) s'"
  using assms answers_follow_append appends_ids by (fastforce simp: sound_log_def)

lemma sound_log_mono: "sound_log deps used s \<Longrightarrow> used \<subseteq> used' \<Longrightarrow> sound_log deps used' s"
  by (auto simp: sound_log_def)

lemma result_sound:
  assumes "mid_batch deps batch handled p s" "sound_log deps used s"
    "result_mirrored rid deps (pb_requesting_seq batch) i p s p' s'"
  shows "sound_log deps (insert rid used) s'" "pj_assistant_turns p' = pj_assistant_turns p"
proof -
  obtain st b where st: "reads (td_parse_json deps) (td_thread deps) s st" "lr_pending st = Some b"
    "pb_requesting_seq b = pb_requesting_seq batch"
    using assms(1) by (auto simp: mid_batch_def)
  have before: "pb_requesting_seq batch < record_next_seq (th_id (td_thread deps)) s"
    using reads_answers(1) [OF st(1) _ st(2)] assms(2) st(3) by (simp add: sound_log_def)
  obtain r c where r: "appends (th_id (td_thread deps)) r s s'" "rc_id r = rid"
    "rc_requesting_seq r = Some (pb_requesting_seq batch)" and p': "p' = append_tool_result i c p"
    using assms(3) by (auto simp: result_mirrored_def result_appended_def)
  show "sound_log deps (insert rid used) s'"
    using sound_log_append [OF assms(2) r(1)] r(2,3) before by simp
  show "pj_assistant_turns p' = pj_assistant_turns p"
    by (simp add: p' append_tool_result_def push_message_def Let_def)
qed

definition batch_progress :: "turn_deps \<Rightarrow> uuid set \<Rightarrow> pending_batch \<Rightarrow> tool_call list \<Rightarrow> batch_outcome \<Rightarrow> projection
    \<Rightarrow> projection \<Rightarrow> db \<Rightarrow> bool" where
  "batch_progress deps used batch calls out p p' s' \<longleftrightarrow>
     sound_log deps used s' \<and> pj_assistant_turns p' = pj_assistant_turns p \<and>
     (out = BatchCompleted \<longrightarrow> pj_tail p' = None) \<and>
     (out = Reproject \<longrightarrow> (\<exists>i \<in> tc_id ` set calls. i \<notin> set (pb_answered batch) \<and>
        answered_in (th_id (td_thread deps)) (pb_requesting_seq batch) i s'))"

lemma batch_progress_Cons:
  "batch_progress deps used batch calls out q p' s' \<Longrightarrow> pj_assistant_turns q = pj_assistant_turns p \<Longrightarrow>
     batch_progress deps used batch (call # calls) out p p' s'"
  by (auto simp: batch_progress_def)

lemma execute_calls_progress:
  assumes "execute_calls ri n deps batch calls p s = (Inr (out, p'), s')"
    and "mid_batch deps batch handled p s" "tools_leave_logs (td_registry deps)"
    and "sound_log deps (used \<union> ri_record ri ` {..<n}) s" "fresh_input used ri"
    and "out = BatchCompleted \<or> out = Reproject"
  shows "batch_progress deps (used \<union> range (ri_record ri)) batch calls out p p' s'"
  using assms
proof (induction calls arbitrary: n p s handled)
  case Nil
  then have "sound_log deps (used \<union> range (ri_record ri)) s"
    by (auto intro: sound_log_mono)
  then show ?case using Nil.prems(1) by (auto simp: proc_simps batch_progress_def)
next
  case (Cons call calls)
  have upto: "used \<union> ri_record ri ` {..<n} \<subseteq> used \<union> ri_record ri ` {..<Suc n}" by auto
  show ?case
  proof (cases "tc_id call \<in> set (pb_answered batch)")
    case True
    then have "execute_calls ri (Suc n) deps batch calls p s = (Inr (out, p'), s')"
      using Cons.prems(1) by simp
    from Cons.IH [OF this Cons.prems(2,3) sound_log_mono [OF Cons.prems(4) upto] Cons.prems(5,6)]
    show ?thesis by (rule batch_progress_Cons) simp
  next
    case False
    then obtain step q t where step: "handle_call ri (ri_record ri n) deps p (pb_requesting_seq batch) call s = (Inr (step, q), t)"
      and rest: "(case step of StepCommitted \<Rightarrow> execute_calls ri (Suc n) deps batch calls q
        | StepFenceConflict \<Rightarrow> proc_return (Reproject, q) | StepSubmitted a \<Rightarrow> proc_return (BatchSubmitted a, q)
        | StepSuspended \<Rightarrow> proc_return (BatchSuspended, q)
        | StepCancelIntervened \<Rightarrow> proc_return (BatchCancelIntervened, q)) t = (Inr (out, p'), s')"
      using Cons.prems(1) by (auto simp: proc_bind_Inr)
    from handle_call_cases [OF step Cons.prems(3)] rest Cons.prems(6) consider
      (result) "step = StepCommitted" "result_mirrored (ri_record ri n) deps (pb_requesting_seq batch) (tc_id call) p s q t"
      | (conflict) "out = Reproject" "q = p" "p' = p" "s' = t"
          "refused (ri_record ri n) (th_id (td_thread deps)) (pb_requesting_seq batch) (tc_id call) s t"
      by (auto simp: proc_simps)
    then show ?thesis
    proof cases
      case result
      have "used \<union> ri_record ri ` {..<Suc n} = insert (ri_record ri n) (used \<union> ri_record ri ` {..<n})"
        by (auto simp: lessThan_Suc)
      then have sound: "sound_log deps (used \<union> ri_record ri ` {..<Suc n}) t"
        using result_sound(1) [OF Cons.prems(2,4) result(2)] by simp
      have "execute_calls ri (Suc n) deps batch calls q t = (Inr (out, p'), s')"
        using rest result(1) by simp
      from Cons.IH [OF this mid_batch_result [OF Cons.prems(2) result(2)] Cons.prems(3) sound Cons.prems(5,6)]
      show ?thesis by (rule batch_progress_Cons) (rule result_sound(2) [OF Cons.prems(2,4) result(2)])
    next
      case conflict
      have "ri_record ri n \<notin> used \<union> ri_record ri ` {..<n}"
        using Cons.prems(5) by (auto simp: fresh_input_def dest: injD)
      then have "ri_record ri n \<notin> record_ids s"
        using Cons.prems(4) by (auto simp: sound_log_def)
      moreover have "log_contiguous s" using Cons.prems(2) by (auto simp: mid_batch_def reads_def)
      ultimately have "answered_in (th_id (td_thread deps)) (pb_requesting_seq batch) (tc_id call) s" "t = s"
        using conflict(5) by (auto simp: refused_def record_ids_def)
      then show ?thesis
        using False conflict sound_log_mono [OF Cons.prems(4)] by (auto simp: batch_progress_def)
    qed
  qed
qed

section \<open>An iteration makes progress\<close>

lemma execute_batch_progress:
  assumes "execute_batch ri deps batch (p\<lparr>pj_tail := None\<rparr>) s = (Inr (out, p'), s')"
    and "in_step deps p s" "pj_resolved_submission p = None" "pj_tail p = Some batch" "tools_leave_logs (td_registry deps)"
    and "sound_log deps used s" "fresh_input used ri" "out = BatchCompleted \<or> out = Reproject"
  shows "batch_progress deps (used \<union> range (ri_record ri)) batch (pb_calls batch) out p p' s'"
proof -
  have "batch_progress deps (used \<union> range (ri_record ri)) batch (pb_calls batch) out (p\<lparr>pj_tail := None\<rparr>) p' s'"
    by (rule execute_calls_progress [OF assms(1) [unfolded execute_batch_def] mid_batch_start [OF assms(2-4)] assms(5) _ assms(7,8)])
      (simp add: assms(6))
  then show ?thesis by (simp add: batch_progress_def)
qed

text \<open>A stale reading made current has fewer calls to answer: the one the fence
  refused is answered in the log.\<close>

lemma reproject_waiting:
  assumes mid: "mid_batch deps batch handled q s"
    and sound: "sound_log deps used s"
    and i: "i \<in> tc_id ` set (pb_calls batch)" "i \<notin> set (pb_answered batch)"
      "answered_in (th_id (td_thread deps)) (pb_requesting_seq batch) i s"
    and p': "read_projection (td_parse_json deps) (td_thread deps) s = Inr p'"
  shows "waiting p' < card (tc_id ` set (pb_calls batch) - set (pb_answered batch))"
    "pj_assistant_turns p' = pj_assistant_turns q"
proof -
  obtain st b where st: "reads (td_parse_json deps) (td_thread deps) s st" "shown q = shown (lr_projection st)"
    "lr_pending st = Some b" and b: "pb_requesting_seq b = pb_requesting_seq batch" "pb_calls b = pb_calls batch"
    "set (pb_answered batch) \<union> handled \<subseteq> set (pb_answered b)"
    using mid by (auto simp: mid_batch_def)
  have "i \<in> set (pb_answered b)"
    using reads_answers(2) [OF st(1) _ st(3)] sound i(3) b(1) by (simp add: sound_log_def)
  then have "tc_id ` set (pb_calls b) - set (pb_answered b) \<subset> tc_id ` set (pb_calls batch) - set (pb_answered batch)"
    using b i(1,2) by auto
  then have less: "card (tc_id ` set (pb_calls b) - set (pb_answered b)) < card (tc_id ` set (pb_calls batch) - set (pb_answered batch))"
    by (intro psubset_card_mono) auto
  have eq: "p' = (lr_projection st)\<lparr>pj_resolved_submission := lr_resolved st, pj_tail := open_tail (lr_pending st)\<rparr>"
    using p' reads_projection [OF st(1)] by simp
  show "waiting p' < card (tc_id ` set (pb_calls batch) - set (pb_answered batch))"
    using less by (auto simp: eq st(3) waiting_def open_tail_def)
  show "pj_assistant_turns p' = pj_assistant_turns q"
    using st(2) by (simp add: eq shown_def)
qed

lemma drifted_progress:
  assumes "drifted rid deps p s p' s'" "sound_log deps used s"
  shows "sound_log deps (insert rid used) s'" "pj_assistant_turns p' = pj_assistant_turns p"
    "pj_tail p' = pj_tail p" "pj_resolved_submission p' = pj_resolved_submission p"
  using assms sound_log_append by (fastforce simp: drifted_def push_message_def)+

lemma call_and_commit_sound:
  assumes "call_and_commit ri deps p s = (Inr (Continue p'), s')" "sound_log deps used s"
  shows "sound_log deps (insert (ri_record ri 0) used) s'"
proof -
  obtain resp r calls where turn: "commit_assistant_turn (ri_env ri) (ri_record ri 0) (td_loop deps) resp s = (Inr (r, calls), s')"
    using assms(1) by (auto simp: call_and_commit_def proc_bind_Inr proc_simps split: sum.splits stream_outcome.splits)
  note r = commit_assistant_turn_appends [OF turn, folded td_thread_def]
  show ?thesis
    using sound_log_append [OF assms(2) r(1)] r(5,6) by simp
qed

lemma loop_round_progress:
  assumes run: "loop_round ri deps p s = (Inr (Continue p'), s')"
    and step: "in_step deps p s" and tools: "tools_leave_logs (td_registry deps)"
    and sound: "sound_log deps used s" and fresh: "fresh_input used ri"
    and cap: "eb_max_turns (td_budgets deps) = Some cap"
  shows "sound_log deps (used \<union> range (ri_record ri)) s' \<and> (p', p) \<in> loop_measure cap"
proof (cases "pj_resolved_submission p")
  case (Some v)
  let ?p = "p\<lparr>pj_resolved_submission := None\<rparr>"
  obtain out where "resolve_verdict ri deps ?p v s = (Inr (out, p'), s')" "out = None"
    using run Some by (auto simp: loop_round_def proc_bind_Inr proc_simps split: option.splits)
  then have "p' = ?p \<and> s' = s \<or> drifted (ri_record ri 0) deps ?p s p' s'"
    using resolve_verdict_cases by blast
  then have "sound_log deps (insert (ri_record ri 0) used) s'" and kept: "pj_assistant_turns p' = pj_assistant_turns p"
      "pj_tail p' = pj_tail p" "pj_resolved_submission p' = None"
    using sound sound_log_mono [OF sound] drifted_progress [of "ri_record ri 0" deps ?p s p' s' used] by auto
  moreover have "(p', p) \<in> loop_measure cap"
    using kept Some by (simp add: loop_measure_def turns_left_def waiting_def undisposed_def)
  ultimately show ?thesis by (blast intro: sound_log_mono)
next
  case None
  show ?thesis
  proof (cases "pj_tail p")
    case tail: None
    then have call: "call_and_commit ri deps (p\<lparr>pj_carried_rechecks := None\<rparr>) s = (Inr (Continue p'), s')"
      and room: "turn_cap_reached deps (p\<lparr>pj_carried_rechecks := None\<rparr>) = None"
      using run None turn_boundary_Continue by (simp_all add: loop_round_def)
    have "in_step deps (p\<lparr>pj_carried_rechecks := None\<rparr>) s"
      by (rule in_step_shown [OF step]) (simp_all add: None)
    then have "pj_assistant_turns p' = pj_assistant_turns p + 1"
      using call_and_commit_in_step [OF call] None by simp
    then have "(p', p) \<in> loop_measure cap"
      using room cap by (auto simp: loop_measure_def turns_left_def turn_cap_reached_def split: if_splits)
    then show ?thesis
      using call_and_commit_sound [OF call sound] by (blast intro: sound_log_mono)
  next
    case tail: (Some batch)
    obtain out q where b: "execute_batch ri deps batch (p\<lparr>pj_tail := None\<rparr>) s = (Inr (out, q), s')"
      and rest: "case out of BatchCompleted \<Rightarrow> Continue p' = Continue q | BatchSubmitted a \<Rightarrow> Continue p' = Break (LoopSubmitted a)
      | BatchSuspended \<Rightarrow> Continue p' = Break LoopSuspended | BatchCancelIntervened \<Rightarrow> Continue p' = Break LoopCancelIntent
      | Reproject \<Rightarrow> \<exists>p''. read_projection (td_parse_json deps) (td_thread deps) s' = Inr p'' \<and> Continue p' = Continue p''"
      by (rule loop_round_batch [OF run None tail])
    have ends: "batch_ends deps (ri_env ri) batch (pb_calls batch) out q s'"
      by (rule execute_batch_ends [OF b step None tail tools])
    have out: "out = BatchCompleted \<or> out = Reproject" using rest by (cases out) simp_all
    have prog: "batch_progress deps (used \<union> range (ri_record ri)) batch (pb_calls batch) out p q s'"
      by (rule execute_batch_progress [OF b step None tail tools sound fresh out])
    have "pj_assistant_turns p' = pj_assistant_turns p \<and> waiting p' < waiting p"
      using out
    proof
      assume "out = BatchCompleted"
      then show ?thesis
        using rest prog in_step_waiting [OF step tail] by (simp add: batch_progress_def waiting_def)
    next
      assume re: "out = Reproject"
      then obtain handled i where "mid_batch deps batch handled q s'" "i \<in> tc_id ` set (pb_calls batch)"
        "i \<notin> set (pb_answered batch)" "answered_in (th_id (td_thread deps)) (pb_requesting_seq batch) i s'"
        "sound_log deps (used \<union> range (ri_record ri)) s'"
        using ends prog by (auto simp: batch_ends_def batch_progress_def)
      moreover have "read_projection (td_parse_json deps) (td_thread deps) s' = Inr p'"
        using rest re by simp
      ultimately show ?thesis
        using reproject_waiting [of deps batch handled q s' _ i p'] prog tail by (simp add: batch_progress_def waiting_def)
    qed
    then show ?thesis
      using prog by (simp add: batch_progress_def loop_measure_def turns_left_def)
  qed
qed

section \<open>The run comes to an end\<close>

text \<open>A supply of iterations whose record identifiers are all new.\<close>

definition fresh_supply :: "uuid set \<Rightarrow> (nat \<Rightarrow> round_input) \<Rightarrow> bool" where
  "fresh_supply used ins \<longleftrightarrow>
     (\<forall>k n k' n'. ri_record (ins k) n = ri_record (ins k') n' \<longrightarrow> k = k' \<and> n = n') \<and>
     (\<forall>k n. ri_record (ins k) n \<notin> used)"

lemma fresh_supply_head: "fresh_supply used ins \<Longrightarrow> fresh_input used (ins 0)"
  unfolding fresh_supply_def fresh_input_def by (intro conjI injI) blast+

lemma fresh_supply_tail:
  assumes "fresh_supply used ins"
  shows "fresh_supply (used \<union> range (ri_record (ins 0))) (\<lambda>k. ins (Suc k))"
proof -
  have inj: "ri_record (ins k) n = ri_record (ins k') n' \<Longrightarrow> k = k' \<and> n = n'" for k n k' n'
    using assms unfolding fresh_supply_def by blast
  have "ri_record (ins (Suc k)) n = ri_record (ins (Suc k')) n' \<Longrightarrow> k = k' \<and> n = n'" for k n k' n'
    using inj [of "Suc k" n "Suc k'" n'] by simp
  moreover have "ri_record (ins (Suc k)) n \<notin> range (ri_record (ins 0))" for k n
  proof
    assume "ri_record (ins (Suc k)) n \<in> range (ri_record (ins 0))"
    then obtain n' where eq: "ri_record (ins (Suc k)) n = ri_record (ins 0) n'" by blast
    from inj [OF eq] show False by simp
  qed
  moreover have "ri_record (ins (Suc k)) n \<notin> used" for k n
    using assms unfolding fresh_supply_def by blast
  ultimately show ?thesis unfolding fresh_supply_def by blast
qed

lemma loop_rounds_end:
  assumes "in_step deps p s" "sound_log deps used s" "fresh_supply used ins"
    and "tools_leave_logs (td_registry deps)" "eb_max_turns (td_budgets deps) = Some cap"
  shows "\<exists>n. \<forall>q. fst (loop_rounds (map ins [0..<n]) deps p s) \<noteq> Inr (Continue q)"
  using wf_loop_measure [of cap] assms(1-3)
proof (induction p arbitrary: s used ins rule: wf_induct_rule)
  case (less p)
  obtain r s' where round: "loop_round (ins 0) deps p s = (r, s')" by (cases "loop_round (ins 0) deps p s")
  show ?case
  proof (cases "\<exists>p'. r = Inr (Continue p')")
    case False
    then have "fst (loop_rounds (map ins [0..<1]) deps p s) \<noteq> Inr (Continue q)" for q
      using round by (auto simp: proc_bind_def proc_return_def split: sum.splits loop_step.splits)
    then show ?thesis by blast
  next
    case True
    then obtain p' where p': "loop_round (ins 0) deps p s = (Inr (Continue p'), s')" using round by auto
    have prog: "sound_log deps (used \<union> range (ri_record (ins 0))) s' \<and> (p', p) \<in> loop_measure cap"
      by (rule loop_round_progress [OF p' less.prems(1) assms(4) less.prems(2) fresh_supply_head [OF less.prems(3)] assms(5)])
    have "in_step deps p' s'" by (rule loop_round_in_step [OF p' less.prems(1) assms(4)])
    then obtain n where n: "\<forall>q. fst (loop_rounds (map (\<lambda>k. ins (Suc k)) [0..<n]) deps p' s') \<noteq> Inr (Continue q)"
      using less.IH [of p'] prog fresh_supply_tail [OF less.prems(3)] by blast
    have "map ins [0..<Suc n] = ins 0 # map (\<lambda>k. ins (Suc k)) [0..<n]"
      by (simp add: map_upt_Suc del: upt_Suc)
    then have "\<forall>q. fst (loop_rounds (map ins [0..<Suc n]) deps p s) \<noteq> Inr (Continue q)"
      using n p' by (simp add: proc_bind_def del: upt_Suc)
    then show ?thesis by blast
  qed
qed

lemma loop_entry_sound:
  assumes "loop_entry e rid deps s = (Inr p, s')" "answers_follow (th_id (td_thread deps)) s"
  shows "answers_follow (th_id (td_thread deps)) s' \<and> record_ids s' \<subseteq> insert rid (record_ids s)"
proof -
  let ?claim = "claim_stage (ld_task_id (td_loop deps)) (ld_claim_token (td_loop deps))"
  obtain rendered where entry: "rendered = td_rendered deps \<and> s' = s \<or>
      begin_turn e rid (td_thread deps) ?claim None (td_rendered deps) s = (Inr rendered, s')"
    using assms(1)
    by (auto simp: loop_entry_def proc_bind_Inr proc_simps proc_from_Inr [where f = "\<lambda>x. x"] split: if_splits)
  then show ?thesis
  proof
    assume "begin_turn e rid (td_thread deps) ?claim None (td_rendered deps) s = (Inr rendered, s')"
    then obtain r where "appends (th_id (td_thread deps)) r s s'" "rc_id r = rid" "rc_requesting_seq r = None"
      by (rule begin_turn_appends)
    then show ?thesis using answers_follow_append [OF assms(2)] appends_ids by fastforce
  qed (use assms(2) in auto)
qed

end
