(* ===== verification/TurnGuarantees.thy ===== *)
theory TurnGuarantees
  imports TurnProgress Guarantees "HOL-Library.Countable"
begin

text \<open>
  What the turn loop guarantees: the conversation a thread is prompted with only
  grows at its end, a resumed attempt reads exactly what the crashed one held in
  memory, the loop comes to an end, and what it hands to the stage terminal was
  submitted by the model and accepted against what the model was shown. One
  concrete run, in which the model calls a tool and submits, checks the
  hypotheses.
\<close>

section \<open>Where a reading comes from\<close>

text \<open>A text the model was shown as graph content: a message of the opening, or a
  result that is no error.\<close>

definition shown_text :: "thread_record list \<Rightarrow> string \<Rightarrow> bool" where
  "shown_text rs t \<longleftrightarrow> list_ex (\<lambda>r.
     (rc_kind r = InputRecord \<and> (case rendered_of_json (rc_content r) of
        None \<Rightarrow> False | Some c \<Rightarrow> t \<in> rm_content ` set (rn_messages c))) \<or>
     (rc_kind r = ToolResult \<and> tool_result_of_json (rc_content r) = Some \<lparr>tr_output = t, tr_is_error = False\<rparr>)) rs"

text \<open>The calls of the turn committed at a position.\<close>

definition turn_calls :: "thread_record list \<Rightarrow> record_seq \<Rightarrow> tool_call \<Rightarrow> bool" where
  "turn_calls rs q call \<longleftrightarrow> list_ex (\<lambda>r. rc_kind r = AssistantMessage \<and> rc_seq r = q \<and>
     (case assistant_of_json (rc_content r) of None \<Rightarrow> False | Some a \<Rightarrow> call \<in> set (ac_tool_calls a))) rs"

definition sourced :: "thread_record list \<Rightarrow> log_reading \<Rightarrow> bool" where
  "sourced rs st \<longleftrightarrow> list_all (shown_text rs) (pj_corpus (lr_projection st)) \<and>
     (\<forall>b. lr_pending st = Some b \<longrightarrow> list_all (turn_calls rs (pb_requesting_seq b)) (pb_calls b)) \<and>
     (\<forall>v. lr_resolved st = Some v \<longrightarrow> (\<exists>call. turn_calls rs (rs_requesting_seq v) call \<and>
        tc_id call = rs_tool_call_id v \<and> tc_name call = submit_result_tool \<and> tc_arguments call = rs_arguments v))"

lemma shown_text_mono: "shown_text rs t \<Longrightarrow> shown_text (rs @ rs') t"
  by (simp add: shown_text_def)

lemma turn_calls_mono: "turn_calls rs q call \<Longrightarrow> turn_calls (rs @ rs') q call"
  by (simp add: turn_calls_def)

lemma sourced_mono: "sourced rs st \<Longrightarrow> sourced (rs @ rs') st"
  unfolding sourced_def using shown_text_mono turn_calls_mono by (metis (no_types, lifting) list.pred_mono_strong)

lemma returned_verdict_Some:
  assumes "returned_verdict parse b i c = Some v"
  obtains call where "call \<in> set (pb_calls b)" "tc_id call = i" "tc_name call = submit_result_tool"
    "rs_arguments v = tc_arguments call" "rs_requesting_seq v = pb_requesting_seq b" "rs_tool_call_id v = i"
    "\<not> tr_is_error c"
  using assms by (auto simp: returned_verdict_def dest!: find_Some_set split: if_splits option.splits)

lemma read_input_sourced:
  assumes "sourced rs st" "rc_kind r = InputRecord" "read_input th r st = Inr st'"
  shows "sourced (rs @ [r]) st'"
proof (cases "is_rendered_conversation (rc_content r)")
  case True
  then obtain c where c: "rendered_of_json (rc_content r) = Some c"
    "st' = st\<lparr>lr_saw_rendered := True, lr_projection := adopt_opening c (lr_projection st)\<rparr>"
    using assms(3) by (auto simp: read_input_def split: if_splits option.splits)
  have "shown_text (rs @ [r]) t" if "t \<in> rm_content ` set (rn_messages c)" for t
    using that assms(2) c(1) by (auto simp: shown_text_def)
  then show ?thesis
    using sourced_mono [OF assms(1), of "[r]"] by (auto simp: c(2) sourced_def adopt_opening_def list_all_iff)
next
  case False
  then show ?thesis
    using sourced_mono [OF assms(1), of "[r]"] assms(3)
    by (auto simp: read_input_def sourced_def push_message_def split: option.splits)
qed

lemma read_assistant_sourced:
  assumes "sourced rs st" "rc_kind r = AssistantMessage" "read_assistant r st = Inr st'"
  shows "sourced (rs @ [r]) st'"
  using sourced_mono [OF assms(1), of "[r]"] assms(2,3)
  by (auto simp: read_assistant_def sourced_def push_assistant_def push_message_def pending_of_calls_def
      turn_calls_def list_all_iff split: option.splits if_splits)

lemma read_tool_result_sourced:
  assumes "sourced rs st" "rc_kind r = ToolResult" "read_tool_result parse th r st = Inr st'"
  shows "sourced (rs @ [r]) st'"
proof -
  obtain c i where c: "tool_result_of_json (rc_content r) = Some c" "rc_tool_call_id r = Some i"
    using assms(3) by (auto simp: read_tool_result_def split: option.splits)
  have st: "sourced (rs @ [r]) st" by (rule sourced_mono [OF assms(1)])
  have new: "shown_text (rs @ [r]) (tr_output c)" if "\<not> tr_is_error c"
    using that assms(2) c(1) by (cases c) (simp add: shown_text_def)
  have corpus: "list_all (shown_text (rs @ [r])) (pj_corpus (append_tool_result i c (lr_projection st)))"
    using st new by (auto simp: sourced_def append_tool_result_def push_message_def corpus_push_def Let_def)
  have verdict: "\<exists>call. turn_calls (rs @ [r]) (rs_requesting_seq v) call \<and> tc_id call = rs_tool_call_id v \<and>
      tc_name call = submit_result_tool \<and> tc_arguments call = rs_arguments v"
    if "lr_pending st = Some b" "returned_verdict parse b i c = Some v" for b v
    using st that(1) returned_verdict_Some [OF that(2)] unfolding sourced_def list_all_iff by metis
  show ?thesis
    using st corpus verdict assms(3) c
    by (auto simp: read_tool_result_def sourced_def Let_def split: option.splits if_splits)
qed

lemma project_record_sourced:
  assumes "sourced rs st" "project_record parse th r st = Inr st'"
  shows "sourced (rs @ [r]) st'"
proof -
  let ?st = "st\<lparr>lr_projection := (lr_projection st)\<lparr>pj_carried_rechecks := None\<rparr>\<rparr>"
  have base: "sourced rs ?st" using assms(1) by (simp add: sourced_def)
  show ?thesis
    using assms(2) read_input_sourced [OF base] read_assistant_sourced [OF base] read_tool_result_sourced [OF base]
      sourced_mono [OF base, of "[r]"]
    by (auto simp: project_record_def read_suspension_def sourced_def Let_def
        split: record_kind.splits option.splits suspension.splits)
qed

lemma project_records_sourced: "project_records parse th rs log_reading_new = Inr st \<Longrightarrow> sourced rs st"
proof (induction rs arbitrary: st rule: rev_induct)
  case Nil
  then show ?case by (auto simp: log_reading_new_def projection_new_def sourced_def)
next
  case (snoc r rs)
  then obtain st1 where "project_records parse th rs log_reading_new = Inr st1" "project_record parse th r st1 = Inr st"
    by (auto simp: project_records_append split: sum.splits)
  then show ?case using snoc.IH project_record_sourced by blast
qed

lemma reads_sourced: "reads parse th s st \<Longrightarrow> sourced (read_log th s) st"
  by (auto simp: reads_def intro: project_records_sourced)

section \<open>What an accepted submission is\<close>

text \<open>The payload is the pipeline's acceptance, on the store at hand, of the
  arguments of a submit call in the log, evaluated against a corpus of texts the
  log shows.\<close>

definition validated :: "turn_deps \<Rightarrow> env \<Rightarrow> db \<Rightarrow> accepted_submission \<Rightarrow> bool" where
  "validated deps e s a \<longleftrightarrow> (\<exists>corpus call.
     td_evaluate deps e s (td_thread deps) corpus (tc_arguments call) = Inr (Accepted (as_payload a)) \<and>
     turn_calls (read_log (td_thread deps) s) (as_requesting_seq a) call \<and>
     tc_id call = as_tool_call_id a \<and> tc_name call = submit_result_tool \<and>
     list_all (shown_text (read_log (td_thread deps) s)) corpus)"

lemma mid_batch_validated:
  assumes "mid_batch deps batch handled p s" "call \<in> set (pb_calls batch)"
    "accepts deps e s (pj_corpus p) (pb_requesting_seq batch) call a"
  shows "validated deps e s a"
proof -
  obtain st b where st: "reads (td_parse_json deps) (td_thread deps) s st" "shown p = shown (lr_projection st)"
    "lr_pending st = Some b" "pb_requesting_seq b = pb_requesting_seq batch" "pb_calls b = pb_calls batch"
    using assms(1) by (auto simp: mid_batch_def)
  have "turn_calls (read_log (td_thread deps) s) (pb_requesting_seq batch) call"
    using reads_sourced [OF st(1)] st(3-5) assms(2) by (auto simp: sourced_def list_all_iff)
  moreover have "list_all (shown_text (read_log (td_thread deps) s)) (pj_corpus p)"
    using reads_sourced [OF st(1)] st(2) by (simp add: sourced_def shown_def)
  ultimately show ?thesis using assms(3) unfolding validated_def accepts_def by metis
qed

lemma in_step_validated:
  assumes "in_step deps p s" "pj_resolved_submission p = Some v" "reaccepts deps e s (pj_corpus p) v a"
  shows "validated deps e s a"
proof -
  obtain st where st: "reads (td_parse_json deps) (td_thread deps) s st" "shown p = shown (lr_projection st)"
    "lr_resolved st = Some v"
    using assms(1,2) by (auto simp: in_step_def)
  obtain call where "turn_calls (read_log (td_thread deps) s) (rs_requesting_seq v) call"
    "tc_id call = rs_tool_call_id v" "tc_name call = submit_result_tool" "tc_arguments call = rs_arguments v"
    using reads_sourced [OF st(1)] st(3) by (auto simp: sourced_def)
  moreover have "list_all (shown_text (read_log (td_thread deps) s)) (pj_corpus p)"
    using reads_sourced [OF st(1)] st(2) by (simp add: sourced_def shown_def)
  ultimately show ?thesis using assms(3) unfolding validated_def reaccepts_def by metis
qed

lemma turn_boundary_not_submitted: "turn_boundary ri deps c p s \<noteq> (Inr (Break (LoopSubmitted a)), s')"
proof -
  have "LoopSubmitted a \<noteq> (case out of SuspendedOutcome \<Rightarrow> LoopSuspended | SuspendCancelIntervened \<Rightarrow> LoopCancelIntent)"
    for out by (cases out) simp_all
  then show ?thesis
    by (auto simp: turn_boundary_def call_and_commit_def budget_suspend_def proc_bind_Inr proc_simps
        split: option.splits if_splits admission_decision.splits sum.splits stream_outcome.splits)
qed

lemma loop_round_validated:
  assumes run: "loop_round ri deps p s = (Inr (Break (LoopSubmitted a)), s')"
    and step: "in_step deps p s" and tools: "tools_leave_logs (td_registry deps)"
  shows "validated deps (ri_env ri) s' a"
proof (cases "pj_resolved_submission p")
  case (Some v)
  then obtain out p' where "resolve_verdict ri deps (p\<lparr>pj_resolved_submission := None\<rparr>) v s = (Inr (out, p'), s')" "out = Some a"
    using run by (auto simp: loop_round_def proc_bind_Inr proc_simps split: option.splits)
  then have "s' = s" "reaccepts deps (ri_env ri) s (pj_corpus p) v a"
    using resolve_verdict_cases by fastforce+
  then show ?thesis using in_step_validated [OF step Some] by simp
next
  case None
  then obtain batch where tail: "pj_tail p = Some batch"
    using run turn_boundary_not_submitted by (cases "pj_tail p") (auto simp: loop_round_def)
  obtain out q where b: "execute_batch ri deps batch (p\<lparr>pj_tail := None\<rparr>) s = (Inr (out, q), s')"
    and rest: "case out of BatchCompleted \<Rightarrow> Break (LoopSubmitted a) = Continue q
      | BatchSubmitted a' \<Rightarrow> Break (LoopSubmitted a) = Break (LoopSubmitted a')
      | BatchSuspended \<Rightarrow> Break (LoopSubmitted a) = Break LoopSuspended
      | BatchCancelIntervened \<Rightarrow> Break (LoopSubmitted a) = Break LoopCancelIntent
      | Reproject \<Rightarrow> \<exists>p'. read_projection (td_parse_json deps) (td_thread deps) s' = Inr p' \<and>
          Break (LoopSubmitted a) = Continue p'"
    by (rule loop_round_batch [OF run None tail])
  have "batch_ends deps (ri_env ri) batch (pb_calls batch) out q s'"
    by (rule execute_batch_ends [OF b step None tail tools])
  then show ?thesis using rest mid_batch_validated by (cases out) (auto simp: batch_ends_def)
qed

lemma loop_rounds_validated:
  assumes "loop_rounds ris deps p s = (Inr (Break (LoopSubmitted a)), s')" "in_step deps p s"
    "tools_leave_logs (td_registry deps)"
  shows "\<exists>ri \<in> set ris. validated deps (ri_env ri) s' a"
  using assms
proof (induction ris arbitrary: p s)
  case (Cons ri ris)
  obtain step t where round: "loop_round ri deps p s = (Inr step, t)"
    and rest: "(case step of Break out \<Rightarrow> proc_return (Break out) | Continue q \<Rightarrow> loop_rounds ris deps q) t
      = (Inr (Break (LoopSubmitted a)), s')"
    using Cons.prems(1) by (auto simp: proc_bind_Inr)
  show ?case
  proof (cases step)
    case (Break out)
    then have "loop_round ri deps p s = (Inr (Break (LoopSubmitted a)), s')" using round rest by (simp add: proc_simps)
    then show ?thesis using loop_round_validated Cons.prems(2,3) by auto
  next
    case (Continue q)
    then have "in_step deps q t" using round loop_round_in_step Cons.prems(2,3) by blast
    then show ?thesis using Cons.IH [of q t] rest Continue Cons.prems(3) by auto
  qed
qed (simp add: proc_simps)

section \<open>A run of the loop\<close>

text \<open>The thread of \<open>Scenario\<close> runs as an agent: its first turn calls a search tool
  and submits the identifier the search shows.\<close>

definition lp_descriptor :: "string \<Rightarrow> tool_descriptor" where
  "lp_descriptor name = \<lparr>td_name = name, td_description = [], td_input_schema = JNull,
     td_response_size_bound = 100, td_safety_tier = PureTool, td_execution_mode = Immediate\<rparr>"

definition lp_search :: stage_tool where
  "lp_search = \<lparr>tl_descriptor = lp_descriptor ''search'', tl_prepare = (\<lambda>_ _. Inr JNull),
     tl_execute = (\<lambda>_ _ _. tx_return ''item_1'')\<rparr>"

definition lp_opening :: rendered_conversation where
  "lp_opening = \<lparr>rn_system = Some ''sys'', rn_messages = [\<lparr>rm_role = ''user'', rm_content = ''q''\<rparr>],
     rn_system_prompt_version_id = None, rn_user_prompt_version_id = None,
     rn_resolution_context = None, rn_response_schema = None\<rparr>"

definition lp_evaluate :: "seen_corpus \<Rightarrow> json \<Rightarrow> tool_failure + submission_outcome" where
  "lp_evaluate corpus args = (case args of
      JStr i \<Rightarrow> Inr (if corpus_contains corpus i then Accepted args else Bounced ''unknown'')
    | _ \<Rightarrow> Inl (Recoverable (InvalidArguments submit_result_tool ''an identifier'')))"

definition lp_deps :: turn_deps where
  "lp_deps = \<lparr>td_loop = \<lparr>ld_thread = sc_parent1, ld_task_id = 2, ld_claim_token = 102\<rparr>, td_job_id = Some 1,
     td_registry = [(''search'', lp_search)], td_submit_descriptor = lp_descriptor submit_result_tool,
     td_evaluate = (\<lambda>_ _ _. lp_evaluate), td_verifier_launch = (\<lambda>_ _ _ _. Inr None),
     td_rendered = lp_opening,
     td_budgets = \<lparr>eb_max_total_tokens = None, eb_max_turns = Some 2, eb_max_child_launches = None,
       eb_execution_deadline_seconds = None\<rparr>,
     td_recheck = \<lparr>rp_delay_seconds = 60, rp_bound = 3\<rparr>, td_temperature = None, td_max_tokens = None,
     td_parse_json = (\<lambda>_. None)\<rparr>"

definition lp_calls :: "tool_call list" where
  "lp_calls = [\<lparr>tc_id = ''c1'', tc_name = ''search'', tc_arguments = JNull\<rparr>,
     \<lparr>tc_id = ''c2'', tc_name = submit_result_tool, tc_arguments = JStr ''item_1''\<rparr>]"

definition lp_response :: completion_response where
  "lp_response = sc_answer\<lparr>cr_tool_calls := lp_calls\<rparr>"

definition lp_in :: "nat \<Rightarrow> round_input" where
  "lp_in k = \<lparr>ri_env = sc_env, ri_record = (\<lambda>n. 1000 + prod_encode (k, n)), ri_launch = sc_launch_ids,
     ri_spent = 0, ri_cancelled = False, ri_stream = (\<lambda>_. Opened [Delivered (CompletedEvent lp_response)])\<rparr>"

definition lp_input :: thread_record where
  "lp_input = new_record_row sc_env 900 (tail_record sc_env 3 0 InputRecord None (rendered_to_json lp_opening) None)"

definition lp_turn :: thread_record where
  "lp_turn = new_record_row sc_env 1000 (tail_record sc_env 3 1 AssistantMessage None
     (assistant_to_json \<lparr>ac_text = ''yes'', ac_tool_calls = lp_calls\<rparr>) (Some (usage_to_json (cr_usage sc_answer))))"

definition lp_hit :: thread_record where
  "lp_hit = new_record_row sc_env 1002 (tail_record sc_env 3 2 ToolResult (Some (1, ''c1''))
     (tool_result_to_json \<lparr>tr_output = ''item_1'', tr_is_error = False\<rparr>) None)"

definition lp_task :: task where
  "lp_task = sc_task1\<lparr>tk_retry_count := 0, tk_updated_at := 1000\<rparr>"

definition lp_thread :: agent_thread where
  "lp_thread = sc_parent1\<lparr>th_execution_spend := Some (spend_to_json (add_spend lp_response spend_default)),
     th_updated_at := 1000\<rparr>"

definition lp_s0 :: db where "lp_s0 = sc_state [sc_task1] [sc_parent1] [lp_input] []"

definition lp_s1 :: db where "lp_s1 = sc_state [lp_task] [lp_thread] [lp_input, lp_turn] []"

definition lp_s2 :: db where "lp_s2 = sc_state [lp_task] [lp_thread] [lp_input, lp_turn, lp_hit] []"

definition lp_p0 :: projection where
  "lp_p0 = projection_new\<lparr>pj_system := Some ''sys'', pj_messages := [MsgUser ''q''], pj_corpus := [''q'']\<rparr>"

definition lp_p1 :: projection where
  "lp_p1 = append_assistant lp_response 1 lp_calls lp_p0"

definition lp_submitted :: accepted_submission where
  "lp_submitted = \<lparr>as_payload = JStr ''item_1'', as_requesting_seq = 1, as_tool_call_id = ''c2''\<rparr>"

lemmas lp_rows = lp_input_def lp_turn_def lp_hit_def lp_task_def lp_thread_def new_record_row_def tail_record_def
  sc_state_def sc_job_row_def sc_task0_def sc_task1_def sc_parent0_def sc_parent1_def new_job_row_def
  new_task_row_def task_claim_row_def new_thread_row_def stage_new_thread_def
  sc_env_def sc_job_def sc_task_def sc_binding_def

lemmas lp_eval = tx_defs insert_guard_def sql_exists_def sql_update_def sql_count_def Let_def rt_db_def append_tail_def
  record_append_def record_next_seq_def thread_log_def seq_first_def seq_next_def update_tasks_def update_threads_def
  holds_task_def record_check_def record_fence_def run_txn_def claim_require_def claim_stage_def claim_holds_def
  task_holds_claim_def reset_progress_def task_reset_retry_count_def guard_claim_def

lemma lp_deps_sel [simp]:
  "td_loop lp_deps = \<lparr>ld_thread = sc_parent1, ld_task_id = 2, ld_claim_token = 102\<rparr>" "td_thread lp_deps = sc_parent1"
  "td_registry lp_deps = [(''search'', lp_search)]" "td_parse_json lp_deps = (\<lambda>_. None)"
  "td_rendered lp_deps = lp_opening" "eb_max_turns (td_budgets lp_deps) = Some 2"
  "eb_execution_deadline_seconds (td_budgets lp_deps) = None" "eb_max_total_tokens (td_budgets lp_deps) = None"
  "td_evaluate lp_deps = (\<lambda>_ _ _. lp_evaluate)" "td_verifier_launch lp_deps = (\<lambda>_ _ _ _. Inr None)"
  by (simp_all add: lp_deps_def td_thread_def)

lemma lp_in_sel [simp]:
  "ri_env (lp_in k) = sc_env" "ri_record (lp_in k) n = 1000 + prod_encode (k, n)" "ri_cancelled (lp_in k) = False"
  "ri_stream (lp_in k) r = Opened [Delivered (CompletedEvent lp_response)]"
  by (simp_all add: lp_in_def)

lemma sc_parent1_id [simp]: "th_id sc_parent1 = 3" "th_cancel_requested_at sc_parent1 = None"
  by (simp_all add: lp_rows)

lemma lp_read_log: "read_log sc_parent1 sc_running = []" "read_log sc_parent1 lp_s0 = [lp_input]"
  by (simp_all add: read_log_def record_find_by_thread_id_def thread_log_def sc_running_def lp_s0_def sc_state_def
      lp_input_def new_record_row_def tail_record_def)

lemma lp_rendered: "is_rendered_conversation (rendered_to_json lp_opening)"
  "rendered_of_json (rendered_to_json lp_opening) = Some lp_opening"
  by (simp_all add: rendered_of_json_def is_rendered_conversation_def rendered_to_json_def lp_opening_def
      json_opt_def json_field_def json_option_field_def message_of_json_def message_to_json_def)

lemma lp_projection: "read_projection (\<lambda>_. None) sc_parent1 lp_s0 = Inr lp_p0"
  by (simp add: read_projection_def lp_read_log project_def close_reading_def project_record_def read_input_def
      lp_input_def new_record_row_def tail_record_def lp_rendered adopt_opening_def log_reading_new_def
      projection_new_def lp_p0_def open_tail_def Let_def) (simp add: lp_opening_def recorded_to_wire_def)

lemma lp_begin: "begin_turn sc_env 900 sc_parent1 (claim_stage 2 102) None lp_opening sc_running = (Inr lp_opening, lp_s0)"
  by (simp add: begin_turn_def begin_turn_txn_def lp_eval lp_rows sc_running_def lp_s0_def)

lemma lp_entry: "loop_entry sc_env 900 lp_deps sc_running = (Inr lp_p0, lp_s0)"
  by (simp add: loop_entry_def proc_bind_def proc_then_def proc_read_def proc_return_def lp_read_log lp_begin lp_projection)

lemma lp_codes: "prod_encode (0, 0) = 0" "prod_encode (Suc 0, 0) = 2"
  by (simp_all add: prod_encode_def)

lemma lp_commit: "commit_assistant_turn sc_env 1000 \<lparr>ld_thread = sc_parent1, ld_task_id = 2, ld_claim_token = 102\<rparr> lp_response lp_s0
    = (Inr (lp_turn, lp_calls), lp_s1)"
  by (simp add: commit_assistant_turn_def assistant_turn_txn_def commit_assistant_record_def thread_lock_def
      thread_set_execution_spend_def lp_eval lp_rows lp_s0_def lp_s1_def lp_response_def sc_answer_def)

lemma lp_first: "loop_round (lp_in 0) lp_deps lp_p0 lp_s0 = (Inr (Continue lp_p1), lp_s1)"
proof -
  have found: "thread_find_by_id 3 lp_s0 = Some sc_parent1"
    by (simp add: thread_find_by_id_def lp_s0_def sc_state_def)
  have seq: "rc_seq lp_turn = 1" by (simp add: lp_turn_def new_record_row_def tail_record_def)
  have clean: "pj_resolved_submission lp_p0 = None" "pj_tail lp_p0 = None" "pj_assistant_turns lp_p0 = 0"
    "lp_p0\<lparr>pj_carried_rechecks := None\<rparr> = lp_p0"
    by (simp_all add: lp_p0_def projection_new_def)
  show ?thesis
    by (simp add: loop_round_def turn_boundary_def turn_cap_reached_def deadline_passed_def decide_admission_def
        admit_inference_def call_and_commit_def stream_to_terminal_def proc_bind_def proc_read_def proc_return_def
        clean found seq lp_codes lp_commit lp_p1_def)
qed

lemma lp_execute: "run_txn (tool_txn sc_env 1002 \<lparr>ld_thread = sc_parent1, ld_task_id = 2, ld_claim_token = 102\<rparr> lp_search
    JNull 1 \<lparr>tc_id = ''c1'', tc_name = ''search'', tc_arguments = JNull\<rparr>) lp_s1
  = (Inr (ToolDone Committed \<lparr>tr_output = ''item_1'', tr_is_error = False\<rparr>), lp_s2)"
  by (simp add: tool_txn_def lp_search_def lp_descriptor_def bound_result_def trim_to_bound_def lp_eval lp_rows
      lp_s1_def lp_s2_def)

lemma lp_second: "loop_round (lp_in 1) lp_deps lp_p1 lp_s1 = (Inr (Break (LoopSubmitted lp_submitted)), lp_s2)"
proof -
  have p1: "pj_resolved_submission lp_p1 = None"
    "pj_tail lp_p1 = Some \<lparr>pb_requesting_seq = 1, pb_calls = lp_calls, pb_answered = []\<rparr>" "pj_corpus lp_p1 = [''q'']"
    by (simp_all add: lp_p1_def append_assistant_def push_assistant_def push_message_def pending_of_calls_def
        lp_p0_def projection_new_def lp_calls_def)
  have verdict: "lp_evaluate [''q'', ''item_1''] (JStr ''item_1'') = Inr (Accepted (JStr ''item_1''))"
    by (simp add: lp_evaluate_def corpus_contains_def)
  have hit: "pj_corpus (append_tool_result i \<lparr>tr_output = t, tr_is_error = False\<rparr> p) = pj_corpus p @ [t]" for i t p
    by (simp add: append_tool_result_def push_message_def corpus_push_def Let_def)
  have prepare: "tl_prepare lp_search e j = Inr JNull" for e j by (simp add: lp_search_def)
  show ?thesis
    by (simp add: loop_round_def execute_batch_def p1) (simp add: lp_calls_def handle_call_def submit_result_tool_def
        as_step_def execute_ordinary_def lookup_tool_def prepare lp_codes lp_execute proc_bind_def proc_return_def
        handle_submission_def proc_read_def hit p1 verdict accepted_call_def lp_submitted_def)
qed

lemma lp_log_contiguous: "log_contiguous sc_running"
  using sc_db_ok(2) by (simp add: db_ok_def)

lemma lp_tools: "tools_leave_logs (td_registry lp_deps)"
  by (simp add: tools_leave_logs_def lp_search_def same_records.keeps_return)

section \<open>The prompt only grows\<close>

text \<open>C36: A thread's prompt prefix is stable. Whatever the server, the workers and
  the sweeps commit between two readings of a thread's log, the later request
  carries the same system prompt and the same tools, and its messages are the
  earlier ones followed by new ones: nothing the provider has cached of the
  conversation is ever rewritten, and the corpus of what the model was shown
  only grows.\<close>

theorem prompt_prefix_is_stable:
  assumes "reachable w" "sys_step\<^sup>*\<^sup>* w w'"
    and "read_projection (td_parse_json deps) th (w_db w) = Inr p"
    and "read_projection (td_parse_json deps) th (w_db w') = Inr p'"
  shows "rq_system (build_request deps p') = rq_system (build_request deps p) \<and>
    rq_tools (build_request deps p') = rq_tools (build_request deps p) \<and>
    (\<exists>new. rq_messages (build_request deps p') = rq_messages (build_request deps p) @ new) \<and>
    (\<exists>new. pj_corpus p' = pj_corpus p @ new)"
proof -
  obtain new where "db_records (w_db w') = db_records (w_db w) @ new"
    using sys_run_evolves [OF assms(2)] rows_evolve_eq by (auto simp: evolves_def)
  then have "thread_log (th_id th) (w_db w') = thread_log (th_id th) (w_db w) @ filter (\<lambda>r. rc_thread_id r = th_id th) new"
    by (simp add: thread_log_def)
  moreover have "log_contiguous (w_db w)" "log_contiguous (w_db w')"
    using reachable_db_ok [OF assms(1)] reachable_db_ok [OF sys_run_reachable [OF assms(2,1)]] by (simp_all add: db_ok_def)
  ultimately have "project (td_parse_json deps) th (thread_log (th_id th) (w_db w)) = Inr p"
    "project (td_parse_json deps) th (thread_log (th_id th) (w_db w) @ filter (\<lambda>r. rc_thread_id r = th_id th) new) = Inr p'"
    using assms(3,4) by (simp_all add: read_projection_def read_log_thread_log)
  then show ?thesis using project_prefix by (auto simp: build_request_def)
qed

lemma lp_question: "is_rendered_conversation (rendered_to_json sc_question)"
  "rendered_of_json (rendered_to_json sc_question) = Some sc_question"
  by (simp_all add: rendered_of_json_def is_rendered_conversation_def rendered_to_json_def sc_question_def
      json_opt_def json_field_def json_option_field_def)

lemma lp_child_readings:
  "read_projection (\<lambda>_. None) sc_child1 sc_child_running = Inr projection_new"
  "read_projection (\<lambda>_. None) sc_child1 sc_woken = Inr (push_assistant ''yes'' [] projection_new)"
proof -
  have id: "th_id sc_child1 = 4" by (simp add: sc_rows)
  have logs: "thread_log 4 sc_child_running = [sc_record1]" "thread_log 4 sc_woken = [sc_record1, sc_record2]"
    by (simp_all add: thread_log_def sc_states sc_record0_def sc_record1_def sc_record2_def sc_record3_def
        new_record_row_def tail_record_def)
  have rows: "rc_kind sc_record1 = InputRecord" "rc_content sc_record1 = rendered_to_json sc_question" "rc_seq sc_record1 = 0"
    "rc_kind sc_record2 = AssistantMessage" "rc_content sc_record2 = assistant_to_json \<lparr>ac_text = ''yes'', ac_tool_calls = []\<rparr>"
    "rc_seq sc_record2 = 1"
    by (simp_all add: sc_record1_def sc_record2_def new_record_row_def tail_record_def)
  note reading = read_projection_def read_log_def record_find_by_thread_id_def id logs project_def project_record_def
    read_input_def read_assistant_def lp_question adopt_opening_def log_reading_new_def close_reading_def
    projection_new_def open_tail_def pending_of_calls_def push_assistant_def push_message_def rows Let_def
  show "read_projection (\<lambda>_. None) sc_child1 sc_child_running = Inr projection_new"
    by (simp add: reading) (simp add: sc_question_def)
  show "read_projection (\<lambda>_. None) sc_child1 sc_woken = Inr (push_assistant ''yes'' [] projection_new)"
    by (simp add: reading) (simp add: sc_question_def)
qed

theorem prompt_prefix_is_stable_witness:
  "rq_system (build_request lp_deps (push_assistant ''yes'' [] projection_new)) = None \<and>
   (\<exists>new. new \<noteq> [] \<and> rq_messages (build_request lp_deps (push_assistant ''yes'' [] projection_new)) =
      rq_messages (build_request lp_deps projection_new) @ new)"
  using prompt_prefix_is_stable [OF sc_reach_child r_into_rtranclp [of sys_step, OF sc_step_wake],
      of lp_deps sc_child1 projection_new "push_assistant ''yes'' [] projection_new"]
  by (simp add: lp_child_readings) (simp add: build_request_def push_assistant_def push_message_def projection_new_def)

section \<open>Resuming loses nothing\<close>

text \<open>C37: The projection the loop keeps in memory refines the log. At the end of
  any number of iterations a fresh reading of the committed log succeeds and
  yields the request the running loop would send next, the same outstanding
  tool batch and the same counts of turns and child launches: an attempt that
  crashes and is resumed by another worker continues where it stopped.\<close>

theorem projection_replays_log:
  assumes "run_turn_loop e rid ris deps s = (Inr (Continue p), s')"
    and "log_contiguous s" "tools_leave_logs (td_registry deps)"
  shows "\<exists>q. read_projection (td_parse_json deps) (td_thread deps) s' = Inr q \<and>
    build_request deps q = build_request deps p \<and> pj_corpus q = pj_corpus p \<and> pj_tail q = pj_tail p \<and>
    pj_assistant_turns q = pj_assistant_turns p \<and> pj_child_launches q = pj_child_launches p"
proof -
  obtain p0 t where entry: "loop_entry e rid deps s = (Inr p0, t)" "loop_rounds ris deps p0 t = (Inr (Continue p), s')"
    using assms(1) by (auto simp: run_turn_loop_def proc_bind_Inr)
  have "in_step deps p s'"
    by (rule loop_rounds_in_step [OF entry(2) loop_entry_in_step [OF entry(1) assms(2)] assms(3)])
  then obtain q where "read_projection (td_parse_json deps) (td_thread deps) s' = Inr q" "shown q = shown p" "pj_tail q = pj_tail p"
    by (rule in_step_reading)
  then show ?thesis using shown_request [of q p deps] by (auto simp: shown_def)
qed

lemma lp_run: "run_turn_loop sc_env 900 [lp_in 0] lp_deps sc_running = (Inr (Continue lp_p1), lp_s1)"
  "run_turn_loop sc_env 900 [lp_in 0, lp_in 1] lp_deps sc_running = (Inr (Break (LoopSubmitted lp_submitted)), lp_s2)"
  by (simp_all add: run_turn_loop_def proc_bind_def proc_return_def lp_entry lp_first lp_second [unfolded One_nat_def])

theorem projection_replays_log_witness:
  "\<exists>q. read_projection (\<lambda>_. None) sc_parent1 lp_s1 = Inr q \<and>
    pj_tail q = Some \<lparr>pb_requesting_seq = 1, pb_calls = lp_calls, pb_answered = []\<rparr> \<and> pj_assistant_turns q = 1"
  using projection_replays_log [OF lp_run(1) lp_log_contiguous lp_tools]
  by (auto simp: lp_p1_def append_assistant_def push_assistant_def push_message_def pending_of_calls_def
      lp_p0_def projection_new_def lp_calls_def)

section \<open>The loop ends\<close>

text \<open>C38: Under a turn cap the loop comes to an outcome or an error after finitely
  many iterations, whatever the provider answers and the tools return, however
  often the fence refuses an answer or a verdict is drifted: given record
  identifiers never used before, tools that leave the logs alone, and a log in
  which every result answers an earlier turn.\<close>

theorem turn_loop_terminates:
  assumes "eb_max_turns (td_budgets deps) = Some cap" "tools_leave_logs (td_registry deps)"
    and "log_contiguous s" "answers_follow (th_id (td_thread deps)) s"
    and "fresh_supply (insert rid (record_ids s)) ins"
  shows "\<exists>n. \<forall>p. fst (run_turn_loop e rid (map ins [0..<n]) deps s) \<noteq> Inr (Continue p)"
proof -
  obtain r t where entry: "loop_entry e rid deps s = (r, t)" by (cases "loop_entry e rid deps s")
  show ?thesis
  proof (cases r)
    case (Inl err)
    then show ?thesis using entry by (simp add: run_turn_loop_def proc_bind_def)
  next
    case (Inr p0)
    have step: "in_step deps p0 t" using loop_entry_in_step entry Inr assms(3) by blast
    have "sound_log deps (insert rid (record_ids s)) t"
      using loop_entry_sound entry Inr assms(4) by (simp add: sound_log_def)
    then obtain n where "\<forall>q. fst (loop_rounds (map ins [0..<n]) deps p0 t) \<noteq> Inr (Continue q)"
      using loop_rounds_end [OF step _ assms(5,2,1)] by blast
    then have "\<forall>p. fst (run_turn_loop e rid (map ins [0..<n]) deps s) \<noteq> Inr (Continue p)"
      using entry Inr by (simp add: run_turn_loop_def proc_bind_def)
    then show ?thesis by blast
  qed
qed

lemma lp_fresh: "fresh_supply (insert 900 (record_ids sc_running)) lp_in"
  by (auto simp: fresh_supply_def record_ids_def sc_running_def sc_state_def dest: injD [OF inj_prod_encode])

theorem turn_loop_terminates_witness:
  "(\<exists>n. \<forall>p. fst (run_turn_loop sc_env 900 (map lp_in [0..<n]) lp_deps sc_running) \<noteq> Inr (Continue p)) \<and>
   fst (run_turn_loop sc_env 900 (map lp_in [0..<2]) lp_deps sc_running) = Inr (Break (LoopSubmitted lp_submitted))"
proof -
  have "answers_follow (th_id (td_thread lp_deps)) sc_running"
    by (simp add: answers_follow_def thread_log_def sc_running_def sc_state_def)
  then show ?thesis
    using turn_loop_terminates [OF _ lp_tools lp_log_contiguous _ lp_fresh, of 2 sc_env] lp_run(2)
    by (simp add: numeral_2_eq_2)
qed

section \<open>What is submitted was seen and accepted\<close>

text \<open>C39: When the loop hands a submission to the stage terminal, the payload is
  the submission pipeline's acceptance, evaluated on the store as it stands, of
  the arguments of a \<open>submit_result\<close> call that a committed turn of the thread
  made; and the corpus it was evaluated against holds only texts the log shows
  the model: messages of the opening and results that are no errors. A
  diagnostic that echoes an identifier never admits it, and a verdict returned
  by a verifier never stands in for the pipeline.\<close>

theorem submissions_are_validated:
  assumes "run_turn_loop e rid ris deps s = (Inr (Break (LoopSubmitted a)), s')"
    and "log_contiguous s" "tools_leave_logs (td_registry deps)"
  shows "\<exists>ri \<in> set ris. validated deps (ri_env ri) s' a"
proof -
  obtain p0 t where entry: "loop_entry e rid deps s = (Inr p0, t)"
    "loop_rounds ris deps p0 t = (Inr (Break (LoopSubmitted a)), s')"
    using assms(1) by (auto simp: run_turn_loop_def proc_bind_Inr)
  show ?thesis
    by (rule loop_rounds_validated [OF entry(2) loop_entry_in_step [OF entry(1) assms(2)] assms(3)])
qed

theorem submissions_are_validated_witness:
  "as_payload lp_submitted = JStr ''item_1'' \<and> validated lp_deps sc_env lp_s2 lp_submitted"
  using submissions_are_validated [OF lp_run(2) lp_log_contiguous lp_tools] by (simp add: lp_submitted_def)

end
