(* ===== verification/ConfigSections.thy ===== *)
theory ConfigSections
  imports Graph SourceContext
begin

text \<open>
  The configuration of the server (\<open>tribal-config/src/sections/*\<close>): one record per
  section with the defaults the code gives it, the provider-connection names, and
  the directories the defaults resolve on a host. An \<open>f64\<close> is a rational or one of
  the three values a comparison treats apart; unsigned fields are natural numbers.
\<close>

section \<open>Floating-point values\<close>

text \<open>Comparisons are the IEEE ones: every comparison with not-a-number is false.\<close>

datatype f64 = NotANumber | NegInfinite | PosInfinite | Finite rat

fun f64_less :: "f64 \<Rightarrow> f64 \<Rightarrow> bool" where
  "f64_less (Finite a) (Finite b) = (a < b)"
| "f64_less NotANumber _ = False"
| "f64_less _ NotANumber = False"
| "f64_less PosInfinite _ = False"
| "f64_less _ NegInfinite = False"
| "f64_less _ _ = True"

fun f64_less_eq :: "f64 \<Rightarrow> f64 \<Rightarrow> bool" where
  "f64_less_eq (Finite a) (Finite b) = (a \<le> b)"
| "f64_less_eq NotANumber _ = False"
| "f64_less_eq _ NotANumber = False"
| "f64_less_eq NegInfinite _ = True"
| "f64_less_eq _ PosInfinite = True"
| "f64_less_eq _ _ = False"

lemma f64_less_fin [simp]:
  "f64_less (Finite a) x \<longleftrightarrow> (x = PosInfinite \<or> (\<exists>b. x = Finite b \<and> a < b))"
  "f64_less x (Finite a) \<longleftrightarrow> (x = NegInfinite \<or> (\<exists>b. x = Finite b \<and> b < a))"
  by (cases x; simp)+

lemma f64_less_eq_fin [simp]:
  "f64_less_eq (Finite a) x \<longleftrightarrow> (x = PosInfinite \<or> (\<exists>b. x = Finite b \<and> a \<le> b))"
  "f64_less_eq x (Finite a) \<longleftrightarrow> (x = NegInfinite \<or> (\<exists>b. x = Finite b \<and> b \<le> a))"
  by (cases x; simp)+

section \<open>Names and secrets\<close>

text \<open>A connection name is a letter followed by letters, digits and underscores.\<close>

definition is_lower_letter :: "char \<Rightarrow> bool" where
  "is_lower_letter c = (let n = of_char c :: nat in 97 \<le> n \<and> n \<le> 122)"

definition is_name_char :: "char \<Rightarrow> bool" where
  "is_name_char c = (is_lower_letter c \<or> (let n = of_char c :: nat in 48 \<le> n \<and> n \<le> 57) \<or> c = CHR ''_'')"

definition is_valid_provider_connection_name :: "string \<Rightarrow> bool" where
  "is_valid_provider_connection_name x =
     (case x of [] \<Rightarrow> False | c # cs \<Rightarrow> is_lower_letter c \<and> list_all is_name_char cs)"

definition provider_connection_name_parse :: "string \<Rightarrow> string option" where
  "provider_connection_name_parse raw = (if is_valid_provider_connection_name raw then Some raw else None)"

datatype secret_error = SecretEmpty | SecretContainsWhitespace

definition api_key_from_str :: "string \<Rightarrow> secret_error + string" where
  "api_key_from_str raw =
     (if raw = [] then Inl SecretEmpty
      else if list_ex is_whitespace raw then Inl SecretContainsWhitespace
      else Inr raw)"

lemma valid_name_chars:
  "is_valid_provider_connection_name x \<Longrightarrow> c \<in> set x \<Longrightarrow> is_name_char c"
  by (cases x) (auto simp: is_valid_provider_connection_name_def is_name_char_def list_all_iff)

lemma valid_name_no_dot:
  assumes "is_valid_provider_connection_name x"
  shows "CHR ''.'' \<notin> set x" "x \<noteq> []"
  using assms valid_name_chars [OF assms, of "CHR ''.''"]
  by (auto simp: is_valid_provider_connection_name_def is_name_char_def is_lower_letter_def)

section \<open>Transports and providers\<close>

datatype transport_kind = Stdio | Http | Sse

fun transport_as_str :: "transport_kind \<Rightarrow> string" where
  "transport_as_str Stdio = ''stdio''"
| "transport_as_str Http = ''http''"
| "transport_as_str Sse = ''sse''"

definition transport_from_str :: "string \<Rightarrow> transport_kind option" where
  "transport_from_str v =
     (if v = ''stdio'' then Some Stdio else if v = ''http'' then Some Http
      else if v = ''sse'' then Some Sse else None)"

fun requires_api_key :: "provider_kind \<Rightarrow> bool" where
  "requires_api_key Anthropic = True"
| "requires_api_key OpenAi = True"
| "requires_api_key Ollama = False"
| "requires_api_key Platform = False"

fun supports_embedding :: "provider_kind \<Rightarrow> bool" where
  "supports_embedding Ollama = True"
| "supports_embedding OpenAi = True"
| "supports_embedding Platform = True"
| "supports_embedding Anthropic = False"

fun default_base_url :: "provider_kind \<Rightarrow> string option" where
  "default_base_url Ollama = Some ''http://localhost:11434''"
| "default_base_url Anthropic = Some ''https://api.anthropic.com''"
| "default_base_url OpenAi = Some ''https://api.openai.com''"
| "default_base_url Platform = None"

fun request_path :: "provider_kind \<Rightarrow> string option" where
  "request_path Ollama = Some ''/api/chat''"
| "request_path Anthropic = Some ''/v1/messages''"
| "request_path OpenAi = Some ''/v1/chat/completions''"
| "request_path Platform = None"

definition provider_kind_from_str :: "string \<Rightarrow> provider_kind option" where
  "provider_kind_from_str x = find (\<lambda>k. provider_kind_as_str k = x) provider_kind_all"

lemma transport_roundtrip [simp]: "transport_from_str (transport_as_str t) = Some t"
  by (cases t) (simp_all add: transport_from_str_def)

lemma provider_kind_roundtrip [simp]: "provider_kind_from_str (provider_kind_as_str k) = Some k"
  by (cases k) (simp_all add: provider_kind_from_str_def provider_kind_all_def)

section \<open>Sections\<close>

subsection \<open>Server and database\<close>

record sse_config =
  sse_max_connection_age_ms :: nat
  sse_idle_timeout_ms :: nat
  sse_keepalive_interval_ms :: nat

record server_config =
  sv_transport :: transport_kind
  sv_bind_address :: "string option"
  sv_public_mcp_url :: "string option"
  sv_shutdown_deadline_ms :: nat
  sv_job_state_ttl_seconds :: nat
  sv_job_state_hard_ttl_seconds :: nat
  sv_sse :: sse_config

definition DEFAULT_BIND_ADDRESS :: string where
  "DEFAULT_BIND_ADDRESS = ''127.0.0.1:8725''"

definition MAX_LIFECYCLE_DURATION_MS :: nat where
  "MAX_LIFECYCLE_DURATION_MS = 7 * 24 * 3600 * 1000"

definition sse_config_default :: sse_config where
  "sse_config_default = \<lparr>sse_max_connection_age_ms = 900000, sse_idle_timeout_ms = 300000,
     sse_keepalive_interval_ms = 30000\<rparr>"

definition server_config_default :: server_config where
  "server_config_default = \<lparr>sv_transport = Stdio, sv_bind_address = None, sv_public_mcp_url = None,
     sv_shutdown_deadline_ms = 30000, sv_job_state_ttl_seconds = 300,
     sv_job_state_hard_ttl_seconds = 3600, sv_sse = sse_config_default\<rparr>"

record database_config =
  dbc_url :: string
  dbc_pool_mcp_max_connections :: nat
  dbc_pool_worker_max_connections :: nat
  dbc_acquire_timeout_ms :: nat
  dbc_statement_timeout_mcp_ms :: nat
  dbc_statement_timeout_worker_ms :: nat
  dbc_max_connect_attempts :: nat

definition database_config_default :: database_config where
  "database_config_default = \<lparr>dbc_url = [], dbc_pool_mcp_max_connections = 8,
     dbc_pool_worker_max_connections = 16, dbc_acquire_timeout_ms = 5000,
     dbc_statement_timeout_mcp_ms = 10000, dbc_statement_timeout_worker_ms = 60000,
     dbc_max_connect_attempts = 5\<rparr>"

subsection \<open>Authentication\<close>

record auth_config =
  auc_token_ttl_hours :: nat

definition MAX_TTL_HOURS :: nat where
  "MAX_TTL_HOURS = (2 ^ 63 - 1) div 3600000"

definition auth_config_default :: auth_config where
  "auth_config_default = \<lparr>auc_token_ttl_hours = 8760\<rparr>"

record oauth_config =
  oac_issuer_url :: "string option"
  oac_resource_url :: "string option"
  oac_access_token_ttl_hours :: nat
  oac_authorization_code_ttl_seconds :: nat

definition MAX_OAUTH_ACCESS_TOKEN_TTL_HOURS :: nat where
  "MAX_OAUTH_ACCESS_TOKEN_TTL_HOURS = 720"

definition MIN_AUTHORIZATION_CODE_TTL_SECONDS :: nat where
  "MIN_AUTHORIZATION_CODE_TTL_SECONDS = 60"

definition MAX_AUTHORIZATION_CODE_TTL_SECONDS :: nat where
  "MAX_AUTHORIZATION_CODE_TTL_SECONDS = 600"

definition oauth_config_default :: oauth_config where
  "oauth_config_default = \<lparr>oac_issuer_url = None, oac_resource_url = None,
     oac_access_token_ttl_hours = 24, oac_authorization_code_ttl_seconds = 600\<rparr>"

subsection \<open>Worker and agents\<close>

record worker_config =
  wkc_max_concurrent_tasks :: nat
  wkc_poll_interval_ms :: nat
  wkc_task_timeout_ms :: nat
  wkc_task_max_retries :: nat
  wkc_heartbeat_interval_ms :: nat
  wkc_reclaim_interval_ms :: nat
  wkc_max_candidates_per_job :: nat
  wkc_triage_search_limit :: nat
  wkc_tag_similarity_threshold :: f64

text \<open>The doubles nearest 0.85 and 0.3.\<close>

definition worker_config_default :: worker_config where
  "worker_config_default = \<lparr>wkc_max_concurrent_tasks = 4, wkc_poll_interval_ms = 2000,
     wkc_task_timeout_ms = 300000, wkc_task_max_retries = 3, wkc_heartbeat_interval_ms = 100000,
     wkc_reclaim_interval_ms = 10000, wkc_max_candidates_per_job = 1000,
     wkc_triage_search_limit = 10,
     wkc_tag_similarity_threshold = Finite (7656119366529843 / 9007199254740992)\<rparr>"

datatype executor_choice = ExecOneShot | ExecLoop

record stage_agent_config =
  sac_executor :: executor_choice
  sac_verifier :: "bool option"
  sac_max_turns :: "nat option"
  sac_max_total_tokens :: "nat option"
  sac_execution_deadline_seconds :: "nat option"

definition stage_agent_config_default :: stage_agent_config where
  "stage_agent_config_default = \<lparr>sac_executor = ExecOneShot, sac_verifier = None, sac_max_turns = None,
     sac_max_total_tokens = None, sac_execution_deadline_seconds = None\<rparr>"

definition verifier_enabled :: "stage_agent_config \<Rightarrow> bool \<Rightarrow> bool" where
  "verifier_enabled stage default_when_absent = (case sac_verifier stage of None \<Rightarrow> default_when_absent | Some b \<Rightarrow> b)"

record agents_config =
  agc_extraction :: stage_agent_config
  agc_triage :: stage_agent_config
  agc_relation :: stage_agent_config

definition agents_config_default :: agents_config where
  "agents_config_default = \<lparr>agc_extraction = stage_agent_config_default,
     agc_triage = stage_agent_config_default, agc_relation = stage_agent_config_default\<rparr>"

definition agents_stages :: "agents_config \<Rightarrow> (string \<times> stage_agent_config) list" where
  "agents_stages a = [(''agents.extraction'', agc_extraction a), (''agents.triage'', agc_triage a),
     (''agents.relation'', agc_relation a)]"

subsection \<open>Providers and inference\<close>

definition DEFAULT_PROVIDER_CONNECTION_NAME :: string where
  "DEFAULT_PROVIDER_CONNECTION_NAME = ''ollama_default''"

datatype provider_connection_config =
    OllamaConnection (connection_url: string)
  | AnthropicConnection string "string option"
  | OpenAiConnection string "string option"
  | PlatformConnection

fun connection_provider :: "provider_connection_config \<Rightarrow> provider_kind" where
  "connection_provider (OllamaConnection _) = Ollama"
| "connection_provider (AnthropicConnection _ _) = Anthropic"
| "connection_provider (OpenAiConnection _ _) = OpenAi"
| "connection_provider PlatformConnection = Platform"

fun connection_base_url :: "provider_connection_config \<Rightarrow> string option" where
  "connection_base_url (OllamaConnection b) = Some b"
| "connection_base_url (AnthropicConnection b _) = Some b"
| "connection_base_url (OpenAiConnection b _) = Some b"
| "connection_base_url PlatformConnection = None"

fun connection_api_key :: "provider_connection_config \<Rightarrow> string option" where
  "connection_api_key (AnthropicConnection _ k) = k"
| "connection_api_key (OpenAiConnection _ k) = k"
| "connection_api_key (OllamaConnection _) = None"
| "connection_api_key PlatformConnection = None"

fun fill_missing_api_key :: "string \<Rightarrow> provider_connection_config \<Rightarrow> provider_connection_config" where
  "fill_missing_api_key key (AnthropicConnection b None) = AnthropicConnection b (Some key)"
| "fill_missing_api_key key (OpenAiConnection b None) = OpenAiConnection b (Some key)"
| "fill_missing_api_key key c = c"

text \<open>The catalogue is a \<open>BTreeMap\<close>: its entries in name order.\<close>

type_synonym provider_connections = "(string \<times> provider_connection_config) list"

definition provider_connections_default :: provider_connections where
  "provider_connections_default =
     [(DEFAULT_PROVIDER_CONNECTION_NAME, OllamaConnection ''http://localhost:11434'')]"

record init_embedding_config =
  iec_connection :: string
  iec_model :: string
  iec_dimensions :: "nat option"

definition MAX_EMBEDDING_DIMENSIONS :: nat where
  "MAX_EMBEDDING_DIMENSIONS = 4000"

definition init_embedding_config_default :: init_embedding_config where
  "init_embedding_config_default = \<lparr>iec_connection = DEFAULT_PROVIDER_CONNECTION_NAME,
     iec_model = ''nomic-embed-text:v1.5'', iec_dimensions = None\<rparr>"

record init_config =
  inc_embedding :: init_embedding_config

definition init_config_default :: init_config where
  "init_config_default = \<lparr>inc_embedding = init_embedding_config_default\<rparr>"

datatype inference_stage = StageExtraction | StageTriage | StageRelation

fun stage_config_path :: "inference_stage \<Rightarrow> string" where
  "stage_config_path StageExtraction = ''inference.extraction''"
| "stage_config_path StageTriage = ''inference.triage''"
| "stage_config_path StageRelation = ''inference.relation''"

record stage_inference_config =
  sic_connection :: string
  sic_model :: string
  sic_temperature :: "f64 option"
  sic_max_tokens :: "nat option"

record inference_config =
  ifc_extraction :: stage_inference_config
  ifc_triage :: stage_inference_config
  ifc_relation :: stage_inference_config

definition default_extraction :: stage_inference_config where
  "default_extraction = \<lparr>sic_connection = DEFAULT_PROVIDER_CONNECTION_NAME, sic_model = ''llama3.1:70b'',
     sic_temperature = None, sic_max_tokens = None\<rparr>"

definition default_triage :: stage_inference_config where
  "default_triage = \<lparr>sic_connection = DEFAULT_PROVIDER_CONNECTION_NAME, sic_model = ''llama3.1:8b'',
     sic_temperature = None, sic_max_tokens = None\<rparr>"

definition default_relation :: stage_inference_config where
  "default_relation = \<lparr>sic_connection = DEFAULT_PROVIDER_CONNECTION_NAME, sic_model = ''llama3.1:8b'',
     sic_temperature = None, sic_max_tokens = None\<rparr>"

definition inference_config_default :: inference_config where
  "inference_config_default = \<lparr>ifc_extraction = default_extraction, ifc_triage = default_triage,
     ifc_relation = default_relation\<rparr>"

definition inference_stages :: "inference_config \<Rightarrow> (inference_stage \<times> stage_inference_config) list" where
  "inference_stages c = [(StageExtraction, ifc_extraction c), (StageTriage, ifc_triage c),
     (StageRelation, ifc_relation c)]"

record provider_limits_config =
  plc_max_in_flight :: nat
  plc_request_timeout_ms :: nat

text \<open>A \<open>HashMap\<close>: its entries in whatever order it iterates them.\<close>

type_synonym limits_config = "(provider_kind \<times> provider_limits_config) list"

definition limits_config_default :: limits_config where
  "limits_config_default =
     (let cloud = \<lparr>plc_max_in_flight = 8, plc_request_timeout_ms = 120000\<rparr> in
      [(Ollama, \<lparr>plc_max_in_flight = 2, plc_request_timeout_ms = 180000\<rparr>), (Anthropic, cloud),
       (OpenAi, cloud), (Platform, cloud)])"

subsection \<open>Retrieval, prompts, logging and telemetry\<close>

record discovery_config =
  dsc_default_limit :: nat
  dsc_max_limit :: nat
  dsc_overfetch_multiplier :: nat
  dsc_similarity_threshold :: f64

definition MAX_OVERFETCH_MULTIPLIER :: nat where
  "MAX_OVERFETCH_MULTIPLIER = 10"

definition discovery_config_default :: discovery_config where
  "discovery_config_default = \<lparr>dsc_default_limit = 10, dsc_max_limit = 50, dsc_overfetch_multiplier = 3,
     dsc_similarity_threshold = Finite (5404319552844595 / 18014398509481984)\<rparr>"

record exploration_config =
  exc_max_depth :: nat
  exc_default_depth :: nat
  exc_default_limit :: nat
  exc_max_limit :: nat

definition exploration_config_default :: exploration_config where
  "exploration_config_default = \<lparr>exc_max_depth = 3, exc_default_depth = 1, exc_default_limit = 20,
     exc_max_limit = 100\<rparr>"

datatype prompt_source = PromptsEmbedded | PromptsDisk string bool

definition default_prompts_directory :: string where
  "default_prompts_directory = ''~/.config/tribal/prompts''"

datatype log_format = LogJson | LogPretty

datatype log_output = LogStderr | LogFile

datatype file_rotation = RotateDaily | RotateHourly | RotateNever

record logging_config =
  lgc_level :: string
  lgc_format :: log_format
  lgc_output :: log_output
  lgc_file_directory :: string
  lgc_file_rotation :: file_rotation
  lgc_used_temp_dir_fallback :: bool
  lgc_include_llm_content :: bool

record telemetry_config =
  tlc_enabled :: bool
  tlc_otlp_endpoint :: "string option"
  tlc_otlp_protocol :: string
  tlc_service_name :: string
  tlc_console_export :: bool
  tlc_file_export :: bool
  tlc_file_directory :: string
  tlc_file_rotation :: file_rotation
  tlc_used_temp_dir_fallback :: bool

text \<open>The base directories of a host; a default directory is the first there is.\<close>

record host_dirs =
  hd_state_dir :: "string option"
  hd_data_local_dir :: "string option"
  hd_temp_dir :: string

definition path_join :: "string \<Rightarrow> string \<Rightarrow> string" where
  "path_join dir leaf = (if dir = [] then leaf else if last dir = CHR ''/'' then dir @ leaf else dir @ ''/'' @ leaf)"

definition resolve_directory :: "string option \<Rightarrow> string option \<Rightarrow> string \<Rightarrow> string \<Rightarrow> string \<times> bool" where
  "resolve_directory preferred fallback temp leaf =
     (let subdirectory = path_join ''tribal'' leaf in
      case preferred of Some dir \<Rightarrow> (path_join dir subdirectory, False)
      | None \<Rightarrow> (case fallback of Some dir \<Rightarrow> (path_join dir subdirectory, False)
        | None \<Rightarrow> (path_join temp subdirectory, True)))"

definition logging_config_default :: "host_dirs \<Rightarrow> logging_config" where
  "logging_config_default h =
     (case resolve_directory (hd_state_dir h) (hd_data_local_dir h) (hd_temp_dir h) ''logs'' of
        (dir, used) \<Rightarrow> \<lparr>lgc_level = ''info'', lgc_format = LogJson, lgc_output = LogStderr,
          lgc_file_directory = dir, lgc_file_rotation = RotateDaily, lgc_used_temp_dir_fallback = used,
          lgc_include_llm_content = False\<rparr>)"

definition telemetry_config_default :: "host_dirs \<Rightarrow> telemetry_config" where
  "telemetry_config_default h =
     (case resolve_directory (hd_data_local_dir h) None (hd_temp_dir h) ''traces'' of
        (dir, used) \<Rightarrow> \<lparr>tlc_enabled = True, tlc_otlp_endpoint = None, tlc_otlp_protocol = ''grpc'',
          tlc_service_name = ''tribal'', tlc_console_export = True, tlc_file_export = False,
          tlc_file_directory = dir, tlc_file_rotation = RotateDaily, tlc_used_temp_dir_fallback = used\<rparr>)"

section \<open>The whole configuration\<close>

record tribal_config =
  tc_version :: string
  tc_server :: server_config
  tc_database :: database_config
  tc_auth :: auth_config
  tc_oauth :: oauth_config
  tc_worker :: worker_config
  tc_agents :: agents_config
  tc_init :: init_config
  tc_connections :: provider_connections
  tc_inference :: inference_config
  tc_limits :: limits_config
  tc_prompts :: prompt_source
  tc_discovery :: discovery_config
  tc_exploration :: exploration_config
  tc_logging :: logging_config
  tc_telemetry :: telemetry_config

text \<open>\<open>VERSION\<close> is the crate version the build stamps.\<close>

definition VERSION :: string where
  "VERSION = ''0.4.1''"

definition tribal_config_default :: "host_dirs \<Rightarrow> tribal_config" where
  "tribal_config_default h = \<lparr>tc_version = VERSION, tc_server = server_config_default,
     tc_database = database_config_default, tc_auth = auth_config_default,
     tc_oauth = oauth_config_default, tc_worker = worker_config_default,
     tc_agents = agents_config_default, tc_init = init_config_default,
     tc_connections = provider_connections_default, tc_inference = inference_config_default,
     tc_limits = limits_config_default, tc_prompts = PromptsEmbedded,
     tc_discovery = discovery_config_default, tc_exploration = exploration_config_default,
     tc_logging = logging_config_default h, tc_telemetry = telemetry_config_default h\<rparr>"

definition minimum_valid :: "host_dirs \<Rightarrow> string \<Rightarrow> tribal_config" where
  "minimum_valid h database_url =
     (tribal_config_default h)\<lparr>tc_database := database_config_default\<lparr>dbc_url := database_url\<rparr>\<rparr>"

lemmas config_default_defs =
  tribal_config_default_def minimum_valid_def server_config_default_def sse_config_default_def
  database_config_default_def auth_config_default_def oauth_config_default_def
  worker_config_default_def agents_config_default_def stage_agent_config_default_def
  init_config_default_def init_embedding_config_default_def provider_connections_default_def
  inference_config_default_def default_extraction_def default_triage_def default_relation_def
  limits_config_default_def discovery_config_default_def exploration_config_default_def
  logging_config_default_def telemetry_config_default_def DEFAULT_PROVIDER_CONNECTION_NAME_def
  Let_def

end
