(* ===== verification/BTree.thy ===== *)
theory BTree
  imports Prelude "HOL-Library.List_Lexorder" "HOL-Library.Char_ord"
begin

text \<open>
  \<open>BTreeMap\<close> as the list of its entries in key order: the operations the code uses
  of it, and the laws of a map they satisfy. Keys are strings, in byte order.
\<close>

type_synonym 'v btree = "(string \<times> 'v) list"

definition bt_wf :: "'v btree \<Rightarrow> bool" where
  "bt_wf t = sorted_wrt (<) (map fst t)"

fun bt_insert :: "string \<Rightarrow> 'v \<Rightarrow> 'v btree \<Rightarrow> 'v btree" where
  "bt_insert k v [] = [(k, v)]"
| "bt_insert k v ((k', v') # t) =
     (if k < k' then (k, v) # (k', v') # t
      else if k = k' then (k, v) # t
      else (k', v') # bt_insert k v t)"

definition bt_remove :: "string \<Rightarrow> 'v btree \<Rightarrow> 'v btree" where
  "bt_remove k t = filter (\<lambda>(k', v). k' \<noteq> k) t"

definition bt_of_list :: "(string \<times> 'v) list \<Rightarrow> 'v btree" where
  "bt_of_list kvs = fold (\<lambda>(k, v). bt_insert k v) kvs []"

lemma bt_wf_Nil [simp, intro!]: "bt_wf []"
  by (simp add: bt_wf_def)

lemma bt_wf_Cons: "bt_wf ((k, v) # t) \<longleftrightarrow> bt_wf t \<and> (\<forall>k' \<in> set (map fst t). k < k')"
  by (auto simp: bt_wf_def)

lemma bt_wf_distinct: "bt_wf t \<Longrightarrow> distinct (map fst t)"
  unfolding bt_wf_def by (simp add: strict_sorted_iff)

lemma bt_insert_keys: "set (map fst (bt_insert k v t)) = insert k (set (map fst t))"
proof (induction t)
  case (Cons e t)
  then show ?case by (cases e) (simp add: insert_commute)
qed simp

lemma bt_insert_elem: "(a, b) \<in> set (bt_insert k v t) \<Longrightarrow> (a, b) = (k, v) \<or> (a, b) \<in> set t"
proof (induction t)
  case (Cons e t)
  obtain k' v' where "e = (k', v')" by force
  then show ?case using Cons by (auto split: if_splits)
qed simp

lemma bt_insert_wf [simp]: "bt_wf t \<Longrightarrow> bt_wf (bt_insert k v t)"
proof (induction t)
  case (Cons e t)
  obtain k' v' where e: "e = (k', v')" by force
  show ?case using Cons bt_insert_keys [of k v t]
    by (auto simp: e bt_wf_Cons)
qed (simp add: bt_wf_def)

lemma bt_insert_map_of [simp]: "map_of (bt_insert k v t) = (map_of t)(k \<mapsto> v)" if "bt_wf t"
  using that
proof (induction t)
  case (Cons e t)
  obtain k' v' where e: "e = (k', v')" by force
  show ?case
  proof (cases "k < k'")
    case True
    then show ?thesis by (auto simp: e)
  next
    case False
    then show ?thesis using Cons by (auto simp: e bt_wf_Cons fun_upd_twist)
  qed
qed simp

lemma bt_remove_wf [simp]: "bt_wf t \<Longrightarrow> bt_wf (bt_remove k t)"
  by (induction t) (auto simp: bt_remove_def bt_wf_Cons)

lemma bt_remove_map_of [simp]: "map_of (bt_remove k t) = (map_of t)(k := None)"
  by (induction t) (auto simp: bt_remove_def)

lemma bt_of_list_wf [simp]: "bt_wf (bt_of_list kvs)"
proof -
  have "bt_wf t \<Longrightarrow> bt_wf (fold (\<lambda>(k, v). bt_insert k v) kvs t)" for t
    by (induction kvs arbitrary: t) auto
  then show ?thesis by (simp add: bt_of_list_def)
qed

text \<open>Two well-formed maps with the same entries are the same list.\<close>

lemma bt_eqI:
  assumes "bt_wf s" "bt_wf t" "map_of s = map_of t"
  shows "s = t"
proof -
  have "distinct (map fst s)" "distinct (map fst t)" using assms(1,2) by (simp_all add: bt_wf_distinct)
  moreover from this have "set s = set t"
    using assms(3) by (metis map_of_eqI map_of_inject_set)
  moreover have "sorted (map fst s)" "sorted (map fst t)"
    using assms(1,2) by (simp_all add: bt_wf_def strict_sorted_iff)
  ultimately show ?thesis
    by (intro map_sorted_distinct_set_unique [of fst]) (auto simp: distinct_map)
qed

end
