(* ===== verification/Connections.thy ===== *)
theory Connections
  imports ConfigSections BTree
begin

text \<open>
  The catalogue of reusable provider connections
  (\<open>tribal-config/src/sections/provider_connections.rs\<close>) and the endpoint identity it
  rests on (\<open>tribal-domain/src/endpoint_url.rs\<close>). The parsers of other crates are the
  fields of \<open>parsers\<close>: \<open>url::Url\<close>, \<open>SocketAddr\<close>, the tracing filter. A host is a
  domain or an address, with the text \<open>Display\<close> gives it.
\<close>

section \<open>Parsers\<close>

datatype url_host = HostDomain string | HostIpv4 nat string | HostIpv6 nat string

record config_url =
  cu_scheme :: string
  cu_host :: "url_host option"
  cu_port_or_default :: "nat option"
  cu_path :: string
  cu_query :: "string option"
  cu_fragment :: "string option"

datatype ip_addr = IpV4 nat | IpV6 nat

record parsers =
  ps_url :: "string \<Rightarrow> config_url option"
  ps_socket_addr :: "string \<Rightarrow> ip_addr option"
  ps_env_filter :: "string \<Rightarrow> bool"

section \<open>Endpoint identity\<close>

datatype endpoint_url_error = UnparseableUrl | MissingHost | UnknownPort

definition trim_end_slashes :: "string \<Rightarrow> string" where
  "trim_end_slashes x = rev (dropWhile (\<lambda>c. c = CHR ''/'') (rev x))"

fun host_display :: "url_host \<Rightarrow> string" where
  "host_display (HostDomain d) = d"
| "host_display (HostIpv4 _ t) = t"
| "host_display (HostIpv6 _ t) = ''['' @ t @ '']''"

definition normalise_endpoint_url :: "parsers \<Rightarrow> string \<Rightarrow> endpoint_url_error + string" where
  "normalise_endpoint_url ps raw =
     (case ps_url ps raw of None \<Rightarrow> Inl UnparseableUrl
      | Some u \<Rightarrow> (case cu_host u of None \<Rightarrow> Inl MissingHost
        | Some host \<Rightarrow> (case cu_port_or_default u of None \<Rightarrow> Inl UnknownPort
          | Some port \<Rightarrow> Inr (cu_scheme u @ ''://'' @ host_display host @ '':'' @ show_nat port @
              trim_end_slashes (cu_path u)))))"

section \<open>Lookups\<close>

definition pc_get :: "provider_connections \<Rightarrow> string \<Rightarrow> provider_connection_config option" where
  "pc_get cs name = map_of cs name"

definition pc_insert :: "string \<Rightarrow> provider_connection_config \<Rightarrow> provider_connections
    \<Rightarrow> provider_connection_config option \<times> provider_connections" where
  "pc_insert name c cs = (map_of cs name, bt_insert name c cs)"

definition pc_remove :: "string \<Rightarrow> provider_connections
    \<Rightarrow> provider_connection_config option \<times> provider_connections" where
  "pc_remove name cs = (map_of cs name, bt_remove name cs)"

definition serves_endpoint :: "parsers \<Rightarrow> provider_kind \<Rightarrow> string \<Rightarrow> provider_connection_config \<Rightarrow> bool" where
  "serves_endpoint ps provider url c =
     (connection_provider c = provider \<and>
      (case connection_base_url c of None \<Rightarrow> False
       | Some b \<Rightarrow> (case normalise_endpoint_url ps b of Inl _ \<Rightarrow> False | Inr n \<Rightarrow> n = url)))"

definition pc_resolve :: "parsers \<Rightarrow> provider_connections \<Rightarrow> provider_kind \<Rightarrow> string
    \<Rightarrow> (string \<times> provider_connection_config) option" where
  "pc_resolve ps cs provider url = find (\<lambda>(_, c). serves_endpoint ps provider url c) cs"

datatype resolution_error = MissingConnection string | MissingEndpoint provider_kind string
  | MissingCredentialFor string provider_kind

definition usable_key :: "provider_connection_config \<Rightarrow> string" where
  "usable_key c = (case connection_api_key c of None \<Rightarrow> [] | Some k \<Rightarrow> k)"

definition resolve_api_key :: "provider_connections \<Rightarrow> string \<Rightarrow> resolution_error + string" where
  "resolve_api_key cs name =
     (case pc_get cs name of None \<Rightarrow> Inl (MissingConnection name)
      | Some c \<Rightarrow> let key = usable_key c in
          if requires_api_key (connection_provider c) \<and> key = []
          then Inl (MissingCredentialFor name (connection_provider c)) else Inr key)"

definition pc_require :: "provider_connections \<Rightarrow> string \<Rightarrow> resolution_error + provider_connection_config" where
  "pc_require cs name = (case pc_get cs name of None \<Rightarrow> Inl (MissingConnection name) | Some c \<Rightarrow> Inr c)"

definition resolve_endpoint_api_key :: "parsers \<Rightarrow> provider_connections \<Rightarrow> provider_kind \<Rightarrow> string
    \<Rightarrow> resolution_error + string" where
  "resolve_endpoint_api_key ps cs provider url =
     (case pc_resolve ps cs provider url of None \<Rightarrow> Inl (MissingEndpoint provider url)
      | Some (name, c) \<Rightarrow> let key = usable_key c in
          if requires_api_key provider \<and> key = [] then Inl (MissingCredentialFor name provider) else Inr key)"

definition fill_missing_key :: "string \<Rightarrow> string \<Rightarrow> provider_connections \<Rightarrow> provider_connections" where
  "fill_missing_key name key cs =
     map (\<lambda>(n, c). (n, if n = name then fill_missing_api_key key c else c)) cs"

section \<open>Violations\<close>

datatype connection_usage = UsageInference inference_stage | UsageGenesisEmbedding

fun usage_connection_path :: "connection_usage \<Rightarrow> string" where
  "usage_connection_path (UsageInference stage) = stage_config_path stage @ ''.connection''"
| "usage_connection_path UsageGenesisEmbedding = ''init.embedding.connection''"

fun usage_capability :: "connection_usage \<Rightarrow> string" where
  "usage_capability (UsageInference _) = ''completion''"
| "usage_capability UsageGenesisEmbedding = ''embedding''"

datatype connection_violation =
    MissingReference string connection_usage
  | UnsupportedCapability string provider_kind connection_usage
  | MissingCredential string provider_kind
  | InvalidEndpoint string string
  | EndpointIncludesRequestPrefix string string
  | DuplicateEndpoint provider_kind string string string

text \<open>The first segment of the provider's request path, compared with the last
  segment of the normalised URL.\<close>

definition strip_slash :: "string \<Rightarrow> string option" where
  "strip_slash path = (case path of c # cs \<Rightarrow> if c = CHR ''/'' then Some cs else None | [] \<Rightarrow> None)"

definition ends_with_provider_path_prefix :: "provider_kind \<Rightarrow> string \<Rightarrow> bool" where
  "ends_with_provider_path_prefix provider url =
     (case Option.bind (request_path provider) strip_slash of None \<Rightarrow> False
      | Some path \<Rightarrow> rev (takeWhile (\<lambda>c. c \<noteq> CHR ''/'') (rev url)) = takeWhile (\<lambda>c. c \<noteq> CHR ''/'') path)"

type_synonym endpoints = "((string \<times> string) \<times> string) list"

fun connection_violations_from :: "parsers \<Rightarrow> endpoints \<Rightarrow> provider_connections \<Rightarrow> connection_violation list" where
  "connection_violations_from ps seen [] = []"
| "connection_violations_from ps seen ((name, c) # rest) =
     (if requires_api_key (connection_provider c) \<and> connection_api_key c = None
      then [MissingCredential name (connection_provider c)] else []) @
     (case connection_base_url c of None \<Rightarrow> connection_violations_from ps seen rest
      | Some base_url \<Rightarrow>
          (case normalise_endpoint_url ps base_url of
             Inl _ \<Rightarrow> InvalidEndpoint name base_url # connection_violations_from ps seen rest
           | Inr normalised \<Rightarrow>
               if ends_with_provider_path_prefix (connection_provider c) normalised
               then EndpointIncludesRequestPrefix name base_url # connection_violations_from ps seen rest
               else (let endpoint = (provider_kind_as_str (connection_provider c), normalised) in
                 case map_of seen endpoint of
                   None \<Rightarrow> connection_violations_from ps ((endpoint, name) # seen) rest
                 | Some first \<Rightarrow> DuplicateEndpoint (connection_provider c) normalised first name #
                     connection_violations_from ps seen rest)))"

definition connection_violations :: "parsers \<Rightarrow> provider_connections \<Rightarrow> connection_violation list" where
  "connection_violations ps cs = connection_violations_from ps [] cs"

definition pc_violations :: "parsers \<Rightarrow> provider_connections \<Rightarrow> (inference_stage \<times> stage_inference_config) list
    \<Rightarrow> init_embedding_config \<Rightarrow> connection_violation list" where
  "pc_violations ps cs stages genesis =
     connection_violations ps cs @
     concat (map (\<lambda>(stage, config).
       if pc_get cs (sic_connection config) = None
       then [MissingReference (sic_connection config) (UsageInference stage)] else []) stages) @
     (case pc_get cs (iec_connection genesis) of
        None \<Rightarrow> [MissingReference (iec_connection genesis) UsageGenesisEmbedding]
      | Some c \<Rightarrow> if \<not> supports_embedding (connection_provider c)
          then [UnsupportedCapability (iec_connection genesis) (connection_provider c) UsageGenesisEmbedding]
          else [])"

section \<open>What a catalogue without violations gives\<close>

definition connection_endpoint :: "parsers \<Rightarrow> provider_connection_config \<Rightarrow> (string \<times> string) option" where
  "connection_endpoint ps c =
     (case connection_base_url c of None \<Rightarrow> None
      | Some b \<Rightarrow> (case normalise_endpoint_url ps b of Inl _ \<Rightarrow> None
        | Inr n \<Rightarrow> Some (provider_kind_as_str (connection_provider c), n)))"

definition connection_ok :: "parsers \<Rightarrow> provider_connection_config \<Rightarrow> bool" where
  "connection_ok ps c \<longleftrightarrow>
     (requires_api_key (connection_provider c) \<longrightarrow> connection_api_key c \<noteq> None) \<and>
     (case connection_base_url c of None \<Rightarrow> True
      | Some b \<Rightarrow> (case normalise_endpoint_url ps b of Inl _ \<Rightarrow> False
        | Inr n \<Rightarrow> \<not> ends_with_provider_path_prefix (connection_provider c) n))"

definition endpoints_of :: "parsers \<Rightarrow> provider_connections \<Rightarrow> (string \<times> string) list" where
  "endpoints_of ps cs = List.map_filter (\<lambda>(n, c). connection_endpoint ps c) cs"

lemma endpoints_of_simps [simp]:
  "endpoints_of ps [] = []"
  "endpoints_of ps ((n, c) # cs) =
     (case connection_endpoint ps c of None \<Rightarrow> endpoints_of ps cs | Some e \<Rightarrow> e # endpoints_of ps cs)"
  by (simp_all add: endpoints_of_def map_filter_simps split: option.split)

lemma connection_violations_from_Nil:
  "connection_violations_from ps seen cs = [] \<longleftrightarrow>
     (\<forall>(n, c) \<in> set cs. connection_ok ps c) \<and> distinct (endpoints_of ps cs) \<and>
     set (endpoints_of ps cs) \<inter> fst ` set seen = {}"
proof (induction ps seen cs rule: connection_violations_from.induct)
  case (2 ps seen name c rest)
  show ?case
  proof (cases "connection_base_url c")
    case None
    then show ?thesis using 2(1) by (auto simp: connection_ok_def connection_endpoint_def)
  next
    case b: (Some b)
    show ?thesis
    proof (cases "normalise_endpoint_url ps b")
      case (Inl e)
      then show ?thesis using b by (auto simp: connection_ok_def)
    next
      case n: (Inr n)
      show ?thesis
      proof (cases "ends_with_provider_path_prefix (connection_provider c) n")
        case True
        then show ?thesis using b n by (auto simp: connection_ok_def)
      next
        case False
        let ?e = "(provider_kind_as_str (connection_provider c), n)"
        have e: "connection_endpoint ps c = Some ?e" using b n by (simp add: connection_endpoint_def)
        show ?thesis
        proof (cases "map_of seen ?e")
          case None
          then have "?e \<notin> fst ` set seen" by (simp add: map_of_eq_None_iff)
          then show ?thesis using 2(4) [OF b n False refl None] b n False e None
            by (auto simp: connection_ok_def Let_def)
        next
          case (Some first)
          then have "?e \<in> fst ` set seen" by (metis map_of_eq_None_iff option.distinct(1))
          then show ?thesis using b n False e Some by (auto simp: connection_ok_def Let_def)
        qed
      qed
    qed
  qed
qed simp

lemma connection_violations_Nil:
  "connection_violations ps cs = [] \<longleftrightarrow>
     (\<forall>(n, c) \<in> set cs. connection_ok ps c) \<and> distinct (endpoints_of ps cs)"
  by (simp add: connection_violations_def connection_violations_from_Nil)

lemma serves_endpoint_iff:
  "serves_endpoint ps p url c \<longleftrightarrow> connection_endpoint ps c = Some (provider_kind_as_str p, url)"
proof -
  have "provider_kind_as_str (connection_provider c) = provider_kind_as_str p \<longleftrightarrow> connection_provider c = p"
    by (cases "connection_provider c"; cases p) simp_all
  then show ?thesis
    by (auto simp: serves_endpoint_def connection_endpoint_def split: option.split sum.split)
qed

text \<open>Endpoints are unique, so looking one up finds the connection it belongs to.\<close>

lemma resolve_finds_owner:
  assumes "distinct (endpoints_of ps cs)" "(name, c) \<in> set cs"
    and "connection_endpoint ps c = Some (provider_kind_as_str p, url)"
  shows "\<exists>name' c'. pc_resolve ps cs p url = Some (name', c') \<and> (name', c') \<in> set cs \<and>
    connection_endpoint ps c' = connection_endpoint ps c \<and> (distinct (map fst cs) \<longrightarrow> name' = name \<and> c' = c)"
  using assms
proof (induction cs)
  case (Cons e cs)
  obtain n d where e: "e = (n, d)" by force
  show ?case
  proof (cases "connection_endpoint ps d = Some (provider_kind_as_str p, url)")
    case True
    have "(name, c) \<notin> set cs"
    proof
      assume "(name, c) \<in> set cs"
      then have "(provider_kind_as_str p, url) \<in> set (endpoints_of ps cs)"
        using Cons.prems(3) by (force simp: endpoints_of_def map_filter_def)
      then show False using Cons.prems(1) True by (simp add: e)
    qed
    then have "name = n" "c = d" using Cons.prems(2) by (auto simp: e)
    moreover have "pc_resolve ps (e # cs) p url = Some (n, d)"
      using True by (simp add: pc_resolve_def e serves_endpoint_iff)
    ultimately show ?thesis by (simp add: e)
  next
    case False
    then have "(name, c) \<in> set cs" using Cons.prems(2,3) by (auto simp: e)
    moreover have "distinct (endpoints_of ps cs)"
      using Cons.prems(1) by (simp add: e split: option.splits)
    moreover have "pc_resolve ps (e # cs) p url = pc_resolve ps cs p url"
      using False by (simp add: pc_resolve_def e serves_endpoint_iff)
    ultimately show ?thesis using Cons.IH Cons.prems(3) by (auto simp: e)
  qed
qed simp

text \<open>A stored key is never empty, so a connection that has the key its provider asks
  for resolves.\<close>

definition keys_nonempty :: "provider_connections \<Rightarrow> bool" where
  "keys_nonempty cs \<longleftrightarrow> (\<forall>(n, c) \<in> set cs. connection_api_key c \<noteq> Some [])"

lemma resolve_api_key_ok:
  assumes "connection_violations ps cs = []" "keys_nonempty cs" "pc_get cs name = Some c"
  shows "resolve_api_key cs name = Inr (usable_key c)"
    "requires_api_key (connection_provider c) \<Longrightarrow> usable_key c \<noteq> []"
proof -
  have "(name, c) \<in> set cs" using assms(3) by (simp add: pc_get_def map_of_SomeD)
  then have "requires_api_key (connection_provider c) \<longrightarrow> connection_api_key c \<noteq> None"
    and "connection_api_key c \<noteq> Some []"
    using assms(1,2) by (auto simp: connection_violations_Nil connection_ok_def keys_nonempty_def)
  then have "requires_api_key (connection_provider c) \<longrightarrow> usable_key c \<noteq> []"
    by (auto simp: usable_key_def)
  then show "resolve_api_key cs name = Inr (usable_key c)"
    "requires_api_key (connection_provider c) \<Longrightarrow> usable_key c \<noteq> []"
    using assms(3) by (simp_all add: resolve_api_key_def Let_def)
qed

lemma pc_violations_Nil:
  "pc_violations ps cs stages genesis = [] \<longleftrightarrow>
     connection_violations ps cs = [] \<and>
     (\<forall>(stage, config) \<in> set stages. pc_get cs (sic_connection config) \<noteq> None) \<and>
     (\<exists>c. pc_get cs (iec_connection genesis) = Some c \<and> supports_embedding (connection_provider c))"
  by (auto simp: pc_violations_def split: option.splits if_split_asm)

end
