(* ===== verification/ConfigValidation.thy ===== *)
theory ConfigValidation
  imports Connections
begin

text \<open>
  Exhaustive validation of the merged configuration
  (\<open>tribal-config/src/validation.rs\<close> and its submodules): every section validator
  returns the diagnostics it pushes, in order; the configuration is accepted when
  there is none.
\<close>

section \<open>Diagnostics\<close>

type_synonym config_path = string

definition path_child :: "string \<Rightarrow> string \<Rightarrow> config_path" where
  "path_child prefix field = (if prefix = [] then field else prefix @ ''.'' @ field)"

datatype inclusion = Open | Closed

record endpoint =
  ep_value :: f64
  ep_inclusion :: inclusion

definition admits_above :: "endpoint \<Rightarrow> f64 \<Rightarrow> bool" where
  "admits_above e v = (case ep_inclusion e of Open \<Rightarrow> f64_less (ep_value e) v | Closed \<Rightarrow> f64_less_eq (ep_value e) v)"

definition admits_below :: "endpoint \<Rightarrow> f64 \<Rightarrow> bool" where
  "admits_below e v = (case ep_inclusion e of Open \<Rightarrow> f64_less v (ep_value e) | Closed \<Rightarrow> f64_less_eq v (ep_value e))"

record numeric_range =
  nr_low :: endpoint
  nr_high :: endpoint

definition range_contains :: "numeric_range \<Rightarrow> f64 \<Rightarrow> bool" where
  "range_contains r v \<longleftrightarrow> admits_above (nr_low r) v \<and> admits_below (nr_high r) v"

definition SIMILARITY_RANGE :: numeric_range where
  "SIMILARITY_RANGE = \<lparr>nr_low = \<lparr>ep_value = Finite 0, ep_inclusion = Open\<rparr>,
     nr_high = \<lparr>ep_value = Finite 1, ep_inclusion = Closed\<rparr>\<rparr>"

definition TEMPERATURE_RANGE :: numeric_range where
  "TEMPERATURE_RANGE = \<lparr>nr_low = \<lparr>ep_value = Finite 0, ep_inclusion = Closed\<rparr>,
     nr_high = \<lparr>ep_value = Finite 2, ep_inclusion = Closed\<rparr>\<rparr>"

datatype order_relation = AtMost | LessThan | AtLeast

record field_value =
  fv_field :: config_path
  fv_value :: nat

record computed_floor =
  cf_value :: nat
  cf_addend :: config_path
  cf_overhead :: nat

datatype validation_error =
    Empty config_path
  | ContainsWhitespace config_path
  | BelowMin config_path nat nat
  | AboveMax config_path nat nat
  | OutOfRange config_path f64 numeric_range
  | FieldOrdering field_value field_value order_relation
  | DerivedFloor config_path nat computed_floor
  | ProviderConnectionMissing config_path string
  | ProviderConnectionUnsupported config_path string provider_kind string
  | ProviderConnectionCredentialMissing string provider_kind
  | BindAddressStdioConflict
  | BindAddressMalformed string
  | UrlMalformed config_path string
  | UrlUnsupportedForm config_path string string
  | PlatformProviderNotLocal config_path string
  | DuplicateProviderConnectionEndpoint string string provider_kind string
  | TelemetryFileExportRequiresEnabled
  | LogFilterMalformed string

definition must_be_positive :: "config_path \<Rightarrow> validation_error" where
  "must_be_positive field = BelowMin field 0 1"

definition connection_field :: "string \<Rightarrow> string \<Rightarrow> config_path" where
  "connection_field name field = path_child (path_child ''provider_connections'' name) field"

fun error_fields :: "validation_error \<Rightarrow> config_path list" where
  "error_fields (Empty f) = [f]"
| "error_fields (ContainsWhitespace f) = [f]"
| "error_fields (BelowMin f _ _) = [f]"
| "error_fields (AboveMax f _ _) = [f]"
| "error_fields (OutOfRange f _ _) = [f]"
| "error_fields (ProviderConnectionMissing f _) = [f]"
| "error_fields (ProviderConnectionUnsupported f _ _ _) = [f]"
| "error_fields (UrlMalformed f _) = [f]"
| "error_fields (UrlUnsupportedForm f _ _) = [f]"
| "error_fields (PlatformProviderNotLocal f _) = [f]"
| "error_fields (FieldOrdering a b _) = [fv_field a, fv_field b]"
| "error_fields (DerivedFloor f _ fl) = [f, cf_addend fl]"
| "error_fields (ProviderConnectionCredentialMissing name _) = [connection_field name ''api_key'']"
| "error_fields BindAddressStdioConflict = [''server.transport'', ''server.bind_address'']"
| "error_fields (BindAddressMalformed _) = [''server.bind_address'']"
| "error_fields (DuplicateProviderConnectionEndpoint a b _ _) =
     [connection_field a ''base_url'', connection_field b ''base_url'']"
| "error_fields TelemetryFileExportRequiresEnabled = [''telemetry.enabled'', ''telemetry.file_export'']"
| "error_fields (LogFilterMalformed _) = [''logging.level'']"

type_synonym diagnostics = "validation_error list"

text \<open>A diagnostic pushed when its condition holds.\<close>

definition push_when :: "bool \<Rightarrow> validation_error \<Rightarrow> diagnostics" where
  "push_when b e = (if b then [e] else [])"

lemma push_when_Nil [simp]: "push_when b e = [] \<longleftrightarrow> \<not> b"
  by (simp add: push_when_def)

definition positive :: "config_path \<Rightarrow> nat \<Rightarrow> diagnostics" where
  "positive field v = push_when (v = 0) (must_be_positive field)"

definition ordered :: "config_path \<Rightarrow> nat \<Rightarrow> config_path \<Rightarrow> nat \<Rightarrow> order_relation \<Rightarrow> validation_error" where
  "ordered f v g w relation = FieldOrdering \<lparr>fv_field = f, fv_value = v\<rparr> \<lparr>fv_field = g, fv_value = w\<rparr> relation"

lemma positive_Nil [simp]: "positive field v = [] \<longleftrightarrow> v \<noteq> 0"
  by (simp add: positive_def)

section \<open>Section validators\<close>

definition validate_database :: "tribal_config \<Rightarrow> diagnostics" where
  "validate_database c = (let d = tc_database c in
     push_when (dbc_url d = []) (Empty ''database.url'') @
     positive ''database.pool_mcp_max_connections'' (dbc_pool_mcp_max_connections d) @
     positive ''database.pool_worker_max_connections'' (dbc_pool_worker_max_connections d))"

definition bounded_duration :: "config_path \<Rightarrow> nat \<Rightarrow> diagnostics" where
  "bounded_duration field v =
     (if v = 0 then [must_be_positive field]
      else push_when (v > MAX_LIFECYCLE_DURATION_MS) (AboveMax field v MAX_LIFECYCLE_DURATION_MS))"

definition validate_server :: "parsers \<Rightarrow> tribal_config \<Rightarrow> diagnostics" where
  "validate_server ps c = (let s = tc_server c; sse = sv_sse s in
     push_when (sv_transport s = Stdio \<and> sv_bind_address s \<noteq> None) BindAddressStdioConflict @
     (case sv_bind_address s of None \<Rightarrow> []
      | Some addr \<Rightarrow> push_when (ps_socket_addr ps addr = None) (BindAddressMalformed addr)) @
     positive ''server.shutdown_deadline_ms'' (sv_shutdown_deadline_ms s) @
     positive ''server.job_state_ttl_seconds'' (sv_job_state_ttl_seconds s) @
     (if sv_job_state_hard_ttl_seconds s = 0 then [must_be_positive ''server.job_state_hard_ttl_seconds'']
      else push_when (sv_job_state_ttl_seconds s > 0 \<and> sv_job_state_hard_ttl_seconds s < sv_job_state_ttl_seconds s)
        (ordered ''server.job_state_hard_ttl_seconds'' (sv_job_state_hard_ttl_seconds s)
          ''server.job_state_ttl_seconds'' (sv_job_state_ttl_seconds s) AtLeast)) @
     bounded_duration ''server.sse.max_connection_age_ms'' (sse_max_connection_age_ms sse) @
     bounded_duration ''server.sse.idle_timeout_ms'' (sse_idle_timeout_ms sse) @
     (if sse_keepalive_interval_ms sse = 0 then [must_be_positive ''server.sse.keepalive_interval_ms'']
      else if sse_keepalive_interval_ms sse > MAX_LIFECYCLE_DURATION_MS
      then [AboveMax ''server.sse.keepalive_interval_ms'' (sse_keepalive_interval_ms sse) MAX_LIFECYCLE_DURATION_MS]
      else push_when (sse_idle_timeout_ms sse > 0 \<and> sse_keepalive_interval_ms sse \<ge> sse_idle_timeout_ms sse)
        (ordered ''server.sse.keepalive_interval_ms'' (sse_keepalive_interval_ms sse)
          ''server.sse.idle_timeout_ms'' (sse_idle_timeout_ms sse) LessThan)))"

definition validate_auth :: "tribal_config \<Rightarrow> diagnostics" where
  "validate_auth c = (let ttl = auc_token_ttl_hours (tc_auth c) in
     if ttl = 0 then [must_be_positive ''auth.token_ttl_hours'']
     else push_when (ttl > MAX_TTL_HOURS) (AboveMax ''auth.token_ttl_hours'' ttl MAX_TTL_HOURS))"

definition ISSUER_ORIGIN_REQUIREMENT :: string where
  "ISSUER_ORIGIN_REQUIREMENT = ''must be an origin URL with no path, query, or fragment''"

definition RESOURCE_FRAGMENT_REQUIREMENT :: string where
  "RESOURCE_FRAGMENT_REQUIREMENT = ''must not contain a fragment''"

definition PUBLIC_MCP_URL_REQUIREMENT :: string where
  "PUBLIC_MCP_URL_REQUIREMENT = ''must be an http(s) URL with a host and no fragment''"

definition validate_issuer_url :: "parsers \<Rightarrow> string option \<Rightarrow> diagnostics" where
  "validate_issuer_url ps value = (case value of None \<Rightarrow> []
     | Some raw \<Rightarrow> if raw = [] then [] else
         (case ps_url ps raw of None \<Rightarrow> [UrlMalformed ''oauth.issuer_url'' raw]
          | Some url \<Rightarrow> push_when (cu_path url \<noteq> ''/'' \<or> cu_query url \<noteq> None \<or> cu_fragment url \<noteq> None)
              (UrlUnsupportedForm ''oauth.issuer_url'' raw ISSUER_ORIGIN_REQUIREMENT)))"

definition validate_resource_url :: "parsers \<Rightarrow> string option \<Rightarrow> diagnostics" where
  "validate_resource_url ps value = (case value of None \<Rightarrow> []
     | Some raw \<Rightarrow> if raw = [] then [] else
         (case ps_url ps raw of None \<Rightarrow> [UrlMalformed ''oauth.resource_url'' raw]
          | Some url \<Rightarrow> push_when (cu_fragment url \<noteq> None)
              (UrlUnsupportedForm ''oauth.resource_url'' raw RESOURCE_FRAGMENT_REQUIREMENT)))"

definition is_valid_public_mcp_url :: "parsers \<Rightarrow> string \<Rightarrow> bool" where
  "is_valid_public_mcp_url ps raw = (case ps_url ps raw of None \<Rightarrow> False
     | Some url \<Rightarrow> cu_scheme url \<in> {''http'', ''https''} \<and> cu_host url \<noteq> None \<and> cu_fragment url = None)"

definition validate_public_mcp_url :: "parsers \<Rightarrow> string option \<Rightarrow> diagnostics" where
  "validate_public_mcp_url ps value = (case value of None \<Rightarrow> []
     | Some raw \<Rightarrow> if raw = [] then []
         else if ps_url ps raw = None then [UrlMalformed ''server.public_mcp_url'' raw]
         else push_when (\<not> is_valid_public_mcp_url ps raw)
           (UrlUnsupportedForm ''server.public_mcp_url'' raw PUBLIC_MCP_URL_REQUIREMENT))"

definition validate_oauth :: "parsers \<Rightarrow> tribal_config \<Rightarrow> diagnostics" where
  "validate_oauth ps c = (let oa = tc_oauth c; access_ttl = oac_access_token_ttl_hours oa;
       code_ttl = oac_authorization_code_ttl_seconds oa in
     (if access_ttl = 0 then [must_be_positive ''oauth.access_token_ttl_hours'']
      else push_when (access_ttl > MAX_OAUTH_ACCESS_TOKEN_TTL_HOURS)
        (AboveMax ''oauth.access_token_ttl_hours'' access_ttl MAX_OAUTH_ACCESS_TOKEN_TTL_HOURS)) @
     (if code_ttl < MIN_AUTHORIZATION_CODE_TTL_SECONDS
      then [BelowMin ''oauth.authorization_code_ttl_seconds'' code_ttl MIN_AUTHORIZATION_CODE_TTL_SECONDS]
      else push_when (code_ttl > MAX_AUTHORIZATION_CODE_TTL_SECONDS)
        (AboveMax ''oauth.authorization_code_ttl_seconds'' code_ttl MAX_AUTHORIZATION_CODE_TTL_SECONDS)) @
     validate_issuer_url ps (oac_issuer_url oa) @
     validate_resource_url ps (oac_resource_url oa) @
     validate_public_mcp_url ps (sv_public_mcp_url (tc_server c)))"

definition worker_validate :: "worker_config \<Rightarrow> diagnostics" where
  "worker_validate w =
     positive ''worker.max_concurrent_tasks'' (wkc_max_concurrent_tasks w) @
     positive ''worker.poll_interval_ms'' (wkc_poll_interval_ms w) @
     positive ''worker.task_timeout_ms'' (wkc_task_timeout_ms w) @
     positive ''worker.heartbeat_interval_ms'' (wkc_heartbeat_interval_ms w) @
     push_when (wkc_heartbeat_interval_ms w \<ge> wkc_task_timeout_ms w)
       (ordered ''worker.heartbeat_interval_ms'' (wkc_heartbeat_interval_ms w)
         ''worker.task_timeout_ms'' (wkc_task_timeout_ms w) LessThan) @
     push_when (wkc_reclaim_interval_ms w < wkc_poll_interval_ms w)
       (ordered ''worker.reclaim_interval_ms'' (wkc_reclaim_interval_ms w)
         ''worker.poll_interval_ms'' (wkc_poll_interval_ms w) AtLeast) @
     positive ''worker.triage_search_limit'' (wkc_triage_search_limit w) @
     positive ''worker.max_candidates_per_job'' (wkc_max_candidates_per_job w) @
     push_when (f64_less_eq (wkc_tag_similarity_threshold w) (Finite 0) \<or>
         f64_less (Finite 1) (wkc_tag_similarity_threshold w))
       (OutOfRange ''worker.tag_similarity_threshold'' (wkc_tag_similarity_threshold w) SIMILARITY_RANGE)"

definition validate_worker :: "tribal_config \<Rightarrow> diagnostics" where
  "validate_worker c = worker_validate (tc_worker c)"

definition agents_validate :: "agents_config \<Rightarrow> diagnostics" where
  "agents_validate a = concat (map (\<lambda>(prefix, stage).
     concat (map (\<lambda>(field, value). push_when (value = Some 0) (must_be_positive (path_child prefix field)))
       [(''max_turns'', sac_max_turns stage),
        (''execution_deadline_seconds'', sac_execution_deadline_seconds stage),
        (''max_total_tokens'', sac_max_total_tokens stage)])) (agents_stages a))"

definition validate_agents :: "tribal_config \<Rightarrow> diagnostics" where
  "validate_agents c = agents_validate (tc_agents c)"

definition POOL_CONNECTION_OVERHEAD :: nat where
  "POOL_CONNECTION_OVERHEAD = 4"

definition u64_saturating_add :: "nat \<Rightarrow> nat \<Rightarrow> nat" where
  "u64_saturating_add a b = min (a + b) (2 ^ 64 - 1)"

definition validate_pool_sizing :: "tribal_config \<Rightarrow> diagnostics" where
  "validate_pool_sizing c =
     (let available = dbc_pool_worker_max_connections (tc_database c);
          required = u64_saturating_add (wkc_max_concurrent_tasks (tc_worker c)) POOL_CONNECTION_OVERHEAD in
      push_when (available < required)
        (DerivedFloor ''database.pool_worker_max_connections'' available
          \<lparr>cf_value = required, cf_addend = ''worker.max_concurrent_tasks'', cf_overhead = POOL_CONNECTION_OVERHEAD\<rparr>))"

definition validate_model_id :: "config_path \<Rightarrow> string \<Rightarrow> diagnostics" where
  "validate_model_id field model =
     (if model = [] then [Empty field]
      else push_when (list_ex is_whitespace model) (ContainsWhitespace field))"

definition validate_init :: "tribal_config \<Rightarrow> diagnostics" where
  "validate_init c = (let init = inc_embedding (tc_init c) in
     validate_model_id ''init.embedding.model'' (iec_model init) @
     (case iec_dimensions init of None \<Rightarrow> []
      | Some d \<Rightarrow> if d = 0 then [must_be_positive ''init.embedding.dimensions'']
          else push_when (d > MAX_EMBEDDING_DIMENSIONS)
            (AboveMax ''init.embedding.dimensions'' d MAX_EMBEDDING_DIMENSIONS)))"

definition validate_stage :: "inference_stage \<Rightarrow> stage_inference_config \<Rightarrow> diagnostics" where
  "validate_stage stage cfg = (let prefix = stage_config_path stage in
     validate_model_id (path_child prefix ''model'') (sic_model cfg) @
     (case sic_temperature cfg of None \<Rightarrow> []
      | Some t \<Rightarrow> push_when (\<not> range_contains TEMPERATURE_RANGE t)
          (OutOfRange (path_child prefix ''temperature'') t TEMPERATURE_RANGE)) @
     push_when (sic_max_tokens cfg = Some 0) (must_be_positive (path_child prefix ''max_tokens'')))"

definition validate_inference :: "tribal_config \<Rightarrow> diagnostics" where
  "validate_inference c = concat (map (\<lambda>(stage, cfg). validate_stage stage cfg) (inference_stages (tc_inference c)))"

definition PROVIDER_BASE_URL_REQUIREMENT :: string where
  "PROVIDER_BASE_URL_REQUIREMENT = ''must omit the provider-owned request-path prefix''"

fun violation_error :: "connection_violation \<Rightarrow> validation_error" where
  "violation_error (MissingReference name usage) = ProviderConnectionMissing (usage_connection_path usage) name"
| "violation_error (UnsupportedCapability name provider usage) =
     ProviderConnectionUnsupported (usage_connection_path usage) name provider (usage_capability usage)"
| "violation_error (MissingCredential name provider) = ProviderConnectionCredentialMissing name provider"
| "violation_error (InvalidEndpoint name v) = UrlMalformed (connection_field name ''base_url'') v"
| "violation_error (EndpointIncludesRequestPrefix name v) =
     UrlUnsupportedForm (connection_field name ''base_url'') v PROVIDER_BASE_URL_REQUIREMENT"
| "violation_error (DuplicateEndpoint provider url first second) =
     DuplicateProviderConnectionEndpoint first second provider url"

definition validate_provider_connections :: "parsers \<Rightarrow> tribal_config \<Rightarrow> diagnostics" where
  "validate_provider_connections ps c =
     (let genesis = inc_embedding (tc_init c) in
      map violation_error (pc_violations ps (tc_connections c) (inference_stages (tc_inference c)) genesis) @
      push_when (case pc_get (tc_connections c) (iec_connection genesis) of None \<Rightarrow> False
          | Some connection \<Rightarrow> connection_provider connection = Platform)
        (PlatformProviderNotLocal ''init.embedding.connection'' (iec_connection genesis)))"

definition validate_limits :: "nat \<Rightarrow> provider_kind \<Rightarrow> provider_limits_config \<Rightarrow> diagnostics" where
  "validate_limits task_timeout provider limits =
     (let prefix = ''limits.providers.'' @ provider_kind_as_str provider; request_timeout = plc_request_timeout_ms limits in
      positive (path_child prefix ''max_in_flight'') (plc_max_in_flight limits) @
      (if request_timeout = 0 then [must_be_positive (path_child prefix ''request_timeout_ms'')]
       else push_when (request_timeout \<ge> task_timeout)
         (ordered (path_child prefix ''request_timeout_ms'') request_timeout
           ''worker.task_timeout_ms'' task_timeout LessThan)))"

definition validate_provider_limits :: "tribal_config \<Rightarrow> diagnostics" where
  "validate_provider_limits c = concat (map (\<lambda>(provider, limits).
     validate_limits (wkc_task_timeout_ms (tc_worker c)) provider limits) (tc_limits c))"

definition validate_discovery :: "tribal_config \<Rightarrow> diagnostics" where
  "validate_discovery c = (let d = tc_discovery c in
     positive ''discovery.default_limit'' (dsc_default_limit d) @
     positive ''discovery.max_limit'' (dsc_max_limit d) @
     push_when (dsc_default_limit d > dsc_max_limit d)
       (ordered ''discovery.default_limit'' (dsc_default_limit d) ''discovery.max_limit'' (dsc_max_limit d) AtMost) @
     (if dsc_overfetch_multiplier d = 0 then [must_be_positive ''discovery.overfetch_multiplier'']
      else push_when (dsc_overfetch_multiplier d > MAX_OVERFETCH_MULTIPLIER)
        (AboveMax ''discovery.overfetch_multiplier'' (dsc_overfetch_multiplier d) MAX_OVERFETCH_MULTIPLIER)) @
     push_when (\<not> range_contains SIMILARITY_RANGE (dsc_similarity_threshold d))
       (OutOfRange ''discovery.similarity_threshold'' (dsc_similarity_threshold d) SIMILARITY_RANGE))"

definition validate_exploration :: "tribal_config \<Rightarrow> diagnostics" where
  "validate_exploration c = (let e = tc_exploration c in
     positive ''exploration.default_depth'' (exc_default_depth e) @
     positive ''exploration.max_depth'' (exc_max_depth e) @
     push_when (exc_default_depth e > exc_max_depth e)
       (ordered ''exploration.default_depth'' (exc_default_depth e) ''exploration.max_depth'' (exc_max_depth e) AtMost) @
     positive ''exploration.default_limit'' (exc_default_limit e) @
     positive ''exploration.max_limit'' (exc_max_limit e) @
     push_when (exc_default_limit e > exc_max_limit e)
       (ordered ''exploration.default_limit'' (exc_default_limit e) ''exploration.max_limit'' (exc_max_limit e) AtMost))"

definition validate_logging :: "parsers \<Rightarrow> tribal_config \<Rightarrow> diagnostics" where
  "validate_logging ps c = push_when (\<not> ps_env_filter ps (lgc_level (tc_logging c)))
     (LogFilterMalformed (lgc_level (tc_logging c)))"

definition validate_telemetry :: "tribal_config \<Rightarrow> diagnostics" where
  "validate_telemetry c = push_when (tlc_file_export (tc_telemetry c) \<and> \<not> tlc_enabled (tc_telemetry c))
     TelemetryFileExportRequiresEnabled"

section \<open>The whole validation\<close>

definition config_diagnostics :: "parsers \<Rightarrow> tribal_config \<Rightarrow> diagnostics" where
  "config_diagnostics ps c =
     validate_database c @ validate_server ps c @ validate_auth c @ validate_oauth ps c @
     validate_worker c @ validate_agents c @ validate_pool_sizing c @ validate_init c @
     validate_inference c @ validate_provider_connections ps c @ validate_provider_limits c @
     validate_discovery c @ validate_exploration c @ validate_logging ps c @ validate_telemetry c"

definition validate :: "parsers \<Rightarrow> tribal_config \<Rightarrow> diagnostics + unit" where
  "validate ps c = (let diags = config_diagnostics ps c in if diags = [] then Inr () else Inl diags)"

datatype advisory = VerifierInert | RelationVerifierInert | ExtractionVerifierUnavailable | OneShotBudgetInert

definition inert_one_shot_budget :: "stage_agent_config \<Rightarrow> bool" where
  "inert_one_shot_budget s \<longleftrightarrow> sac_executor s = ExecOneShot \<and>
     (sac_max_turns s \<noteq> None \<or> sac_execution_deadline_seconds s \<noteq> None)"

definition agents_advisories :: "agents_config \<Rightarrow> advisory list" where
  "agents_advisories a =
     (if sac_verifier (agc_triage a) = Some True \<and> sac_executor (agc_triage a) = ExecOneShot then [VerifierInert] else []) @
     (if sac_verifier (agc_relation a) = Some True \<and> sac_executor (agc_relation a) = ExecOneShot then [RelationVerifierInert] else []) @
     (if sac_verifier (agc_extraction a) = Some True then [ExtractionVerifierUnavailable] else []) @
     (if list_ex inert_one_shot_budget [agc_extraction a, agc_triage a, agc_relation a] then [OneShotBudgetInert] else [])"

definition config_warnings :: "tribal_config \<Rightarrow> advisory list" where
  "config_warnings c = agents_advisories (tc_agents c)"

end
