(* ===== verification/Processing.thy ===== *)
theory Processing
  imports ConfigValidation
begin

text \<open>
  Processing profiles (\<open>tribal-config/src/sections/processing.rs\<close>): the settings a
  client reads back and writes as one profile, projected from the inference and agent
  sections and applied to them.
\<close>

record preset_model_settings =
  pms_connection :: string
  pms_model :: string

record stage_model_settings =
  sms_connection :: string
  sms_model :: string
  sms_temperature :: "f64 option"
  sms_max_output_tokens :: "nat option"

datatype stage_execution_settings =
    StageEfficient "nat option"
  | StageHigherQuality "nat option" "nat option" "nat option"

datatype verified_stage_execution_settings =
    VerifiedEfficient "nat option"
  | VerifiedHigherQuality "bool option" "nat option" "nat option" "nat option"

record extraction_stage_settings =
  ess_model :: stage_model_settings
  ess_execution :: stage_execution_settings

record verified_stage_settings =
  vss_model :: stage_model_settings
  vss_execution :: verified_stage_execution_settings

record custom_processing_settings =
  cps_extraction :: extraction_stage_settings
  cps_triage :: verified_stage_settings
  cps_relation :: verified_stage_settings

datatype processing_profile = Efficient preset_model_settings | HigherQuality preset_model_settings
  | Custom custom_processing_settings

definition preset_model :: "inference_config \<Rightarrow> agents_config \<Rightarrow> executor_choice \<Rightarrow> preset_model_settings option" where
  "preset_model inference agents executor =
     (let stages = [ifc_extraction inference, ifc_triage inference, ifc_relation inference];
          first = ifc_extraction inference;
          models_match = list_all (\<lambda>stage. sic_connection stage = sic_connection first \<and>
            sic_model stage = sic_model first \<and> sic_temperature stage = None \<and> sic_max_tokens stage = None) stages;
          agents_match = list_all (\<lambda>stage. sac_executor stage = executor \<and> sac_verifier stage = None \<and>
            sac_max_turns stage = None \<and> sac_max_total_tokens stage = None \<and>
            sac_execution_deadline_seconds stage = None) [agc_extraction agents, agc_triage agents, agc_relation agents] in
      if models_match \<and> agents_match
      then Some \<lparr>pms_connection = sic_connection first, pms_model = sic_model first\<rparr> else None)"

definition preset_inference :: "preset_model_settings \<Rightarrow> inference_config" where
  "preset_inference model =
     (let stage = \<lparr>sic_connection = pms_connection model, sic_model = pms_model model, sic_temperature = None,
        sic_max_tokens = None\<rparr> in
      \<lparr>ifc_extraction = stage, ifc_triage = stage, ifc_relation = stage\<rparr>)"

definition preset_agents :: "executor_choice \<Rightarrow> agents_config" where
  "preset_agents executor =
     (let stage = stage_agent_config_default\<lparr>sac_executor := executor\<rparr> in
      \<lparr>agc_extraction = stage, agc_triage = stage, agc_relation = stage\<rparr>)"

definition stage_model :: "stage_inference_config \<Rightarrow> stage_model_settings" where
  "stage_model stage = \<lparr>sms_connection = sic_connection stage, sms_model = sic_model stage,
     sms_temperature = sic_temperature stage, sms_max_output_tokens = sic_max_tokens stage\<rparr>"

definition raw_stage_model :: "stage_model_settings \<Rightarrow> stage_inference_config" where
  "raw_stage_model stage = \<lparr>sic_connection = sms_connection stage, sic_model = sms_model stage,
     sic_temperature = sms_temperature stage, sic_max_tokens = sms_max_output_tokens stage\<rparr>"

definition extraction_execution :: "stage_agent_config \<Rightarrow> stage_execution_settings" where
  "extraction_execution stage = (case sac_executor stage of
     ExecOneShot \<Rightarrow> StageEfficient (sac_max_total_tokens stage)
   | ExecLoop \<Rightarrow> StageHigherQuality (sac_max_total_tokens stage) (sac_max_turns stage) (sac_execution_deadline_seconds stage))"

definition verified_execution :: "stage_agent_config \<Rightarrow> verified_stage_execution_settings" where
  "verified_execution stage = (case sac_executor stage of
     ExecOneShot \<Rightarrow> VerifiedEfficient (sac_max_total_tokens stage)
   | ExecLoop \<Rightarrow> VerifiedHigherQuality (Some (verifier_enabled stage True)) (sac_max_total_tokens stage)
       (sac_max_turns stage) (sac_execution_deadline_seconds stage))"

fun raw_extraction_execution :: "stage_execution_settings \<Rightarrow> stage_agent_config" where
  "raw_extraction_execution (StageEfficient cap) = stage_agent_config_default\<lparr>sac_max_total_tokens := cap\<rparr>"
| "raw_extraction_execution (StageHigherQuality cap turns deadline) =
     stage_agent_config_default\<lparr>sac_executor := ExecLoop, sac_max_total_tokens := cap, sac_max_turns := turns,
       sac_execution_deadline_seconds := deadline\<rparr>"

fun raw_verified_execution :: "verified_stage_execution_settings \<Rightarrow> stage_agent_config" where
  "raw_verified_execution (VerifiedEfficient cap) = stage_agent_config_default\<lparr>sac_max_total_tokens := cap\<rparr>"
| "raw_verified_execution (VerifiedHigherQuality verifier cap turns deadline) =
     \<lparr>sac_executor = ExecLoop, sac_verifier = verifier, sac_max_turns = turns, sac_max_total_tokens = cap,
       sac_execution_deadline_seconds = deadline\<rparr>"

definition custom_settings :: "tribal_config \<Rightarrow> custom_processing_settings" where
  "custom_settings c =
     \<lparr>cps_extraction = \<lparr>ess_model = stage_model (ifc_extraction (tc_inference c)),
        ess_execution = extraction_execution (agc_extraction (tc_agents c))\<rparr>,
      cps_triage = \<lparr>vss_model = stage_model (ifc_triage (tc_inference c)),
        vss_execution = verified_execution (agc_triage (tc_agents c))\<rparr>,
      cps_relation = \<lparr>vss_model = stage_model (ifc_relation (tc_inference c)),
        vss_execution = verified_execution (agc_relation (tc_agents c))\<rparr>\<rparr>"

definition processing_profile_of :: "tribal_config \<Rightarrow> processing_profile" where
  "processing_profile_of c =
     (case preset_model (tc_inference c) (tc_agents c) ExecOneShot of
        Some model \<Rightarrow> Efficient model
      | None \<Rightarrow> (case preset_model (tc_inference c) (tc_agents c) ExecLoop of
          Some model \<Rightarrow> HigherQuality model
        | None \<Rightarrow> Custom (custom_settings c)))"

fun apply_processing_profile :: "processing_profile \<Rightarrow> tribal_config \<Rightarrow> tribal_config" where
  "apply_processing_profile (Efficient model) c =
     c\<lparr>tc_inference := preset_inference model, tc_agents := preset_agents ExecOneShot\<rparr>"
| "apply_processing_profile (HigherQuality model) c =
     c\<lparr>tc_inference := preset_inference model, tc_agents := preset_agents ExecLoop\<rparr>"
| "apply_processing_profile (Custom settings) c =
     c\<lparr>tc_inference := \<lparr>ifc_extraction = raw_stage_model (ess_model (cps_extraction settings)),
          ifc_triage = raw_stage_model (vss_model (cps_triage settings)),
          ifc_relation = raw_stage_model (vss_model (cps_relation settings))\<rparr>,
        tc_agents := \<lparr>agc_extraction = raw_extraction_execution (ess_execution (cps_extraction settings)),
          agc_triage = raw_verified_execution (vss_execution (cps_triage settings)),
          agc_relation = raw_verified_execution (vss_execution (cps_relation settings))\<rparr>\<rparr>"

section \<open>Reading a profile back\<close>

lemma raw_stage_model_inverse [simp]: "raw_stage_model (stage_model s) = s" "stage_model (raw_stage_model m) = m"
  by (simp_all add: raw_stage_model_def stage_model_def)

text \<open>What an agent section means to its stage: the executor, the token cap, and under
  the loop the verifier, the turn cap and the deadline.\<close>

lemma raw_extraction_execution_inverse [simp]:
  "extraction_execution (raw_extraction_execution e) = e"
  by (cases e) (simp_all add: extraction_execution_def stage_agent_config_default_def)

lemma raw_verified_execution_inverse [simp]:
  "verified_execution (raw_verified_execution (verified_execution s)) = verified_execution s"
  by (simp add: verified_execution_def verifier_enabled_def stage_agent_config_default_def split: executor_choice.split)

lemma preset_model_Some:
  "preset_model i a x = Some m \<longleftrightarrow> i = preset_inference m \<and> a = preset_agents x"
  by (cases i; cases a; cases "ifc_extraction i"; cases "ifc_triage i"; cases "ifc_relation i";
      cases "agc_extraction a"; cases "agc_triage a"; cases "agc_relation a"; cases m)
     (auto simp: preset_model_def preset_inference_def preset_agents_def stage_agent_config_default_def Let_def)

text \<open>Writing back the profile that was read leaves the settings in force as they were.\<close>

lemma profile_keeps_settings:
  "custom_settings (apply_processing_profile (processing_profile_of c) c) = custom_settings c"
proof (cases "preset_model (tc_inference c) (tc_agents c) ExecOneShot")
  case (Some m)
  then have "tc_inference c = preset_inference m" "tc_agents c = preset_agents ExecOneShot"
    by (simp_all add: preset_model_Some)
  then show ?thesis using Some by (simp add: processing_profile_of_def custom_settings_def)
next
  case None
  show ?thesis
  proof (cases "preset_model (tc_inference c) (tc_agents c) ExecLoop")
    case (Some m)
    then have "tc_inference c = preset_inference m" "tc_agents c = preset_agents ExecLoop"
      by (simp_all add: preset_model_Some)
    then show ?thesis using None Some by (simp add: processing_profile_of_def custom_settings_def)
  next
    case none: None
    show ?thesis by (simp add: processing_profile_of_def None none custom_settings_def)
  qed
qed

lemma apply_processing_profile_frame:
  "tc_worker (apply_processing_profile p c) = tc_worker c"
  "tc_connections (apply_processing_profile p c) = tc_connections c"
  "tc_init (apply_processing_profile p c) = tc_init c"
  by (cases p; simp)+

text \<open>Applying a preset reads back as that preset, and a custom profile as itself once
  its verifiers are resolved, unless it spells out a preset.\<close>

lemma preset_reads_back:
  "processing_profile_of (apply_processing_profile (Efficient m) c) = Efficient m"
  "processing_profile_of (apply_processing_profile (HigherQuality m) c) = HigherQuality m"
proof -
  have one: "preset_model (preset_inference m) (preset_agents x) x = Some m" for x
    by (simp add: preset_model_Some)
  have two: "preset_model (preset_inference m) (preset_agents ExecLoop) ExecOneShot = None"
    by (auto simp: preset_model_def preset_agents_def Let_def)
  show "processing_profile_of (apply_processing_profile (Efficient m) c) = Efficient m"
    "processing_profile_of (apply_processing_profile (HigherQuality m) c) = HigherQuality m"
    using one two by (simp_all add: processing_profile_of_def)
qed

end
