(* ===== verification/ConfigDoc.thy ===== *)
theory ConfigDoc
  imports ConfigSections BTree "HOL-Library.Sublist"
begin

text \<open>
  Configuration documents: JSON trees addressed by dotted keys
  (\<open>tribal-config/src/operations.rs\<close>), redaction of their secrets
  (\<open>tribal-config/src/redact.rs\<close>), and the document a configuration serialises to
  (the derived \<open>Serialize\<close> of \<open>tribal-config/src/sections/*\<close>). An object keeps its
  members in key order, as the map behind it does. A path is the list of a key's
  segments.
\<close>

section \<open>Dotted keys\<close>

fun split_dots :: "string \<Rightarrow> string list" where
  "split_dots [] = [[]]"
| "split_dots (c # cs) =
     (if c = CHR ''.'' then [] # split_dots cs
      else (case split_dots cs of s # ss \<Rightarrow> (c # s) # ss | [] \<Rightarrow> [[c]]))"

fun join_dots :: "string list \<Rightarrow> string" where
  "join_dots [] = []"
| "join_dots [s] = s"
| "join_dots (s # t # ss) = s @ ''.'' @ join_dots (t # ss)"

lemma split_dots_nonempty [simp]: "split_dots x \<noteq> []"
  by (induction x) (auto split: list.split)

lemma join_split_dots [simp]: "join_dots (split_dots x) = x"
proof (induction x)
  case (Cons c cs)
  obtain s ss where "split_dots cs = s # ss" by (cases "split_dots cs") auto
  then show ?case using Cons by (cases ss) auto
qed simp

lemma split_dots_no_dot: "s \<in> set (split_dots x) \<Longrightarrow> CHR ''.'' \<notin> set s"
proof (induction x arbitrary: s)
  case (Cons c cs)
  obtain t ts where "split_dots cs = t # ts" by (cases "split_dots cs") auto
  then show ?case using Cons by (auto split: if_splits)
qed simp

lemma join_dots_append: "p \<noteq> [] \<Longrightarrow> q \<noteq> [] \<Longrightarrow> join_dots (p @ q) = join_dots p @ ''.'' @ join_dots q"
proof (induction p rule: join_dots.induct)
  case (2 s)
  then show ?case by (cases q) auto
qed auto

lemma split_dots_plain [simp]: "CHR ''.'' \<notin> set x \<Longrightarrow> split_dots x = [x]"
  by (induction x) auto

lemma split_dots_append: "split_dots (x @ CHR ''.'' # y) = split_dots x @ split_dots y"
proof (induction x)
  case (Cons c cs)
  obtain t ts where "split_dots cs = t # ts" by (cases "split_dots cs") auto
  then show ?case using Cons by auto
qed simp

text \<open>One path extends another exactly when the keys do, up to a dot.\<close>

lemma prefix_split_dots:
  assumes "prefix (split_dots a) (split_dots b)"
  shows "b = a \<or> prefix (a @ ''.'') b"
proof -
  obtain r where r: "split_dots b = split_dots a @ r" using assms by (auto simp: prefix_def)
  have "b = join_dots (split_dots a @ r)" using r by (metis join_split_dots)
  then show ?thesis
    by (cases "r = []") (simp_all add: join_dots_append)
qed

lemma split_dots_inject: "split_dots a = split_dots b \<Longrightarrow> a = b"
  by (metis join_split_dots)

section \<open>Documents\<close>

fun doc_lookup :: "string list \<Rightarrow> json \<Rightarrow> json option" where
  "doc_lookup [] j = Some j"
| "doc_lookup (k # ks) j = Option.bind (json_get j k) (doc_lookup ks)"

definition lookup :: "json \<Rightarrow> string \<Rightarrow> json option" where
  "lookup root key = doc_lookup (split_dots key) root"

fun doc_insert :: "string list \<Rightarrow> json \<Rightarrow> json \<Rightarrow> json option" where
  "doc_insert [] v j = None"
| "doc_insert [k] v (JObj kvs) = Some (JObj (bt_insert k v kvs))"
| "doc_insert (k # k' # ks) v (JObj kvs) =
     map_option (\<lambda>x. JObj (bt_insert k x kvs))
       (doc_insert (k' # ks) v (case map_of kvs k of None \<Rightarrow> JObj [] | Some x \<Rightarrow> x))"
| "doc_insert _ v _ = None"

datatype doc_error = NonObject string

definition apply_value :: "json \<Rightarrow> string \<Rightarrow> json \<Rightarrow> doc_error + json" where
  "apply_value root key v =
     (case doc_insert (split_dots key) v root of None \<Rightarrow> Inl (NonObject key) | Some r \<Rightarrow> Inr r)"

fun doc_wf :: "json \<Rightarrow> bool" where
  "doc_wf (JObj kvs) \<longleftrightarrow> bt_wf kvs \<and> (\<forall>(k, v) \<in> set kvs. doc_wf v)"
| "doc_wf (JArr xs) \<longleftrightarrow> (\<forall>x \<in> set xs. doc_wf x)"
| "doc_wf _ \<longleftrightarrow> True"

lemma doc_wf_get: "doc_wf j \<Longrightarrow> json_get j k = Some v \<Longrightarrow> doc_wf v"
  by (cases j) (auto dest: map_of_SomeD)

lemma doc_insert_wf:
  "doc_insert p v j = Some r \<Longrightarrow> doc_wf j \<Longrightarrow> doc_wf v \<Longrightarrow> doc_wf r"
proof (induction p v j arbitrary: r rule: doc_insert.induct)
  case (2 k v kvs)
  then show ?case by (auto dest!: bt_insert_elem)
next
  case (3 k k' ks v kvs)
  let ?x = "case map_of kvs k of None \<Rightarrow> JObj [] | Some x \<Rightarrow> x"
  obtain x where x: "doc_insert (k' # ks) v ?x = Some x" "r = JObj (bt_insert k x kvs)"
    using 3(2) by auto
  have "doc_wf ?x" using 3(3) by (auto split: option.split dest: map_of_SomeD)
  then have "doc_wf x" using 3(1) [OF x(1)] 3(4) by simp
  then show ?case using 3(3) x(2) by (auto dest!: bt_insert_elem)
qed simp_all

lemma doc_insert_same: "doc_insert p v j = Some r \<Longrightarrow> doc_wf j \<Longrightarrow> doc_lookup p r = Some v"
proof (induction p v j arbitrary: r rule: doc_insert.induct)
  case (3 k k' ks v kvs)
  let ?x = "case map_of kvs k of None \<Rightarrow> JObj [] | Some x \<Rightarrow> x"
  obtain x where x: "doc_insert (k' # ks) v ?x = Some x" "r = JObj (bt_insert k x kvs)"
    using 3(2) by auto
  have "doc_wf ?x" using 3(3) by (auto split: option.split dest: map_of_SomeD)
  then have "doc_lookup (k' # ks) x = Some v" using 3(1) [OF x(1)] by simp
  then show ?case using x(2) 3(3) by simp
qed simp_all

lemma doc_insert_frame:
  "doc_insert p v j = Some r \<Longrightarrow> doc_wf j \<Longrightarrow> \<not> prefix p q \<Longrightarrow> \<not> prefix q p \<Longrightarrow>
   doc_lookup q r = doc_lookup q j"
proof (induction p v j arbitrary: r q rule: doc_insert.induct)
  case (2 k v kvs)
  then show ?case by (cases q) auto
next
  case (3 k k' ks v kvs)
  let ?x = "case map_of kvs k of None \<Rightarrow> JObj [] | Some x \<Rightarrow> x"
  obtain x where x: "doc_insert (k' # ks) v ?x = Some x" "r = JObj (bt_insert k x kvs)"
    using 3(2) by auto
  obtain l ls where q: "q = l # ls" using 3(5) by (cases q) auto
  show ?case
  proof (cases "l = k")
    case True
    have "doc_wf ?x" using 3(3) by (auto split: option.split dest: map_of_SomeD)
    moreover have "\<not> prefix (k' # ks) ls" "\<not> prefix ls (k' # ks)" using 3(4,5) q True by auto
    ultimately have "doc_lookup ls x = doc_lookup ls ?x" using 3(1) [OF x(1)] by blast
    moreover have "ls \<noteq> []" using \<open>\<not> prefix ls (k' # ks)\<close> by auto
    ultimately show ?thesis using x(2) 3(3) q True
      by (cases ls) (auto split: option.splits)
  next
    case False
    then show ?thesis using x(2) 3(3) q by simp
  qed
qed simp_all

section \<open>The path laws as an interface\<close>

text \<open>What a patch needs of a tree addressed by paths: a successful insertion is read
  back, and it leaves every path apart from it as it was.\<close>

locale path_store =
  fixes find_at :: "'k list \<Rightarrow> 'd \<Rightarrow> 'v option"
    and put_at :: "'k list \<Rightarrow> 'v \<Rightarrow> 'd \<Rightarrow> 'd option"
    and good :: "'d \<Rightarrow> bool"
    and good_value :: "'v \<Rightarrow> bool"
  assumes put_good: "put_at p v d = Some d' \<Longrightarrow> good d \<Longrightarrow> good_value v \<Longrightarrow> good d'"
    and put_same: "put_at p v d = Some d' \<Longrightarrow> good d \<Longrightarrow> find_at p d' = Some v"
    and put_frame: "put_at p v d = Some d' \<Longrightarrow> good d \<Longrightarrow> \<not> prefix p q \<Longrightarrow> \<not> prefix q p \<Longrightarrow>
      find_at q d' = find_at q d"
begin

fun put_all :: "('k list \<times> 'v) list \<Rightarrow> 'd \<Rightarrow> 'd option" where
  "put_all [] d = Some d"
| "put_all ((p, v) # pvs) d = Option.bind (put_at p v d) (put_all pvs)"

definition apart :: "'k list \<Rightarrow> 'k list \<Rightarrow> bool" where
  "apart p q \<longleftrightarrow> \<not> prefix p q \<and> \<not> prefix q p"

lemma put_all_good: "put_all pvs d = Some d' \<Longrightarrow> good d \<Longrightarrow> \<forall>(p, v) \<in> set pvs. good_value v \<Longrightarrow> good d'"
proof (induction pvs arbitrary: d)
  case (Cons e pvs)
  then show ?case
    by (cases e) (use put_good in \<open>auto simp: Option.bind_eq_Some_conv\<close>)
qed simp

lemma put_all_frame:
  "put_all pvs d = Some d' \<Longrightarrow> good d \<Longrightarrow> \<forall>(p, v) \<in> set pvs. good_value v \<Longrightarrow>
   \<forall>(p, v) \<in> set pvs. apart p q \<Longrightarrow> find_at q d' = find_at q d"
proof (induction pvs arbitrary: d)
  case (Cons e pvs)
  obtain p v where e: "e = (p, v)" by force
  obtain d1 where d1: "put_at p v d = Some d1" "put_all pvs d1 = Some d'"
    using Cons.prems(1) by (auto simp: e Option.bind_eq_Some_conv)
  have "find_at q d1 = find_at q d"
    using put_frame [OF d1(1) Cons.prems(2)] Cons.prems(4) by (auto simp: e apart_def)
  moreover have "find_at q d' = find_at q d1"
    using Cons.IH [OF d1(2)] put_good [OF d1(1) Cons.prems(2)] Cons.prems(3,4) by (auto simp: e)
  ultimately show ?case by simp
qed simp

text \<open>Insertions at pairwise apart paths are all read back.\<close>

lemma put_all_same:
  "put_all pvs d = Some d' \<Longrightarrow> good d \<Longrightarrow> \<forall>(p, v) \<in> set pvs. good_value v \<Longrightarrow>
   sorted_wrt (\<lambda>(p, v) (q, w). apart p q) pvs \<Longrightarrow> (p, v) \<in> set pvs \<Longrightarrow> find_at p d' = Some v"
proof (induction pvs arbitrary: d)
  case (Cons e pvs)
  obtain k w where e: "e = (k, w)" by force
  obtain d1 where d1: "put_at k w d = Some d1" "put_all pvs d1 = Some d'"
    using Cons.prems(1) by (auto simp: e Option.bind_eq_Some_conv)
  have good: "good d1" using put_good [OF d1(1) Cons.prems(2)] Cons.prems(3) by (auto simp: e)
  show ?case
  proof (cases "(p, v) = (k, w)")
    case True
    then have "find_at p d1 = Some v" using put_same [OF d1(1) Cons.prems(2)] by simp
    moreover have "\<forall>(q, u) \<in> set pvs. apart q p" using Cons.prems(4) True by (auto simp: e apart_def)
    ultimately show ?thesis using put_all_frame [OF d1(2) good] Cons.prems(3) by (auto simp: e)
  next
    case False
    then show ?thesis using Cons.IH [OF d1(2) good] Cons.prems(3-5) by (auto simp: e)
  qed
qed simp

end

interpretation doc: path_store doc_lookup doc_insert doc_wf doc_wf
  by unfold_locales (auto intro: doc_insert_wf doc_insert_same doc_insert_frame)

section \<open>Redaction\<close>

definition REDACTED :: string where
  "REDACTED = ''********''"

fun doc_update :: "string list \<Rightarrow> (json \<Rightarrow> json) \<Rightarrow> json \<Rightarrow> json" where
  "doc_update [] f j = f j"
| "doc_update (k # ks) f (JObj kvs) = JObj (map (\<lambda>(n, v). (n, if n = k then doc_update ks f v else v)) kvs)"
| "doc_update (k # ks) f j = j"

fun map_members :: "(json \<Rightarrow> json) \<Rightarrow> json \<Rightarrow> json" where
  "map_members f (JObj kvs) = JObj (map (\<lambda>(n, v). (n, f v)) kvs)"
| "map_members f j = j"

fun redact_leaf :: "json \<Rightarrow> json" where
  "redact_leaf JNull = JNull"
| "redact_leaf (JObj kvs) = JObj kvs"
| "redact_leaf (JArr xs) = JArr xs"
| "redact_leaf _ = JStr REDACTED"

datatype secret_field = SecretDatabaseUrl

definition secret_fields_all :: "secret_field list" where
  "secret_fields_all = [SecretDatabaseUrl]"

fun secret_field_path :: "secret_field \<Rightarrow> string" where
  "secret_field_path SecretDatabaseUrl = ''database.url''"

definition redact_path :: "string \<Rightarrow> json \<Rightarrow> json" where
  "redact_path path = doc_update (split_dots path) redact_leaf"

definition redact_provider_connections :: "json \<Rightarrow> json" where
  "redact_provider_connections =
     doc_update [''provider_connections''] (map_members (doc_update [''api_key''] redact_leaf))"

definition redact_secrets :: "json \<Rightarrow> json" where
  "redact_secrets doc =
     redact_provider_connections (fold (\<lambda>f. redact_path (secret_field_path f)) secret_fields_all doc)"

text \<open>The keys whose values read back redacted.\<close>

definition count_dots :: "string \<Rightarrow> nat" where
  "count_dots key = length (filter (\<lambda>c. c = CHR ''.'') key)"

definition is_secret_key :: "string \<Rightarrow> bool" where
  "is_secret_key key \<longleftrightarrow>
     list_ex (\<lambda>f. secret_field_path f = key) secret_fields_all \<or>
     (prefix ''provider_connections.'' key \<and> suffix ''.api_key'' key \<and> count_dots key = 2)"

section \<open>The document of a configuration\<close>

text \<open>Fields in key order; an absent option is \<open>null\<close>, and so is a number JSON has no
  literal for. Fields marked \<open>serde(skip)\<close> are left out.\<close>

definition j_nat :: "nat \<Rightarrow> json" where
  "j_nat n = JNum (int n)"

definition j_f64 :: "f64 \<Rightarrow> json" where
  "j_f64 x = (case x of Finite r \<Rightarrow> JFloat r | _ \<Rightarrow> JNull)"

fun executor_as_str :: "executor_choice \<Rightarrow> string" where
  "executor_as_str ExecOneShot = ''one_shot''"
| "executor_as_str ExecLoop = ''loop''"

fun log_format_as_str :: "log_format \<Rightarrow> string" where
  "log_format_as_str LogJson = ''json''"
| "log_format_as_str LogPretty = ''pretty''"

fun log_output_as_str :: "log_output \<Rightarrow> string" where
  "log_output_as_str LogStderr = ''stderr''"
| "log_output_as_str LogFile = ''file''"

fun file_rotation_as_str :: "file_rotation \<Rightarrow> string" where
  "file_rotation_as_str RotateDaily = ''daily''"
| "file_rotation_as_str RotateHourly = ''hourly''"
| "file_rotation_as_str RotateNever = ''never''"

definition server_to_value :: "server_config \<Rightarrow> json" where
  "server_to_value s = JObj
     [(''bind_address'', json_opt JStr (sv_bind_address s)),
      (''job_state_hard_ttl_seconds'', j_nat (sv_job_state_hard_ttl_seconds s)),
      (''job_state_ttl_seconds'', j_nat (sv_job_state_ttl_seconds s)),
      (''shutdown_deadline_ms'', j_nat (sv_shutdown_deadline_ms s)),
      (''sse'', JObj
        [(''idle_timeout_ms'', j_nat (sse_idle_timeout_ms (sv_sse s))),
         (''keepalive_interval_ms'', j_nat (sse_keepalive_interval_ms (sv_sse s))),
         (''max_connection_age_ms'', j_nat (sse_max_connection_age_ms (sv_sse s)))]),
      (''transport'', JStr (transport_as_str (sv_transport s)))]"

definition database_to_value :: "database_config \<Rightarrow> json" where
  "database_to_value d = JObj
     [(''acquire_timeout_ms'', j_nat (dbc_acquire_timeout_ms d)),
      (''max_connect_attempts'', j_nat (dbc_max_connect_attempts d)),
      (''pool_mcp_max_connections'', j_nat (dbc_pool_mcp_max_connections d)),
      (''pool_worker_max_connections'', j_nat (dbc_pool_worker_max_connections d)),
      (''statement_timeout_mcp_ms'', j_nat (dbc_statement_timeout_mcp_ms d)),
      (''statement_timeout_worker_ms'', j_nat (dbc_statement_timeout_worker_ms d)),
      (''url'', JStr (dbc_url d))]"

definition oauth_to_value :: "oauth_config \<Rightarrow> json" where
  "oauth_to_value a = JObj
     [(''access_token_ttl_hours'', j_nat (oac_access_token_ttl_hours a)),
      (''authorization_code_ttl_seconds'', j_nat (oac_authorization_code_ttl_seconds a)),
      (''issuer_url'', json_opt JStr (oac_issuer_url a)),
      (''resource_url'', json_opt JStr (oac_resource_url a))]"

definition worker_to_value :: "worker_config \<Rightarrow> json" where
  "worker_to_value w = JObj
     [(''heartbeat_interval_ms'', j_nat (wkc_heartbeat_interval_ms w)),
      (''max_candidates_per_job'', j_nat (wkc_max_candidates_per_job w)),
      (''max_concurrent_tasks'', j_nat (wkc_max_concurrent_tasks w)),
      (''poll_interval_ms'', j_nat (wkc_poll_interval_ms w)),
      (''reclaim_interval_ms'', j_nat (wkc_reclaim_interval_ms w)),
      (''tag_similarity_threshold'', j_f64 (wkc_tag_similarity_threshold w)),
      (''task_max_retries'', j_nat (wkc_task_max_retries w)),
      (''task_timeout_ms'', j_nat (wkc_task_timeout_ms w)),
      (''triage_search_limit'', j_nat (wkc_triage_search_limit w))]"

definition stage_agent_to_value :: "stage_agent_config \<Rightarrow> json" where
  "stage_agent_to_value s = JObj
     [(''execution_deadline_seconds'', json_opt j_nat (sac_execution_deadline_seconds s)),
      (''executor'', JStr (executor_as_str (sac_executor s))),
      (''max_total_tokens'', json_opt j_nat (sac_max_total_tokens s)),
      (''max_turns'', json_opt j_nat (sac_max_turns s)),
      (''verifier'', json_opt JBool (sac_verifier s))]"

definition agents_to_value :: "agents_config \<Rightarrow> json" where
  "agents_to_value a = JObj
     [(''extraction'', stage_agent_to_value (agc_extraction a)),
      (''relation'', stage_agent_to_value (agc_relation a)),
      (''triage'', stage_agent_to_value (agc_triage a))]"

definition init_to_value :: "init_config \<Rightarrow> json" where
  "init_to_value i = JObj [(''embedding'', JObj
     [(''connection'', JStr (iec_connection (inc_embedding i))),
      (''dimensions'', json_opt j_nat (iec_dimensions (inc_embedding i))),
      (''model'', JStr (iec_model (inc_embedding i)))])]"

fun connection_to_value :: "provider_connection_config \<Rightarrow> json" where
  "connection_to_value (OllamaConnection b) = JObj [(''base_url'', JStr b), (''provider'', JStr ''ollama'')]"
| "connection_to_value (AnthropicConnection b k) =
     JObj [(''api_key'', json_opt JStr k), (''base_url'', JStr b), (''provider'', JStr ''anthropic'')]"
| "connection_to_value (OpenAiConnection b k) =
     JObj [(''api_key'', json_opt JStr k), (''base_url'', JStr b), (''provider'', JStr ''openai'')]"
| "connection_to_value PlatformConnection = JObj [(''provider'', JStr ''platform'')]"

definition connections_to_value :: "provider_connections \<Rightarrow> json" where
  "connections_to_value cs = JObj (map (\<lambda>(n, c). (n, connection_to_value c)) cs)"

definition stage_inference_to_value :: "stage_inference_config \<Rightarrow> json" where
  "stage_inference_to_value s = JObj
     [(''connection'', JStr (sic_connection s)), (''max_tokens'', json_opt j_nat (sic_max_tokens s)),
      (''model'', JStr (sic_model s)), (''temperature'', json_opt j_f64 (sic_temperature s))]"

definition inference_to_value :: "inference_config \<Rightarrow> json" where
  "inference_to_value i = JObj
     [(''extraction'', stage_inference_to_value (ifc_extraction i)),
      (''relation'', stage_inference_to_value (ifc_relation i)),
      (''triage'', stage_inference_to_value (ifc_triage i))]"

definition limits_to_value :: "limits_config \<Rightarrow> json" where
  "limits_to_value l = JObj [(''providers'', JObj (bt_of_list (map (\<lambda>(p, x). (provider_kind_as_str p, JObj
     [(''max_in_flight'', j_nat (plc_max_in_flight x)),
      (''request_timeout_ms'', j_nat (plc_request_timeout_ms x))])) l)))]"

fun prompts_to_value :: "prompt_source \<Rightarrow> json" where
  "prompts_to_value PromptsEmbedded = JObj [(''source'', JObj [(''kind'', JStr ''embedded'')])]"
| "prompts_to_value (PromptsDisk dir hot) = JObj [(''source'', JObj
     [(''directory'', JStr dir), (''hot_reload'', JBool hot), (''kind'', JStr ''disk'')])]"

definition discovery_to_value :: "discovery_config \<Rightarrow> json" where
  "discovery_to_value d = JObj
     [(''default_limit'', j_nat (dsc_default_limit d)), (''max_limit'', j_nat (dsc_max_limit d)),
      (''overfetch_multiplier'', j_nat (dsc_overfetch_multiplier d)),
      (''similarity_threshold'', j_f64 (dsc_similarity_threshold d))]"

definition exploration_to_value :: "exploration_config \<Rightarrow> json" where
  "exploration_to_value e = JObj
     [(''default_depth'', j_nat (exc_default_depth e)), (''default_limit'', j_nat (exc_default_limit e)),
      (''max_depth'', j_nat (exc_max_depth e)), (''max_limit'', j_nat (exc_max_limit e))]"

definition logging_to_value :: "logging_config \<Rightarrow> json" where
  "logging_to_value l = JObj
     [(''file_directory'', JStr (lgc_file_directory l)),
      (''file_rotation'', JStr (file_rotation_as_str (lgc_file_rotation l))),
      (''format'', JStr (log_format_as_str (lgc_format l))),
      (''include_llm_content'', JBool (lgc_include_llm_content l)), (''level'', JStr (lgc_level l)),
      (''output'', JStr (log_output_as_str (lgc_output l)))]"

definition telemetry_to_value :: "telemetry_config \<Rightarrow> json" where
  "telemetry_to_value t = JObj
     [(''console_export'', JBool (tlc_console_export t)), (''enabled'', JBool (tlc_enabled t)),
      (''file_directory'', JStr (tlc_file_directory t)), (''file_export'', JBool (tlc_file_export t)),
      (''file_rotation'', JStr (file_rotation_as_str (tlc_file_rotation t))),
      (''otlp_endpoint'', json_opt JStr (tlc_otlp_endpoint t)),
      (''otlp_protocol'', JStr (tlc_otlp_protocol t)), (''service_name'', JStr (tlc_service_name t))]"

definition config_to_value :: "tribal_config \<Rightarrow> json" where
  "config_to_value c = JObj
     [(''agents'', agents_to_value (tc_agents c)),
      (''auth'', JObj [(''token_ttl_hours'', j_nat (auc_token_ttl_hours (tc_auth c)))]),
      (''database'', database_to_value (tc_database c)),
      (''discovery'', discovery_to_value (tc_discovery c)),
      (''exploration'', exploration_to_value (tc_exploration c)),
      (''inference'', inference_to_value (tc_inference c)),
      (''init'', init_to_value (tc_init c)),
      (''limits'', limits_to_value (tc_limits c)),
      (''logging'', logging_to_value (tc_logging c)),
      (''oauth'', oauth_to_value (tc_oauth c)),
      (''prompts'', prompts_to_value (tc_prompts c)),
      (''provider_connections'', connections_to_value (tc_connections c)),
      (''server'', server_to_value (tc_server c)),
      (''telemetry'', telemetry_to_value (tc_telemetry c)),
      (''version'', JStr (tc_version c)),
      (''worker'', worker_to_value (tc_worker c))]"

text \<open>The read surface: the document with every secret masked, and one key of it.\<close>

definition redacted_document :: "tribal_config \<Rightarrow> json" where
  "redacted_document c = redact_secrets (config_to_value c)"

definition config_get_all :: "tribal_config \<Rightarrow> json" where
  "config_get_all c = redacted_document c"

definition config_get :: "tribal_config \<Rightarrow> string \<Rightarrow> string + json" where
  "config_get c key = (case lookup (redacted_document c) key of None \<Rightarrow> Inl key | Some v \<Rightarrow> Inr v)"

section \<open>Reads hide the secrets\<close>

text \<open>A configuration with every secret replaced: the database URL and each key that is
  present.\<close>

fun mask_connection :: "provider_connection_config \<Rightarrow> provider_connection_config" where
  "mask_connection (AnthropicConnection b k) = AnthropicConnection b (map_option (\<lambda>_. REDACTED) k)"
| "mask_connection (OpenAiConnection b k) = OpenAiConnection b (map_option (\<lambda>_. REDACTED) k)"
| "mask_connection c = c"

definition mask_secrets :: "tribal_config \<Rightarrow> tribal_config" where
  "mask_secrets c = c\<lparr>tc_database := (tc_database c)\<lparr>dbc_url := REDACTED\<rparr>,
     tc_connections := map (\<lambda>(n, x). (n, mask_connection x)) (tc_connections c)\<rparr>"

lemma redact_connection:
  "doc_update [''api_key''] redact_leaf (connection_to_value x) = connection_to_value (mask_connection x)"
  by (cases x rule: connection_to_value.cases) (simp_all add: json_opt_def split: option.split)

lemma redacted_document_masks: "redacted_document c = config_to_value (mask_secrets c)"
  by (simp add: redacted_document_def redact_secrets_def redact_provider_connections_def redact_path_def
      secret_fields_all_def config_to_value_def mask_secrets_def database_to_value_def connections_to_value_def
      redact_connection case_prod_beta comp_def j_nat_def)

end
