(* ===== verification/ConfigSchema.thy ===== *)
theory ConfigSchema
  imports ConfigDoc
begin

text \<open>
  The metadata of the configuration's fields
  (\<open>tribal-config/src/config_schema.rs\<close>): which keys take effect live, at genesis or
  on restart, how prominently they are disclosed, and the group they belong to.
\<close>

datatype reload_class = Hot | GenesisOnly | RequiresRestart | Unclassified

datatype audience_tier = Primary | Standard | Advanced | Hidden | MachineOwned

definition RESTART_KEYS :: "string list" where
  "RESTART_KEYS = [
    ''agents.extraction.execution_deadline_seconds'', ''agents.extraction.executor'',
    ''agents.extraction.max_total_tokens'', ''agents.extraction.max_turns'',
    ''agents.extraction.verifier'', ''agents.relation.execution_deadline_seconds'',
    ''agents.relation.executor'', ''agents.relation.max_total_tokens'',
    ''agents.relation.max_turns'', ''agents.relation.verifier'',
    ''agents.triage.execution_deadline_seconds'', ''agents.triage.executor'',
    ''agents.triage.max_total_tokens'', ''agents.triage.max_turns'',
    ''agents.triage.verifier'', ''auth.token_ttl_hours'', ''database.acquire_timeout_ms'',
    ''database.max_connect_attempts'', ''database.pool_mcp_max_connections'',
    ''database.pool_worker_max_connections'', ''database.statement_timeout_mcp_ms'',
    ''database.statement_timeout_worker_ms'', ''database.url'', ''discovery.default_limit'',
    ''discovery.max_limit'', ''discovery.overfetch_multiplier'',
    ''discovery.similarity_threshold'', ''exploration.default_depth'',
    ''exploration.default_limit'', ''exploration.max_depth'', ''exploration.max_limit'',
    ''inference.extraction.connection'', ''inference.extraction.max_tokens'',
    ''inference.extraction.model'', ''inference.extraction.temperature'',
    ''inference.relation.connection'', ''inference.relation.max_tokens'',
    ''inference.relation.model'', ''inference.relation.temperature'',
    ''inference.triage.connection'', ''inference.triage.max_tokens'',
    ''inference.triage.model'', ''inference.triage.temperature'', ''logging.file_directory'',
    ''logging.file_rotation'', ''logging.format'', ''logging.include_llm_content'',
    ''logging.output'', ''oauth.access_token_ttl_hours'',
    ''oauth.authorization_code_ttl_seconds'', ''oauth.issuer_url'', ''oauth.resource_url'',
    ''prompts.source'', ''server.bind_address'', ''server.job_state_hard_ttl_seconds'',
    ''server.job_state_ttl_seconds'', ''server.shutdown_deadline_ms'',
    ''server.sse.idle_timeout_ms'', ''server.sse.keepalive_interval_ms'',
    ''server.sse.max_connection_age_ms'', ''server.transport'', ''telemetry.console_export'',
    ''telemetry.enabled'', ''telemetry.file_directory'', ''telemetry.file_export'',
    ''telemetry.file_rotation'', ''telemetry.otlp_endpoint'', ''telemetry.otlp_protocol'',
    ''telemetry.service_name'', ''version'', ''worker.heartbeat_interval_ms'',
    ''worker.max_candidates_per_job'', ''worker.max_concurrent_tasks'',
    ''worker.poll_interval_ms'', ''worker.reclaim_interval_ms'',
    ''worker.tag_similarity_threshold'', ''worker.task_max_retries'',
    ''worker.task_timeout_ms'', ''worker.triage_search_limit'']"

definition GENESIS_KEYS :: "string list" where
  "GENESIS_KEYS = [
    ''init.embedding.connection'', ''init.embedding.dimensions'', ''init.embedding.model'']"

definition HOT_KEYS :: "string list" where
  "HOT_KEYS = [
    ''logging.level'']"

definition GROUPS :: "string list" where
  "GROUPS = [
    ''connection'', ''models'', ''graph'', ''auth'', ''retrieval'', ''agents'', ''prompts'',
    ''logging'', ''telemetry'', ''server'', ''worker'']"

definition PRIMARY_KEYS :: "string list" where
  "PRIMARY_KEYS = [
    ''database.url'', ''inference.extraction.model'', ''inference.extraction.connection'',
    ''inference.relation.model'', ''inference.relation.connection'',
    ''inference.triage.model'', ''inference.triage.connection'', ''init.embedding.connection'',
    ''init.embedding.dimensions'', ''init.embedding.model'']"

definition STANDARD_KEYS :: "string list" where
  "STANDARD_KEYS = [
    ''auth.token_ttl_hours'', ''oauth.access_token_ttl_hours'',
    ''oauth.authorization_code_ttl_seconds'', ''oauth.issuer_url'', ''oauth.resource_url'']"

definition ADVANCED_KEYS :: "string list" where
  "ADVANCED_KEYS = [
    ''agents.extraction.execution_deadline_seconds'', ''agents.extraction.executor'',
    ''agents.extraction.max_total_tokens'', ''agents.extraction.max_turns'',
    ''agents.extraction.verifier'', ''agents.relation.execution_deadline_seconds'',
    ''agents.relation.executor'', ''agents.relation.max_total_tokens'',
    ''agents.relation.max_turns'', ''agents.relation.verifier'',
    ''agents.triage.execution_deadline_seconds'', ''agents.triage.executor'',
    ''agents.triage.max_total_tokens'', ''agents.triage.max_turns'',
    ''agents.triage.verifier'', ''discovery.default_limit'', ''discovery.max_limit'',
    ''exploration.default_depth'', ''exploration.default_limit'', ''exploration.max_depth'',
    ''exploration.max_limit'', ''inference.extraction.max_tokens'',
    ''inference.extraction.temperature'', ''inference.relation.max_tokens'',
    ''inference.relation.temperature'', ''inference.triage.max_tokens'',
    ''inference.triage.temperature'', ''logging.file_directory'', ''logging.file_rotation'',
    ''logging.format'', ''logging.include_llm_content'', ''logging.level'', ''logging.output'',
    ''prompts.source'', ''server.bind_address'', ''server.job_state_hard_ttl_seconds'',
    ''server.job_state_ttl_seconds'', ''server.shutdown_deadline_ms'',
    ''server.sse.idle_timeout_ms'', ''server.sse.keepalive_interval_ms'',
    ''server.sse.max_connection_age_ms'', ''telemetry.console_export'', ''telemetry.enabled'',
    ''telemetry.file_directory'', ''telemetry.file_export'', ''telemetry.file_rotation'',
    ''telemetry.otlp_endpoint'', ''telemetry.otlp_protocol'', ''telemetry.service_name'',
    ''worker.heartbeat_interval_ms'', ''worker.max_candidates_per_job'',
    ''worker.max_concurrent_tasks'', ''worker.poll_interval_ms'',
    ''worker.reclaim_interval_ms'', ''worker.tag_similarity_threshold'',
    ''worker.task_max_retries'', ''worker.task_timeout_ms'', ''worker.triage_search_limit'']"

definition HIDDEN_KEYS :: "string list" where
  "HIDDEN_KEYS = [
    ''database.acquire_timeout_ms'', ''database.max_connect_attempts'',
    ''database.pool_mcp_max_connections'', ''database.pool_worker_max_connections'',
    ''database.statement_timeout_mcp_ms'', ''database.statement_timeout_worker_ms'',
    ''discovery.overfetch_multiplier'', ''discovery.similarity_threshold'', ''server.transport'']"

definition MACHINE_OWNED_KEYS :: "string list" where
  "MACHINE_OWNED_KEYS = [
    ''version'']"

definition CONNECTION_GROUP_KEYS :: "string list" where
  "CONNECTION_GROUP_KEYS = [
    ''database.acquire_timeout_ms'', ''database.max_connect_attempts'',
    ''database.pool_mcp_max_connections'', ''database.pool_worker_max_connections'',
    ''database.statement_timeout_mcp_ms'', ''database.statement_timeout_worker_ms'',
    ''database.url'']"

definition MODELS_GROUP_KEYS :: "string list" where
  "MODELS_GROUP_KEYS = [
    ''inference.extraction.connection'', ''inference.extraction.max_tokens'',
    ''inference.extraction.model'', ''inference.extraction.temperature'',
    ''inference.relation.connection'', ''inference.relation.max_tokens'',
    ''inference.relation.model'', ''inference.relation.temperature'',
    ''inference.triage.connection'', ''inference.triage.max_tokens'',
    ''inference.triage.model'', ''inference.triage.temperature'']"

definition GRAPH_GROUP_KEYS :: "string list" where
  "GRAPH_GROUP_KEYS = [
    ''init.embedding.connection'', ''init.embedding.dimensions'', ''init.embedding.model'']"

definition AUTH_GROUP_KEYS :: "string list" where
  "AUTH_GROUP_KEYS = [
    ''auth.token_ttl_hours'', ''oauth.access_token_ttl_hours'',
    ''oauth.authorization_code_ttl_seconds'', ''oauth.issuer_url'', ''oauth.resource_url'']"

definition RETRIEVAL_GROUP_KEYS :: "string list" where
  "RETRIEVAL_GROUP_KEYS = [
    ''discovery.default_limit'', ''discovery.max_limit'', ''discovery.overfetch_multiplier'',
    ''discovery.similarity_threshold'', ''exploration.default_depth'',
    ''exploration.default_limit'', ''exploration.max_depth'', ''exploration.max_limit'']"

definition AGENTS_GROUP_KEYS :: "string list" where
  "AGENTS_GROUP_KEYS = [
    ''agents.extraction.execution_deadline_seconds'', ''agents.extraction.executor'',
    ''agents.extraction.max_total_tokens'', ''agents.extraction.max_turns'',
    ''agents.extraction.verifier'', ''agents.relation.execution_deadline_seconds'',
    ''agents.relation.executor'', ''agents.relation.max_total_tokens'',
    ''agents.relation.max_turns'', ''agents.relation.verifier'',
    ''agents.triage.execution_deadline_seconds'', ''agents.triage.executor'',
    ''agents.triage.max_total_tokens'', ''agents.triage.max_turns'', ''agents.triage.verifier'']"

definition PROMPTS_GROUP_KEYS :: "string list" where
  "PROMPTS_GROUP_KEYS = [
    ''prompts.source'']"

definition LOGGING_GROUP_KEYS :: "string list" where
  "LOGGING_GROUP_KEYS = [
    ''logging.file_directory'', ''logging.file_rotation'', ''logging.format'',
    ''logging.include_llm_content'', ''logging.level'', ''logging.output'']"

definition TELEMETRY_GROUP_KEYS :: "string list" where
  "TELEMETRY_GROUP_KEYS = [
    ''telemetry.console_export'', ''telemetry.enabled'', ''telemetry.file_directory'',
    ''telemetry.file_export'', ''telemetry.file_rotation'', ''telemetry.otlp_endpoint'',
    ''telemetry.otlp_protocol'', ''telemetry.service_name'']"

definition SERVER_GROUP_KEYS :: "string list" where
  "SERVER_GROUP_KEYS = [
    ''server.bind_address'', ''server.job_state_hard_ttl_seconds'',
    ''server.job_state_ttl_seconds'', ''server.shutdown_deadline_ms'',
    ''server.sse.idle_timeout_ms'', ''server.sse.keepalive_interval_ms'',
    ''server.sse.max_connection_age_ms'', ''server.transport'']"

definition WORKER_GROUP_KEYS :: "string list" where
  "WORKER_GROUP_KEYS = [
    ''worker.heartbeat_interval_ms'', ''worker.max_candidates_per_job'',
    ''worker.max_concurrent_tasks'', ''worker.poll_interval_ms'',
    ''worker.reclaim_interval_ms'', ''worker.tag_similarity_threshold'',
    ''worker.task_max_retries'', ''worker.task_timeout_ms'', ''worker.triage_search_limit'']"

definition reload_class_of :: "string \<Rightarrow> reload_class" where
  "reload_class_of path =
     (if path \<in> set HOT_KEYS then Hot
      else if path \<in> set GENESIS_KEYS then GenesisOnly
      else if path \<in> set RESTART_KEYS then RequiresRestart
      else Unclassified)"

definition audience_tier_of :: "string \<Rightarrow> audience_tier option" where
  "audience_tier_of path =
     (if path \<in> set PRIMARY_KEYS then Some Primary
      else if path \<in> set STANDARD_KEYS then Some Standard
      else if path \<in> set ADVANCED_KEYS then Some Advanced
      else if path \<in> set HIDDEN_KEYS then Some Hidden
      else if path \<in> set MACHINE_OWNED_KEYS then Some MachineOwned
      else None)"

definition config_group :: "string \<Rightarrow> string option" where
  "config_group path =
     (if path \<in> set CONNECTION_GROUP_KEYS then Some ''connection''
      else if path \<in> set MODELS_GROUP_KEYS then Some ''models''
      else if path \<in> set GRAPH_GROUP_KEYS then Some ''graph''
      else if path \<in> set AUTH_GROUP_KEYS then Some ''auth''
      else if path \<in> set RETRIEVAL_GROUP_KEYS then Some ''retrieval''
      else if path \<in> set AGENTS_GROUP_KEYS then Some ''agents''
      else if path \<in> set PROMPTS_GROUP_KEYS then Some ''prompts''
      else if path \<in> set LOGGING_GROUP_KEYS then Some ''logging''
      else if path \<in> set TELEMETRY_GROUP_KEYS then Some ''telemetry''
      else if path \<in> set SERVER_GROUP_KEYS then Some ''server''
      else if path \<in> set WORKER_GROUP_KEYS then Some ''worker''
      else if path \<in> set MACHINE_OWNED_KEYS then Some ''machine''
      else None)"

text \<open>A key that needs a restart is never reported live, and the lists do not overlap.\<close>

lemma restart_keys_never_hot: "k \<in> set RESTART_KEYS \<Longrightarrow> reload_class_of k = RequiresRestart"
proof -
  have "list_all (\<lambda>k. k \<notin> set HOT_KEYS \<and> k \<notin> set GENESIS_KEYS) RESTART_KEYS"
    by code_simp
  then show "k \<in> set RESTART_KEYS \<Longrightarrow> reload_class_of k = RequiresRestart"
    by (simp add: reload_class_of_def list_all_iff)
qed

end
