(* ===== verification/ConfigStore.thy ===== *)
theory ConfigStore
  imports ConfigValidation ConfigSchema
begin

text \<open>
  Operator writes over the resolved configuration
  (\<open>tribal-config/src/operations.rs\<close>, \<open>atomic_write.rs\<close>, the key names of
  \<open>env.rs\<close>): a proposed value is applied to the document of the resolved
  configuration, decoded and validated; only then is the file's own document changed
  and replaced as a whole.

  The decoder of documents and the YAML reader and printer are the fields of
  \<open>codec\<close>. What the file system does with one replacement is an argument.
\<close>

section \<open>Externals and the file\<close>

record codec =
  cd_from_value :: "json \<Rightarrow> tribal_config option"
  cd_parse :: "string \<Rightarrow> json option"
  cd_print :: "json \<Rightarrow> string option"

datatype config_file = FileAbsent | FileBytes string | FileUnreadable

text \<open>A replacement fails before the rename, succeeds, or fails to sync after it.\<close>

datatype replacement = NotReplaced | Replaced | ReplacedUnsynced

fun write_atomically :: "replacement \<Rightarrow> string \<Rightarrow> config_file \<Rightarrow> (unit + unit) \<times> config_file" where
  "write_atomically NotReplaced bytes f = (Inl (), f)"
| "write_atomically Replaced bytes f = (Inr (), FileBytes bytes)"
| "write_atomically ReplacedUnsynced bytes f = (Inl (), FileBytes bytes)"

section \<open>Outcomes\<close>

datatype write_effect = Live | Unchanged | NeedsRestart | Shadowed string

datatype violation_message = Diagnostic validation_error | PassesThroughNonObject | InvalidValue
  | WholeValidation diagnostics

record config_violation =
  cvl_key :: string
  cvl_message :: violation_message

datatype set_error = Rejected "config_violation list" | Unparseable | SetIo | Serialise

fun set_error_violations :: "set_error \<Rightarrow> config_violation list option" where
  "set_error_violations (Rejected vs) = Some vs"
| "set_error_violations Unparseable = None"
| "set_error_violations SetIo = None"
| "set_error_violations Serialise = None"

record persisted =
  pst_effect :: write_effect
  pst_document :: "string option"
  pst_config :: tribal_config

record persisted_patch =
  pp_effects :: "write_effect list"
  pp_document :: "string option"
  pp_config :: tribal_config

section \<open>Write effects\<close>

text \<open>Keys are lower-case ASCII.\<close>

definition to_ascii_uppercase :: "string \<Rightarrow> string" where
  "to_ascii_uppercase x = map (\<lambda>c. let n = of_char c :: nat in
     if 97 \<le> n \<and> n \<le> 122 then char_of (n - 32) else c) x"

definition env_var_for_path :: "string \<Rightarrow> string" where
  "env_var_for_path path = ''TRIBAL_'' @ concat (map (\<lambda>c. if c = CHR ''.'' then ''__'' else [c]) (to_ascii_uppercase path))"

definition ALIAS_ENV_VARS :: "(string \<times> string) list" where
  "ALIAS_ENV_VARS = [(''database.url'', ''TRIBAL_DATABASE_URL''), (''server.transport'', ''TRIBAL_TRANSPORT''),
     (''server.bind_address'', ''TRIBAL_BIND_ADDRESS''), (''logging.level'', ''TRIBAL_LOG'')]"

text \<open>The paths a command-line flag set; the test of the environment is an argument.\<close>

type_synonym cli_shadow = "string set"

fun collect_leaf_paths :: "string \<Rightarrow> json \<Rightarrow> string set" where
  "collect_leaf_paths pre (JObj kvs) =
     (\<Union>(k, v) \<in> set kvs. collect_leaf_paths (if pre = [] then k else pre @ ''.'' @ k) v)"
| "collect_leaf_paths pre JNull = {}"
| "collect_leaf_paths pre v = {pre}"

definition shadowed_by :: "(string \<Rightarrow> bool) \<Rightarrow> string \<Rightarrow> cli_shadow \<Rightarrow> string option" where
  "shadowed_by is_set key cli =
     (if key \<in> cli then Some ''a command-line flag''
      else (case map_of ALIAS_ENV_VARS key of
          Some v \<Rightarrow> if is_set v then Some v
            else if is_set (env_var_for_path key) then Some (env_var_for_path key) else None
        | None \<Rightarrow> if is_set (env_var_for_path key) then Some (env_var_for_path key) else None))"

fun effect_for_class :: "reload_class \<Rightarrow> write_effect" where
  "effect_for_class Hot = Live"
| "effect_for_class GenesisOnly = NeedsRestart"
| "effect_for_class RequiresRestart = NeedsRestart"
| "effect_for_class Unclassified = NeedsRestart"

definition write_effect_of :: "(string \<Rightarrow> bool) \<Rightarrow> string \<Rightarrow> cli_shadow \<Rightarrow> write_effect" where
  "write_effect_of is_set key cli =
     (case shadowed_by is_set key cli of Some source \<Rightarrow> Shadowed source
      | None \<Rightarrow> effect_for_class (reload_class_of key))"

section \<open>Validation of a proposed write\<close>

definition apply_to_config :: "codec \<Rightarrow> tribal_config \<Rightarrow> string \<Rightarrow> json \<Rightarrow> violation_message + tribal_config" where
  "apply_to_config cd config key v =
     (case apply_value (config_to_value config) key v of
        Inl _ \<Rightarrow> Inl PassesThroughNonObject
      | Inr tree \<Rightarrow> (case cd_from_value cd tree of None \<Rightarrow> Inl InvalidValue | Some c \<Rightarrow> Inr c))"

definition validated_candidate :: "codec \<Rightarrow> parsers \<Rightarrow> tribal_config \<Rightarrow> string \<Rightarrow> json
    \<Rightarrow> config_violation list + tribal_config" where
  "validated_candidate cd ps config key v =
     (case apply_to_config cd config key v of
        Inl m \<Rightarrow> Inl [\<lparr>cvl_key = key, cvl_message = m\<rparr>]
      | Inr candidate \<Rightarrow> (case validate ps candidate of
          Inr _ \<Rightarrow> Inr candidate
        | Inl ds \<Rightarrow> Inl (map (\<lambda>d. \<lparr>cvl_key = key, cvl_message = Diagnostic d\<rparr>) ds)))"

definition validate_write :: "codec \<Rightarrow> parsers \<Rightarrow> tribal_config \<Rightarrow> string \<Rightarrow> json \<Rightarrow> config_violation list" where
  "validate_write cd ps config key v =
     (case validated_candidate cd ps config key v of Inr _ \<Rightarrow> [] | Inl vs \<Rightarrow> vs)"

text \<open>Applying the changes of a patch in turn; the first that fails is named.\<close>

fun apply_changes :: "json \<Rightarrow> (string \<times> json) list \<Rightarrow> string + json" where
  "apply_changes tree [] = Inr tree"
| "apply_changes tree ((key, v) # changes) =
     (case apply_value tree key v of Inl _ \<Rightarrow> Inl key | Inr tree' \<Rightarrow> apply_changes tree' changes)"

definition validate_patch :: "codec \<Rightarrow> parsers \<Rightarrow> tribal_config \<Rightarrow> (string \<times> json) list \<Rightarrow> config_violation list" where
  "validate_patch cd ps config changes =
     (case apply_changes (config_to_value config) changes of
        Inl key \<Rightarrow> [\<lparr>cvl_key = key, cvl_message = PassesThroughNonObject\<rparr>]
      | Inr tree \<Rightarrow> (case cd_from_value cd tree of
          None \<Rightarrow> [\<lparr>cvl_key = [], cvl_message = InvalidValue\<rparr>]
        | Some candidate \<Rightarrow> (case validate ps candidate of
            Inr _ \<Rightarrow> []
          | Inl ds \<Rightarrow> concat (map (\<lambda>d. map (\<lambda>f. \<lparr>cvl_key = f, cvl_message = Diagnostic d\<rparr>) (error_fields d)) ds))))"

section \<open>Reading the file\<close>

definition parse_document :: "codec \<Rightarrow> string \<Rightarrow> set_error + json" where
  "parse_document cd yaml =
     (case cd_parse cd yaml of None \<Rightarrow> Inl Unparseable
      | Some doc \<Rightarrow> Inr (if doc = JNull then JObj [] else doc))"

fun read_document :: "codec \<Rightarrow> config_file \<Rightarrow> set_error + json" where
  "read_document cd (FileBytes content) = parse_document cd content"
| "read_document cd FileAbsent = Inr (JObj [])"
| "read_document cd FileUnreadable = Inl SetIo"

section \<open>Persisting\<close>

type_synonym 'a file_op = "config_file \<Rightarrow> (set_error + 'a) \<times> config_file"

text \<open>Printing a document and replacing the file with it.\<close>

definition store_document :: "codec \<Rightarrow> replacement \<Rightarrow> json \<Rightarrow> string file_op" where
  "store_document cd oc doc f =
     (case cd_print cd doc of None \<Rightarrow> (Inl Serialise, f)
      | Some bytes \<Rightarrow> (case write_atomically oc bytes f of
          (Inl _, f') \<Rightarrow> (Inl SetIo, f') | (Inr _, f') \<Rightarrow> (Inr bytes, f')))"

definition persist_document :: "codec \<Rightarrow> replacement \<Rightarrow> string \<Rightarrow> json \<Rightarrow> json \<Rightarrow> string file_op" where
  "persist_document cd oc key v doc f =
     (case apply_value doc key v of
        Inl _ \<Rightarrow> (Inl (Rejected [\<lparr>cvl_key = key, cvl_message = PassesThroughNonObject\<rparr>]), f)
      | Inr doc' \<Rightarrow> store_document cd oc doc' f)"

definition provider_connection_name :: "string \<Rightarrow> string option" where
  "provider_connection_name key =
     (case split_dots key of s # n # _ \<Rightarrow> if s = ''provider_connections'' then Some n else None | _ \<Rightarrow> None)"

text \<open>A write below a provider connection persists the connection whole.\<close>

definition persistence_entry :: "tribal_config \<Rightarrow> string \<Rightarrow> json \<Rightarrow> string \<times> json" where
  "persistence_entry config key v =
     (case provider_connection_name key of None \<Rightarrow> (key, v)
      | Some connection \<Rightarrow> (let entry_key = ''provider_connections.'' @ connection in
          case lookup (config_to_value config) entry_key of Some entry \<Rightarrow> (entry_key, entry) | None \<Rightarrow> (key, v)))"

definition set_in_document :: "codec \<Rightarrow> parsers \<Rightarrow> (string \<Rightarrow> bool) \<Rightarrow> replacement \<Rightarrow> tribal_config
    \<Rightarrow> string \<Rightarrow> json \<Rightarrow> cli_shadow \<Rightarrow> json \<Rightarrow> persisted file_op" where
  "set_in_document cd ps is_set oc config key v cli doc f =
     (case validated_candidate cd ps config key v of
        Inl vs \<Rightarrow> (Inl (Rejected vs), f)
      | Inr candidate \<Rightarrow>
          if lookup doc key = Some v
          then (Inr \<lparr>pst_effect = Unchanged, pst_document = None, pst_config = candidate\<rparr>, f)
          else (case persistence_entry candidate key v of (persist_key, persist_value) \<Rightarrow>
            (case persist_document cd oc persist_key persist_value doc f of
               (Inl e, f') \<Rightarrow> (Inl e, f')
             | (Inr bytes, f') \<Rightarrow> (Inr \<lparr>pst_effect = write_effect_of is_set key cli, pst_document = Some bytes,
                 pst_config = candidate\<rparr>, f'))))"

definition config_set :: "codec \<Rightarrow> parsers \<Rightarrow> (string \<Rightarrow> bool) \<Rightarrow> replacement \<Rightarrow> tribal_config
    \<Rightarrow> string \<Rightarrow> json \<Rightarrow> cli_shadow \<Rightarrow> persisted file_op" where
  "config_set cd ps is_set oc config key v cli f =
     (case read_document cd f of Inl e \<Rightarrow> (Inl e, f)
      | Inr doc \<Rightarrow> set_in_document cd ps is_set oc config key v cli doc f)"

definition set_from_yaml :: "codec \<Rightarrow> parsers \<Rightarrow> (string \<Rightarrow> bool) \<Rightarrow> replacement \<Rightarrow> tribal_config \<Rightarrow> string
    \<Rightarrow> string \<Rightarrow> json \<Rightarrow> cli_shadow \<Rightarrow> persisted file_op" where
  "set_from_yaml cd ps is_set oc config yaml key v cli f =
     (case parse_document cd yaml of Inl e \<Rightarrow> (Inl e, f)
      | Inr doc \<Rightarrow> set_in_document cd ps is_set oc config key v cli doc f)"

text \<open>The document loop of a patch: a value the document already holds is skipped.\<close>

fun patch_document :: "(string \<Rightarrow> bool) \<Rightarrow> cli_shadow \<Rightarrow> json \<Rightarrow> (string \<times> json) list
    \<Rightarrow> string + (json \<times> write_effect list \<times> bool)" where
  "patch_document is_set cli doc [] = Inr (doc, [], False)"
| "patch_document is_set cli doc ((key, v) # changes) =
     (if lookup doc key = Some v
      then (case patch_document is_set cli doc changes of Inl k \<Rightarrow> Inl k
        | Inr (doc', effects, changed) \<Rightarrow> Inr (doc', Unchanged # effects, changed))
      else (case apply_value doc key v of Inl _ \<Rightarrow> Inl key
        | Inr doc1 \<Rightarrow> (case patch_document is_set cli doc1 changes of Inl k \<Rightarrow> Inl k
            | Inr (doc', effects, changed) \<Rightarrow> Inr (doc', write_effect_of is_set key cli # effects, True))))"

definition decode_candidate :: "codec \<Rightarrow> parsers \<Rightarrow> json \<Rightarrow> set_error + tribal_config" where
  "decode_candidate cd ps tree =
     (case cd_from_value cd tree of
        None \<Rightarrow> Inl (Rejected [\<lparr>cvl_key = [], cvl_message = InvalidValue\<rparr>])
      | Some candidate \<Rightarrow> (case validate ps candidate of
          Inl ds \<Rightarrow> Inl (Rejected [\<lparr>cvl_key = [], cvl_message = WholeValidation ds\<rparr>])
        | Inr _ \<Rightarrow> Inr candidate))"

definition patch_candidate :: "codec \<Rightarrow> parsers \<Rightarrow> json \<Rightarrow> (string \<times> json) list
    \<Rightarrow> set_error + tribal_config" where
  "patch_candidate cd ps base changes =
     (case apply_changes base changes of
        Inl key \<Rightarrow> Inl (Rejected [\<lparr>cvl_key = key, cvl_message = PassesThroughNonObject\<rparr>])
      | Inr tree \<Rightarrow> decode_candidate cd ps tree)"

definition patch_in_document :: "codec \<Rightarrow> parsers \<Rightarrow> (string \<Rightarrow> bool) \<Rightarrow> replacement \<Rightarrow> tribal_config
    \<Rightarrow> (string \<times> json) list \<Rightarrow> cli_shadow \<Rightarrow> json \<Rightarrow> persisted_patch file_op" where
  "patch_in_document cd ps is_set oc config changes cli doc f =
     (case patch_candidate cd ps (config_to_value config) changes of
        Inl e \<Rightarrow> (Inl e, f)
      | Inr candidate \<Rightarrow> (case patch_document is_set cli doc changes of
          Inl key \<Rightarrow> (Inl (Rejected [\<lparr>cvl_key = key, cvl_message = PassesThroughNonObject\<rparr>]), f)
        | Inr (doc', effects, changed) \<Rightarrow>
            if \<not> changed then (Inr \<lparr>pp_effects = effects, pp_document = None, pp_config = candidate\<rparr>, f)
            else (case store_document cd oc doc' f of
                (Inl e, f') \<Rightarrow> (Inl e, f')
              | (Inr bytes, f') \<Rightarrow> (Inr \<lparr>pp_effects = effects, pp_document = Some bytes, pp_config = candidate\<rparr>, f'))))"

definition config_patch :: "codec \<Rightarrow> parsers \<Rightarrow> (string \<Rightarrow> bool) \<Rightarrow> replacement \<Rightarrow> tribal_config
    \<Rightarrow> (string \<times> json) list \<Rightarrow> cli_shadow \<Rightarrow> persisted_patch file_op" where
  "config_patch cd ps is_set oc config changes cli f =
     (case read_document cd f of Inl e \<Rightarrow> (Inl e, f)
      | Inr doc \<Rightarrow> patch_in_document cd ps is_set oc config changes cli doc f)"

definition patch_from_yaml :: "codec \<Rightarrow> parsers \<Rightarrow> (string \<Rightarrow> bool) \<Rightarrow> replacement \<Rightarrow> tribal_config \<Rightarrow> string
    \<Rightarrow> (string \<times> json) list \<Rightarrow> cli_shadow \<Rightarrow> persisted_patch file_op" where
  "patch_from_yaml cd ps is_set oc config yaml changes cli f =
     (case parse_document cd yaml of Inl e \<Rightarrow> (Inl e, f)
      | Inr doc \<Rightarrow> patch_in_document cd ps is_set oc config changes cli doc f)"

text \<open>The repair of an invalid file: the patch over the compiled defaults replaces it.\<close>

fun apply_to_both :: "json \<Rightarrow> json \<Rightarrow> (string \<times> json) list \<Rightarrow> string + (json \<times> json)" where
  "apply_to_both tree doc [] = Inr (tree, doc)"
| "apply_to_both tree doc ((key, v) # changes) =
     (case apply_value tree key v of Inl _ \<Rightarrow> Inl key
      | Inr tree' \<Rightarrow> (case apply_value doc key v of Inl _ \<Rightarrow> Inl key
        | Inr doc' \<Rightarrow> apply_to_both tree' doc' changes))"

definition repair_patch :: "codec \<Rightarrow> parsers \<Rightarrow> (string \<Rightarrow> bool) \<Rightarrow> replacement \<Rightarrow> host_dirs
    \<Rightarrow> (string \<times> json) list \<Rightarrow> cli_shadow \<Rightarrow> persisted_patch file_op" where
  "repair_patch cd ps is_set oc h changes cli f =
     (case apply_to_both (config_to_value (tribal_config_default h)) (JObj []) changes of
        Inl key \<Rightarrow> (Inl (Rejected [\<lparr>cvl_key = key, cvl_message = PassesThroughNonObject\<rparr>]), f)
      | Inr (tree, doc) \<Rightarrow> (case decode_candidate cd ps tree of
          Inl e \<Rightarrow> (Inl e, f)
        | Inr candidate \<Rightarrow> (case store_document cd oc doc f of
            (Inl e, f') \<Rightarrow> (Inl e, f')
          | (Inr bytes, f') \<Rightarrow> (Inr \<lparr>pp_effects = map (\<lambda>(key, _). write_effect_of is_set key cli) changes,
              pp_document = Some bytes, pp_config = candidate\<rparr>, f'))))"

section \<open>What a write leaves in the file\<close>

lemma bt_insert_id: "bt_wf t \<Longrightarrow> map_of t k = Some v \<Longrightarrow> bt_insert k v t = t"
  by (rule bt_eqI) (auto simp: map_upd_triv)

lemma doc_insert_id:
  "doc_lookup p d = Some v \<Longrightarrow> p \<noteq> [] \<Longrightarrow> doc_wf d \<Longrightarrow> doc_insert p v d = Some d"
proof (induction p v d rule: doc_insert.induct)
  case (2 k v kvs)
  then show ?case by (cases "map_of kvs k") (auto simp: bt_insert_id)
next
  case (3 k k' ks v kvs)
  obtain x where x: "map_of kvs k = Some x" "doc_lookup (k' # ks) x = Some v"
    using 3(2) by (auto simp: Option.bind_eq_Some_conv)
  have "doc_wf x" using 3(4) x(1) by (auto dest: map_of_SomeD)
  then show ?case using 3(1) 3(4) x by (auto simp: bt_insert_id)
qed auto

lemma apply_value_put: "apply_value d key v = Inr d' \<longleftrightarrow> doc_insert (split_dots key) v d = Some d'"
  by (auto simp: apply_value_def split: option.split)

lemma apply_changes_put:
  "apply_changes d changes = Inr d' \<longleftrightarrow> doc.put_all (map (\<lambda>(k, v). (split_dots k, v)) changes) d = Some d'"
proof (induction changes arbitrary: d)
  case (Cons e changes)
  obtain k v where "e = (k, v)" by force
  then show ?case
    by (cases "doc_insert (split_dots k) v d") (simp_all add: apply_value_def Cons.IH)
qed simp

lemma patch_document_put:
  assumes "patch_document is_set cli d changes = Inr (d', effects, changed)" "doc_wf d"
    and "\<forall>(k, v) \<in> set changes. doc_wf v"
  shows "doc.put_all (map (\<lambda>(k, v). (split_dots k, v)) changes) d = Some d' \<and> (changed \<or> d' = d)"
  using assms
proof (induction changes arbitrary: d effects changed)
  case (Cons e changes)
  obtain k v where e: "e = (k, v)" by force
  show ?case
  proof (cases "lookup d k = Some v")
    case True
    then have "doc_insert (split_dots k) v d = Some d"
      using Cons.prems(2) by (simp add: lookup_def doc_insert_id)
    then show ?thesis using Cons True by (auto simp: e split: sum.splits)
  next
    case False
    then obtain d1 effects1 where d1: "doc_insert (split_dots k) v d = Some d1"
      "\<exists>ch. patch_document is_set cli d1 changes = Inr (d', effects1, ch)" "changed"
      using Cons.prems(1) by (auto simp: e apply_value_def split: option.splits sum.splits)
    then show ?thesis using Cons.IH Cons.prems(2,3) doc_insert_wf [OF d1(1)] by (auto simp: e)
  qed
qed simp

lemma apply_to_both_put:
  "apply_to_both t d changes = Inr (t', d') \<longleftrightarrow> apply_changes t changes = Inr t' \<and> apply_changes d changes = Inr d'"
proof (induction changes arbitrary: t d)
  case (Cons e changes)
  obtain k v where "e = (k, v)" by force
  then show ?case
    by (cases "apply_value t k v"; cases "apply_value d k v") (simp_all add: Cons.IH)
qed auto

lemma doc_wf_config_parts:
  "doc_wf (stage_agent_to_value s)" "doc_wf (stage_inference_to_value i)" "doc_wf (connection_to_value x)"
  "doc_wf (prompts_to_value p)"
  by (cases x rule: connection_to_value.cases; cases p rule: prompts_to_value.cases;
      simp add: stage_agent_to_value_def stage_inference_to_value_def bt_wf_def json_opt_def j_nat_def j_f64_def
        split: option.split f64.split)+

lemma limits_to_value_wf: "doc_wf (limits_to_value l)"
proof -
  let ?f = "\<lambda>(p, x). (provider_kind_as_str p, JObj
     [(''max_in_flight'', j_nat (plc_max_in_flight x)),
      (''request_timeout_ms'', j_nat (plc_request_timeout_ms x))])"
  have fold: "\<forall>(k, v) \<in> set t. doc_wf v \<Longrightarrow> \<forall>(k, v) \<in> set kvs. doc_wf v \<Longrightarrow>
      (k, v) \<in> set (fold (\<lambda>(k, v). bt_insert k v) kvs t) \<Longrightarrow> doc_wf v" for kvs t k v
  proof (induction kvs arbitrary: t)
    case (Cons e kvs)
    obtain k' v' where e: "e = (k', v')" by force
    have "\<forall>(a, b) \<in> set (bt_insert k' v' t). doc_wf b"
      using Cons.prems(1,2) by (auto simp: e dest!: bt_insert_elem)
    then show ?case using Cons.IH [of "bt_insert k' v' t"] Cons.prems(2,3) by (simp add: e)
  qed auto
  have parts: "\<forall>(k, v) \<in> set (map ?f l). doc_wf v" by (simp add: case_prod_beta bt_wf_def j_nat_def)
  have "doc_wf v" if "(k, v) \<in> set (bt_of_list (map ?f l))" for k v
  proof (rule fold [OF _ parts])
    show "(k, v) \<in> set (fold (\<lambda>(k, v). bt_insert k v) (map ?f l) [])"
      using that unfolding bt_of_list_def .
  qed simp
  then have "\<forall>(k, v) \<in> set (bt_of_list (map ?f l)). doc_wf v" by blast
  then show ?thesis by (simp add: limits_to_value_def bt_wf_Cons)
qed

lemma config_to_value_wf:
  assumes "bt_wf (tc_connections c)"
  shows "doc_wf (config_to_value c)"
proof -
  have "doc_wf (connections_to_value (tc_connections c))"
    using assms by (auto simp: connections_to_value_def bt_wf_def comp_def case_prod_beta doc_wf_config_parts)
  moreover have "doc_wf (agents_to_value a)" "doc_wf (inference_to_value i)" "doc_wf (init_to_value n)" for a i n
    by (simp_all add: agents_to_value_def inference_to_value_def init_to_value_def doc_wf_config_parts bt_wf_def json_opt_def
        j_nat_def split: option.split)
  moreover have "doc_wf (server_to_value s)" "doc_wf (database_to_value d)" "doc_wf (oauth_to_value oa)"
    "doc_wf (worker_to_value w)" for s d oa w
    by (simp_all add: server_to_value_def database_to_value_def oauth_to_value_def worker_to_value_def bt_wf_def json_opt_def
        j_nat_def j_f64_def split: option.split f64.split)
  moreover have "doc_wf (discovery_to_value d)" "doc_wf (exploration_to_value e)" "doc_wf (logging_to_value l)"
    "doc_wf (telemetry_to_value t)" for d e l t
    by (simp_all add: discovery_to_value_def exploration_to_value_def logging_to_value_def telemetry_to_value_def bt_wf_def
        json_opt_def j_nat_def j_f64_def split: option.split f64.split)
  ultimately show ?thesis
    by (simp add: config_to_value_def doc_wf_config_parts limits_to_value_wf bt_wf_def j_nat_def)
qed

text \<open>Every way a write ends.\<close>

lemma store_document_cases:
  assumes "store_document cd oc doc f = (r, f')"
  obtains "r = Inl Serialise" "f' = f" "cd_print cd doc = None"
  | bytes where "cd_print cd doc = Some bytes" "oc = NotReplaced" "r = Inl SetIo" "f' = f"
  | bytes where "cd_print cd doc = Some bytes" "oc = ReplacedUnsynced" "r = Inl SetIo" "f' = FileBytes bytes"
  | bytes where "cd_print cd doc = Some bytes" "oc = Replaced" "r = Inr bytes" "f' = FileBytes bytes"
  using assms by (cases oc) (auto simp: store_document_def split: option.splits)

text \<open>A refused write leaves the file alone; an accepted one either finds the value there or
  replaces the file by a document that holds it.\<close>

lemma validated_candidate_Inr:
  "validated_candidate cd ps config key v = Inr c \<longleftrightarrow>
     (\<exists>tree. doc_insert (split_dots key) v (config_to_value config) = Some tree \<and>
        cd_from_value cd tree = Some c \<and> validate ps c = Inr ())"
  by (auto simp: validated_candidate_def apply_to_config_def apply_value_def
      split: option.splits sum.splits)

lemma set_in_document_refused:
  assumes "set_in_document cd ps is_set oc config key v cli doc f = (Inl (Rejected vs), f')"
  shows "f' = f"
  using assms
  by (auto simp: set_in_document_def persist_document_def elim!: store_document_cases split: sum.splits if_splits prod.splits)

lemma set_in_document_accepted:
  assumes "set_in_document cd ps is_set oc config key v cli doc f = (Inr p, f')"
  shows "validated_candidate cd ps config key v = Inr (pst_config p)"
    and "lookup doc key = Some v \<and> pst_effect p = Unchanged \<and> pst_document p = None \<and> f' = f \<or>
      (\<exists>doc' bytes pk pv. persistence_entry (pst_config p) key v = (pk, pv) \<and>
         doc_insert (split_dots pk) pv doc = Some doc' \<and> cd_print cd doc' = Some bytes \<and>
         pst_document p = Some bytes \<and> pst_effect p = write_effect_of is_set key cli \<and> f' = FileBytes bytes)"
proof -
  obtain c where c: "validated_candidate cd ps config key v = Inr c"
    using assms by (auto simp: set_in_document_def split: sum.splits)
  obtain pk pv where e: "persistence_entry c key v = (pk, pv)" by force
  show "validated_candidate cd ps config key v = Inr (pst_config p)"
    using assms c e by (auto simp: set_in_document_def split: sum.splits if_splits prod.splits)
  show "lookup doc key = Some v \<and> pst_effect p = Unchanged \<and> pst_document p = None \<and> f' = f \<or>
      (\<exists>doc' bytes pk pv. persistence_entry (pst_config p) key v = (pk, pv) \<and>
         doc_insert (split_dots pk) pv doc = Some doc' \<and> cd_print cd doc' = Some bytes \<and>
         pst_document p = Some bytes \<and> pst_effect p = write_effect_of is_set key cli \<and> f' = FileBytes bytes)"
  proof (cases "lookup doc key = Some v")
    case True
    then show ?thesis using assms c e by (auto simp: set_in_document_def)
  next
    case False
    then obtain r g where r: "persist_document cd oc pk pv doc f = (r, g)" by force
    with False assms c e obtain bytes where "r = Inr bytes" "g = f'" "pst_document p = Some bytes"
      "pst_effect p = write_effect_of is_set key cli" "pst_config p = c"
      by (auto simp: set_in_document_def split: sum.splits)
    then show ?thesis using r e
      by (auto simp: persist_document_def apply_value_def elim!: store_document_cases split: option.splits sum.splits)
  qed
qed

end
