(* ===== verification/ConfigAuthority.thy ===== *)
theory ConfigAuthority
  imports ConfigStore Bearer
begin

text \<open>
  The configuration authority of the management plane
  (\<open>tribal-server/src/management/configuration.rs\<close>, the digests of
  \<open>tribal-wire/src/management/wire_id.rs\<close>): a write names the revision of the bytes it
  was computed from, the authority proves the bytes the file holds by reading it
  twice, and refuses the write when the revisions differ.

  The state is the file and the flag for an uncertain replacement. What each double
  read observes is an argument; so are the loader of the cascade and the outcome of
  one replacement.
\<close>

section \<open>Revisions\<close>

definition config_digest :: "externals \<Rightarrow> string \<Rightarrow> string" where
  "config_digest x bytes = ''cdig_'' @ x_base64url x (x_sha256 x bytes)"

definition revision_from_digest :: "string \<Rightarrow> string" where
  "revision_from_digest digest = ''cfg_'' @ drop (length ''cdig_'') digest"

definition revision_for :: "externals \<Rightarrow> string \<Rightarrow> string" where
  "revision_for x bytes = revision_from_digest (config_digest x bytes)"

record proven_bytes =
  pb_bytes :: string
  pb_digest :: string
  pb_revision :: string

definition proven_consistent :: "externals \<Rightarrow> proven_bytes \<Rightarrow> bool" where
  "proven_consistent x p \<longleftrightarrow> pb_digest p = config_digest x (pb_bytes p) \<and>
     pb_revision p = revision_from_digest (pb_digest p)"

section \<open>The stable winner\<close>

record file_identity =
  fid_device :: nat
  fid_inode :: nat
  fid_length :: nat

text \<open>One double read: the file's identity around each reading of its bytes.\<close>

record observation =
  ob_first_before :: file_identity
  ob_first_bytes :: string
  ob_first_after :: file_identity
  ob_second_before :: file_identity
  ob_second_bytes :: string
  ob_second_after :: file_identity

datatype attempt = AttemptFailed | Observed observation

definition read_stable_once :: "externals \<Rightarrow> observation \<Rightarrow> proven_bytes option" where
  "read_stable_once x ob =
     (if ob_first_before ob \<noteq> ob_first_after ob \<or>
         fid_length (ob_first_after ob) \<noteq> length (ob_first_bytes ob) then None
      else if ob_first_after ob \<noteq> ob_second_before ob \<or> ob_second_before ob \<noteq> ob_second_after ob \<or>
         fid_length (ob_second_after ob) \<noteq> length (ob_second_bytes ob) \<or>
         config_digest x (ob_first_bytes ob) \<noteq> config_digest x (ob_second_bytes ob) \<or>
         ob_first_bytes ob \<noteq> ob_second_bytes ob then None
      else (let digest = config_digest x (ob_first_bytes ob);
                p = \<lparr>pb_bytes = ob_first_bytes ob, pb_digest = digest, pb_revision = revision_from_digest digest\<rparr> in
        if proven_consistent x p then Some p else None))"

datatype patch_refusal = RefusedEmpty | RefusedDuplicate string | RefusedOverlapping string string
  | RefusedMultipleHot | RefusedMixedHot

datatype authority_error = AuthorityIo | StableWinnerUnavailable | AuthorityInvalid
  | AuthorityConflict string string | PatchRefused patch_refusal | WriteFailed set_error
  | DurabilityUncertain string set_error | UnknownKey string

text \<open>The attempts until the retry window closes.\<close>

fun stable_winner :: "externals \<Rightarrow> attempt list \<Rightarrow> authority_error + proven_bytes" where
  "stable_winner x [] = Inl StableWinnerUnavailable"
| "stable_winner x (AttemptFailed # _) = Inl AuthorityIo"
| "stable_winner x (Observed ob # rest) =
     (case read_stable_once x ob of Some p \<Rightarrow> Inr p | None \<Rightarrow> stable_winner x rest)"

lemma stable_winner_revision:
  "stable_winner x atts = Inr p \<Longrightarrow> pb_revision p = revision_for x (pb_bytes p) \<and> pb_digest p = config_digest x (pb_bytes p)"
  by (induction x atts rule: stable_winner.induct)
     (auto simp: read_stable_once_def revision_for_def Let_def split: option.splits if_splits)

section \<open>State and externals\<close>

record authority =
  cfa_file :: config_file
  cfa_uncertain :: bool

record authority_env =
  cae_x :: externals
  cae_codec :: codec
  cae_parsers :: parsers
  cae_is_set :: "string \<Rightarrow> bool"
  cae_load :: "string \<Rightarrow> tribal_config option"
  cae_host :: host_dirs

type_synonym 'a authority_op = "authority \<Rightarrow> (authority_error + 'a) \<times> authority"

definition load_valid :: "authority_env \<Rightarrow> proven_bytes \<Rightarrow> authority_error + tribal_config" where
  "load_valid e p =
     (case cae_load e (pb_bytes p) of None \<Rightarrow> Inl AuthorityInvalid
      | Some config \<Rightarrow> (case validate (cae_parsers e) config of Inl _ \<Rightarrow> Inl AuthorityInvalid | Inr _ \<Rightarrow> Inr config))"

definition load_base :: "authority_env \<Rightarrow> proven_bytes \<Rightarrow> tribal_config" where
  "load_base e p = (case cae_load e (pb_bytes p) of None \<Rightarrow> tribal_config_default (cae_host e) | Some config \<Rightarrow> config)"

definition reconcile_if_needed :: "authority_env \<Rightarrow> attempt list \<Rightarrow> unit authority_op" where
  "reconcile_if_needed e atts a =
     (if \<not> cfa_uncertain a then (Inr (), a)
      else (case stable_winner (cae_x e) atts of Inl err \<Rightarrow> (Inl err, a)
        | Inr _ \<Rightarrow> (Inr (), a\<lparr>cfa_uncertain := False\<rparr>)))"

definition check_revision :: "string \<Rightarrow> string \<Rightarrow> authority_error + unit" where
  "check_revision expected actual = (if expected = actual then Inr () else Inl (AuthorityConflict expected actual))"

section \<open>Reads\<close>

datatype config_document =
    UncertainValid json string | DurableValid json string
  | UncertainInvalid string | DurableInvalid string

definition authority_document :: "authority_env \<Rightarrow> attempt list \<Rightarrow> config_document authority_op" where
  "authority_document e atts a =
     (case stable_winner (cae_x e) atts of Inl err \<Rightarrow> (Inl err, a)
      | Inr p \<Rightarrow> (Inr (case load_valid e p of
            Inr config \<Rightarrow> if cfa_uncertain a then UncertainValid (config_get_all config) (pb_digest p)
              else DurableValid (config_get_all config) (pb_revision p)
          | Inl _ \<Rightarrow> if cfa_uncertain a then UncertainInvalid (pb_digest p) else DurableInvalid (pb_revision p)), a))"

definition authority_get :: "authority_env \<Rightarrow> attempt list \<Rightarrow> string \<Rightarrow> config_document authority_op" where
  "authority_get e atts key a =
     (case stable_winner (cae_x e) atts of Inl err \<Rightarrow> (Inl err, a)
      | Inr p \<Rightarrow> (case load_valid e p of
          Inl _ \<Rightarrow> (Inr (if cfa_uncertain a then UncertainInvalid (pb_digest p) else DurableInvalid (pb_revision p)), a)
        | Inr config \<Rightarrow> (case config_get config key of
            Inl k \<Rightarrow> (Inl (UnknownKey k), a)
          | Inr v \<Rightarrow> (Inr (if cfa_uncertain a then UncertainValid v (pb_digest p) else DurableValid v (pb_revision p)), a))))"

record resolved_snapshot =
  rsn_config :: tribal_config
  rsn_revision :: string

definition authority_resolved :: "authority_env \<Rightarrow> attempt list \<Rightarrow> attempt list \<Rightarrow> resolved_snapshot authority_op" where
  "authority_resolved e atts0 atts a =
     (case reconcile_if_needed e atts0 a of (Inl err, a') \<Rightarrow> (Inl err, a')
      | (Inr _, a') \<Rightarrow> (case stable_winner (cae_x e) atts of Inl err \<Rightarrow> (Inl err, a')
        | Inr p \<Rightarrow> (case load_valid e p of Inl err \<Rightarrow> (Inl err, a')
          | Inr config \<Rightarrow> (Inr \<lparr>rsn_config = config, rsn_revision = pb_revision p\<rparr>, a'))))"

definition authority_base :: "authority_env \<Rightarrow> attempt list \<Rightarrow> attempt list \<Rightarrow> resolved_snapshot authority_op" where
  "authority_base e atts0 atts a =
     (case reconcile_if_needed e atts0 a of (Inl err, a') \<Rightarrow> (Inl err, a')
      | (Inr _, a') \<Rightarrow> (case stable_winner (cae_x e) atts of Inl err \<Rightarrow> (Inl err, a')
        | Inr p \<Rightarrow> (Inr \<lparr>rsn_config = load_base e p, rsn_revision = pb_revision p\<rparr>, a')))"

definition authority_validate_patch :: "authority_env \<Rightarrow> attempt list \<Rightarrow> string \<Rightarrow> (string \<times> json) list
    \<Rightarrow> (string \<times> config_violation list) authority_op" where
  "authority_validate_patch e atts expected changes a =
     (case stable_winner (cae_x e) atts of Inl err \<Rightarrow> (Inl err, a)
      | Inr p \<Rightarrow> (case check_revision expected (pb_revision p) of Inl err \<Rightarrow> (Inl err, a)
        | Inr _ \<Rightarrow> (case load_valid e p of Inl err \<Rightarrow> (Inl err, a)
          | Inr config \<Rightarrow> (Inr (pb_revision p, validate_patch (cae_codec e) (cae_parsers e) config changes), a))))"

section \<open>Writes\<close>

datatype managed_write_effect = ManagedUnchanged | AppliedLive | OnNextStart | ManagedShadowed string

fun managed_effect :: "write_effect \<Rightarrow> bool \<Rightarrow> managed_write_effect" where
  "managed_effect Unchanged _ = ManagedUnchanged"
| "managed_effect Live attached = (if attached then AppliedLive else OnNextStart)"
| "managed_effect NeedsRestart _ = OnNextStart"
| "managed_effect (Shadowed by_layer) _ = ManagedShadowed by_layer"

text \<open>After a failed write the file is read again: other bytes than before mean the
  replacement happened.\<close>

definition write_error :: "authority_env \<Rightarrow> attempt list \<Rightarrow> proven_bytes \<Rightarrow> set_error \<Rightarrow> authority
    \<Rightarrow> authority_error \<times> authority" where
  "write_error e atts before source a =
     (case stable_winner (cae_x e) atts of
        Inr after \<Rightarrow> if pb_revision after \<noteq> pb_revision before
          then (DurabilityUncertain (pb_digest after) source, a\<lparr>cfa_uncertain := True\<rparr>)
          else (WriteFailed source, a)
      | Inl _ \<Rightarrow> (WriteFailed source, a))"

definition written_revision :: "authority_env \<Rightarrow> proven_bytes \<Rightarrow> string option \<Rightarrow> string" where
  "written_revision e current document =
     (case document of None \<Rightarrow> pb_revision current | Some bytes \<Rightarrow> revision_for (cae_x e) bytes)"

record write_request =
  wr_key :: string
  wr_value :: json
  wr_expected :: string

text \<open>What the file system shows during one write: the reads of the reconciliation, of
  the current bytes and after a failure, and the replacement.\<close>

record weather =
  wx_reconcile :: "attempt list"
  wx_current :: "attempt list"
  wx_after :: "attempt list"
  wx_replacement :: replacement

definition authority_set :: "authority_env \<Rightarrow> weather \<Rightarrow> write_request
    \<Rightarrow> (managed_write_effect \<times> string) authority_op" where
  "authority_set e w r a =
     (case reconcile_if_needed e (wx_reconcile w) a of (Inl err, a') \<Rightarrow> (Inl err, a')
      | (Inr _, a') \<Rightarrow> (case stable_winner (cae_x e) (wx_current w) of Inl err \<Rightarrow> (Inl err, a')
        | Inr current \<Rightarrow> (case check_revision (wr_expected r) (pb_revision current) of Inl err \<Rightarrow> (Inl err, a')
          | Inr _ \<Rightarrow> (case load_valid e current of
              Inl _ \<Rightarrow> (case repair_patch (cae_codec e) (cae_parsers e) (cae_is_set e) (wx_replacement w) (cae_host e)
                    [(wr_key r, wr_value r)] {} (cfa_file a') of
                  (Inl source, f) \<Rightarrow> (case write_error e (wx_after w) current source (a'\<lparr>cfa_file := f\<rparr>) of
                      (err, a'') \<Rightarrow> (Inl err, a''))
                | (Inr p, f) \<Rightarrow> (Inr (case pp_effects p of [] \<Rightarrow> ManagedUnchanged | eff # _ \<Rightarrow> managed_effect eff False,
                      written_revision e current (pp_document p)), a'\<lparr>cfa_file := f\<rparr>))
            | Inr config \<Rightarrow> (case set_from_yaml (cae_codec e) (cae_parsers e) (cae_is_set e) (wx_replacement w) config
                    (pb_bytes current) (wr_key r) (wr_value r) {} (cfa_file a') of
                  (Inl source, f) \<Rightarrow> (case write_error e (wx_after w) current source (a'\<lparr>cfa_file := f\<rparr>) of
                      (err, a'') \<Rightarrow> (Inl err, a''))
                | (Inr p, f) \<Rightarrow> (Inr (managed_effect (pst_effect p) False, written_revision e current (pst_document p)),
                    a'\<lparr>cfa_file := f\<rparr>))))))"

subsection \<open>The shape of a patch\<close>

definition overlapping :: "string \<Rightarrow> string \<Rightarrow> (string \<times> string) option" where
  "overlapping left right =
     (if prefix (left @ ''.'') right then Some (left, right)
      else if prefix (right @ ''.'') left then Some (right, left) else None)"

fun first_duplicate :: "string set \<Rightarrow> string list \<Rightarrow> string option" where
  "first_duplicate seen [] = None"
| "first_duplicate seen (k # ks) = (if k \<in> seen then Some k else first_duplicate (insert k seen) ks)"

fun first_overlap :: "string list \<Rightarrow> (string \<times> string) option" where
  "first_overlap [] = None"
| "first_overlap (k # ks) =
     (case List.map_filter (overlapping k) ks of c # _ \<Rightarrow> Some c | [] \<Rightarrow> first_overlap ks)"

definition validate_patch_shape :: "string list \<Rightarrow> authority_error + unit" where
  "validate_patch_shape keys =
     (if keys = [] then Inl (PatchRefused RefusedEmpty)
      else (case first_duplicate {} keys of Some k \<Rightarrow> Inl (PatchRefused (RefusedDuplicate k))
        | None \<Rightarrow> (case first_overlap keys of Some (parent, child) \<Rightarrow> Inl (PatchRefused (RefusedOverlapping parent child))
          | None \<Rightarrow> (let hot = length (filter (\<lambda>k. reload_class_of k = Hot) keys) in
              if hot > 1 then Inl (PatchRefused RefusedMultipleHot)
              else if hot = 1 \<and> length keys > 1 then Inl (PatchRefused RefusedMixedHot)
              else Inr ()))))"

definition authority_patch :: "authority_env \<Rightarrow> weather \<Rightarrow> string \<Rightarrow> (string \<times> json) list
    \<Rightarrow> ((string \<times> managed_write_effect) list \<times> string) authority_op" where
  "authority_patch e w expected request a =
     (case validate_patch_shape (map fst request) of Inl err \<Rightarrow> (Inl err, a)
      | Inr _ \<Rightarrow> (case reconcile_if_needed e (wx_reconcile w) a of (Inl err, a') \<Rightarrow> (Inl err, a')
        | (Inr _, a') \<Rightarrow> (case stable_winner (cae_x e) (wx_current w) of Inl err \<Rightarrow> (Inl err, a')
          | Inr current \<Rightarrow> (case check_revision expected (pb_revision current) of Inl err \<Rightarrow> (Inl err, a')
            | Inr _ \<Rightarrow> (let changes = sort_key fst request;
                outcome = (case load_valid e current of
                    Inr config \<Rightarrow> patch_from_yaml (cae_codec e) (cae_parsers e) (cae_is_set e) (wx_replacement w) config
                      (pb_bytes current) changes {} (cfa_file a')
                  | Inl _ \<Rightarrow> repair_patch (cae_codec e) (cae_parsers e) (cae_is_set e) (wx_replacement w) (cae_host e)
                      changes {} (cfa_file a')) in
                case outcome of
                  (Inl source, f) \<Rightarrow> (case write_error e (wx_after w) current source (a'\<lparr>cfa_file := f\<rparr>) of
                      (err, a'') \<Rightarrow> (Inl err, a''))
                | (Inr p, f) \<Rightarrow> (Inr (zip (map fst changes) (map (\<lambda>eff. managed_effect eff False) (pp_effects p)),
                      written_revision e current (pp_document p)), a'\<lparr>cfa_file := f\<rparr>))))))"

datatype persistence_phase = NotCommitted | UncertainPhase

datatype persistence_observation = ObservedDigest string | UnreadableObservation

datatype management_error = ConfigConflict string string | ConfigPatchRefusedError patch_refusal
  | ConfigurationInvalid "string list" | ConfigPersistenceUnavailable persistence_phase persistence_observation

text \<open>A field path is non-empty lower-case segments.\<close>

definition valid_config_field_path :: "string \<Rightarrow> bool" where
  "valid_config_field_path key \<longleftrightarrow> list_all is_valid_provider_connection_name (split_dots key)"

fun management_error_of :: "authority_error \<Rightarrow> management_error" where
  "management_error_of (AuthorityConflict expected actual) = ConfigConflict expected actual"
| "management_error_of (PatchRefused reason) = ConfigPatchRefusedError reason"
| "management_error_of (WriteFailed source) =
     (case set_error_violations source of
        Some vs \<Rightarrow> ConfigurationInvalid (filter valid_config_field_path (map cvl_key vs))
      | None \<Rightarrow> ConfigPersistenceUnavailable NotCommitted UnreadableObservation)"
| "management_error_of (DurabilityUncertain digest _) = ConfigPersistenceUnavailable UncertainPhase (ObservedDigest digest)"
| "management_error_of AuthorityIo = ConfigPersistenceUnavailable UncertainPhase UnreadableObservation"
| "management_error_of StableWinnerUnavailable = ConfigPersistenceUnavailable UncertainPhase UnreadableObservation"
| "management_error_of AuthorityInvalid = ConfigurationInvalid []"
| "management_error_of (UnknownKey _) = ConfigurationInvalid []"

end
