(* ===== verification/ConfigGuarantees.thy ===== *)
theory ConfigGuarantees
  imports Processing ConfigAuthority
begin

text \<open>
  What the configuration promises the rest of the server: an accepted configuration
  has what every component takes for granted, reads never show a secret, a profile can
  be written back as it was read, a patch changes the keys it names and nothing else,
  and a write computed from old bytes is refused.
\<close>

section \<open>Accepted configurations\<close>

lemma validate_Inr: "validate ps c = Inr () \<longleftrightarrow> config_diagnostics ps c = []"
  by (simp add: validate_def Let_def)

lemma config_diagnostics_Nil:
  "config_diagnostics ps c = [] \<longleftrightarrow>
     validate_database c = [] \<and> validate_server ps c = [] \<and> validate_auth c = [] \<and> validate_oauth ps c = [] \<and>
     worker_validate (tc_worker c) = [] \<and> agents_validate (tc_agents c) = [] \<and> validate_pool_sizing c = [] \<and>
     validate_init c = [] \<and> validate_inference c = [] \<and> validate_provider_connections ps c = [] \<and>
     validate_provider_limits c = [] \<and> validate_discovery c = [] \<and> validate_exploration c = [] \<and>
     validate_logging ps c = [] \<and> validate_telemetry c = []"
  by (simp add: config_diagnostics_def validate_worker_def validate_agents_def)

lemma worker_validate_Nil:
  "worker_validate w = [] \<longleftrightarrow>
     0 < wkc_max_concurrent_tasks w \<and> 0 < wkc_poll_interval_ms w \<and> 0 < wkc_task_timeout_ms w \<and>
     0 < wkc_heartbeat_interval_ms w \<and> wkc_heartbeat_interval_ms w < wkc_task_timeout_ms w \<and>
     wkc_poll_interval_ms w \<le> wkc_reclaim_interval_ms w \<and> 0 < wkc_triage_search_limit w \<and>
     0 < wkc_max_candidates_per_job w \<and>
     (wkc_tag_similarity_threshold w = NotANumber \<or>
       (\<exists>t. wkc_tag_similarity_threshold w = Finite t \<and> 0 < t \<and> t \<le> 1))"
  by (cases "wkc_tag_similarity_threshold w") (auto simp: worker_validate_def)

lemma range_contains_finite:
  "range_contains SIMILARITY_RANGE v \<longleftrightarrow> (\<exists>t. v = Finite t \<and> 0 < t \<and> t \<le> 1)"
  "range_contains TEMPERATURE_RANGE v \<longleftrightarrow> (\<exists>t. v = Finite t \<and> 0 \<le> t \<and> t \<le> 2)"
  by (cases v; auto simp: range_contains_def SIMILARITY_RANGE_def TEMPERATURE_RANGE_def admits_above_def admits_below_def)+

lemma agents_validate_Nil:
  "agents_validate a = [] \<longleftrightarrow>
     (\<forall>s \<in> {agc_extraction a, agc_triage a, agc_relation a}. sac_max_turns s \<noteq> Some 0 \<and>
        sac_execution_deadline_seconds s \<noteq> Some 0 \<and> sac_max_total_tokens s \<noteq> Some 0)"
  by (auto simp: agents_validate_def agents_stages_def)

lemma validate_limits_Nil:
  "validate_limits timeout p l = [] \<longleftrightarrow>
     0 < plc_max_in_flight l \<and> 0 < plc_request_timeout_ms l \<and> plc_request_timeout_ms l < timeout"
  by (auto simp: validate_limits_def Let_def)

lemma validate_provider_limits_Nil:
  "validate_provider_limits c = [] \<longleftrightarrow> (\<forall>(p, l) \<in> set (tc_limits c).
     0 < plc_max_in_flight l \<and> 0 < plc_request_timeout_ms l \<and> plc_request_timeout_ms l < wkc_task_timeout_ms (tc_worker c))"
  by (auto simp: validate_provider_limits_def validate_limits_Nil)

lemma validate_provider_connections_Nil:
  "validate_provider_connections ps c = [] \<longleftrightarrow>
     connection_violations ps (tc_connections c) = [] \<and>
     (\<forall>(stage, cfg) \<in> set (inference_stages (tc_inference c)). pc_get (tc_connections c) (sic_connection cfg) \<noteq> None) \<and>
     (\<exists>x. pc_get (tc_connections c) (iec_connection (inc_embedding (tc_init c))) = Some x \<and>
        supports_embedding (connection_provider x) \<and> connection_provider x \<noteq> Platform)"
  by (auto simp: validate_provider_connections_def pc_violations_Nil Let_def split: option.splits)

text \<open>The check of the worker's similarity threshold lets not-a-number through, which the
  range it names refuses.\<close>

lemma similarity_threshold_accepts_nan:
  "worker_validate (worker_config_default\<lparr>wkc_tag_similarity_threshold := NotANumber\<rparr>) = []"
  "\<not> range_contains SIMILARITY_RANGE NotANumber"
  by (simp_all add: worker_validate_Nil worker_config_default_def range_contains_finite)

section \<open>Reads\<close>

fun rekey :: "string \<Rightarrow> provider_connection_config \<Rightarrow> provider_connection_config" where
  "rekey key (AnthropicConnection b k) = AnthropicConnection b (map_option (\<lambda>_. key) k)"
| "rekey key (OpenAiConnection b k) = OpenAiConnection b (map_option (\<lambda>_. key) k)"
| "rekey key c = c"

definition with_secrets :: "string \<Rightarrow> (string \<Rightarrow> string) \<Rightarrow> tribal_config \<Rightarrow> tribal_config" where
  "with_secrets url keys c = c\<lparr>tc_database := (tc_database c)\<lparr>dbc_url := url\<rparr>,
     tc_connections := map (\<lambda>(n, x). (n, rekey (keys n) x)) (tc_connections c)\<rparr>"

lemma mask_rekey: "mask_connection (rekey key x) = mask_connection x"
  by (cases x rule: connection_to_value.cases) (simp_all add: option.map_comp comp_def)

lemma mask_with_secrets: "mask_secrets (with_secrets url keys c) = mask_secrets c"
  by (simp add: mask_secrets_def with_secrets_def comp_def case_prod_beta mask_rekey)

section \<open>Writes\<close>

lemma first_duplicate_distinct:
  "first_duplicate seen ks = None \<longleftrightarrow> distinct ks \<and> set ks \<inter> seen = {}"
  by (induction ks arbitrary: seen) auto

lemma first_overlap_None:
  "first_overlap ks = None \<longleftrightarrow> sorted_wrt (\<lambda>a b. overlapping a b = None) ks"
proof (induction ks)
  case (Cons k ks)
  have none: "List.map_filter (overlapping k) ks = [] \<longleftrightarrow> (\<forall>b \<in> set ks. overlapping k b = None)"
    by (induction ks) (auto simp: map_filter_simps split: option.split)
  show ?case
  proof (cases "List.map_filter (overlapping k) ks")
    case Nil
    then show ?thesis using Cons none by simp
  next
    case (Cons c cs)
    then have "\<not> (\<forall>b \<in> set ks. overlapping k b = None)" using none by simp
    then show ?thesis using Cons by simp
  qed
qed simp

lemma overlapping_apart:
  assumes "overlapping a b = None" "a \<noteq> b"
  shows "doc.apart (split_dots a) (split_dots b)"
  using assms prefix_split_dots [of a b] prefix_split_dots [of b a]
  by (auto simp: doc.apart_def overlapping_def split: if_splits)

lemma patch_shape_apart:
  assumes "validate_patch_shape (map fst changes) = Inr ()"
  shows "sorted_wrt (\<lambda>(p, v) (q, w). doc.apart p q) (map (\<lambda>(k, v). (split_dots k, v)) changes)"
proof -
  have "distinct (map fst changes)" "sorted_wrt (\<lambda>a b. overlapping a b = None) (map fst changes)"
    using assms by (auto simp: validate_patch_shape_def first_duplicate_distinct first_overlap_None
        split: if_splits option.splits)
  then have "sorted_wrt (\<lambda>e e'. doc.apart (split_dots (fst e)) (split_dots (fst e'))) changes"
    by (induction changes) (auto intro!: overlapping_apart)
  then show ?thesis by (simp add: sorted_wrt_map case_prod_beta)
qed

definition changes_made :: "json \<Rightarrow> (string \<times> json) list \<Rightarrow> json \<Rightarrow> bool" where
  "changes_made before changes after \<longleftrightarrow>
     (\<forall>(k, v) \<in> set changes. lookup after k = Some v) \<and>
     (\<forall>key. (\<forall>(k, v) \<in> set changes. overlapping k key = None \<and> k \<noteq> key) \<longrightarrow> lookup after key = lookup before key)"

lemma put_all_changes_made:
  assumes "doc.put_all (map (\<lambda>(k, v). (split_dots k, v)) changes) d = Some d'" "doc_wf d"
    and "\<forall>(k, v) \<in> set changes. doc_wf v" "validate_patch_shape (map fst changes) = Inr ()"
  shows "changes_made d changes d'"
proof -
  let ?paths = "map (\<lambda>(k, v). (split_dots k, v)) changes"
  have wf: "\<forall>(p, v) \<in> set ?paths. doc_wf v" using assms(3) by auto
  have "lookup d' k = Some v" if "(k, v) \<in> set changes" for k v
  proof -
    have "(split_dots k, v) \<in> set ?paths" using that by force
    then show ?thesis
      unfolding lookup_def by (rule doc.put_all_same [OF assms(1,2) wf patch_shape_apart [OF assms(4)]])
  qed
  moreover have "lookup d' key = lookup d key"
    if "\<forall>(k, v) \<in> set changes. overlapping k key = None \<and> k \<noteq> key" for key
  proof -
    have "\<forall>(p, v) \<in> set ?paths. doc.apart p (split_dots key)" using that by (auto intro: overlapping_apart)
    then show ?thesis unfolding lookup_def by (rule doc.put_all_frame [OF assms(1,2) wf])
  qed
  ultimately show ?thesis unfolding changes_made_def by blast
qed

lemma decode_candidate_Inr:
  "decode_candidate cd ps tree = Inr c \<longleftrightarrow> cd_from_value cd tree = Some c \<and> validate ps c = Inr ()"
  by (auto simp: decode_candidate_def split: option.splits sum.splits)

lemma patch_candidate_Inr:
  "patch_candidate cd ps base changes = Inr c \<longleftrightarrow>
     (\<exists>tree. apply_changes base changes = Inr tree \<and> cd_from_value cd tree = Some c \<and> validate ps c = Inr ())"
  by (auto simp: patch_candidate_def decode_candidate_Inr split: sum.splits)

section \<open>A concrete server\<close>

text \<open>One connection, the default settings, and parsers that accept its URL.\<close>

definition cg_url :: config_url where
  "cg_url = \<lparr>cu_scheme = ''http'', cu_host = Some (HostDomain ''localhost''), cu_port_or_default = Some 11434,
     cu_path = ''/'', cu_query = None, cu_fragment = None\<rparr>"

definition cg_parsers :: parsers where
  "cg_parsers = \<lparr>ps_url = (\<lambda>_. Some cg_url), ps_socket_addr = (\<lambda>_. None), ps_env_filter = (\<lambda>_. True)\<rparr>"

definition cg_host :: host_dirs where
  "cg_host = \<lparr>hd_state_dir = None, hd_data_local_dir = Some ''/d'', hd_temp_dir = ''/t''\<rparr>"

definition cg_config :: tribal_config where
  "cg_config = minimum_valid cg_host ''postgres://h/d''"

lemma cg_normalised:
  "normalise_endpoint_url cg_parsers u = Inr ''http://localhost:11434''"
proof -
  have "show_nat 11434 = ''11434''" by (simp add: show_nat.simps) (simp add: char_of_def bit_iff_odd)
  then show ?thesis by (simp add: normalise_endpoint_url_def cg_parsers_def cg_url_def trim_end_slashes_def)
qed

lemma cg_connections: "tc_connections cg_config = [(''ollama_default'', OllamaConnection ''http://localhost:11434'')]"
  by (simp add: cg_config_def config_default_defs)

lemma cg_connection_violations: "connection_violations cg_parsers (tc_connections cg_config) = []"
  by (simp add: cg_connections connection_violations_def cg_normalised ends_with_provider_path_prefix_def strip_slash_def)

lemma cg_sections:
  "dbc_url (tc_database cg_config) = ''postgres://h/d''"
  "dbc_pool_mcp_max_connections (tc_database cg_config) = 8"
  "dbc_pool_worker_max_connections (tc_database cg_config) = 16"
  "tc_server cg_config = server_config_default" "tc_auth cg_config = auth_config_default"
  "tc_oauth cg_config = oauth_config_default" "tc_worker cg_config = worker_config_default"
  "tc_agents cg_config = agents_config_default" "tc_init cg_config = init_config_default"
  "tc_inference cg_config = inference_config_default" "tc_limits cg_config = limits_config_default"
  "tc_discovery cg_config = discovery_config_default" "tc_exploration cg_config = exploration_config_default"
  "lgc_level (tc_logging cg_config) = ''info''" "\<not> tlc_file_export (tc_telemetry cg_config)"
  by (simp_all add: cg_config_def minimum_valid_def tribal_config_default_def database_config_default_def
      logging_config_default_def telemetry_config_default_def resolve_directory_def cg_host_def Let_def)

lemma cg_valid: "config_diagnostics cg_parsers cg_config = []"
proof -
  have "validate_database cg_config = []" by (simp add: validate_database_def cg_sections)
  moreover have "validate_server cg_parsers cg_config = []"
    by (simp add: validate_server_def cg_sections server_config_default_def sse_config_default_def bounded_duration_def
        MAX_LIFECYCLE_DURATION_MS_def Let_def)
  moreover have "validate_auth cg_config = []"
    by (simp add: validate_auth_def cg_sections auth_config_default_def MAX_TTL_HOURS_def)
  moreover have "validate_oauth cg_parsers cg_config = []"
    by (simp add: validate_oauth_def cg_sections oauth_config_default_def server_config_default_def validate_issuer_url_def
        validate_resource_url_def validate_public_mcp_url_def MAX_OAUTH_ACCESS_TOKEN_TTL_HOURS_def
        MIN_AUTHORIZATION_CODE_TTL_SECONDS_def MAX_AUTHORIZATION_CODE_TTL_SECONDS_def Let_def)
  moreover have "worker_validate (tc_worker cg_config) = []"
    by (simp add: cg_sections worker_validate_def worker_config_default_def del: f64_less_fin f64_less_eq_fin)
  moreover have "agents_validate (tc_agents cg_config) = []"
    by (simp add: cg_sections agents_validate_Nil agents_config_default_def stage_agent_config_default_def)
  moreover have "validate_pool_sizing cg_config = []"
    by (simp add: validate_pool_sizing_def cg_sections worker_config_default_def u64_saturating_add_def
        POOL_CONNECTION_OVERHEAD_def)
  moreover have "validate_init cg_config = []"
    by (simp add: validate_init_def cg_sections init_config_default_def init_embedding_config_default_def
        validate_model_id_def is_whitespace_def Let_def)
  moreover have "validate_inference cg_config = []"
    by (simp add: validate_inference_def inference_stages_def cg_sections inference_config_default_def default_extraction_def
        default_triage_def default_relation_def validate_stage_def validate_model_id_def is_whitespace_def Let_def)
  moreover have "validate_provider_connections cg_parsers cg_config = []"
    unfolding validate_provider_connections_Nil
    by (simp add: cg_connection_violations) (simp add: cg_connections cg_sections pc_get_def inference_stages_def
      inference_config_default_def default_extraction_def default_triage_def default_relation_def init_config_default_def
      init_embedding_config_default_def DEFAULT_PROVIDER_CONNECTION_NAME_def)
  moreover have "validate_provider_limits cg_config = []"
    by (simp add: validate_provider_limits_Nil cg_sections limits_config_default_def worker_config_default_def Let_def)
  moreover have "validate_discovery cg_config = []"
    by (simp add: validate_discovery_def cg_sections discovery_config_default_def MAX_OVERFETCH_MULTIPLIER_def
        range_contains_def SIMILARITY_RANGE_def admits_above_def admits_below_def Let_def
        del: f64_less_fin f64_less_eq_fin)
  moreover have "validate_exploration cg_config = []"
    by (simp add: validate_exploration_def cg_sections exploration_config_default_def Let_def)
  moreover have "validate_logging cg_parsers cg_config = []" "validate_telemetry cg_config = []"
    by (simp_all add: validate_logging_def validate_telemetry_def cg_sections cg_parsers_def)
  ultimately show ?thesis unfolding config_diagnostics_Nil by blast
qed

lemma cg_accepted: "validate cg_parsers cg_config = Inr ()"
  by (simp add: validate_Inr cg_valid)

lemma validate_pool_sizing_Nil:
  assumes "dbc_pool_worker_max_connections (tc_database c) < 2 ^ 32"
  shows "validate_pool_sizing c = [] \<longleftrightarrow>
    wkc_max_concurrent_tasks (tc_worker c) + 4 \<le> dbc_pool_worker_max_connections (tc_database c)"
  using assms by (auto simp: validate_pool_sizing_def u64_saturating_add_def POOL_CONNECTION_OVERHEAD_def Let_def)

lemma preset_agents_valid: "agents_validate (preset_agents x) = []"
  by (simp add: agents_validate_Nil preset_agents_def stage_agent_config_default_def Let_def)

lemma apply_profile_parts:
  obtains a where "apply_processing_profile (processing_profile_of c) c = c\<lparr>tc_inference := tc_inference c, tc_agents := a\<rparr>"
    "agents_validate (tc_agents c) = [] \<Longrightarrow> agents_validate a = []"
proof (cases "processing_profile_of c")
  case (Efficient m)
  then have "tc_inference c = preset_inference m"
    by (auto simp: processing_profile_of_def preset_model_Some split: option.splits)
  then show ?thesis using that [of "preset_agents ExecOneShot"] Efficient
    by (simp add: preset_agents_valid)
next
  case (HigherQuality m)
  then have "tc_inference c = preset_inference m"
    by (auto simp: processing_profile_of_def preset_model_Some split: option.splits)
  then show ?thesis using that [of "preset_agents ExecLoop"] HigherQuality
    by (simp add: preset_agents_valid)
next
  case (Custom s)
  then have s: "s = custom_settings c" by (auto simp: processing_profile_of_def split: option.splits)
  let ?a = "\<lparr>agc_extraction = raw_extraction_execution (extraction_execution (agc_extraction (tc_agents c))),
    agc_triage = raw_verified_execution (verified_execution (agc_triage (tc_agents c))),
    agc_relation = raw_verified_execution (verified_execution (agc_relation (tc_agents c)))\<rparr>"
  show ?thesis
  proof (rule that [of ?a])
    show "apply_processing_profile (processing_profile_of c) c = c\<lparr>tc_inference := tc_inference c, tc_agents := ?a\<rparr>"
      by (cases "tc_inference c") (simp add: Custom s custom_settings_def)
    show "agents_validate ?a = []" if "agents_validate (tc_agents c) = []"
      using that by (auto simp: agents_validate_Nil extraction_execution_def verified_execution_def
          stage_agent_config_default_def split: executor_choice.split)
  qed
qed

lemma diagnostics_of_new_agents:
  assumes "config_diagnostics ps c = []" "agents_validate a = []"
  shows "config_diagnostics ps (c\<lparr>tc_inference := tc_inference c, tc_agents := a\<rparr>) = []"
  using assms unfolding config_diagnostics_Nil
  by (simp add: validate_database_def validate_server_def validate_auth_def validate_oauth_def validate_pool_sizing_def
      validate_init_def validate_inference_def validate_provider_connections_def validate_provider_limits_def
      validate_discovery_def validate_exploration_def validate_logging_def validate_telemetry_def)

section \<open>Properties\<close>

text \<open>C25: An accepted configuration has what the rest of the server takes for granted.
  Every stage and the genesis embedding resolve to a connection and, where the provider
  asks for one, a key; the genesis provider is local and embeds; an endpoint leads back
  to the one connection that owns it; leases are renewed and provider calls time out
  before their task does; the worker's pool has a connection for every task and four
  more.\<close>

theorem accepted_config_is_usable:
  assumes accepted: "validate ps c = Inr ()"
    and wf: "bt_wf (tc_connections c)" "keys_nonempty (tc_connections c)"
    and width: "dbc_pool_worker_max_connections (tc_database c) < 2 ^ 32"
  shows
    "(\<forall>(stage, cfg) \<in> set (inference_stages (tc_inference c)). \<exists>x.
        pc_get (tc_connections c) (sic_connection cfg) = Some x \<and>
        resolve_api_key (tc_connections c) (sic_connection cfg) = Inr (usable_key x) \<and>
        (requires_api_key (connection_provider x) \<longrightarrow> usable_key x \<noteq> [])) \<and>
     (\<exists>x. pc_get (tc_connections c) (iec_connection (inc_embedding (tc_init c))) = Some x \<and>
        supports_embedding (connection_provider x) \<and> connection_provider x \<noteq> Platform \<and>
        resolve_api_key (tc_connections c) (iec_connection (inc_embedding (tc_init c))) = Inr (usable_key x)) \<and>
     (\<forall>(name, x) \<in> set (tc_connections c). \<forall>p url.
        connection_endpoint ps x = Some (provider_kind_as_str p, url) \<longrightarrow>
        pc_resolve ps (tc_connections c) p url = Some (name, x)) \<and>
     wkc_heartbeat_interval_ms (tc_worker c) < wkc_task_timeout_ms (tc_worker c) \<and>
     (\<forall>(p, l) \<in> set (tc_limits c). 0 < plc_max_in_flight l \<and>
        plc_request_timeout_ms l < wkc_task_timeout_ms (tc_worker c)) \<and>
     wkc_max_concurrent_tasks (tc_worker c) + 4 \<le> dbc_pool_worker_max_connections (tc_database c)"
proof -
  note nil = accepted [unfolded validate_Inr config_diagnostics_Nil worker_validate_Nil
      validate_provider_connections_Nil validate_provider_limits_Nil validate_pool_sizing_Nil [OF width]]
  have ok: "connection_violations ps (tc_connections c) = []" using nil by simp
  note keys = resolve_api_key_ok [OF ok wf(2)]
  have "\<exists>x. pc_get (tc_connections c) (sic_connection cfg) = Some x \<and>
      resolve_api_key (tc_connections c) (sic_connection cfg) = Inr (usable_key x) \<and>
      (requires_api_key (connection_provider x) \<longrightarrow> usable_key x \<noteq> [])"
    if "(stage, cfg) \<in> set (inference_stages (tc_inference c))" for stage cfg
    using nil that keys by fastforce
  moreover have "pc_resolve ps (tc_connections c) p url = Some (name, x)"
    if "(name, x) \<in> set (tc_connections c)" "connection_endpoint ps x = Some (provider_kind_as_str p, url)"
    for name x p url
    using resolve_finds_owner [OF _ that] ok wf(1) by (auto simp: connection_violations_Nil bt_wf_distinct)
  moreover have "\<exists>x. pc_get (tc_connections c) (iec_connection (inc_embedding (tc_init c))) = Some x \<and>
        supports_embedding (connection_provider x) \<and> connection_provider x \<noteq> Platform \<and>
        resolve_api_key (tc_connections c) (iec_connection (inc_embedding (tc_init c))) = Inr (usable_key x)"
    using nil keys by blast
  ultimately show ?thesis using nil by fast
qed

theorem accepted_config_is_usable_witness:
  "wkc_max_concurrent_tasks (tc_worker cg_config) + 4 \<le> dbc_pool_worker_max_connections (tc_database cg_config) \<and>
   pc_resolve cg_parsers (tc_connections cg_config) Ollama ''http://localhost:11434'' =
     Some (''ollama_default'', OllamaConnection ''http://localhost:11434'')"
proof -
  have wf: "bt_wf (tc_connections cg_config)" "keys_nonempty (tc_connections cg_config)"
    "dbc_pool_worker_max_connections (tc_database cg_config) < 2 ^ 32"
    by (simp_all add: cg_connections cg_sections bt_wf_def keys_nonempty_def)
  have "(''ollama_default'', OllamaConnection ''http://localhost:11434'') \<in> set (tc_connections cg_config)"
    "connection_endpoint cg_parsers (OllamaConnection ''http://localhost:11434'') =
       Some (provider_kind_as_str Ollama, ''http://localhost:11434'')"
    by (simp_all add: cg_connections connection_endpoint_def cg_normalised)
  then show ?thesis
    using accepted_config_is_usable [OF cg_accepted wf] by blast
qed



text \<open>C40: Reading the configuration never discloses a secret: whatever the database URL
  and the keys that are present are replaced by, every read answers the same.\<close>

theorem reads_hide_secrets:
  "config_get_all (with_secrets url keys c) = config_get_all c \<and>
   config_get (with_secrets url keys c) key = config_get c key"
proof -
  have "redacted_document (with_secrets url keys c) = redacted_document c"
    by (simp add: redacted_document_masks mask_with_secrets)
  then show ?thesis by (simp add: config_get_all_def config_get_def)
qed

text \<open>C18: A patch that is accepted changes exactly what it names. The configuration it
  yields is valid and decoded from the document of the old one with the named values in
  place; and the file's own document, if anything in it changed, is replaced as a whole
  by one that differs in the named keys alone.\<close>

theorem patch_is_faithful:
  assumes run: "patch_in_document cd ps is_set oc config changes cli doc f = (Inr p, f')"
    and shape: "validate_patch_shape (map fst changes) = Inr ()"
    and wf: "bt_wf (tc_connections config)" "doc_wf doc" "\<forall>(k, v) \<in> set changes. doc_wf v"
  shows "validate ps (pp_config p) = Inr () \<and>
    (\<exists>tree. cd_from_value cd tree = Some (pp_config p) \<and> changes_made (config_to_value config) changes tree) \<and>
    (\<exists>doc'. changes_made doc changes doc' \<and>
      (case pp_document p of None \<Rightarrow> doc' = doc \<and> f' = f
       | Some bytes \<Rightarrow> cd_print cd doc' = Some bytes \<and> f' = FileBytes bytes))"
proof -
  obtain c where c: "patch_candidate cd ps (config_to_value config) changes = Inr c"
    using run by (auto simp: patch_in_document_def split: sum.splits)
  obtain doc' effects changed where d: "patch_document is_set cli doc changes = Inr (doc', effects, changed)"
    using run c by (auto simp: patch_in_document_def split: sum.splits)
  note doc' = patch_document_put [OF d wf(2,3)]
  have made: "changes_made doc changes doc'" using put_all_changes_made [OF _ wf(2,3) shape] doc' by blast
  obtain tree where tree: "apply_changes (config_to_value config) changes = Inr tree"
    "cd_from_value cd tree = Some c" "validate ps c = Inr ()"
    using c by (auto simp: patch_candidate_Inr)
  then have "changes_made (config_to_value config) changes tree"
    using put_all_changes_made [OF _ config_to_value_wf [OF wf(1)] wf(3) shape] by (simp add: apply_changes_put)
  moreover have "pp_config p = c \<and> (case pp_document p of None \<Rightarrow> doc' = doc \<and> f' = f
       | Some bytes \<Rightarrow> cd_print cd doc' = Some bytes \<and> f' = FileBytes bytes)"
  proof (cases changed)
    case True
    obtain r g where r: "store_document cd oc doc' f = (r, g)" by force
    from r run c d True obtain bytes where "r = Inr bytes" "g = f'" "pp_document p = Some bytes" "pp_config p = c"
      by (auto simp: patch_in_document_def split: sum.splits)
    with r show ?thesis by (auto elim: store_document_cases)
  next
    case False
    then show ?thesis using run c d doc' by (auto simp: patch_in_document_def)
  qed
  ultimately show ?thesis using tree made by blast
qed

text \<open>A codec whose printer spells every document the same way, and whose decoder reads the
  logging level alone.\<close>

definition cg_level :: "json \<Rightarrow> string option" where
  "cg_level j = Option.bind (lookup j ''logging.level'') json_str"

definition cg_codec :: codec where
  "cg_codec = \<lparr>cd_from_value = (\<lambda>j. map_option (\<lambda>l. cg_config\<lparr>tc_logging := (tc_logging cg_config)\<lparr>lgc_level := l\<rparr>\<rparr>) (cg_level j)),
     cd_parse = (\<lambda>_. Some (JObj [])), cd_print = (\<lambda>_. Some ''z'')\<rparr>"

lemma cg_codec_simps [simp]:
  "cd_from_value cg_codec j = map_option (\<lambda>l. cg_config\<lparr>tc_logging := (tc_logging cg_config)\<lparr>lgc_level := l\<rparr>\<rparr>) (cg_level j)"
  "cd_parse cg_codec y = Some (JObj [])" "cd_print cg_codec d = Some ''z''"
  by (simp_all add: cg_codec_def)

lemma cg_relevel: "validate cg_parsers (cg_config\<lparr>tc_logging := (tc_logging cg_config)\<lparr>lgc_level := l\<rparr>\<rparr>) = Inr ()"
  using cg_valid unfolding validate_Inr config_diagnostics_Nil
  by (simp add: validate_database_def validate_server_def validate_auth_def validate_oauth_def validate_pool_sizing_def
      validate_init_def validate_inference_def validate_provider_connections_def validate_provider_limits_def
      validate_discovery_def validate_exploration_def validate_logging_def validate_telemetry_def cg_parsers_def)

definition cg_patched :: tribal_config where
  "cg_patched = cg_config\<lparr>tc_logging := (tc_logging cg_config)\<lparr>lgc_level := ''debug''\<rparr>\<rparr>"

lemma cg_candidate:
  "doc_insert [''logging'', ''level''] (JStr ''debug'') (config_to_value cg_config) = Some tree \<Longrightarrow>
   cd_from_value cg_codec tree = Some cg_patched"
  using doc_insert_same [of "[''logging'', ''level'']" "JStr ''debug''" "config_to_value cg_config" tree]
  by (simp add: cg_level_def lookup_def cg_patched_def config_to_value_wf cg_connections bt_wf_def)

lemma cg_insert: "\<exists>tree. doc_insert [''logging'', ''level''] (JStr ''debug'') (config_to_value cg_config) = Some tree"
  by (simp add: config_to_value_def logging_to_value_def)

lemma cg_patch_runs:
  "patch_in_document cg_codec cg_parsers (\<lambda>_. False) Replaced cg_config [(''logging.level'', JStr ''debug'')] {} (JObj []) FileAbsent
   = (Inr \<lparr>pp_effects = [Live], pp_document = Some ''z'', pp_config = cg_patched\<rparr>, FileBytes ''z'')"
proof -
  obtain tree where tree: "doc_insert [''logging'', ''level''] (JStr ''debug'') (config_to_value cg_config) = Some tree"
    using cg_insert by blast
  have "patch_candidate cg_codec cg_parsers (config_to_value cg_config) [(''logging.level'', JStr ''debug'')] = Inr cg_patched"
    using cg_candidate [OF tree] cg_relevel [of "''debug''", folded cg_patched_def] tree
    by (simp add: patch_candidate_Inr apply_value_def del: cg_codec_simps)
  moreover have "reload_class_of ''logging.level'' = Hot" by (simp add: reload_class_of_def HOT_KEYS_def)
  ultimately show ?thesis
    by (simp add: patch_in_document_def apply_value_def lookup_def store_document_def write_effect_of_def shadowed_by_def
        ALIAS_ENV_VARS_def)
qed

theorem patch_is_faithful_witness:
  "validate cg_parsers cg_patched = Inr () \<and>
   (\<exists>doc'. lookup doc' ''logging.level'' = Some (JStr ''debug'') \<and> cd_print cg_codec doc' = Some ''z'')"
proof -
  have "validate_patch_shape (map fst [(''logging.level'', JStr ''debug'')]) = Inr ()"
    by (simp add: validate_patch_shape_def map_filter_simps)
  moreover have "bt_wf (tc_connections cg_config)" by (simp add: cg_connections bt_wf_def)
  ultimately show ?thesis
    using patch_is_faithful [OF cg_patch_runs] by (auto simp: changes_made_def)
qed

section \<open>Writes through the authority\<close>

lemma set_from_yaml_Inr:
  assumes "set_from_yaml cd ps is_set oc config yaml key v cli f = (Inr p, f')"
  shows "(pst_document p = None \<and> f' = f) \<or> (\<exists>bytes. pst_document p = Some bytes \<and> f' = FileBytes bytes)"
proof -
  obtain doc where "set_in_document cd ps is_set oc config key v cli doc f = (Inr p, f')"
    using assms by (auto simp: set_from_yaml_def split: sum.splits)
  from set_in_document_accepted(2) [OF this] show ?thesis by blast
qed

lemma repair_patch_Inr:
  assumes "repair_patch cd ps is_set oc h changes cli f = (Inr p, f')"
  shows "\<exists>bytes. pp_document p = Some bytes \<and> f' = FileBytes bytes"
proof -
  obtain tree doc c where "apply_to_both (config_to_value (tribal_config_default h)) (JObj []) changes = Inr (tree, doc)"
    "decode_candidate cd ps tree = Inr c"
    using assms by (auto simp: repair_patch_def split: sum.splits)
  moreover obtain r g where r: "store_document cd oc doc f = (r, g)" by force
  ultimately have "\<exists>bytes. r = Inr bytes \<and> pp_document p = Some bytes \<and> g = f'"
    using assms by (auto simp: repair_patch_def split: sum.splits)
  with r show ?thesis by (auto elim: store_document_cases)
qed

text \<open>A write that succeeds was computed from the bytes it names, and answers with the
  revision of the bytes it leaves.\<close>

lemma authority_set_Inr:
  assumes "authority_set e w r a = (Inr (eff, revn), a')"
  shows "\<exists>p. stable_winner (cae_x e) (wx_current w) = Inr p \<and> wr_expected r = pb_revision p \<and>
    ((revn = pb_revision p \<and> cfa_file a' = cfa_file a) \<or>
     (\<exists>bytes. cfa_file a' = FileBytes bytes \<and> revn = revision_for (cae_x e) bytes))"
proof -
  obtain a0 p where p: "reconcile_if_needed e (wx_reconcile w) a = (Inr (), a0)"
    "stable_winner (cae_x e) (wx_current w) = Inr p" "check_revision (wr_expected r) (pb_revision p) = Inr ()"
    using assms by (auto simp: authority_set_def split: sum.splits prod.splits)
  have a0: "cfa_file a0 = cfa_file a" using p(1) by (auto simp: reconcile_if_needed_def split: if_splits sum.splits)
  have expected: "wr_expected r = pb_revision p" using p(3) by (simp add: check_revision_def split: if_splits)
  show ?thesis
  proof (cases "load_valid e p")
    case (Inl err)
    obtain s f where s: "repair_patch (cae_codec e) (cae_parsers e) (cae_is_set e) (wx_replacement w) (cae_host e)
        [(wr_key r, wr_value r)] {} (cfa_file a0) = (s, f)" by force
    then obtain q where "s = Inr q" "revn = written_revision e p (pp_document q)" "a' = a0\<lparr>cfa_file := f\<rparr>"
      using assms p Inl by (auto simp: authority_set_def split: sum.splits prod.splits)
    moreover from this s have "\<exists>bytes. pp_document q = Some bytes \<and> f = FileBytes bytes" using repair_patch_Inr by blast
    ultimately show ?thesis using p(2) expected by (auto simp: written_revision_def)
  next
    case (Inr config)
    obtain s f where s: "set_from_yaml (cae_codec e) (cae_parsers e) (cae_is_set e) (wx_replacement w) config
        (pb_bytes p) (wr_key r) (wr_value r) {} (cfa_file a0) = (s, f)" by force
    then obtain q where "s = Inr q" "revn = written_revision e p (pst_document q)" "a' = a0\<lparr>cfa_file := f\<rparr>"
      using assms p Inr by (auto simp: authority_set_def split: sum.splits prod.splits)
    moreover from this s have "(pst_document q = None \<and> f = cfa_file a0) \<or>
        (\<exists>bytes. pst_document q = Some bytes \<and> f = FileBytes bytes)" using set_from_yaml_Inr by blast
    ultimately show ?thesis using p(2) expected a0 by (auto simp: written_revision_def)
  qed
qed

lemma authority_refuses_conflict:
  assumes "\<forall>p. stable_winner (cae_x e) (wx_current w) = Inr p \<longrightarrow> pb_revision p \<noteq> expected"
  shows "wr_expected r = expected \<Longrightarrow> (\<exists>err. fst (authority_set e w r a) = Inl err) \<and> cfa_file (snd (authority_set e w r a)) = cfa_file a"
    and "(\<exists>err. fst (authority_patch e w expected request a) = Inl err) \<and>
      cfa_file (snd (authority_patch e w expected request a)) = cfa_file a"
proof -
  have keep: "cfa_file (snd (reconcile_if_needed e atts a)) = cfa_file a" for atts
    by (auto simp: reconcile_if_needed_def split: sum.split)
  obtain s b where s: "reconcile_if_needed e (wx_reconcile w) a = (s, b)" by force
  have b: "cfa_file b = cfa_file a" using keep [of "wx_reconcile w"] s by simp
  show "wr_expected r = expected \<Longrightarrow> (\<exists>err. fst (authority_set e w r a) = Inl err) \<and> cfa_file (snd (authority_set e w r a)) = cfa_file a"
    using assms s b by (cases s; cases "stable_winner (cae_x e) (wx_current w)") (auto simp: authority_set_def check_revision_def)
  show "(\<exists>err. fst (authority_patch e w expected request a) = Inl err) \<and>
      cfa_file (snd (authority_patch e w expected request a)) = cfa_file a"
    using assms s b
    by (cases s; cases "stable_winner (cae_x e) (wx_current w)"; cases "validate_patch_shape (map fst request)")
       (auto simp: authority_patch_def check_revision_def)
qed

text \<open>What the double reads return is what the file holds.\<close>

definition shows_file :: "externals \<Rightarrow> attempt list \<Rightarrow> config_file \<Rightarrow> bool" where
  "shows_file x atts f \<longleftrightarrow> (\<forall>p. stable_winner x atts = Inr p \<longrightarrow> f = FileBytes (pb_bytes p))"

text \<open>C7: No update is lost. Once a write has changed the file, the next stable read
  proves the revision it answered with, and any other write or patch computed from the
  revision it replaced is refused and leaves the file alone.\<close>

theorem stale_writes_are_refused:
  assumes first: "authority_set e w r a = (Inr (eff, revn), a')" "revn \<noteq> wr_expected r"
    and shown: "shows_file (cae_x e) (wx_current w') (cfa_file a')"
    and stale: "wr_expected r' = wr_expected r"
  shows "(\<forall>p. stable_winner (cae_x e) (wx_current w') = Inr p \<longrightarrow> pb_revision p = revn) \<and>
    (\<exists>err. fst (authority_set e w' r' a') = Inl err) \<and> cfa_file (snd (authority_set e w' r' a')) = cfa_file a' \<and>
    (\<exists>err. fst (authority_patch e w' (wr_expected r) request a') = Inl err) \<and>
    cfa_file (snd (authority_patch e w' (wr_expected r) request a')) = cfa_file a'"
proof -
  obtain bytes where bytes: "cfa_file a' = FileBytes bytes" "revn = revision_for (cae_x e) bytes"
    using authority_set_Inr [OF first(1)] first(2) by auto
  have next_read: "\<forall>p. stable_winner (cae_x e) (wx_current w') = Inr p \<longrightarrow> pb_revision p = revn"
    using shown bytes stable_winner_revision by (fastforce simp: shows_file_def)
  then have "\<forall>p. stable_winner (cae_x e) (wx_current w') = Inr p \<longrightarrow> pb_revision p \<noteq> wr_expected r"
    using first(2) by blast
  from next_read authority_refuses_conflict [OF this] stale show ?thesis by metis
qed

text \<open>Two clients that read the same bytes and write in turn.\<close>

definition cg_externals :: externals where
  "cg_externals = \<lparr>x_sha256 = (\<lambda>t. map of_char t), x_base64url = (\<lambda>ns. map char_of ns), x_base64_text = (\<lambda>_. None),
     x_parse_url = (\<lambda>_. None), x_append_pairs = (\<lambda>_ _. []), x_category = (\<lambda>_. CategoryOther), x_render = (\<lambda>_. None)\<rparr>"

definition cg_env :: authority_env where
  "cg_env = \<lparr>cae_x = cg_externals, cae_codec = cg_codec, cae_parsers = cg_parsers, cae_is_set = (\<lambda>_. False),
     cae_load = (\<lambda>_. Some cg_config), cae_host = cg_host\<rparr>"

definition cg_reads :: "string \<Rightarrow> attempt list" where
  "cg_reads t = (let i = \<lparr>fid_device = 1, fid_inode = 1, fid_length = length t\<rparr> in
     [Observed \<lparr>ob_first_before = i, ob_first_bytes = t, ob_first_after = i, ob_second_before = i,
       ob_second_bytes = t, ob_second_after = i\<rparr>])"

definition cg_weather :: "string \<Rightarrow> weather" where
  "cg_weather t = \<lparr>wx_reconcile = [], wx_current = cg_reads t, wx_after = [], wx_replacement = Replaced\<rparr>"

definition cg_write :: write_request where
  "cg_write = \<lparr>wr_key = ''logging.level'', wr_value = JStr ''debug'', wr_expected = ''cfg_y''\<rparr>"

lemma cg_stable: "stable_winner cg_externals (cg_reads t) = Inr \<lparr>pb_bytes = t, pb_digest = ''cdig_'' @ t, pb_revision = ''cfg_'' @ t\<rparr>"
  by (simp add: cg_reads_def read_stable_once_def config_digest_def revision_from_digest_def proven_consistent_def
      cg_externals_def Let_def comp_def)

lemma cg_set_runs:
  "authority_set cg_env (cg_weather ''y'') cg_write \<lparr>cfa_file = FileBytes ''y'', cfa_uncertain = False\<rparr>
   = (Inr (OnNextStart, ''cfg_z''), \<lparr>cfa_file = FileBytes ''z'', cfa_uncertain = False\<rparr>)"
proof -
  obtain tree where tree: "doc_insert [''logging'', ''level''] (JStr ''debug'') (config_to_value cg_config) = Some tree"
    using cg_insert by blast
  have candidate: "validated_candidate cg_codec cg_parsers cg_config ''logging.level'' (JStr ''debug'') = Inr cg_patched"
    using cg_candidate [OF tree] cg_relevel [of "''debug''", folded cg_patched_def] tree
    by (simp add: validated_candidate_Inr del: cg_codec_simps)
  have "reload_class_of ''logging.level'' = Hot" by (simp add: reload_class_of_def HOT_KEYS_def)
  then have "set_from_yaml cg_codec cg_parsers (\<lambda>_. False) Replaced cg_config ''y'' ''logging.level'' (JStr ''debug'') {} (FileBytes ''y'')
    = (Inr \<lparr>pst_effect = Live, pst_document = Some ''z'', pst_config = cg_patched\<rparr>, FileBytes ''z'')"
    by (simp add: set_from_yaml_def parse_document_def set_in_document_def candidate lookup_def persistence_entry_def
        provider_connection_name_def persist_document_def apply_value_def store_document_def write_effect_of_def
        shadowed_by_def ALIAS_ENV_VARS_def)
  then show ?thesis
    by (simp add: authority_set_def reconcile_if_needed_def cg_weather_def cg_env_def cg_stable check_revision_def
        cg_write_def load_valid_def cg_accepted written_revision_def revision_for_def config_digest_def
        revision_from_digest_def) (simp add: cg_externals_def comp_def char_of_def bit_iff_odd)
qed

theorem stale_writes_are_refused_witness:
  "(\<exists>err. fst (authority_set cg_env (cg_weather ''z'') cg_write \<lparr>cfa_file = FileBytes ''z'', cfa_uncertain = False\<rparr>) = Inl err) \<and>
   (\<exists>err. fst (authority_patch cg_env (cg_weather ''z'') ''cfg_y'' [(''logging.level'', JNull)]
      \<lparr>cfa_file = FileBytes ''z'', cfa_uncertain = False\<rparr>) = Inl err)"
proof -
  have "shows_file (cae_x cg_env) (wx_current (cg_weather ''z'')) (FileBytes ''z'')"
    by (simp add: shows_file_def cg_env_def cg_weather_def cg_stable)
  then show ?thesis
    using stale_writes_are_refused [OF cg_set_runs, of "cg_weather ''z''" cg_write "[(''logging.level'', JNull)]"]
    by (simp add: cg_write_def)
qed

section \<open>Two places where the code departs from its comments\<close>

text \<open>The mask a read returns in place of the database URL is accepted as its new value
  and stored.\<close>

lemma mask_is_persisted:
  assumes "validated_candidate cd ps config ''database.url'' (JStr REDACTED) = Inr c"
    and "lookup doc ''database.url'' \<noteq> Some (JStr REDACTED)" "doc_wf doc"
    and "doc_insert (split_dots ''database.url'') (JStr REDACTED) doc = Some doc'" "cd_print cd doc' = Some bytes"
  shows "lookup doc' ''database.url'' = Some (JStr REDACTED) \<and>
    snd (set_in_document cd ps is_set Replaced config ''database.url'' (JStr REDACTED) cli doc f) = FileBytes bytes"
proof -
  have "lookup doc' ''database.url'' = Some (JStr REDACTED)"
    unfolding lookup_def by (rule doc_insert_same [OF assms(4,3)])
  then show ?thesis using assms
    by (simp add: set_in_document_def persistence_entry_def provider_connection_name_def persist_document_def
        apply_value_def store_document_def)
qed

lemma mask_is_valid:
  assumes "validate ps c = Inr ()"
  shows "validate ps (c\<lparr>tc_database := (tc_database c)\<lparr>dbc_url := REDACTED\<rparr>\<rparr>) = Inr ()"
  using assms unfolding validate_Inr config_diagnostics_Nil
  by (simp add: validate_database_def validate_server_def validate_auth_def validate_oauth_def validate_pool_sizing_def
      validate_init_def validate_inference_def validate_provider_connections_def validate_provider_limits_def
      validate_discovery_def validate_exploration_def validate_logging_def validate_telemetry_def REDACTED_def Let_def)

text \<open>A replacement that reached the file but could not be synced, followed by a read that
  fails, is reported as not committed.\<close>

lemma unreadable_replacement_reported_uncommitted:
  assumes "stable_winner (cae_x e) atts = Inl err"
  shows "fst (write_error e atts before SetIo a) = WriteFailed SetIo \<and>
    management_error_of (WriteFailed SetIo) = ConfigPersistenceUnavailable NotCommitted UnreadableObservation \<and>
    (store_document cd ReplacedUnsynced doc f = (Inl SetIo, FileBytes bytes) \<longleftrightarrow> cd_print cd doc = Some bytes)"
  using assms by (auto simp: write_error_def store_document_def split: option.split)

end
