(* ===== verification/JobPlane.thy ===== *)
theory JobPlane
  imports LeaseQueue
begin

text \<open>
  The job plane of managed runs (\<open>tribal-runtime-db\<close>), a database of its own:
  the queue \<open>run_job\<close> and the admission slots \<open>tenant_slot\<close>. Every statement
  of the two repositories, the admission walk, the crossings from the control
  plane, the erasure of an account. A column under a CHECK of closed texts is
  a datatype; a statement fails where a constraint of the migration refuses it.
\<close>

section \<open>Rows\<close>

datatype run_job_state = RjQueued | RjRunning | RjSuspended | RjSettling | RjDone | RjCancelled

datatype runtime_db_error = RdQueryFailed string | RdMalformed string

definition run_job_state_from_db :: "string \<Rightarrow> runtime_db_error + run_job_state" where
  "run_job_state_from_db v =
     (if v = ''queued'' then Inr RjQueued
      else if v = ''running'' then Inr RjRunning
      else if v = ''suspended'' then Inr RjSuspended
      else if v = ''settling'' then Inr RjSettling
      else if v = ''done'' then Inr RjDone
      else if v = ''cancelled'' then Inr RjCancelled
      else Inl (RdMalformed (''unknown run_job.state '' @ [CHR 0x27] @ v @ [CHR 0x27])))"

datatype post_running = PostSuspended | PostSettling | PostDone | PostCancelled

fun post_running_as_str :: "post_running \<Rightarrow> string" where
  "post_running_as_str PostSuspended = ''suspended''"
| "post_running_as_str PostSettling = ''settling''"
| "post_running_as_str PostDone = ''done''"
| "post_running_as_str PostCancelled = ''cancelled''"

text \<open>The state a row holds once the text of the exit has been written to it.\<close>

fun post_running_state :: "post_running \<Rightarrow> run_job_state" where
  "post_running_state PostSuspended = RjSuspended"
| "post_running_state PostSettling = RjSettling"
| "post_running_state PostDone = RjDone"
| "post_running_state PostCancelled = RjCancelled"

lemma post_running_written: "run_job_state_from_db (post_running_as_str p) = Inr (post_running_state p)"
  by (cases p) (simp_all add: run_job_state_from_db_def)

lemma post_running_exits [simp]:
  "post_running_state p \<noteq> RjRunning" "post_running_state p \<noteq> RjQueued"
  by (cases p; simp)+

record run_job =
  rj_id :: uuid
  rj_account :: string
  rj_kind :: string
  rj_payload :: json
  rj_key :: string
  rj_priority :: int
  rj_state :: run_job_state
  rj_cancel_requested :: bool
  rj_claim_token :: "uuid option"
  rj_lease :: "instant option"
  rj_created_at :: instant
  rj_updated_at :: instant

record tenant_slot =
  ts_account :: string
  ts_running :: int
  ts_cap :: int

record runtime_db =
  rd_jobs :: "run_job list"
  rd_slots :: "tenant_slot list"

type_synonym 'a rd_tx = "(runtime_db, runtime_db_error, 'a) tx"

definition empty_runtime_db :: runtime_db where
  "empty_runtime_db = \<lparr>rd_jobs = [], rd_slots = []\<rparr>"

record new_run_job =
  nrj_account :: string
  nrj_kind :: string
  nrj_payload :: json
  nrj_key :: string
  nrj_priority :: int

datatype enqueue_outcome = Enqueued uuid | Deduplicated uuid

fun enqueue_outcome_id :: "enqueue_outcome \<Rightarrow> uuid" where
  "enqueue_outcome_id (Enqueued i) = i"
| "enqueue_outcome_id (Deduplicated i) = i"

record claimed_job =
  cj_id :: uuid
  cj_account :: string
  cj_kind :: string
  cj_payload :: json
  cj_priority :: int
  cj_claim_token :: uuid
  cj_lease_expires_at :: instant

datatype write_outcome = Applied | OwnershipLostWrite

definition write_outcome_of :: "bool \<Rightarrow> write_outcome" where
  "write_outcome_of applied = (if applied then Applied else OwnershipLostWrite)"

text \<open>The lease in whole seconds, truncated towards zero.\<close>

definition lease_seconds :: "int \<Rightarrow> int" where
  "lease_seconds lease = (if lease < 0 then - ((- lease) div 1000000) else lease div 1000000)"

section \<open>Enqueueing and the fenced lifecycle\<close>

definition run_job_kinds :: "string list" where
  "run_job_kinds = [''consolidate'', ''cron'', ''probe'']"

definition run_job_row :: "env \<Rightarrow> uuid \<Rightarrow> new_run_job \<Rightarrow> run_job" where
  "run_job_row e i j = \<lparr>rj_id = i, rj_account = nrj_account j, rj_kind = nrj_kind j, rj_payload = nrj_payload j,
     rj_key = nrj_key j, rj_priority = nrj_priority j, rj_state = RjQueued, rj_cancel_requested = False,
     rj_claim_token = None, rj_lease = None, rj_created_at = env_now e, rj_updated_at = env_now e\<rparr>"

definition run_job_enqueue :: "env \<Rightarrow> uuid \<Rightarrow> new_run_job \<Rightarrow> enqueue_outcome rd_tx" where
  "run_job_enqueue e i j s =
     (if nrj_kind j \<notin> set run_job_kinds then Inl (RdQueryFailed ''enqueuing a job'')
      else (case find (\<lambda>r. rj_account r = nrj_account j \<and> rj_key r = nrj_key j) (rd_jobs s) of
          Some r \<Rightarrow> Inr (Deduplicated (rj_id r), s)
        | None \<Rightarrow> if sql_exists (\<lambda>r. rj_id r = i) (rd_jobs s) then Inl (RdQueryFailed ''enqueuing a job'')
            else Inr (Enqueued i, s\<lparr>rd_jobs := rd_jobs s @ [run_job_row e i j]\<rparr>)))"

definition holds_job :: "uuid \<Rightarrow> uuid \<Rightarrow> run_job \<Rightarrow> bool" where
  "holds_job i tok r \<longleftrightarrow> rj_id r = i \<and> rj_claim_token r = Some tok \<and> rj_state r = RjRunning"

definition run_job_heartbeat :: "env \<Rightarrow> uuid \<Rightarrow> uuid \<Rightarrow> int \<Rightarrow> write_outcome rd_tx" where
  "run_job_heartbeat e i tok lease s =
     Inr (write_outcome_of (sql_exists (holds_job i tok) (rd_jobs s)),
       s\<lparr>rd_jobs := sql_update (holds_job i tok)
           (\<lambda>r. r\<lparr>rj_lease := Some (env_now e + seconds (lease_seconds lease)), rj_updated_at := env_now e\<rparr>) (rd_jobs s)\<rparr>)"

definition release_slot :: "string \<Rightarrow> unit rd_tx" where
  "release_slot account s =
     Inr ((), s\<lparr>rd_slots := sql_update (\<lambda>t. ts_account t = account \<and> ts_running t > 0)
       (\<lambda>t. t\<lparr>ts_running := ts_running t - 1\<rparr>) (rd_slots s)\<rparr>)"

text \<open>The exit from running: the row under the fence, then the slot, in one transaction.\<close>

definition exit_running :: "env \<Rightarrow> uuid \<Rightarrow> uuid \<Rightarrow> post_running \<Rightarrow> string option rd_tx" where
  "exit_running e i tok p s =
     Inr (map_option rj_account (find (holds_job i tok) (rd_jobs s)),
       s\<lparr>rd_jobs := sql_update (holds_job i tok)
           (\<lambda>r. r\<lparr>rj_state := post_running_state p, rj_claim_token := None, rj_lease := None,
              rj_updated_at := env_now e\<rparr>) (rd_jobs s)\<rparr>)"

definition leave_running_txn :: "env \<Rightarrow> uuid \<Rightarrow> uuid \<Rightarrow> post_running \<Rightarrow> write_outcome ending rd_tx" where
  "leave_running_txn e i tok p =
     tx_bind (exit_running e i tok p) (\<lambda>account.
     case account of
       None \<Rightarrow> tx_return (Rollback OwnershipLostWrite)
     | Some a \<Rightarrow> tx_then (release_slot a) (tx_return (Commit Applied)))"

definition leave_running :: "env \<Rightarrow> uuid \<Rightarrow> uuid \<Rightarrow> post_running \<Rightarrow> (runtime_db, runtime_db_error, write_outcome) proc" where
  "leave_running e i tok p = run_txn (leave_running_txn e i tok p)"

text \<open>Reclaim is one statement: stale rows are requeued and their slots released by count.\<close>

definition stale_jobs :: "env \<Rightarrow> (uuid \<Rightarrow> bool) \<Rightarrow> nat \<Rightarrow> runtime_db \<Rightarrow> run_job list" where
  "stale_jobs e locked limit s =
     sql_select_ordered (\<lambda>r. rj_state r = RjRunning \<and> \<not> locked (rj_id r) \<and>
       (case rj_lease r of None \<Rightarrow> False | Some t \<Rightarrow> t < env_now e)) rj_lease limit (rd_jobs s)"

definition requeued_row :: "env \<Rightarrow> run_job \<Rightarrow> run_job" where
  "requeued_row e r = r\<lparr>rj_state := RjQueued, rj_claim_token := None, rj_lease := None, rj_updated_at := env_now e\<rparr>"

definition released_slot :: "run_job list \<Rightarrow> tenant_slot \<Rightarrow> tenant_slot" where
  "released_slot stale t =
     (let n = int (length (filter (\<lambda>r. rj_account r = ts_account t) stale)) in
      if n > 0 \<and> ts_running t \<ge> n then t\<lparr>ts_running := ts_running t - n\<rparr> else t)"

definition reclaim_expired :: "env \<Rightarrow> (uuid \<Rightarrow> bool) \<Rightarrow> nat \<Rightarrow> uuid list rd_tx" where
  "reclaim_expired e locked limit s =
     (let stale = stale_jobs e locked limit s in
      Inr (map rj_id stale,
        s\<lparr>rd_jobs := sql_update (\<lambda>r. rj_id r \<in> rj_id ` set stale) (requeued_row e) (rd_jobs s),
          rd_slots := map (released_slot stale) (rd_slots s)\<rparr>))"

definition request_cancel :: "env \<Rightarrow> uuid \<Rightarrow> bool rd_tx" where
  "request_cancel e i s =
     Inr (sql_exists (\<lambda>r. rj_id r = i) (rd_jobs s),
       s\<lparr>rd_jobs := sql_update (\<lambda>r. rj_id r = i) (\<lambda>r. r\<lparr>rj_cancel_requested := True, rj_updated_at := env_now e\<rparr>) (rd_jobs s)\<rparr>)"

definition cancel_requested :: "uuid \<Rightarrow> runtime_db \<Rightarrow> bool" where
  "cancel_requested i s =
     (case find (\<lambda>r. rj_id r = i) (rd_jobs s) of None \<Rightarrow> False | Some r \<Rightarrow> rj_cancel_requested r)"

definition run_job_wake :: "env \<Rightarrow> uuid \<Rightarrow> bool rd_tx" where
  "run_job_wake e i s =
     Inr (sql_exists (\<lambda>r. rj_id r = i \<and> rj_state r = RjSuspended) (rd_jobs s),
       s\<lparr>rd_jobs := sql_update (\<lambda>r. rj_id r = i \<and> rj_state r = RjSuspended)
           (\<lambda>r. r\<lparr>rj_state := RjQueued, rj_updated_at := env_now e\<rparr>) (rd_jobs s)\<rparr>)"

definition run_job_state_of :: "uuid \<Rightarrow> runtime_db \<Rightarrow> run_job_state option" where
  "run_job_state_of i s = map_option rj_state (find (\<lambda>r. rj_id r = i) (rd_jobs s))"

definition find_suspended_cancel_requested :: "(uuid \<Rightarrow> bool) \<Rightarrow> nat \<Rightarrow> runtime_db \<Rightarrow> uuid list" where
  "find_suspended_cancel_requested locked limit s =
     map rj_id (sql_select_ordered (\<lambda>r. rj_state r = RjSuspended \<and> rj_cancel_requested r \<and> \<not> locked (rj_id r))
       rj_updated_at limit (rd_jobs s))"

section \<open>Admission\<close>

definition candidate_tenant :: "string list \<Rightarrow> runtime_db \<Rightarrow> string option" where
  "candidate_tenant exhausted s =
     (case sql_select_ordered (\<lambda>r. rj_state r = RjQueued \<and> rj_account r \<notin> set exhausted) rj_created_at 1 (rd_jobs s) of
        [] \<Rightarrow> None | r # _ \<Rightarrow> Some (rj_account r))"

definition ensure_slot :: "int \<Rightarrow> string \<Rightarrow> unit rd_tx" where
  "ensure_slot default_cap account s =
     (if default_cap < 0 then Inl (RdQueryFailed ''ensuring a tenant slot'')
      else Inr ((), if sql_exists (\<lambda>t. ts_account t = account) (rd_slots s) then s
        else s\<lparr>rd_slots := rd_slots s @ [\<lparr>ts_account = account, ts_running = 0, ts_cap = default_cap\<rparr>]\<rparr>))"

definition has_room :: "string \<Rightarrow> tenant_slot \<Rightarrow> bool" where
  "has_room account t \<longleftrightarrow> ts_account t = account \<and> ts_running t < ts_cap t"

definition take_slot :: "string \<Rightarrow> bool rd_tx" where
  "take_slot account s =
     Inr (sql_exists (has_room account) (rd_slots s),
       s\<lparr>rd_slots := sql_update (has_room account) (\<lambda>t. t\<lparr>ts_running := ts_running t + 1\<rparr>) (rd_slots s)\<rparr>)"

text \<open>\<open>ORDER BY priority DESC, created_at\<close>.\<close>

definition next_job :: "(uuid \<Rightarrow> bool) \<Rightarrow> string \<Rightarrow> runtime_db \<Rightarrow> run_job option" where
  "next_job locked account s =
     (case sql_select_ordered (\<lambda>r. rj_state r = RjQueued \<and> rj_account r = account \<and> \<not> locked (rj_id r))
         (\<lambda>r. (- rj_priority r, rj_created_at r)) 1 (rd_jobs s) of
        [] \<Rightarrow> None | r # _ \<Rightarrow> Some r)"

definition mark_job_running :: "env \<Rightarrow> uuid \<Rightarrow> uuid \<Rightarrow> int \<Rightarrow> instant rd_tx" where
  "mark_job_running e i tok lease s =
     (let expires = env_now e + seconds (lease_seconds lease) in
      Inr (expires, s\<lparr>rd_jobs := sql_update (\<lambda>r. rj_id r = i)
        (\<lambda>r. r\<lparr>rj_state := RjRunning, rj_claim_token := Some tok, rj_lease := Some expires, rj_updated_at := env_now e\<rparr>)
        (rd_jobs s)\<rparr>))"

text \<open>One turn of the walk: \<open>Some None\<close> has ruled the tenant out.\<close>

definition admit_tenant :: "env \<Rightarrow> (uuid \<Rightarrow> bool) \<Rightarrow> (uuid \<Rightarrow> uuid) \<Rightarrow> int \<Rightarrow> int \<Rightarrow> string \<Rightarrow> claimed_job option rd_tx" where
  "admit_tenant e locked fresh default_cap lease account =
     tx_then (ensure_slot default_cap account)
    (tx_bind (take_slot account) (\<lambda>took.
     if \<not> took then tx_return None
     else tx_bind (tx_read (next_job locked account)) (\<lambda>job.
       case job of
         None \<Rightarrow> tx_then (release_slot account) (tx_return None)
       | Some r \<Rightarrow> tx_bind (mark_job_running e (rj_id r) (fresh (rj_id r)) lease) (\<lambda>expires.
           tx_return (Some \<lparr>cj_id = rj_id r, cj_account = account, cj_kind = rj_kind r, cj_payload = rj_payload r,
             cj_priority = rj_priority r, cj_claim_token = fresh (rj_id r), cj_lease_expires_at = expires\<rparr>)))))"

definition waiting_tenants :: "string list \<Rightarrow> runtime_db \<Rightarrow> string set" where
  "waiting_tenants exhausted s = {rj_account r | r. r \<in> set (rd_jobs s) \<and> rj_state r = RjQueued} - set exhausted"

lemma candidate_tenant_waits: "candidate_tenant ex s = Some a \<Longrightarrow> a \<in> waiting_tenants ex s"
  using set_sql_select_ordered [of "\<lambda>r. rj_state r = RjQueued \<and> rj_account r \<notin> set ex" rj_created_at 1 "rd_jobs s"]
  by (fastforce simp: candidate_tenant_def waiting_tenants_def split: list.splits)

lemma finite_waiting [simp]: "finite (waiting_tenants ex s)"
  by (simp add: waiting_tenants_def)

lemma admit_none_jobs:
  "admit_tenant e locked fresh dc lease a s = Inr (None, t) \<Longrightarrow> rd_jobs t = rd_jobs s"
  by (auto simp: admit_tenant_def tx_success tx_return_Inr tx_read_Inr ensure_slot_def take_slot_def release_slot_def
      split: if_splits option.splits)

function claim_walk :: "env \<Rightarrow> (uuid \<Rightarrow> bool) \<Rightarrow> (uuid \<Rightarrow> uuid) \<Rightarrow> int \<Rightarrow> int \<Rightarrow> string list \<Rightarrow> runtime_db
    \<Rightarrow> runtime_db_error + (claimed_job option \<times> runtime_db)" where
  "claim_walk e locked fresh default_cap lease exhausted s =
     (case candidate_tenant exhausted s of
        None \<Rightarrow> Inr (None, s)
      | Some account \<Rightarrow> (case admit_tenant e locked fresh default_cap lease account s of
          Inl err \<Rightarrow> Inl err
        | Inr (Some job, t) \<Rightarrow> Inr (Some job, t)
        | Inr (None, t) \<Rightarrow> claim_walk e locked fresh default_cap lease (exhausted @ [account]) t))"
  by pat_completeness auto
termination
proof (relation "measure (\<lambda>(e, locked, fresh, dc, lease, ex, s). card (waiting_tenants ex s))")
  fix e :: env and locked fresh dc lease ex s a r p z t
  assume *: "candidate_tenant ex s = Some a" "admit_tenant e locked fresh dc lease a s = Inr p" "(z, t) = p" "z = None"
  have "rd_jobs t = rd_jobs s" using * by (auto dest: admit_none_jobs)
  then have "waiting_tenants (ex @ [a]) t = waiting_tenants ex s - {a}"
    by (auto simp: waiting_tenants_def)
  with candidate_tenant_waits [OF *(1)]
  show "((e, locked, fresh, dc, lease, ex @ [a], t), (e, locked, fresh, dc, lease, ex, s))
      \<in> measure (\<lambda>(e, locked, fresh, dc, lease, ex, s). card (waiting_tenants ex s))"
    using card_Diff1_less [OF finite_waiting, of a ex s] by simp
qed simp

declare claim_walk.simps [simp del]

text \<open>A walk that claims nothing is rolled back, with the slots it created.\<close>

definition claim_txn :: "env \<Rightarrow> (uuid \<Rightarrow> bool) \<Rightarrow> (uuid \<Rightarrow> uuid) \<Rightarrow> int \<Rightarrow> int \<Rightarrow> claimed_job option ending rd_tx" where
  "claim_txn e locked fresh default_cap lease =
     tx_bind (claim_walk e locked fresh default_cap lease []) (\<lambda>job.
     tx_return (case job of Some j \<Rightarrow> Commit (Some j) | None \<Rightarrow> Rollback None))"

definition run_job_claim :: "env \<Rightarrow> (uuid \<Rightarrow> bool) \<Rightarrow> (uuid \<Rightarrow> uuid) \<Rightarrow> int \<Rightarrow> int
    \<Rightarrow> (runtime_db, runtime_db_error, claimed_job option) proc" where
  "run_job_claim e locked fresh default_cap lease = run_txn (claim_txn e locked fresh default_cap lease)"

section \<open>Slots, crossings, erasure\<close>

definition apply_cap_sync :: "string \<Rightarrow> int \<Rightarrow> unit rd_tx" where
  "apply_cap_sync account cap s =
     (if cap < 0 then Inl (RdQueryFailed ''applying a cap sync'')
      else Inr ((), if sql_exists (\<lambda>t. ts_account t = account) (rd_slots s)
        then s\<lparr>rd_slots := sql_update (\<lambda>t. ts_account t = account) (\<lambda>t. t\<lparr>ts_cap := cap\<rparr>) (rd_slots s)\<rparr>
        else s\<lparr>rd_slots := rd_slots s @ [\<lparr>ts_account = account, ts_running = 0, ts_cap = cap\<rparr>]\<rparr>))"

definition slot_get :: "string \<Rightarrow> runtime_db \<Rightarrow> (int \<times> int) option" where
  "slot_get account s = map_option (\<lambda>t. (ts_running t, ts_cap t)) (find (\<lambda>t. ts_account t = account) (rd_slots s))"

datatype job_kind = JobConsolidate | JobCron | JobProbe

fun kind_str :: "job_kind \<Rightarrow> string" where
  "kind_str JobConsolidate = ''consolidate''"
| "kind_str JobCron = ''cron''"
| "kind_str JobProbe = ''probe''"

record job_enqueue =
  je_kind :: job_kind
  je_payload :: json
  je_key :: string
  je_priority :: int

definition enqueue_job :: "env \<Rightarrow> uuid \<Rightarrow> string \<Rightarrow> job_enqueue \<Rightarrow> enqueue_outcome rd_tx" where
  "enqueue_job e i account j = run_job_enqueue e i \<lparr>nrj_account = account, nrj_kind = kind_str (je_kind j),
     nrj_payload = je_payload j, nrj_key = je_key j, nrj_priority = je_priority j\<rparr>"

definition cap_to_i32 :: "nat \<Rightarrow> int" where
  "cap_to_i32 cap = (if cap < 2 ^ 31 then int cap else 2 ^ 31 - 1)"

definition sync_cap :: "string \<Rightarrow> nat \<Rightarrow> unit rd_tx" where
  "sync_cap account cap = apply_cap_sync account (cap_to_i32 cap)"

record grant_set =
  gs_account :: string
  gs_principal :: "string option"
  gs_tools :: "string list"

definition mint_grant :: "claimed_job \<Rightarrow> grant_set" where
  "mint_grant c = \<lparr>gs_account = cj_account c, gs_principal = None, gs_tools = []\<rparr>"

definition purge_txn :: "string \<Rightarrow> nat ending rd_tx" where
  "purge_txn account s =
     Inr (Commit (sql_count (\<lambda>r. rj_account r = account) (rd_jobs s)),
       s\<lparr>rd_jobs := filter (\<lambda>r. rj_account r \<noteq> account) (rd_jobs s),
         rd_slots := filter (\<lambda>t. ts_account t \<noteq> account) (rd_slots s)\<rparr>)"

definition purge_account :: "string \<Rightarrow> (runtime_db, runtime_db_error, nat) proc" where
  "purge_account account = run_txn (purge_txn account)"

end
