(* ===== verification/Admission.thy ===== *)
theory Admission
  imports JobPlane
begin

text \<open>
  The accounts of the job plane. A tenant's slot counts exactly its running
  jobs after every operation, so admission keeps to the cap; the walk finds a
  job whenever some tenant has both room and an unlocked queued job, and
  prefers the tenant that has waited longest. The queue keeps the contract
  of \<open>LeaseQueue\<close>.
\<close>

section \<open>Counting\<close>

definition job_runs :: "string \<Rightarrow> run_job \<Rightarrow> bool" where
  "job_runs a r \<longleftrightarrow> rj_account r = a \<and> rj_state r = RjRunning"

definition running_jobs :: "string \<Rightarrow> run_job list \<Rightarrow> nat" where
  "running_jobs a rows = length (filter (job_runs a) rows)"

definition slot_of :: "string \<Rightarrow> tenant_slot list \<Rightarrow> tenant_slot option" where
  "slot_of a slots = find (\<lambda>t. ts_account t = a) slots"

definition slot_running :: "string \<Rightarrow> tenant_slot list \<Rightarrow> int" where
  "slot_running a slots = (case slot_of a slots of None \<Rightarrow> 0 | Some t \<Rightarrow> ts_running t)"

lemma running_jobs_leave:
  assumes "\<And>r. P r \<Longrightarrow> rj_state r = RjRunning" "\<And>r. P r \<Longrightarrow> rj_state (f r) \<noteq> RjRunning"
  shows "int (running_jobs a (sql_update P f rows)) =
    int (running_jobs a rows) - int (length (filter (\<lambda>r. P r \<and> rj_account r = a) rows))"
  by (induction rows) (auto simp: running_jobs_def sql_simps job_runs_def assms)

lemma running_jobs_enter:
  assumes "\<And>r. P r \<Longrightarrow> rj_account (f r) = rj_account r" "\<And>r. P r \<Longrightarrow> rj_state (f r) = RjRunning"
    "\<And>r. r \<in> set rows \<Longrightarrow> P r \<Longrightarrow> rj_state r \<noteq> RjRunning"
  shows "running_jobs a (sql_update P f rows) =
    running_jobs a rows + length (filter (\<lambda>r. P r \<and> rj_account r = a) rows)"
  using assms(3) by (induction rows) (auto simp: running_jobs_def sql_simps job_runs_def assms(1,2))

lemma running_jobs_same:
  assumes "\<And>r. P r \<Longrightarrow> job_runs a (f r) = job_runs a r"
  shows "running_jobs a (sql_update P f rows) = running_jobs a rows"
  by (induction rows) (auto simp: running_jobs_def sql_simps assms)

lemma filter_by_id:
  "distinct (map rj_id rows) \<Longrightarrow> r \<in> set rows \<Longrightarrow> filter (\<lambda>x. rj_id x = rj_id r \<and> Q x) rows = (if Q r then [r] else [])"
  by (induction rows) (auto simp: filter_empty_conv image_iff)

lemma slot_of_map:
  "(\<And>t. ts_account (f t) = ts_account t) \<Longrightarrow> slot_of a (map f slots) = map_option f (slot_of a slots)"
  by (induction slots) (auto simp: slot_of_def)

lemma slot_of_update:
  "(\<And>t. ts_account (f t) = ts_account t) \<Longrightarrow>
     slot_of a (sql_update P f slots) = map_option (\<lambda>t. if P t then f t else t) (slot_of a slots)"
  unfolding sql_update_def by (rule slot_of_map) simp

lemma slot_of_append:
  "slot_of a (slots @ [t]) = (case slot_of a slots of None \<Rightarrow> if ts_account t = a then Some t else None | Some u \<Rightarrow> Some u)"
  by (induction slots) (auto simp: slot_of_def)

lemma slot_of_Some: "slot_of a slots = Some t \<Longrightarrow> t \<in> set slots \<and> ts_account t = a"
  by (auto simp: slot_of_def dest: find_Some_set)

lemma slot_of_None: "slot_of a slots = None \<longleftrightarrow> a \<notin> ts_account ` set slots"
  by (auto simp: slot_of_def find_None_iff)

lemma slot_of_unique: "distinct (map ts_account slots) \<Longrightarrow> t \<in> set slots \<Longrightarrow> slot_of (ts_account t) slots = Some t"
  by (simp add: slot_of_def find_distinct [where k = ts_account])

section \<open>The invariant\<close>

definition job_row_ok :: "run_job \<Rightarrow> bool" where
  "job_row_ok r \<longleftrightarrow> (rj_state r = RjRunning \<longleftrightarrow> rj_claim_token r \<noteq> None) \<and>
     (rj_state r = RjRunning \<longleftrightarrow> rj_lease r \<noteq> None)"

definition plane_ok :: "runtime_db \<Rightarrow> bool" where
  "plane_ok s \<longleftrightarrow> distinct (map rj_id (rd_jobs s)) \<and>
     distinct (map (\<lambda>r. (rj_account r, rj_key r)) (rd_jobs s)) \<and>
     distinct (map ts_account (rd_slots s)) \<and>
     (\<forall>r \<in> set (rd_jobs s). job_row_ok r) \<and>
     (\<forall>t \<in> set (rd_slots s). 0 \<le> ts_cap t) \<and>
     (\<forall>a. slot_running a (rd_slots s) = int (running_jobs a (rd_jobs s)))"

lemma plane_okI:
  assumes "plane_ok s" "map rj_id jobs = map rj_id (rd_jobs s)"
    "map (\<lambda>r. (rj_account r, rj_key r)) jobs = map (\<lambda>r. (rj_account r, rj_key r)) (rd_jobs s)"
    "map ts_account slots = map ts_account (rd_slots s)"
    "\<And>r. r \<in> set jobs \<Longrightarrow> job_row_ok r"
    "\<And>t. t \<in> set slots \<Longrightarrow> 0 \<le> ts_cap t"
    "\<And>a. slot_running a slots = int (running_jobs a jobs)"
  shows "plane_ok (s\<lparr>rd_jobs := jobs, rd_slots := slots\<rparr>)"
  using assms by (simp add: plane_ok_def)

lemma plane_ok_jobs:
  assumes "plane_ok s" "map rj_id jobs = map rj_id (rd_jobs s)"
    "map (\<lambda>r. (rj_account r, rj_key r)) jobs = map (\<lambda>r. (rj_account r, rj_key r)) (rd_jobs s)"
    "\<And>r. r \<in> set jobs \<Longrightarrow> job_row_ok r"
    "\<And>a. running_jobs a jobs = running_jobs a (rd_jobs s)"
  shows "plane_ok (s\<lparr>rd_jobs := jobs\<rparr>)"
  using assms by (simp add: plane_ok_def)

lemma plane_ok_row: "plane_ok s \<Longrightarrow> r \<in> set (rd_jobs s) \<Longrightarrow> job_row_ok r"
  by (simp add: plane_ok_def)

lemma plane_ok_cap: "plane_ok s \<Longrightarrow> t \<in> set (rd_slots s) \<Longrightarrow> 0 \<le> ts_cap t"
  by (simp add: plane_ok_def)

lemma plane_ok_distinct: "plane_ok s \<Longrightarrow> distinct (map rj_id (rd_jobs s))"
  by (simp add: plane_ok_def)

lemma plane_ok_count: "plane_ok s \<Longrightarrow> slot_running a (rd_slots s) = int (running_jobs a (rd_jobs s))"
  by (simp add: plane_ok_def)

lemma plane_ok_empty: "plane_ok empty_runtime_db"
  by (simp add: plane_ok_def empty_runtime_db_def slot_running_def slot_of_def running_jobs_def)

section \<open>Every operation keeps the accounts\<close>

lemma enqueue_ok:
  assumes ok: "plane_ok s" and run: "run_job_enqueue e i j s = Inr (out, s')"
  shows "plane_ok s'"
proof (cases "find (\<lambda>r. rj_account r = nrj_account j \<and> rj_key r = nrj_key j) (rd_jobs s)")
  case None
  then have fresh: "(nrj_account j, nrj_key j) \<notin> (\<lambda>r. (rj_account r, rj_key r)) ` set (rd_jobs s)"
    by (auto simp: find_None_iff)
  have s': "s' = s\<lparr>rd_jobs := rd_jobs s @ [run_job_row e i j]\<rparr>" "i \<notin> rj_id ` set (rd_jobs s)"
    using run None by (auto simp: run_job_enqueue_def sql_exists_iff split: if_splits)
  have "running_jobs a (rd_jobs s @ [run_job_row e i j]) = running_jobs a (rd_jobs s)" for a
    by (simp add: running_jobs_def job_runs_def run_job_row_def)
  then show ?thesis
    using ok s'(2) fresh unfolding s'(1)
    by (auto simp: plane_ok_def job_row_ok_def run_job_row_def)
next
  case (Some r)
  then show ?thesis using ok run by (auto simp: run_job_enqueue_def split: if_splits)
qed

text \<open>A write that keeps who runs keeps the accounts.\<close>

lemma plane_ok_update:
  assumes ok: "plane_ok s"
    and keys: "\<And>r. rj_id (f r) = rj_id r" "\<And>r. rj_account (f r) = rj_account r" "\<And>r. rj_key (f r) = rj_key r"
    and row: "\<And>r. P r \<Longrightarrow> job_row_ok r \<Longrightarrow> job_row_ok (f r)"
    and runs: "\<And>r. P r \<Longrightarrow> rj_state (f r) = RjRunning \<longleftrightarrow> rj_state r = RjRunning"
  shows "plane_ok (s\<lparr>rd_jobs := sql_update P f (rd_jobs s)\<rparr>)"
proof (rule plane_ok_jobs [OF ok])
  show "job_row_ok r" if "r \<in> set (sql_update P f (rd_jobs s))" for r
    using that row plane_ok_row [OF ok] by (elim sql_update_cases) auto
  show "running_jobs a (sql_update P f (rd_jobs s)) = running_jobs a (rd_jobs s)" for a
    using runs keys by (intro running_jobs_same) (simp add: job_runs_def)
qed (simp_all add: sql_update_map_key keys)

lemma heartbeat_ok:
  assumes "plane_ok s" "run_job_heartbeat e i tok lease s = Inr (out, s')"
  shows "plane_ok s'"
  using assms plane_ok_update [OF assms(1), of
      "\<lambda>r. r\<lparr>rj_lease := Some (env_now e + seconds (lease_seconds lease)), rj_updated_at := env_now e\<rparr>" "holds_job i tok"]
  by (auto simp: run_job_heartbeat_def holds_job_def job_row_ok_def)

lemma request_cancel_ok:
  assumes "plane_ok s" "request_cancel e i s = Inr (out, s')"
  shows "plane_ok s'"
  using assms plane_ok_update [OF assms(1), of
      "\<lambda>r. r\<lparr>rj_cancel_requested := True, rj_updated_at := env_now e\<rparr>" "\<lambda>r. rj_id r = i"]
  by (auto simp: request_cancel_def job_row_ok_def)

lemma wake_ok:
  assumes "plane_ok s" "run_job_wake e i s = Inr (out, s')"
  shows "plane_ok s'"
  using assms plane_ok_update [OF assms(1), of
      "\<lambda>r. r\<lparr>rj_state := RjQueued, rj_updated_at := env_now e\<rparr>" "\<lambda>r. rj_id r = i \<and> rj_state r = RjSuspended"]
  by (auto simp: run_job_wake_def job_row_ok_def)

text \<open>Leaving the running state.\<close>

lemma holder_unique:
  assumes "plane_ok s" "r \<in> set (rd_jobs s)" "holds_job i tok r"
  shows "find (holds_job i tok) (rd_jobs s) = Some r"
    "filter (\<lambda>x. holds_job i tok x \<and> rj_account x = a) (rd_jobs s) = (if rj_account r = a then [r] else [])"
proof -
  have *: "holds_job i tok x \<longleftrightarrow> rj_id x = rj_id r" if "x \<in> set (rd_jobs s)" for x
    using assms(2,3) that distinct_map_key_eq [OF plane_ok_distinct [OF assms(1)]] by (auto simp: holds_job_def)
  have "find (holds_job i tok) (rd_jobs s) = find (\<lambda>x. rj_id x = rj_id r) (rd_jobs s)"
    using * by (intro find_cong) auto
  then show "find (holds_job i tok) (rd_jobs s) = Some r"
    using find_distinct [OF plane_ok_distinct [OF assms(1)] assms(2)] by simp
  have "filter (\<lambda>x. holds_job i tok x \<and> rj_account x = a) (rd_jobs s)
      = filter (\<lambda>x. rj_id x = rj_id r \<and> rj_account x = a) (rd_jobs s)"
    using * by (intro filter_cong) auto
  then show "filter (\<lambda>x. holds_job i tok x \<and> rj_account x = a) (rd_jobs s) = (if rj_account r = a then [r] else [])"
    using filter_by_id [OF plane_ok_distinct [OF assms(1)] assms(2), of "\<lambda>x. rj_account x = a"] by simp
qed

lemma leave_running_cases:
  assumes "plane_ok s"
  obtains (lost) "\<forall>r \<in> set (rd_jobs s). \<not> holds_job i tok r" "leave_running e i tok p s = (Inr OwnershipLostWrite, s)"
  | (left) r where "r \<in> set (rd_jobs s)" "holds_job i tok r" "leave_running e i tok p s = (Inr Applied,
      s\<lparr>rd_jobs := sql_update (holds_job i tok)
           (\<lambda>r. r\<lparr>rj_state := post_running_state p, rj_claim_token := None, rj_lease := None,
              rj_updated_at := env_now e\<rparr>) (rd_jobs s),
        rd_slots := sql_update (\<lambda>t. ts_account t = rj_account r \<and> ts_running t > 0)
           (\<lambda>t. t\<lparr>ts_running := ts_running t - 1\<rparr>) (rd_slots s)\<rparr>)"
proof (cases "\<exists>r \<in> set (rd_jobs s). holds_job i tok r")
  case True
  then obtain r where r: "r \<in> set (rd_jobs s)" "holds_job i tok r" by blast
  show ?thesis
    using holder_unique(1) [OF assms r]
    by (intro left [OF r]) (simp add: leave_running_def run_txn_def leave_running_txn_def exit_running_def release_slot_def tx_defs)
next
  case False
  then have "find (holds_job i tok) (rd_jobs s) = None" by (auto simp: find_None_iff)
  with False show ?thesis
    by (intro lost) (auto simp: leave_running_def run_txn_def leave_running_txn_def exit_running_def tx_defs)
qed

lemma leave_running_ok:
  assumes ok: "plane_ok s"
  shows "plane_ok (snd (leave_running e i tok p s))"
  using ok
proof (cases rule: leave_running_cases [of s i tok e p])
  case (left r)
  let ?jobs = "sql_update (holds_job i tok) (\<lambda>r. r\<lparr>rj_state := post_running_state p, rj_claim_token := None,
      rj_lease := None, rj_updated_at := env_now e\<rparr>) (rd_jobs s)"
  have one: "int (running_jobs a ?jobs) = int (running_jobs a (rd_jobs s)) - (if rj_account r = a then 1 else 0)" for a
    using holder_unique(2) [OF ok left(1,2), of a]
    by (subst running_jobs_leave) (auto simp: holds_job_def)
  have pos: "running_jobs (rj_account r) (rd_jobs s) > 0"
    using left(1,2) by (auto simp: running_jobs_def job_runs_def holds_job_def filter_empty_conv)
  have count: "slot_running a (sql_update (\<lambda>t. ts_account t = rj_account r \<and> ts_running t > 0)
           (\<lambda>t. t\<lparr>ts_running := ts_running t - 1\<rparr>) (rd_slots s)) = int (running_jobs a ?jobs)" for a
    using plane_ok_count [OF ok, of a] pos
    by (auto simp: one slot_running_def slot_of_update dest: slot_of_Some split: option.splits)
  show ?thesis
    unfolding left(3) snd_conv
    by (rule plane_okI [OF ok _ _ _ _ _ count])
      (auto simp: sql_update_map_key job_row_ok_def elim!: sql_update_cases dest: plane_ok_row [OF ok] plane_ok_cap [OF ok])
qed (use ok in simp)

text \<open>Reclaim.\<close>

lemma stale_jobs_distinct:
  assumes "plane_ok s"
  shows "set (stale_jobs e locked n s) \<subseteq> {r \<in> set (rd_jobs s). rj_state r = RjRunning}"
    "distinct (map rj_id (stale_jobs e locked n s))"
proof -
  show "set (stale_jobs e locked n s) \<subseteq> {r \<in> set (rd_jobs s). rj_state r = RjRunning}"
    using set_sql_select_ordered unfolding stale_jobs_def by fastforce
  have "distinct (map rj_id (filter P (rd_jobs s)))" for P
    using plane_ok_distinct [OF assms] by (rule distinct_map_filter)
  then show "distinct (map rj_id (stale_jobs e locked n s))"
    unfolding stale_jobs_def sql_select_ordered_def take_map [symmetric]
    by (intro distinct_take) (simp add: distinct_map)
qed

lemma reclaimed_count:
  assumes ok: "plane_ok s" and stale: "set stale \<subseteq> set (rd_jobs s)" "distinct (map rj_id stale)"
  shows "length (filter (\<lambda>r. rj_id r \<in> rj_id ` set stale \<and> rj_account r = a) (rd_jobs s)) =
    length (filter (\<lambda>r. rj_account r = a) stale)"
proof -
  have inj: "inj_on rj_id (set (rd_jobs s))" and d: "distinct (rd_jobs s)"
    using plane_ok_distinct [OF ok] by (simp_all add: distinct_map)
  have d2: "distinct stale" using stale(2) by (simp add: distinct_map)
  have mem: "rj_id r \<in> rj_id ` set stale \<longleftrightarrow> r \<in> set stale" if "r \<in> set (rd_jobs s)" for r
    using stale(1) that inj_on_image_mem_iff [OF inj that stale(1)] by simp
  have "set (filter (\<lambda>r. rj_id r \<in> rj_id ` set stale \<and> rj_account r = a) (rd_jobs s)) = set (filter (\<lambda>r. rj_account r = a) stale)"
    using stale(1) mem by auto
  then show ?thesis
    using d d2 distinct_card [of "filter (\<lambda>r. rj_account r = a) stale"]
      distinct_card [of "filter (\<lambda>r. rj_id r \<in> rj_id ` set stale \<and> rj_account r = a) (rd_jobs s)"] by simp
qed

lemma reclaim_ok:
  assumes ok: "plane_ok s" and run: "reclaim_expired e locked limit s = Inr (ids, s')"
  shows "plane_ok s'"
proof -
  let ?stale = "stale_jobs e locked limit s"
  let ?jobs = "sql_update (\<lambda>r. rj_id r \<in> rj_id ` set ?stale) (requeued_row e) (rd_jobs s)"
  let ?jobs' = "sql_update (\<lambda>r. rj_id r \<in> rj_id ` set ?stale \<and> rj_state r = RjRunning) (requeued_row e) (rd_jobs s)"
  have s': "s' = s\<lparr>rd_jobs := ?jobs, rd_slots := map (released_slot ?stale) (rd_slots s)\<rparr>"
    using run by (simp add: reclaim_expired_def Let_def)
  note sub = stale_jobs_distinct [OF ok, of e locked limit]
  have run_them: "rj_state r = RjRunning" if "r \<in> set (rd_jobs s)" "rj_id r \<in> rj_id ` set ?stale" for r
    using that sub(1) distinct_map_key_eq [OF plane_ok_distinct [OF ok]] by blast
  have jobs: "?jobs = ?jobs'" using run_them by (auto simp: sql_update_def)
  have fil: "filter (\<lambda>r. (rj_id r \<in> rj_id ` set ?stale \<and> rj_state r = RjRunning) \<and> rj_account r = a) (rd_jobs s)
      = filter (\<lambda>r. rj_id r \<in> rj_id ` set ?stale \<and> rj_account r = a) (rd_jobs s)" for a
    using run_them by (intro filter_cong) auto
  have sub': "set ?stale \<subseteq> set (rd_jobs s)" using sub(1) by auto
  have gone: "int (running_jobs a ?jobs) = int (running_jobs a (rd_jobs s)) - int (length (filter (\<lambda>r. rj_account r = a) ?stale))" for a
    unfolding jobs by (subst running_jobs_leave) (simp_all only: requeued_row_def fil reclaimed_count [OF ok sub' sub(2)], auto)
  have count: "slot_running a (map (released_slot ?stale) (rd_slots s)) = int (running_jobs a ?jobs)" for a
  proof -
    have "ts_account (released_slot ?stale t) = ts_account t" for t by (simp add: released_slot_def Let_def)
    then have look: "slot_of a (map (released_slot ?stale) (rd_slots s)) = map_option (released_slot ?stale) (slot_of a (rd_slots s))"
      by (rule slot_of_map)
    define n where "n = int (length (filter (\<lambda>r. rj_account r = a) ?stale))"
    have n: "int (running_jobs a ?jobs) = int (running_jobs a (rd_jobs s)) - n" "n \<ge> 0"
      using gone [of a] by (simp_all add: n_def)
    have same: "slot_running a (rd_slots s) = int (running_jobs a (rd_jobs s))" by (rule plane_ok_count [OF ok])
    show ?thesis
    proof (cases "slot_of a (rd_slots s)")
      case None
      then show ?thesis using same n unfolding slot_running_def look by simp
    next
      case (Some t)
      have "ts_running (released_slot ?stale t) = (if n > 0 \<and> ts_running t \<ge> n then ts_running t - n else ts_running t)"
        using slot_of_Some [OF Some] by (simp add: released_slot_def n_def Let_def)
      then show ?thesis using same n Some unfolding slot_running_def look by simp
    qed
  qed
  have "map ts_account (map (released_slot ?stale) (rd_slots s)) = map ts_account (rd_slots s)"
    by (simp add: released_slot_def Let_def)
  then show ?thesis
    unfolding s' using count
    by (intro plane_okI [OF ok])
      (auto simp: sql_update_map_key requeued_row_def job_row_ok_def released_slot_def Let_def
        elim!: sql_update_cases dest: plane_ok_row [OF ok] plane_ok_cap [OF ok])
qed

lemma cap_sync_ok:
  assumes ok: "plane_ok s" and run: "apply_cap_sync a cap s = Inr (u, s')"
  shows "plane_ok s'"
proof (cases "sql_exists (\<lambda>t. ts_account t = a) (rd_slots s)")
  case True
  then have s': "s' = s\<lparr>rd_slots := sql_update (\<lambda>t. ts_account t = a) (\<lambda>t. t\<lparr>ts_cap := cap\<rparr>) (rd_slots s)\<rparr>" "cap \<ge> 0"
    using run by (auto simp: apply_cap_sync_def split: if_splits)
  have "slot_running b (rd_slots s') = slot_running b (rd_slots s)" for b
    by (auto simp: s' slot_running_def slot_of_update split: option.splits)
  then show ?thesis
    using ok s' by (auto simp: plane_ok_def sql_update_map_key elim!: sql_update_cases)
next
  case False
  then have s': "s' = s\<lparr>rd_slots := rd_slots s @ [\<lparr>ts_account = a, ts_running = 0, ts_cap = cap\<rparr>]\<rparr>" "cap \<ge> 0"
      "a \<notin> ts_account ` set (rd_slots s)"
    using run by (auto simp: apply_cap_sync_def sql_exists_iff split: if_splits)
  have "slot_running b (rd_slots s') = slot_running b (rd_slots s)" for b
    by (auto simp: s' slot_running_def slot_of_append split: option.splits)
  then show ?thesis using ok s' by (auto simp: plane_ok_def)
qed

lemma purge_ok:
  assumes ok: "plane_ok s"
  shows "plane_ok (snd (purge_account a s))"
proof -
  have s': "snd (purge_account a s) = s\<lparr>rd_jobs := filter (\<lambda>r. rj_account r \<noteq> a) (rd_jobs s),
         rd_slots := filter (\<lambda>t. ts_account t \<noteq> a) (rd_slots s)\<rparr>"
    by (simp add: purge_account_def purge_txn_def run_txn_def)
  have slots: "slot_of b (filter (\<lambda>t. ts_account t \<noteq> a) xs) = (if b = a then None else slot_of b xs)" for b and xs :: "tenant_slot list"
    by (induction xs) (auto simp: slot_of_def)
  have jobs: "running_jobs b (filter (\<lambda>r. rj_account r \<noteq> a) xs) = (if b = a then 0 else running_jobs b xs)" for b xs
    by (induction xs) (auto simp: running_jobs_def job_runs_def)
  show ?thesis
    unfolding s' using ok
    by (auto simp: plane_ok_def slot_running_def slots jobs distinct_map_filter)
qed

section \<open>The walk\<close>

lemma ensure_slot_ok:
  assumes ok: "plane_ok s" and run: "ensure_slot dc a s = Inr (u, s')"
  shows "plane_ok s' \<and> rd_jobs s' = rd_jobs s \<and> (\<exists>t. slot_of a (rd_slots s') = Some t) \<and>
    (\<forall>b. slot_of b (rd_slots s') = (if b = a \<and> slot_of a (rd_slots s) = None
       then Some \<lparr>ts_account = a, ts_running = 0, ts_cap = dc\<rparr> else slot_of b (rd_slots s)))"
proof (cases "slot_of a (rd_slots s)")
  case None
  then have no: "\<not> sql_exists (\<lambda>t. ts_account t = a) (rd_slots s)"
    by (auto simp: slot_of_None sql_exists_iff)
  then have s': "s' = s\<lparr>rd_slots := rd_slots s @ [\<lparr>ts_account = a, ts_running = 0, ts_cap = dc\<rparr>]\<rparr>" "0 \<le> dc"
    using run by (auto simp: ensure_slot_def split: if_splits)
  have look: "slot_of b (rd_slots s') = (if b = a then Some \<lparr>ts_account = a, ts_running = 0, ts_cap = dc\<rparr>
      else slot_of b (rd_slots s))" for b
    using None by (auto simp: s' slot_of_append split: option.splits)
  have "slot_running b (rd_slots s') = slot_running b (rd_slots s)" for b
    using None by (simp add: slot_running_def look)
  with None look show ?thesis
    using ok no s' by (auto simp: plane_ok_def sql_exists_iff)
next
  case (Some t)
  then have "sql_exists (\<lambda>t. ts_account t = a) (rd_slots s)"
    by (auto simp: sql_exists_iff dest: slot_of_Some)
  then show ?thesis using Some ok run by (auto simp: ensure_slot_def split: if_splits)
qed

text \<open>Whether the tenant could be admitted now, and whether there is a job to give it.\<close>

definition tenant_room :: "int \<Rightarrow> string \<Rightarrow> runtime_db \<Rightarrow> bool" where
  "tenant_room dc a s = (case slot_of a (rd_slots s) of None \<Rightarrow> 0 < dc | Some t \<Rightarrow> ts_running t < ts_cap t)"

definition tenant_waits :: "(uuid \<Rightarrow> bool) \<Rightarrow> string \<Rightarrow> runtime_db \<Rightarrow> bool" where
  "tenant_waits locked a s = (\<exists>r \<in> set (rd_jobs s). rj_state r = RjQueued \<and> rj_account r = a \<and> \<not> locked (rj_id r))"

definition claimable :: "(uuid \<Rightarrow> bool) \<Rightarrow> int \<Rightarrow> string \<Rightarrow> runtime_db \<Rightarrow> bool" where
  "claimable locked dc a s \<longleftrightarrow> tenant_room dc a s \<and> tenant_waits locked a s"

lemma selected_first:
  assumes "sql_select_ordered P key 1 rows = r # rs"
  shows "r \<in> set rows" "P r" "x \<in> set rows \<Longrightarrow> P x \<Longrightarrow> key r \<le> key x"
proof -
  show "r \<in> set rows" "P r"
    using set_sql_select_ordered [of P key 1 rows] assms by auto
  have one: "set (sql_select_ordered P key 1 rows) = {r}"
    using assms sql_select_ordered_length [of P key 1 rows] by simp
  show "key r \<le> key x" if "x \<in> set rows" "P x"
    using sql_select_ordered_least [of x rows P key 1 r] that one by (cases "x = r") auto
qed

lemma selected_none: "sql_select_ordered P key 1 rows = [] \<longleftrightarrow> (\<forall>r \<in> set rows. \<not> P r)"
proof -
  have "length (sort_key key (filter P rows)) = length (filter P rows)" by simp
  then have "sql_select_ordered P key 1 rows = [] \<longleftrightarrow> filter P rows = []"
    unfolding sql_select_ordered_def by (metis length_0_conv take_eq_Nil zero_neq_one)
  then show ?thesis by (simp add: filter_empty_conv)
qed

lemma next_job_None: "next_job locked a s = None \<longleftrightarrow> \<not> tenant_waits locked a s"
proof -
  have "next_job locked a s = None \<longleftrightarrow> sql_select_ordered (\<lambda>r. rj_state r = RjQueued \<and> rj_account r = a \<and> \<not> locked (rj_id r))
         (\<lambda>r. (- rj_priority r, rj_created_at r)) 1 (rd_jobs s) = []"
    by (simp add: next_job_def split: list.split)
  then show ?thesis by (simp only: selected_none) (auto simp: tenant_waits_def)
qed

lemma next_job_Some:
  assumes "next_job locked a s = Some r"
  shows "r \<in> set (rd_jobs s)" "rj_state r = RjQueued" "rj_account r = a" "\<not> locked (rj_id r)"
    "x \<in> set (rd_jobs s) \<Longrightarrow> rj_state x = RjQueued \<Longrightarrow> rj_account x = a \<Longrightarrow> \<not> locked (rj_id x)
      \<Longrightarrow> (- rj_priority r, rj_created_at r) \<le> (- rj_priority x, rj_created_at x)"
  using assms selected_first [of "\<lambda>r. rj_state r = RjQueued \<and> rj_account r = a \<and> \<not> locked (rj_id r)"
      "\<lambda>r. (- rj_priority r, rj_created_at r)" "rd_jobs s" r]
  by (auto simp: next_job_def split: list.splits)

lemma taken_slot:
  assumes ok: "plane_ok s" and slot: "slot_of a (rd_slots s) = Some t"
  shows "sql_exists (has_room a) (rd_slots s) \<longleftrightarrow> ts_running t < ts_cap t"
    "slot_of b (sql_update (has_room a) (\<lambda>t. t\<lparr>ts_running := ts_running t + 1\<rparr>) (rd_slots s)) =
      (if b = a \<and> ts_running t < ts_cap t then Some (t\<lparr>ts_running := ts_running t + 1\<rparr>) else slot_of b (rd_slots s))"
proof -
  have d: "distinct (map ts_account (rd_slots s))" using ok by (simp add: plane_ok_def)
  show "sql_exists (has_room a) (rd_slots s) \<longleftrightarrow> ts_running t < ts_cap t"
    using slot slot_of_Some [OF slot] slot_of_unique [OF d] unfolding sql_exists_iff has_room_def by (metis option.inject)
  show "slot_of b (sql_update (has_room a) (\<lambda>t. t\<lparr>ts_running := ts_running t + 1\<rparr>) (rd_slots s)) =
      (if b = a \<and> ts_running t < ts_cap t then Some (t\<lparr>ts_running := ts_running t + 1\<rparr>) else slot_of b (rd_slots s))"
    using slot slot_of_Some [of b "rd_slots s"]
    by (cases "b = a"; cases "slot_of b (rd_slots s)") (auto simp: slot_of_update has_room_def)
qed

lemma plane_ok_slots:
  assumes "plane_ok s" "map ts_account slots = map ts_account (rd_slots s)" "\<And>t. t \<in> set slots \<Longrightarrow> 0 \<le> ts_cap t"
    "\<And>a. slot_running a slots = slot_running a (rd_slots s)"
  shows "plane_ok (s\<lparr>rd_slots := slots\<rparr>)"
  using assms by (simp add: plane_ok_def)

lemma runtime_db_swap: "s\<lparr>rd_slots := x, rd_jobs := y\<rparr> = s\<lparr>rd_jobs := y, rd_slots := x\<rparr>" for s :: runtime_db
  by simp

lemma next_job_jobs: "rd_jobs s = rd_jobs t \<Longrightarrow> next_job locked a s = next_job locked a t"
  by (simp add: next_job_def)

text \<open>A slot taken and given back.\<close>

lemma taken_and_released:
  assumes ok: "plane_ok s" and slot: "slot_of a (rd_slots s) = Some t" and room: "ts_running t < ts_cap t"
    and rel: "release_slot a (s\<lparr>rd_slots := sql_update (has_room a) (\<lambda>t. t\<lparr>ts_running := ts_running t + 1\<rparr>) (rd_slots s)\<rparr>)
      = Inr (u, s')"
  shows "plane_ok s' \<and> rd_jobs s' = rd_jobs s \<and> slot_of b (rd_slots s') = slot_of b (rd_slots s)"
proof -
  let ?slots = "sql_update (\<lambda>t. ts_account t = a \<and> ts_running t > 0) (\<lambda>t. t\<lparr>ts_running := ts_running t - 1\<rparr>)
     (sql_update (has_room a) (\<lambda>t. t\<lparr>ts_running := ts_running t + 1\<rparr>) (rd_slots s))"
  have s': "s' = s\<lparr>rd_slots := ?slots\<rparr>" using rel by (simp add: release_slot_def)
  have "ts_running t \<ge> 0"
    using plane_ok_count [OF ok, of a] slot by (simp add: slot_running_def)
  then have look: "slot_of b ?slots = slot_of b (rd_slots s)" for b
    using slot_of_Some [of b "rd_slots s"] slot room
    by (subst slot_of_update) (auto simp: taken_slot(2) [OF ok slot] map_option_case split: option.splits)
  have "plane_ok (s\<lparr>rd_slots := ?slots\<rparr>)"
    using plane_ok_cap [OF ok]
    by (intro plane_ok_slots [OF ok]) (auto simp: sql_update_map_key slot_running_def look elim!: sql_update_cases)
  then show ?thesis by (simp add: s' look)
qed

text \<open>The queued job of a tenant that had room starts to run.\<close>

lemma admitted_ok:
  assumes ok: "plane_ok s" and slot: "slot_of a (rd_slots s) = Some t" and room: "ts_running t < ts_cap t"
    and r: "r \<in> set (rd_jobs s)" "rj_state r = RjQueued" "rj_account r = a"
  shows "plane_ok (s\<lparr>rd_jobs := sql_update (\<lambda>x. rj_id x = rj_id r) (\<lambda>x. x\<lparr>rj_state := RjRunning, rj_claim_token := Some tok,
       rj_lease := Some u, rj_updated_at := v\<rparr>) (rd_jobs s),
     rd_slots := sql_update (has_room a) (\<lambda>t. t\<lparr>ts_running := ts_running t + 1\<rparr>) (rd_slots s)\<rparr>)"
    (is "plane_ok (s\<lparr>rd_jobs := ?jobs, rd_slots := ?slots\<rparr>)")
proof (rule plane_okI [OF ok])
  have only: "x = r" if "x \<in> set (rd_jobs s)" "rj_id x = rj_id r" for x
    using distinct_map_key_eq [OF plane_ok_distinct [OF ok] that(1) r(1)] that(2) .
  have idle: "rj_state x \<noteq> RjRunning" if "x \<in> set (rd_jobs s)" "rj_id x = rj_id r" for x
    using only [OF that] r(2) by simp
  have "running_jobs b ?jobs = running_jobs b (rd_jobs s) + (if b = a then 1 else 0)" for b
    using filter_by_id [OF plane_ok_distinct [OF ok] r(1), of "\<lambda>x. rj_account x = b"] r(3) idle
    by (subst running_jobs_enter) auto
  moreover have "slot_running b ?slots = slot_running b (rd_slots s) + (if b = a then 1 else 0)" for b
    using slot room by (simp add: slot_running_def taken_slot(2) [OF ok slot])
  ultimately show "slot_running b ?slots = int (running_jobs b ?jobs)" for b
    using plane_ok_count [OF ok, of b] by simp
qed (auto simp: sql_update_map_key job_row_ok_def elim!: sql_update_cases dest: plane_ok_row [OF ok] plane_ok_cap [OF ok])

text \<open>One turn of the walk: the tenant was not claimable and nothing changed but a fresh
  slot, or its first job runs under the cap.\<close>

lemma admit_tenant_cases:
  assumes ok: "plane_ok s" and run: "admit_tenant e locked fresh dc lease a s = Inr (res, s')"
  obtains (ruled_out) "res = None" "plane_ok s'" "\<not> claimable locked dc a s" "rd_jobs s' = rd_jobs s"
      "\<forall>b. b \<noteq> a \<longrightarrow> slot_of b (rd_slots s') = slot_of b (rd_slots s)"
  | (admitted) c r t where "res = Some c" "plane_ok s'" "claimable locked dc a s" "next_job locked a s = Some r"
      "cj_account c = a" "cj_id c = rj_id r" "cj_claim_token c = fresh (rj_id r)"
      "rd_jobs s' = sql_update (\<lambda>x. rj_id x = rj_id r) (\<lambda>x. x\<lparr>rj_state := RjRunning, rj_claim_token := Some (fresh (rj_id r)),
           rj_lease := Some (cj_lease_expires_at c), rj_updated_at := env_now e\<rparr>) (rd_jobs s)"
      "slot_of a (rd_slots s') = Some t" "ts_running t \<le> ts_cap t"
proof -
  obtain s1 where s1: "ensure_slot dc a s = Inr ((), s1)"
    using run by (auto simp: admit_tenant_def tx_then_iff)
  note ens = ensure_slot_ok [OF ok s1]
  then obtain t where t: "slot_of a (rd_slots s1) = Some t" by blast
  have ok1: "plane_ok s1" and jobs1: "rd_jobs s1 = rd_jobs s" using ens by blast+
  have room: "tenant_room dc a s \<longleftrightarrow> ts_running t < ts_cap t"
    using ens t by (cases "slot_of a (rd_slots s)") (auto simp: tenant_room_def)
  have other: "\<forall>b. b \<noteq> a \<longrightarrow> slot_of b (rd_slots s1) = slot_of b (rd_slots s)" using ens by auto
  let ?s2 = "s1\<lparr>rd_slots := sql_update (has_room a) (\<lambda>t. t\<lparr>ts_running := ts_running t + 1\<rparr>) (rd_slots s1)\<rparr>"
  have took: "take_slot a s1 = Inr (ts_running t < ts_cap t, ?s2)"
    using taken_slot(1) [OF ok1 t] by (simp add: take_slot_def)
  have next1: "next_job locked a ?s2 = next_job locked a s"
    by (rule next_job_jobs) (simp add: jobs1)
  show thesis
  proof (cases "ts_running t < ts_cap t")
    case False
    then have "\<not> sql_exists (has_room a) (rd_slots s1)" using taken_slot(1) [OF ok1 t] by simp
    then have "?s2 = s1" by (simp add: sql_update_none sql_count_zero sql_exists_iff)
    then have "res = None" "s' = s1"
      using run s1 took False by (simp_all add: admit_tenant_def tx_defs)
    then show thesis using ruled_out ok1 jobs1 other room False by (simp add: claimable_def)
  next
    case True
    then have took1: "take_slot a s1 = Inr (True, ?s2)" using took by simp
    show thesis
    proof (cases "next_job locked a s")
      case None
      then have rel: "release_slot a ?s2 = Inr ((), s')" and res: "res = None"
        using run
        by (simp_all add: admit_tenant_def tx_then_def tx_bind_def s1 took1 tx_read_def next1 None tx_return_def
            split: sum.splits prod.splits)
      note given = taken_and_released [OF ok1 t True rel]
      have "\<not> claimable locked dc a s" using None by (simp add: claimable_def next_job_None)
      then show thesis using ruled_out [OF res] given jobs1 other by metis
    next
      case (Some r)
      note r = next_job_Some [OF Some]
      let ?u = "env_now e + seconds (lease_seconds lease)"
      have res: "res = Some \<lparr>cj_id = rj_id r, cj_account = a, cj_kind = rj_kind r, cj_payload = rj_payload r,
           cj_priority = rj_priority r, cj_claim_token = fresh (rj_id r), cj_lease_expires_at = ?u\<rparr>"
        and s': "s' = s1\<lparr>rd_jobs := sql_update (\<lambda>x. rj_id x = rj_id r) (\<lambda>x. x\<lparr>rj_state := RjRunning,
           rj_claim_token := Some (fresh (rj_id r)), rj_lease := Some ?u, rj_updated_at := env_now e\<rparr>) (rd_jobs s1),
           rd_slots := rd_slots ?s2\<rparr>"
        using run
        by (auto simp: admit_tenant_def tx_then_def tx_bind_def s1 took1 tx_read_def next1 Some tx_return_def mark_job_running_def
            Let_def runtime_db_swap)
      have "plane_ok s'"
        unfolding s' using admitted_ok [OF ok1 t True _ r(2,3)] r(1) by (simp add: jobs1)
      moreover have "slot_of a (rd_slots s') = Some (t\<lparr>ts_running := ts_running t + 1\<rparr>)"
        using True by (simp add: s' taken_slot(2) [OF ok1 t])
      moreover have "claimable locked dc a s"
        using room True Some next_job_None [of locked a s] by (simp add: claimable_def)
      ultimately show thesis
        using admitted [OF res _ _ Some] True by (simp add: s' jobs1)
    qed
  qed
qed

text \<open>What the walk claims, in terms of the store it started from. The tenants ruled out
  could not be admitted.\<close>

definition oldest_queued :: "string \<Rightarrow> runtime_db \<Rightarrow> instant \<Rightarrow> bool" where
  "oldest_queued a s t \<longleftrightarrow> (\<exists>r \<in> set (rd_jobs s). rj_state r = RjQueued \<and> rj_account r = a \<and> rj_created_at r = t) \<and>
     (\<forall>r \<in> set (rd_jobs s). rj_state r = RjQueued \<and> rj_account r = a \<longrightarrow> t \<le> rj_created_at r)"

definition claimed_from :: "(uuid \<Rightarrow> bool) \<Rightarrow> (uuid \<Rightarrow> uuid) \<Rightarrow> int \<Rightarrow> runtime_db \<Rightarrow> claimed_job \<Rightarrow> runtime_db \<Rightarrow> bool" where
  "claimed_from locked fresh dc s c s' \<longleftrightarrow>
     claimable locked dc (cj_account c) s \<and>
     (\<exists>r. next_job locked (cj_account c) s = Some r \<and> cj_id c = rj_id r \<and> cj_claim_token c = fresh (rj_id r) \<and>
        (\<exists>u v. rd_jobs s' = sql_update (\<lambda>x. rj_id x = rj_id r) (\<lambda>x. x\<lparr>rj_state := RjRunning,
           rj_claim_token := Some (fresh (rj_id r)), rj_lease := Some u, rj_updated_at := v\<rparr>) (rd_jobs s))) \<and>
     (\<exists>t. slot_of (cj_account c) (rd_slots s') = Some t \<and> ts_running t \<le> ts_cap t) \<and>
     (\<forall>b t u. claimable locked dc b s \<longrightarrow> oldest_queued (cj_account c) s t \<longrightarrow> oldest_queued b s u \<longrightarrow> t \<le> u)"

lemma candidate_oldest:
  assumes cand: "candidate_tenant ex s = Some a" and b: "oldest_queued b s u" "b \<notin> set ex" and a: "oldest_queued a s t"
  shows "t \<le> u"
proof -
  obtain r rs where sel: "sql_select_ordered (\<lambda>r. rj_state r = RjQueued \<and> rj_account r \<notin> set ex) rj_created_at 1 (rd_jobs s) = r # rs"
      "rj_account r = a"
    using cand by (auto simp: candidate_tenant_def split: list.splits)
  note first = selected_first [OF sel(1)]
  obtain x where x: "x \<in> set (rd_jobs s)" "rj_state x = RjQueued" "rj_account x = b" "rj_created_at x = u"
    using b(1) by (auto simp: oldest_queued_def)
  have "t \<le> rj_created_at r"
    using a first(1,2) sel(2) by (auto simp: oldest_queued_def)
  also have "\<dots> \<le> u" using first(3) [of x] x b(2) by simp
  finally show ?thesis .
qed

lemma claimable_same:
  "rd_jobs s = rd_jobs t \<Longrightarrow> slot_of a (rd_slots s) = slot_of a (rd_slots t) \<Longrightarrow>
     claimable locked dc a s = claimable locked dc a t"
  by (simp add: claimable_def tenant_room_def tenant_waits_def)

lemma oldest_queued_same: "rd_jobs s = rd_jobs t \<Longrightarrow> oldest_queued a s u = oldest_queued a t u"
  by (simp add: oldest_queued_def)

lemma claim_walk_result:
  assumes "claim_walk e locked fresh dc lease ex s = Inr (res, s')" "plane_ok s"
    "rd_jobs s = rd_jobs s0" "\<forall>b. b \<notin> set ex \<longrightarrow> slot_of b (rd_slots s) = slot_of b (rd_slots s0)"
    "\<forall>b \<in> set ex. \<not> claimable locked dc b s0"
  shows "plane_ok s' \<and> (case res of None \<Rightarrow> \<forall>b. \<not> claimable locked dc b s0 | Some c \<Rightarrow> claimed_from locked fresh dc s0 c s')"
  using assms
proof (induction e locked fresh dc lease ex s rule: claim_walk.induct)
  case (1 e locked fresh dc lease ex s)
  show ?case
  proof (cases "candidate_tenant ex s")
    case None
    then have "res = None" "s' = s" using "1.prems"(1) by (simp_all add: claim_walk.simps)
    moreover have "\<not> claimable locked dc b s0" for b
    proof (cases "b \<in> set ex")
      case False
      then have "\<not> tenant_waits locked b s"
        using None selected_none [of "\<lambda>r. rj_state r = RjQueued \<and> rj_account r \<notin> set ex" rj_created_at "rd_jobs s"]
        by (auto simp: candidate_tenant_def tenant_waits_def split: list.splits)
      then show ?thesis using "1.prems"(3) by (simp add: claimable_def tenant_waits_def)
    qed (use "1.prems"(5) in blast)
    ultimately show ?thesis using "1.prems"(2) by simp
  next
    case (Some a)
    note a = candidate_tenant_waits [OF Some]
    have new: "a \<notin> set ex" using a by (simp add: waiting_tenants_def)
    obtain res1 s1 where adm: "admit_tenant e locked fresh dc lease a s = Inr (res1, s1)"
      using "1.prems"(1) Some by (auto simp: claim_walk.simps split: sum.splits)
    have here: "claimable locked dc a s = claimable locked dc a s0"
      using "1.prems"(3,4) new by (intro claimable_same) auto
    show ?thesis
    proof (cases rule: admit_tenant_cases [OF "1.prems"(2) adm])
      case 1
      have next_turn: "claim_walk e locked fresh dc lease (ex @ [a]) s1 = Inr (res, s')"
        using "1.prems"(1) Some adm 1(1) by (simp add: claim_walk.simps [of e locked fresh dc lease ex])
      show ?thesis
        using 1 "1.prems"(3-5) here
        by (intro "1.IH" [OF Some adm _ _ next_turn]) auto
    next
      case (2 c r t)
      have out: "res = Some c" "s' = s1"
        using "1.prems"(1) Some adm 2(1) by (simp_all add: claim_walk.simps [of e locked fresh dc lease ex])
      have "claimed_from locked fresh dc s0 c s1"
        unfolding claimed_from_def 2(5)
      proof (intro conjI allI impI)
        show "claimable locked dc a s0" using 2(3) here by simp
        show "\<exists>r. next_job locked a s0 = Some r \<and> cj_id c = rj_id r \<and> cj_claim_token c = fresh (rj_id r) \<and>
            (\<exists>u v. rd_jobs s1 = sql_update (\<lambda>x. rj_id x = rj_id r) (\<lambda>x. x\<lparr>rj_state := RjRunning,
           rj_claim_token := Some (fresh (rj_id r)), rj_lease := Some u, rj_updated_at := v\<rparr>) (rd_jobs s0))"
          using 2(4,6-8) "1.prems"(3) next_job_jobs [of s s0] by auto
        show "\<exists>t. slot_of a (rd_slots s1) = Some t \<and> ts_running t \<le> ts_cap t" using 2(9,10) by blast
        show "t \<le> u" if "claimable locked dc b s0" "oldest_queued a s0 t" "oldest_queued b s0 u" for b t u
          using candidate_oldest [OF Some, of b u t] that "1.prems"(3,5) oldest_queued_same [of s s0] by auto
      qed
      then show ?thesis using out 2(2) by simp
    qed
  qed
qed

lemma run_job_claim_result:
  assumes ok: "plane_ok s" and run: "run_job_claim e locked fresh dc lease s = (Inr res, s')"
  shows "plane_ok s'"
    "res = None \<Longrightarrow> s' = s \<and> (\<forall>b. \<not> claimable locked dc b s)"
    "res = Some c \<Longrightarrow> claimed_from locked fresh dc s c s'"
proof -
  obtain res1 s1 where walk: "claim_walk e locked fresh dc lease [] s = Inr (res1, s1)"
    using run by (auto simp: run_job_claim_def claim_txn_def run_txn_def tx_bind_def split: sum.splits)
  have out: "res = res1" "s' = (if res1 = None then s else s1)"
    using run walk by (auto simp: run_job_claim_def claim_txn_def run_txn_def tx_bind_def tx_return_def split: option.splits)
  have "plane_ok s1 \<and> (case res1 of None \<Rightarrow> \<forall>b. \<not> claimable locked dc b s | Some c \<Rightarrow> claimed_from locked fresh dc s c s1)"
    using claim_walk_result [OF walk ok refl] by simp
  then show "plane_ok s'" "res = None \<Longrightarrow> s' = s \<and> (\<forall>b. \<not> claimable locked dc b s)"
    "res = Some c \<Longrightarrow> claimed_from locked fresh dc s c s'"
    using ok out by auto
qed

lemma claim_walk_total: "0 \<le> dc \<Longrightarrow> \<exists>res s'. claim_walk e locked fresh dc lease ex s = Inr (res, s')"
proof (induction e locked fresh dc lease ex s rule: claim_walk.induct)
  case (1 e locked fresh dc lease ex s)
  show ?case
  proof (cases "candidate_tenant ex s")
    case (Some a)
    have "\<exists>res t. admit_tenant e locked fresh dc lease a s = Inr (res, t)"
      using "1.prems" by (simp add: admit_tenant_def tx_defs ensure_slot_def take_slot_def release_slot_def mark_job_running_def
          Let_def split: option.split)
    then obtain res t where adm: "admit_tenant e locked fresh dc lease a s = Inr (res, t)" by blast
    show ?thesis
      using "1.IH" [OF Some adm refl _ "1.prems"] Some adm
      by (cases res) (simp_all add: claim_walk.simps [of e locked fresh dc lease ex])
  qed (simp add: claim_walk.simps)
qed

lemma run_job_claim_total:
  assumes "0 \<le> dc"
  obtains res s' where "run_job_claim e locked fresh dc lease s = (Inr res, s')"
proof -
  obtain res s' where "claim_walk e locked fresh dc lease [] s = Inr (res, s')"
    using claim_walk_total [OF assms] by blast
  then have "\<exists>res s'. run_job_claim e locked fresh dc lease s = (Inr res, s')"
    by (cases res) (simp_all add: run_job_claim_def claim_txn_def run_txn_def tx_bind_def tx_return_def)
  then show thesis using that by blast
qed

section \<open>The contract of the queue\<close>

definition job_lease :: "uuid \<Rightarrow> uuid \<Rightarrow> runtime_db \<Rightarrow> bool" where
  "job_lease i tok s \<longleftrightarrow> (\<exists>r \<in> set (rd_jobs s). holds_job i tok r)"

fun rows_written :: "write_outcome \<Rightarrow> nat" where
  "rows_written Applied = 1"
| "rows_written OwnershipLostWrite = 0"

definition claim_rows :: "nat \<Rightarrow> int \<Rightarrow> env \<Rightarrow> (uuid \<Rightarrow> bool) \<Rightarrow> (uuid \<Rightarrow> uuid) \<Rightarrow> nat \<Rightarrow> string \<Rightarrow> claimed_job list rd_tx" where
  "claim_rows dc lease e locked fresh limit by s =
     (case run_job_claim e locked fresh (int dc) lease s of
        (Inl err, _) \<Rightarrow> Inl err
      | (Inr job, s') \<Rightarrow> Inr (case job of None \<Rightarrow> [] | Some c \<Rightarrow> [c], s'))"

definition job_heartbeat_rows :: "env \<Rightarrow> int \<Rightarrow> uuid \<Rightarrow> uuid \<Rightarrow> nat rd_tx" where
  "job_heartbeat_rows e lease i tok = tx_bind (run_job_heartbeat e i tok lease) (\<lambda>out. tx_return (rows_written out))"

definition leave_running_rows :: "env \<Rightarrow> post_running \<Rightarrow> uuid \<Rightarrow> uuid \<Rightarrow> nat rd_tx" where
  "leave_running_rows e p i tok s =
     (case leave_running e i tok p s of (Inl err, _) \<Rightarrow> Inl err | (Inr out, s') \<Rightarrow> Inr (rows_written out, s'))"

definition job_fenced :: "(uuid \<Rightarrow> uuid \<Rightarrow> nat rd_tx) set" where
  "job_fenced = {job_heartbeat_rows e lease | e lease. True} \<union> {leave_running_rows e p | e p. True}"

lemma claim_rows_cases:
  assumes "claim_rows dc lease e locked fresh limit who s = Inr (rows, s')"
  obtains "rows = []" "run_job_claim e locked fresh (int dc) lease s = (Inr None, s')"
  | c where "rows = [c]" "run_job_claim e locked fresh (int dc) lease s = (Inr (Some c), s')"
  using assms by (auto simp: claim_rows_def split: prod.splits sum.splits option.splits)

lemma marked_lease:
  assumes "r \<in> set (rd_jobs s)" "mark_job_running e (rj_id r) tok lease s = Inr (u, s')"
  shows "job_lease (rj_id r) tok s'"
proof -
  have "rd_jobs s' = sql_update (\<lambda>x. rj_id x = rj_id r) (\<lambda>x. x\<lparr>rj_state := RjRunning, rj_claim_token := Some tok,
      rj_lease := Some u, rj_updated_at := env_now e\<rparr>) (rd_jobs s)"
    using assms(2) by (auto simp: mark_job_running_def Let_def)
  then show ?thesis
    unfolding job_lease_def holds_job_def using assms(1) by (simp add: sql_update_bex) (blast intro: bexI [of _ r])
qed

lemma admit_lease:
  assumes "admit_tenant e locked fresh dc lease a s = Inr (Some c, s')"
  shows "job_lease (cj_id c) (fresh (cj_id c)) s'"
proof -
  obtain s2 r u where r: "next_job locked a s2 = Some r" "mark_job_running e (rj_id r) (fresh (rj_id r)) lease s2 = Inr (u, s')"
      "cj_id c = rj_id r"
    using assms by (auto simp: admit_tenant_def tx_then_def tx_bind_def tx_read_def tx_return_def
        split: sum.splits prod.splits option.splits if_split_asm)
  then show ?thesis using marked_lease [OF next_job_Some(1) [OF r(1)] r(2)] by simp
qed

lemma claim_walk_lease:
  "claim_walk e locked fresh dc lease ex s = Inr (Some c, s') \<Longrightarrow> job_lease (cj_id c) (fresh (cj_id c)) s'"
proof (induction e locked fresh dc lease ex s rule: claim_walk.induct)
  case (1 e locked fresh dc lease ex s)
  then obtain a where a: "candidate_tenant ex s = Some a"
    by (auto simp: claim_walk.simps [of e locked fresh dc lease ex s] split: option.splits)
  obtain res1 s1 where adm: "admit_tenant e locked fresh dc lease a s = Inr (res1, s1)"
    using "1.prems" a by (auto simp: claim_walk.simps [of e locked fresh dc lease ex s] split: sum.splits)
  show ?case
  proof (cases res1)
    case None
    then show ?thesis
      using "1.IH" [OF a adm refl None] "1.prems" a adm by (simp add: claim_walk.simps [of e locked fresh dc lease ex s])
  next
    case (Some d)
    then show ?thesis
      using "1.prems" a adm admit_lease by (simp add: claim_walk.simps [of e locked fresh dc lease ex s])
  qed
qed

lemma run_job_claim_lease:
  "run_job_claim e locked fresh dc lease s = (Inr (Some c), s') \<Longrightarrow> job_lease (cj_id c) (fresh (cj_id c)) s'"
  using claim_walk_lease
  by (fastforce simp: run_job_claim_def claim_txn_def run_txn_def tx_bind_def tx_return_def split: sum.splits option.splits ending.splits)

lemma claimed_was_idle:
  assumes ok: "plane_ok s" and c: "claimed_from locked fresh dc s c s'"
  shows "\<not> job_lease (cj_id c) tok s"
proof -
  obtain r where r: "next_job locked (cj_account c) s = Some r" "cj_id c = rj_id r"
    using c by (auto simp: claimed_from_def)
  have "rj_state x = RjQueued" if "x \<in> set (rd_jobs s)" "rj_id x = rj_id r" for x
    using distinct_map_key_eq [OF plane_ok_distinct [OF ok] that(1) next_job_Some(1) [OF r(1)] that(2)]
      next_job_Some(2) [OF r(1)] by simp
  then show ?thesis using r(2) by (auto simp: job_lease_def holds_job_def)
qed

lemma job_fenced_shape:
  assumes "f \<in> job_fenced" "plane_ok s" "f i tok s = Inr (n, s')"
  shows "job_lease i tok s \<Longrightarrow> n = 1" "\<not> job_lease i tok s \<Longrightarrow> n = 0 \<and> s' = s"
proof -
  consider (beat) e lease where "f = job_heartbeat_rows e lease" | (leave) e p where "f = leave_running_rows e p"
    using assms(1) by (auto simp: job_fenced_def)
  then have "(job_lease i tok s \<longrightarrow> n = 1) \<and> (\<not> job_lease i tok s \<longrightarrow> n = 0 \<and> s' = s)"
  proof cases
    case beat
    then show ?thesis
      using assms(3) sql_update_none [of "holds_job i tok" "rd_jobs s"]
      by (auto simp: job_heartbeat_rows_def run_job_heartbeat_def tx_defs job_lease_def sql_exists_iff sql_count_zero write_outcome_of_def)
  next
    case leave
    show ?thesis
    proof (cases rule: leave_running_cases [OF assms(2), of i tok e p])
      case 1
      then show ?thesis using assms(3) leave by (auto simp: leave_running_rows_def job_lease_def)
    next
      case (2 r)
      then show ?thesis using assms(3) leave by (auto simp: leave_running_rows_def job_lease_def)
    qed
  qed
  then show "job_lease i tok s \<Longrightarrow> n = 1" "\<not> job_lease i tok s \<Longrightarrow> n = 0 \<and> s' = s" by blast+
qed

interpretation job_queue: lease_queue plane_ok job_lease cj_id "claim_rows dc lease" job_fenced
proof
  show "n = 0 \<and> s' = s" if "f \<in> job_fenced" "plane_ok s" "\<not> job_lease i tok s" "f i tok s = Inr (n, s')" for f s i tok n s'
    using job_fenced_shape(2) [OF that(1,2,4,3)] .
  show "n = 1" if "f \<in> job_fenced" "plane_ok s" "job_lease i tok s" "f i tok s = Inr (n, s')" for f s i tok n s'
    using job_fenced_shape(1) [OF that(1,2,4,3)] .
  show "a = b" if "plane_ok s" "job_lease i a s" "job_lease i b s" for s i a b
    using that distinct_map_key_eq [OF plane_ok_distinct [OF that(1)]] by (fastforce simp: job_lease_def holds_job_def)
next
  fix e locked fresh limit who s rows s' r tok
  assume run: "claim_rows dc lease e locked fresh limit who s = Inr (rows, s')"
  show "plane_ok s'" if "plane_ok s"
    using run run_job_claim_result(1) [OF that] by (cases rule: claim_rows_cases) blast+
  show "job_lease (cj_id r) (fresh (cj_id r)) s'" if "r \<in> set rows"
    using run
  proof (cases rule: claim_rows_cases)
    case (2 c)
    then show ?thesis using run_job_claim_lease that by simp
  qed (use that in simp)
  show "\<not> job_lease (cj_id r) tok s" if "plane_ok s" "r \<in> set rows"
    using run
  proof (cases rule: claim_rows_cases)
    case (2 c)
    then show ?thesis using claimed_was_idle [OF that(1) run_job_claim_result(3) [OF that(1) 2(2) refl]] that(2) by simp
  qed (use that in simp)
next
  show "\<exists>rows s'. claim_rows dc lease e locked fresh limit who s = Inr (rows, s')" for e locked fresh limit who s
  proof (rule run_job_claim_total [of "int dc" e locked fresh lease s])
    show "\<exists>rows s'. claim_rows dc lease e locked fresh limit who s = Inr (rows, s')"
      if "run_job_claim e locked fresh (int dc) lease s = (Inr res, s')" for res s'
      using that by (simp add: claim_rows_def)
  qed simp
qed

end
