(* ===== verification/Spec2Isabelle.thy ===== *)
theory Spec2Isabelle
  imports Wakes SourceContext Disposition ReindexTasks AuthGuarantees TurnGuarantees ConfigGuarantees Admission
begin

text \<open>
  Tribal is a knowledge server. A client's text becomes a job; the job runs
  through extraction, triage (one task per candidate) and relation; each task
  is driven by a durable agent thread, whose conversation is an append-only
  log of records, so that any worker can resume it after a crash. Everything
  the parts share is in one Postgres database, and every change is one
  transaction on it.

  Modelling. The store is a record of tables (\<open>Database\<close>, \<open>Graph\<close>), a table is
  a list of rows in insertion order. A statement or a transaction is a
  function from a store to an error or a value and a store
  (\<open>Prelude.tx\<close>); \<open>run_txn\<close> commits or rolls back. What a function reads from
  its surroundings (the clock of the database and of the process, trace
  identifiers, identifiers and tokens the database generates, rows locked by
  others under SKIP LOCKED) is an argument. A lost connection is an error that
  leaves the store as it was. Texts are character lists, instants are
  microseconds.

  Theories.
  \<^item> \<open>Prelude\<close>: tables, JSON values, the transaction monad, the locale
    \<open>store_order\<close> of relations between stores that transactions keep.
  \<^item> \<open>Domain\<close>: the entities of \<open>tribal-domain\<close> and their text forms (locale
    \<open>text_enum\<close>). \<open>SourceContext\<close>: the provenance of a job. \<open>Graph\<close>: the
    knowledge graph.
  \<^item> \<open>Database\<close>: the store, its constraints, and the order \<open>evolves\<close>/\<open>calm\<close>:
    how rows may change.
  \<^item> \<open>LeaseQueue\<close> (locale of claims), \<open>TaskRepo\<close>, \<open>DriverRepo\<close>, \<open>RecordRepo\<close>,
    \<open>ThreadRepo\<close>, \<open>JobRepo\<close>, \<open>GraphRepo\<close>: the statements of
    \<open>tribal-db/src/repositories\<close>.
  \<^item> \<open>Disposition\<close>: the retry policy. \<open>Transitions\<close>, \<open>Turn\<close>, \<open>StageStore\<close>,
    \<open>ChildDriver\<close>, \<open>Managed\<close>: the transactions of \<open>tribal-agent-runtime\<close>.
  \<^item> \<open>Coupling\<close>, \<open>Failure\<close>, \<open>ClaimDisposal\<close>, \<open>Sweep\<close>, \<open>DriverLoop\<close>,
    \<open>StageCommit\<close>: the worker.
  \<^item> \<open>Inference\<close>: the errors of providers and how they are retried.
    \<open>ReindexRepo\<close>, \<open>ReindexQueue\<close>, \<open>Reindex\<close>, \<open>ReindexDrive\<close>: embedding profiles,
    reindex runs, their leased batches, the drive cycle of
    \<open>tribal-worker/src/worker/reindex.rs\<close>, cancel and prune.
  \<^item> \<open>Orders\<close>: locales of orders between stores; an order the base statements
    keep is kept by every transaction. \<open>Lockstep\<close>: threads and tasks move
    together. \<open>Coverage\<close>: the active profile covers the corpus.
  \<^item> \<open>Authority\<close>: the abstract machine of profiles and runs; \<open>ReindexSteps\<close>: the
    reindex transactions refine it.
  \<^item> \<open>System\<close>: every transaction as a step, runs, reachable states. \<open>Corpus\<close>: what
    every step keeps. \<open>DriveCycle\<close>: a whole drive cycle, with other transactions
    between its statements, is a run. \<open>Scenario\<close>, \<open>ReindexRun\<close>: concrete runs.
  \<^item> \<open>Guarantees\<close>, \<open>Wakes\<close>, \<open>CorpusGuarantees\<close>, \<open>ReindexTasks\<close>: what holds in every
    run and on every branch.
  \<^item> \<open>Scopes\<close>, \<open>AuthStore\<close>, \<open>Bearer\<close>, \<open>OAuthRules\<close>, \<open>OAuth\<close>: authentication
    (\<open>tribal-auth\<close>, with its scopes and tables), from the grammar of scopes to the three
    endpoints. \<open>AuthSteps\<close>: its operations as steps; \<open>AuthGuarantees\<close>: what holds
    in every run.
  \<^item> \<open>Tools\<close>, \<open>TurnLoop\<close>: the agentic loop of \<open>tribal-agent-runtime\<close>, from the
    reading of the log to the submission. \<open>TurnReplay\<close>: the loop's memory and the
    log stay in step; \<open>TurnProgress\<close>: the measure its iterations lower;
    \<open>TurnGuarantees\<close>: what holds of a run.
  \<^item> \<open>BTree\<close>: \<open>BTreeMap\<close>s as ordered lists. \<open>ConfigSections\<close>, \<open>Connections\<close>,
    \<open>ConfigValidation\<close>, \<open>Processing\<close>: the configuration of \<open>tribal-config\<close> with its
    defaults, the catalogue of provider connections, every validator in the order of
    the code, the processing profiles. \<open>ConfigDoc\<close> (locale \<open>path_store\<close>): dotted paths
    into a document, redaction, reads. \<open>ConfigSchema\<close>: the reload classes.
    \<open>ConfigStore\<close>: single and batched writes of the file. \<open>ConfigAuthority\<close>: the
    guarded reads and writes of \<open>tribal-server/src/management/configuration.rs\<close>, where
    what the file system shows is an argument. \<open>ConfigGuarantees\<close>: what holds of them.

  Bounds. A loop that may run as long as there is work takes its number of
  rounds (\<open>process_tasks\<close>); what is proved of it holds for any number. The cutover
  makes at most the 1024 passes of the code. Counts have the widths of their
  columns.

  Not modelled. Network clients, SQL drivers, telemetry and the terminal interface
  are input and output. Digests, Base64, URL parsing, HTML rendering and embedding
  vectors belong to other crates and are parameters. So are the decoder of a
  configuration document, the YAML reader and writer, the cascade that loads a
  configuration, and the parsers of addresses and log filters; a diagnostic
  is its kind and its fields, its text is not rendered.
\<close>

end
